(* ===== verification/Prelude.thy ===== *)
theory Prelude
  imports
    Main
    "HOL-Library.Word"
    "HOL-Library.AList"
    "HOL-Library.Char_ord"
    "HOL-Library.List_Lexorder"
    "HOL-Library.Product_Lexorder"
    "HOL-Library.Option_ord"
    "HOL-Library.Multiset"
begin

text \<open>
  Shared vocabulary of the development: machine integers and their decimal text, results
  with the \<^verbatim>\<open>?\<close> operator, Rust strings as UTF-8 byte lists, and the collections of hints the
  component theories fill.
\<close>

named_theorems map_laws \<open>lookup laws of the stores\<close>
named_theorems keys_kept \<open>distinctness of the keys is preserved\<close>

section \<open>Machine integers\<close>

text \<open>
  Identifiers and versions are \<^verbatim>\<open>i64\<close> or \<^verbatim>\<open>u64\<close>; \<^term>\<open>sint\<close> reads the former. Lengths and
  counts (\<^verbatim>\<open>usize\<close> and counts cast to \<^verbatim>\<open>u64\<close>) are \<^typ>\<open>nat\<close>: they count objects in memory.
\<close>

type_synonym i64 = "64 word"
type_synonym u64 = "64 word"
type_synonym i32 = "32 word"

definition i64_min :: i64 where
  "i64_min = 0x8000000000000000"

definition i64_max :: i64 where
  "i64_max = 0x7FFFFFFFFFFFFFFF"

lemma sint_i64_min [simp]: "sint i64_min = - (2 ^ 63)"
  by (simp add: i64_min_def)

lemma sint_i64_max [simp]: "sint i64_max = 2 ^ 63 - 1"
  by (simp add: i64_max_def)

lemma sint_i64_ge: "- (2 ^ 63) \<le> sint (x :: i64)"
  using sint_range_size [of x] by (simp add: word_size)

lemma sint_i64_le: "sint (x :: i64) \<le> 2 ^ 63 - 1"
  using sint_range_size [of x] by (simp add: word_size)

lemma sint_i64_eq_iff [simp]: "sint (x :: i64) = sint y \<longleftrightarrow> x = y"
  using signed_word_eqI [of x y] by auto

text \<open>\<^verbatim>\<open>i64::try_from(u64)\<close>: an error above \<^verbatim>\<open>i64::MAX\<close>.\<close>

definition i64_try_from :: "u64 \<Rightarrow> i64 option" where
  "i64_try_from x = (if x \<le> i64_max then Some x else None)"

text \<open>Decimal rendering, as \<^verbatim>\<open>to_string\<close> gives it for integers.\<close>

definition digit_char :: "nat \<Rightarrow> char" where
  "digit_char d = char_of (48 + d)"

fun nat_text :: "nat \<Rightarrow> string" where
  "nat_text n = (if n < 10 then [digit_char n] else nat_text (n div 10) @ [digit_char (n mod 10)])"

declare nat_text.simps [simp del]

definition u64_text :: "u64 \<Rightarrow> string" where
  "u64_text x = nat_text (unat x)"

definition i64_text :: "i64 \<Rightarrow> string" where
  "i64_text x = (if sint x < 0 then CHR ''-'' # nat_text (nat (- sint x)) else nat_text (nat (sint x)))"

section \<open>Results\<close>

text \<open>The \<^verbatim>\<open>?\<close> operator on a \<^verbatim>\<open>Result\<close>: an error ends the function, a value is passed on.\<close>

definition and_then :: "'e + 'a \<Rightarrow> ('a \<Rightarrow> 'e + 'b) \<Rightarrow> 'e + 'b" where
  "and_then r f = (case r of Inl e \<Rightarrow> Inl e | Inr x \<Rightarrow> f x)"

lemma and_then_simps [simp]: "and_then (Inl e) f = Inl e" "and_then (Inr x) f = f x"
  by (simp_all add: and_then_def)

lemma and_then_cong [fundef_cong]:
  "r = r' \<Longrightarrow> (\<And>x. r' = Inr x \<Longrightarrow> f x = g x) \<Longrightarrow> and_then r f = and_then r' g"
  by (simp add: and_then_def split: sum.split)

lemma and_then_Inr: "and_then r f = Inr y \<longleftrightarrow> (\<exists>x. r = Inr x \<and> f x = Inr y)"
  by (auto simp: and_then_def split: sum.split)

lemma and_then_Inl: "and_then r f = Inl e \<longleftrightarrow> r = Inl e \<or> (\<exists>x. r = Inr x \<and> f x = Inl e)"
  by (auto simp: and_then_def split: sum.split)

lemma and_then_unit: "and_then r (\<lambda>_. k) = Inr y \<longleftrightarrow> r = Inr () \<and> k = Inr y"
  by (simp add: and_then_Inr)

text \<open>An early return of an error behind a guard.\<close>

lemma guard_Inr: "(if b then Inl e else r) = Inr x \<longleftrightarrow> \<not> b \<and> r = Inr x"
  by simp

lemma guard_Inl: "(if b then Inl e else r) = Inl e' \<longleftrightarrow> (b \<and> e = e') \<or> (\<not> b \<and> r = Inl e')"
  by simp

text \<open>\<^verbatim>\<open>iter().map(f).collect::<Result<Vec<_>, _>>()\<close>: the first error wins.\<close>

fun collect_results :: "('a \<Rightarrow> 'e + 'b) \<Rightarrow> 'a list \<Rightarrow> 'e + 'b list" where
  "collect_results f [] = Inr []"
| "collect_results f (x # xs) =
     and_then (f x) (\<lambda>y. and_then (collect_results f xs) (\<lambda>ys. Inr (y # ys)))"

lemma collect_results_Inr: "collect_results f xs = Inr ys \<longleftrightarrow> list_all2 (\<lambda>x y. f x = Inr y) xs ys"
  by (induction xs arbitrary: ys) (auto simp: and_then_Inr list_all2_Cons1)

lemma collect_results_cong [fundef_cong]:
  "xs = ys \<Longrightarrow> (\<And>x. x \<in> set ys \<Longrightarrow> f x = g x) \<Longrightarrow> collect_results f xs = collect_results g ys"
  by (induction ys arbitrary: xs) auto

lemma collect_results_ok: "(\<exists>ys. collect_results f xs = Inr ys) \<longleftrightarrow> list_all (\<lambda>x. \<exists>y. f x = Inr y) xs"
  by (induction xs) (auto simp: and_then_Inr)

section \<open>Strings\<close>

text \<open>
  A Rust \<^verbatim>\<open>String\<close> is the list of its UTF-8 bytes, so equality, \<^verbatim>\<open>Ord\<close> (bytewise), \<^verbatim>\<open>len\<close> and
  substring search are those of \<^typ>\<open>string\<close>. \<^verbatim>\<open>str::trim\<close> removes the code points with the
  Unicode property White\_Space; each is listed by its UTF-8 encoding.
\<close>

definition white_space :: "string list" where
  "white_space =
     [[CHR 0x09], [CHR 0x0A], [CHR 0x0B],
      [CHR 0x0C], [CHR 0x0D], [CHR 0x20],
      [CHR 0xC2, CHR 0x85], [CHR 0xC2, CHR 0xA0], [CHR 0xE1, CHR 0x9A, CHR 0x80],
      [CHR 0xE2, CHR 0x80, CHR 0x80], [CHR 0xE2, CHR 0x80, CHR 0x81], [CHR 0xE2, CHR 0x80, CHR 0x82],
      [CHR 0xE2, CHR 0x80, CHR 0x83], [CHR 0xE2, CHR 0x80, CHR 0x84], [CHR 0xE2, CHR 0x80, CHR 0x85],
      [CHR 0xE2, CHR 0x80, CHR 0x86], [CHR 0xE2, CHR 0x80, CHR 0x87], [CHR 0xE2, CHR 0x80, CHR 0x88],
      [CHR 0xE2, CHR 0x80, CHR 0x89], [CHR 0xE2, CHR 0x80, CHR 0x8A], [CHR 0xE2, CHR 0x80, CHR 0xA8],
      [CHR 0xE2, CHR 0x80, CHR 0xA9], [CHR 0xE2, CHR 0x80, CHR 0xAF], [CHR 0xE2, CHR 0x81, CHR 0x9F],
      [CHR 0xE3, CHR 0x80, CHR 0x80]]"

fun strip_prefix :: "string \<Rightarrow> string \<Rightarrow> string option" where
  "strip_prefix [] s = Some s"
| "strip_prefix (p # ps) [] = None"
| "strip_prefix (p # ps) (c # cs) = (if p = c then strip_prefix ps cs else None)"

fun strip_any :: "string list \<Rightarrow> string \<Rightarrow> string option" where
  "strip_any [] s = None"
| "strip_any (p # ps) s =
     (case strip_prefix p s of Some r \<Rightarrow> Some r | None \<Rightarrow> strip_any ps s)"

lemma strip_prefix_eq: "strip_prefix p s = Some r \<longleftrightarrow> s = p @ r"
  by (induction p s rule: strip_prefix.induct) auto

lemma strip_any_split:
  "strip_any ps s = Some r \<Longrightarrow> \<exists>p \<in> set ps. s = p @ r"
  by (induction ps) (auto simp: strip_prefix_eq split: option.splits)

lemma strip_any_shorter:
  assumes "strip_any ps s = Some r" and "[] \<notin> set ps"
  shows "length r < length s"
  using strip_any_split [OF assms(1)] assms(2) by (metis length_append length_greater_0_conv less_add_same_cancel2)

lemma white_space_nonempty: "[] \<notin> set white_space"
  by (simp add: white_space_def)

lemma rev_white_space_nonempty: "[] \<notin> set (map rev white_space)"
  by (simp add: white_space_def)

function strip_all :: "string list \<Rightarrow> string \<Rightarrow> string" where
  "strip_all ps s =
     (if [] \<in> set ps then s
      else case strip_any ps s of None \<Rightarrow> s | Some r \<Rightarrow> strip_all ps r)"
  by pat_completeness auto
termination
  by (relation "measure (\<lambda>(ps, s). length s)") (auto dest: strip_any_shorter)

declare strip_all.simps [simp del]

definition trim_start :: "string \<Rightarrow> string" where
  "trim_start s = strip_all white_space s"

definition trim_end :: "string \<Rightarrow> string" where
  "trim_end s = rev (strip_all (map rev white_space) (rev s))"

definition trim :: "string \<Rightarrow> string" where
  "trim s = trim_end (trim_start s)"

definition is_blank :: "string \<Rightarrow> bool" where
  "is_blank s \<longleftrightarrow> trim s = []"

lemma is_blank_Nil [simp]: "is_blank []"
  by (simp add: is_blank_def trim_def trim_start_def trim_end_def strip_all.simps
        white_space_def)

text \<open>\<^verbatim>\<open>str::starts_with\<close> and \<^verbatim>\<open>str::contains\<close>.\<close>

definition starts_with :: "string \<Rightarrow> string \<Rightarrow> bool" where
  "starts_with s p \<longleftrightarrow> take (length p) s = p"

fun contains_text :: "string \<Rightarrow> string \<Rightarrow> bool" where
  "contains_text [] p \<longleftrightarrow> p = []"
| "contains_text (c # cs) p \<longleftrightarrow> starts_with (c # cs) p \<or> contains_text cs p"

lemma starts_with_iff: "starts_with s p \<longleftrightarrow> (\<exists>r. s = p @ r)"
proof
  assume "starts_with s p"
  then have "s = p @ drop (length p) s"
    unfolding starts_with_def by (metis append_take_drop_id)
  then show "\<exists>r. s = p @ r" ..
qed (auto simp: starts_with_def)

lemma contains_text_iff: "contains_text s p \<longleftrightarrow> (\<exists>l r. s = l @ p @ r)"
proof (induction s)
  case Nil
  then show ?case by auto
next
  case (Cons c cs)
  have "(\<exists>l r. c # cs = l @ p @ r) \<longleftrightarrow> (\<exists>r. c # cs = p @ r) \<or> (\<exists>l r. cs = l @ p @ r)"
    by (metis append_Cons append_Nil list.exhaust list.inject)
  then show ?case by (simp add: Cons.IH starts_with_iff)
qed

lemma contains_text_Nil [simp]: "contains_text s []"
  by (cases s) (simp_all add: starts_with_def)

text \<open>\<^verbatim>\<open>to_ascii_lowercase\<close>.\<close>

definition ascii_lower_char :: "char \<Rightarrow> char" where
  "ascii_lower_char c =
     (let n = of_char c :: nat in if 65 \<le> n \<and> n \<le> 90 then char_of (n + 32) else c)"

definition ascii_lower :: "string \<Rightarrow> string" where
  "ascii_lower s = map ascii_lower_char s"

text \<open>\<^verbatim>\<open>[..].join(sep)\<close>.\<close>

fun join_text :: "string \<Rightarrow> string list \<Rightarrow> string" where
  "join_text sep [] = []"
| "join_text sep [x] = x"
| "join_text sep (x # y # ys) = x @ sep @ join_text sep (y # ys)"

end
