(* ===== verification/Stores.thy ===== *)
theory Stores
  imports Prelude
begin

text \<open>
  The containers the code keeps its state in. \<^verbatim>\<open>HashMap\<close> is an association list with
  distinct keys whose order is the (unspecified) iteration order; \<^verbatim>\<open>BTreeMap\<close> and
  \<^verbatim>\<open>BTreeSet\<close> are strictly sorted lists. The locale \<^verbatim>\<open>kv_store\<close> is the contract both maps
  meet, and clients count, filter and frame through its lemmas.
\<close>

section \<open>The key-value contract\<close>

locale kv_store =
  fixes empty :: 'm
    and get :: "'m \<Rightarrow> 'k \<Rightarrow> 'v option"
    and put :: "'k \<Rightarrow> 'v \<Rightarrow> 'm \<Rightarrow> 'm"
    and ok :: "'m \<Rightarrow> bool"
  assumes get_empty: "get empty k = None"
    and get_put: "ok m \<Longrightarrow> get (put k v m) k' = (if k' = k then Some v else get m k')"
    and ok_empty: "ok empty"
    and ok_put: "ok m \<Longrightarrow> ok (put k v m)"
begin

lemma get_put_same: "ok m \<Longrightarrow> get (put k v m) k = Some v"
  by (simp add: get_put)

lemma get_put_other: "ok m \<Longrightarrow> k' \<noteq> k \<Longrightarrow> get (put k v m) k' = get m k'"
  by (simp add: get_put)

lemma get_put_dom: "ok m \<Longrightarrow> {x. get (put k v m) x \<noteq> None} = insert k {x. get m x \<noteq> None}"
  by (auto simp: get_put)

lemma put_put_get: "ok m \<Longrightarrow> get (put k w (put k v m)) = get (put k w m)"
  by (auto simp: fun_eq_iff get_put ok_put)

end

section \<open>HashMap\<close>

type_synonym ('k, 'v) hmap = "('k \<times> 'v) list"

definition hm_ok :: "('k, 'v) hmap \<Rightarrow> bool" where
  "hm_ok m \<longleftrightarrow> distinct (map fst m)"

definition hm_get :: "('k, 'v) hmap \<Rightarrow> 'k \<Rightarrow> 'v option" where
  "hm_get m k = map_of m k"

definition hm_insert :: "'k \<Rightarrow> 'v \<Rightarrow> ('k, 'v) hmap \<Rightarrow> ('k, 'v) hmap" where
  "hm_insert k v m = AList.update k v m"

text \<open>\<^verbatim>\<open>get_mut\<close> followed by a write through the reference.\<close>

definition hm_modify :: "'k \<Rightarrow> ('v \<Rightarrow> 'v) \<Rightarrow> ('k, 'v) hmap \<Rightarrow> ('k, 'v) hmap" where
  "hm_modify k f m = AList.map_entry k f m"

definition hm_contains :: "('k, 'v) hmap \<Rightarrow> 'k \<Rightarrow> bool" where
  "hm_contains m k \<longleftrightarrow> hm_get m k \<noteq> None"

text \<open>\<^verbatim>\<open>remove(&k)\<close>.\<close>

definition hm_remove :: "'k \<Rightarrow> ('k, 'v) hmap \<Rightarrow> ('k, 'v) hmap" where
  "hm_remove k m = AList.delete k m"

text \<open>\<^verbatim>\<open>iter().filter(..).count()\<close>.\<close>

definition hm_count :: "('k \<Rightarrow> 'v \<Rightarrow> bool) \<Rightarrow> ('k, 'v) hmap \<Rightarrow> nat" where
  "hm_count P m = length (filter (\<lambda>(k, v). P k v) m)"

lemma hm_ok_Nil [simp]: "hm_ok []"
  by (simp add: hm_ok_def)

lemma hm_get_Nil [simp]: "hm_get [] k = None"
  by (simp add: hm_get_def)

lemma hm_get_insert [simp, map_laws]:
  "hm_get (hm_insert k v m) k' = (if k' = k then Some v else hm_get m k')"
  by (simp add: hm_get_def hm_insert_def update_conv')

lemma hm_get_modify [simp, map_laws]:
  "hm_get (hm_modify k f m) k' = (if k' = k then map_option f (hm_get m k) else hm_get m k')"
  by (cases "map_of m k") (auto simp: hm_get_def hm_modify_def map_of_map_entry)

lemma hm_ok_insert [simp, keys_kept]: "hm_ok m \<Longrightarrow> hm_ok (hm_insert k v m)"
  by (simp add: hm_ok_def hm_insert_def distinct_update)

lemma keys_modify: "map fst (hm_modify k f m) = map fst m"
  unfolding hm_modify_def by (induction m) auto

lemma hm_ok_modify [simp, keys_kept]: "hm_ok (hm_modify k f m) \<longleftrightarrow> hm_ok m"
  by (simp add: hm_ok_def keys_modify)

lemma hm_get_remove [simp, map_laws]: "hm_get (hm_remove k m) k' = (if k' = k then None else hm_get m k')"
  by (simp add: hm_get_def hm_remove_def delete_conv')

lemma hm_ok_remove [simp, keys_kept]: "hm_ok m \<Longrightarrow> hm_ok (hm_remove k m)"
  by (simp add: hm_ok_def hm_remove_def distinct_delete)

lemma hm_get_in: "hm_ok m \<Longrightarrow> hm_get m k = Some v \<longleftrightarrow> (k, v) \<in> set m"
  by (simp add: hm_get_def hm_ok_def)

lemma hm_contains_keys: "hm_contains m k \<longleftrightarrow> k \<in> fst ` set m"
  by (simp add: hm_contains_def hm_get_def map_of_eq_None_iff)

interpretation hm: kv_store "[]" hm_get hm_insert hm_ok
  by unfold_locales auto

subsection \<open>Counting\<close>

lemma hm_count_Nil [simp]: "hm_count P [] = 0"
  by (simp add: hm_count_def)

lemma hm_count_Cons [simp]:
  "hm_count P ((k, v) # m) = (if P k v then Suc (hm_count P m) else hm_count P m)"
  by (simp add: hm_count_def)

lemma hm_count_card:
  assumes "hm_ok m"
  shows "hm_count P m = card {k. \<exists>v. hm_get m k = Some v \<and> P k v}"
proof -
  have d: "distinct (map fst (filter (\<lambda>(k, v). P k v) m))"
    using assms by (simp add: hm_ok_def distinct_map_filter)
  have "hm_count P m = card (set (map fst (filter (\<lambda>(k, v). P k v) m)))"
    using distinct_card [OF d] by (simp add: hm_count_def)
  also have "set (map fst (filter (\<lambda>(k, v). P k v) m)) = {k. \<exists>v. hm_get m k = Some v \<and> P k v}"
    using hm_get_in [OF assms] by force
  finally show ?thesis .
qed

text \<open>The count does not depend on the iteration order.\<close>

lemma hm_count_order:
  assumes "hm_ok m" and "hm_ok m'" and "hm_get m = hm_get m'"
  shows "hm_count P m = hm_count P m'"
  using assms by (simp add: hm_count_card)

lemma finite_hm_keys: "finite {k. \<exists>v. hm_get m k = Some v \<and> P k v}"
proof (rule finite_subset)
  show "{k. \<exists>v. hm_get m k = Some v \<and> P k v} \<subseteq> fst ` set m"
    by (force simp: hm_get_def dest: map_of_SomeD)
qed simp

lemma card_point:
  assumes "finite S"
  shows "card S = card (S - {k}) + (if k \<in> S then 1 else 0)"
    and "card (insert k (S - {k})) = card (S - {k}) + 1"
  using assms card_Suc_Diff1 [of S k] by (auto simp: card_insert_disjoint simp del: insert_Diff_single)

lemma hm_count_insert:
  assumes "hm_ok m"
  shows "hm_count P (hm_insert k v m) +
      (case hm_get m k of Some w \<Rightarrow> if P k w then 1 else 0 | None \<Rightarrow> 0) =
    hm_count P m + (if P k v then 1 else 0)"
proof -
  let ?S = "{x. \<exists>w. hm_get m x = Some w \<and> P x w}"
  have eq: "{x. \<exists>w. hm_get (hm_insert k v m) x = Some w \<and> P x w} =
    (if P k v then insert k (?S - {k}) else ?S - {k})"
    by auto
  have old: "(case hm_get m k of Some w \<Rightarrow> if P k w then 1 else 0 | None \<Rightarrow> 0) =
      (if k \<in> ?S then 1 else (0::nat))"
    by (auto split: option.splits)
  have "hm_count P (hm_insert k v m) = card (if P k v then insert k (?S - {k}) else ?S - {k})"
    unfolding eq [symmetric] by (rule hm_count_card) (rule hm_ok_insert [OF assms])
  moreover have "hm_count P m = card ?S"
    by (rule hm_count_card [OF assms])
  ultimately show ?thesis
    unfolding old using card_point [OF finite_hm_keys [of m P], of k] by (auto split: if_splits)
qed

lemma hm_count_modify:
  assumes "hm_ok m" and "hm_get m k = Some v"
  shows "hm_count P (hm_modify k f m) + (if P k v then 1 else 0) =
    hm_count P m + (if P k (f v) then 1 else 0)"
proof -
  let ?S = "{x. \<exists>w. hm_get m x = Some w \<and> P x w}"
  have eq: "{x. \<exists>w. hm_get (hm_modify k f m) x = Some w \<and> P x w} =
    (if P k (f v) then insert k (?S - {k}) else ?S - {k})"
    using assms(2) by auto
  have old: "P k v \<longleftrightarrow> k \<in> ?S"
    using assms(2) by auto
  have "hm_count P (hm_modify k f m) =
      card (if P k (f v) then insert k (?S - {k}) else ?S - {k})"
    unfolding eq [symmetric] by (rule hm_count_card) (simp add: assms(1))
  moreover have "hm_count P m = card ?S"
    by (rule hm_count_card [OF assms(1)])
  ultimately show ?thesis
    unfolding old using card_point [OF finite_hm_keys [of m P], of k] by (auto split: if_splits)
qed

lemma hm_count_0: "hm_count P m = 0 \<longleftrightarrow> (\<forall>(k, v) \<in> set m. \<not> P k v)"
  by (auto simp: hm_count_def filter_empty_conv)

section \<open>BTreeMap\<close>

type_synonym ('k, 'v) bmap = "('k \<times> 'v) list"

definition bm_ok :: "('k::linorder, 'v) bmap \<Rightarrow> bool" where
  "bm_ok m \<longleftrightarrow> sorted (map fst m) \<and> distinct (map fst m)"

definition bm_get :: "('k, 'v) bmap \<Rightarrow> 'k \<Rightarrow> 'v option" where
  "bm_get m k = map_of m k"

fun bm_insert :: "'k::linorder \<Rightarrow> 'v \<Rightarrow> ('k, 'v) bmap \<Rightarrow> ('k, 'v) bmap" where
  "bm_insert k v [] = [(k, v)]"
| "bm_insert k v ((k', v') # m) =
     (if k < k' then (k, v) # (k', v') # m
      else if k = k' then (k, v) # m
      else (k', v') # bm_insert k v m)"

definition bm_contains :: "('k, 'v) bmap \<Rightarrow> 'k \<Rightarrow> bool" where
  "bm_contains m k \<longleftrightarrow> bm_get m k \<noteq> None"

lemma bm_keys_insert: "fst ` set (bm_insert k v m) = insert k (fst ` set m)"
  by (induction k v m rule: bm_insert.induct) auto

lemma bm_get_insert [simp, map_laws]:
  "bm_get (bm_insert k v m) k' = (if k' = k then Some v else bm_get m k')"
  unfolding bm_get_def by (induction k v m rule: bm_insert.induct) auto

lemma bm_ok_insert [simp, keys_kept]: "bm_ok m \<Longrightarrow> bm_ok (bm_insert k v m)"
  unfolding bm_ok_def
proof (induction k v m rule: bm_insert.induct)
  case (2 k v k' v' m)
  then show ?case
    by (auto simp: bm_keys_insert [unfolded image_set [symmetric]] simp flip: image_set)
qed simp

interpretation bm: kv_store "[]" bm_get bm_insert bm_ok
  by unfold_locales (auto simp: bm_get_def bm_ok_def bm_ok_insert [unfolded bm_ok_def]
      bm_get_insert [unfolded bm_get_def])

section \<open>BTreeSet\<close>

definition bs_ok :: "'a::linorder list \<Rightarrow> bool" where
  "bs_ok s \<longleftrightarrow> sorted s \<and> distinct s"

definition bs_insert :: "'a::linorder \<Rightarrow> 'a list \<Rightarrow> 'a list" where
  "bs_insert x s = List.insort_insert x s"

lemma bs_ok_Nil [simp]: "bs_ok []"
  by (simp add: bs_ok_def)

lemma set_bs_insert [simp, map_laws]: "set (bs_insert x s) = insert x (set s)"
  by (simp add: bs_insert_def set_insort_insert)

lemma bs_ok_insert [simp, keys_kept]: "bs_ok s \<Longrightarrow> bs_ok (bs_insert x s)"
  by (simp add: bs_ok_def bs_insert_def sorted_insort_insert distinct_insort_insert)

definition bs_remove :: "'a::linorder \<Rightarrow> 'a list \<Rightarrow> 'a list" where
  "bs_remove x s = remove1 x s"

lemma set_bs_remove [simp, map_laws]: "bs_ok s \<Longrightarrow> set (bs_remove x s) = set s - {x}"
  by (simp add: bs_remove_def bs_ok_def set_remove1_eq)

lemma bs_ok_remove [simp, keys_kept]: "bs_ok s \<Longrightarrow> bs_ok (bs_remove x s)"
  by (simp add: bs_remove_def bs_ok_def sorted_remove1)

lemma bs_first_least: "bs_ok (x # s) \<Longrightarrow> y \<in> set s \<Longrightarrow> x < y"
  by (auto simp: bs_ok_def order_le_less)

section \<open>Sizes of maps\<close>

lemma hm_length_card: "hm_ok m \<Longrightarrow> length m = card {k. hm_get m k \<noteq> None}"
  using hm_count_card [of m "\<lambda>_ _. True"] by (simp add: hm_count_def)

lemma hm_length_insert:
  "hm_ok m \<Longrightarrow> length (hm_insert k v m) = (if hm_get m k = None then Suc (length m) else length m)"
  using hm_count_insert [of m "\<lambda>_ _. True" k v] by (auto simp: hm_count_def split: option.splits)

lemma hm_length_remove:
  "hm_ok m \<Longrightarrow> length (hm_remove k m) = (if hm_get m k = None then length m else length m - 1)"
proof (induction m)
  case (Cons p m)
  obtain j w where p: "p = (j, w)" by fastforce
  have "k \<notin> fst ` set m \<Longrightarrow> AList.delete k m = m" for m :: "('a, 'b) hmap"
    by (rule delete_id) simp
  moreover have "hm_get m k \<noteq> None \<Longrightarrow> 0 < length m"
    by (auto simp: hm_get_def)
  ultimately show ?case
    using Cons by (auto simp: p hm_ok_def hm_remove_def hm_get_def)
qed (simp add: hm_remove_def)

section \<open>Descending sort keys\<close>

text \<open>\<^verbatim>\<open>Reverse\<close>: a comparison with its arguments swapped.\<close>

datatype 'a desc = Desc (undesc: 'a)

instantiation desc :: (linorder) linorder
begin

definition less_eq_desc :: "'a desc \<Rightarrow> 'a desc \<Rightarrow> bool" where
  "less_eq_desc x y \<longleftrightarrow> undesc y \<le> undesc x"

definition less_desc :: "'a desc \<Rightarrow> 'a desc \<Rightarrow> bool" where
  "less_desc x y \<longleftrightarrow> undesc y < undesc x"

instance
  by standard (auto simp: less_eq_desc_def less_desc_def desc.expand)

end

lemma Desc_le [simp]: "Desc x \<le> Desc y \<longleftrightarrow> y \<le> x"
  by (simp add: less_eq_desc_def)

lemma Desc_less [simp]: "Desc x < Desc y \<longleftrightarrow> y < x"
  by (simp add: less_desc_def)

section \<open>Sorting and truncating a scan\<close>

text \<open>
  The stores scan a map, sort the matches and cut them to a limit. When the sort key
  determines the element, the outcome does not depend on the iteration order.
\<close>

definition top_by :: "('a \<Rightarrow> 'b::linorder) \<Rightarrow> nat \<Rightarrow> 'a list \<Rightarrow> 'a list" where
  "top_by f n xs = take n (sort_key f xs)"

lemma set_top_by: "set (top_by f n xs) \<subseteq> set xs"
  using set_take_subset [of n "sort_key f xs"] by (simp add: top_by_def)

lemma length_top_by: "length (top_by f n xs) = min (length xs) n"
  by (simp add: top_by_def)

lemma sorted_top_by: "sorted (map f (top_by f n xs))"
  by (simp add: top_by_def sorted_wrt_take flip: take_map)

lemma top_by_all: "length xs \<le> n \<Longrightarrow> set (top_by f n xs) = set xs"
  by (simp add: top_by_def)

text \<open>What the cut drops ranks after everything that is kept.\<close>

lemma top_by_dropped:
  assumes "x \<in> set xs" and "x \<notin> set (top_by f n xs)" and "y \<in> set (top_by f n xs)"
  shows "f y \<le> f x"
proof -
  let ?s = "sort_key f xs"
  have "x \<in> set (drop n ?s)"
    using assms(1,2) append_take_drop_id [of n ?s] set_append [of "take n ?s" "drop n ?s"]
    by (auto simp: top_by_def)
  moreover have "sorted (map f (take n ?s) @ map f (drop n ?s))"
    by (simp flip: map_append)
  ultimately show ?thesis
    using assms(3) by (auto simp: sorted_append top_by_def)
qed

lemma top_by_order:
  assumes "mset xs = mset ys" and "inj_on f (set xs)"
  shows "top_by f n xs = top_by f n ys"
  by (simp add: top_by_def sort_key_eq_sort_key [OF assms])

text \<open>Two scans of the same map see the same pairs.\<close>

lemma hm_same_set:
  assumes "hm_ok m" and "hm_ok m'" and "hm_get m = hm_get m'"
  shows "set m = set m'"
  using assms by (auto simp flip: hm_get_in)

lemma hm_same_mset:
  assumes "hm_ok m" and "hm_ok m'" and "hm_get m = hm_get m'"
  shows "mset m = mset m'"
  using assms hm_same_set [OF assms]
  by (simp add: hm_ok_def distinct_map set_eq_iff_mset_eq_distinct)

end
