(* ===== verification/F64.thy ===== *)
theory F64
  imports Prelude
begin

text \<open>
  IEEE-754 binary64 as the code uses it: comparison, \<^verbatim>\<open>f64::max\<close>, subtraction and
  \<^verbatim>\<open>str::parse::<f64>\<close>. Every finite double is an integer multiple of \<open>2 ^ -1074\<close>, so a
  finite value is a sign and a magnitude in that unit; \<open>f64_ok\<close> says which magnitudes
  have a 53-bit significand below the overflow threshold. Rounding is to nearest, ties to
  even, and the lemmas show that results are representable and that rounding is monotone.
\<close>

datatype f64 = F64Fin bool nat | F64Inf bool | F64NaN

abbreviation f64_zero :: f64 where
  "f64_zero \<equiv> F64Fin False 0"

definition f64_one :: f64 where
  "f64_one = F64Fin False (2 ^ 1074)"

section \<open>Significand width and rounding\<close>

fun bit_len :: "nat \<Rightarrow> nat" where
  "bit_len n = (if n = 0 then 0 else Suc (bit_len (n div 2)))"

declare bit_len.simps [simp del]

lemma bit_len_0 [simp]: "bit_len 0 = 0"
  by (simp add: bit_len.simps)

lemma bit_len_upper: "n < 2 ^ bit_len n"
proof (induction n rule: bit_len.induct)
  case (1 n)
  then show ?case
    by (cases "n = 0") (auto simp: bit_len.simps [of n])
qed

lemma bit_len_le: "n < 2 ^ k \<Longrightarrow> bit_len n \<le> k"
proof (induction k arbitrary: n)
  case 0
  then show ?case by simp
next
  case (Suc k)
  then show ?case
    by (cases "n = 0") (auto simp: bit_len.simps [of n])
qed

lemma bit_len_mono: "m \<le> n \<Longrightarrow> bit_len m \<le> bit_len n"
  using bit_len_le bit_len_upper order_le_less_trans by blast

definition round_even_div :: "nat \<Rightarrow> nat \<Rightarrow> nat" where
  "round_even_div n d =
     (let q = n div d; r = n mod d
      in if 2 * r < d \<or> (2 * r = d \<and> even q) then q else Suc q)"

text \<open>The representable magnitude nearest to \<open>n / d\<close>.\<close>

definition round_ratio :: "nat \<Rightarrow> nat \<Rightarrow> nat" where
  "round_ratio n d =
     (let s = bit_len (n div d) - 53 in round_even_div n (d * 2 ^ s) * 2 ^ s)"

definition f64_limit :: nat where
  "f64_limit = 2 ^ 2098"

definition f64_round :: "bool \<Rightarrow> nat \<Rightarrow> nat \<Rightarrow> f64" where
  "f64_round neg n d =
     (let m = round_ratio n d in if f64_limit \<le> m then F64Inf neg else F64Fin neg m)"

definition mag_ok :: "nat \<Rightarrow> bool" where
  "mag_ok m \<longleftrightarrow> m < f64_limit \<and> 2 ^ (bit_len m - 53) dvd m"

fun f64_ok :: "f64 \<Rightarrow> bool" where
  "f64_ok (F64Fin s m) = mag_ok m"
| "f64_ok _ = True"

lemma round_even_div_le:
  assumes "n \<le> k * d" and "0 < d"
  shows "round_even_div n d \<le> k"
proof (cases "n mod d = 0")
  case True
  then have "round_even_div n d = n div d"
    using assms(2) by (simp add: round_even_div_def Let_def)
  then show ?thesis
    using assms by (metis div_le_mono nonzero_mult_div_cancel_right not_gr0)
next
  case False
  have "n div d \<le> k"
    using assms by (metis div_le_mono nonzero_mult_div_cancel_right not_gr0)
  moreover have "n div d \<noteq> k"
    using False assms by (metis add_cancel_left_right div_mod_decomp le_add1 le_antisym)
  ultimately show ?thesis
    by (simp add: round_even_div_def Let_def)
qed

lemma round_even_div_ge:
  assumes "k * d \<le> n" and "0 < d"
  shows "k \<le> round_even_div n d"
proof -
  have "k \<le> n div d"
    using assms by (simp add: less_eq_div_iff_mult_less_eq)
  then show ?thesis by (auto simp: round_even_div_def Let_def)
qed

lemma round_ratio_le:
  assumes "n \<le> m" and "mag_ok m"
  shows "round_ratio n 1 \<le> m"
proof -
  let ?s = "bit_len n - 53"
  have "2 ^ ?s dvd (2::nat) ^ (bit_len m - 53)"
    using bit_len_mono [OF assms(1)] by (simp add: le_imp_power_dvd diff_le_mono)
  then have "2 ^ ?s dvd m"
    using assms(2) dvd_trans unfolding mag_ok_def by blast
  then obtain k where k: "m = k * 2 ^ ?s"
    by (metis dvdE mult.commute)
  then have "round_even_div n (2 ^ ?s) \<le> k"
    using assms(1) by (intro round_even_div_le) auto
  then show ?thesis by (simp add: round_ratio_def Let_def k)
qed

lemma round_ratio_exact: "mag_ok m \<Longrightarrow> round_ratio m 1 = m"
  by (auto simp: round_ratio_def mag_ok_def round_even_div_def Let_def)

lemma round_ratio_ok:
  assumes "0 < d"
  shows "2 ^ (bit_len (round_ratio n d) - 53) dvd round_ratio n d"
proof -
  let ?s = "bit_len (n div d) - 53"
  let ?q = "round_even_div n (d * 2 ^ ?s)"
  have "n div d < 2 ^ bit_len (n div d)" by (rule bit_len_upper)
  also have "\<dots> \<le> 2 ^ (53 + ?s)" by (rule power_increasing) auto
  finally have "n < 2 ^ (53 + ?s) * d"
    using assms by (simp add: div_less_iff_less_mult)
  then have q: "?q \<le> 2 ^ 53"
    using assms by (intro round_even_div_le) (auto simp: power_add ac_simps)
  have eq: "round_ratio n d = ?q * 2 ^ ?s" by (simp add: round_ratio_def Let_def)
  show ?thesis
  proof (cases "?q = 2 ^ 53")
    case True
    have "bit_len (?q * 2 ^ ?s) \<le> Suc (53 + ?s)"
      by (rule bit_len_le) (simp add: True power_add)
    then have "(2::nat) ^ (bit_len (?q * 2 ^ ?s) - 53) dvd 2 ^ (53 + ?s)"
      by (intro le_imp_power_dvd) arith
    then show ?thesis by (simp add: eq True power_add)
  next
    case False
    with q have "?q < 2 ^ 53" by simp
    then have "bit_len (?q * 2 ^ ?s) \<le> 53 + ?s"
      by (intro bit_len_le) (simp add: power_add)
    then have "(2::nat) ^ (bit_len (?q * 2 ^ ?s) - 53) dvd 2 ^ ?s"
      by (intro le_imp_power_dvd) arith
    then show ?thesis unfolding eq by (rule dvd_mult)
  qed
qed

lemma f64_round_ok: "0 < d \<Longrightarrow> f64_ok (f64_round neg n d)"
  using round_ratio_ok [of d n] by (auto simp: f64_round_def Let_def mag_ok_def)

section \<open>Comparison, maximum, subtraction\<close>

fun f64_int :: "bool \<Rightarrow> nat \<Rightarrow> int" where
  "f64_int s m = (if s then - int m else int m)"

fun f64_lt :: "f64 \<Rightarrow> f64 \<Rightarrow> bool" where
  "f64_lt (F64Fin s m) (F64Fin t n) = (f64_int s m < f64_int t n)"
| "f64_lt (F64Fin s m) (F64Inf t) = (\<not> t)"
| "f64_lt (F64Inf s) (F64Fin t n) = s"
| "f64_lt (F64Inf s) (F64Inf t) = (s \<and> \<not> t)"
| "f64_lt F64NaN y = False"
| "f64_lt x F64NaN = False"

fun f64_le :: "f64 \<Rightarrow> f64 \<Rightarrow> bool" where
  "f64_le (F64Fin s m) (F64Fin t n) = (f64_int s m \<le> f64_int t n)"
| "f64_le (F64Fin s m) (F64Inf t) = (\<not> t)"
| "f64_le (F64Inf s) (F64Fin t n) = s"
| "f64_le (F64Inf s) (F64Inf t) = (s \<or> \<not> t)"
| "f64_le F64NaN y = False"
| "f64_le x F64NaN = False"

fun f64_finite :: "f64 \<Rightarrow> bool" where
  "f64_finite (F64Fin s m) = True"
| "f64_finite _ = False"

text \<open>\<^verbatim>\<open>f64::max\<close>: the other operand when one is NaN.\<close>

definition f64_max :: "f64 \<Rightarrow> f64 \<Rightarrow> f64" where
  "f64_max x y = (if x = F64NaN then y else if y = F64NaN then x
     else if f64_lt x y then y else x)"

fun f64_sub :: "f64 \<Rightarrow> f64 \<Rightarrow> f64" where
  "f64_sub (F64Fin s m) (F64Fin t n) =
     (let d = f64_int s m - f64_int t n
      in if d = 0 then F64Fin (m = 0 \<and> s \<and> \<not> t) 0
         else f64_round (d < 0) (nat \<bar>d\<bar>) 1)"
| "f64_sub (F64Fin s m) (F64Inf t) = F64Inf (\<not> t)"
| "f64_sub (F64Inf s) (F64Fin t n) = F64Inf s"
| "f64_sub (F64Inf s) (F64Inf t) = (if s = t then F64NaN else F64Inf s)"
| "f64_sub _ _ = F64NaN"

lemma mag_ok_0 [simp]: "mag_ok 0"
  by (simp add: mag_ok_def f64_limit_def)

lemma f64_sub_ok: "f64_ok (f64_sub x y)"
  by (cases "(x, y)" rule: f64_sub.cases) (auto simp: Let_def f64_round_ok)

lemma f64_max_ok: "f64_ok x \<Longrightarrow> f64_ok y \<Longrightarrow> f64_ok (f64_max x y)"
  by (simp add: f64_max_def)

lemma f64_max_zero_nonneg: "f64_le f64_zero (f64_max x f64_zero)"
  by (cases x) (auto simp: f64_max_def)

text \<open>Subtracting a non-negative amount from a representable value never increases it.\<close>

lemma f64_sub_le:
  assumes "f64_ok x" and "f64_le f64_zero x" and "f64_le f64_zero y"
  shows "f64_le (f64_max (f64_sub x y) f64_zero) x"
proof (cases x)
  case (F64Fin s m)
  then have m: "mag_ok m" "s \<longrightarrow> m = 0" using assms by auto
  show ?thesis
  proof (cases y)
    case (F64Fin t n)
    define d where "d = f64_int s m - f64_int t n"
    have n: "t \<longrightarrow> n = 0" using assms(3) F64Fin by auto
    have d: "d = int m - int n" using m(2) n by (auto simp: d_def)
    have sub: "f64_sub x y =
        (if d = 0 then F64Fin (m = 0 \<and> s \<and> \<not> t) 0 else f64_round (d < 0) (nat \<bar>d\<bar>) 1)"
      by (simp add: \<open>x = F64Fin s m\<close> F64Fin d_def Let_def del: f64_int.simps)
    show ?thesis
    proof (cases "0 < d")
      case True
      then have "nat \<bar>d\<bar> \<le> m" using d by simp
      then have r: "round_ratio (nat \<bar>d\<bar>) 1 \<le> m" by (rule round_ratio_le [OF _ m(1)])
      moreover have "m < f64_limit" using m(1) by (simp add: mag_ok_def)
      ultimately have "f64_sub x y = F64Fin False (round_ratio (nat \<bar>d\<bar>) 1)"
        using True by (simp add: sub f64_round_def Let_def)
      moreover have "\<not> s" using True d m(2) by auto
      ultimately show ?thesis
        using r by (simp add: f64_max_def \<open>x = F64Fin s m\<close>)
    next
      case False
      then have "f64_max (f64_sub x y) f64_zero = f64_zero \<or>
          f64_max (f64_sub x y) f64_zero = F64Fin True 0"
        by (auto simp: sub f64_round_def f64_max_def Let_def)
      then show ?thesis
        using m(2) \<open>x = F64Fin s m\<close> by (elim disjE) simp_all
    qed
  qed (use assms m in \<open>auto simp: F64Fin f64_max_def\<close>)
next
  case (F64Inf s)
  then show ?thesis using assms by (cases y) (auto simp: f64_max_def)
qed (use assms in auto)

section \<open>Decimal text\<close>

definition is_digit :: "char \<Rightarrow> bool" where
  "is_digit c \<longleftrightarrow> 48 \<le> (of_char c :: nat) \<and> (of_char c :: nat) \<le> 57"

definition digits_val :: "string \<Rightarrow> nat" where
  "digits_val ds = foldl (\<lambda>a c. 10 * a + (of_char c - 48)) 0 ds"

fun split_sign :: "string \<Rightarrow> bool \<times> string" where
  "split_sign [] = (False, [])"
| "split_sign (c # cs) =
     (if c = CHR ''-'' then (True, cs) else if c = CHR ''+'' then (False, cs)
      else (False, c # cs))"

definition decimal_f64 :: "bool \<Rightarrow> string \<Rightarrow> int \<Rightarrow> f64" where
  "decimal_f64 neg ds e =
     (let n = digits_val ds * 2 ^ 1074
      in if 0 \<le> e then f64_round neg (n * 10 ^ nat e) 1
         else f64_round neg n (10 ^ nat (- e)))"

definition parse_exponent :: "string \<Rightarrow> int option" where
  "parse_exponent s =
     (case s of [] \<Rightarrow> Some 0
      | c # r \<Rightarrow>
          if c = CHR ''e'' \<or> c = CHR ''E'' then
            let (neg, ds) = split_sign r
            in if ds = [] \<or> \<not> list_all is_digit ds then None
               else Some (if neg then - int (digits_val ds) else int (digits_val ds))
          else None)"

definition parse_number :: "bool \<Rightarrow> string \<Rightarrow> f64 option" where
  "parse_number neg s =
     (let ip = takeWhile is_digit s; r = dropWhile is_digit s;
          (fp, r') = (case r of c # t \<Rightarrow>
              if c = CHR ''.'' then (takeWhile is_digit t, dropWhile is_digit t) else ([], r)
            | [] \<Rightarrow> ([], []))
      in if ip = [] \<and> fp = [] then None
         else map_option (\<lambda>e. decimal_f64 neg (ip @ fp) (e - int (length fp)))
                (parse_exponent r'))"

text \<open>\<^verbatim>\<open>str::parse::<f64>\<close>.\<close>

definition f64_parse :: "string \<Rightarrow> f64 option" where
  "f64_parse s =
     (let (neg, r) = split_sign s
      in if ascii_lower r = ''inf'' \<or> ascii_lower r = ''infinity'' then Some (F64Inf neg)
         else if ascii_lower r = ''nan'' then Some F64NaN
         else parse_number neg r)"

lemma decimal_f64_ok: "f64_ok (decimal_f64 neg ds e)"
  by (simp add: decimal_f64_def Let_def f64_round_ok)

lemma f64_parse_ok: "f64_parse s = Some x \<Longrightarrow> f64_ok x"
  by (auto simp: f64_parse_def parse_number_def decimal_f64_ok Let_def
      split: prod.splits if_splits)

end
