(* ===== verification/Spi_Types.thy ===== *)
theory Spi_Types
  imports Stores F64
begin

text \<open>
  The data of the service provider interface (\<^verbatim>\<open>crates/sdkwork-memory-spi/src/ports.rs\<close>
  and \<^verbatim>\<open>error.rs\<close>): one record per struct, one datatype per enum, with the fields of the
  source under a prefix per struct. Strings that the code compares with literals
  (\<^verbatim>\<open>"active"\<close>, \<^verbatim>\<open>"pending"\<close>, ...) stay strings.
\<close>

datatype spi_error =
    ManifestInvalid string
  | DuplicatePluginId string
  | PluginNotFound string
  | RequiredPortMissing string string
  | IdempotencyConflict string
  | PortOperationFailed string string
  | ExecutableRuntimeMissing string
  | DuplicateExecutableRuntime string
  | ExecutablePortMissing string string
  | ExecutablePortAlreadyBound string
  | UnsupportedRuntimePort string
  | ExecutablePortUndeclared string string

section \<open>Scopes\<close>

record scope_context =
  sc_tenant_id :: i64
  sc_space_id :: i64
  sc_organization_id :: "i64 option"
  sc_user_id :: "i64 option"

datatype sensitivity_read_scope = Public | Elevated | Owner

section \<open>Records\<close>

record create_record_command =
  crc_scope :: scope_context
  crc_memory_id :: string
  crc_content :: string

record memory_record =
  mr_memory_id :: string
  mr_content :: string

record canonical_record =
  cr_memory_id :: string
  cr_space_id :: i64
  cr_user_id :: "i64 option"
  cr_scope_label :: string
  cr_memory_type :: string
  cr_subject :: "string option"
  cr_predicate :: "string option"
  cr_object_text :: string
  cr_canonical_text :: string
  cr_confidence :: f64
  cr_evidence_count :: i32
  cr_contradiction_count :: i32
  cr_status :: string
  cr_sensitivity_level :: string
  cr_supersedes_memory_id :: "string option"
  cr_superseded_by_memory_id :: "string option"
  cr_created_at :: string
  cr_updated_at :: string
  cr_version :: i64
  cr_expires_at :: "string option"
  cr_metadata_json :: "string option"

record mutation_journal =
  mj_outbox_id :: string
  mj_aggregate_type :: string
  mj_aggregate_id :: string
  mj_event_type :: string
  mj_event_version :: string
  mj_payload_json :: string
  mj_audit_id :: string
  mj_audit_action :: string
  mj_audit_resource_type :: string
  mj_audit_resource_id :: string
  mj_audit_result :: string

record create_canonical_command =
  cc_scope :: scope_context
  cc_memory_id :: string
  cc_scope_label :: string
  cc_memory_type :: string
  cc_subject :: "string option"
  cc_predicate :: "string option"
  cc_object_text :: string
  cc_canonical_text :: string
  cc_sensitivity_level :: string
  cc_expires_at :: "string option"
  cc_metadata_json :: "string option"
  cc_journal :: mutation_journal

record supersede_command =
  su_scope :: scope_context
  su_old_memory_id :: string
  su_new_memory_id :: string
  su_scope_label :: string
  su_memory_type :: string
  su_subject :: "string option"
  su_predicate :: "string option"
  su_object_text :: string
  su_canonical_text :: string
  su_sensitivity_level :: string
  su_expires_at :: "string option"
  su_metadata_json :: "string option"
  su_created_journal :: mutation_journal
  su_superseded_journal :: mutation_journal

datatype 'a record_admission = Admitted 'a | QuotaExceeded nat nat

record update_canonical_command =
  uc_scope :: scope_context
  uc_memory_id :: string
  uc_canonical_text :: "string option"
  uc_subject :: "string option"
  uc_metadata_json :: "string option"
  uc_journal :: mutation_journal

record delete_canonical_command =
  dc_scope :: scope_context
  dc_memory_id :: string
  dc_journal :: mutation_journal

record delete_all_command =
  da_scope :: scope_context
  da_user_id :: "i64 option"

text \<open>\<^verbatim>\<open>RetrieveMemoryRecordQuery\<close>, \<^verbatim>\<open>RetrieveCanonicalMemoryQuery\<close>, \<^verbatim>\<open>DeleteMemoryRecordCommand\<close>
  and the other queries made of a scope and one identifier.\<close>

record scoped_id_query =
  sq_scope :: scope_context
  sq_id :: string

record deletion_receipt =
  dr_memory_id :: string
  dr_deleted :: bool
  dr_already_deleted :: bool

section \<open>Events, audits, outbox\<close>

record append_event_command =
  ae_scope :: scope_context
  ae_event_id :: string
  ae_content :: string

record memory_event =
  me_event_id :: string
  me_content :: string

record audit_record =
  au_audit_id :: string
  au_action :: string
  au_resource_type :: string
  au_resource_id :: string
  au_result :: string

record append_audit_command =
  aa_scope :: scope_context
  aa_audit_id :: string
  aa_action :: string
  aa_resource_type :: string
  aa_resource_id :: string
  aa_result :: string

record outbox_event =
  ob_outbox_id :: string
  ob_aggregate_type :: string
  ob_aggregate_id :: string
  ob_event_type :: string
  ob_event_version :: string
  ob_payload_json :: string
  ob_publish_state :: string
  ob_published_at :: "string option"
  ob_retry_count :: i64

record append_outbox_command =
  ao_scope :: scope_context
  ao_outbox_id :: string
  ao_aggregate_type :: string
  ao_aggregate_id :: string
  ao_event_type :: string
  ao_event_version :: string
  ao_payload_json :: string

record list_pending_query =
  lp_scope :: scope_context
  lp_limit :: nat

record mark_published_command =
  mp_scope :: scope_context
  mp_outbox_id :: string
  mp_lease_owner :: string
  mp_lease_token :: string

record mark_failed_command =
  mf_scope :: scope_context
  mf_outbox_id :: string
  mf_lease_owner :: string
  mf_lease_token :: string
  mf_max_retries :: nat

section \<open>Candidates\<close>

record create_candidate_command =
  ca_scope :: scope_context
  ca_candidate_id :: string
  ca_candidate_type :: string
  ca_memory_type :: string
  ca_proposed_text :: string
  ca_proposed_payload_json :: "string option"
  ca_evidence_json :: "string option"
  ca_confidence :: f64
  ca_learning_job_uuid :: "string option"

text \<open>\<^verbatim>\<open>ApproveMemoryCandidateCommand\<close> and \<^verbatim>\<open>RejectMemoryCandidateCommand\<close>.\<close>

record decide_candidate_command =
  dd_scope :: scope_context
  dd_candidate_id :: string
  dd_decision_reason :: "string option"
  dd_decided_by :: "i64 option"

record evidence_link =
  el_source_id :: string
  el_event_id :: string
  el_confidence_delta :: "f64 option"

record promote_candidate_command =
  pc_scope :: scope_context
  pc_candidate_id :: string
  pc_memory_id :: string
  pc_memory_type :: string
  pc_proposed_text :: string
  pc_evidence_links :: "evidence_link list"
  pc_decided_by :: "i64 option"

record promote_with_journal_command =
  pj_promotion :: promote_candidate_command
  pj_journal :: mutation_journal

record candidate_promotion =
  cp_candidate_id :: string
  cp_memory_id :: string

record memory_candidate =
  mc_candidate_id :: string
  mc_candidate_type :: string
  mc_memory_type :: string
  mc_proposed_text :: string
  mc_proposed_payload_json :: "string option"
  mc_evidence_json :: "string option"
  mc_confidence :: f64
  mc_decision_state :: string
  mc_decision_reason :: "string option"
  mc_decided_by :: "i64 option"
  mc_decided_at :: "string option"

record candidate_detail_query =
  dq_tenant_id :: i64
  dq_candidate_id :: string

record list_candidates_query =
  lq_tenant_id :: i64
  lq_space_id :: "i64 option"
  lq_page_size :: nat
  lq_cursor :: "string option"

record candidate_summary =
  cs_candidate_id :: string
  cs_space_id :: i64
  cs_candidate_type :: string
  cs_memory_type :: string
  cs_proposed_text :: string
  cs_confidence :: f64
  cs_decision_state :: string
  cs_created_at :: string
  cs_updated_at :: string

record candidate_page =
  pg_items :: "candidate_summary list"
  pg_has_more :: bool
  pg_next_cursor :: "string option"

record candidate_detail =
  cd_candidate_id :: string
  cd_space_id :: i64
  cd_candidate_type :: string
  cd_memory_type :: string
  cd_proposed_text :: string
  cd_evidence_json :: "string option"
  cd_confidence :: f64
  cd_decision_state :: string
  cd_created_at :: string
  cd_updated_at :: string
  cd_target_memory_id :: "string option"

section \<open>Habits and retrieval traces\<close>

record upsert_habit_command =
  uh_scope :: scope_context
  uh_habit_id :: string
  uh_user_id :: i64
  uh_habit_key :: string
  uh_habit_type :: string
  uh_description :: string
  uh_stage :: string
  uh_strength :: f64
  uh_confidence :: f64
  uh_support_count :: i64
  uh_metadata_json :: "string option"

record habit_query =
  hq_scope :: scope_context
  hq_user_id :: i64
  hq_habit_key :: string

record promote_habit_command =
  ph_scope :: scope_context
  ph_user_id :: i64
  ph_habit_key :: string
  ph_promoted_memory_id :: "string option"

record decay_habit_command =
  dh_scope :: scope_context
  dh_user_id :: i64
  dh_habit_key :: string
  dh_strength_delta :: f64

record memory_habit =
  mh_habit_id :: string
  mh_user_id :: i64
  mh_habit_key :: string
  mh_habit_type :: string
  mh_description :: string
  mh_stage :: string
  mh_strength :: f64
  mh_confidence :: f64
  mh_support_count :: i64
  mh_last_signal_at :: "string option"
  mh_promoted_memory_id :: "string option"
  mh_decay_after :: "string option"
  mh_metadata_json :: "string option"

record retrieval_hit =
  rh_hit_id :: string
  rh_memory_id :: "string option"
  rh_space_id :: "i64 option"
  rh_retriever_name :: string
  rh_result_rank :: i64
  rh_raw_score :: "f64 option"
  rh_fused_score :: "f64 option"
  rh_explanation_json :: "string option"
  rh_status :: string

record context_pack_snapshot =
  cx_context_pack_id :: string
  cx_pack_json :: string
  cx_estimated_tokens :: i64
  cx_truncated :: bool

record append_trace_command =
  at_scope :: scope_context
  at_trace_id :: string
  at_actor_id :: "string option"
  at_query_text :: "string option"
  at_query_hash :: string
  at_retrievers_json :: "string option"
  at_latency_ms :: "i64 option"
  at_degraded :: bool
  at_metadata_json :: "string option"
  at_hits :: "retrieval_hit list"
  at_context_pack :: "context_pack_snapshot option"

record retrieval_trace =
  rt_trace_id :: string
  rt_actor_id :: "string option"
  rt_query_text :: "string option"
  rt_query_hash :: string
  rt_retrievers_json :: "string option"
  rt_latency_ms :: "i64 option"
  rt_result_count :: i64
  rt_degraded :: bool
  rt_metadata_json :: "string option"
  rt_hits :: "retrieval_hit list"
  rt_context_pack :: "context_pack_snapshot option"
  rt_created_at :: string
  rt_space_id :: "i64 option"

record tenant_trace_query =
  tq_tenant_id :: i64
  tq_trace_id :: string

record scoped_trace =
  st_scope :: scope_context
  st_trace :: retrieval_trace
  st_created_at :: "string option"

record list_traces_query =
  lt_scope :: scope_context
  lt_limit :: nat

section \<open>Governance and spaces\<close>

definition max_governance_facts :: nat where
  "max_governance_facts = 32"

record governance_actor =
  ga_subject_type :: "string option"
  ga_subject_id :: string

record resolve_governance_query =
  rg_scope :: scope_context
  rg_actor :: "governance_actor option"
  rg_capability_code :: "string option"
  rg_fact_limit :: nat

record space_fact =
  sf_space_id :: i64
  sf_organization_id :: "i64 option"
  sf_owner_subject_type :: string
  sf_owner_subject_id :: string
  sf_lifecycle_status :: string

record actor_binding =
  ab_binding_id :: string
  ab_binding_kind :: string
  ab_binding_role :: string
  ab_status :: string
  ab_valid_from :: "string option"
  ab_valid_to :: "string option"

record capability_binding =
  cb_binding_id :: string
  cb_capability_code :: string
  cb_mode :: string
  cb_priority :: i32
  cb_status :: string
  cb_valid_from :: "string option"
  cb_valid_to :: "string option"

record governance_facts =
  gf_space :: "space_fact option"
  gf_actor_bindings :: "actor_binding list"
  gf_capability_bindings :: "capability_binding list"
  gf_complete :: bool

record create_space_command =
  cm_tenant_id :: i64
  cm_space_id :: i64
  cm_organization_id :: "i64 option"
  cm_owner_subject_type :: string
  cm_owner_subject_id :: string
  cm_space_type :: string
  cm_display_name :: string
  cm_default_scope :: string

record space_record =
  sr_space_id :: i64
  sr_uuid :: string
  sr_tenant_id :: i64
  sr_organization_id :: "i64 option"
  sr_owner_subject_type :: string
  sr_owner_subject_id :: string
  sr_space_type :: string
  sr_display_name :: string
  sr_default_scope :: string
  sr_lifecycle_status :: string
  sr_created_at :: string
  sr_updated_at :: string
  sr_version :: i64

datatype 'a space_admission = SpaceAdmitted 'a | SpaceQuotaExceeded nat nat

record count_spaces_query =
  cq_tenant_id :: i64
  cq_owner_subject_id :: string

section \<open>Retrieval\<close>

definition max_retrieval_candidates :: nat where
  "max_retrieval_candidates = 200"

datatype retriever_kind =
  RkSql | RkKeyword | RkDictionary | RkTime | RkEvent | RkVector | RkGraph | RkGrepFile
  | RkExternal | RkCustom

record retrieve_candidates_command =
  rc_query :: string
  rc_read_scope :: sensitivity_read_scope
  rc_limit :: nat

record retrieval_record_candidate =
  rr_memory_id :: string
  rr_subject :: "string option"
  rr_predicate :: "string option"
  rr_object_text :: string
  rr_canonical_text :: string
  rr_created_at :: string

record retrieval_event_candidate =
  re_memory_id :: string
  re_event_id :: string
  re_payload_text :: string
  re_created_at :: string

record retriever_search_result =
  rs_records :: "retrieval_record_candidate list"
  rs_events :: "retrieval_event_candidate list"
  rs_degraded :: bool
  rs_unavailable_retriever_kinds :: "retriever_kind list"
  rs_degradation_codes :: "string list"

record context_pack_draft =
  pk_memory_ids :: "string list"
  pk_context_text :: string

end
