(* ===== verification/Reference_State.thy ===== *)
theory Reference_State
  imports Spi_Types
begin

text \<open>
  The state of the in-memory reference runtime
  (\<^verbatim>\<open>plugins/sdkwork-memory-plugin-reference-profiles/src/reference_runtime.rs\<close>): one field
  per \<^verbatim>\<open>Mutex\<close>-guarded container, the keys of those containers, and the set of poisoned
  mutexes. An operation is a function from the state to its result and the next state;
  \<^verbatim>\<open>with_lock\<close> is \<^verbatim>\<open>lock().map_err(lock_error)?\<close>, so an operation that writes one container
  before it locks the next shows the partial write when that lock is poisoned. The
  operations are in the \<^verbatim>\<open>Reference_*\<close> theories, one per group of ports.
\<close>

section \<open>Keys\<close>

datatype scoped_id = ScopedId (si_tenant_id: i64) (si_space_id: i64) (si_id: string)

definition scoped_id_new :: "scope_context \<Rightarrow> string \<Rightarrow> scoped_id" where
  "scoped_id_new sc i = ScopedId (sc_tenant_id sc) (sc_space_id sc) i"

definition matches_scope :: "scoped_id \<Rightarrow> scope_context \<Rightarrow> bool" where
  "matches_scope k sc \<longleftrightarrow> si_tenant_id k = sc_tenant_id sc \<and> si_space_id k = sc_space_id sc"

lemma matches_scope_new [simp]: "matches_scope (scoped_id_new sc i) sc"
  by (simp add: matches_scope_def scoped_id_new_def)

lemma scoped_id_new_eq [simp]: "scoped_id_new sc i = scoped_id_new sc j \<longleftrightarrow> i = j"
  by (simp add: scoped_id_new_def)

lemma matches_scope_iff: "matches_scope k sc \<longleftrightarrow> k = scoped_id_new sc (si_id k)"
  by (cases k) (auto simp: matches_scope_def scoped_id_new_def)

datatype tenant_list_key = TenantListKey (tk_tenant_id: i64) (tk_candidate_id: string) (tk_space_id: i64)

datatype space_list_key = SpaceListKey (sk_tenant_id: i64) (sk_space_id: i64) (sk_candidate_id: string)

text \<open>The derived \<^verbatim>\<open>Ord\<close>: lexicographic in field order, signed on \<^verbatim>\<open>i64\<close>.\<close>

fun tenant_key_rank :: "tenant_list_key \<Rightarrow> int \<times> string \<times> int" where
  "tenant_key_rank (TenantListKey t c s) = (sint t, c, sint s)"

fun space_key_rank :: "space_list_key \<Rightarrow> int \<times> int \<times> string" where
  "space_key_rank (SpaceListKey t s c) = (sint t, sint s, c)"

lemma tenant_key_rank_inj: "tenant_key_rank x = tenant_key_rank y \<longleftrightarrow> x = y"
  by (cases x; cases y) auto

lemma space_key_rank_inj: "space_key_rank x = space_key_rank y \<longleftrightarrow> x = y"
  by (cases x; cases y) auto

instantiation tenant_list_key :: linorder
begin

definition less_eq_tenant_list_key :: "tenant_list_key \<Rightarrow> tenant_list_key \<Rightarrow> bool" where
  "less_eq_tenant_list_key x y \<longleftrightarrow> tenant_key_rank x \<le> tenant_key_rank y"

definition less_tenant_list_key :: "tenant_list_key \<Rightarrow> tenant_list_key \<Rightarrow> bool" where
  "less_tenant_list_key x y \<longleftrightarrow> tenant_key_rank x < tenant_key_rank y"

instance
  by standard
    (auto simp: less_eq_tenant_list_key_def less_tenant_list_key_def
      simp del: tenant_key_rank.simps intro: tenant_key_rank_inj [THEN iffD1])

end

instantiation space_list_key :: linorder
begin

definition less_eq_space_list_key :: "space_list_key \<Rightarrow> space_list_key \<Rightarrow> bool" where
  "less_eq_space_list_key x y \<longleftrightarrow> space_key_rank x \<le> space_key_rank y"

definition less_space_list_key :: "space_list_key \<Rightarrow> space_list_key \<Rightarrow> bool" where
  "less_space_list_key x y \<longleftrightarrow> space_key_rank x < space_key_rank y"

instance
  by standard
    (auto simp: less_eq_space_list_key_def less_space_list_key_def
      simp del: space_key_rank.simps intro: space_key_rank_inj [THEN iffD1])

end

datatype scoped_habit_key =
  ScopedHabitKey (hk_tenant_id: i64) (hk_space_id: i64) (hk_user_id: i64) (hk_habit_key: string)

definition habit_key_new :: "scope_context \<Rightarrow> i64 \<Rightarrow> string \<Rightarrow> scoped_habit_key" where
  "habit_key_new sc u h = ScopedHabitKey (sc_tenant_id sc) (sc_space_id sc) u h"

datatype governance_space_key = GovernanceSpaceKey (gs_tenant_id: i64) (gs_space_id: i64)

datatype governance_actor_key =
  GovernanceActorKey (gk_tenant_id: i64) (gk_space_id: i64)
    (gk_subject_type: "string option") (gk_subject_id: string)

definition actor_key_new :: "scope_context \<Rightarrow> governance_actor \<Rightarrow> governance_actor_key" where
  "actor_key_new sc a =
     GovernanceActorKey (sc_tenant_id sc) (sc_space_id sc) (ga_subject_type a) (ga_subject_id a)"

datatype governance_capability_key =
  GovernanceCapabilityKey (gc_tenant_id: i64) (gc_space_id: i64) (gc_capability_code: string)

definition capability_key_new :: "scope_context \<Rightarrow> string \<Rightarrow> governance_capability_key" where
  "capability_key_new sc code = GovernanceCapabilityKey (sc_tenant_id sc) (sc_space_id sc) code"

section \<open>Record states\<close>

record record_state =
  ms_record :: memory_record
  ms_canonical :: "canonical_record option"
  ms_deleted :: bool

definition state_active :: "memory_record \<Rightarrow> record_state" where
  "state_active r = \<lparr>ms_record = r, ms_canonical = None, ms_deleted = False\<rparr>"

definition state_active_canonical :: "canonical_record \<Rightarrow> record_state" where
  "state_active_canonical c =
     \<lparr>ms_record = \<lparr>mr_memory_id = cr_memory_id c, mr_content = cr_object_text c\<rparr>,
      ms_canonical = Some c, ms_deleted = False\<rparr>"

definition state_user_id :: "record_state \<Rightarrow> i64 option" where
  "state_user_id s = (case ms_canonical s of None \<Rightarrow> None | Some c \<Rightarrow> cr_user_id c)"

definition visible_record :: "record_state \<Rightarrow> memory_record option" where
  "visible_record s = (if ms_deleted s then None else Some (ms_record s))"

definition visible_canonical :: "record_state \<Rightarrow> canonical_record option" where
  "visible_canonical s = (if ms_deleted s then None else ms_canonical s)"

lemma state_active_simps [simp]:
  "ms_deleted (state_active r) = False" "ms_canonical (state_active r) = None"
  "ms_record (state_active r) = r" "ms_deleted (state_active_canonical c) = False"
  "ms_canonical (state_active_canonical c) = Some c"
  "visible_record (state_active r) = Some r" "visible_canonical (state_active_canonical c) = Some c"
  by (simp_all add: state_active_def state_active_canonical_def visible_record_def visible_canonical_def)

section \<open>The runtime\<close>

datatype store_lock =
    RecordsLock | EventsLock | AuditsLock | OutboxLock | CandidatesLock
  | CandidateTimestampsLock | CandidateTargetsLock | CandidateListingIndexLock
  | CandidateAmbiguousTenantsLock | CandidateSpaceListingIndexLock | HabitsLock
  | RetrievalTracesLock | GovernanceSpacesLock | GovernanceBindingsLock
  | GovernanceCapabilitiesLock

record reference_runtime =
  rm_records :: "(scoped_id, record_state) hmap"
  rm_events :: "(scoped_id, memory_event) hmap"
  rm_audits :: "(scoped_id, audit_record) hmap"
  rm_outbox :: "(scoped_id, outbox_event) hmap"
  rm_candidates :: "(scoped_id, memory_candidate) hmap"
  rm_candidate_timestamps :: "(scoped_id, string \<times> string) hmap"
  rm_candidate_targets :: "(scoped_id, string) hmap"
  rm_candidate_listing_index :: "tenant_list_key list"
  rm_candidate_listing_ambiguous_tenants :: "i64 set"
  rm_candidate_space_listing_index :: "space_list_key list"
  rm_habits :: "(scoped_habit_key, memory_habit) hmap"
  rm_retrieval_traces :: "(scoped_id, retrieval_trace) hmap"
  rm_governance_spaces :: "(governance_space_key, space_fact) hmap"
  rm_governance_bindings :: "(governance_actor_key, actor_binding list) hmap"
  rm_governance_capabilities :: "(governance_capability_key, capability_binding list) hmap"
  rm_poisoned :: "store_lock set"

definition runtime_new :: reference_runtime where
  "runtime_new =
     \<lparr>rm_records = [], rm_events = [], rm_audits = [], rm_outbox = [], rm_candidates = [],
      rm_candidate_timestamps = [], rm_candidate_targets = [], rm_candidate_listing_index = [],
      rm_candidate_listing_ambiguous_tenants = {}, rm_candidate_space_listing_index = [],
      rm_habits = [], rm_retrieval_traces = [], rm_governance_spaces = [],
      rm_governance_bindings = [], rm_governance_capabilities = [], rm_poisoned = {}\<rparr>"

type_synonym 'a rt_op = "reference_runtime \<Rightarrow> (spi_error + 'a) \<times> reference_runtime"

definition lock_error :: spi_error where
  "lock_error = PortOperationFailed ''ReferenceMemoryRuntime'' ''reference runtime lock is poisoned''"

definition with_lock :: "store_lock \<Rightarrow> 'a rt_op \<Rightarrow> 'a rt_op" where
  "with_lock l k rt = (if l \<in> rm_poisoned rt then (Inl lock_error, rt) else k rt)"

lemma with_lock_free [simp]: "l \<notin> rm_poisoned rt \<Longrightarrow> with_lock l k rt = k rt"
  by (simp add: with_lock_def)

lemma with_lock_Inr:
  "with_lock l k rt = (Inr x, rt') \<longleftrightarrow> l \<notin> rm_poisoned rt \<and> k rt = (Inr x, rt')"
  by (simp add: with_lock_def)

text \<open>An operation whose error results leave the state as it was.\<close>

definition fails_clean :: "'a rt_op \<Rightarrow> bool" where
  "fails_clean f \<longleftrightarrow> (\<forall>rt e rt'. f rt = (Inl e, rt') \<longrightarrow> rt' = rt)"

lemma fails_clean_with_lock: "fails_clean k \<Longrightarrow> fails_clean (with_lock l k)"
  by (auto simp: fails_clean_def with_lock_def)

lemma fails_cleanD: "fails_clean f \<Longrightarrow> f rt = (Inl e, rt') \<Longrightarrow> rt' = rt"
  by (auto simp: fails_clean_def)

text \<open>No mutex is poisoned: no thread has panicked while it held one.\<close>

definition locks_free :: "reference_runtime \<Rightarrow> bool" where
  "locks_free rt \<longleftrightarrow> rm_poisoned rt = {}"

lemma locks_free_new [simp]: "locks_free runtime_new"
  by (simp add: locks_free_def runtime_new_def)

section \<open>Journals\<close>

definition record_port :: string where
  "record_port = ''MemoryRecordStorePort''"

definition record_error :: "string \<Rightarrow> spi_error" where
  "record_error msg = PortOperationFailed record_port msg"

definition atomic_record_state_missing :: spi_error where
  "atomic_record_state_missing =
     record_error ''reference record was not created through the canonical atomic path''"

definition validate_memory_journal :: "string \<Rightarrow> mutation_journal \<Rightarrow> spi_error option" where
  "validate_memory_journal i j =
     (if mj_aggregate_id j \<noteq> i \<or> mj_audit_resource_id j \<noteq> i
      then Some (record_error
        ''memory mutation journal resource ids must match the canonical memory id'')
      else None)"

definition journal_outbox :: "mutation_journal \<Rightarrow> outbox_event" where
  "journal_outbox j =
     \<lparr>ob_outbox_id = mj_outbox_id j, ob_aggregate_type = mj_aggregate_type j,
      ob_aggregate_id = mj_aggregate_id j, ob_event_type = mj_event_type j,
      ob_event_version = mj_event_version j, ob_payload_json = mj_payload_json j,
      ob_publish_state = ''pending'', ob_published_at = None, ob_retry_count = 0\<rparr>"

definition journal_audit :: "mutation_journal \<Rightarrow> audit_record" where
  "journal_audit j =
     \<lparr>au_audit_id = mj_audit_id j, au_action = mj_audit_action j,
      au_resource_type = mj_audit_resource_type j, au_resource_id = mj_audit_resource_id j,
      au_result = mj_audit_result j\<rparr>"

definition reference_journal_entries ::
  "scope_context \<Rightarrow> mutation_journal \<Rightarrow> scoped_id \<times> outbox_event \<times> scoped_id \<times> audit_record" where
  "reference_journal_entries sc j =
     (scoped_id_new sc (mj_outbox_id j), journal_outbox j,
      scoped_id_new sc (mj_audit_id j), journal_audit j)"

text \<open>The two inserts every journalled mutation ends with.\<close>

definition put_outbox :: "scoped_id \<Rightarrow> outbox_event \<Rightarrow> reference_runtime \<Rightarrow> reference_runtime" where
  "put_outbox k e rt = rt\<lparr>rm_outbox := hm_insert k e (rm_outbox rt)\<rparr>"

definition put_audit :: "scoped_id \<Rightarrow> audit_record \<Rightarrow> reference_runtime \<Rightarrow> reference_runtime" where
  "put_audit k a rt = rt\<lparr>rm_audits := hm_insert k a (rm_audits rt)\<rparr>"

definition put_record :: "scoped_id \<Rightarrow> record_state \<Rightarrow> reference_runtime \<Rightarrow> reference_runtime" where
  "put_record k s rt = rt\<lparr>rm_records := hm_insert k s (rm_records rt)\<rparr>"

definition modify_record ::
  "scoped_id \<Rightarrow> (record_state \<Rightarrow> record_state) \<Rightarrow> reference_runtime \<Rightarrow> reference_runtime" where
  "modify_record k f rt = rt\<lparr>rm_records := hm_modify k f (rm_records rt)\<rparr>"

lemma put_record_simps [simp]:
  "rm_records (put_record k s rt) = hm_insert k s (rm_records rt)"
  "rm_outbox (put_record k s rt) = rm_outbox rt" "rm_audits (put_record k s rt) = rm_audits rt"
  "rm_poisoned (put_record k s rt) = rm_poisoned rt"
  by (simp_all add: put_record_def)

lemma modify_record_simps [simp]:
  "rm_records (modify_record k f rt) = hm_modify k f (rm_records rt)"
  "rm_outbox (modify_record k f rt) = rm_outbox rt"
  "rm_audits (modify_record k f rt) = rm_audits rt"
  "rm_poisoned (modify_record k f rt) = rm_poisoned rt"
  by (simp_all add: modify_record_def)

lemma put_journal_simps [simp]:
  "rm_records (put_outbox k e rt) = rm_records rt"
  "rm_outbox (put_outbox k e rt) = hm_insert k e (rm_outbox rt)"
  "rm_audits (put_outbox k e rt) = rm_audits rt" "rm_poisoned (put_outbox k e rt) = rm_poisoned rt"
  "rm_records (put_audit k a rt) = rm_records rt"
  "rm_audits (put_audit k a rt) = hm_insert k a (rm_audits rt)"
  "rm_outbox (put_audit k a rt) = rm_outbox rt" "rm_poisoned (put_audit k a rt) = rm_poisoned rt"
  by (simp_all add: put_outbox_def put_audit_def)

text \<open>The active records of a scope: what the quota counts.\<close>

definition active_records :: "scope_context \<Rightarrow> reference_runtime \<Rightarrow> nat" where
  "active_records sc rt =
     hm_count (\<lambda>k s. matches_scope k sc \<and> \<not> ms_deleted s) (rm_records rt)"

text \<open>\<^verbatim>\<open>serde_json::from_str::<Value>\<close> is a parameter: \<^verbatim>\<open>None\<close> is a parse error.\<close>

definition reference_journal_payload_matches ::
  "(string \<Rightarrow> 'j option) \<Rightarrow> string \<Rightarrow> string \<Rightarrow> bool" where
  "reference_journal_payload_matches from_str stored expected =
     (case (from_str stored, from_str expected) of
        (Some a, Some b) \<Rightarrow> a = b
      | _ \<Rightarrow> stored = expected)"

lemma payload_matches_refl [simp]: "reference_journal_payload_matches from_str p p"
  by (simp add: reference_journal_payload_matches_def split: option.split)

end
