(* ===== verification/Candidate_Invariant.thy ===== *)
theory Candidate_Invariant
  imports Reference_Candidates
begin

text \<open>
  What ties the candidate containers of the reference runtime together: timestamps exist
  exactly for the stored candidates, both listing indexes are sorted sets of exactly their
  keys, and the ambiguity marker holds the tenants in which one candidate id occurs in two
  spaces. Creation, decision and promotion keep it, on every branch.
\<close>

section \<open>The invariant\<close>

definition cand_keys :: "reference_runtime \<Rightarrow> scoped_id set" where
  "cand_keys rt = fst ` set (rm_candidates rt)"

definition tenant_key_of :: "scoped_id \<Rightarrow> tenant_list_key" where
  "tenant_key_of k = TenantListKey (si_tenant_id k) (si_id k) (si_space_id k)"

definition space_key_of :: "scoped_id \<Rightarrow> space_list_key" where
  "space_key_of k = SpaceListKey (si_tenant_id k) (si_space_id k) (si_id k)"

definition two_spaces :: "scoped_id set \<Rightarrow> i64 \<Rightarrow> bool" where
  "two_spaces ks t \<longleftrightarrow>
     (\<exists>k \<in> ks. \<exists>k' \<in> ks. si_tenant_id k = t \<and> si_tenant_id k' = t \<and> si_id k = si_id k' \<and> k \<noteq> k')"

definition cand_inv :: "reference_runtime \<Rightarrow> bool" where
  "cand_inv rt \<longleftrightarrow>
     hm_ok (rm_candidates rt) \<and> hm_ok (rm_candidate_timestamps rt) \<and> hm_ok (rm_candidate_targets rt) \<and>
     bs_ok (rm_candidate_listing_index rt) \<and> bs_ok (rm_candidate_space_listing_index rt) \<and>
     (\<forall>k. hm_contains (rm_candidate_timestamps rt) k = hm_contains (rm_candidates rt) k) \<and>
     (\<forall>k c. hm_get (rm_candidates rt) k = Some c \<longrightarrow> mc_candidate_id c = si_id k) \<and>
     set (rm_candidate_listing_index rt) = tenant_key_of ` cand_keys rt \<and>
     set (rm_candidate_space_listing_index rt) = space_key_of ` cand_keys rt \<and>
     (\<forall>t. t \<in> rm_candidate_listing_ambiguous_tenants rt \<longleftrightarrow> two_spaces (cand_keys rt) t) \<and>
     (\<forall>k m. hm_get (rm_candidate_targets rt) k = Some m \<longrightarrow> hm_contains (rm_candidates rt) k)"

lemma in_cand_keys: "k \<in> cand_keys rt \<longleftrightarrow> hm_contains (rm_candidates rt) k"
  by (simp add: cand_keys_def hm_contains_keys)

lemma finite_cand_keys [simp]: "finite (cand_keys rt)"
  by (simp add: cand_keys_def)

lemma cand_inv_new: "cand_inv runtime_new"
  by (simp add: cand_inv_def runtime_new_def cand_keys_def two_spaces_def hm_contains_def)

lemma tenant_key_of_eq [simp]: "tenant_key_of k = tenant_key_of k' \<longleftrightarrow> k = k'"
  by (cases k; cases k') (auto simp: tenant_key_of_def)

lemma space_key_of_eq [simp]: "space_key_of k = space_key_of k' \<longleftrightarrow> k = k'"
  by (cases k; cases k') (auto simp: space_key_of_def)

lemma keys_hm_insert: "fst ` set (hm_insert k v m) = insert k (fst ` set m)"
  by (rule set_eqI) (simp add: hm_contains_keys [symmetric] hm_contains_def)

lemma keys_hm_modify: "fst ` set (hm_modify k f m) = fst ` set m"
  by (metis image_set keys_modify)

text \<open>The index range of one id: exactly the keys with this tenant and id.\<close>

lemma in_tenant_index_range:
  "k \<in> set (tenant_index_range t c index) \<longleftrightarrow>
     k \<in> set index \<and> tk_tenant_id k = t \<and> tk_candidate_id k = c"
proof -
  have "(TenantListKey t c i64_min \<le> k \<and> k \<le> TenantListKey t c i64_max) \<longleftrightarrow>
      tk_tenant_id k = t \<and> tk_candidate_id k = c"
    using sint_i64_ge [of "tk_space_id k"] sint_i64_le [of "tk_space_id k"]
    by (cases k) (auto simp: less_eq_tenant_list_key_def)
  then show ?thesis by (auto simp: tenant_index_range_def)
qed

lemma two_spaces_insert:
  "two_spaces (insert k ks) t \<longleftrightarrow>
     two_spaces ks t \<or> si_tenant_id k = t \<and>
       (\<exists>k' \<in> ks. si_tenant_id k' = t \<and> si_id k' = si_id k \<and> k' \<noteq> k)"
  unfolding two_spaces_def by (auto; metis)

text \<open>The duplicate test of \<^verbatim>\<open>create\<close> sees a second space of the same id.\<close>

lemma duplicate_test:
  assumes "set index = tenant_key_of ` ks"
  shows "list_ex (\<lambda>x. tk_space_id x \<noteq> si_space_id k) (tenant_index_range (si_tenant_id k) (si_id k) index) \<longleftrightarrow>
    (\<exists>k' \<in> ks. si_tenant_id k' = si_tenant_id k \<and> si_id k' = si_id k \<and> k' \<noteq> k)"
  unfolding list_ex_iff Bex_def in_tenant_index_range assms
  by (force simp: tenant_key_of_def scoped_id.expand)

lemma cand_inv_put:
  assumes inv: "cand_inv rt" and id: "mc_candidate_id c = si_id k"
    and amb: "a \<longleftrightarrow> (\<exists>k' \<in> cand_keys rt. si_tenant_id k' = si_tenant_id k \<and> si_id k' = si_id k \<and> k' \<noteq> k)"
  shows "cand_inv (put_candidate k c now a rt)"
proof -
  have keys: "cand_keys (put_candidate k c now a rt) = insert k (cand_keys rt)"
    by (simp add: cand_keys_def put_candidate_def keys_hm_insert)
  have marks: "\<forall>t. t \<in> (if a then insert (si_tenant_id k) (rm_candidate_listing_ambiguous_tenants rt)
      else rm_candidate_listing_ambiguous_tenants rt) \<longleftrightarrow> two_spaces (insert k (cand_keys rt)) t"
    using inv amb unfolding cand_inv_def two_spaces_insert by auto
  show ?thesis
    using inv id marks unfolding cand_inv_def keys
    by (auto simp: put_candidate_def hm_contains_def tenant_key_of_def [symmetric]
        space_key_of_def [symmetric])
qed

section \<open>Preservation\<close>

lemma cand_inv_create:
  assumes "cand_inv rt" and "candidate_create c now rt = (r, rt')"
  shows "cand_inv rt'"
proof -
  let ?k = "scoped_id_new (ca_scope c) (ca_candidate_id c)"
  have "cand_inv (put_candidate ?k (new_candidate c) now
     (list_ex (\<lambda>k. tk_space_id k \<noteq> sc_space_id (ca_scope c))
        (tenant_index_range (sc_tenant_id (ca_scope c)) (ca_candidate_id c)
          (rm_candidate_listing_index rt))) rt)"
  proof (rule cand_inv_put [OF assms(1)])
    show "mc_candidate_id (new_candidate c) = si_id ?k"
      by (simp add: new_candidate_def scoped_id_new_def)
    have "set (rm_candidate_listing_index rt) = tenant_key_of ` cand_keys rt"
      using assms(1) by (simp add: cand_inv_def)
    from duplicate_test [OF this, of ?k]
    show "list_ex (\<lambda>k. tk_space_id k \<noteq> sc_space_id (ca_scope c))
        (tenant_index_range (sc_tenant_id (ca_scope c)) (ca_candidate_id c)
          (rm_candidate_listing_index rt)) \<longleftrightarrow>
      (\<exists>k'\<in>cand_keys rt. si_tenant_id k' = si_tenant_id ?k \<and> si_id k' = si_id ?k \<and> k' \<noteq> ?k)"
      by (simp add: scoped_id_new_def)
  qed
  then show ?thesis
    using assms by (auto simp: candidate_create_def with_lock_def Let_def split: if_splits)
qed

text \<open>Writes that keep the key sets and the candidate ids keep the invariant.\<close>

definition same_cand_shape :: "reference_runtime \<Rightarrow> reference_runtime \<Rightarrow> bool" where
  "same_cand_shape rt rt' \<longleftrightarrow>
     map fst (rm_candidates rt') = map fst (rm_candidates rt) \<and>
     map_option mc_candidate_id \<circ> hm_get (rm_candidates rt') =
       map_option mc_candidate_id \<circ> hm_get (rm_candidates rt) \<and>
     map fst (rm_candidate_timestamps rt') = map fst (rm_candidate_timestamps rt) \<and>
     rm_candidate_listing_index rt' = rm_candidate_listing_index rt \<and>
     rm_candidate_space_listing_index rt' = rm_candidate_space_listing_index rt \<and>
     rm_candidate_listing_ambiguous_tenants rt' = rm_candidate_listing_ambiguous_tenants rt"

lemma same_cand_shape_refl [simp]: "same_cand_shape rt rt"
  by (simp add: same_cand_shape_def)

lemma same_cand_shape_trans:
  "same_cand_shape a b \<Longrightarrow> same_cand_shape b c \<Longrightarrow> same_cand_shape a c"
  by (simp add: same_cand_shape_def)

lemma same_shape_ids:
  assumes "same_cand_shape rt rt'" and "hm_get (rm_candidates rt') k = Some c'"
  shows "\<exists>c. hm_get (rm_candidates rt) k = Some c \<and> mc_candidate_id c = mc_candidate_id c'"
proof -
  have "map_option mc_candidate_id (hm_get (rm_candidates rt') k) =
      map_option mc_candidate_id (hm_get (rm_candidates rt) k)"
    using assms(1) unfolding same_cand_shape_def by (metis comp_apply)
  then show ?thesis using assms(2) by (cases "hm_get (rm_candidates rt) k") auto
qed

lemma cand_inv_same_shape:
  assumes inv: "cand_inv rt" and shape: "same_cand_shape rt rt'"
    and targets: "hm_ok (rm_candidate_targets rt')"
      "\<And>k m. hm_get (rm_candidate_targets rt') k = Some m \<Longrightarrow> hm_contains (rm_candidates rt) k"
  shows "cand_inv rt'"
proof -
  have keys: "cand_keys rt' = cand_keys rt"
    using shape unfolding same_cand_shape_def cand_keys_def by (metis image_set)
  have held: "hm_contains (rm_candidates rt') k = hm_contains (rm_candidates rt) k" for k
    using keys in_cand_keys by blast
  have stamped: "hm_contains (rm_candidate_timestamps rt') k = hm_contains (rm_candidate_timestamps rt) k" for k
    using shape unfolding same_cand_shape_def hm_contains_keys by (metis image_set)
  have ids: "mc_candidate_id c = si_id k" if "hm_get (rm_candidates rt') k = Some c" for k c
    using same_shape_ids [OF shape that] inv unfolding cand_inv_def by auto
  show ?thesis
    using inv shape targets ids
    unfolding cand_inv_def keys held stamped by (simp add: same_cand_shape_def hm_ok_def)
qed

lemma decided_id [simp]: "mc_candidate_id (decided s r b now c) = mc_candidate_id c"
  by (simp add: decided_def)

lemma same_shape_decided [simp]:
  "same_cand_shape rt x \<Longrightarrow> same_cand_shape rt (modify_candidate k (decided s r b now) x)"
  by (erule same_cand_shape_trans)
    (auto simp: same_cand_shape_def modify_candidate_def keys_modify fun_eq_iff option.map_comp comp_def)

lemma same_shape_touch [simp]:
  "same_cand_shape rt x \<Longrightarrow> same_cand_shape rt (touch_timestamps k now x)"
  by (simp add: same_cand_shape_def touch_timestamps_def keys_modify)

lemma same_shape_put [simp]:
  assumes "same_cand_shape rt x"
  shows "same_cand_shape rt (put_record k s x)" "same_cand_shape rt (put_target k m x)"
    "same_cand_shape rt (put_outbox k e x)" "same_cand_shape rt (put_audit k a x)"
  using assms
  by (simp_all add: same_cand_shape_def put_record_def put_target_def put_outbox_def put_audit_def)

lemma same_shape_journal [simp]:
  "same_cand_shape rt x \<Longrightarrow> same_cand_shape rt (put_optional_journal sc j x)"
  by (cases j) (simp_all add: put_optional_journal_def reference_journal_entries_def)

lemma put_target_targets [simp]:
  "rm_candidate_targets (put_target k m rt) = hm_insert k m (rm_candidate_targets rt)"
  by (simp add: put_target_def)

lemma targets_untouched [simp]:
  "rm_candidate_targets (modify_candidate k f rt) = rm_candidate_targets rt"
  "rm_candidate_targets (touch_timestamps k now rt) = rm_candidate_targets rt"
  "rm_candidate_targets (put_record rk s rt) = rm_candidate_targets rt"
  "rm_candidate_targets (put_optional_journal sc j rt) = rm_candidate_targets rt"
  by (simp_all add: modify_candidate_def touch_timestamps_def put_record_def put_optional_journal_def
      reference_journal_entries_def put_outbox_def put_audit_def split: option.split)

lemma cand_inv_decide:
  assumes "cand_inv rt" and "decide_candidate c s now rt = (r, rt')"
  shows "cand_inv rt'"
proof (rule cand_inv_same_shape [OF assms(1)])
  show "same_cand_shape rt rt'"
    using assms(2)
    by (auto simp: decide_candidate_def with_lock_def Let_def split: if_splits option.splits)
  have "rm_candidate_targets rt' = rm_candidate_targets rt"
    using assms(2)
    by (auto simp: decide_candidate_def with_lock_def Let_def split: if_splits option.splits)
  then show "hm_ok (rm_candidate_targets rt')"
    "\<And>k m. hm_get (rm_candidate_targets rt') k = Some m \<Longrightarrow> hm_contains (rm_candidates rt) k"
    using assms(1) by (auto simp: cand_inv_def)
qed

text \<open>Promotion changes nothing, or writes \<^verbatim>\<open>promote_apply\<close> (and stamps the candidate).\<close>

lemma promote_state_cases:
  assumes "promote_candidate_atomic_inner c max_active j now1 now2 rt = (r, rt')"
  obtains (same) "rt' = rt"
  | (applied) cand x where "hm_get (rm_candidates rt) (scoped_id_new (pc_scope c) (pc_candidate_id c)) = Some cand"
      and "x = promote_apply c j now1 now2 rt"
      and "rt' = x \<or> rt' = touch_timestamps (scoped_id_new (pc_scope c) (pc_candidate_id c)) now2 x"
  using assms
  by (auto simp: promote_candidate_atomic_inner_def promote_existing_def promote_fresh_def
      with_lock_def Let_def split: if_splits option.splits)

lemma cand_inv_promote:
  assumes inv: "cand_inv rt" and run: "promote_candidate_atomic_inner c max_active j now1 now2 rt = (r, rt')"
  shows "cand_inv rt'"
  using run
proof (cases rule: promote_state_cases)
  case same
  then show ?thesis using inv by simp
next
  case (applied cand x)
  show ?thesis
  proof (rule cand_inv_same_shape [OF inv])
    show "same_cand_shape rt rt'"
      using applied(2,3) by (auto simp: promote_apply_def Let_def)
    show "hm_ok (rm_candidate_targets rt')"
      using applied(2,3) inv by (auto simp: promote_apply_def Let_def cand_inv_def)
    show "hm_contains (rm_candidates rt) k" if "hm_get (rm_candidate_targets rt') k = Some m" for k m
      using that applied inv
      by (auto simp: promote_apply_def Let_def cand_inv_def hm_contains_def split: if_splits)
  qed
qed

text \<open>
  The promotion of a candidate: what an admitted promotion writes, that a retry of it
  answers with the same record and writes nothing, that a rejected one leaves no trace,
  and that a candidate decided without a target can no longer be promoted.
\<close>

section \<open>Field laws\<close>

lemma candidate_writes [simp]:
  "rm_candidates (modify_candidate k f rt) = hm_modify k f (rm_candidates rt)"
  "rm_candidates (touch_timestamps k now rt) = rm_candidates rt"
  "rm_candidates (put_record rk s rt) = rm_candidates rt"
  "rm_candidates (put_target k m rt) = rm_candidates rt"
  "rm_candidates (put_optional_journal sc j rt) = rm_candidates rt"
  by (simp_all add: modify_candidate_def touch_timestamps_def put_record_def put_target_def
      put_optional_journal_def reference_journal_entries_def put_outbox_def put_audit_def split: option.split)

lemma candidate_writes_poisoned [simp]:
  "rm_poisoned (modify_candidate k f rt) = rm_poisoned rt"
  "rm_poisoned (touch_timestamps k now rt) = rm_poisoned rt"
  "rm_poisoned (put_target k m rt) = rm_poisoned rt"
  "rm_poisoned (put_optional_journal sc j rt) = rm_poisoned rt"
  by (simp_all add: modify_candidate_def touch_timestamps_def put_target_def
      put_optional_journal_def reference_journal_entries_def split: option.split)

lemma candidate_writes_records [simp]:
  "rm_records (modify_candidate k f rt) = rm_records rt"
  "rm_records (touch_timestamps k now rt) = rm_records rt"
  "rm_records (put_target k m rt) = rm_records rt"
  "rm_records (put_optional_journal sc j rt) = rm_records rt"
  by (simp_all add: modify_candidate_def touch_timestamps_def put_target_def
      put_optional_journal_def reference_journal_entries_def split: option.split)

lemma candidate_writes_journals [simp]:
  "rm_outbox (modify_candidate k f rt) = rm_outbox rt"
  "rm_audits (modify_candidate k f rt) = rm_audits rt"
  "rm_outbox (touch_timestamps k now rt) = rm_outbox rt"
  "rm_audits (touch_timestamps k now rt) = rm_audits rt"
  "rm_outbox (put_target k m rt) = rm_outbox rt" "rm_audits (put_target k m rt) = rm_audits rt"
  by (simp_all add: modify_candidate_def touch_timestamps_def put_target_def)

section \<open>What a promotion does\<close>

lemmas promote_unfold = promote_candidate_atomic_inner_def promote_existing_def promote_fresh_def
  with_lock_def Let_def

abbreviation candidate_key :: "promote_candidate_command \<Rightarrow> scoped_id" where
  "candidate_key c \<equiv> scoped_id_new (pc_scope c) (pc_candidate_id c)"

abbreviation target_key :: "promote_candidate_command \<Rightarrow> scoped_id" where
  "target_key c \<equiv> scoped_id_new (pc_scope c) (pc_memory_id c)"

text \<open>The candidate is bound to a visible record: the state every admitted promotion leaves.\<close>

definition promoted_to :: "scoped_id \<Rightarrow> string \<Rightarrow> reference_runtime \<Rightarrow> bool" where
  "promoted_to k memory_id rt \<longleftrightarrow>
     (\<exists>cand s. hm_get (rm_candidates rt) k = Some cand \<and> mc_decision_state cand = ''approved'' \<and>
        hm_get (rm_candidate_targets rt) k = Some memory_id \<and>
        hm_get (rm_records rt) (ScopedId (si_tenant_id k) (si_space_id k) memory_id) = Some s \<and>
        \<not> ms_deleted s)"

lemma promote_Admitted:
  assumes "promote_candidate_atomic_inner c m j now1 now2 rt = (Inr (Admitted p), rt')"
  shows "cp_candidate_id p = pc_candidate_id c"
    and "rt' = rt \<and> promoted_to (candidate_key c) (cp_memory_id p) rt \<or>
      (\<exists>cand. hm_get (rm_candidates rt) (candidate_key c) = Some cand \<and>
        mc_decision_state cand = ''pending'' \<and> hm_get (rm_candidate_targets rt) (candidate_key c) = None \<and>
        cp_memory_id p = pc_memory_id c \<and> hm_get (rm_records rt) (target_key c) = None \<and>
        \<not> (0 < m \<and> m \<le> active_records (pc_scope c) rt) \<and>
        rt' = touch_timestamps (candidate_key c) now2 (promote_apply c j now1 now2 rt))"
  using assms
  by (auto simp: promote_unfold promoted_to_def scoped_id_new_def hm_contains_def
      split: if_splits option.splits)

lemma promote_apply_simps:
  "rm_candidates (promote_apply c j now1 now2 rt) =
     hm_modify (candidate_key c) (decided ''approved'' None (pc_decided_by c) now2) (rm_candidates rt)"
  "rm_candidate_targets (promote_apply c j now1 now2 rt) =
     hm_insert (candidate_key c) (pc_memory_id c) (rm_candidate_targets rt)"
  "rm_records (promote_apply c j now1 now2 rt) =
     hm_insert (target_key c) (state_active_canonical (promoted_canonical c now1)) (rm_records rt)"
  "rm_poisoned (promote_apply c j now1 now2 rt) = rm_poisoned rt"
  by (simp_all add: promote_apply_def Let_def)

lemma promote_leaves_promoted:
  assumes "promote_candidate_atomic_inner c m j now1 now2 rt = (Inr (Admitted p), rt')"
  shows "promoted_to (candidate_key c) (cp_memory_id p) rt'"
  using promote_Admitted(2) [OF assms]
  by (auto simp: promoted_to_def promote_apply_simps decided_def scoped_id_new_def)

lemma promote_replay:
  assumes "promoted_to (candidate_key c) memory_id rt"
    and "{CandidatesLock, CandidateTargetsLock, RecordsLock} \<inter> rm_poisoned rt = {}"
  shows "promote_candidate_atomic_inner c m j now1 now2 rt =
    (Inr (Admitted \<lparr>cp_candidate_id = pc_candidate_id c, cp_memory_id = memory_id\<rparr>), rt)"
  using assms by (auto simp: promote_unfold promoted_to_def scoped_id_new_def)

lemma promote_poisoned:
  "promote_candidate_atomic_inner c m j now1 now2 rt = (r, rt') \<Longrightarrow> rm_poisoned rt' = rm_poisoned rt"
  by (erule promote_state_cases) (auto simp: promote_apply_simps)

lemma promote_locks:
  assumes "promote_candidate_atomic_inner c m j now1 now2 rt = (Inr (Admitted p), rt')"
  shows "{CandidatesLock, CandidateTargetsLock, RecordsLock} \<inter> rm_poisoned rt = {}"
  using assms by (auto simp: promote_unfold split: if_splits option.splits)

text \<open>Nothing is written by a promotion that is not admitted, unless a lock is poisoned.\<close>

lemma promote_rejected:
  assumes "promote_candidate_atomic_inner c m j now1 now2 rt = (r, rt')"
    and "CandidateTimestampsLock \<notin> rm_poisoned rt" and "\<not> (\<exists>p. r = Inr (Admitted p))"
  shows "rt' = rt"
  using assms by (auto simp: promote_unfold promote_apply_simps split: if_splits option.splits)

lemma active_records_promote:
  assumes "promote_candidate_atomic_inner c m j now1 now2 rt = (Inr (Admitted p), rt')"
    and "hm_ok (rm_records rt)"
  shows "active_records (pc_scope c) rt' \<le> Suc (active_records (pc_scope c) rt)"
  using promote_Admitted(2) [OF assms(1)]
    hm_count_insert [OF assms(2), of "\<lambda>k s. matches_scope k (pc_scope c) \<and> \<not> ms_deleted s"
      "target_key c" "state_active_canonical (promoted_canonical c now1)"]
  by (auto simp: active_records_def promote_apply_simps)

text \<open>A candidate that left \<^verbatim>\<open>pending\<close> without a target.\<close>

lemma promote_stuck:
  assumes "hm_get (rm_candidates rt) (candidate_key c) = Some cand"
    and "mc_decision_state cand \<noteq> ''pending''"
    and "hm_get (rm_candidate_targets rt) (candidate_key c) = None"
  shows "\<exists>e. promote_candidate_atomic_inner c m j now1 now2 rt = (Inl e, rt)"
  using assms by (auto simp: promote_unfold)

end
