(* ===== verification/Candidate_Listing.thy ===== *)
theory Candidate_Listing
  imports Candidate_Invariant
begin

text \<open>
  Cursor pagination over the two candidate indexes. The locale \<^verbatim>\<open>ordered_scan\<close> is what the
  scan loop needs from an index order: the wanted keys form an interval, ordered by
  candidate id. Both key types are instances, and a page is shown to be the next
  \<^verbatim>\<open>page_size\<close> ids in order; following \<^verbatim>\<open>next_cursor\<close> enumerates every candidate once.
\<close>

section \<open>Scanning a sorted index\<close>

lemma takeWhile_filter:
  assumes "sorted xs" and "\<And>x y. x \<in> set xs \<Longrightarrow> y \<in> set xs \<Longrightarrow> x \<le> y \<Longrightarrow> P y \<Longrightarrow> P x"
  shows "takeWhile P xs = filter P xs"
  using assms
proof (induction xs)
  case (Cons x xs)
  have "sorted xs" using Cons.prems(1) by simp
  moreover have "P a" if "a \<in> set xs" "b \<in> set xs" "a \<le> b" "P b" for a b
    using Cons.prems(2) [of a b] that by simp
  ultimately have tail: "takeWhile P xs = filter P xs" by (rule Cons.IH)
  have "\<not> P y" if "\<not> P x" "y \<in> set xs" for y
    using Cons.prems(1) Cons.prems(2) [of x y] that by auto
  then have "filter P xs = []" if "\<not> P x"
    using that by (simp add: filter_empty_conv)
  with tail show ?case by simp
qed simp

locale ordered_scan =
  fixes ident :: "'k::linorder \<Rightarrow> string"
    and own :: "'k \<Rightarrow> bool"
    and from_cursor :: "string \<Rightarrow> 'k \<Rightarrow> bool"
  assumes interval: "from_cursor c x \<Longrightarrow> own y \<Longrightarrow> x \<le> y \<Longrightarrow> own x"
    and ident_mono: "own x \<Longrightarrow> own y \<Longrightarrow> x \<le> y \<Longrightarrow> ident x \<le> ident y"
    and from_cursor_own: "own x \<Longrightarrow> from_cursor c x \<longleftrightarrow> c = [] \<or> c < ident x"
begin

lemma scan_own:
  assumes "bs_ok index"
  shows "takeWhile own (filter (from_cursor c) index) = filter (\<lambda>x. own x \<and> from_cursor c x) index"
proof -
  have "takeWhile own (filter (from_cursor c) index) = filter own (filter (from_cursor c) index)"
    using assms by (intro takeWhile_filter) (auto simp: bs_ok_def sorted_wrt_filter intro: interval)
  then show ?thesis by (simp add: conj_commute)
qed

lemma scan_sorted:
  assumes "bs_ok index"
  shows "sorted (map ident (filter (\<lambda>x. own x \<and> from_cursor c x) index))"
proof -
  have "sorted (filter (\<lambda>x. own x \<and> from_cursor c x) index)"
    using assms by (simp add: bs_ok_def sorted_wrt_filter)
  then show ?thesis
    unfolding sorted_map by (rule sorted_wrt_mono_rel [rotated]) (auto intro: ident_mono)
qed

lemma scan_ids:
  assumes "bs_ok index" and "inj_on ident {x \<in> set index. own x}"
  shows "map ident (takeWhile own (filter (from_cursor c) index)) =
    sorted_list_of_set {ident x | x. x \<in> set index \<and> own x \<and> (c = [] \<or> c < ident x)}"
proof -
  let ?ks = "filter (\<lambda>x. own x \<and> from_cursor c x) index"
  have "distinct (map ident ?ks)"
    using assms by (auto simp: distinct_map bs_ok_def inj_on_def)
  moreover have "sorted (map ident ?ks)"
    by (rule scan_sorted [OF assms(1)])
  moreover have "set (map ident ?ks) = {ident x | x. x \<in> set index \<and> own x \<and> (c = [] \<or> c < ident x)}"
    by (auto simp: from_cursor_own)
  ultimately show ?thesis
    unfolding scan_own [OF assms(1)] by (metis sorted_list_of_set.idem_if_sorted_distinct)
qed

end

lemma str_less_simps: "\<not> (x :: string) < []" "([] :: string) \<le> x" "[] < (x :: string) \<longleftrightarrow> x \<noteq> []"
  by (cases x; simp)+

interpretation space_scan: ordered_scan sk_candidate_id
  "\<lambda>k. sk_tenant_id k = t \<and> sk_space_id k = s"
  "\<lambda>c k. if c = [] then SpaceListKey t s [] \<le> k else SpaceListKey t s c < k" for t s
proof (unfold_locales, goal_cases)
  case (1 c x y)
  then show ?case
    by (cases x; cases y)
      (auto simp: less_eq_space_list_key_def less_space_list_key_def split: if_splits)
next
  case (2 x y)
  then show ?case by (cases x; cases y) (auto simp: less_eq_space_list_key_def)
next
  case (3 x c)
  then show ?case
    by (cases x) (auto simp: less_eq_space_list_key_def less_space_list_key_def)
qed

interpretation tenant_scan: ordered_scan tk_candidate_id
  "\<lambda>k. tk_tenant_id k = t"
  "\<lambda>c k. if c = [] then TenantListKey t [] i64_min \<le> k else TenantListKey t c i64_max < k" for t
proof (unfold_locales, goal_cases)
  case (1 c x y)
  then show ?case
    by (cases x; cases y)
      (auto simp: less_eq_tenant_list_key_def less_tenant_list_key_def split: if_splits)
next
  case (2 x y)
  then show ?case by (cases x; cases y) (auto simp: less_eq_tenant_list_key_def)
next
  case (3 x c)
  then show ?case
    using sint_i64_ge [of "tk_space_id x"] sint_i64_le [of "tk_space_id x"]
    by (cases x) (auto simp: less_eq_tenant_list_key_def less_tenant_list_key_def str_less_simps)
qed

section \<open>The two scan loops\<close>

definition space_scoped_id :: "space_list_key \<Rightarrow> scoped_id" where
  "space_scoped_id k = ScopedId (sk_tenant_id k) (sk_space_id k) (sk_candidate_id k)"

definition tenant_scoped_id :: "tenant_list_key \<Rightarrow> scoped_id" where
  "tenant_scoped_id k = ScopedId (tk_tenant_id k) (tk_space_id k) (tk_candidate_id k)"

lemma scoped_id_of_key [simp]:
  "space_scoped_id (space_key_of k) = k" "tenant_scoped_id (tenant_key_of k) = k"
  "si_id (space_scoped_id x) = sk_candidate_id x" "si_id (tenant_scoped_id y) = tk_candidate_id y"
  by (simp_all add: space_scoped_id_def tenant_scoped_id_def space_key_of_def tenant_key_of_def)

lemma key_of_fields [simp]:
  "sk_tenant_id (space_key_of k) = si_tenant_id k" "sk_space_id (space_key_of k) = si_space_id k"
  "sk_candidate_id (space_key_of k) = si_id k" "tk_tenant_id (tenant_key_of k) = si_tenant_id k"
  "tk_candidate_id (tenant_key_of k) = si_id k"
  by (simp_all add: space_key_of_def tenant_key_of_def)

lemma scan_space_keys_spec:
  assumes "length acc \<le> page"
  shows "scan_space_keys t s page acc ks = acc @ take (Suc page - length acc)
    (map space_scoped_id (takeWhile (\<lambda>k. sk_tenant_id k = t \<and> sk_space_id k = s) ks))"
  using assms
proof (induction t s page acc ks rule: scan_space_keys.induct)
  case (2 t s page acc k ks)
  show ?case
  proof (cases "length acc < page")
    case True
    then show ?thesis
      using 2 by (auto simp: Let_def space_scoped_id_def Suc_diff_le simp flip: Suc_diff_Suc)
  next
    case False
    then have "length acc = page" using 2 by simp
    then show ?thesis by (auto simp: Let_def space_scoped_id_def)
  qed
qed simp

lemma scan_tenant_keys_spec:
  assumes "length acc \<le> page" and "distinct (map tk_candidate_id (takeWhile (\<lambda>k. tk_tenant_id k = t) ks))"
    and "\<And>p. prev = Some p \<Longrightarrow> p \<notin> tk_candidate_id ` set (takeWhile (\<lambda>k. tk_tenant_id k = t) ks)"
  shows "scan_tenant_keys t page prev acc ks = Inr (acc @ take (Suc page - length acc)
    (map tenant_scoped_id (takeWhile (\<lambda>k. tk_tenant_id k = t) ks)))"
  using assms
proof (induction t page prev acc ks rule: scan_tenant_keys.induct)
  case (2 t page prev acc k ks)
  show ?case
  proof (cases "length acc < page")
    case True
    then show ?thesis
      using 2 by (auto simp: Let_def tenant_scoped_id_def Suc_diff_le simp flip: Suc_diff_Suc)
  next
    case False
    then have "length acc = page" using 2 by simp
    then show ?thesis using 2 by (auto simp: Let_def tenant_scoped_id_def)
  qed
qed simp

section \<open>Pages\<close>

definition query_covers :: "list_candidates_query \<Rightarrow> scoped_id \<Rightarrow> bool" where
  "query_covers q k \<longleftrightarrow>
     si_tenant_id k = lq_tenant_id q \<and> (case lq_space_id q of None \<Rightarrow> True | Some s \<Rightarrow> si_space_id k = s)"

definition listed_ids :: "list_candidates_query \<Rightarrow> string \<Rightarrow> reference_runtime \<Rightarrow> string set" where
  "listed_ids q c rt = {si_id k | k. k \<in> cand_keys rt \<and> query_covers q k \<and> (c = [] \<or> c < si_id k)}"

definition query_cursor :: "list_candidates_query \<Rightarrow> string" where
  "query_cursor q = (case lq_cursor q of None \<Rightarrow> [] | Some c \<Rightarrow> c)"

text \<open>A tenant-wide listing needs ids that are unique across the tenant's spaces.\<close>

definition listable :: "list_candidates_query \<Rightarrow> reference_runtime \<Rightarrow> bool" where
  "listable q rt \<longleftrightarrow>
     (case lq_space_id q of None \<Rightarrow> \<not> two_spaces (cand_keys rt) (lq_tenant_id q) | Some _ \<Rightarrow> True)"

lemma finite_listed_ids [simp]: "finite (listed_ids q c rt)"
  by (rule finite_subset [of _ "si_id ` cand_keys rt"]) (auto simp: listed_ids_def cand_keys_def)

lemma list_keys_space:
  assumes inv: "cand_inv rt" and free: "locks_free rt" and q: "lq_space_id q = Some s"
  shows "\<exists>keys. list_keys page q rt = (Inr keys, rt) \<and>
    map si_id keys = take (Suc page) (sorted_list_of_set (listed_ids q (query_cursor q) rt)) \<and>
    set keys \<subseteq> {k \<in> cand_keys rt. query_covers q k}"
proof -
  let ?t = "lq_tenant_id q" and ?index = "rm_candidate_space_listing_index rt" and ?c = "query_cursor q"
  let ?own = "\<lambda>k. sk_tenant_id k = ?t \<and> sk_space_id k = s"
  let ?ks = "takeWhile ?own (space_range_from ?t s ?c ?index)"
  have ok: "bs_ok ?index" and set_index: "set ?index = space_key_of ` cand_keys rt"
    using inv by (auto simp: cand_inv_def)
  have inj: "inj_on sk_candidate_id {x \<in> set ?index. ?own x}"
    by (auto simp: inj_on_def space_list_key.expand)
  have range: "space_range_from ?t s ?c ?index =
      filter (\<lambda>k. if ?c = [] then SpaceListKey ?t s [] \<le> k else SpaceListKey ?t s ?c < k) ?index"
    by (simp add: space_range_from_def)
  have "map sk_candidate_id ?ks =
      sorted_list_of_set {sk_candidate_id x | x. x \<in> set ?index \<and> ?own x \<and> (?c = [] \<or> ?c < sk_candidate_id x)}"
    unfolding range by (rule space_scan.scan_ids [OF ok inj])
  also have "{sk_candidate_id x | x. x \<in> set ?index \<and> ?own x \<and> (?c = [] \<or> ?c < sk_candidate_id x)} =
      listed_ids q ?c rt"
    by (force simp: set_index listed_ids_def query_covers_def q)
  finally have ids: "map sk_candidate_id ?ks = sorted_list_of_set (listed_ids q ?c rt)" .
  have sub: "set (map space_scoped_id ?ks) \<subseteq> {k \<in> cand_keys rt. query_covers q k}"
    using set_index
    by (auto simp: space_range_from_def query_covers_def q dest!: set_takeWhileD split: if_splits)
  have "list_keys page q rt = (Inr (take (Suc page) (map space_scoped_id ?ks)), rt)"
    using free by (simp add: list_keys_def q locks_free_def query_cursor_def scan_space_keys_spec Let_def)
  moreover have "map si_id (take (Suc page) (map space_scoped_id ?ks)) =
      take (Suc page) (sorted_list_of_set (listed_ids q ?c rt))"
    using ids by (simp add: comp_def flip: take_map)
  ultimately show ?thesis
    using sub set_take_subset [of "Suc page" "map space_scoped_id ?ks"] by blast
qed

lemma unique_in_tenant:
  assumes "\<not> two_spaces ks t" and "k \<in> ks" and "k' \<in> ks"
    and "si_tenant_id k = t" and "si_tenant_id k' = t" and "si_id k = si_id k'"
  shows "k = k'"
  using assms unfolding two_spaces_def by metis

lemma list_keys_tenant:
  assumes inv: "cand_inv rt" and free: "locks_free rt" and q: "lq_space_id q = None"
    and unique: "\<not> two_spaces (cand_keys rt) (lq_tenant_id q)"
  shows "\<exists>keys. list_keys page q rt = (Inr keys, rt) \<and>
    map si_id keys = take (Suc page) (sorted_list_of_set (listed_ids q (query_cursor q) rt)) \<and>
    set keys \<subseteq> {k \<in> cand_keys rt. query_covers q k}"
proof -
  let ?t = "lq_tenant_id q" and ?index = "rm_candidate_listing_index rt" and ?c = "query_cursor q"
  let ?own = "\<lambda>k. tk_tenant_id k = ?t"
  let ?ks = "takeWhile ?own (tenant_range_from ?t ?c ?index)"
  have ok: "bs_ok ?index" and set_index: "set ?index = tenant_key_of ` cand_keys rt"
    and clear: "?t \<notin> rm_candidate_listing_ambiguous_tenants rt"
    using inv unique by (auto simp: cand_inv_def)
  have inj: "inj_on tk_candidate_id {x \<in> set ?index. ?own x}"
    unfolding set_index
    by (auto simp: inj_on_def dest: unique_in_tenant [OF unique])
  have range: "tenant_range_from ?t ?c ?index =
      filter (\<lambda>k. if ?c = [] then TenantListKey ?t [] i64_min \<le> k else TenantListKey ?t ?c i64_max < k) ?index"
    by (simp add: tenant_range_from_def)
  have "map tk_candidate_id ?ks =
      sorted_list_of_set {tk_candidate_id x | x. x \<in> set ?index \<and> ?own x \<and> (?c = [] \<or> ?c < tk_candidate_id x)}"
    unfolding range by (rule tenant_scan.scan_ids [OF ok inj])
  also have "{tk_candidate_id x | x. x \<in> set ?index \<and> ?own x \<and> (?c = [] \<or> ?c < tk_candidate_id x)} =
      listed_ids q ?c rt"
    by (force simp: set_index listed_ids_def query_covers_def q)
  finally have ids: "map tk_candidate_id ?ks = sorted_list_of_set (listed_ids q ?c rt)" .
  have sub: "set (map tenant_scoped_id ?ks) \<subseteq> {k \<in> cand_keys rt. query_covers q k}"
    using set_index
    by (auto simp: tenant_range_from_def query_covers_def q dest!: set_takeWhileD split: if_splits)
  have "scan_tenant_keys ?t page None [] (tenant_range_from ?t ?c ?index) =
      Inr ([] @ take (Suc page - length ([] :: scoped_id list)) (map tenant_scoped_id ?ks))"
    by (rule scan_tenant_keys_spec) (simp_all add: ids)
  then have "list_keys page q rt = (Inr (take (Suc page) (map tenant_scoped_id ?ks)), rt)"
    using free clear by (simp add: list_keys_def q locks_free_def query_cursor_def Let_def)
  moreover have "map si_id (take (Suc page) (map tenant_scoped_id ?ks)) =
      take (Suc page) (sorted_list_of_set (listed_ids q ?c rt))"
    using ids by (simp add: comp_def flip: take_map)
  ultimately show ?thesis
    using sub set_take_subset [of "Suc page" "map tenant_scoped_id ?ks"] by blast
qed

lemma list_keys_spec:
  assumes "cand_inv rt" and "locks_free rt" and "listable q rt"
  shows "\<exists>keys. list_keys page q rt = (Inr keys, rt) \<and>
    map si_id keys = take (Suc page) (sorted_list_of_set (listed_ids q (query_cursor q) rt)) \<and>
    set keys \<subseteq> {k \<in> cand_keys rt. query_covers q k}"
  using list_keys_space [OF assms(1,2)] list_keys_tenant [OF assms(1,2)] assms(3)
  by (cases "lq_space_id q") (auto simp: listable_def)

section \<open>The page and the walk over all pages\<close>

text \<open>An item shows the stored candidate and its stamps, under a key the query covers.\<close>

definition shows_candidate :: "list_candidates_query \<Rightarrow> reference_runtime \<Rightarrow> candidate_summary \<Rightarrow> bool" where
  "shows_candidate q rt item \<longleftrightarrow>
     (\<exists>k cand ts. query_covers q k \<and> hm_get (rm_candidates rt) k = Some cand \<and>
        hm_get (rm_candidate_timestamps rt) k = Some ts \<and> item = candidate_summary_of k cand ts)"

lemma summarize_keys_spec:
  assumes inv: "cand_inv rt" and "set ks \<subseteq> {k \<in> cand_keys rt. query_covers q k}"
  shows "\<exists>items. summarize_keys rt ks = Inr items \<and> map cs_candidate_id items = map si_id ks \<and>
    list_all (shows_candidate q rt) items"
  using assms(2)
proof (induction ks)
  case (Cons k ks)
  then obtain items where items: "summarize_keys rt ks = Inr items"
    "map cs_candidate_id items = map si_id ks" "list_all (shows_candidate q rt) items" by auto
  have "k \<in> cand_keys rt" and covers: "query_covers q k" using Cons.prems by auto
  then have "hm_contains (rm_candidates rt) k" "hm_contains (rm_candidate_timestamps rt) k"
    using inv by (auto simp: in_cand_keys cand_inv_def)
  then obtain cand ts where got: "hm_get (rm_candidates rt) k = Some cand"
    "hm_get (rm_candidate_timestamps rt) k = Some ts"
    unfolding hm_contains_def by blast
  then have "mc_candidate_id cand = si_id k"
    using inv by (simp add: cand_inv_def)
  moreover have "shows_candidate q rt (candidate_summary_of k cand ts)"
    using got covers unfolding shows_candidate_def by blast
  ultimately show ?case
    using got items by (simp add: candidate_summary_of_def)
qed simp

definition page_of :: "nat \<Rightarrow> string list \<Rightarrow> candidate_summary list \<Rightarrow> candidate_page" where
  "page_of n ids items =
     \<lparr>pg_items = items, pg_has_more = n < length ids,
      pg_next_cursor = (if n < length ids \<and> 0 < n then Some (ids ! (n - 1)) else None)\<rparr>"

lemma candidate_list_spec:
  fixes max_page :: nat
  assumes inv: "cand_inv rt" and free: "locks_free rt" and ok: "listable q rt"
  defines "n \<equiv> clamp_page max_page (lq_page_size q)"
    and "ids \<equiv> sorted_list_of_set (listed_ids q (query_cursor q) rt)"
  shows "\<exists>items. candidate_list max_page q rt = (Inr (page_of n ids items), rt) \<and>
    map cs_candidate_id items = take n ids \<and> list_all (shows_candidate q rt) items"
proof -
  obtain keys where keys: "list_keys n q rt = (Inr keys, rt)"
    "map si_id keys = take (Suc n) ids" "set keys \<subseteq> {k \<in> cand_keys rt. query_covers q k}"
    using list_keys_spec [OF inv free ok, of n] unfolding ids_def by blast
  have "set (take n keys) \<subseteq> {k \<in> cand_keys rt. query_covers q k}"
    using keys(3) set_take_subset [of n keys] by blast
  from summarize_keys_spec [OF inv this] obtain items where
    items: "summarize_keys rt (take n keys) = Inr items"
      "map cs_candidate_id items = map si_id (take n keys)" "list_all (shows_candidate q rt) items"
    by blast
  have take: "map cs_candidate_id items = take n ids"
    using items(2) keys(2) by (simp add: take_map [symmetric])
  have len: "length keys = min (Suc n) (length ids)"
    using arg_cong [OF keys(2), of length] by (simp add: min.commute)
  have last: "cs_candidate_id (last items) = ids ! (n - 1)" if "n < length ids" "0 < n"
  proof -
    have "items \<noteq> []" using take that by (metis length_map length_take length_greater_0_conv min.absorb4)
    then have "cs_candidate_id (last items) = last (take n ids)"
      using take by (metis last_map)
    moreover have "last (take n ids) = ids ! (n - 1)"
      using that by (subst last_conv_nth) auto
    ultimately show ?thesis by simp
  qed
  have nonempty: "items \<noteq> [] \<longleftrightarrow> 0 < n" if "n < length ids"
    using arg_cong [OF take, of length] that by auto
  have "candidate_list max_page q rt = (Inr (page_of n ids items), rt)"
    using free keys(1) items(1) last nonempty len
    unfolding candidate_list_def n_def [symmetric] Let_def
    by (auto simp: locks_free_def page_of_def)
  then show ?thesis using take items(3) by blast
qed

fun walk_pages :: "nat \<Rightarrow> nat \<Rightarrow> list_candidates_query \<Rightarrow> reference_runtime \<Rightarrow> string list option" where
  "walk_pages 0 max_page q rt = None"
| "walk_pages (Suc fuel) max_page q rt =
     (case candidate_list max_page q rt of
        (Inl e, _) \<Rightarrow> None
      | (Inr p, rt') \<Rightarrow>
          (case pg_next_cursor p of
             None \<Rightarrow> Some (map cs_candidate_id (pg_items p))
           | Some c \<Rightarrow> map_option ((@) (map cs_candidate_id (pg_items p)))
               (walk_pages fuel max_page (q\<lparr>lq_cursor := Some c\<rparr>) rt')))"

lemma sorted_list_drop:
  fixes S :: "string set"
  assumes "finite S" and "0 < n" and "n < card S"
  shows "sorted_list_of_set {x \<in> S. sorted_list_of_set S ! (n - 1) < x} = drop n (sorted_list_of_set S)"
proof -
  let ?l = "sorted_list_of_set S"
  have len: "length ?l = card S" by simp
  have strict: "sorted_wrt (<) ?l" by (rule strict_sorted_list_of_set)
  have "set (drop n ?l) = {x \<in> S. ?l ! (n - 1) < x}"
  proof (intro set_eqI iffI)
    fix x assume "x \<in> set (drop n ?l)"
    then obtain i where i: "i < length (drop n ?l)" "x = drop n ?l ! i" by (metis in_set_conv_nth)
    then have x: "x = ?l ! (n + i)" "n + i < length ?l" by auto
    then have "?l ! (n - 1) < x"
      using strict assms(2) by (simp add: sorted_wrt_nth_less)
    moreover have "x \<in> S" using x nth_mem [of "n + i" ?l] assms(1) by simp
    ultimately show "x \<in> {x \<in> S. ?l ! (n - 1) < x}" by simp
  next
    fix x assume x: "x \<in> {x \<in> S. ?l ! (n - 1) < x}"
    then have "x \<in> set ?l" using assms(1) by simp
    then obtain i where i: "i < length ?l" "x = ?l ! i" by (metis in_set_conv_nth)
    have "n \<le> i"
    proof (rule ccontr)
      assume "\<not> n \<le> i"
      then have "?l ! i \<le> ?l ! (n - 1)"
        using assms len by (intro sorted_nth_mono) auto
      then show False using x i by (auto dest: leD)
    qed
    then have "drop n ?l ! (i - n) = x" and "i - n < length (drop n ?l)"
      using i by auto
    then show "x \<in> set (drop n ?l)"
      by (metis nth_mem)
  qed
  moreover have "sorted_list_of_set (set (drop n ?l)) = drop n ?l"
    by (rule sorted_list_of_set.idem_if_sorted_distinct) (simp_all add: sorted_wrt_drop)
  ultimately show ?thesis by simp
qed

lemma listed_ids_next:
  "c \<noteq> [] \<Longrightarrow> c \<in> listed_ids q d rt \<Longrightarrow>
    listed_ids (q\<lparr>lq_cursor := Some c\<rparr>) c rt = {x \<in> listed_ids q d rt. c < x}"
  by (auto simp: listed_ids_def query_covers_def)

lemma walk_pages_complete:
  assumes "cand_inv rt" and "locks_free rt" and "listable q rt" and "0 < max_page"
    and "[] \<notin> si_id ` cand_keys rt" and "card (listed_ids q (query_cursor q) rt) < fuel"
  shows "walk_pages fuel max_page q rt = Some (sorted_list_of_set (listed_ids q (query_cursor q) rt))"
  using assms(3,6)
proof (induction fuel arbitrary: q)
  case (Suc fuel)
  let ?S = "listed_ids q (query_cursor q) rt"
  let ?ids = "sorted_list_of_set ?S" and ?n = "clamp_page max_page (lq_page_size q)"
  have n: "0 < ?n" using assms(4) by (simp add: clamp_page_def)
  obtain items where run: "candidate_list max_page q rt = (Inr (page_of ?n ?ids items), rt)"
    and items: "map cs_candidate_id items = take ?n ?ids"
    using candidate_list_spec [OF assms(1,2) Suc.prems(1)] by blast
  show ?case
  proof (cases "?n < card ?S")
    case False
    then show ?thesis using run items by (simp add: page_of_def)
  next
    case True
    let ?c = "?ids ! (?n - 1)" and ?q = "q\<lparr>lq_cursor := Some (?ids ! (?n - 1))\<rparr>"
    have c: "?c \<in> ?S"
      using True n nth_mem [of "?n - 1" ?ids] by simp
    moreover have "[] \<notin> ?S"
      using assms(5) by (auto simp: listed_ids_def image_iff)
    ultimately have "?c \<noteq> []" by metis
    from this c have next_ids: "listed_ids ?q ?c rt = {x \<in> ?S. ?c < x}"
      by (rule listed_ids_next)
    then have drop: "sorted_list_of_set (listed_ids ?q (query_cursor ?q) rt) = drop ?n ?ids"
      using sorted_list_drop [OF finite_listed_ids n True] by (simp add: query_cursor_def)
    have "card {x \<in> ?S. ?c < x} < card ?S"
      using c by (intro psubset_card_mono) auto
    then have "card (listed_ids ?q (query_cursor ?q) rt) < fuel"
      using next_ids Suc.prems(2) by (simp add: query_cursor_def)
    moreover have "listable ?q rt"
      using Suc.prems(1) by (simp add: listable_def split: option.splits)
    ultimately have "walk_pages fuel max_page ?q rt = Some (drop ?n ?ids)"
      using Suc.IH drop by metis
    then show ?thesis using run items True n by (simp add: page_of_def)
  qed
qed simp

end
