(* ===== verification/Reference_Records.thy ===== *)
theory Reference_Records
  imports Reference_State
begin

text \<open>
  \<^verbatim>\<open>MemoryRecordStorePort\<close> of the reference runtime: plain and canonical creation, quota
  admission, supersede, update, delete, bulk delete and the reads. \<^verbatim>\<open>now\<close> arguments are the
  readings of the external clock, in the order the code takes them; \<^verbatim>\<open>from_str\<close> is the JSON
  parser. The lemmas give each operation's result on every branch, its effect on the
  stores, and which operations are atomic.
\<close>

section \<open>Operations\<close>

definition record_create :: "create_record_command \<Rightarrow> memory_record rt_op" where
  "record_create c =
     (let r = \<lparr>mr_memory_id = crc_memory_id c, mr_content = crc_content c\<rparr>;
          key = scoped_id_new (crc_scope c) (crc_memory_id c)
      in with_lock RecordsLock (\<lambda>rt. (Inr r, put_record key (state_active r) rt)))"

definition record_retrieve :: "scoped_id_query \<Rightarrow> memory_record option rt_op" where
  "record_retrieve q =
     (let key = scoped_id_new (sq_scope q) (sq_id q)
      in with_lock RecordsLock (\<lambda>rt.
           (Inr (Option.bind (hm_get (rm_records rt) key) visible_record), rt)))"

definition record_mark_deleted :: "scoped_id_query \<Rightarrow> deletion_receipt rt_op" where
  "record_mark_deleted q =
     (let key = scoped_id_new (sq_scope q) (sq_id q)
      in with_lock RecordsLock (\<lambda>rt.
           case hm_get (rm_records rt) key of
             None \<Rightarrow>
               (Inr \<lparr>dr_memory_id = sq_id q, dr_deleted = False, dr_already_deleted = False\<rparr>, rt)
           | Some s \<Rightarrow>
               (Inr \<lparr>dr_memory_id = sq_id q, dr_deleted = True, dr_already_deleted = ms_deleted s\<rparr>,
                modify_record key (\<lambda>s. s\<lparr>ms_deleted := True\<rparr>) rt)))"

definition created_canonical :: "create_canonical_command \<Rightarrow> string \<Rightarrow> canonical_record" where
  "created_canonical c now =
     \<lparr>cr_memory_id = cc_memory_id c, cr_space_id = sc_space_id (cc_scope c),
      cr_user_id = sc_user_id (cc_scope c), cr_scope_label = cc_scope_label c,
      cr_memory_type = cc_memory_type c, cr_subject = cc_subject c,
      cr_predicate = (case cc_predicate c of None \<Rightarrow> Some ''is'' | Some p \<Rightarrow> Some p),
      cr_object_text = cc_object_text c, cr_canonical_text = cc_canonical_text c,
      cr_confidence = f64_one, cr_evidence_count = 1, cr_contradiction_count = 0,
      cr_status = ''active'', cr_sensitivity_level = cc_sensitivity_level c,
      cr_supersedes_memory_id = None, cr_superseded_by_memory_id = None,
      cr_created_at = now, cr_updated_at = now, cr_version = 1,
      cr_expires_at = cc_expires_at c, cr_metadata_json = cc_metadata_json c\<rparr>"

definition record_create_canonical_with_quota ::
  "create_canonical_command \<Rightarrow> nat \<Rightarrow> string \<Rightarrow> canonical_record record_admission rt_op" where
  "record_create_canonical_with_quota c max_active now rt =
     (case validate_memory_journal (cc_memory_id c) (cc_journal c) of
        Some e \<Rightarrow> (Inl e, rt)
      | None \<Rightarrow>
          (let canonical = created_canonical c now;
               key = scoped_id_new (cc_scope c) (cc_memory_id c);
               (ok, ob, ak, au) = reference_journal_entries (cc_scope c) (cc_journal c)
           in with_lock RecordsLock (\<lambda>rt.
             let active = active_records (cc_scope c) rt
             in if 0 < max_active \<and> max_active \<le> active
                then (Inr (QuotaExceeded active max_active), rt)
                else with_lock OutboxLock (with_lock AuditsLock (\<lambda>rt.
                  (Inr (Admitted canonical),
                   put_audit ak au (put_outbox ok ob
                     (put_record key (state_active_canonical canonical) rt))))) rt) rt))"

definition record_create_canonical ::
  "create_canonical_command \<Rightarrow> string \<Rightarrow> canonical_record rt_op" where
  "record_create_canonical c now rt =
     (case record_create_canonical_with_quota c 0 now rt of
        (Inl e, rt') \<Rightarrow> (Inl e, rt')
      | (Inr (Admitted r), rt') \<Rightarrow> (Inr r, rt')
      | (Inr (QuotaExceeded _ _), rt') \<Rightarrow>
          (Inl (record_error ''unlimited canonical memory mutation was rejected by quota admission''),
           rt'))"

definition reference_supersede_target_matches ::
  "canonical_record \<Rightarrow> supersede_command \<Rightarrow> bool" where
  "reference_supersede_target_matches r c \<longleftrightarrow>
     cr_space_id r = sc_space_id (su_scope c) \<and> cr_user_id r = sc_user_id (su_scope c) \<and>
     cr_scope_label r = su_scope_label c \<and> cr_memory_type r = su_memory_type c \<and>
     cr_subject r = su_subject c \<and>
     cr_predicate r = Some (case su_predicate c of None \<Rightarrow> ''is'' | Some p \<Rightarrow> p) \<and>
     cr_object_text r = su_object_text c \<and> cr_canonical_text r = su_canonical_text c \<and>
     cr_sensitivity_level r = su_sensitivity_level c"

text \<open>One iteration of the loop over \<^verbatim>\<open>[created, superseded]\<close>.\<close>

definition journal_stored ::
  "(string \<Rightarrow> 'j option) \<Rightarrow> scope_context \<Rightarrow> reference_runtime \<Rightarrow> mutation_journal \<Rightarrow> bool" where
  "journal_stored from_str sc rt j =
     (let (ok, eo, ak, ea) = reference_journal_entries sc j
      in case hm_get (rm_outbox rt) ok of
           None \<Rightarrow> False
         | Some ao \<Rightarrow>
             if ob_aggregate_type ao \<noteq> ob_aggregate_type eo \<or>
                ob_aggregate_id ao \<noteq> ob_aggregate_id eo \<or>
                ob_event_type ao \<noteq> ob_event_type eo \<or>
                ob_event_version ao \<noteq> ob_event_version eo \<or>
                \<not> reference_journal_payload_matches from_str (ob_payload_json ao) (ob_payload_json eo)
             then False
             else (case hm_get (rm_audits rt) ak of None \<Rightarrow> False | Some aa \<Rightarrow> aa = ea))"

definition reference_supersede_journals_match ::
  "(string \<Rightarrow> 'j option) \<Rightarrow> scope_context \<Rightarrow> mutation_journal \<Rightarrow> mutation_journal \<Rightarrow> bool rt_op" where
  "reference_supersede_journals_match from_str sc created superseded =
     with_lock OutboxLock (with_lock AuditsLock (\<lambda>rt.
       (Inr (journal_stored from_str sc rt created \<and> journal_stored from_str sc rt superseded), rt)))"

definition superseding_canonical :: "supersede_command \<Rightarrow> string \<Rightarrow> canonical_record" where
  "superseding_canonical c now =
     \<lparr>cr_memory_id = su_new_memory_id c, cr_space_id = sc_space_id (su_scope c),
      cr_user_id = sc_user_id (su_scope c), cr_scope_label = su_scope_label c,
      cr_memory_type = su_memory_type c, cr_subject = su_subject c,
      cr_predicate = (case su_predicate c of None \<Rightarrow> Some ''is'' | Some p \<Rightarrow> Some p),
      cr_object_text = su_object_text c, cr_canonical_text = su_canonical_text c,
      cr_confidence = f64_one, cr_evidence_count = 1, cr_contradiction_count = 0,
      cr_status = ''active'', cr_sensitivity_level = su_sensitivity_level c,
      cr_supersedes_memory_id = Some (su_old_memory_id c), cr_superseded_by_memory_id = None,
      cr_created_at = now, cr_updated_at = now, cr_version = 1,
      cr_expires_at = su_expires_at c, cr_metadata_json = su_metadata_json c\<rparr>"

definition mark_superseded :: "string \<Rightarrow> string \<Rightarrow> record_state \<Rightarrow> record_state" where
  "mark_superseded new_id now s =
     s\<lparr>ms_canonical := map_option (\<lambda>r. r\<lparr>cr_status := ''superseded'',
         cr_superseded_by_memory_id := Some new_id, cr_updated_at := now,
         cr_version := cr_version r + 1\<rparr>) (ms_canonical s)\<rparr>"

text \<open>The checks of the supersede command itself, before any lock.\<close>

definition supersede_command_error :: "supersede_command \<Rightarrow> spi_error option" where
  "supersede_command_error c =
     (case validate_memory_journal (su_new_memory_id c) (su_created_journal c) of
        Some e \<Rightarrow> Some e
      | None \<Rightarrow>
       (case validate_memory_journal (su_old_memory_id c) (su_superseded_journal c) of
          Some e \<Rightarrow> Some e
        | None \<Rightarrow>
            if mj_outbox_id (su_created_journal c) = mj_outbox_id (su_superseded_journal c) \<or>
               mj_audit_id (su_created_journal c) = mj_audit_id (su_superseded_journal c)
            then Some (record_error ''supersede journals must use distinct outbox and audit ids'')
            else if su_old_memory_id c = su_new_memory_id c
            then Some (record_error ''supersede source and target memory ids must differ'')
            else None))"

text \<open>The target exists as the live end of exactly the requested chain.\<close>

definition supersede_replay :: "supersede_command \<Rightarrow> record_state \<Rightarrow> canonical_record \<Rightarrow>
    record_state \<Rightarrow> canonical_record \<Rightarrow> bool" where
  "supersede_replay c old_state old_canonical new_state existing \<longleftrightarrow>
     \<not> ms_deleted new_state \<and> cr_status existing = ''active'' \<and>
     cr_supersedes_memory_id existing = Some (su_old_memory_id c) \<and>
     cr_superseded_by_memory_id existing = None \<and> \<not> ms_deleted old_state \<and>
     cr_status old_canonical = ''superseded'' \<and>
     cr_superseded_by_memory_id old_canonical = Some (su_new_memory_id c)"

definition supersede_incompatible :: "supersede_command \<Rightarrow> spi_error" where
  "supersede_incompatible c =
     record_error (''supersede target memory '' @ su_new_memory_id c @
       '' already exists with an incompatible chain'')"

text \<open>The branch for a target that already exists.\<close>

definition supersede_existing :: "(string \<Rightarrow> 'j option) \<Rightarrow> supersede_command \<Rightarrow> record_state \<Rightarrow>
    canonical_record \<Rightarrow> record_state \<Rightarrow> canonical_record record_admission rt_op" where
  "supersede_existing from_str c old_state old_canonical new_state rt =
     (case ms_canonical new_state of
        None \<Rightarrow> (Inl (supersede_incompatible c), rt)
      | Some existing \<Rightarrow>
          if supersede_replay c old_state old_canonical new_state existing
          then (if \<not> reference_supersede_target_matches existing c
                then (Inl (IdempotencyConflict (su_new_memory_id c)), rt)
                else (case reference_supersede_journals_match from_str (su_scope c)
                        (su_created_journal c) (su_superseded_journal c) rt of
                    (Inl e, rt') \<Rightarrow> (Inl e, rt')
                  | (Inr b, rt') \<Rightarrow>
                      if b then (Inr (Admitted existing), rt')
                      else (Inl (IdempotencyConflict (su_new_memory_id c)), rt')))
          else (Inl (supersede_incompatible c), rt))"

text \<open>The writes, once every check has passed.\<close>

definition supersede_apply :: "supersede_command \<Rightarrow> string \<Rightarrow> reference_runtime \<Rightarrow> reference_runtime" where
  "supersede_apply c now rt =
     (let old_key = scoped_id_new (su_scope c) (su_old_memory_id c);
          new_key = scoped_id_new (su_scope c) (su_new_memory_id c);
          (cok, cob, cak, cau) = reference_journal_entries (su_scope c) (su_created_journal c);
          (sok, sob, sak, sau) = reference_journal_entries (su_scope c) (su_superseded_journal c)
      in put_audit cak cau (put_outbox cok cob (put_audit sak sau (put_outbox sok sob
           (put_record new_key (state_active_canonical (superseding_canonical c now))
             (modify_record old_key (mark_superseded (su_new_memory_id c) now) rt))))))"

text \<open>The journal ids of the command are taken.\<close>

definition supersede_journal_taken :: "supersede_command \<Rightarrow> reference_runtime \<Rightarrow> bool" where
  "supersede_journal_taken c rt \<longleftrightarrow>
     hm_contains (rm_outbox rt) (scoped_id_new (su_scope c) (mj_outbox_id (su_created_journal c))) \<or>
     hm_contains (rm_outbox rt) (scoped_id_new (su_scope c) (mj_outbox_id (su_superseded_journal c))) \<or>
     hm_contains (rm_audits rt) (scoped_id_new (su_scope c) (mj_audit_id (su_created_journal c))) \<or>
     hm_contains (rm_audits rt) (scoped_id_new (su_scope c) (mj_audit_id (su_superseded_journal c)))"

definition supersede_fresh :: "supersede_command \<Rightarrow> nat \<Rightarrow> string \<Rightarrow> record_state \<Rightarrow>
    canonical_record \<Rightarrow> canonical_record record_admission rt_op" where
  "supersede_fresh c max_active now old_state old_canonical rt =
     (if ms_deleted old_state \<or> cr_status old_canonical \<noteq> ''active''
      then (Inl (record_error (''supersede source memory '' @ su_old_memory_id c @ '' is not active'')), rt)
      else let active = active_records (su_scope c) rt
      in if 0 < max_active \<and> max_active \<le> active
         then (Inr (QuotaExceeded active max_active), rt)
         else with_lock OutboxLock (with_lock AuditsLock (\<lambda>rt.
           if supersede_journal_taken c rt
           then (Inl (IdempotencyConflict (su_new_memory_id c)), rt)
           else (Inr (Admitted (superseding_canonical c now)), supersede_apply c now rt))) rt)"

definition record_supersede_with_quota :: "(string \<Rightarrow> 'j option) \<Rightarrow> supersede_command \<Rightarrow> nat \<Rightarrow>
    string \<Rightarrow> canonical_record record_admission rt_op" where
  "record_supersede_with_quota from_str c max_active now rt =
     (case supersede_command_error c of
        Some e \<Rightarrow> (Inl e, rt)
      | None \<Rightarrow>
        with_lock RecordsLock (\<lambda>rt.
          case hm_get (rm_records rt) (scoped_id_new (su_scope c) (su_old_memory_id c)) of
            None \<Rightarrow>
              (Inl (record_error (''supersede source memory '' @ su_old_memory_id c @ '' not found'')), rt)
          | Some old_state \<Rightarrow>
            (case ms_canonical old_state of
               None \<Rightarrow> (Inl atomic_record_state_missing, rt)
             | Some old_canonical \<Rightarrow>
               (case hm_get (rm_records rt) (scoped_id_new (su_scope c) (su_new_memory_id c)) of
                  Some new_state \<Rightarrow> supersede_existing from_str c old_state old_canonical new_state rt
                | None \<Rightarrow> supersede_fresh c max_active now old_state old_canonical rt))) rt)"

definition record_retrieve_canonical :: "scoped_id_query \<Rightarrow> canonical_record option rt_op" where
  "record_retrieve_canonical q =
     (let key = scoped_id_new (sq_scope q) (sq_id q)
      in with_lock RecordsLock (\<lambda>rt.
           (Inr (Option.bind (hm_get (rm_records rt) key) visible_canonical), rt)))"

definition update_canonical_record ::
  "update_canonical_command \<Rightarrow> string \<Rightarrow> canonical_record \<Rightarrow> canonical_record" where
  "update_canonical_record c now r =
     (let r1 = (case uc_canonical_text c of None \<Rightarrow> r
                | Some t \<Rightarrow> r\<lparr>cr_canonical_text := t, cr_object_text := t\<rparr>);
          r2 = (case uc_subject c of None \<Rightarrow> r1 | Some s \<Rightarrow> r1\<lparr>cr_subject := Some s\<rparr>)
      in r2\<lparr>cr_updated_at := now, cr_version := cr_version r2 + 1\<rparr>)"

definition update_record_state ::
  "update_canonical_command \<Rightarrow> string \<Rightarrow> record_state \<Rightarrow> record_state" where
  "update_record_state c now s =
     s\<lparr>ms_canonical := map_option (update_canonical_record c now) (ms_canonical s),
       ms_record := (case uc_canonical_text c of None \<Rightarrow> ms_record s
                     | Some t \<Rightarrow> (ms_record s)\<lparr>mr_content := t\<rparr>)\<rparr>"

definition record_update_canonical ::
  "update_canonical_command \<Rightarrow> string \<Rightarrow> canonical_record option rt_op" where
  "record_update_canonical c now rt =
     (case validate_memory_journal (uc_memory_id c) (uc_journal c) of
        Some e \<Rightarrow> (Inl e, rt)
      | None \<Rightarrow>
          (let key = scoped_id_new (uc_scope c) (uc_memory_id c);
               (ok, ob, ak, au) = reference_journal_entries (uc_scope c) (uc_journal c)
           in with_lock RecordsLock (\<lambda>rt.
             case hm_get (rm_records rt) key of
               None \<Rightarrow> (Inr None, rt)
             | Some s \<Rightarrow>
                 if ms_deleted s then (Inr None, rt)
                 else (case ms_canonical s of
                     None \<Rightarrow> (Inl atomic_record_state_missing, rt)
                   | Some r \<Rightarrow>
                       with_lock OutboxLock (\<lambda>rt. with_lock AuditsLock (\<lambda>rt.
                           (Inr (Some (update_canonical_record c now r)), put_audit ak au rt))
                           (put_outbox ok ob rt))
                         (modify_record key (update_record_state c now) rt))) rt))"

definition delete_record_state :: "string \<Rightarrow> record_state \<Rightarrow> record_state" where
  "delete_record_state now s =
     s\<lparr>ms_deleted := True,
       ms_canonical := map_option (\<lambda>r. r\<lparr>cr_status := ''deleted'', cr_updated_at := now,
         cr_version := cr_version r + 1\<rparr>) (ms_canonical s)\<rparr>"

definition record_delete_canonical ::
  "delete_canonical_command \<Rightarrow> string \<Rightarrow> deletion_receipt rt_op" where
  "record_delete_canonical c now rt =
     (case validate_memory_journal (dc_memory_id c) (dc_journal c) of
        Some e \<Rightarrow> (Inl e, rt)
      | None \<Rightarrow>
          (let key = scoped_id_new (dc_scope c) (dc_memory_id c);
               (ok, ob, ak, au) = reference_journal_entries (dc_scope c) (dc_journal c)
           in with_lock RecordsLock (\<lambda>rt.
             case hm_get (rm_records rt) key of
               None \<Rightarrow>
                 (Inr \<lparr>dr_memory_id = dc_memory_id c, dr_deleted = False, dr_already_deleted = False\<rparr>, rt)
             | Some s \<Rightarrow>
                 if ms_deleted s
                 then (Inr \<lparr>dr_memory_id = dc_memory_id c, dr_deleted = True, dr_already_deleted = True\<rparr>, rt)
                 else with_lock OutboxLock (\<lambda>rt. with_lock AuditsLock (\<lambda>rt.
                     (Inr \<lparr>dr_memory_id = dc_memory_id c, dr_deleted = True, dr_already_deleted = False\<rparr>,
                      put_audit ak au rt))
                     (put_outbox ok ob rt))
                   (modify_record key (delete_record_state now) rt)) rt))"

definition bulk_delete_journal :: "string \<Rightarrow> mutation_journal" where
  "bulk_delete_journal i =
     \<lparr>mj_outbox_id = ''outbox-memory-record-deleted-all-'' @ i,
      mj_aggregate_type = ''memory_record'', mj_aggregate_id = i,
      mj_event_type = ''memory.record.deleted'', mj_event_version = ''1.0'',
      mj_payload_json =
        [CHR 0x7B, CHR 0x22] @ ''memoryId'' @ [CHR 0x22, CHR 0x3A, CHR 0x22] @ i @ [CHR 0x22, CHR 0x7D],
      mj_audit_id = ''audit-memory-record-deleted-all-'' @ i,
      mj_audit_action = ''memory.record.delete'', mj_audit_resource_type = ''memory_record'',
      mj_audit_resource_id = i, mj_audit_result = ''accepted''\<rparr>"

definition bulk_match :: "delete_all_command \<Rightarrow> scoped_id \<Rightarrow> record_state \<Rightarrow> bool" where
  "bulk_match c k s \<longleftrightarrow> matches_scope k (da_scope c) \<and> \<not> ms_deleted s \<and>
     (case da_user_id c of None \<Rightarrow> True | Some u \<Rightarrow> state_user_id s = Some u)"

definition bulk_matches :: "delete_all_command \<Rightarrow> reference_runtime \<Rightarrow> scoped_id list" where
  "bulk_matches c rt = map fst (filter (\<lambda>(k, s). bulk_match c k s) (rm_records rt))"

definition bulk_delete_command :: "scoped_id \<Rightarrow> delete_canonical_command" where
  "bulk_delete_command k =
     \<lparr>dc_scope = \<lparr>sc_tenant_id = si_tenant_id k, sc_space_id = si_space_id k,
        sc_organization_id = None, sc_user_id = None\<rparr>,
      dc_memory_id = si_id k, dc_journal = bulk_delete_journal (si_id k)\<rparr>"

text \<open>The loop; \<^verbatim>\<open>now\<close> gives the clock reading of each deletion, \<^verbatim>\<open>n\<close> counts them.\<close>

fun delete_all_loop :: "(string \<Rightarrow> string) \<Rightarrow> scoped_id list \<Rightarrow> nat \<Rightarrow> nat rt_op" where
  "delete_all_loop now [] n rt = (Inr n, rt)"
| "delete_all_loop now (k # ks) n rt =
     (case record_delete_canonical (bulk_delete_command k) (now (si_id k)) rt of
        (Inl e, rt') \<Rightarrow> (Inl e, rt')
      | (Inr receipt, rt') \<Rightarrow>
          delete_all_loop now ks (if dr_deleted receipt then Suc n else n) rt')"

definition record_delete_all_canonical :: "delete_all_command \<Rightarrow> (string \<Rightarrow> string) \<Rightarrow> nat rt_op" where
  "record_delete_all_canonical c now =
     with_lock RecordsLock (\<lambda>rt. delete_all_loop now (bulk_matches c rt) 0 rt)"

section \<open>Creation\<close>

lemmas create_unfold = record_create_canonical_with_quota_def reference_journal_entries_def
  Let_def with_lock_def

text \<open>The stores hold the outbox event and the audit record of a journal.\<close>

definition journal_recorded :: "scope_context \<Rightarrow> mutation_journal \<Rightarrow> reference_runtime \<Rightarrow> bool" where
  "journal_recorded sc j rt \<longleftrightarrow>
     hm_get (rm_outbox rt) (scoped_id_new sc (mj_outbox_id j)) = Some (journal_outbox j) \<and>
     hm_get (rm_audits rt) (scoped_id_new sc (mj_audit_id j)) = Some (journal_audit j)"

lemma create_Admitted:
  "record_create_canonical_with_quota c m now rt = (Inr (Admitted r), rt') \<longleftrightarrow>
     validate_memory_journal (cc_memory_id c) (cc_journal c) = None \<and>
     RecordsLock \<notin> rm_poisoned rt \<and> OutboxLock \<notin> rm_poisoned rt \<and> AuditsLock \<notin> rm_poisoned rt \<and>
     \<not> (0 < m \<and> m \<le> active_records (cc_scope c) rt) \<and> r = created_canonical c now \<and>
     rt' = put_audit (scoped_id_new (cc_scope c) (mj_audit_id (cc_journal c)))
             (journal_audit (cc_journal c))
           (put_outbox (scoped_id_new (cc_scope c) (mj_outbox_id (cc_journal c)))
             (journal_outbox (cc_journal c))
             (put_record (scoped_id_new (cc_scope c) (cc_memory_id c))
               (state_active_canonical r) rt))"
  by (auto simp: create_unfold split: option.splits)

lemma create_rejected:
  assumes "record_create_canonical_with_quota c m now rt = (res, rt')"
    and "\<not> (\<exists>r. res = Inr (Admitted r))"
  shows "rt' = rt"
  using assms by (auto simp: create_unfold split: option.splits if_splits)

lemma create_effect:
  assumes "record_create_canonical_with_quota c m now rt = (Inr (Admitted r), rt')"
  shows "hm_get (rm_records rt') =
      (hm_get (rm_records rt))(scoped_id_new (cc_scope c) (cc_memory_id c) \<mapsto> state_active_canonical r)"
    and "journal_recorded (cc_scope c) (cc_journal c) rt'"
    and "r = created_canonical c now"
  using assms by (auto simp: create_Admitted journal_recorded_def fun_eq_iff)

lemma active_records_create:
  assumes "record_create_canonical_with_quota c m now rt = (Inr (Admitted r), rt')"
    and "hm_ok (rm_records rt)"
  shows "active_records (cc_scope c) rt' \<le> Suc (active_records (cc_scope c) rt)"
  using hm_count_insert [OF assms(2), of
      "\<lambda>k s. matches_scope k (cc_scope c) \<and> \<not> ms_deleted s"
      "scoped_id_new (cc_scope c) (cc_memory_id c)" "state_active_canonical r"] assms(1)
  by (simp add: create_Admitted active_records_def)

section \<open>Supersede\<close>

lemmas supersede_unfold = record_supersede_with_quota_def supersede_existing_def supersede_fresh_def
  reference_supersede_journals_match_def Let_def with_lock_def

lemma supersede_rejected:
  assumes "record_supersede_with_quota from_str c m now rt = (res, rt')"
    and "\<not> (\<exists>r. res = Inr (Admitted r))"
  shows "rt' = rt"
  using assms
  by (auto simp: supersede_unfold split: option.splits if_splits prod.splits sum.splits)

text \<open>An admitted supersede either replays a committed one or performs the writes.\<close>

lemma supersede_Admitted:
  assumes "record_supersede_with_quota from_str c m now rt = (Inr (Admitted r), rt')"
  shows "supersede_command_error c = None"
    and "rt' = rt \<or>
      (r = superseding_canonical c now \<and> rt' = supersede_apply c now rt \<and>
       hm_get (rm_records rt) (scoped_id_new (su_scope c) (su_new_memory_id c)) = None \<and>
       (\<exists>s r0. hm_get (rm_records rt) (scoped_id_new (su_scope c) (su_old_memory_id c)) = Some s \<and>
          ms_canonical s = Some r0 \<and> \<not> ms_deleted s \<and> cr_status r0 = ''active'') \<and>
       \<not> (0 < m \<and> m \<le> active_records (su_scope c) rt) \<and> \<not> supersede_journal_taken c rt \<and>
       RecordsLock \<notin> rm_poisoned rt \<and> OutboxLock \<notin> rm_poisoned rt \<and> AuditsLock \<notin> rm_poisoned rt)"
  using assms
  by (auto simp: supersede_unfold split: option.splits if_splits prod.splits sum.splits)

lemma supersede_command_ok:
  assumes "supersede_command_error c = None"
  shows "mj_outbox_id (su_created_journal c) \<noteq> mj_outbox_id (su_superseded_journal c)"
    and "mj_audit_id (su_created_journal c) \<noteq> mj_audit_id (su_superseded_journal c)"
    and "su_old_memory_id c \<noteq> su_new_memory_id c"
  using assms by (auto simp: supersede_command_error_def split: option.splits if_splits)

lemma supersede_apply_records:
  "hm_get (rm_records (supersede_apply c now rt)) =
     (\<lambda>k. if k = scoped_id_new (su_scope c) (su_new_memory_id c)
          then Some (state_active_canonical (superseding_canonical c now))
          else if k = scoped_id_new (su_scope c) (su_old_memory_id c)
          then map_option (mark_superseded (su_new_memory_id c) now) (hm_get (rm_records rt) k)
          else hm_get (rm_records rt) k)"
  by (auto simp: supersede_apply_def reference_journal_entries_def fun_eq_iff)

lemma supersede_apply_journals:
  assumes "supersede_command_error c = None"
  shows "journal_recorded (su_scope c) (su_created_journal c) (supersede_apply c now rt)"
    and "journal_recorded (su_scope c) (su_superseded_journal c) (supersede_apply c now rt)"
  using supersede_command_ok [OF assms]
  by (auto simp: supersede_apply_def reference_journal_entries_def journal_recorded_def)

lemma supersede_apply_poisoned [simp]: "rm_poisoned (supersede_apply c now rt) = rm_poisoned rt"
  by (simp add: supersede_apply_def reference_journal_entries_def)

lemma journal_recorded_stored: "journal_recorded sc j rt \<Longrightarrow> journal_stored from_str sc rt j"
  by (simp add: journal_recorded_def journal_stored_def reference_journal_entries_def)

lemma superseding_target_matches:
  "reference_supersede_target_matches (superseding_canonical c now) c"
  by (simp add: reference_supersede_target_matches_def superseding_canonical_def split: option.split)

text \<open>A committed supersede answers its own replay with the stored record and no write.\<close>

lemma supersede_replays:
  assumes err: "supersede_command_error c = None"
    and old: "hm_get (rm_records rt) (scoped_id_new (su_scope c) (su_old_memory_id c)) = Some s"
    and can: "ms_canonical s = Some r0" and live: "\<not> ms_deleted s"
    and free: "{RecordsLock, OutboxLock, AuditsLock} \<inter> rm_poisoned rt = {}"
  shows "record_supersede_with_quota from_str c m' now' (supersede_apply c now rt) =
      (Inr (Admitted (superseding_canonical c now)), supersede_apply c now rt)"
proof -
  let ?rt = "supersede_apply c now rt"
  have ids: "su_old_memory_id c \<noteq> su_new_memory_id c"
    by (rule supersede_command_ok [OF err])
  have get_old: "hm_get (rm_records ?rt) (scoped_id_new (su_scope c) (su_old_memory_id c)) =
      Some (mark_superseded (su_new_memory_id c) now s)"
    using ids by (simp add: supersede_apply_records old)
  have get_new: "hm_get (rm_records ?rt) (scoped_id_new (su_scope c) (su_new_memory_id c)) =
      Some (state_active_canonical (superseding_canonical c now))"
    by (simp add: supersede_apply_records)
  have "supersede_replay c (mark_superseded (su_new_memory_id c) now s)
      (the (ms_canonical (mark_superseded (su_new_memory_id c) now s)))
      (state_active_canonical (superseding_canonical c now)) (superseding_canonical c now)"
    by (simp add: supersede_replay_def mark_superseded_def can live superseding_canonical_def)
  moreover have "journal_stored from_str (su_scope c) ?rt (su_created_journal c) \<and>
      journal_stored from_str (su_scope c) ?rt (su_superseded_journal c)"
    using supersede_apply_journals [OF err] by (simp add: journal_recorded_stored)
  ultimately show ?thesis
    using free err
    by (simp add: supersede_unfold get_old get_new superseding_target_matches
        mark_superseded_def can)
qed

section \<open>Update and delete\<close>

lemmas update_unfold = record_update_canonical_def reference_journal_entries_def Let_def with_lock_def

lemmas delete_unfold = record_delete_canonical_def reference_journal_entries_def Let_def with_lock_def

lemma update_Some:
  "record_update_canonical c now rt = (Inr (Some r), rt') \<longleftrightarrow>
     validate_memory_journal (uc_memory_id c) (uc_journal c) = None \<and>
     RecordsLock \<notin> rm_poisoned rt \<and> OutboxLock \<notin> rm_poisoned rt \<and> AuditsLock \<notin> rm_poisoned rt \<and>
     (\<exists>s r0. hm_get (rm_records rt) (scoped_id_new (uc_scope c) (uc_memory_id c)) = Some s \<and>
        \<not> ms_deleted s \<and> ms_canonical s = Some r0 \<and> r = update_canonical_record c now r0) \<and>
     rt' = put_audit (scoped_id_new (uc_scope c) (mj_audit_id (uc_journal c)))
             (journal_audit (uc_journal c))
           (put_outbox (scoped_id_new (uc_scope c) (mj_outbox_id (uc_journal c)))
             (journal_outbox (uc_journal c))
             (modify_record (scoped_id_new (uc_scope c) (uc_memory_id c))
               (update_record_state c now) rt))"
  by (auto simp: update_unfold split: option.splits)

lemma delete_first:
  assumes "record_delete_canonical c now rt = (Inr d, rt')" and "dr_deleted d"
    and "\<not> dr_already_deleted d"
  shows "\<exists>s. hm_get (rm_records rt) (scoped_id_new (dc_scope c) (dc_memory_id c)) = Some s \<and>
      \<not> ms_deleted s"
    and "rt' = put_audit (scoped_id_new (dc_scope c) (mj_audit_id (dc_journal c)))
             (journal_audit (dc_journal c))
           (put_outbox (scoped_id_new (dc_scope c) (mj_outbox_id (dc_journal c)))
             (journal_outbox (dc_journal c))
             (modify_record (scoped_id_new (dc_scope c) (dc_memory_id c))
               (delete_record_state now) rt))"
  using assms by (auto simp: delete_unfold split: option.splits if_splits)

lemma delete_noop:
  assumes "record_delete_canonical c now rt = (Inr d, rt')"
    and "\<not> dr_deleted d \<or> dr_already_deleted d"
  shows "rt' = rt"
  using assms by (auto simp: delete_unfold split: option.splits if_splits)

lemma deleted_record_state [simp]:
  "ms_deleted (delete_record_state now s)" "visible_record (delete_record_state now s) = None"
  "visible_canonical (delete_record_state now s) = None"
  by (simp_all add: delete_record_state_def visible_record_def visible_canonical_def)

lemma delete_get:
  assumes "record_delete_canonical c now rt = (Inr d, rt')"
  shows "hm_get (rm_records rt') k =
    (if k = scoped_id_new (dc_scope c) (dc_memory_id c)
     then map_option (\<lambda>s. if ms_deleted s then s else delete_record_state now s) (hm_get (rm_records rt) k)
     else hm_get (rm_records rt) k)"
  using assms by (auto simp: delete_unfold split: option.splits if_splits)

lemma delete_receipt:
  assumes "record_delete_canonical c now rt = (Inr d, rt')"
  shows "dr_deleted d \<longleftrightarrow> hm_contains (rm_records rt) (scoped_id_new (dc_scope c) (dc_memory_id c))"
    and "dr_already_deleted d \<longleftrightarrow>
      (\<exists>s. hm_get (rm_records rt) (scoped_id_new (dc_scope c) (dc_memory_id c)) = Some s \<and> ms_deleted s)"
  using assms by (auto simp: delete_unfold hm_contains_def split: option.splits if_splits)

section \<open>Bulk delete\<close>

lemma bulk_delete_key [simp]:
  "scoped_id_new (dc_scope (bulk_delete_command k)) (dc_memory_id (bulk_delete_command k)) = k"
  by (cases k) (simp add: bulk_delete_command_def scoped_id_new_def)

lemma bulk_delete_valid [simp]:
  "validate_memory_journal (dc_memory_id (bulk_delete_command k)) (dc_journal (bulk_delete_command k)) = None"
  by (simp add: bulk_delete_command_def bulk_delete_journal_def validate_memory_journal_def)

lemma delete_poisoned: "rm_poisoned (snd (record_delete_canonical c now rt)) = rm_poisoned rt"
  by (auto simp: delete_unfold split: option.splits)

lemma delete_succeeds:
  assumes "locks_free rt" and "validate_memory_journal (dc_memory_id c) (dc_journal c) = None"
  shows "\<exists>d. record_delete_canonical c now rt = (Inr d, snd (record_delete_canonical c now rt))"
  using assms by (auto simp: delete_unfold locks_free_def split: option.splits)

definition bulk_deleted :: "(string \<Rightarrow> string) \<Rightarrow> scoped_id set \<Rightarrow> scoped_id \<Rightarrow> record_state \<Rightarrow> record_state" where
  "bulk_deleted now K k s =
     (if k \<in> K \<and> \<not> ms_deleted s then delete_record_state (now (si_id k)) s else s)"

lemma delete_all_loop_effect:
  assumes "locks_free rt" and "\<forall>k \<in> set ks. hm_contains (rm_records rt) k"
  shows "\<exists>rt'. delete_all_loop now ks n rt = (Inr (n + length ks), rt') \<and> locks_free rt' \<and>
    (\<forall>k. hm_get (rm_records rt') k =
      map_option (bulk_deleted now (set ks) k) (hm_get (rm_records rt) k))"
  using assms
proof (induction ks arbitrary: n rt)
  case Nil
  then show ?case
    by (auto simp: bulk_deleted_def option.map_id0 option.map_ident)
next
  case (Cons k ks)
  obtain d rt1 where del: "record_delete_canonical (bulk_delete_command k) (now (si_id k)) rt = (Inr d, rt1)"
    using delete_succeeds [OF Cons.prems(1) bulk_delete_valid] by blast
  have d: "dr_deleted d"
    using delete_receipt(1) [OF del] Cons.prems(2) by simp
  have get1: "hm_get (rm_records rt1) x =
      map_option (bulk_deleted now {k} x) (hm_get (rm_records rt) x)" for x
    using delete_get [OF del, of x] by (cases "hm_get (rm_records rt) x") (auto simp: bulk_deleted_def)
  have "locks_free rt1"
    using delete_poisoned [of "bulk_delete_command k" "now (si_id k)" rt] Cons.prems(1) del
    by (simp add: locks_free_def)
  moreover have "\<forall>x \<in> set ks. hm_contains (rm_records rt1) x"
    using Cons.prems(2) by (simp add: hm_contains_def get1)
  ultimately obtain rt' where rt': "delete_all_loop now ks (Suc n) rt1 = (Inr (Suc n + length ks), rt')"
      "locks_free rt'"
      "\<And>x. hm_get (rm_records rt') x = map_option (bulk_deleted now (set ks) x) (hm_get (rm_records rt1) x)"
    using Cons.IH [of rt1 "Suc n"] by blast
  have "bulk_deleted now (set ks) x (bulk_deleted now {k} x s) = bulk_deleted now (set (k # ks)) x s" for x s
    by (auto simp: bulk_deleted_def)
  then have "hm_get (rm_records rt') x = map_option (bulk_deleted now (set (k # ks)) x) (hm_get (rm_records rt) x)" for x
    by (simp add: rt'(3) get1 option.map_comp comp_def)
  then show ?case
    using del d rt' by auto
qed

lemma set_bulk_matches:
  assumes "hm_ok (rm_records rt)"
  shows "set (bulk_matches c rt) = {k. \<exists>s. hm_get (rm_records rt) k = Some s \<and> bulk_match c k s}"
  using hm_get_in [OF assms] by (force simp: bulk_matches_def)

lemma delete_all_effect:
  assumes "locks_free rt" and "hm_ok (rm_records rt)"
  shows "\<exists>rt'. record_delete_all_canonical c now rt =
      (Inr (hm_count (bulk_match c) (rm_records rt)), rt') \<and>
    (\<forall>k. hm_get (rm_records rt') k =
      map_option (\<lambda>s. if bulk_match c k s then delete_record_state (now (si_id k)) s else s)
        (hm_get (rm_records rt) k))"
proof -
  let ?ks = "bulk_matches c rt"
  have "\<forall>k \<in> set ?ks. hm_contains (rm_records rt) k"
    by (auto simp: set_bulk_matches [OF assms(2)] hm_contains_def)
  then obtain rt' where rt': "delete_all_loop now ?ks 0 rt = (Inr (0 + length ?ks), rt')"
      "\<And>k. hm_get (rm_records rt') k = map_option (bulk_deleted now (set ?ks) k) (hm_get (rm_records rt) k)"
    using delete_all_loop_effect [OF assms(1), of ?ks now 0] by blast
  have "hm_get (rm_records rt') k =
      map_option (\<lambda>s. if bulk_match c k s then delete_record_state (now (si_id k)) s else s)
        (hm_get (rm_records rt) k)" for k
    using set_bulk_matches [OF assms(2), of c]
    by (cases "hm_get (rm_records rt) k") (auto simp: rt'(2) bulk_deleted_def bulk_match_def)
  then show ?thesis
    using rt'(1) assms(1)
    by (auto simp: record_delete_all_canonical_def locks_free_def hm_count_def bulk_matches_def)
qed

end
