(* ===== verification/Reference_Journals.thy ===== *)
theory Reference_Journals
  imports Reference_State
begin

text \<open>
  \<^verbatim>\<open>MemoryEventStorePort\<close>, \<^verbatim>\<open>MemoryAuditStorePort\<close> and \<^verbatim>\<open>MemoryOutboxStorePort\<close> of the
  reference runtime: append and retrieve, the pending scan of the outbox and its publish
  states. The pending scan is shown sorted, bounded, scoped and independent of the
  iteration order of the map.
\<close>

section \<open>Operations\<close>

definition event_append :: "append_event_command \<Rightarrow> memory_event rt_op" where
  "event_append c =
     (let e = \<lparr>me_event_id = ae_event_id c, me_content = ae_content c\<rparr>;
          key = scoped_id_new (ae_scope c) (ae_event_id c)
      in with_lock EventsLock (\<lambda>rt. (Inr e, rt\<lparr>rm_events := hm_insert key e (rm_events rt)\<rparr>)))"

definition event_retrieve :: "scoped_id_query \<Rightarrow> memory_event option rt_op" where
  "event_retrieve q =
     with_lock EventsLock (\<lambda>rt. (Inr (hm_get (rm_events rt) (scoped_id_new (sq_scope q) (sq_id q))), rt))"

definition audit_append :: "append_audit_command \<Rightarrow> audit_record rt_op" where
  "audit_append c =
     (let a = \<lparr>au_audit_id = aa_audit_id c, au_action = aa_action c,
               au_resource_type = aa_resource_type c, au_resource_id = aa_resource_id c,
               au_result = aa_result c\<rparr>;
          key = scoped_id_new (aa_scope c) (aa_audit_id c)
      in with_lock AuditsLock (\<lambda>rt. (Inr a, put_audit key a rt)))"

definition audit_retrieve :: "scoped_id_query \<Rightarrow> audit_record option rt_op" where
  "audit_retrieve q =
     with_lock AuditsLock (\<lambda>rt. (Inr (hm_get (rm_audits rt) (scoped_id_new (sq_scope q) (sq_id q))), rt))"

definition outbox_append :: "append_outbox_command \<Rightarrow> outbox_event rt_op" where
  "outbox_append c =
     (let e = \<lparr>ob_outbox_id = ao_outbox_id c, ob_aggregate_type = ao_aggregate_type c,
               ob_aggregate_id = ao_aggregate_id c, ob_event_type = ao_event_type c,
               ob_event_version = ao_event_version c, ob_payload_json = ao_payload_json c,
               ob_publish_state = ''pending'', ob_published_at = None, ob_retry_count = 0\<rparr>;
          key = scoped_id_new (ao_scope c) (ao_outbox_id c)
      in with_lock OutboxLock (\<lambda>rt. (Inr e, put_outbox key e rt)))"

definition outbox_retrieve :: "scoped_id_query \<Rightarrow> outbox_event option rt_op" where
  "outbox_retrieve q =
     with_lock OutboxLock (\<lambda>rt. (Inr (hm_get (rm_outbox rt) (scoped_id_new (sq_scope q) (sq_id q))), rt))"

definition pending_events :: "scope_context \<Rightarrow> (scoped_id, outbox_event) hmap \<Rightarrow> outbox_event list" where
  "pending_events sc m =
     map snd (filter (\<lambda>(k, e). matches_scope k sc \<and> ob_publish_state e = ''pending'') m)"

definition outbox_list_pending :: "list_pending_query \<Rightarrow> outbox_event list rt_op" where
  "outbox_list_pending q =
     with_lock OutboxLock (\<lambda>rt.
       (Inr (top_by ob_outbox_id (lp_limit q) (pending_events (lp_scope q) (rm_outbox rt))), rt))"

definition modify_outbox ::
  "scoped_id \<Rightarrow> (outbox_event \<Rightarrow> outbox_event) \<Rightarrow> reference_runtime \<Rightarrow> reference_runtime" where
  "modify_outbox k f rt = rt\<lparr>rm_outbox := hm_modify k f (rm_outbox rt)\<rparr>"

definition update_outbox_state :: "scope_context \<Rightarrow> string \<Rightarrow> string \<Rightarrow> string option \<Rightarrow>
    outbox_event option rt_op" where
  "update_outbox_state sc i state at =
     (let key = scoped_id_new sc i;
          f = (\<lambda>e. e\<lparr>ob_publish_state := state, ob_published_at := at\<rparr>)
      in with_lock OutboxLock (\<lambda>rt.
           case hm_get (rm_outbox rt) key of
             None \<Rightarrow> (Inr None, rt)
           | Some e \<Rightarrow> (Inr (Some (f e)), modify_outbox key f rt)))"

definition outbox_mark_published ::
  "mark_published_command \<Rightarrow> string \<Rightarrow> outbox_event option rt_op" where
  "outbox_mark_published c now =
     update_outbox_state (mp_scope c) (mp_outbox_id c) ''published'' (Some now)"

definition fail_outbox_event :: "outbox_event \<Rightarrow> outbox_event" where
  "fail_outbox_event e =
     e\<lparr>ob_publish_state := ''failed'', ob_retry_count := ob_retry_count e + 1\<rparr>"

definition outbox_mark_failed :: "mark_failed_command \<Rightarrow> outbox_event option rt_op" where
  "outbox_mark_failed c =
     (let key = scoped_id_new (mf_scope c) (mf_outbox_id c)
      in with_lock OutboxLock (\<lambda>rt.
           case hm_get (rm_outbox rt) key of
             None \<Rightarrow> (Inr None, rt)
           | Some e \<Rightarrow> (Inr (Some (fail_outbox_event e)), modify_outbox key fail_outbox_event rt)))"

section \<open>The pending scan\<close>

text \<open>Every stored event carries the id of its key.\<close>

definition outbox_keyed :: "(scoped_id, outbox_event) hmap \<Rightarrow> bool" where
  "outbox_keyed m \<longleftrightarrow> (\<forall>(k, e) \<in> set m. ob_outbox_id e = si_id k)"

lemma outbox_keyedD: "outbox_keyed m \<Longrightarrow> (k, e) \<in> set m \<Longrightarrow> ob_outbox_id e = si_id k"
  by (auto simp: outbox_keyed_def)

lemma in_pending_events:
  assumes "hm_ok m" and "outbox_keyed m"
  shows "e \<in> set (pending_events sc m) \<longleftrightarrow>
    hm_get m (scoped_id_new sc (ob_outbox_id e)) = Some e \<and> ob_publish_state e = ''pending''"
proof
  assume "e \<in> set (pending_events sc m)"
  then obtain k where "(k, e) \<in> set m" "matches_scope k sc" "ob_publish_state e = ''pending''"
    by (auto simp: pending_events_def)
  then show "hm_get m (scoped_id_new sc (ob_outbox_id e)) = Some e \<and> ob_publish_state e = ''pending''"
    using hm_get_in [OF assms(1)] outbox_keyedD [OF assms(2)] by (metis matches_scope_iff)
next
  assume "hm_get m (scoped_id_new sc (ob_outbox_id e)) = Some e \<and> ob_publish_state e = ''pending''"
  then show "e \<in> set (pending_events sc m)"
    using hm_get_in [OF assms(1)] by (force simp: pending_events_def)
qed

lemma pending_events_inj:
  assumes "hm_ok m" and "outbox_keyed m"
  shows "inj_on ob_outbox_id (set (pending_events sc m))"
  by (rule inj_onI) (use in_pending_events [OF assms] in force)

lemma pending_events_order:
  assumes "hm_ok m" and "outbox_keyed m" and "hm_ok m'" and "hm_get m = hm_get m'"
  shows "top_by ob_outbox_id n (pending_events sc m) = top_by ob_outbox_id n (pending_events sc m')"
proof (rule top_by_order)
  have "mset m = mset m'" by (rule hm_same_mset [OF assms(1,3,4)])
  then show "mset (pending_events sc m) = mset (pending_events sc m')"
    by (simp add: pending_events_def)
  show "inj_on ob_outbox_id (set (pending_events sc m))"
    by (rule pending_events_inj [OF assms(1,2)])
qed

text \<open>The events a scan may return, and what the scan makes of them.\<close>

definition pending_in :: "scope_context \<Rightarrow> (scoped_id, outbox_event) hmap \<Rightarrow> outbox_event set" where
  "pending_in sc m =
     {e. hm_get m (scoped_id_new sc (ob_outbox_id e)) = Some e \<and> ob_publish_state e = ''pending''}"

lemma set_pending_events:
  "hm_ok m \<Longrightarrow> outbox_keyed m \<Longrightarrow> set (pending_events sc m) = pending_in sc m"
  using in_pending_events by (auto simp: pending_in_def)

lemma distinct_pending_events:
  assumes "hm_ok m" and "outbox_keyed m"
  shows "distinct (pending_events sc m)"
proof -
  have "distinct m"
    using assms(1) by (simp add: hm_ok_def distinct_map)
  then show ?thesis
    using outbox_keyedD [OF assms(2)]
    by (auto simp: pending_events_def distinct_map inj_on_def matches_scope_iff) metis
qed

lemma pending_scan:
  fixes n :: nat and sc :: scope_context
  assumes "hm_ok m" and "outbox_keyed m"
  defines "es \<equiv> top_by ob_outbox_id n (pending_events sc m)"
  shows "length es \<le> n" and "sorted (map ob_outbox_id es)" and "distinct (map ob_outbox_id es)"
    and "set es \<subseteq> pending_in sc m"
    and "length (pending_events sc m) \<le> n \<Longrightarrow> set es = pending_in sc m"
proof -
  show "length es \<le> n" "sorted (map ob_outbox_id es)"
    by (simp_all add: es_def length_top_by sorted_top_by)
  show sub: "set es \<subseteq> pending_in sc m"
    unfolding es_def set_pending_events [OF assms(1,2), symmetric] by (rule set_top_by)
  show "set es = pending_in sc m" if "length (pending_events sc m) \<le> n"
    unfolding es_def set_pending_events [OF assms(1,2), symmetric] by (rule top_by_all [OF that])
  have "distinct es"
    using distinct_pending_events [OF assms(1,2), of sc] by (simp add: es_def top_by_def)
  moreover have "inj_on ob_outbox_id (set es)"
    using pending_events_inj [OF assms(1,2), of sc] sub
    unfolding set_pending_events [OF assms(1,2)] by (rule inj_on_subset)
  ultimately show "distinct (map ob_outbox_id es)" by (simp add: distinct_map)
qed

text \<open>A published event is no longer pending.\<close>

lemma published_not_pending:
  assumes "outbox_mark_published c now rt = (Inr (Some e), rt')"
  shows "mp_outbox_id c \<notin> ob_outbox_id ` pending_in (mp_scope c) (rm_outbox rt')"
  using assms
  by (auto simp: pending_in_def outbox_mark_published_def update_outbox_state_def modify_outbox_def
      with_lock_def Let_def split: if_splits option.splits)

lemma outbox_keyed_insert:
  assumes "outbox_keyed m" and "ob_outbox_id e = si_id k"
  shows "outbox_keyed (hm_insert k e m)"
proof -
  have "set (AList.update k e m) \<subseteq> insert (k, e) (set m)"
    by (induction m) auto
  then show ?thesis
    using assms by (auto simp: outbox_keyed_def hm_insert_def)
qed

lemma outbox_keyed_modify:
  assumes "outbox_keyed m" and "\<And>e. ob_outbox_id (f e) = ob_outbox_id e"
  shows "outbox_keyed (hm_modify k f m)"
  using assms unfolding outbox_keyed_def hm_modify_def by (induction m) auto

lemma si_id_new [simp]: "si_id (scoped_id_new sc i) = i"
  by (simp add: scoped_id_new_def)

lemma journal_outbox_id [simp]: "ob_outbox_id (journal_outbox j) = mj_outbox_id j"
  by (simp add: journal_outbox_def)

end
