(* ===== verification/Reference_Learning.thy ===== *)
theory Reference_Learning
  imports Reference_State
begin

text \<open>
  \<^verbatim>\<open>MemoryHabitStorePort\<close> and \<^verbatim>\<open>MemoryRetrievalTraceStorePort\<close> of the reference runtime. A
  decayed habit keeps a strength that is a number between zero and the old one; a
  tenant-wide trace lookup refuses an id that exists in two spaces; the recent list is a
  bounded prefix of the scope's traces in descending id order.
\<close>

section \<open>Habits\<close>

definition upserted_habit :: "upsert_habit_command \<Rightarrow> string \<Rightarrow> memory_habit" where
  "upserted_habit c now =
     \<lparr>mh_habit_id = uh_habit_id c, mh_user_id = uh_user_id c, mh_habit_key = uh_habit_key c,
      mh_habit_type = uh_habit_type c, mh_description = uh_description c, mh_stage = uh_stage c,
      mh_strength = uh_strength c, mh_confidence = uh_confidence c,
      mh_support_count = uh_support_count c, mh_last_signal_at = Some now,
      mh_promoted_memory_id = None, mh_decay_after = None, mh_metadata_json = uh_metadata_json c\<rparr>"

definition put_habit :: "scoped_habit_key \<Rightarrow> memory_habit \<Rightarrow> reference_runtime \<Rightarrow> reference_runtime" where
  "put_habit k h rt = rt\<lparr>rm_habits := hm_insert k h (rm_habits rt)\<rparr>"

definition modify_habit ::
  "scoped_habit_key \<Rightarrow> (memory_habit \<Rightarrow> memory_habit) \<Rightarrow> reference_runtime \<Rightarrow> reference_runtime" where
  "modify_habit k f rt = rt\<lparr>rm_habits := hm_modify k f (rm_habits rt)\<rparr>"

definition habit_upsert :: "upsert_habit_command \<Rightarrow> string \<Rightarrow> memory_habit rt_op" where
  "habit_upsert c now =
     (let key = habit_key_new (uh_scope c) (uh_user_id c) (uh_habit_key c);
          habit = upserted_habit c now
      in with_lock HabitsLock (\<lambda>rt. (Inr habit, put_habit key habit rt)))"

definition habit_retrieve :: "habit_query \<Rightarrow> memory_habit option rt_op" where
  "habit_retrieve q =
     with_lock HabitsLock (\<lambda>rt.
       (Inr (hm_get (rm_habits rt) (habit_key_new (hq_scope q) (hq_user_id q) (hq_habit_key q))), rt))"

text \<open>\<^verbatim>\<open>get_mut\<close>, the writes through the reference, and the clone that is returned.\<close>

definition habit_change ::
  "scoped_habit_key \<Rightarrow> (memory_habit \<Rightarrow> memory_habit) \<Rightarrow> memory_habit option rt_op" where
  "habit_change key f =
     with_lock HabitsLock (\<lambda>rt.
       case hm_get (rm_habits rt) key of
         None \<Rightarrow> (Inr None, rt)
       | Some h \<Rightarrow> (Inr (Some (f h)), modify_habit key f rt))"

definition promoted_habit :: "string option \<Rightarrow> memory_habit \<Rightarrow> memory_habit" where
  "promoted_habit m h = h\<lparr>mh_stage := ''promoted'', mh_promoted_memory_id := m\<rparr>"

definition decayed_habit :: "f64 \<Rightarrow> memory_habit \<Rightarrow> memory_habit" where
  "decayed_habit d h =
     h\<lparr>mh_stage := ''decayed'', mh_strength := f64_max (f64_sub (mh_strength h) d) f64_zero\<rparr>"

definition habit_promote :: "promote_habit_command \<Rightarrow> memory_habit option rt_op" where
  "habit_promote c =
     habit_change (habit_key_new (ph_scope c) (ph_user_id c) (ph_habit_key c))
       (promoted_habit (ph_promoted_memory_id c))"

definition habit_decay :: "decay_habit_command \<Rightarrow> memory_habit option rt_op" where
  "habit_decay c =
     habit_change (habit_key_new (dh_scope c) (dh_user_id c) (dh_habit_key c))
       (decayed_habit (dh_strength_delta c))"

section \<open>Traces\<close>

definition appended_trace :: "append_trace_command \<Rightarrow> string \<Rightarrow> retrieval_trace" where
  "appended_trace c now =
     \<lparr>rt_trace_id = at_trace_id c, rt_actor_id = at_actor_id c, rt_query_text = at_query_text c,
      rt_query_hash = at_query_hash c, rt_retrievers_json = at_retrievers_json c,
      rt_latency_ms = at_latency_ms c, rt_result_count = word_of_nat (length (at_hits c)),
      rt_degraded = at_degraded c, rt_metadata_json = at_metadata_json c, rt_hits = at_hits c,
      rt_context_pack = at_context_pack c, rt_created_at = now,
      rt_space_id = Some (sc_space_id (at_scope c))\<rparr>"

definition put_trace :: "scoped_id \<Rightarrow> retrieval_trace \<Rightarrow> reference_runtime \<Rightarrow> reference_runtime" where
  "put_trace k t rt = rt\<lparr>rm_retrieval_traces := hm_insert k t (rm_retrieval_traces rt)\<rparr>"

definition trace_append :: "append_trace_command \<Rightarrow> string \<Rightarrow> retrieval_trace rt_op" where
  "trace_append c now =
     (let trace = appended_trace c now; key = scoped_id_new (at_scope c) (at_trace_id c)
      in with_lock RetrievalTracesLock (\<lambda>rt. (Inr trace, put_trace key trace rt)))"

definition trace_retrieve :: "scoped_id_query \<Rightarrow> retrieval_trace option rt_op" where
  "trace_retrieve q =
     with_lock RetrievalTracesLock (\<lambda>rt.
       (Inr (hm_get (rm_retrieval_traces rt) (scoped_id_new (sq_scope q) (sq_id q))), rt))"

definition scoped_trace_of :: "scoped_id \<Rightarrow> retrieval_trace \<Rightarrow> scoped_trace" where
  "scoped_trace_of k t =
     \<lparr>st_scope = \<lparr>sc_tenant_id = si_tenant_id k, sc_space_id = si_space_id k,
        sc_organization_id = None, sc_user_id = None\<rparr>,
      st_trace = t, st_created_at = None\<rparr>"

definition tenant_trace_matches ::
  "tenant_trace_query \<Rightarrow> reference_runtime \<Rightarrow> (scoped_id \<times> retrieval_trace) list" where
  "tenant_trace_matches q rt =
     filter (\<lambda>(k, _). si_tenant_id k = tq_tenant_id q \<and> si_id k = tq_trace_id q)
       (rm_retrieval_traces rt)"

definition trace_ambiguous :: spi_error where
  "trace_ambiguous = PortOperationFailed ''MemoryRetrievalTraceStorePort''
     ''tenant-scoped retrieval trace id is ambiguous across spaces''"

definition trace_retrieve_for_tenant :: "tenant_trace_query \<Rightarrow> scoped_trace option rt_op" where
  "trace_retrieve_for_tenant q =
     with_lock RetrievalTracesLock (\<lambda>rt.
       let found = tenant_trace_matches q rt
       in if 1 < length found then (Inl trace_ambiguous, rt)
          else (Inr (case found of [] \<Rightarrow> None
                     | _ \<Rightarrow> (case last found of (k, t) \<Rightarrow> Some (scoped_trace_of k t))), rt))"

definition scope_traces :: "scope_context \<Rightarrow> reference_runtime \<Rightarrow> retrieval_trace list" where
  "scope_traces sc rt = map snd (filter (\<lambda>(k, _). matches_scope k sc) (rm_retrieval_traces rt))"

definition trace_list_recent :: "list_traces_query \<Rightarrow> retrieval_trace list rt_op" where
  "trace_list_recent q =
     with_lock RetrievalTracesLock (\<lambda>rt.
       (Inr (top_by (\<lambda>t. Desc (rt_trace_id t)) (lt_limit q) (scope_traces (lt_scope q) rt)), rt))"

section \<open>Lemmas\<close>

lemma habit_change_get:
  assumes "habit_change key f rt = (Inr r, rt')"
  shows "hm_get (rm_habits rt') k =
      (if k = key then map_option f (hm_get (rm_habits rt) k) else hm_get (rm_habits rt) k)"
    and "r = map_option f (hm_get (rm_habits rt) key)"
  using assms
  by (auto simp: habit_change_def with_lock_def modify_habit_def split: if_splits option.splits)

text \<open>
  The strength after a decay is a number, not below zero, and not above the old strength
  when the delta is one of the non-negative finite values the callers pass.
\<close>

lemma decayed_strength:
  assumes "f64_ok (mh_strength h)" and "f64_ok d" and "f64_finite (mh_strength h)" and "f64_finite d"
    and "f64_le f64_zero (mh_strength h)" and "f64_le f64_zero d"
  shows "f64_ok (mh_strength (decayed_habit d h))"
    and "f64_le f64_zero (mh_strength (decayed_habit d h))"
    and "f64_le (mh_strength (decayed_habit d h)) (mh_strength h)"
  using assms f64_sub_le [of "mh_strength h" d] f64_max_zero_nonneg [of "f64_sub (mh_strength h) d"]
    f64_max_ok f64_sub_ok
  by (simp_all add: decayed_habit_def)

text \<open>Every stored trace carries the id and the space of its key.\<close>

definition traces_keyed :: "(scoped_id, retrieval_trace) hmap \<Rightarrow> bool" where
  "traces_keyed m \<longleftrightarrow> hm_ok m \<and>
     (\<forall>k t. hm_get m k = Some t \<longrightarrow> rt_trace_id t = si_id k \<and> rt_space_id t = Some (si_space_id k))"

lemma traces_keyed_append:
  "traces_keyed (rm_retrieval_traces rt) \<Longrightarrow> trace_append c now rt = (r, rt') \<Longrightarrow>
    traces_keyed (rm_retrieval_traces rt')"
  by (auto simp: traces_keyed_def trace_append_def with_lock_def put_trace_def Let_def appended_trace_def
      scoped_id_new_def split: if_splits)

lemma in_tenant_trace_matches:
  assumes "hm_ok (rm_retrieval_traces rt)"
  shows "(k, t) \<in> set (tenant_trace_matches q rt) \<longleftrightarrow>
    hm_get (rm_retrieval_traces rt) k = Some t \<and> si_tenant_id k = tq_tenant_id q \<and> si_id k = tq_trace_id q"
  using hm_get_in [OF assms] by (auto simp: tenant_trace_matches_def)

lemma distinct_tenant_trace_matches:
  assumes "hm_ok (rm_retrieval_traces rt)"
  shows "distinct (map fst (tenant_trace_matches q rt))"
  using assms by (simp add: tenant_trace_matches_def hm_ok_def distinct_map_filter)

lemma two_of_long:
  assumes "1 < length xs" and "distinct (map f xs)"
  obtains x y where "x \<in> set xs" "y \<in> set xs" "f x \<noteq> f y"
proof -
  obtain a b ys where "xs = a # b # ys"
    using assms(1) by (cases xs rule: remdups_adj.cases) auto
  with assms(2) show ?thesis by (intro that [of a b]) auto
qed

text \<open>The tenant lookup answers with the only match, and with an error when there are two.\<close>

definition tenant_hits :: "tenant_trace_query \<Rightarrow> reference_runtime \<Rightarrow> scoped_id set" where
  "tenant_hits q rt =
     {k. hm_contains (rm_retrieval_traces rt) k \<and> si_tenant_id k = tq_tenant_id q \<and> si_id k = tq_trace_id q}"

lemma tenant_hits_matches:
  "hm_ok (rm_retrieval_traces rt) \<Longrightarrow> tenant_hits q rt = fst ` set (tenant_trace_matches q rt)"
  by (rule set_eqI)
    (simp add: tenant_hits_def in_tenant_trace_matches hm_contains_def image_iff Bex_def split_paired_Ex)

lemma tenant_trace_lookup:
  assumes ok: "hm_ok (rm_retrieval_traces rt)" and free: "RetrievalTracesLock \<notin> rm_poisoned rt"
  shows "(\<exists>k t. tenant_hits q rt = {k} \<and> hm_get (rm_retrieval_traces rt) k = Some t \<and>
        trace_retrieve_for_tenant q rt = (Inr (Some (scoped_trace_of k t)), rt)) \<or>
      tenant_hits q rt = {} \<and> trace_retrieve_for_tenant q rt = (Inr None, rt) \<or>
      (\<exists>k k'. k \<in> tenant_hits q rt \<and> k' \<in> tenant_hits q rt \<and> k \<noteq> k') \<and>
        trace_retrieve_for_tenant q rt = (Inl trace_ambiguous, rt)"
proof (cases "1 < length (tenant_trace_matches q rt)")
  case True
  obtain x y where "x \<in> set (tenant_trace_matches q rt)" "y \<in> set (tenant_trace_matches q rt)"
      "fst x \<noteq> fst y"
    by (rule two_of_long [OF True distinct_tenant_trace_matches [OF ok]])
  moreover have "trace_retrieve_for_tenant q rt = (Inl trace_ambiguous, rt)"
    using True free by (simp add: trace_retrieve_for_tenant_def)
  ultimately show ?thesis unfolding tenant_hits_matches [OF ok] by blast
next
  case False
  show ?thesis
  proof (cases "tenant_trace_matches q rt")
    case Nil
    then show ?thesis using free by (simp add: tenant_hits_matches [OF ok] trace_retrieve_for_tenant_def)
  next
    case (Cons m ms)
    obtain k t where m: "m = (k, t)" by fastforce
    have ms: "ms = []" using False Cons by simp
    have "hm_get (rm_retrieval_traces rt) k = Some t"
      using in_tenant_trace_matches [OF ok, of k t q] Cons m by simp
    then show ?thesis
      using free Cons m ms by (simp add: tenant_hits_matches [OF ok] trace_retrieve_for_tenant_def)
  qed
qed

lemma scope_traces_ids:
  assumes "traces_keyed (rm_retrieval_traces rt)"
  shows "inj_on rt_trace_id (set (scope_traces sc rt))"
proof (rule inj_onI)
  fix s t assume st: "s \<in> set (scope_traces sc rt)" "t \<in> set (scope_traces sc rt)"
    and id: "rt_trace_id s = rt_trace_id t"
  from st obtain k k' where "(k, s) \<in> set (rm_retrieval_traces rt)" "matches_scope k sc"
      "(k', t) \<in> set (rm_retrieval_traces rt)" "matches_scope k' sc"
    by (auto simp: scope_traces_def)
  then have "hm_get (rm_retrieval_traces rt) k = Some s" "hm_get (rm_retrieval_traces rt) k' = Some t"
      "matches_scope k sc" "matches_scope k' sc"
    using assms hm_get_in [of "rm_retrieval_traces rt"] by (auto simp: traces_keyed_def)
  moreover have "k = k'"
    using calculation id assms by (cases k; cases k') (auto simp: traces_keyed_def matches_scope_def)
  ultimately show "s = t" by simp
qed

end
