(* ===== verification/Reference_Governance.thy ===== *)
theory Reference_Governance
  imports Reference_State
begin

text \<open>
  \<^verbatim>\<open>MemoryGovernanceAccessPort\<close> and \<^verbatim>\<open>MemorySpaceStorePort\<close> of the reference runtime, with
  the seeding functions the tests and hosts use. Resolved facts are bounded by the fact
  limit, ordered, and flagged incomplete exactly when something was cut off; space creation
  admits a user below the quota only, and never replaces a space.
\<close>

section \<open>Seeding\<close>

definition put_space :: "governance_space_key \<Rightarrow> space_fact \<Rightarrow> reference_runtime \<Rightarrow> reference_runtime" where
  "put_space k f rt = rt\<lparr>rm_governance_spaces := hm_insert k f (rm_governance_spaces rt)\<rparr>"

definition seed_governance_space :: "i64 \<Rightarrow> space_fact \<Rightarrow> unit rt_op" where
  "seed_governance_space t f =
     with_lock GovernanceSpacesLock (\<lambda>rt. (Inr (), put_space (GovernanceSpaceKey t (sf_space_id f)) f rt))"

text \<open>\<^verbatim>\<open>entry(k).or_default().push(x)\<close>.\<close>

definition hm_push :: "'k \<Rightarrow> 'v \<Rightarrow> ('k, 'v list) hmap \<Rightarrow> ('k, 'v list) hmap" where
  "hm_push k x m = hm_insert k ((case hm_get m k of None \<Rightarrow> [] | Some xs \<Rightarrow> xs) @ [x]) m"

definition seed_actor_space_binding ::
  "scope_context \<Rightarrow> governance_actor \<Rightarrow> actor_binding \<Rightarrow> unit rt_op" where
  "seed_actor_space_binding sc a f =
     with_lock GovernanceBindingsLock (\<lambda>rt.
       (Inr (), rt\<lparr>rm_governance_bindings := hm_push (actor_key_new sc a) f (rm_governance_bindings rt)\<rparr>))"

definition seed_capability_binding :: "scope_context \<Rightarrow> capability_binding \<Rightarrow> unit rt_op" where
  "seed_capability_binding sc f =
     with_lock GovernanceCapabilitiesLock (\<lambda>rt.
       (Inr (), rt\<lparr>rm_governance_capabilities :=
          hm_push (capability_key_new sc (cb_capability_code f)) f (rm_governance_capabilities rt)\<rparr>))"

section \<open>Resolution\<close>

definition validate_governance_fact_limit :: "nat \<Rightarrow> spi_error + nat" where
  "validate_governance_fact_limit n =
     (if n = 0 \<or> max_governance_facts < n
      then Inl (PortOperationFailed ''MemoryGovernanceAccessPort''
        (''governance fact limit must be between 1 and '' @ nat_text max_governance_facts))
      else Inr n)"

definition actor_facts :: "scope_context \<Rightarrow> governance_actor \<Rightarrow> reference_runtime \<Rightarrow> actor_binding list" where
  "actor_facts sc a rt =
     (case hm_get (rm_governance_bindings rt) (actor_key_new sc a) of None \<Rightarrow> [] | Some fs \<Rightarrow> fs)"

definition capability_facts :: "scope_context \<Rightarrow> string \<Rightarrow> reference_runtime \<Rightarrow> capability_binding list" where
  "capability_facts sc code rt =
     (case hm_get (rm_governance_capabilities rt) (capability_key_new sc code) of None \<Rightarrow> [] | Some fs \<Rightarrow> fs)"

text \<open>Higher priority first, then the smaller binding id.\<close>

definition capability_rank :: "capability_binding \<Rightarrow> int desc \<times> string" where
  "capability_rank f = (Desc (sint (cb_priority f)), cb_binding_id f)"

text \<open>\<^verbatim>\<open>facts.sort_by(..)\<close>, then the cut to the limit and the \<^verbatim>\<open>complete\<close> flag.\<close>

definition bounded_facts :: "('a \<Rightarrow> 'b::linorder) \<Rightarrow> nat \<Rightarrow> 'a list \<Rightarrow> 'a list \<times> bool" where
  "bounded_facts f limit xs =
     (let sorted_facts = sort_key f xs
      in if limit < length sorted_facts then (take limit sorted_facts, False) else (sorted_facts, True))"

definition resolve_space_governance :: "resolve_governance_query \<Rightarrow> governance_facts rt_op" where
  "resolve_space_governance q rt =
     (case validate_governance_fact_limit (rg_fact_limit q) of
        Inl e \<Rightarrow> (Inl e, rt)
      | Inr limit \<Rightarrow>
          with_lock GovernanceSpacesLock (\<lambda>rt.
            let space = hm_get (rm_governance_spaces rt)
                  (GovernanceSpaceKey (sc_tenant_id (rg_scope q)) (sc_space_id (rg_scope q)));
                actors = (\<lambda>rt. case rg_actor q of
                    None \<Rightarrow> (Inr ([], True), rt)
                  | Some a \<Rightarrow> with_lock GovernanceBindingsLock (\<lambda>rt.
                      (Inr (bounded_facts ab_binding_id limit (actor_facts (rg_scope q) a rt)), rt)) rt)
            in case actors rt of
                 (Inl e, rt) \<Rightarrow> (Inl e, rt)
               | (Inr (bindings, complete1), rt) \<Rightarrow>
                   (case rg_capability_code q of
                      None \<Rightarrow> (Inr \<lparr>gf_space = space, gf_actor_bindings = bindings,
                                gf_capability_bindings = [], gf_complete = complete1\<rparr>, rt)
                    | Some code \<Rightarrow> with_lock GovernanceCapabilitiesLock (\<lambda>rt.
                        let (capabilities, complete2) =
                              bounded_facts capability_rank limit (capability_facts (rg_scope q) code rt)
                        in (Inr \<lparr>gf_space = space, gf_actor_bindings = bindings,
                              gf_capability_bindings = capabilities,
                              gf_complete = (complete1 \<and> complete2)\<rparr>, rt)) rt)) rt)"

definition count_active_records :: "scope_context \<Rightarrow> nat rt_op" where
  "count_active_records sc = with_lock RecordsLock (\<lambda>rt. (Inr (active_records sc rt), rt))"

text \<open>The spaces of a tenant that a user owns and that are not deleted.\<close>

definition owned_space :: "i64 \<Rightarrow> string \<Rightarrow> governance_space_key \<Rightarrow> space_fact \<Rightarrow> bool" where
  "owned_space t owner k f \<longleftrightarrow>
     gs_tenant_id k = t \<and> sf_owner_subject_type f = ''user'' \<and> sf_owner_subject_id f = owner \<and>
     sf_lifecycle_status f \<noteq> ''deleted''"

definition owned_spaces :: "i64 \<Rightarrow> string \<Rightarrow> reference_runtime \<Rightarrow> nat" where
  "owned_spaces t owner rt = hm_count (owned_space t owner) (rm_governance_spaces rt)"

definition count_user_owned_spaces :: "count_spaces_query \<Rightarrow> nat rt_op" where
  "count_user_owned_spaces q =
     with_lock GovernanceSpacesLock (\<lambda>rt.
       (Inr (owned_spaces (cq_tenant_id q) (cq_owner_subject_id q) rt), rt))"

section \<open>Space creation\<close>

definition space_error :: "string \<Rightarrow> spi_error" where
  "space_error msg = PortOperationFailed ''MemorySpaceStorePort'' msg"

fun first_blank :: "(string \<times> string) list \<Rightarrow> spi_error option" where
  "first_blank [] = None"
| "first_blank ((field, value) # rest) =
     (if trim value = [] then Some (space_error (''memory-space '' @ field @ '' must not be blank''))
      else first_blank rest)"

definition validate_space_command :: "create_space_command \<Rightarrow> spi_error option" where
  "validate_space_command c =
     (if sint (cm_tenant_id c) < 0 \<or> sint (cm_space_id c) < 0
      then Some (space_error ''memory-space tenant and space identifiers must be non-negative'')
      else first_blank
        [(''owner subject type'', cm_owner_subject_type c), (''owner subject id'', cm_owner_subject_id c),
         (''space type'', cm_space_type c), (''display name'', cm_display_name c),
         (''default scope'', cm_default_scope c)])"

definition created_space_fact :: "create_space_command \<Rightarrow> space_fact" where
  "created_space_fact c =
     \<lparr>sf_space_id = cm_space_id c, sf_organization_id = cm_organization_id c,
      sf_owner_subject_type = cm_owner_subject_type c, sf_owner_subject_id = cm_owner_subject_id c,
      sf_lifecycle_status = ''active''\<rparr>"

definition created_space_record :: "create_space_command \<Rightarrow> string \<Rightarrow> space_record" where
  "created_space_record c now =
     \<lparr>sr_space_id = cm_space_id c, sr_uuid = ''space-'' @ i64_text (cm_space_id c),
      sr_tenant_id = cm_tenant_id c, sr_organization_id = cm_organization_id c,
      sr_owner_subject_type = cm_owner_subject_type c, sr_owner_subject_id = cm_owner_subject_id c,
      sr_space_type = cm_space_type c, sr_display_name = cm_display_name c,
      sr_default_scope = cm_default_scope c, sr_lifecycle_status = ''active'',
      sr_created_at = now, sr_updated_at = now, sr_version = 0\<rparr>"

definition create_space_atomic_with_quota ::
  "create_space_command \<Rightarrow> nat \<Rightarrow> string \<Rightarrow> space_record space_admission rt_op" where
  "create_space_atomic_with_quota c max_spaces now rt =
     (case validate_space_command c of
        Some e \<Rightarrow> (Inl e, rt)
      | None \<Rightarrow>
          (let key = GovernanceSpaceKey (cm_tenant_id c) (cm_space_id c)
           in with_lock GovernanceSpacesLock (\<lambda>rt.
             let user = cm_owner_subject_type c = ''user'';
                 active = (if user then owned_spaces (cm_tenant_id c) (cm_owner_subject_id c) rt else 0)
             in if user \<and> 0 < max_spaces \<and> max_spaces \<le> active
                then (Inr (SpaceQuotaExceeded active max_spaces), rt)
                else if hm_contains (rm_governance_spaces rt) key
                then (Inl (space_error (''memory space '' @ i64_text (cm_space_id c) @
                        '' already exists for tenant '' @ i64_text (cm_tenant_id c))), rt)
                else (Inr (SpaceAdmitted (created_space_record c now)),
                      put_space key (created_space_fact c) rt)) rt))"

section \<open>Lemmas\<close>

lemma bounded_facts_spec:
  assumes "bounded_facts f n xs = (ys, complete)"
  shows "ys = top_by f n xs" and "length ys \<le> n" and "complete \<longleftrightarrow> length xs \<le> n"
    and "sorted (map f ys)" and "set ys \<subseteq> set xs" and "complete \<Longrightarrow> mset ys = mset xs"
proof -
  have ys: "ys = take n (sort_key f xs)" and c: "complete \<longleftrightarrow> length xs \<le> n"
    using assms by (auto simp: bounded_facts_def Let_def split: if_splits)
  show "ys = top_by f n xs" by (simp add: ys top_by_def)
  then show "length ys \<le> n" "sorted (map f ys)" "set ys \<subseteq> set xs"
    by (simp_all add: length_top_by sorted_top_by set_top_by)
  show "complete \<longleftrightarrow> length xs \<le> n" by (rule c)
  show "mset ys = mset xs" if complete
    using that c by (simp add: ys)
qed

lemma resolve_success:
  assumes "locks_free rt" and "0 < rg_fact_limit q" and "rg_fact_limit q \<le> max_governance_facts"
  shows "resolve_space_governance q rt =
    (Inr \<lparr>gf_space = hm_get (rm_governance_spaces rt)
            (GovernanceSpaceKey (sc_tenant_id (rg_scope q)) (sc_space_id (rg_scope q))),
      gf_actor_bindings = (case rg_actor q of None \<Rightarrow> []
         | Some a \<Rightarrow> top_by ab_binding_id (rg_fact_limit q) (actor_facts (rg_scope q) a rt)),
      gf_capability_bindings = (case rg_capability_code q of None \<Rightarrow> []
         | Some code \<Rightarrow> top_by capability_rank (rg_fact_limit q) (capability_facts (rg_scope q) code rt)),
      gf_complete =
        ((case rg_actor q of None \<Rightarrow> True
          | Some a \<Rightarrow> length (actor_facts (rg_scope q) a rt) \<le> rg_fact_limit q) \<and>
         (case rg_capability_code q of None \<Rightarrow> True
          | Some code \<Rightarrow> length (capability_facts (rg_scope q) code rt) \<le> rg_fact_limit q))\<rparr>, rt)"
  using assms
  by (auto simp: resolve_space_governance_def validate_governance_fact_limit_def locks_free_def
      bounded_facts_def top_by_def Let_def split: option.splits)

lemma resolve_no_write: "snd (resolve_space_governance q rt) = rt"
  by (auto simp: resolve_space_governance_def with_lock_def Let_def
      split: sum.splits option.splits prod.splits)

definition spaces_keyed :: "(governance_space_key, space_fact) hmap \<Rightarrow> bool" where
  "spaces_keyed m \<longleftrightarrow> hm_ok m \<and> (\<forall>k f. hm_get m k = Some f \<longrightarrow> sf_space_id f = gs_space_id k)"

lemma spaces_keyed_put:
  "spaces_keyed m \<Longrightarrow> sf_space_id f = gs_space_id k \<Longrightarrow> spaces_keyed (hm_insert k f m)"
  by (simp add: spaces_keyed_def)

lemma create_space_Admitted:
  "create_space_atomic_with_quota c m now rt = (Inr (SpaceAdmitted r), rt') \<longleftrightarrow>
     validate_space_command c = None \<and> GovernanceSpacesLock \<notin> rm_poisoned rt \<and>
     \<not> (cm_owner_subject_type c = ''user'' \<and> 0 < m \<and>
        m \<le> owned_spaces (cm_tenant_id c) (cm_owner_subject_id c) rt) \<and>
     hm_get (rm_governance_spaces rt) (GovernanceSpaceKey (cm_tenant_id c) (cm_space_id c)) = None \<and>
     r = created_space_record c now \<and>
     rt' = put_space (GovernanceSpaceKey (cm_tenant_id c) (cm_space_id c)) (created_space_fact c) rt"
  by (auto simp: create_space_atomic_with_quota_def with_lock_def Let_def hm_contains_def
      split: option.splits)

lemma create_space_rejected:
  assumes "create_space_atomic_with_quota c m now rt = (res, rt')"
    and "\<not> (\<exists>r. res = Inr (SpaceAdmitted r))"
  shows "rt' = rt"
  using assms
  by (auto simp: create_space_atomic_with_quota_def with_lock_def Let_def
      split: option.splits if_splits)

text \<open>An admitted creation counts once for its owner, and for nobody else.\<close>

lemma owned_spaces_create:
  assumes "create_space_atomic_with_quota c m now rt = (Inr (SpaceAdmitted r), rt')"
    and "hm_ok (rm_governance_spaces rt)"
  shows "owned_spaces t owner rt' = owned_spaces t owner rt +
    (if cm_owner_subject_type c = ''user'' \<and> cm_tenant_id c = t \<and> cm_owner_subject_id c = owner
     then 1 else 0)"
proof -
  let ?k = "GovernanceSpaceKey (cm_tenant_id c) (cm_space_id c)"
  have "hm_get (rm_governance_spaces rt) ?k = None"
    and rt': "rt' = put_space ?k (created_space_fact c) rt"
    using assms(1) by (auto simp: create_space_Admitted)
  with hm_count_insert [OF assms(2), of "owned_space t owner" ?k "created_space_fact c"]
  show ?thesis
    by (simp add: owned_spaces_def put_space_def) (auto simp: owned_space_def created_space_fact_def)
qed

lemma first_blank_None:
  "first_blank xs = None \<longleftrightarrow> list_all (\<lambda>(_, v). \<not> is_blank v) xs"
  by (induction xs rule: first_blank.induct) (auto simp: is_blank_def)

lemma validate_space_command_None:
  "validate_space_command c = None \<longleftrightarrow>
     0 \<le> sint (cm_tenant_id c) \<and> 0 \<le> sint (cm_space_id c) \<and> \<not> is_blank (cm_owner_subject_type c) \<and>
     \<not> is_blank (cm_owner_subject_id c) \<and> \<not> is_blank (cm_space_type c) \<and>
     \<not> is_blank (cm_display_name c) \<and> \<not> is_blank (cm_default_scope c)"
  by (auto simp: validate_space_command_def first_blank_None simp del: first_blank.simps)

end
