(* ===== verification/Metadata_Filter.thy ===== *)
theory Metadata_Filter
  imports F64
begin

text \<open>
  The metadata filter language of \<^verbatim>\<open>crates/sdkwork-memory-spi/src/filter.rs\<close>: operators,
  conditions and expressions, three-valued evaluation against a stored document, and the
  parser of the wire form with its budgets. A \<^verbatim>\<open>serde_json::Value\<close> is the datatype
  \<^verbatim>\<open>json\<close>; an object is the list of its entries in iteration order. What comes from
  \<^verbatim>\<open>serde_json\<close> and from the Unicode and float formatting tables of the standard library
  is the record \<^verbatim>\<open>json_host\<close>, an argument of the definitions that use it.
\<close>

section \<open>JSON\<close>

datatype 'n json =
    JNull | JBool bool | JNumber 'n | JString string
  | JArray "'n json list" | JObject "(string \<times> 'n json) list"

text \<open>
  \<^verbatim>\<open>Number::to_string\<close>, \<^verbatim>\<open>Number::as_f64\<close>, \<^verbatim>\<open>Value::to_string\<close> on a container,
  \<^verbatim>\<open>serde_json::from_str\<close> (an error carries its text), \<^verbatim>\<open>f64::to_string\<close> and
  \<^verbatim>\<open>str::to_lowercase\<close>.
\<close>

record 'n json_host =
  num_text :: "'n \<Rightarrow> string"
  num_f64 :: "'n \<Rightarrow> f64 option"
  container_text :: "'n json \<Rightarrow> string"
  json_from_str :: "string \<Rightarrow> string + 'n json"
  f64_text :: "f64 \<Rightarrow> string"
  to_lowercase :: "string \<Rightarrow> string"

fun json_type_name :: "'n json \<Rightarrow> string" where
  "json_type_name JNull = ''null''"
| "json_type_name (JBool b) = ''boolean''"
| "json_type_name (JNumber n) = ''number''"
| "json_type_name (JString s) = ''string''"
| "json_type_name (JArray xs) = ''array''"
| "json_type_name (JObject o') = ''object''"

fun as_object :: "'n json \<Rightarrow> (string \<times> 'n json) list option" where
  "as_object (JObject ps) = Some ps"
| "as_object v = None"

fun as_array :: "'n json \<Rightarrow> 'n json list option" where
  "as_array (JArray xs) = Some xs"
| "as_array v = None"

fun as_f64 :: "'n json_host \<Rightarrow> 'n json \<Rightarrow> f64 option" where
  "as_f64 h (JNumber n) = num_f64 h n"
| "as_f64 h v = None"

section \<open>Errors and literals\<close>

datatype metadata_filter_error =
    RootNotObject string
  | UnsupportedOperator string string
  | LogicalNotArray string
  | LogicalEmpty string
  | LogicalEntryNotObject string string
  | EmptyCondition string
  | NoCondition
  | BlankFieldName
  | MultipleOperators string nat
  | InvalidValueShape string string string
  | NonNumericOrderingValue string
  | OrderingValueNotNumber string
  | NullLiteral string
  | MetadataNotJson string
  | DialectCannotExpressOperator string string string

definition max_filter_condition_nodes :: nat where
  "max_filter_condition_nodes = 256"

definition max_filter_set_values :: nat where
  "max_filter_set_values = 1024"

definition infix_operators :: "string list" where
  "infix_operators =
     [''eq'', ''ne'', ''gt'', ''gte'', ''lt'', ''lte'', ''in'', ''nin'', ''contains'', ''icontains'']"

datatype numeric_literal = NumericLiteral (nl_text: string) (nl_value: f64)

definition numeric_literal_parse :: "string \<Rightarrow> metadata_filter_error + numeric_literal" where
  "numeric_literal_parse text =
     (case f64_parse (trim text) of
        None \<Rightarrow> Inl (NonNumericOrderingValue text)
      | Some v \<Rightarrow> if \<not> f64_finite v then Inl (NonNumericOrderingValue text)
                  else Inr (NumericLiteral (trim text) v))"

text \<open>\<^verbatim>\<open>PartialEq\<close> of a literal compares the text only.\<close>

definition numeric_literal_eq :: "numeric_literal \<Rightarrow> numeric_literal \<Rightarrow> bool" where
  "numeric_literal_eq a b \<longleftrightarrow> nl_text a = nl_text b"

section \<open>Operators\<close>

datatype scalar_filter_operator = OpEq | OpNe | OpContains | OpIContains
datatype ordering_filter_operator = OpGt | OpGte | OpLt | OpLte
datatype set_filter_operator = OpIn | OpNin

fun scalar_operator_as_str :: "scalar_filter_operator \<Rightarrow> string" where
  "scalar_operator_as_str OpEq = ''eq''"
| "scalar_operator_as_str OpNe = ''ne''"
| "scalar_operator_as_str OpContains = ''contains''"
| "scalar_operator_as_str OpIContains = ''icontains''"

definition scalar_operator_parse :: "string \<Rightarrow> scalar_filter_operator option" where
  "scalar_operator_parse s =
     (if s = ''eq'' then Some OpEq else if s = ''ne'' then Some OpNe
      else if s = ''contains'' then Some OpContains
      else if s = ''icontains'' then Some OpIContains else None)"

fun ordering_operator_as_str :: "ordering_filter_operator \<Rightarrow> string" where
  "ordering_operator_as_str OpGt = ''gt''"
| "ordering_operator_as_str OpGte = ''gte''"
| "ordering_operator_as_str OpLt = ''lt''"
| "ordering_operator_as_str OpLte = ''lte''"

definition ordering_operator_parse :: "string \<Rightarrow> ordering_filter_operator option" where
  "ordering_operator_parse s =
     (if s = ''gt'' then Some OpGt else if s = ''gte'' then Some OpGte
      else if s = ''lt'' then Some OpLt else if s = ''lte'' then Some OpLte else None)"

fun set_operator_as_str :: "set_filter_operator \<Rightarrow> string" where
  "set_operator_as_str OpIn = ''in''"
| "set_operator_as_str OpNin = ''nin''"

definition set_operator_parse :: "string \<Rightarrow> set_filter_operator option" where
  "set_operator_parse s =
     (if s = ''in'' then Some OpIn else if s = ''nin'' then Some OpNin else None)"

section \<open>Conditions and expressions\<close>

datatype metadata_filter_scalar = ScalarText string | ScalarNumber numeric_literal | ScalarBool bool

fun as_comparison_text :: "metadata_filter_scalar \<Rightarrow> string" where
  "as_comparison_text (ScalarText t) = t"
| "as_comparison_text (ScalarNumber n) = nl_text n"
| "as_comparison_text (ScalarBool b) = (if b then ''true'' else ''false'')"

datatype metadata_filter_condition =
    CondScalar string scalar_filter_operator metadata_filter_scalar
  | CondOrdering string ordering_filter_operator numeric_literal
  | CondSet string set_filter_operator "metadata_filter_scalar list"
  | CondExists string

fun operator_name :: "metadata_filter_condition \<Rightarrow> string" where
  "operator_name (CondScalar f op v) = scalar_operator_as_str op"
| "operator_name (CondOrdering f op b) = ordering_operator_as_str op"
| "operator_name (CondSet f op vs) = set_operator_as_str op"
| "operator_name (CondExists f) = ''*''"

fun condition_field :: "metadata_filter_condition \<Rightarrow> string" where
  "condition_field (CondScalar f op v) = f"
| "condition_field (CondOrdering f op b) = f"
| "condition_field (CondSet f op vs) = f"
| "condition_field (CondExists f) = f"

datatype metadata_filter_expression =
    FilterCondition metadata_filter_condition
  | FilterAll "metadata_filter_expression list"
  | FilterAny "metadata_filter_expression list"
  | FilterNot metadata_filter_expression

text \<open>\<^verbatim>\<open>collect_fields\<close> pushes the fields in tree order.\<close>

fun collect_fields :: "metadata_filter_expression \<Rightarrow> string list" where
  "collect_fields (FilterCondition c) = [condition_field c]"
| "collect_fields (FilterAll es) = concat (map collect_fields es)"
| "collect_fields (FilterAny es) = concat (map collect_fields es)"
| "collect_fields (FilterNot e) = collect_fields e"

definition referenced_fields :: "metadata_filter_expression \<Rightarrow> string list" where
  "referenced_fields e = remdups_adj (sort (collect_fields e))"

section \<open>Evaluation\<close>

datatype tristate = TriTrue | TriFalse | TriUnknown

definition tri_of_bool :: "bool \<Rightarrow> tristate" where
  "tri_of_bool b = (if b then TriTrue else TriFalse)"

fun tri_and :: "tristate \<Rightarrow> tristate \<Rightarrow> tristate" where
  "tri_and TriFalse _ = TriFalse"
| "tri_and _ TriFalse = TriFalse"
| "tri_and TriTrue TriTrue = TriTrue"
| "tri_and _ _ = TriUnknown"

fun tri_or :: "tristate \<Rightarrow> tristate \<Rightarrow> tristate" where
  "tri_or TriTrue _ = TriTrue"
| "tri_or _ TriTrue = TriTrue"
| "tri_or TriFalse TriFalse = TriFalse"
| "tri_or _ _ = TriUnknown"

fun tri_negate :: "tristate \<Rightarrow> tristate" where
  "tri_negate TriTrue = TriFalse"
| "tri_negate TriFalse = TriTrue"
| "tri_negate TriUnknown = TriUnknown"

fun json_scalar_text :: "'n json_host \<Rightarrow> 'n json \<Rightarrow> string option" where
  "json_scalar_text h JNull = None"
| "json_scalar_text h (JString s) = Some s"
| "json_scalar_text h (JBool b) = Some (if b then ''true'' else ''false'')"
| "json_scalar_text h (JNumber n) = Some (num_text h n)"
| "json_scalar_text h v = Some (container_text h v)"

fun json_number_value :: "'n json_host \<Rightarrow> 'n json \<Rightarrow> f64 option" where
  "json_number_value h (JNumber n) = num_f64 h n"
| "json_number_value h v = None"

definition scalar_holds :: "'n json_host \<Rightarrow> scalar_filter_operator \<Rightarrow> string \<Rightarrow> string \<Rightarrow> bool" where
  "scalar_holds h op stored expected =
     (case op of
        OpEq \<Rightarrow> stored = expected
      | OpNe \<Rightarrow> stored \<noteq> expected
      | OpContains \<Rightarrow> contains_text stored expected
      | OpIContains \<Rightarrow> contains_text (to_lowercase h stored) (to_lowercase h expected))"

definition ordering_holds :: "ordering_filter_operator \<Rightarrow> f64 \<Rightarrow> f64 \<Rightarrow> bool" where
  "ordering_holds op x y =
     (case op of OpGt \<Rightarrow> f64_lt y x | OpGte \<Rightarrow> f64_le y x | OpLt \<Rightarrow> f64_lt x y | OpLte \<Rightarrow> f64_le x y)"

definition set_holds :: "set_filter_operator \<Rightarrow> string \<Rightarrow> metadata_filter_scalar list \<Rightarrow> bool" where
  "set_holds op stored vs =
     (let present = list_ex (\<lambda>v. as_comparison_text v = stored) vs
      in case op of OpIn \<Rightarrow> present | OpNin \<Rightarrow> \<not> present)"

fun is_exists :: "metadata_filter_condition \<Rightarrow> bool" where
  "is_exists (CondExists f) = True"
| "is_exists _ = False"

definition condition_evaluate ::
  "'n json_host \<Rightarrow> metadata_filter_condition \<Rightarrow> (string \<times> 'n json) list option \<Rightarrow> tristate" where
  "condition_evaluate h c document =
     (case document of
        None \<Rightarrow> TriUnknown
      | Some d \<Rightarrow>
          (case map_of d (condition_field c) of
             None \<Rightarrow> (if is_exists c then TriFalse else TriUnknown)
           | Some stored \<Rightarrow>
               (case c of
                  CondExists f \<Rightarrow> TriTrue
                | CondScalar f op v \<Rightarrow>
                    (case json_scalar_text h stored of
                       None \<Rightarrow> TriUnknown
                     | Some t \<Rightarrow> tri_of_bool (scalar_holds h op t (as_comparison_text v)))
                | CondOrdering f op b \<Rightarrow>
                    (case json_number_value h stored of
                       None \<Rightarrow> TriUnknown
                     | Some x \<Rightarrow> tri_of_bool (ordering_holds op x (nl_value b)))
                | CondSet f op vs \<Rightarrow>
                    (case json_scalar_text h stored of
                       None \<Rightarrow> TriUnknown
                     | Some t \<Rightarrow> tri_of_bool (set_holds op t vs)))))"

fun evaluate ::
  "'n json_host \<Rightarrow> metadata_filter_expression \<Rightarrow> (string \<times> 'n json) list option \<Rightarrow> tristate" where
  "evaluate h (FilterCondition c) d = condition_evaluate h c d"
| "evaluate h (FilterAll es) d = foldl tri_and TriTrue (map (\<lambda>e. evaluate h e d) es)"
| "evaluate h (FilterAny es) d = foldl tri_or TriFalse (map (\<lambda>e. evaluate h e d) es)"
| "evaluate h (FilterNot e) d = tri_negate (evaluate h e d)"

definition filter_matches ::
  "'n json_host \<Rightarrow> metadata_filter_expression \<Rightarrow> string option \<Rightarrow> metadata_filter_error + bool" where
  "filter_matches h e metadata_json =
     (case metadata_json of
        None \<Rightarrow> Inr False
      | Some text \<Rightarrow>
          (case json_from_str h text of
             Inl detail \<Rightarrow> Inl (MetadataNotJson detail)
           | Inr v \<Rightarrow>
               (let lookup = (case as_object v of None \<Rightarrow> [] | Some ps \<Rightarrow> ps)
                in Inr (evaluate h e (Some lookup) = TriTrue))))"

section \<open>Parsing\<close>

definition charge_condition :: "nat \<Rightarrow> string \<Rightarrow> string \<Rightarrow> metadata_filter_error + nat" where
  "charge_condition nodes field operator =
     (let n = nodes + 1
      in if max_filter_condition_nodes < n
         then Inl (InvalidValueShape field operator
           (''condition '' @ nat_text n @ '' exceeds the filter limit of '' @
            nat_text max_filter_condition_nodes @ '' conditions''))
         else Inr n)"

fun parse_scalar :: "'n json_host \<Rightarrow> string \<Rightarrow> string \<Rightarrow> 'n json \<Rightarrow>
    metadata_filter_error + metadata_filter_scalar" where
  "parse_scalar h field operator (JString t) = Inr (ScalarText t)"
| "parse_scalar h field operator (JBool b) = Inr (ScalarBool b)"
| "parse_scalar h field operator (JNumber n) =
     and_then (numeric_literal_parse (num_text h n)) (\<lambda>l. Inr (ScalarNumber l))"
| "parse_scalar h field operator JNull = Inl (NullLiteral field)"
| "parse_scalar h field operator v =
     Inl (InvalidValueShape field operator (''value of type '' @ json_type_name v @ '' is not a scalar''))"

definition parse_set_item :: "'n json_host \<Rightarrow> string \<Rightarrow> set_filter_operator \<Rightarrow> 'n json \<Rightarrow>
    metadata_filter_error + metadata_filter_scalar" where
  "parse_set_item h field op item =
     (if as_array item \<noteq> None \<or> as_object item \<noteq> None
      then Inl (InvalidValueShape field (set_operator_as_str op)
             (''element of type '' @ json_type_name item @ '' is not a scalar''))
      else parse_scalar h field (set_operator_as_str op) item)"

definition parse_set_condition :: "'n json_host \<Rightarrow> string \<Rightarrow> set_filter_operator \<Rightarrow> 'n json list \<Rightarrow>
    metadata_filter_error + metadata_filter_condition" where
  "parse_set_condition h field op items =
     (if items = []
      then Inl (InvalidValueShape field (set_operator_as_str op) ''requires at least one value'')
      else if max_filter_set_values < length items
      then Inl (InvalidValueShape field (set_operator_as_str op)
             (''carries '' @ nat_text (length items) @ '' values, above the limit of '' @
              nat_text max_filter_set_values))
      else and_then (collect_results (parse_set_item h field op) items)
             (\<lambda>vs. Inr (CondSet field op vs)))"

definition scalar_quote_list_hint :: string where
  "scalar_quote_list_hint =
     ''expects a single scalar; use '' @ [CHR 0x22] @ ''in'' @ [CHR 0x22] @ '' or '' @ [CHR 0x22] @
     ''nin'' @ [CHR 0x22] @ '' for lists''"

definition parse_operator_condition :: "'n json_host \<Rightarrow> string \<Rightarrow> string \<Rightarrow> 'n json \<Rightarrow>
    metadata_filter_error + metadata_filter_condition" where
  "parse_operator_condition h field operator operand =
     (case scalar_operator_parse operator of
        Some op \<Rightarrow>
          if as_array operand \<noteq> None
          then Inl (InvalidValueShape field operator scalar_quote_list_hint)
          else and_then (parse_scalar h field operator operand) (\<lambda>v. Inr (CondScalar field op v))
      | None \<Rightarrow>
       (case ordering_operator_parse operator of
          Some op \<Rightarrow>
            (case as_f64 h operand of
               None \<Rightarrow> Inl (OrderingValueNotNumber operator)
             | Some x \<Rightarrow> and_then (numeric_literal_parse (f64_text h x))
                           (\<lambda>b. Inr (CondOrdering field op b)))
        | None \<Rightarrow>
         (case set_operator_parse operator of
            Some op \<Rightarrow>
              (case as_array operand of
                 None \<Rightarrow> Inl (InvalidValueShape field operator ''requires a list value'')
               | Some items \<Rightarrow> parse_set_condition h field op items)
          | None \<Rightarrow> Inl (UnsupportedOperator operator (join_text '', '' infix_operators)))))"

text \<open>The condition of a field, before it is charged.\<close>

definition field_condition :: "'n json_host \<Rightarrow> string \<Rightarrow> 'n json \<Rightarrow>
    metadata_filter_error + metadata_filter_condition" where
  "field_condition h field v =
     (case v of
        JObject ops \<Rightarrow>
          (case ops of
             [] \<Rightarrow> Inl (EmptyCondition field)
           | [(operator, operand)] \<Rightarrow> parse_operator_condition h field operator operand
           | _ \<Rightarrow> Inl (MultipleOperators field (length ops)))
      | JArray items \<Rightarrow> parse_set_condition h field OpIn items
      | _ \<Rightarrow> if v = JString ''*'' then Inr (CondExists field)
             else and_then (parse_scalar h field ''eq'' v) (\<lambda>s. Inr (CondScalar field OpEq s)))"

definition parse_field_condition :: "'n json_host \<Rightarrow> string \<Rightarrow> 'n json \<Rightarrow> nat \<Rightarrow>
    metadata_filter_error + (metadata_filter_expression \<times> nat)" where
  "parse_field_condition h field v budget =
     (if trim field = [] then Inl BlankFieldName
      else and_then (field_condition h field v) (\<lambda>c.
        and_then (charge_condition budget field (operator_name c)) (\<lambda>budget.
          Inr (FilterCondition c, budget))))"

definition logical_entries :: "string \<Rightarrow> 'n json \<Rightarrow>
    metadata_filter_error + (string \<times> 'n json) list list" where
  "logical_entries logical v =
     (case as_array v of
        None \<Rightarrow> Inl (LogicalNotArray logical)
      | Some es \<Rightarrow>
          if es = [] then Inl (LogicalEmpty logical)
          else collect_results (\<lambda>e. case as_object e of
                 None \<Rightarrow> Inl (LogicalEntryNotObject logical (json_type_name e))
               | Some ps \<Rightarrow> Inr ps) es)"

text \<open>Sizes, for the recursion through an object's values.\<close>

abbreviation object_size :: "(string \<times> 'n json) list \<Rightarrow> nat" where
  "object_size \<equiv> size_list (size_prod (\<lambda>_. 0) (size_json (\<lambda>_. 0)))"

lemma logical_entries_smaller:
  assumes "logical_entries logical v = Inr groups"
  shows "size_list object_size groups < size_json (\<lambda>_. 0) v"
proof -
  obtain es where v: "v = JArray es"
    and all: "list_all2 (\<lambda>e g. as_object e = Some g) es groups"
    using assms
    by (cases v) (auto simp: logical_entries_def collect_results_Inr list_all2_conv_all_nth
        split: if_splits option.splits)
  have "size_list object_size groups \<le> size_list (size_json (\<lambda>_. 0)) es"
    using all
  proof (induction rule: list_all2_induct)
    case (Cons e es g groups)
    then show ?case by (cases e) auto
  qed simp
  then show ?thesis by (simp add: v)
qed

function parse_object_conditions :: "'n json_host \<Rightarrow> (string \<times> 'n json) list \<Rightarrow> nat \<Rightarrow>
      metadata_filter_error + (metadata_filter_expression list \<times> nat)"
  and parse_groups :: "'n json_host \<Rightarrow> string \<Rightarrow> (string \<times> 'n json) list list \<Rightarrow> nat \<Rightarrow>
      metadata_filter_error + (metadata_filter_expression list list \<times> nat)" where
  "parse_object_conditions h [] budget = Inr ([], budget)"
| "parse_object_conditions h ((key, v) # rest) budget =
     and_then
       (if key = ''AND'' then
          and_then (logical_entries ''AND'' v) (\<lambda>groups.
            and_then (parse_groups h ''AND'' groups budget) (\<lambda>(gs, budget).
              Inr (concat gs, budget)))
        else if key = ''OR'' then
          and_then (logical_entries ''OR'' v) (\<lambda>groups.
            and_then (parse_groups h ''OR'' groups budget) (\<lambda>(gs, budget).
              Inr ([FilterAny (map FilterAll gs)], budget)))
        else if key = ''NOT'' then
          and_then (logical_entries ''NOT'' v) (\<lambda>groups.
            and_then (parse_groups h ''NOT'' groups budget) (\<lambda>(gs, budget).
              Inr ([FilterNot (FilterAny (map FilterAll gs))], budget)))
        else and_then (parse_field_condition h key v budget) (\<lambda>(e, budget). Inr ([e], budget)))
       (\<lambda>(children, budget).
          and_then (parse_object_conditions h rest budget) (\<lambda>(others, budget).
            Inr (children @ others, budget)))"
| "parse_groups h logical [] budget = Inr ([], budget)"
| "parse_groups h logical (g # gs) budget =
     (if g = [] then Inl (LogicalEntryNotObject logical ''empty object'')
      else and_then (parse_object_conditions h g budget) (\<lambda>(children, budget).
        and_then (parse_groups h logical gs budget) (\<lambda>(others, budget).
          Inr (children # others, budget))))"
  by pat_completeness auto
termination
  by (relation "measure (\<lambda>x. case x of Inl (h, ps, b) \<Rightarrow> object_size ps
        | Inr (h, l, gs, b) \<Rightarrow> size_list object_size gs)")
    (auto dest: logical_entries_smaller)

declare parse_object_conditions.simps(2) [simp del]

definition parse_metadata_filter :: "'n json_host \<Rightarrow> 'n json \<Rightarrow>
    metadata_filter_error + metadata_filter_expression option" where
  "parse_metadata_filter h v =
     (case as_object v of
        None \<Rightarrow> Inl (RootNotObject (json_type_name v))
      | Some ps \<Rightarrow>
          if ps = [] then Inr None
          else and_then (parse_object_conditions h ps 0) (\<lambda>(children, _).
            case children of
              [] \<Rightarrow> Inl NoCondition
            | [e] \<Rightarrow> Inr (Some e)
            | _ \<Rightarrow> Inr (Some (FilterAll children))))"

end
