(* ===== verification/Reference_Retrieval.thy ===== *)
theory Reference_Retrieval
  imports Reference_State Metadata_Filter
begin

text \<open>
  The retrieval side of the reference runtime: \<^verbatim>\<open>MemoryRetrieverPort\<close>,
  \<^verbatim>\<open>MemoryContextAssemblerPort\<close> and the ports that fail closed. A scoped search returns
  visible records of its scope that the caller may read and that contain the query, newest
  first, at most \<^verbatim>\<open>limit\<close> of them, and drops only records that rank after what it keeps.
\<close>

section \<open>Errors\<close>

definition scope_required_error :: "string \<Rightarrow> string \<Rightarrow> spi_error" where
  "scope_required_error port scoped_method =
     PortOperationFailed port
       (''reference runtime requires explicit tenant and space scope; use '' @ scoped_method)"

definition reference_capability_unavailable :: "string \<Rightarrow> string \<Rightarrow> spi_error" where
  "reference_capability_unavailable port reason =
     PortOperationFailed port (''reference capability is unavailable and fails closed: '' @ reason)"

definition retriever_error :: "string \<Rightarrow> spi_error" where
  "retriever_error msg = PortOperationFailed ''MemoryRetrieverPort'' msg"

text \<open>The unscoped and unsupported ports refuse without touching the state.\<close>

definition retriever_retrieve :: "retrieve_candidates_command \<Rightarrow> string list rt_op" where
  "retriever_retrieve c rt = (Inl (scope_required_error ''MemoryRetrieverPort'' ''retrieve_scoped''), rt)"

definition index_index :: "string \<Rightarrow> string rt_op" where
  "index_index i rt =
     (Inl (reference_capability_unavailable ''MemoryIndexPort''
        ''the reference runtime has no independently materialized index''), rt)"

definition context_assemble :: "string list \<Rightarrow> context_pack_draft rt_op" where
  "context_assemble ids rt =
     (Inl (scope_required_error ''MemoryContextAssemblerPort'' ''assemble_scoped''), rt)"

definition evaluation_run :: "string rt_op" where
  "evaluation_run rt =
     (Inl (reference_capability_unavailable ''MemoryEvaluationPort''
        ''the reference runtime has no golden dataset evaluation engine''), rt)"

text \<open>The external bridge is not configured: every operation refuses, whatever its command.\<close>

definition external_bridge_unconfigured :: spi_error where
  "external_bridge_unconfigured = PortOperationFailed ''ExternalMemoryBridgePort''
     ''reference external memory bridge is fail-closed until a reviewed provider adapter is configured''"

definition external_import :: "'c \<Rightarrow> 'r rt_op" where
  "external_import c rt = (Inl external_bridge_unconfigured, rt)"

definition external_export :: "'c \<Rightarrow> 'r rt_op" where
  "external_export c rt = (Inl external_bridge_unconfigured, rt)"

definition external_delete :: "'c \<Rightarrow> 'r rt_op" where
  "external_delete c rt = (Inl external_bridge_unconfigured, rt)"

definition external_shadow_read :: "'c \<Rightarrow> 'r rt_op" where
  "external_shadow_read c rt = (Inl external_bridge_unconfigured, rt)"

section \<open>Scoped retrieval\<close>

definition keyword_ids :: "scope_context \<Rightarrow> string \<Rightarrow> reference_runtime \<Rightarrow> string list" where
  "keyword_ids sc query rt =
     map (\<lambda>(k, s). mr_memory_id (ms_record s))
       (filter (\<lambda>(k, s). matches_scope k sc \<and> \<not> ms_deleted s \<and>
          contains_text (ascii_lower (mr_content (ms_record s))) query) (rm_records rt))"

definition retrieve_scoped :: "scope_context \<Rightarrow> retrieve_candidates_command \<Rightarrow> string list rt_op" where
  "retrieve_scoped sc c =
     (let query = ascii_lower (rc_query c)
      in with_lock RecordsLock (\<lambda>rt.
           (Inr (top_by (\<lambda>i. i) max_retrieval_candidates (keyword_ids sc query rt)), rt)))"

section \<open>Scoped search\<close>

record search_query =
  qs_scope :: scope_context
  qs_query :: string
  qs_limit :: nat
  qs_retriever_kinds :: "retriever_kind list"
  qs_memory_types :: "string list"
  qs_read_scope :: sensitivity_read_scope
  qs_metadata_filter :: "metadata_filter_expression option"
  qs_include_expired :: bool

definition readable :: "sensitivity_read_scope \<Rightarrow> canonical_record \<Rightarrow> bool" where
  "readable rs r =
     (case rs of
        Owner \<Rightarrow> True
      | Elevated \<Rightarrow> cr_sensitivity_level r \<noteq> ''restricted''
      | Public \<Rightarrow> cr_sensitivity_level r = ''public'' \<or> cr_sensitivity_level r = ''internal'')"

definition opt_text :: "string option \<Rightarrow> string" where
  "opt_text s = (case s of None \<Rightarrow> [] | Some t \<Rightarrow> t)"

definition searchable_text :: "canonical_record \<Rightarrow> string" where
  "searchable_text r =
     opt_text (cr_subject r) @ '' '' @ opt_text (cr_predicate r) @ '' '' @ cr_object_text r @ '' '' @
     cr_canonical_text r"

definition record_matches :: "(string \<Rightarrow> string) \<Rightarrow> search_query \<Rightarrow> string \<Rightarrow> canonical_record \<Rightarrow> bool" where
  "record_matches lower q needle r \<longleftrightarrow>
     (qs_memory_types q = [] \<or> cr_memory_type r \<in> set (qs_memory_types q)) \<and>
     readable (qs_read_scope q) r \<and> contains_text (lower (searchable_text r)) needle"

definition record_candidate :: "canonical_record \<Rightarrow> retrieval_record_candidate" where
  "record_candidate r =
     \<lparr>rr_memory_id = cr_memory_id r, rr_subject = cr_subject r, rr_predicate = cr_predicate r,
      rr_object_text = cr_object_text r, rr_canonical_text = cr_canonical_text r,
      rr_created_at = cr_created_at r\<rparr>"

text \<open>The filter chain over the records map.\<close>

definition search_candidates ::
  "(string \<Rightarrow> string) \<Rightarrow> search_query \<Rightarrow> string \<Rightarrow> reference_runtime \<Rightarrow> canonical_record list" where
  "search_candidates lower q needle rt =
     filter (record_matches lower q needle)
       (List.map_filter (\<lambda>(k, s). visible_canonical s)
         (filter (\<lambda>(k, s). matches_scope k (qs_scope q)) (rm_records rt)))"

definition candidate_rank :: "retrieval_record_candidate \<Rightarrow> string desc \<times> string" where
  "candidate_rank c = (Desc (rr_created_at c), rr_memory_id c)"

definition search_query_error :: "search_query \<Rightarrow> string \<Rightarrow> spi_error option" where
  "search_query_error q needle =
     (if needle = [] then Some (retriever_error ''memory retrieval query must not be blank'')
      else if qs_retriever_kinds q = []
      then Some (retriever_error ''memory retrieval must select at least one retriever'')
      else if qs_limit q = 0 \<or> max_retrieval_candidates < qs_limit q
      then Some (retriever_error (''memory retrieval candidate limit must be between 1 and '' @
             nat_text max_retrieval_candidates))
      else if RkKeyword \<notin> set (qs_retriever_kinds q)
      then Some (retriever_error
             ''selected memory retrievers are not supported by the reference runtime'')
      else None)"

definition search_scoped ::
  "(string \<Rightarrow> string) \<Rightarrow> search_query \<Rightarrow> retriever_search_result rt_op" where
  "search_scoped lower q rt =
     (let needle = lower (trim (qs_query q));
          unavailable = filter (\<lambda>k. k \<noteq> RkKeyword) (qs_retriever_kinds q)
      in case search_query_error q needle of
           Some e \<Rightarrow> (Inl e, rt)
         | None \<Rightarrow> with_lock RecordsLock (\<lambda>rt.
             (Inr \<lparr>rs_records = top_by candidate_rank (qs_limit q)
                     (map record_candidate (search_candidates lower q needle rt)),
                rs_events = [], rs_degraded = (unavailable \<noteq> []),
                rs_unavailable_retriever_kinds = unavailable,
                rs_degradation_codes =
                  (if unavailable = [] then [] else [''retriever_kind_unavailable''])\<rparr>, rt)) rt)"

section \<open>Context assembly\<close>

fun assemble_loop :: "scope_context \<Rightarrow> reference_runtime \<Rightarrow> string list \<Rightarrow> string list \<times> string list" where
  "assemble_loop sc rt [] = ([], [])"
| "assemble_loop sc rt (i # is) =
     (let (ids, ls) = assemble_loop sc rt is
      in case Option.bind (hm_get (rm_records rt) (scoped_id_new sc i)) visible_record of
           None \<Rightarrow> (ids, ls)
         | Some r \<Rightarrow> (i # ids, mr_content r # ls))"

definition assemble_scoped :: "scope_context \<Rightarrow> string list \<Rightarrow> context_pack_draft rt_op" where
  "assemble_scoped sc ids =
     with_lock RecordsLock (\<lambda>rt.
       let (found, ls) = assemble_loop sc rt ids
       in (Inr \<lparr>pk_memory_ids = found, pk_context_text = join_text [CHR 0x0A] ls\<rparr>, rt))"

section \<open>Lemmas\<close>

lemma set_search_candidates:
  assumes "hm_ok (rm_records rt)"
  shows "r \<in> set (search_candidates lower q needle rt) \<longleftrightarrow>
    record_matches lower q needle r \<and>
    (\<exists>k s. hm_get (rm_records rt) k = Some s \<and> matches_scope k (qs_scope q) \<and> \<not> ms_deleted s \<and>
       ms_canonical s = Some r)"
  using hm_get_in [OF assms]
  by (force simp: search_candidates_def List.map_filter_def visible_canonical_def split: if_splits)

text \<open>
  Every stored canonical record carries the id of its key and belongs to its space: what
  the creating operations establish, and what makes results of a search distinct.
\<close>

definition canonical_keyed :: "(scoped_id, record_state) hmap \<Rightarrow> bool" where
  "canonical_keyed m \<longleftrightarrow> hm_ok m \<and>
     (\<forall>k s r. hm_get m k = Some s \<longrightarrow> ms_canonical s = Some r \<longrightarrow>
        cr_memory_id r = si_id k \<and> cr_space_id r = si_space_id k)"

lemma canonical_keyed_insert:
  "canonical_keyed m \<Longrightarrow>
    (\<And>r. ms_canonical s = Some r \<Longrightarrow> cr_memory_id r = si_id k \<and> cr_space_id r = si_space_id k) \<Longrightarrow>
    canonical_keyed (hm_insert k s m)"
  by (auto simp: canonical_keyed_def)

lemma canonical_keyed_modify:
  assumes "canonical_keyed m"
    and "\<And>s r. ms_canonical (f s) = Some r \<Longrightarrow>
      \<exists>r0. ms_canonical s = Some r0 \<and> cr_memory_id r = cr_memory_id r0 \<and> cr_space_id r = cr_space_id r0"
  shows "canonical_keyed (hm_modify k f m)"
  using assms(1) unfolding canonical_keyed_def
  by (auto split: if_splits) (metis assms(2))+

text \<open>The visible record of an id in a scope, and the context built from a list of ids.\<close>

definition visible_in :: "scope_context \<Rightarrow> reference_runtime \<Rightarrow> string \<Rightarrow> memory_record option" where
  "visible_in sc rt i = Option.bind (hm_get (rm_records rt) (scoped_id_new sc i)) visible_record"

lemma assemble_loop_spec:
  "assemble_loop sc rt is =
    (filter (\<lambda>i. visible_in sc rt i \<noteq> None) is,
     map (\<lambda>i. mr_content (the (visible_in sc rt i))) (filter (\<lambda>i. visible_in sc rt i \<noteq> None) is))"
  by (induction "is") (simp_all add: visible_in_def split: option.split)

text \<open>A stored match is returned, or the page is full of records that rank before it.\<close>

lemma search_complete:
  fixes n :: nat
  assumes "r \<in> set (search_candidates lower q needle rt)"
  defines "out \<equiv> top_by candidate_rank n (map record_candidate (search_candidates lower q needle rt))"
  shows "record_candidate r \<in> set out \<or>
    length out = n \<and> list_all (\<lambda>c. candidate_rank c \<le> candidate_rank (record_candidate r)) out"
proof (cases "record_candidate r \<in> set out")
  case False
  let ?xs = "map record_candidate (search_candidates lower q needle rt)"
  have mem: "record_candidate r \<in> set ?xs" using assms(1) by simp
  have "n < length ?xs"
    using False mem top_by_all [of ?xs n candidate_rank] by (force simp: out_def)
  then have "length out = n" by (simp add: out_def length_top_by)
  moreover have "list_all (\<lambda>c. candidate_rank c \<le> candidate_rank (record_candidate r)) out"
    using top_by_dropped [OF mem] False by (auto simp: out_def list_all_iff)
  ultimately show ?thesis by simp
qed simp

lemma search_scoped_result:
  assumes "search_scoped lower q rt = (Inr res, rt')"
  shows "rt' = rt" and "0 < qs_limit q" and "qs_limit q \<le> max_retrieval_candidates"
    and "rs_records res = top_by candidate_rank (qs_limit q)
      (map record_candidate (search_candidates lower q (lower (trim (qs_query q))) rt))"
    and "RkKeyword \<in> set (qs_retriever_kinds q)"
    and "rs_degraded res \<longleftrightarrow> (\<exists>k \<in> set (qs_retriever_kinds q). k \<noteq> RkKeyword)"
  using assms
  by (auto simp: search_scoped_def Let_def with_lock_def search_query_error_def filter_empty_conv
      split: option.splits if_splits)

end
