(* ===== verification/Runtime_Writes.thy ===== *)
theory Runtime_Writes
  imports Candidate_Invariant Candidate_Listing Reference_Records Reference_Journals
    Reference_Learning Reference_Governance Reference_Retrieval
begin

text \<open>
  The elementary writes the operations of the reference runtime are made of, as a relation:
  \<^verbatim>\<open>writes t rt rt'\<close> says that \<^verbatim>\<open>rt'\<close> comes from \<^verbatim>\<open>rt\<close> by inserts and in-place updates whose
  keys all lie in tenant \<^verbatim>\<open>t\<close>. Two facts are proved once for the relation, and every
  operation inherits them: the invariant of the whole runtime is kept, and the data of
  every other tenant is untouched.
\<close>

section \<open>The relation\<close>

definition canonical_fits :: "scoped_id \<Rightarrow> record_state \<Rightarrow> bool" where
  "canonical_fits k s \<longleftrightarrow>
     (\<forall>r. ms_canonical s = Some r \<longrightarrow> cr_memory_id r = si_id k \<and> cr_space_id r = si_space_id k)"

definition record_keeps :: "(record_state \<Rightarrow> record_state) \<Rightarrow> bool" where
  "record_keeps f \<longleftrightarrow>
     (\<forall>s r. ms_canonical (f s) = Some r \<longrightarrow> (\<exists>r0. ms_canonical s = Some r0 \<and>
        cr_memory_id r = cr_memory_id r0 \<and> cr_space_id r = cr_space_id r0))"

inductive writes :: "i64 \<Rightarrow> reference_runtime \<Rightarrow> reference_runtime \<Rightarrow> bool" for t :: i64 where
  writes_refl: "writes t rt rt"
| writes_record: "writes t rt x \<Longrightarrow> si_tenant_id k = t \<Longrightarrow> canonical_fits k s \<Longrightarrow>
    writes t rt (put_record k s x)"
| writes_modify_record: "writes t rt x \<Longrightarrow> si_tenant_id k = t \<Longrightarrow> record_keeps f \<Longrightarrow>
    writes t rt (modify_record k f x)"
| writes_outbox: "writes t rt x \<Longrightarrow> si_tenant_id k = t \<Longrightarrow> ob_outbox_id e = si_id k \<Longrightarrow>
    writes t rt (put_outbox k e x)"
| writes_modify_outbox: "writes t rt x \<Longrightarrow> si_tenant_id k = t \<Longrightarrow>
    (\<And>e. ob_outbox_id (f e) = ob_outbox_id e) \<Longrightarrow> writes t rt (modify_outbox k f x)"
| writes_audit: "writes t rt x \<Longrightarrow> si_tenant_id k = t \<Longrightarrow> writes t rt (put_audit k a x)"
| writes_event: "writes t rt x \<Longrightarrow> si_tenant_id k = t \<Longrightarrow>
    writes t rt (x\<lparr>rm_events := hm_insert k ev (rm_events x)\<rparr>)"
| writes_candidate: "writes t rt x \<Longrightarrow> si_tenant_id k = t \<Longrightarrow> mc_candidate_id c = si_id k \<Longrightarrow>
    a = list_ex (\<lambda>i. tk_space_id i \<noteq> si_space_id k)
      (tenant_index_range (si_tenant_id k) (si_id k) (rm_candidate_listing_index x)) \<Longrightarrow>
    writes t rt (put_candidate k c now a x)"
| writes_decided: "writes t rt x \<Longrightarrow> si_tenant_id k = t \<Longrightarrow>
    writes t rt (modify_candidate k (decided st why who now) x)"
| writes_touch: "writes t rt x \<Longrightarrow> si_tenant_id k = t \<Longrightarrow> writes t rt (touch_timestamps k now x)"
| writes_target: "writes t rt x \<Longrightarrow> si_tenant_id k = t \<Longrightarrow> hm_contains (rm_candidates x) k \<Longrightarrow>
    writes t rt (put_target k m x)"
| writes_habit: "writes t rt x \<Longrightarrow> hk_tenant_id hk = t \<Longrightarrow> writes t rt (put_habit hk hb x)"
| writes_modify_habit: "writes t rt x \<Longrightarrow> hk_tenant_id hk = t \<Longrightarrow> writes t rt (modify_habit hk g x)"
| writes_trace: "writes t rt x \<Longrightarrow> si_tenant_id k = t \<Longrightarrow> rt_trace_id tr = si_id k \<Longrightarrow>
    rt_space_id tr = Some (si_space_id k) \<Longrightarrow> writes t rt (put_trace k tr x)"
| writes_space: "writes t rt x \<Longrightarrow> gs_tenant_id gk = t \<Longrightarrow> sf_space_id sf = gs_space_id gk \<Longrightarrow>
    writes t rt (put_space gk sf x)"
| writes_binding: "writes t rt x \<Longrightarrow> gk_tenant_id ak = t \<Longrightarrow>
    writes t rt (x\<lparr>rm_governance_bindings := hm_push ak ab (rm_governance_bindings x)\<rparr>)"
| writes_capability: "writes t rt x \<Longrightarrow> gc_tenant_id ck = t \<Longrightarrow>
    writes t rt (x\<lparr>rm_governance_capabilities := hm_push ck cb (rm_governance_capabilities x)\<rparr>)"

lemma writes_trans: "writes t b c \<Longrightarrow> writes t a b \<Longrightarrow> writes t a c"
  by (induction rule: writes.induct) (auto intro: writes.intros)

lemma writes_poisoned: "writes t rt rt' \<Longrightarrow> rm_poisoned rt' = rm_poisoned rt"
  by (induction rule: writes.induct)
    (simp_all add: modify_outbox_def put_candidate_def put_habit_def modify_habit_def put_trace_def
      put_space_def)

section \<open>The invariant of the runtime\<close>

definition runtime_inv :: "reference_runtime \<Rightarrow> bool" where
  "runtime_inv rt \<longleftrightarrow>
     canonical_keyed (rm_records rt) \<and> cand_inv rt \<and>
     hm_ok (rm_outbox rt) \<and> outbox_keyed (rm_outbox rt) \<and> hm_ok (rm_audits rt) \<and>
     hm_ok (rm_events rt) \<and> hm_ok (rm_habits rt) \<and> traces_keyed (rm_retrieval_traces rt) \<and>
     spaces_keyed (rm_governance_spaces rt) \<and> hm_ok (rm_governance_bindings rt) \<and>
     hm_ok (rm_governance_capabilities rt)"

lemma runtime_inv_new: "runtime_inv runtime_new"
  using cand_inv_new
  by (simp add: runtime_inv_def runtime_new_def canonical_keyed_def outbox_keyed_def traces_keyed_def
      spaces_keyed_def)

text \<open>Writes outside the candidate containers keep \<^verbatim>\<open>cand_inv\<close>.\<close>

lemma cand_inv_irrelevant [simp]:
  "cand_inv (rt\<lparr>rm_records := rs\<rparr>) = cand_inv rt" "cand_inv (rt\<lparr>rm_outbox := os\<rparr>) = cand_inv rt"
  "cand_inv (rt\<lparr>rm_audits := as\<rparr>) = cand_inv rt" "cand_inv (rt\<lparr>rm_events := evs\<rparr>) = cand_inv rt"
  "cand_inv (rt\<lparr>rm_habits := hs\<rparr>) = cand_inv rt"
  "cand_inv (rt\<lparr>rm_retrieval_traces := ts\<rparr>) = cand_inv rt"
  "cand_inv (rt\<lparr>rm_governance_spaces := ss\<rparr>) = cand_inv rt"
  "cand_inv (rt\<lparr>rm_governance_bindings := bs\<rparr>) = cand_inv rt"
  "cand_inv (rt\<lparr>rm_governance_capabilities := cs\<rparr>) = cand_inv rt"
  "cand_inv (rt\<lparr>rm_poisoned := ps\<rparr>) = cand_inv rt"
  by (simp_all add: cand_inv_def cand_keys_def)

lemmas plain_write_defs = put_record_def modify_record_def put_outbox_def modify_outbox_def
  put_audit_def put_habit_def modify_habit_def put_trace_def put_space_def

lemma cand_inv_put_candidate:
  assumes "cand_inv x" and "mc_candidate_id c = si_id k"
    and "a = list_ex (\<lambda>i. tk_space_id i \<noteq> si_space_id k)
      (tenant_index_range (si_tenant_id k) (si_id k) (rm_candidate_listing_index x))"
  shows "cand_inv (put_candidate k c now a x)"
proof (rule cand_inv_put [OF assms(1,2)])
  have "set (rm_candidate_listing_index x) = tenant_key_of ` cand_keys x"
    using assms(1) by (simp add: cand_inv_def)
  then show "a \<longleftrightarrow> (\<exists>k'\<in>cand_keys x. si_tenant_id k' = si_tenant_id k \<and> si_id k' = si_id k \<and> k' \<noteq> k)"
    unfolding assms(3) by (rule duplicate_test)
qed

lemma cand_inv_decided:
  assumes "cand_inv x"
  shows "cand_inv (modify_candidate k (decided st why who now) x)"
  by (rule cand_inv_same_shape [OF assms]) (use assms in \<open>auto simp: cand_inv_def\<close>)

lemma cand_inv_touch:
  assumes "cand_inv x"
  shows "cand_inv (touch_timestamps k now x)"
  by (rule cand_inv_same_shape [OF assms]) (use assms in \<open>auto simp: cand_inv_def\<close>)

lemma cand_inv_target:
  assumes "cand_inv x" and "hm_contains (rm_candidates x) k"
  shows "cand_inv (put_target k m x)"
  by (rule cand_inv_same_shape [OF assms(1)])
    (use assms in \<open>auto simp: cand_inv_def split: if_splits\<close>)

lemma hm_ok_push [simp]: "hm_ok m \<Longrightarrow> hm_ok (hm_push k v m)"
  by (simp add: hm_push_def)

lemma canonical_keyed_put: "canonical_keyed m \<Longrightarrow> canonical_fits k s \<Longrightarrow> canonical_keyed (hm_insert k s m)"
  by (rule canonical_keyed_insert) (auto simp: canonical_fits_def)

lemma canonical_keyed_mod: "canonical_keyed m \<Longrightarrow> record_keeps f \<Longrightarrow> canonical_keyed (hm_modify k f m)"
  by (rule canonical_keyed_modify) (auto simp: record_keeps_def)

lemma traces_keyed_put:
  "traces_keyed m \<Longrightarrow> rt_trace_id tr = si_id k \<Longrightarrow> rt_space_id tr = Some (si_space_id k) \<Longrightarrow>
    traces_keyed (hm_insert k tr m)"
  by (simp add: traces_keyed_def)

lemma writes_inv:
  assumes "writes t rt rt'" and "runtime_inv rt"
  shows "runtime_inv rt'"
  using assms
proof (induction rule: writes.induct)
  case (writes_candidate rt x k c a now)
  then show ?case
    using cand_inv_put_candidate [of x c k a now] by (simp add: runtime_inv_def put_candidate_def)
next
  case (writes_decided rt x k st why who now)
  then show ?case
    using cand_inv_decided [of x k st why who now] by (simp add: runtime_inv_def modify_candidate_def)
next
  case (writes_touch rt x k now)
  then show ?case
    using cand_inv_touch [of x k now] by (simp add: runtime_inv_def touch_timestamps_def)
next
  case (writes_target rt x k m)
  then show ?case
    using cand_inv_target [of x k m] by (simp add: runtime_inv_def put_target_def)
qed (simp_all add: runtime_inv_def plain_write_defs canonical_keyed_put canonical_keyed_mod
    outbox_keyed_insert outbox_keyed_modify spaces_keyed_put traces_keyed_put)

section \<open>Tenant isolation\<close>

text \<open>Both runtimes hold the same data for tenant \<^verbatim>\<open>u\<close>.\<close>

definition same_tenant :: "i64 \<Rightarrow> reference_runtime \<Rightarrow> reference_runtime \<Rightarrow> bool" where
  "same_tenant u rt rt' \<longleftrightarrow>
     (\<forall>k. si_tenant_id k = u \<longrightarrow>
        hm_get (rm_records rt') k = hm_get (rm_records rt) k \<and>
        hm_get (rm_events rt') k = hm_get (rm_events rt) k \<and>
        hm_get (rm_audits rt') k = hm_get (rm_audits rt) k \<and>
        hm_get (rm_outbox rt') k = hm_get (rm_outbox rt) k \<and>
        hm_get (rm_candidates rt') k = hm_get (rm_candidates rt) k \<and>
        hm_get (rm_candidate_timestamps rt') k = hm_get (rm_candidate_timestamps rt) k \<and>
        hm_get (rm_candidate_targets rt') k = hm_get (rm_candidate_targets rt) k \<and>
        hm_get (rm_retrieval_traces rt') k = hm_get (rm_retrieval_traces rt) k) \<and>
     filter (\<lambda>k. tk_tenant_id k = u) (rm_candidate_listing_index rt') =
       filter (\<lambda>k. tk_tenant_id k = u) (rm_candidate_listing_index rt) \<and>
     filter (\<lambda>k. sk_tenant_id k = u) (rm_candidate_space_listing_index rt') =
       filter (\<lambda>k. sk_tenant_id k = u) (rm_candidate_space_listing_index rt) \<and>
     (u \<in> rm_candidate_listing_ambiguous_tenants rt' \<longleftrightarrow> u \<in> rm_candidate_listing_ambiguous_tenants rt) \<and>
     (\<forall>k. hk_tenant_id k = u \<longrightarrow> hm_get (rm_habits rt') k = hm_get (rm_habits rt) k) \<and>
     (\<forall>k. gs_tenant_id k = u \<longrightarrow> hm_get (rm_governance_spaces rt') k = hm_get (rm_governance_spaces rt) k) \<and>
     (\<forall>k. gk_tenant_id k = u \<longrightarrow> hm_get (rm_governance_bindings rt') k = hm_get (rm_governance_bindings rt) k) \<and>
     (\<forall>k. gc_tenant_id k = u \<longrightarrow>
        hm_get (rm_governance_capabilities rt') k = hm_get (rm_governance_capabilities rt) k)"

lemma same_tenant_refl [simp]: "same_tenant u rt rt"
  by (simp add: same_tenant_def)

lemma same_tenant_trans: "same_tenant u a b \<Longrightarrow> same_tenant u b c \<Longrightarrow> same_tenant u a c"
  by (simp add: same_tenant_def)

lemma filter_bs_insert: "\<not> P x \<Longrightarrow> filter P (bs_insert x s) = filter P s"
  by (simp add: bs_insert_def insort_insert_key_def filter_insort_triv)

lemma hm_get_push:
  "hm_get (hm_push k v m) k' =
    (if k' = k then Some ((case hm_get m k of None \<Rightarrow> [] | Some xs \<Rightarrow> xs) @ [v]) else hm_get m k')"
  by (simp add: hm_push_def)

lemma writes_isolated:
  assumes "writes t rt rt'" and "u \<noteq> t"
  shows "same_tenant u rt rt'"
  using assms
proof (induction rule: writes.induct)
  case (writes_candidate rt x k c a now)
  then have "same_tenant u x (put_candidate k c now a x)"
    by (auto simp: same_tenant_def put_candidate_def filter_bs_insert)
  then show ?case
    using writes_candidate same_tenant_trans by blast
qed (auto simp: same_tenant_def put_record_def modify_record_def put_outbox_def modify_outbox_def
    put_audit_def put_habit_def modify_habit_def put_trace_def put_space_def modify_candidate_def
    touch_timestamps_def put_target_def hm_get_push)

end
