(* ===== verification/Reference_Machine.thy ===== *)
theory Reference_Machine
  imports Runtime_Writes
begin

text \<open>
  The reference runtime as a state machine: a command per operation that can change the
  state, the step relation (a command runs, or a thread panics while it holds a mutex), and
  the reachable states. Every command only performs \<^verbatim>\<open>writes\<close> in its own tenant, so the
  invariant holds in every reachable state and tenants are isolated from each other.
\<close>

section \<open>Commands\<close>

datatype memory_command =
    CreateRecord create_record_command
  | MarkDeleted scoped_id_query
  | CreateCanonical create_canonical_command nat string
  | Supersede supersede_command nat string
  | UpdateCanonical update_canonical_command string
  | DeleteCanonical delete_canonical_command string
  | DeleteAll delete_all_command "string \<Rightarrow> string"
  | AppendEvent append_event_command
  | AppendAudit append_audit_command
  | AppendOutbox append_outbox_command
  | MarkPublished mark_published_command string
  | MarkFailed mark_failed_command
  | CreateCandidate create_candidate_command string
  | DecideCandidate decide_candidate_command bool string
  | PromoteCandidate promote_candidate_command nat string string
  | PromoteWithJournal promote_with_journal_command nat string string
  | UpsertHabit upsert_habit_command string
  | PromoteHabit promote_habit_command
  | DecayHabit decay_habit_command
  | AppendTrace append_trace_command string
  | SeedSpace i64 space_fact
  | SeedActorBinding scope_context governance_actor actor_binding
  | SeedCapability scope_context capability_binding
  | CreateSpace create_space_command nat string

fun run_command :: "(string \<Rightarrow> 'j option) \<Rightarrow> memory_command \<Rightarrow> reference_runtime \<Rightarrow> reference_runtime" where
  "run_command from_str (CreateRecord c) rt = snd (record_create c rt)"
| "run_command from_str (MarkDeleted q) rt = snd (record_mark_deleted q rt)"
| "run_command from_str (CreateCanonical c m now) rt = snd (record_create_canonical_with_quota c m now rt)"
| "run_command from_str (Supersede c m now) rt = snd (record_supersede_with_quota from_str c m now rt)"
| "run_command from_str (UpdateCanonical c now) rt = snd (record_update_canonical c now rt)"
| "run_command from_str (DeleteCanonical c now) rt = snd (record_delete_canonical c now rt)"
| "run_command from_str (DeleteAll c now) rt = snd (record_delete_all_canonical c now rt)"
| "run_command from_str (AppendEvent c) rt = snd (event_append c rt)"
| "run_command from_str (AppendAudit c) rt = snd (audit_append c rt)"
| "run_command from_str (AppendOutbox c) rt = snd (outbox_append c rt)"
| "run_command from_str (MarkPublished c now) rt = snd (outbox_mark_published c now rt)"
| "run_command from_str (MarkFailed c) rt = snd (outbox_mark_failed c rt)"
| "run_command from_str (CreateCandidate c now) rt = snd (candidate_create c now rt)"
| "run_command from_str (DecideCandidate c approve now) rt =
     snd (if approve then candidate_approve c now rt else candidate_reject c now rt)"
| "run_command from_str (PromoteCandidate c m now1 now2) rt = snd (candidate_promote c m now1 now2 rt)"
| "run_command from_str (PromoteWithJournal c m now1 now2) rt =
     snd (candidate_promote_with_journal c m now1 now2 rt)"
| "run_command from_str (UpsertHabit c now) rt = snd (habit_upsert c now rt)"
| "run_command from_str (PromoteHabit c) rt = snd (habit_promote c rt)"
| "run_command from_str (DecayHabit c) rt = snd (habit_decay c rt)"
| "run_command from_str (AppendTrace c now) rt = snd (trace_append c now rt)"
| "run_command from_str (SeedSpace t f) rt = snd (seed_governance_space t f rt)"
| "run_command from_str (SeedActorBinding sc a f) rt = snd (seed_actor_space_binding sc a f rt)"
| "run_command from_str (SeedCapability sc f) rt = snd (seed_capability_binding sc f rt)"
| "run_command from_str (CreateSpace c m now) rt = snd (create_space_atomic_with_quota c m now rt)"

fun command_tenant :: "memory_command \<Rightarrow> i64" where
  "command_tenant (CreateRecord c) = sc_tenant_id (crc_scope c)"
| "command_tenant (MarkDeleted q) = sc_tenant_id (sq_scope q)"
| "command_tenant (CreateCanonical c m now) = sc_tenant_id (cc_scope c)"
| "command_tenant (Supersede c m now) = sc_tenant_id (su_scope c)"
| "command_tenant (UpdateCanonical c now) = sc_tenant_id (uc_scope c)"
| "command_tenant (DeleteCanonical c now) = sc_tenant_id (dc_scope c)"
| "command_tenant (DeleteAll c now) = sc_tenant_id (da_scope c)"
| "command_tenant (AppendEvent c) = sc_tenant_id (ae_scope c)"
| "command_tenant (AppendAudit c) = sc_tenant_id (aa_scope c)"
| "command_tenant (AppendOutbox c) = sc_tenant_id (ao_scope c)"
| "command_tenant (MarkPublished c now) = sc_tenant_id (mp_scope c)"
| "command_tenant (MarkFailed c) = sc_tenant_id (mf_scope c)"
| "command_tenant (CreateCandidate c now) = sc_tenant_id (ca_scope c)"
| "command_tenant (DecideCandidate c approve now) = sc_tenant_id (dd_scope c)"
| "command_tenant (PromoteCandidate c m now1 now2) = sc_tenant_id (pc_scope c)"
| "command_tenant (PromoteWithJournal c m now1 now2) = sc_tenant_id (pc_scope (pj_promotion c))"
| "command_tenant (UpsertHabit c now) = sc_tenant_id (uh_scope c)"
| "command_tenant (PromoteHabit c) = sc_tenant_id (ph_scope c)"
| "command_tenant (DecayHabit c) = sc_tenant_id (dh_scope c)"
| "command_tenant (AppendTrace c now) = sc_tenant_id (at_scope c)"
| "command_tenant (SeedSpace t f) = t"
| "command_tenant (SeedActorBinding sc a f) = sc_tenant_id sc"
| "command_tenant (SeedCapability sc f) = sc_tenant_id sc"
| "command_tenant (CreateSpace c m now) = cm_tenant_id c"

inductive step :: "(string \<Rightarrow> 'j option) \<Rightarrow> reference_runtime \<Rightarrow> reference_runtime \<Rightarrow> bool"
  for from_str :: "string \<Rightarrow> 'j option" where
  step_command: "step from_str rt (run_command from_str c rt)"
| step_panic: "step from_str rt (rt\<lparr>rm_poisoned := insert l (rm_poisoned rt)\<rparr>)"

inductive reachable :: "(string \<Rightarrow> 'j option) \<Rightarrow> reference_runtime \<Rightarrow> bool"
  for from_str :: "string \<Rightarrow> 'j option" where
  reachable_new: "reachable from_str runtime_new"
| reachable_step: "reachable from_str rt \<Longrightarrow> step from_str rt rt' \<Longrightarrow> reachable from_str rt'"

inductive_cases step_elim: "step from_str rt rt'"

section \<open>Every command is a sequence of writes in its tenant\<close>

lemma si_tenant_new [simp]: "si_tenant_id (scoped_id_new sc i) = sc_tenant_id sc"
  "si_space_id (scoped_id_new sc i) = sc_space_id sc"
  by (simp_all add: scoped_id_new_def)

lemma fits_active [simp]: "canonical_fits k (state_active r)"
  by (simp add: canonical_fits_def)

lemma fits_created [simp]:
  "canonical_fits (scoped_id_new (cc_scope c) (cc_memory_id c)) (state_active_canonical (created_canonical c now))"
  "canonical_fits (scoped_id_new (su_scope s) (su_new_memory_id s)) (state_active_canonical (superseding_canonical s now))"
  "canonical_fits (scoped_id_new (pc_scope p) (pc_memory_id p)) (state_active_canonical (promoted_canonical p now))"
  by (simp_all add: canonical_fits_def created_canonical_def superseding_canonical_def promoted_canonical_def)

lemma keeps_updates [simp]:
  "record_keeps (\<lambda>s. s\<lparr>ms_deleted := True\<rparr>)" "record_keeps (mark_superseded i now)"
  "record_keeps (update_record_state u now)" "record_keeps (delete_record_state now)"
  by (auto simp: record_keeps_def mark_superseded_def update_record_state_def delete_record_state_def
      update_canonical_record_def Let_def split: option.splits)

lemmas write_intros = writes_refl writes_record writes_modify_record writes_outbox writes_audit
  writes_event writes_decided writes_touch writes_habit writes_modify_habit writes_trace writes_space
  writes_binding writes_capability

lemma create_record_writes: "writes (sc_tenant_id (crc_scope c)) rt (snd (record_create c rt))"
  by (auto simp: record_create_def with_lock_def Let_def intro!: write_intros)

lemma mark_deleted_writes: "writes (sc_tenant_id (sq_scope q)) rt (snd (record_mark_deleted q rt))"
  by (auto simp: record_mark_deleted_def with_lock_def Let_def intro!: write_intros split: option.split)

lemma create_canonical_writes:
  "writes (sc_tenant_id (cc_scope c)) rt (snd (record_create_canonical_with_quota c m now rt))"
  by (auto simp: create_unfold intro!: write_intros split: option.split)

lemma supersede_apply_writes: "writes (sc_tenant_id (su_scope c)) rt (supersede_apply c now rt)"
  by (auto simp: supersede_apply_def reference_journal_entries_def intro!: write_intros)

lemma supersede_writes:
  "writes (sc_tenant_id (su_scope c)) rt (snd (record_supersede_with_quota from_str c m now rt))"
proof (cases "record_supersede_with_quota from_str c m now rt")
  case (Pair res rt')
  show ?thesis
  proof (cases "\<exists>r. res = Inr (Admitted r)")
    case True
    then show ?thesis
      using supersede_Admitted(2) Pair supersede_apply_writes writes_refl by (metis snd_conv)
  next
    case False
    then have "rt' = rt" using supersede_rejected Pair by blast
    then show ?thesis by (simp add: Pair writes_refl)
  qed
qed

lemma update_writes: "writes (sc_tenant_id (uc_scope c)) rt (snd (record_update_canonical c now rt))"
  by (auto simp: update_unfold intro!: write_intros split: option.split)

lemma delete_writes: "writes (sc_tenant_id (dc_scope c)) rt (snd (record_delete_canonical c now rt))"
  by (auto simp: delete_unfold intro!: write_intros split: option.split)

lemma delete_all_loop_writes:
  "list_all (\<lambda>k. si_tenant_id k = t) ks \<Longrightarrow> writes t rt (snd (delete_all_loop now ks n rt))"
proof (induction ks arbitrary: n rt)
  case (Cons k ks)
  obtain r rt1 where del: "record_delete_canonical (bulk_delete_command k) (now (si_id k)) rt = (r, rt1)"
    by fastforce
  have one: "writes t rt rt1"
    using delete_writes [of "bulk_delete_command k" rt "now (si_id k)"] Cons.prems del
    by (simp add: bulk_delete_command_def)
  show ?case
  proof (cases r)
    case (Inl e)
    then show ?thesis using del one by simp
  next
    case (Inr d)
    have "writes t rt (snd (delete_all_loop now ks n' rt1))" for n'
      using Cons.prems by (intro writes_trans [OF Cons.IH one]) simp
    then show ?thesis by (simp add: del Inr)
  qed
qed (simp add: writes_refl)

lemma delete_all_writes:
  "writes (sc_tenant_id (da_scope c)) rt (snd (record_delete_all_canonical c now rt))"
proof -
  have "list_all (\<lambda>k. si_tenant_id k = sc_tenant_id (da_scope c)) (bulk_matches c rt)"
    by (auto simp: bulk_matches_def bulk_match_def matches_scope_def list_all_iff)
  then show ?thesis
    by (auto simp: record_delete_all_canonical_def with_lock_def intro: writes_refl delete_all_loop_writes)
qed

lemma journal_writes:
  "writes (sc_tenant_id (ae_scope e)) rt (snd (event_append e rt))"
  "writes (sc_tenant_id (aa_scope a)) rt (snd (audit_append a rt))"
  "writes (sc_tenant_id (ao_scope o')) rt (snd (outbox_append o' rt))"
  by (auto simp: event_append_def audit_append_def outbox_append_def with_lock_def Let_def
      intro!: write_intros)

lemma publish_writes:
  "writes (sc_tenant_id (mp_scope c)) rt (snd (outbox_mark_published c now rt))"
  "writes (sc_tenant_id (mf_scope f)) rt (snd (outbox_mark_failed f rt))"
  by (auto simp: outbox_mark_published_def update_outbox_state_def outbox_mark_failed_def
      fail_outbox_event_def with_lock_def Let_def intro!: writes_modify_outbox writes_refl split: option.split)

lemma candidate_create_writes: "writes (sc_tenant_id (ca_scope c)) rt (snd (candidate_create c now rt))"
  by (auto simp: candidate_create_def new_candidate_def with_lock_def Let_def
      intro!: writes_candidate writes_refl)

lemma decide_writes: "writes (sc_tenant_id (dd_scope c)) rt (snd (decide_candidate c s now rt))"
  by (auto simp: decide_candidate_def with_lock_def Let_def intro!: write_intros split: option.split)

lemma put_optional_journal_writes:
  "writes t rt x \<Longrightarrow> sc_tenant_id sc = t \<Longrightarrow> writes t rt (put_optional_journal sc j x)"
  by (auto simp: put_optional_journal_def reference_journal_entries_def intro!: write_intros split: option.split)

lemma promote_inner_writes:
  "writes (sc_tenant_id (pc_scope c)) rt (snd (promote_candidate_atomic_inner c m j now1 now2 rt))"
proof (cases "promote_candidate_atomic_inner c m j now1 now2 rt")
  case (Pair r rt')
  have "writes (sc_tenant_id (pc_scope c)) rt rt'"
    using Pair
  proof (cases rule: promote_state_cases)
    case same
    then show ?thesis by (simp add: writes_refl)
  next
    case (applied cand x)
    have "writes (sc_tenant_id (pc_scope c)) rt x"
      unfolding applied(2) promote_apply_def Let_def
      using applied(1)
      by (auto intro!: writes_decided put_optional_journal_writes writes_target writes_record writes_refl
          simp: hm_contains_def)
    then show ?thesis using applied(3) by (auto intro: writes_touch)
  qed
  then show ?thesis by (simp add: Pair)
qed

lemma promote_writes:
  "writes (sc_tenant_id (pc_scope c)) rt (snd (candidate_promote c m now1 now2 rt))"
  "writes (sc_tenant_id (pc_scope (pj_promotion p))) rt (snd (candidate_promote_with_journal p m now1 now2 rt))"
  by (auto simp: candidate_promote_def candidate_promote_with_journal_def promote_inner_writes
      intro: writes_refl split: option.split)

lemma learning_writes:
  "writes (sc_tenant_id (uh_scope u)) rt (snd (habit_upsert u now rt))"
  "writes (sc_tenant_id (ph_scope p)) rt (snd (habit_promote p rt))"
  "writes (sc_tenant_id (dh_scope d)) rt (snd (habit_decay d rt))"
  "writes (sc_tenant_id (at_scope a)) rt (snd (trace_append a now rt))"
  by (auto simp: habit_upsert_def habit_promote_def habit_decay_def habit_change_def trace_append_def
      appended_trace_def habit_key_new_def with_lock_def Let_def intro!: write_intros split: option.split)

lemma governance_writes:
  "writes t rt (snd (seed_governance_space t f rt))"
  "writes (sc_tenant_id sc) rt (snd (seed_actor_space_binding sc a ab rt))"
  "writes (sc_tenant_id sc) rt (snd (seed_capability_binding sc cb rt))"
  "writes (cm_tenant_id c) rt (snd (create_space_atomic_with_quota c m now rt))"
  by (auto simp: seed_governance_space_def seed_actor_space_binding_def seed_capability_binding_def
      create_space_atomic_with_quota_def actor_key_new_def capability_key_new_def created_space_fact_def
      with_lock_def Let_def intro!: write_intros split: option.split)

lemma command_writes: "writes (command_tenant c) rt (run_command from_str c rt)"
  by (cases c)
    (simp_all add: create_record_writes mark_deleted_writes create_canonical_writes supersede_writes
      update_writes delete_writes delete_all_writes journal_writes publish_writes candidate_create_writes
      decide_writes candidate_approve_def candidate_reject_def promote_writes learning_writes governance_writes)

section \<open>Reachable states\<close>

lemma runtime_inv_panic: "runtime_inv rt \<Longrightarrow> runtime_inv (rt\<lparr>rm_poisoned := ls\<rparr>)"
  by (simp add: runtime_inv_def)

lemma step_inv: "step from_str rt rt' \<Longrightarrow> runtime_inv rt \<Longrightarrow> runtime_inv rt'"
  by (auto elim!: step_elim intro: writes_inv [OF command_writes] runtime_inv_panic)

lemma reachable_inv: "reachable from_str rt \<Longrightarrow> runtime_inv rt"
  by (induction rule: reachable.induct) (auto intro: runtime_inv_new step_inv)

lemma reachable_command: "reachable from_str rt \<Longrightarrow> reachable from_str (run_command from_str c rt)"
  by (rule reachable_step [OF _ step_command])

lemma command_isolated: "u \<noteq> command_tenant c \<Longrightarrow> same_tenant u rt (run_command from_str c rt)"
  by (rule writes_isolated [OF command_writes])

lemma command_poisoned [simp]: "rm_poisoned (run_command from_str c rt) = rm_poisoned rt"
  by (rule writes_poisoned [OF command_writes])

text \<open>
  The record quota over whole runs. Only creation, supersede and promotion can add an
  active record, and each checks the quota first; no other command makes a record active.
  So a run whose commands all carry the quota \<^verbatim>\<open>m\<close> keeps every scope at \<^verbatim>\<open>m\<close> active records
  or fewer. The unmetered \<^verbatim>\<open>create\<close> is the one operation outside this bound.
\<close>

section \<open>Commands that add no active record\<close>

definition no_new_active :: "reference_runtime \<Rightarrow> reference_runtime \<Rightarrow> bool" where
  "no_new_active rt rt' \<longleftrightarrow>
     (\<forall>k s'. hm_get (rm_records rt') k = Some s' \<longrightarrow> \<not> ms_deleted s' \<longrightarrow>
        (\<exists>s. hm_get (rm_records rt) k = Some s \<and> \<not> ms_deleted s))"

lemma no_new_active_same: "rm_records rt' = rm_records rt \<Longrightarrow> no_new_active rt rt'"
  by (simp add: no_new_active_def)

lemma no_new_active_trans: "no_new_active a b \<Longrightarrow> no_new_active b c \<Longrightarrow> no_new_active a c"
  unfolding no_new_active_def by blast

lemma active_records_mono:
  assumes "hm_ok (rm_records rt)" and "hm_ok (rm_records rt')" and "no_new_active rt rt'"
  shows "active_records sc rt' \<le> active_records sc rt"
  unfolding active_records_def hm_count_card [OF assms(1)] hm_count_card [OF assms(2)]
  using assms(3) finite_hm_keys [of "rm_records rt" "\<lambda>k s. matches_scope k sc \<and> \<not> ms_deleted s"]
  by (intro card_mono) (auto simp: no_new_active_def)

lemma hm_ok_reachable: "runtime_inv rt \<Longrightarrow> hm_ok (rm_records rt)"
  by (simp add: runtime_inv_def canonical_keyed_def)

lemma mark_deleted_no_new: "no_new_active rt (snd (record_mark_deleted q rt))"
  by (auto simp: record_mark_deleted_def with_lock_def Let_def no_new_active_def split: option.splits)

lemma update_no_new: "no_new_active rt (snd (record_update_canonical c now rt))"
  by (auto simp: update_unfold no_new_active_def update_record_state_def split: option.splits)

lemma delete_no_new: "no_new_active rt (snd (record_delete_canonical c now rt))"
  by (auto simp: delete_unfold no_new_active_def split: option.splits if_splits)

lemma delete_all_loop_no_new: "no_new_active rt (snd (delete_all_loop now ks n rt))"
proof (induction ks arbitrary: n rt)
  case (Cons k ks)
  obtain r rt1 where del: "record_delete_canonical (bulk_delete_command k) (now (si_id k)) rt = (r, rt1)"
    by fastforce
  have one: "no_new_active rt rt1"
    using delete_no_new [of rt "bulk_delete_command k" "now (si_id k)"] del by simp
  show ?case
    using no_new_active_trans [OF one Cons.IH] one by (cases r) (simp_all add: del)
qed (simp add: no_new_active_same)

lemma delete_all_no_new: "no_new_active rt (snd (record_delete_all_canonical c now rt))"
  by (auto simp: record_delete_all_canonical_def with_lock_def delete_all_loop_no_new no_new_active_same)

lemma records_untouched:
  "rm_records (snd (event_append e rt)) = rm_records rt"
  "rm_records (snd (audit_append a rt)) = rm_records rt"
  "rm_records (snd (outbox_append o' rt)) = rm_records rt"
  "rm_records (snd (outbox_mark_published p now rt)) = rm_records rt"
  "rm_records (snd (outbox_mark_failed f rt)) = rm_records rt"
  "rm_records (snd (candidate_create c now rt)) = rm_records rt"
  "rm_records (snd (decide_candidate d s now rt)) = rm_records rt"
  "rm_records (snd (habit_upsert u now rt)) = rm_records rt"
  "rm_records (snd (habit_promote ph rt)) = rm_records rt"
  "rm_records (snd (habit_decay dh rt)) = rm_records rt"
  "rm_records (snd (trace_append ta now rt)) = rm_records rt"
  "rm_records (snd (seed_governance_space t sf rt)) = rm_records rt"
  "rm_records (snd (seed_actor_space_binding sc act ab rt)) = rm_records rt"
  "rm_records (snd (seed_capability_binding sc cb rt)) = rm_records rt"
  "rm_records (snd (create_space_atomic_with_quota cs m now rt)) = rm_records rt"
  by (auto simp: event_append_def audit_append_def outbox_append_def outbox_mark_published_def
      update_outbox_state_def outbox_mark_failed_def modify_outbox_def candidate_create_def
      put_candidate_def decide_candidate_def habit_upsert_def habit_promote_def habit_decay_def
      habit_change_def put_habit_def modify_habit_def trace_append_def put_trace_def
      seed_governance_space_def put_space_def seed_actor_space_binding_def seed_capability_binding_def
      create_space_atomic_with_quota_def with_lock_def Let_def split: option.split)

section \<open>Commands that are metered\<close>

text \<open>A new record counts once in its own scope and not at all in the others.\<close>

lemma active_records_put:
  assumes "hm_ok (rm_records rt)" and "hm_get (rm_records rt) k = None"
  shows "hm_count (\<lambda>k s. matches_scope k sc \<and> \<not> ms_deleted s) (hm_insert k s (rm_records rt)) =
    active_records sc rt + (if matches_scope k sc \<and> \<not> ms_deleted s then 1 else 0)"
  using hm_count_insert [OF assms(1), of "\<lambda>k s. matches_scope k sc \<and> \<not> ms_deleted s" k s] assms(2)
  by (simp add: active_records_def)

lemma active_records_scope:
  "sc_tenant_id a = sc_tenant_id b \<Longrightarrow> sc_space_id a = sc_space_id b \<Longrightarrow>
    active_records a rt = active_records b rt"
  by (simp add: active_records_def matches_scope_def)

lemma scope_of_new: "matches_scope (scoped_id_new a i) b \<longleftrightarrow>
    sc_tenant_id a = sc_tenant_id b \<and> sc_space_id a = sc_space_id b"
  by (auto simp: matches_scope_def scoped_id_new_def)

lemma insert_bound:
  assumes "hm_ok (rm_records rt)" and "rm_records rt' = hm_insert (scoped_id_new a i) s (rm_records rt)"
    and "active_records a rt < m"
  shows "active_records b rt' \<le> max m (active_records b rt)"
proof -
  let ?P = "\<lambda>k s. matches_scope k b \<and> \<not> ms_deleted s"
  have count: "active_records b rt' \<le> active_records b rt +
      (if ?P (scoped_id_new a i) s then 1 else 0)"
    using hm_count_insert [OF assms(1), of ?P "scoped_id_new a i" s] assms(2)
    by (simp add: active_records_def)
  show ?thesis
  proof (cases "?P (scoped_id_new a i) s")
    case True
    then have "active_records b rt = active_records a rt"
      by (intro active_records_scope) (auto simp: scope_of_new)
    moreover have "active_records b rt' \<le> active_records b rt + 1"
      using count True by (simp only: if_True simp_thms)
    ultimately show ?thesis using assms(3) by simp
  next
    case False
    then have "active_records b rt' \<le> active_records b rt"
      using count by (simp only: if_False add_0_right)
    then show ?thesis by simp
  qed
qed

lemma create_quota:
  assumes "hm_ok (rm_records rt)" and "0 < m"
  shows "active_records b (snd (record_create_canonical_with_quota c m now rt)) \<le>
    max m (active_records b rt)"
proof (cases "record_create_canonical_with_quota c m now rt")
  case (Pair res rt')
  show ?thesis
  proof (cases "\<exists>r. res = Inr (Admitted r)")
    case True
    then obtain r where run: "record_create_canonical_with_quota c m now rt = (Inr (Admitted r), rt')"
      using Pair by blast
    have "rm_records rt' = hm_insert (scoped_id_new (cc_scope c) (cc_memory_id c))
        (state_active_canonical r) (rm_records rt)"
      and "active_records (cc_scope c) rt < m"
      using run assms(2) by (auto simp: create_Admitted)
    then show ?thesis using insert_bound [OF assms(1)] Pair by simp
  next
    case False
    then show ?thesis using create_rejected [OF Pair] Pair by simp
  qed
qed

lemma active_records_modify:
  assumes "hm_ok (rm_records rt)" and "\<And>s. ms_deleted (f s) = ms_deleted s"
  shows "active_records b (modify_record k f rt) = active_records b rt"
proof (rule antisym)
  have "no_new_active rt (modify_record k f rt)" "no_new_active (modify_record k f rt) rt"
    using assms(2) by (auto simp: no_new_active_def)
  then show "active_records b (modify_record k f rt) \<le> active_records b rt"
    "active_records b rt \<le> active_records b (modify_record k f rt)"
    using assms(1) by (auto intro: active_records_mono)
qed

lemma supersede_quota:
  assumes ok: "hm_ok (rm_records rt)" and m: "0 < m"
  shows "active_records b (snd (record_supersede_with_quota from_str c m now rt)) \<le>
    max m (active_records b rt)"
proof (cases "record_supersede_with_quota from_str c m now rt")
  case (Pair res rt')
  show ?thesis
  proof (cases "rt' = rt")
    case False
    then obtain r where run: "record_supersede_with_quota from_str c m now rt = (Inr (Admitted r), rt')"
      using supersede_rejected [OF Pair] Pair by blast
    let ?x = "modify_record (scoped_id_new (su_scope c) (su_old_memory_id c))
        (mark_superseded (su_new_memory_id c) now) rt"
    have rt': "rt' = supersede_apply c now rt" and room: "active_records (su_scope c) rt < m"
      using supersede_Admitted(2) [OF run] False m by auto
    have same: "active_records a ?x = active_records a rt" for a
      by (rule active_records_modify [OF ok]) (simp add: mark_superseded_def)
    have "rm_records rt' = hm_insert (scoped_id_new (su_scope c) (su_new_memory_id c))
        (state_active_canonical (superseding_canonical c now)) (rm_records ?x)"
      by (simp add: rt' supersede_apply_def reference_journal_entries_def)
    then have "active_records b rt' \<le> max m (active_records b ?x)"
      by (intro insert_bound) (use ok room same in auto)
    then show ?thesis by (simp add: Pair same)
  qed (simp add: Pair)
qed

lemma promote_quota:
  assumes ok: "hm_ok (rm_records rt)" and m: "0 < m"
  shows "active_records b (snd (promote_candidate_atomic_inner c m j now1 now2 rt)) \<le>
    max m (active_records b rt)"
proof (cases "promote_candidate_atomic_inner c m j now1 now2 rt")
  case (Pair r rt')
  have "active_records b rt' \<le> max m (active_records b rt)"
  proof (cases "rm_records rt' = rm_records rt")
    case True
    then show ?thesis by (simp add: active_records_def)
  next
    case False
    have "rm_records rt' = hm_insert (target_key c)
        (state_active_canonical (promoted_canonical c now1)) (rm_records rt)"
      using Pair False by (cases rule: promote_state_cases) (auto simp: promote_apply_simps)
    moreover have "active_records (pc_scope c) rt < m"
      using Pair False m by (auto simp: promote_unfold split: if_splits option.splits)
    ultimately show ?thesis by (intro insert_bound [OF ok])
  qed
  then show ?thesis by (simp add: Pair)
qed

section \<open>Metered runs\<close>

fun metered :: "nat \<Rightarrow> memory_command \<Rightarrow> bool" where
  "metered m (CreateRecord c) = False"
| "metered m (CreateCanonical c q now) = (q = m)"
| "metered m (Supersede c q now) = (q = m)"
| "metered m (PromoteCandidate c q now1 now2) = (q = m)"
| "metered m (PromoteWithJournal c q now1 now2) = (q = m)"
| "metered m c = True"

fun adds_record :: "memory_command \<Rightarrow> bool" where
  "adds_record (CreateRecord c) = True"
| "adds_record (CreateCanonical c q now) = True"
| "adds_record (Supersede c q now) = True"
| "adds_record (PromoteCandidate c q now1 now2) = True"
| "adds_record (PromoteWithJournal c q now1 now2) = True"
| "adds_record c = False"

lemma other_no_new: "\<not> adds_record c \<Longrightarrow> no_new_active rt (run_command from_str c rt)"
  by (cases c)
    (simp_all add: mark_deleted_no_new update_no_new delete_no_new delete_all_no_new
      candidate_approve_def candidate_reject_def records_untouched no_new_active_same)

lemma metered_command:
  assumes "runtime_inv rt" and "0 < m" and "metered m c"
  shows "active_records b (run_command from_str c rt) \<le> max m (active_records b rt)"
proof -
  have ok: "hm_ok (rm_records rt)" and ok': "hm_ok (rm_records (run_command from_str c rt))"
    using assms(1) writes_inv [OF command_writes] by (auto intro: hm_ok_reachable)
  have other: ?thesis if "\<not> adds_record c"
    using active_records_mono [OF ok ok' other_no_new [OF that], of b] by simp
  have promote: "active_records b (snd (candidate_promote_with_journal p m now1 now2 rt)) \<le>
      max m (active_records b rt)" for p now1 now2
    by (auto simp: candidate_promote_with_journal_def promote_quota [OF ok assms(2)] split: option.split)
  show ?thesis
  proof (cases c)
    case (CreateCanonical c' q now)
    then show ?thesis using assms(3) create_quota [OF ok assms(2)] by simp
  next
    case (Supersede c' q now)
    then show ?thesis using assms(3) supersede_quota [OF ok assms(2)] by simp
  next
    case (PromoteCandidate c' q now1 now2)
    then show ?thesis using assms(3) promote_quota [OF ok assms(2)] by (simp add: candidate_promote_def)
  next
    case (PromoteWithJournal c' q now1 now2)
    then show ?thesis using assms(3) promote by simp
  qed (use assms(3) other in \<open>simp_all\<close>)
qed

lemma metered_run:
  assumes "reachable from_str rt" and "0 < m" and "list_all (metered m) cs"
    and "\<And>b. active_records b rt \<le> m"
  shows "active_records b (fold (run_command from_str) cs rt) \<le> m"
  using assms
proof (induction cs arbitrary: rt)
  case (Cons c cs)
  have "active_records a (run_command from_str c rt) \<le> m" for a
    using metered_command [OF reachable_inv [OF Cons.prems(1)] Cons.prems(2), of c]
      Cons.prems(3) Cons.prems(4) by (metis list.pred_inject(2) max.absorb1)
  then show ?case
    using Cons.IH [OF reachable_command [OF Cons.prems(1)]] Cons.prems by simp
qed simp

end
