(* ===== verification/Runtime_Properties.thy ===== *)
theory Runtime_Properties
  imports Reference_Machine
begin

text \<open>
  The properties of the reference runtime, each with a witness on a small run: the
  invariant of reachable states, tenant isolation, quotas, atomic and idempotent record
  mutations, promotion, pagination, the outbox scan, governance facts, search, habits and
  traces.
\<close>

section \<open>A sample run\<close>

definition sample_scope :: scope_context where
  "sample_scope = \<lparr>sc_tenant_id = 1, sc_space_id = 2, sc_organization_id = None, sc_user_id = Some 7\<rparr>"

definition sample_journal :: "string \<Rightarrow> string \<Rightarrow> mutation_journal" where
  "sample_journal tag i =
     \<lparr>mj_outbox_id = ''o-'' @ tag, mj_aggregate_type = ''memory_record'', mj_aggregate_id = i,
      mj_event_type = ''memory.record.created'', mj_event_version = ''1.0'', mj_payload_json = ''1'',
      mj_audit_id = ''a-'' @ tag, mj_audit_action = ''memory.record.create'',
      mj_audit_resource_type = ''memory_record'', mj_audit_resource_id = i, mj_audit_result = ''accepted''\<rparr>"

definition sample_create :: "string \<Rightarrow> create_canonical_command" where
  "sample_create i =
     \<lparr>cc_scope = sample_scope, cc_memory_id = i, cc_scope_label = ''user'', cc_memory_type = ''fact'',
      cc_subject = Some ''ada'', cc_predicate = None, cc_object_text = ''tea'',
      cc_canonical_text = ''ada likes tea'', cc_sensitivity_level = ''internal'', cc_expires_at = None,
      cc_metadata_json = None, cc_journal = sample_journal i i\<rparr>"

definition sample_supersede :: supersede_command where
  "sample_supersede =
     \<lparr>su_scope = sample_scope, su_old_memory_id = ''m1'', su_new_memory_id = ''m2'',
      su_scope_label = ''user'', su_memory_type = ''fact'', su_subject = Some ''ada'',
      su_predicate = None, su_object_text = ''coffee'', su_canonical_text = ''ada likes coffee'',
      su_sensitivity_level = ''internal'', su_expires_at = None, su_metadata_json = None,
      su_created_journal = sample_journal ''c2'' ''m2'', su_superseded_journal = sample_journal ''s1'' ''m1''\<rparr>"

definition sample_candidate :: "string \<Rightarrow> create_candidate_command" where
  "sample_candidate i =
     \<lparr>ca_scope = sample_scope, ca_candidate_id = i, ca_candidate_type = ''fact'', ca_memory_type = ''fact'',
      ca_proposed_text = ''ada likes tea'', ca_proposed_payload_json = None, ca_evidence_json = None,
      ca_confidence = f64_one, ca_learning_job_uuid = None\<rparr>"

definition sample_promote :: promote_candidate_command where
  "sample_promote =
     \<lparr>pc_scope = sample_scope, pc_candidate_id = ''c1'', pc_memory_id = ''m1'', pc_memory_type = ''fact'',
      pc_proposed_text = ''ada likes tea'', pc_evidence_links = [], pc_decided_by = None\<rparr>"

definition sample_delete :: "string \<Rightarrow> delete_canonical_command" where
  "sample_delete i = \<lparr>dc_scope = sample_scope, dc_memory_id = i, dc_journal = sample_journal ''d'' i\<rparr>"

definition no_json :: "string \<Rightarrow> unit option" where
  "no_json s = None"

lemmas sample_defs = sample_scope_def sample_journal_def sample_create_def sample_supersede_def
  sample_candidate_def sample_promote_def sample_delete_def no_json_def

text \<open>One record, and one candidate.\<close>

definition sample_recorded :: reference_runtime where
  "sample_recorded = run_command no_json (CreateCanonical (sample_create ''m1'') 0 ''t1'') runtime_new"

definition sample_proposed :: reference_runtime where
  "sample_proposed = run_command no_json (CreateCandidate (sample_candidate ''c1'') ''t1'') runtime_new"

lemma sample_reachable:
  "reachable no_json sample_recorded" "reachable no_json sample_proposed"
  unfolding sample_recorded_def sample_proposed_def
  by (intro reachable_command reachable_new)+

lemma locks_free_command [simp]: "locks_free (run_command from_str c rt) = locks_free rt"
  by (simp add: locks_free_def)

lemma sample_free [simp]: "locks_free sample_recorded" "locks_free sample_proposed"
  unfolding sample_recorded_def sample_proposed_def by (simp_all del: run_command.simps)

lemma sample_valid [simp]: "validate_memory_journal i (sample_journal tag i) = None"
  by (simp add: validate_memory_journal_def sample_journal_def)

lemma runtime_new_simps [simp]:
  "rm_records runtime_new = []" "rm_outbox runtime_new = []" "rm_audits runtime_new = []"
  "rm_candidates runtime_new = []" "rm_candidate_targets runtime_new = []" "rm_poisoned runtime_new = {}"
  "rm_candidate_listing_index runtime_new = []" "rm_candidate_space_listing_index runtime_new = []"
  "rm_candidate_timestamps runtime_new = []" "rm_governance_spaces runtime_new = []"
  "rm_habits runtime_new = []" "rm_retrieval_traces runtime_new = []"
  by (simp_all add: runtime_new_def)

lemma sample_create_run:
  "record_create_canonical_with_quota (sample_create ''m1'') 0 ''t1'' runtime_new =
    (Inr (Admitted (created_canonical (sample_create ''m1'') ''t1'')), sample_recorded)"
proof -
  have "\<exists>rt'. record_create_canonical_with_quota (sample_create ''m1'') 0 ''t1'' runtime_new =
      (Inr (Admitted (created_canonical (sample_create ''m1'') ''t1'')), rt')"
    by (simp only: create_Admitted) (simp add: sample_create_def)
  then show ?thesis by (auto simp: sample_recorded_def)
qed

section \<open>The state machine\<close>

text \<open>
  C1. In every state the runtime can reach, whatever commands ran and whatever threads
  panicked, the stores keep their invariant: keys are unique, records and traces carry the
  id and space of their key, and the candidate indexes describe exactly the candidates.
\<close>

theorem reachable_invariant: "reachable from_str rt \<Longrightarrow> runtime_inv rt"
  by (rule reachable_inv)

theorem reachable_invariant_witness: "runtime_inv sample_proposed"
  by (rule reachable_invariant [OF sample_reachable(2)])

text \<open>
  C2. Tenant isolation: a command of one tenant changes nothing of what any other tenant
  has stored, in any container, index or marker.
\<close>

theorem tenant_isolation: "u \<noteq> command_tenant c \<Longrightarrow> same_tenant u rt (run_command from_str c rt)"
  by (rule command_isolated)

theorem tenant_isolation_witness:
  "same_tenant 5 sample_recorded (run_command no_json (DeleteCanonical (sample_delete ''m1'') ''t2'') sample_recorded)"
  by (rule tenant_isolation) (simp add: sample_delete_def sample_scope_def)

text \<open>
  C3. The record quota holds over whole runs: when every command carries the quota \<^verbatim>\<open>m\<close> (and
  the unmetered \<^verbatim>\<open>create\<close> is not used), no scope ever holds more than \<^verbatim>\<open>m\<close> active records.
\<close>

theorem metered_runs_within_quota:
  assumes "0 < m" and "list_all (metered m) cs"
  shows "active_records sc (fold (run_command from_str) cs runtime_new) \<le> m"
  by (rule metered_run [OF reachable_new assms]) (simp add: active_records_def)

theorem metered_runs_within_quota_witness:
  "active_records sample_scope (fold (run_command no_json)
    [CreateCanonical (sample_create ''m1'') 1 ''t1'', CreateCanonical (sample_create ''m2'') 1 ''t2'']
    runtime_new) \<le> 1"
  by (rule metered_runs_within_quota) simp_all

section \<open>Records\<close>

text \<open>
  Canonical creation is all or nothing. Admitted, it stores exactly the new record with
  its outbox event and audit record, below the quota, and the record can be read back;
  otherwise the state is unchanged.
\<close>

theorem create_canonical_all_or_nothing:
  assumes "record_create_canonical_with_quota c m now rt = (res, rt')"
  shows "(\<exists>r. res = Inr (Admitted r) \<and>
      hm_get (rm_records rt') =
        (hm_get (rm_records rt))(scoped_id_new (cc_scope c) (cc_memory_id c) \<mapsto> state_active_canonical r) \<and>
      journal_recorded (cc_scope c) (cc_journal c) rt' \<and>
      (m = 0 \<or> active_records (cc_scope c) rt < m) \<and>
      record_retrieve_canonical \<lparr>sq_scope = cc_scope c, sq_id = cc_memory_id c\<rparr> rt' = (Inr (Some r), rt')) \<or>
    (\<forall>r. res \<noteq> Inr (Admitted r)) \<and> rt' = rt"
proof (cases "\<exists>r. res = Inr (Admitted r)")
  case True
  then obtain r where r: "res = Inr (Admitted r)" by blast
  note run = assms [unfolded r]
  have "m = 0 \<or> active_records (cc_scope c) rt < m" and "RecordsLock \<notin> rm_poisoned rt'"
    using run by (auto simp: create_Admitted)
  then show ?thesis
    using create_effect [OF run] r
    by (simp add: record_retrieve_canonical_def)
next
  case False
  then show ?thesis using create_rejected [OF assms] by blast
qed

theorem create_canonical_all_or_nothing_witness:
  "\<exists>res rt'. record_create_canonical_with_quota (sample_create ''m1'') 0 ''t1'' runtime_new = (res, rt') \<and>
    ((\<exists>r. res = Inr (Admitted r) \<and>
      hm_get (rm_records rt') =
        (hm_get (rm_records runtime_new))(scoped_id_new sample_scope ''m1'' \<mapsto> state_active_canonical r)) \<or>
     rt' = runtime_new)"
  using create_canonical_all_or_nothing [OF sample_create_run] sample_create_run
  by (simp add: sample_create_def)

lemma sample_recorded_get:
  "hm_get (rm_records sample_recorded) (scoped_id_new sample_scope ''m1'') =
    Some (state_active_canonical (created_canonical (sample_create ''m1'') ''t1''))"
  using create_effect(1) [OF sample_create_run] by (simp add: sample_create_def)


lemma sample_supersede_valid: "supersede_command_error sample_supersede = None"
  by (simp add: supersede_command_error_def sample_supersede_def) (simp add: sample_journal_def)

lemma sample_journal_ids [simp]:
  "mj_outbox_id (sample_journal tag i) = ''o-'' @ tag" "mj_audit_id (sample_journal tag i) = ''a-'' @ tag"
  by (simp_all add: sample_journal_def)

lemma sample_recorded_journal:
  "rm_outbox sample_recorded = [(scoped_id_new sample_scope ''o-m1'', journal_outbox (sample_journal ''m1'' ''m1''))]"
  "rm_audits sample_recorded = [(scoped_id_new sample_scope ''a-m1'', journal_audit (sample_journal ''m1'' ''m1''))]"
proof -
  have eq: "sample_recorded = put_audit (scoped_id_new sample_scope ''a-m1'') (journal_audit (sample_journal ''m1'' ''m1''))
      (put_outbox (scoped_id_new sample_scope ''o-m1'') (journal_outbox (sample_journal ''m1'' ''m1''))
        (put_record (scoped_id_new sample_scope ''m1'')
          (state_active_canonical (created_canonical (sample_create ''m1'') ''t1'')) runtime_new))"
    using sample_create_run by (simp add: create_Admitted) (simp add: sample_create_def)
  show "rm_outbox sample_recorded = [(scoped_id_new sample_scope ''o-m1'', journal_outbox (sample_journal ''m1'' ''m1''))]"
    by (simp add: eq hm_insert_def)
  show "rm_audits sample_recorded = [(scoped_id_new sample_scope ''a-m1'', journal_audit (sample_journal ''m1'' ''m1''))]"
    by (simp add: eq hm_insert_def)
qed

lemma sample_supersede_run:
  "record_supersede_with_quota no_json sample_supersede 0 ''t2'' sample_recorded =
    (Inr (Admitted (superseding_canonical sample_supersede ''t2'')),
     supersede_apply sample_supersede ''t2'' sample_recorded)"
proof -
  have new: "hm_get (rm_records sample_recorded) (scoped_id_new sample_scope ''m2'') = None"
    using create_effect(1) [OF sample_create_run] by (simp add: sample_create_def)
  have taken: "\<not> supersede_journal_taken sample_supersede sample_recorded"
    by (simp add: supersede_journal_taken_def sample_recorded_journal sample_supersede_def hm_contains_def
        hm_get_def)
  have active: "cr_status (created_canonical (sample_create ''m1'') ''t1'') = ''active''"
    by (simp add: created_canonical_def)
  have ids: "su_scope sample_supersede = sample_scope" "su_old_memory_id sample_supersede = ''m1''"
      "su_new_memory_id sample_supersede = ''m2''"
    by (simp_all add: sample_supersede_def)
  show ?thesis
    using sample_free(1)
    by (simp add: record_supersede_with_quota_def supersede_fresh_def sample_supersede_valid
        ids sample_recorded_get new taken active locks_free_def Let_def)
qed


text \<open>
  A supersede is idempotent: repeating an admitted command, under any quota and at any
  later time, returns the same record and writes nothing.
\<close>

theorem supersede_idempotent:
  assumes "record_supersede_with_quota from_str c m now rt = (Inr (Admitted r), rt')"
  shows "record_supersede_with_quota from_str c m' now' rt' = (Inr (Admitted r), rt')"
proof (cases "hm_get (rm_records rt) (scoped_id_new (su_scope c) (su_new_memory_id c))")
  case None
  then have fresh: "r = superseding_canonical c now" "rt' = supersede_apply c now rt"
      "supersede_command_error c = None"
      "\<exists>s r0. hm_get (rm_records rt) (scoped_id_new (su_scope c) (su_old_memory_id c)) = Some s \<and>
         ms_canonical s = Some r0 \<and> \<not> ms_deleted s"
      "{RecordsLock, OutboxLock, AuditsLock} \<inter> rm_poisoned rt = {}"
    using assms by (auto simp: supersede_unfold split: option.splits if_splits prod.splits)
  then obtain s r0 where "hm_get (rm_records rt) (scoped_id_new (su_scope c) (su_old_memory_id c)) = Some s"
      "ms_canonical s = Some r0" "\<not> ms_deleted s"
    by blast
  then show ?thesis
    unfolding fresh(1,2) by (rule supersede_replays [OF fresh(3) _ _ _ fresh(5)])
next
  case (Some s)
  then have "rt' = rt"
    using supersede_Admitted(2) [OF assms] by auto
  moreover have "record_supersede_with_quota from_str c m' now' rt = record_supersede_with_quota from_str c m now rt"
    by (simp add: record_supersede_with_quota_def with_lock_def Some split: option.split)
  ultimately show ?thesis using assms by simp
qed

theorem supersede_idempotent_witness:
  "record_supersede_with_quota no_json sample_supersede 1 ''t9''
     (supersede_apply sample_supersede ''t2'' sample_recorded) =
   (Inr (Admitted (superseding_canonical sample_supersede ''t2'')),
    supersede_apply sample_supersede ''t2'' sample_recorded)"
  by (rule supersede_idempotent [OF sample_supersede_run])

text \<open>
  Deletion happens once. A delete leaves the record invisible to both reads, and every
  later delete of it reports \<^verbatim>\<open>already_deleted\<close> and writes nothing.
\<close>

theorem delete_happens_once:
  assumes "record_delete_canonical c now rt = (Inr d, rt')"
    and "dc_scope c' = dc_scope c" and "dc_memory_id c' = dc_memory_id c"
    and "validate_memory_journal (dc_memory_id c') (dc_journal c') = None"
  shows "record_delete_canonical c' now' rt' =
      (Inr \<lparr>dr_memory_id = dc_memory_id c, dr_deleted = dr_deleted d, dr_already_deleted = dr_deleted d\<rparr>, rt') \<and>
    record_retrieve_canonical \<lparr>sq_scope = dc_scope c, sq_id = dc_memory_id c\<rparr> rt' = (Inr None, rt') \<and>
    record_retrieve \<lparr>sq_scope = dc_scope c, sq_id = dc_memory_id c\<rparr> rt' = (Inr None, rt')"
proof -
  let ?k = "scoped_id_new (dc_scope c) (dc_memory_id c)"
  have free: "RecordsLock \<notin> rm_poisoned rt'"
    using assms(1) by (auto simp: delete_unfold split: option.splits if_splits)
  have held: "dr_deleted d \<longleftrightarrow> hm_get (rm_records rt') ?k \<noteq> None"
    using delete_receipt(1) [OF assms(1)] delete_get [OF assms(1), of ?k] by (simp add: hm_contains_def)
  have gone: "ms_deleted s" if "hm_get (rm_records rt') ?k = Some s" for s
    using that delete_get [OF assms(1), of ?k]
    by (auto split: if_splits) (metis deleted_record_state(1))
  show ?thesis
    using free held gone assms(2-4)
    by (cases "hm_get (rm_records rt') ?k")
      (auto simp: record_delete_canonical_def reference_journal_entries_def record_retrieve_canonical_def
        record_retrieve_def visible_record_def visible_canonical_def)
qed

theorem delete_happens_once_witness:
  "\<exists>d rt'. record_delete_canonical (sample_delete ''m1'') ''t2'' sample_recorded = (Inr d, rt') \<and>
    record_delete_canonical (sample_delete ''m1'') ''t3'' rt' =
      (Inr \<lparr>dr_memory_id = ''m1'', dr_deleted = dr_deleted d, dr_already_deleted = dr_deleted d\<rparr>, rt')"
proof -
  have valid: "validate_memory_journal (dc_memory_id (sample_delete ''m1'')) (dc_journal (sample_delete ''m1'')) = None"
    by (simp add: sample_delete_def)
  obtain d where run: "record_delete_canonical (sample_delete ''m1'') ''t2'' sample_recorded =
      (Inr d, snd (record_delete_canonical (sample_delete ''m1'') ''t2'' sample_recorded))"
    using delete_succeeds [OF sample_free(1) valid] by blast
  from delete_happens_once [OF this refl refl valid]
  show ?thesis using run by (metis sample_delete_def delete_canonical_command.select_convs(2))
qed

text \<open>
  A bulk delete removes exactly the visible records of the scope (and of the given
  user, when one is named) and reports their number.
\<close>

theorem bulk_delete_exact:
  assumes "reachable from_str rt" and "locks_free rt"
  shows "\<exists>rt'. record_delete_all_canonical c now rt =
      (Inr (card {k. \<exists>s. hm_get (rm_records rt) k = Some s \<and> bulk_match c k s}), rt') \<and>
    (\<forall>k. hm_get (rm_records rt') k =
      map_option (\<lambda>s. if bulk_match c k s then delete_record_state (now (si_id k)) s else s)
        (hm_get (rm_records rt) k))"
  using delete_all_effect [OF assms(2) hm_ok_reachable [OF reachable_inv [OF assms(1)]], of c now]
  unfolding hm_count_card [OF hm_ok_reachable [OF reachable_inv [OF assms(1)]], of "bulk_match c"] .

theorem bulk_delete_exact_witness:
  "\<exists>n rt'. record_delete_all_canonical \<lparr>da_scope = sample_scope, da_user_id = None\<rparr> (\<lambda>_. ''t2'') sample_recorded =
    (Inr n, rt')"
  using bulk_delete_exact [OF sample_reachable(1) sample_free(1)] by blast

section \<open>Candidates\<close>

lemma sample_proposed_eq:
  "sample_proposed = put_candidate (scoped_id_new sample_scope ''c1'') (new_candidate (sample_candidate ''c1''))
    ''t1'' False runtime_new"
  by (simp add: sample_proposed_def candidate_create_def Let_def hm_contains_def tenant_index_range_def)
    (simp add: sample_candidate_def)

lemma sample_proposed_get:
  "rm_candidates sample_proposed = [(scoped_id_new sample_scope ''c1'', new_candidate (sample_candidate ''c1''))]"
  "rm_candidate_targets sample_proposed = []" "rm_records sample_proposed = []"
  by (simp_all add: sample_proposed_eq put_candidate_def hm_insert_def)

lemma hm_get_one: "hm_get [(k, v)] k' = (if k' = k then Some v else None)"
  by (simp add: hm_get_def)

lemma sample_promote_run:
  "promote_candidate_atomic_inner sample_promote 0 None ''t2'' ''t3'' sample_proposed =
    (Inr (Admitted \<lparr>cp_candidate_id = ''c1'', cp_memory_id = ''m1''\<rparr>),
     touch_timestamps (scoped_id_new sample_scope ''c1'') ''t3''
       (promote_apply sample_promote None ''t2'' ''t3'' sample_proposed))"
proof -
  have ids: "pc_scope sample_promote = sample_scope" "pc_candidate_id sample_promote = ''c1''"
      "pc_memory_id sample_promote = ''m1''"
    by (simp_all add: sample_promote_def)
  have free: "rm_poisoned sample_proposed = {}"
    using sample_free(2) by (simp add: locks_free_def)
  have pending: "mc_decision_state (new_candidate c) = ''pending''" for c
    by (simp add: new_candidate_def)
  show ?thesis
    by (simp add: promote_candidate_atomic_inner_def promote_fresh_def ids sample_proposed_get free
        hm_get_one pending hm_contains_def promote_apply_simps Let_def active_records_def)
qed

text \<open>
  A promotion happens once. After an admitted promotion, any later promotion of the same
  candidate, with whatever target id, quota, journal and time, answers with the memory id of
  the first one and writes nothing.
\<close>

theorem promotion_happens_once:
  assumes "promote_candidate_atomic_inner c m j now1 now2 rt = (Inr (Admitted p), rt')"
    and "pc_scope c' = pc_scope c" and "pc_candidate_id c' = pc_candidate_id c"
  shows "promote_candidate_atomic_inner c' m' j' now1' now2' rt' = (Inr (Admitted p), rt')"
proof -
  have "candidate_key c' = candidate_key c" using assms(2,3) by simp
  moreover have "rm_poisoned rt' = rm_poisoned rt" by (rule promote_poisoned [OF assms(1)])
  moreover have "p = \<lparr>cp_candidate_id = pc_candidate_id c', cp_memory_id = cp_memory_id p\<rparr>"
    using promote_Admitted(1) [OF assms(1)] assms(3) by simp
  ultimately show ?thesis
    using promote_replay [of c' "cp_memory_id p" rt'] promote_leaves_promoted [OF assms(1)]
      promote_locks [OF assms(1)] by metis
qed

theorem promotion_happens_once_witness:
  "\<exists>rt'. promote_candidate_atomic_inner (sample_promote\<lparr>pc_memory_id := ''other''\<rparr>) 1 None ''t4'' ''t5'' rt' =
    (Inr (Admitted \<lparr>cp_candidate_id = ''c1'', cp_memory_id = ''m1''\<rparr>), rt')"
  using promotion_happens_once [OF sample_promote_run, of "sample_promote\<lparr>pc_memory_id := ''other''\<rparr>"]
  by (intro exI) simp

text \<open>
  What a promotion writes: the candidate was pending without a target and becomes
  approved and bound to the record; the record is new, active and below the quota; the
  journal is stored with it. When the candidate was promoted before, nothing is written.
\<close>

theorem promotion_effect:
  assumes "promote_candidate_atomic_inner c m j now1 now2 rt = (Inr (Admitted p), rt')"
  shows "promoted_to (candidate_key c) (cp_memory_id p) rt' \<and>
    (rt' = rt \<or>
     (\<exists>cand. hm_get (rm_candidates rt) (candidate_key c) = Some cand \<and>
        mc_decision_state cand = ''pending'' \<and> cp_memory_id p = pc_memory_id c \<and>
        hm_get (rm_records rt) (target_key c) = None \<and>
        hm_get (rm_records rt') =
          (hm_get (rm_records rt))(target_key c \<mapsto> state_active_canonical (promoted_canonical c now1)) \<and>
        (m = 0 \<or> active_records (pc_scope c) rt < m) \<and>
        (\<forall>jn. j = Some jn \<longrightarrow> journal_recorded (pc_scope c) jn rt')))"
proof -
  have journal: "journal_recorded (pc_scope c) jn (touch_timestamps k now2 (promote_apply c (Some jn) now1 now2 rt))"
    for jn k
    by (simp add: journal_recorded_def promote_apply_def put_optional_journal_def
        reference_journal_entries_def Let_def)
  show ?thesis
    using promote_leaves_promoted [OF assms] promote_Admitted(2) [OF assms] journal
    by (auto simp: promote_apply_simps fun_eq_iff)
qed

theorem promotion_effect_witness:
  "promoted_to (scoped_id_new sample_scope ''c1'') ''m1''
    (touch_timestamps (scoped_id_new sample_scope ''c1'') ''t3''
       (promote_apply sample_promote None ''t2'' ''t3'' sample_proposed))"
  using promotion_effect [OF sample_promote_run] by (simp add: sample_promote_def)

text \<open>
  A promotion that is not admitted leaves no trace, and a candidate decided without a
  promotion (approved or rejected) can never be promoted afterwards.
\<close>

theorem promotion_refused:
  assumes "reachable from_str rt" and "CandidateTimestampsLock \<notin> rm_poisoned rt"
    and "promote_candidate_atomic_inner c m j now1 now2 rt = (res, rt')"
  shows "((\<forall>p. res \<noteq> Inr (Admitted p)) \<longrightarrow> rt' = rt) \<and>
    (\<forall>cand. hm_get (rm_candidates rt) (candidate_key c) = Some cand \<longrightarrow>
       mc_decision_state cand \<noteq> ''pending'' \<longrightarrow> hm_get (rm_candidate_targets rt) (candidate_key c) = None \<longrightarrow>
       (\<exists>e. res = Inl e) \<and> rt' = rt)"
  using promote_rejected [OF assms(3,2)] promote_stuck [of rt c] assms(3) by (metis prod.inject)

theorem promotion_refused_witness:
  "\<exists>res rt'. promote_candidate_atomic_inner sample_promote 0 None ''t2'' ''t3'' sample_recorded = (res, rt') \<and>
    ((\<forall>p. res \<noteq> Inr (Admitted p)) \<longrightarrow> rt' = sample_recorded)"
proof -
  have "CandidateTimestampsLock \<notin> rm_poisoned sample_recorded"
    using sample_free(1) by (simp add: locks_free_def)
  from promotion_refused [OF sample_reachable(1) this]
  show ?thesis by (metis prod.exhaust)
qed

text \<open>
  A candidate page holds the next \<^verbatim>\<open>page_size\<close> (clamped) candidate ids after the cursor,
  in order, each with the stored candidate's data; \<^verbatim>\<open>has_more\<close> and \<^verbatim>\<open>next_cursor\<close> say exactly
  whether and where the listing goes on. The index never points to a missing candidate.
\<close>

theorem candidate_page_correct:
  assumes "reachable from_str rt" and "locks_free rt" and "listable q rt"
  shows "\<exists>items. candidate_list max_page q rt =
      (Inr (page_of (clamp_page max_page (lq_page_size q))
         (sorted_list_of_set (listed_ids q (query_cursor q) rt)) items), rt) \<and>
    map cs_candidate_id items =
      take (clamp_page max_page (lq_page_size q)) (sorted_list_of_set (listed_ids q (query_cursor q) rt)) \<and>
    list_all (shows_candidate q rt) items"
proof -
  have "cand_inv rt" using reachable_inv [OF assms(1)] by (simp add: runtime_inv_def)
  then show ?thesis by (rule candidate_list_spec [OF _ assms(2,3)])
qed

definition sample_page_query :: list_candidates_query where
  "sample_page_query = \<lparr>lq_tenant_id = 1, lq_space_id = Some 2, lq_page_size = 5, lq_cursor = None\<rparr>"

theorem candidate_page_correct_witness:
  "\<exists>items. list_all (shows_candidate sample_page_query sample_proposed) items \<and>
    fst (candidate_list 200 sample_page_query sample_proposed) =
      Inr (page_of 5 (sorted_list_of_set (listed_ids sample_page_query [] sample_proposed)) items)"
proof -
  have "listable sample_page_query sample_proposed"
    by (simp add: listable_def sample_page_query_def)
  from candidate_page_correct [OF sample_reachable(2) sample_free(2) this, of 200]
  show ?thesis
    by (auto simp: sample_page_query_def clamp_page_def query_cursor_def)
qed

text \<open>
  C13. Following \<^verbatim>\<open>next_cursor\<close> from the first page ends and lists every candidate the query
  covers exactly once, in order. Fuel above the number of candidates is enough.
\<close>

theorem candidate_listing_complete:
  assumes "reachable from_str rt" and "locks_free rt" and "listable q rt" and "0 < max_page"
    and "[] \<notin> si_id ` cand_keys rt" and "lq_cursor q = None" and "card (cand_keys rt) < fuel"
  shows "walk_pages fuel max_page q rt =
    Some (sorted_list_of_set {si_id k | k. k \<in> cand_keys rt \<and> query_covers q k})"
proof -
  have inv: "cand_inv rt" using reachable_inv [OF assms(1)] by (simp add: runtime_inv_def)
  have all: "listed_ids q (query_cursor q) rt = {si_id k | k. k \<in> cand_keys rt \<and> query_covers q k}"
    using assms(6) by (auto simp: listed_ids_def query_cursor_def)
  have "listed_ids q (query_cursor q) rt \<subseteq> si_id ` cand_keys rt"
    by (auto simp: listed_ids_def)
  then have "card (listed_ids q (query_cursor q) rt) \<le> card (cand_keys rt)"
    by (meson card_image_le card_mono dual_order.trans finite_imageI finite_set finite_cand_keys)
  then have "card (listed_ids q (query_cursor q) rt) < fuel" using assms(7) by simp
  then show ?thesis
    using walk_pages_complete [OF inv assms(2-5)] by (simp add: all)
qed

theorem candidate_listing_complete_witness:
  "walk_pages 2 200 sample_page_query sample_proposed =
    Some (sorted_list_of_set {si_id k | k. k \<in> cand_keys sample_proposed \<and> query_covers sample_page_query k})"
proof (rule candidate_listing_complete [OF sample_reachable(2) sample_free(2)])
  show "listable sample_page_query sample_proposed"
    by (simp add: listable_def sample_page_query_def)
qed (simp_all add: cand_keys_def sample_proposed_get sample_page_query_def)

section \<open>Outbox\<close>

text \<open>
  The pending scan returns at most \<^verbatim>\<open>limit\<close> events of the scope in id order, only
  pending ones, and all of them when they fit; a published event never appears in it again.
\<close>

theorem outbox_scan_correct:
  assumes "reachable from_str rt" and "locks_free rt"
  shows "(\<exists>es. outbox_list_pending q rt = (Inr es, rt) \<and> length es \<le> lp_limit q \<and>
      sorted (map ob_outbox_id es) \<and> distinct (map ob_outbox_id es) \<and>
      set es \<subseteq> pending_in (lp_scope q) (rm_outbox rt) \<and>
      (length (pending_events (lp_scope q) (rm_outbox rt)) \<le> lp_limit q \<longrightarrow>
        set es = pending_in (lp_scope q) (rm_outbox rt))) \<and>
    (\<forall>c now e rt' es. outbox_mark_published c now rt = (Inr (Some e), rt') \<longrightarrow>
       mp_scope c = lp_scope q \<longrightarrow> fst (outbox_list_pending q rt') = Inr es \<longrightarrow>
       mp_outbox_id c \<notin> ob_outbox_id ` set es)"
proof (intro conjI allI impI)
  have inv: "hm_ok (rm_outbox x)" "outbox_keyed (rm_outbox x)" if "runtime_inv x" for x
    using that by (simp_all add: runtime_inv_def)
  note rt_inv = reachable_inv [OF assms(1)]
  have "outbox_list_pending q rt =
      (Inr (top_by ob_outbox_id (lp_limit q) (pending_events (lp_scope q) (rm_outbox rt))), rt)"
    using assms(2) by (simp add: outbox_list_pending_def locks_free_def)
  then show "\<exists>es. outbox_list_pending q rt = (Inr es, rt) \<and> length es \<le> lp_limit q \<and>
      sorted (map ob_outbox_id es) \<and> distinct (map ob_outbox_id es) \<and>
      set es \<subseteq> pending_in (lp_scope q) (rm_outbox rt) \<and>
      (length (pending_events (lp_scope q) (rm_outbox rt)) \<le> lp_limit q \<longrightarrow>
        set es = pending_in (lp_scope q) (rm_outbox rt))"
    using pending_scan [OF inv [OF rt_inv], where n = "lp_limit q" and sc = "lp_scope q"] by blast
  fix c now e rt' es
  assume pub: "outbox_mark_published c now rt = (Inr (Some e), rt')" and scope: "mp_scope c = lp_scope q"
    and scan: "fst (outbox_list_pending q rt') = Inr es"
  have "runtime_inv rt'"
    using writes_inv [OF publish_writes(1) rt_inv, of c now] pub by simp
  moreover have "es = top_by ob_outbox_id (lp_limit q) (pending_events (lp_scope q) (rm_outbox rt'))"
    using scan by (auto simp: outbox_list_pending_def with_lock_def split: if_splits)
  ultimately have "set es \<subseteq> pending_in (lp_scope q) (rm_outbox rt')"
    using pending_scan(4) [OF inv] by blast
  then show "mp_outbox_id c \<notin> ob_outbox_id ` set es"
    using published_not_pending [OF pub] scope by auto
qed

definition sample_pending_query :: list_pending_query where
  "sample_pending_query = \<lparr>lp_scope = sample_scope, lp_limit = 10\<rparr>"

theorem outbox_scan_correct_witness:
  "\<exists>es. outbox_list_pending sample_pending_query sample_recorded = (Inr es, sample_recorded) \<and>
    journal_outbox (sample_journal ''m1'' ''m1'') \<in> set es"
proof -
  have one: "length (pending_events sample_scope (rm_outbox sample_recorded)) \<le> 10"
    by (simp add: pending_events_def sample_recorded_journal)
  have held: "hm_get (rm_outbox sample_recorded) (scoped_id_new sample_scope ''o-m1'') =
      Some (journal_outbox (sample_journal ''m1'' ''m1''))"
    by (simp add: sample_recorded_journal hm_get_one)
  have "ob_publish_state (journal_outbox (sample_journal ''m1'' ''m1'')) = ''pending''"
    by (simp add: journal_outbox_def)
  with outbox_scan_correct [OF sample_reachable(1) sample_free(1), of sample_pending_query] one held
  show ?thesis by (auto simp: sample_pending_query_def pending_in_def journal_outbox_id)
qed

section \<open>Governance and spaces\<close>

text \<open>
  Governance facts are bounded and honest: each list holds at most \<^verbatim>\<open>fact_limit\<close> facts,
  in rank order; a fact that was cut off ranks after every returned one (so a higher
  priority is never dropped for a lower one); and when the answer says \<^verbatim>\<open>complete\<close> nothing
  was cut off. A limit outside 1..32 is refused.
\<close>

theorem governance_facts_bounded:
  assumes "resolve_space_governance q rt = (Inr facts, rt')"
    and "rg_actor q = Some a" and "rg_capability_code q = Some code"
  shows "rt' = rt \<and> 1 \<le> rg_fact_limit q \<and> rg_fact_limit q \<le> 32 \<and>
    length (gf_actor_bindings facts) \<le> rg_fact_limit q \<and>
    length (gf_capability_bindings facts) \<le> rg_fact_limit q \<and>
    sorted (map ab_binding_id (gf_actor_bindings facts)) \<and>
    sorted (map capability_rank (gf_capability_bindings facts)) \<and>
    (\<forall>f g. f \<in> set (capability_facts (rg_scope q) code rt) \<longrightarrow> f \<notin> set (gf_capability_bindings facts) \<longrightarrow>
       g \<in> set (gf_capability_bindings facts) \<longrightarrow> sint (cb_priority f) \<le> sint (cb_priority g)) \<and>
    (gf_complete facts \<longrightarrow>
       mset (gf_actor_bindings facts) = mset (actor_facts (rg_scope q) a rt) \<and>
       mset (gf_capability_bindings facts) = mset (capability_facts (rg_scope q) code rt))"
proof -
  obtain as c1 cs c2 where
    actors: "bounded_facts ab_binding_id (rg_fact_limit q) (actor_facts (rg_scope q) a rt) = (as, c1)"
    and caps: "bounded_facts capability_rank (rg_fact_limit q) (capability_facts (rg_scope q) code rt) = (cs, c2)"
    by fastforce
  have facts: "gf_actor_bindings facts = as" "gf_capability_bindings facts = cs"
      "gf_complete facts \<longleftrightarrow> c1 \<and> c2" "rt' = rt" "1 \<le> rg_fact_limit q" "rg_fact_limit q \<le> 32"
    using assms actors caps
    by (auto simp: resolve_space_governance_def validate_governance_fact_limit_def with_lock_def Let_def
        max_governance_facts_def split: if_splits)
  have rank: "sint (cb_priority f) \<le> sint (cb_priority g)"
    if "f \<in> set (capability_facts (rg_scope q) code rt)" "f \<notin> set cs" "g \<in> set cs" for f g
    using top_by_dropped [of f "capability_facts (rg_scope q) code rt" capability_rank "rg_fact_limit q" g]
      that bounded_facts_spec(1) [OF caps]
    by (auto simp: capability_rank_def)
  show ?thesis
    using facts bounded_facts_spec [OF actors] bounded_facts_spec [OF caps] rank by auto
qed

definition sample_actor :: governance_actor where
  "sample_actor = \<lparr>ga_subject_type = None, ga_subject_id = ''7''\<rparr>"

definition sample_governance_query :: resolve_governance_query where
  "sample_governance_query =
     \<lparr>rg_scope = sample_scope, rg_actor = Some sample_actor, rg_capability_code = Some ''memory.read'',
      rg_fact_limit = 4\<rparr>"

theorem governance_facts_bounded_witness:
  "\<exists>facts. resolve_space_governance sample_governance_query runtime_new = (Inr facts, runtime_new) \<and>
    length (gf_actor_bindings facts) \<le> 4"
proof -
  have "\<exists>facts. resolve_space_governance sample_governance_query runtime_new = (Inr facts, runtime_new)"
    by (simp add: resolve_success sample_governance_query_def max_governance_facts_def)
  then obtain facts where run: "resolve_space_governance sample_governance_query runtime_new = (Inr facts, runtime_new)"
    by blast
  from governance_facts_bounded [OF this] run show ?thesis
    by (auto simp: sample_governance_query_def)
qed

text \<open>
  Space creation: an admitted command had a valid shape, a user was below the quota and
  now owns exactly one space more, the key was free, and no other key changes; otherwise
  nothing is written.
\<close>

theorem create_space_admission:
  assumes "reachable from_str rt" and "create_space_atomic_with_quota c m now rt = (res, rt')"
  shows "(\<exists>r. res = Inr (SpaceAdmitted r) \<and>
      0 \<le> sint (cm_space_id c) \<and> \<not> is_blank (cm_owner_subject_id c) \<and>
      hm_get (rm_governance_spaces rt) (GovernanceSpaceKey (cm_tenant_id c) (cm_space_id c)) = None \<and>
      hm_get (rm_governance_spaces rt') = (hm_get (rm_governance_spaces rt))
        (GovernanceSpaceKey (cm_tenant_id c) (cm_space_id c) \<mapsto> created_space_fact c) \<and>
      (cm_owner_subject_type c = ''user'' \<longrightarrow>
        owned_spaces (cm_tenant_id c) (cm_owner_subject_id c) rt' =
          Suc (owned_spaces (cm_tenant_id c) (cm_owner_subject_id c) rt) \<and>
        (0 < m \<longrightarrow> owned_spaces (cm_tenant_id c) (cm_owner_subject_id c) rt' \<le> m))) \<or>
    (\<forall>r. res \<noteq> Inr (SpaceAdmitted r)) \<and> rt' = rt"
proof (cases "\<exists>r. res = Inr (SpaceAdmitted r)")
  case True
  then obtain r where r: "res = Inr (SpaceAdmitted r)" by blast
  note run = assms(2) [unfolded r]
  have ok: "hm_ok (rm_governance_spaces rt)"
    using reachable_inv [OF assms(1)] by (simp add: runtime_inv_def spaces_keyed_def)
  show ?thesis
    using run owned_spaces_create [OF run ok, of "cm_tenant_id c" "cm_owner_subject_id c"] r
    by (auto simp: create_space_Admitted validate_space_command_None put_space_def fun_eq_iff)
next
  case False
  then show ?thesis using create_space_rejected [OF assms(2)] by blast
qed

definition sample_space :: create_space_command where
  "sample_space =
     \<lparr>cm_tenant_id = 1, cm_space_id = 2, cm_organization_id = None, cm_owner_subject_type = ''user'',
      cm_owner_subject_id = ''7'', cm_space_type = ''personal'', cm_display_name = ''notes'',
      cm_default_scope = ''user''\<rparr>"

theorem create_space_admission_witness:
  "\<exists>res rt'. create_space_atomic_with_quota sample_space 1 ''t1'' runtime_new = (res, rt') \<and>
    (owned_spaces 1 ''7'' rt' \<le> 1 \<or> rt' = runtime_new)"
proof -
  obtain res rt' where run: "create_space_atomic_with_quota sample_space 1 ''t1'' runtime_new = (res, rt')"
    by fastforce
  from create_space_admission [OF reachable_new run] run show ?thesis
    by (auto simp: sample_space_def)
qed

section \<open>Retrieval\<close>





text \<open>
  The assembled context holds exactly the requested ids that are visible in the scope,
  in the requested order, and their contents only.
\<close>

theorem context_holds_visible_records:
  assumes "assemble_scoped sc ids rt = (Inr pack, rt')"
  shows "rt' = rt \<and> pk_memory_ids pack = filter (\<lambda>i. visible_in sc rt i \<noteq> None) ids \<and>
    pk_context_text pack =
      join_text [CHR 0x0A] (map (\<lambda>i. mr_content (the (visible_in sc rt i))) (pk_memory_ids pack))"
  using assms by (auto simp: assemble_scoped_def with_lock_def assemble_loop_spec split: if_splits)

theorem context_holds_visible_records_witness:
  "\<exists>pack. assemble_scoped sample_scope [''m1'', ''m9''] sample_recorded = (Inr pack, sample_recorded) \<and>
    pk_memory_ids pack = filter (\<lambda>i. visible_in sample_scope sample_recorded i \<noteq> None) [''m1'', ''m9'']"
proof -
  have "\<exists>pack. assemble_scoped sample_scope [''m1'', ''m9''] sample_recorded = (Inr pack, sample_recorded)"
    using sample_free(1) by (simp add: assemble_scoped_def locks_free_def split_beta)
  then show ?thesis using context_holds_visible_records by blast
qed

section \<open>Habits and traces\<close>

text \<open>
  A decay keeps the strength of a habit a number between zero and the strength it had,
  marks the habit decayed, and changes no other habit.
\<close>

theorem decay_bounds_strength:
  assumes "habit_decay c rt = (Inr r, rt')"
    and "hm_get (rm_habits rt) (habit_key_new (dh_scope c) (dh_user_id c) (dh_habit_key c)) = Some h"
    and "f64_ok (mh_strength h)" and "f64_finite (mh_strength h)" and "f64_le f64_zero (mh_strength h)"
    and "f64_ok (dh_strength_delta c)" and "f64_finite (dh_strength_delta c)"
    and "f64_le f64_zero (dh_strength_delta c)"
  shows "\<exists>h'. r = Some h' \<and> mh_stage h' = ''decayed'' \<and> f64_ok (mh_strength h') \<and>
    f64_le f64_zero (mh_strength h') \<and> f64_le (mh_strength h') (mh_strength h) \<and>
    hm_get (rm_habits rt') =
      (hm_get (rm_habits rt))(habit_key_new (dh_scope c) (dh_user_id c) (dh_habit_key c) \<mapsto> h')"
  using habit_change_get [OF assms(1) [unfolded habit_decay_def]] assms(2)
    decayed_strength [of h "dh_strength_delta c"] assms(3-8)
  by (auto simp: fun_eq_iff decayed_habit_def)

definition sample_habit :: upsert_habit_command where
  "sample_habit =
     \<lparr>uh_scope = sample_scope, uh_habit_id = ''h1'', uh_user_id = 7, uh_habit_key = ''tea'',
      uh_habit_type = ''preference'', uh_description = ''drinks tea'', uh_stage = ''forming'',
      uh_strength = F64Fin False 5, uh_confidence = F64Fin False 5, uh_support_count = 1,
      uh_metadata_json = None\<rparr>"

definition sample_decay :: decay_habit_command where
  "sample_decay = \<lparr>dh_scope = sample_scope, dh_user_id = 7, dh_habit_key = ''tea'', dh_strength_delta = F64Fin False 3\<rparr>"

lemma small_f64: "f64_ok (F64Fin False 5)" "f64_ok (F64Fin False 3)"
  by (simp_all add: mag_ok_def f64_limit_def bit_len.simps)

theorem decay_bounds_strength_witness:
  "\<exists>r rt' h'. habit_decay sample_decay (snd (habit_upsert sample_habit ''t1'' runtime_new)) = (Inr r, rt') \<and>
    r = Some h' \<and> f64_le (mh_strength h') (F64Fin False 5)"
proof -
  let ?rt = "snd (habit_upsert sample_habit ''t1'' runtime_new)"
  have get: "hm_get (rm_habits ?rt)
      (habit_key_new (dh_scope sample_decay) (dh_user_id sample_decay) (dh_habit_key sample_decay)) =
      Some (upserted_habit sample_habit ''t1'')"
    by (simp add: habit_upsert_def put_habit_def sample_habit_def sample_decay_def Let_def hm_insert_def hm_get_one)
  have "rm_poisoned ?rt = {}"
    by (simp add: habit_upsert_def put_habit_def Let_def)
  then obtain r rt' where run: "habit_decay sample_decay ?rt = (Inr r, rt')"
    using get by (simp add: habit_decay_def habit_change_def)
  have strength: "mh_strength (upserted_habit sample_habit ''t1'') = F64Fin False 5"
    by (simp add: upserted_habit_def sample_habit_def)
  have delta: "dh_strength_delta sample_decay = F64Fin False 3" by (simp add: sample_decay_def)
  show ?thesis
    using decay_bounds_strength [OF run get] run strength delta small_f64
    by (auto simp del: f64_ok.simps)
qed

text \<open>
  A tenant-wide trace lookup returns the one trace with the id, nothing when there is
  none, and an error when two spaces hold one; the recent list of a scope is bounded and in
  descending id order.
\<close>

theorem trace_lookup_and_listing:
  assumes "reachable from_str rt" and "locks_free rt"
  shows "((\<exists>k t. tenant_hits q rt = {k} \<and> hm_get (rm_retrieval_traces rt) k = Some t \<and>
        trace_retrieve_for_tenant q rt = (Inr (Some (scoped_trace_of k t)), rt)) \<or>
      tenant_hits q rt = {} \<and> trace_retrieve_for_tenant q rt = (Inr None, rt) \<or>
      (\<exists>k k'. k \<in> tenant_hits q rt \<and> k' \<in> tenant_hits q rt \<and> k \<noteq> k') \<and>
        trace_retrieve_for_tenant q rt = (Inl trace_ambiguous, rt)) \<and>
    (\<exists>ts. trace_list_recent l rt = (Inr ts, rt) \<and> length ts \<le> lt_limit l \<and>
      sorted (map (\<lambda>t. Desc (rt_trace_id t)) ts) \<and> set ts \<subseteq> set (scope_traces (lt_scope l) rt))"
proof -
  have ok: "hm_ok (rm_retrieval_traces rt)"
    using reachable_inv [OF assms(1)] by (simp add: runtime_inv_def traces_keyed_def)
  have free: "RetrievalTracesLock \<notin> rm_poisoned rt" using assms(2) by (simp add: locks_free_def)
  have "trace_list_recent l rt =
      (Inr (top_by (\<lambda>t. Desc (rt_trace_id t)) (lt_limit l) (scope_traces (lt_scope l) rt)), rt)"
    using free by (simp add: trace_list_recent_def)
  then have "\<exists>ts. trace_list_recent l rt = (Inr ts, rt) \<and> length ts \<le> lt_limit l \<and>
      sorted (map (\<lambda>t. Desc (rt_trace_id t)) ts) \<and> set ts \<subseteq> set (scope_traces (lt_scope l) rt)"
    using set_top_by [of "\<lambda>t. Desc (rt_trace_id t)" "lt_limit l" "scope_traces (lt_scope l) rt"]
    by (intro exI conjI) (auto simp: length_top_by sorted_top_by)
  with tenant_trace_lookup [OF ok free, of q] show ?thesis by blast
qed

theorem trace_lookup_and_listing_witness:
  "\<exists>ts. trace_list_recent \<lparr>lt_scope = sample_scope, lt_limit = 3\<rparr> sample_recorded = (Inr ts, sample_recorded) \<and>
    length ts \<le> 3"
  using trace_lookup_and_listing [OF sample_reachable(1) sample_free(1),
      where l = "\<lparr>lt_scope = sample_scope, lt_limit = 3\<rparr>" and q = "\<lparr>tq_tenant_id = 1, tq_trace_id = ''t''\<rparr>"]
  by auto

end
