(* ===== verification/Filter_Laws.thy ===== *)
theory Filter_Laws
  imports Metadata_Filter
begin

text \<open>
  What the filter parser and evaluator promise: a parsed filter is well formed and within
  its budgets; parsing succeeds exactly on the well-formed wire forms; the parsed tree,
  with its flattened conjunctions, means what the wire form means; evaluation is Kleene's
  logic and reads the referenced fields only.
\<close>

section \<open>Kleene logic\<close>

lemma tri_and_assoc: "tri_and (tri_and a b) c = tri_and a (tri_and b c)"
  by (cases a; cases b; cases c) auto

lemma tri_and_comm: "tri_and a b = tri_and b a"
  by (cases a; cases b) auto

lemma tri_or_assoc: "tri_or (tri_or a b) c = tri_or a (tri_or b c)"
  by (cases a; cases b; cases c) auto

lemma tri_units [simp]: "tri_and TriTrue a = a" "tri_and a TriTrue = a" "tri_or TriFalse a = a"
  "tri_or a TriFalse = a"
  by (cases a; simp)+

lemma tri_de_morgan: "tri_negate (tri_or a b) = tri_and (tri_negate a) (tri_negate b)"
  by (cases a; cases b) auto

definition tri_all :: "tristate list \<Rightarrow> tristate" where
  "tri_all xs = foldr tri_and xs TriTrue"

definition tri_any :: "tristate list \<Rightarrow> tristate" where
  "tri_any xs = foldr tri_or xs TriFalse"

lemma foldl_tri_and: "foldl tri_and a xs = tri_and a (tri_all xs)"
  by (induction xs arbitrary: a) (simp_all add: tri_all_def tri_and_assoc)

lemma foldl_tri_or: "foldl tri_or a xs = tri_or a (tri_any xs)"
  by (induction xs arbitrary: a) (simp_all add: tri_any_def tri_or_assoc)

lemma tri_all_simps [simp]: "tri_all [] = TriTrue" "tri_all (x # xs) = tri_and x (tri_all xs)"
  by (simp_all add: tri_all_def)

lemma tri_any_simps [simp]: "tri_any [] = TriFalse" "tri_any (x # xs) = tri_or x (tri_any xs)"
  by (simp_all add: tri_any_def)

lemma tri_all_append: "tri_all (xs @ ys) = tri_and (tri_all xs) (tri_all ys)"
  by (induction xs) (simp_all add: tri_and_assoc)

lemma tri_all_concat: "tri_all (concat xss) = tri_all (map tri_all xss)"
  by (induction xss) (simp_all add: tri_all_append)

lemma tri_true_iff:
  "tri_all xs = TriTrue \<longleftrightarrow> set xs \<subseteq> {TriTrue}" "tri_any xs = TriTrue \<longleftrightarrow> TriTrue \<in> set xs"
  "tri_all xs = TriFalse \<longleftrightarrow> TriFalse \<in> set xs" "tri_any xs = TriFalse \<longleftrightarrow> set xs \<subseteq> {TriFalse}"
proof -
  have and_true: "tri_and a b = TriTrue \<longleftrightarrow> a = TriTrue \<and> b = TriTrue" for a b
    by (cases a; cases b) auto
  have and_false: "tri_and a b = TriFalse \<longleftrightarrow> a = TriFalse \<or> b = TriFalse" for a b
    by (cases a; cases b) auto
  have or_true: "tri_or a b = TriTrue \<longleftrightarrow> a = TriTrue \<or> b = TriTrue" for a b
    by (cases a; cases b) auto
  have or_false: "tri_or a b = TriFalse \<longleftrightarrow> a = TriFalse \<and> b = TriFalse" for a b
    by (cases a; cases b) auto
  show "tri_all xs = TriTrue \<longleftrightarrow> set xs \<subseteq> {TriTrue}" by (induction xs) (auto simp: and_true)
  show "tri_any xs = TriTrue \<longleftrightarrow> TriTrue \<in> set xs" by (induction xs) (auto simp: or_true)
  show "tri_all xs = TriFalse \<longleftrightarrow> TriFalse \<in> set xs" by (induction xs) (auto simp: and_false)
  show "tri_any xs = TriFalse \<longleftrightarrow> set xs \<subseteq> {TriFalse}" by (induction xs) (auto simp: or_false)
qed

lemma evaluate_groups [simp]:
  "evaluate h (FilterAll es) d = tri_all (map (\<lambda>e. evaluate h e d) es)"
  "evaluate h (FilterAny es) d = tri_any (map (\<lambda>e. evaluate h e d) es)"
  by (simp_all add: foldl_tri_and foldl_tri_or)

declare evaluate.simps(2,3) [simp del]

section \<open>Evaluation\<close>

text \<open>A document without metadata leaves every expression unknown, except empty groups.\<close>

fun filter_leaves :: "metadata_filter_expression \<Rightarrow> metadata_filter_condition list" where
  "filter_leaves (FilterCondition c) = [c]"
| "filter_leaves (FilterAll es) = concat (map filter_leaves es)"
| "filter_leaves (FilterAny es) = concat (map filter_leaves es)"
| "filter_leaves (FilterNot e) = filter_leaves e"

fun groups_nonempty :: "metadata_filter_expression \<Rightarrow> bool" where
  "groups_nonempty (FilterCondition c) = True"
| "groups_nonempty (FilterAll es) = (es \<noteq> [] \<and> list_all groups_nonempty es)"
| "groups_nonempty (FilterAny es) = (es \<noteq> [] \<and> list_all groups_nonempty es)"
| "groups_nonempty (FilterNot e) = groups_nonempty e"

lemma tri_all_same: "xs \<noteq> [] \<Longrightarrow> list_all (\<lambda>x. x = TriUnknown) xs \<Longrightarrow> tri_all xs = TriUnknown"
proof (induction xs)
  case (Cons x xs)
  then show ?case by (cases "xs = []") auto
qed simp

lemma tri_any_same: "xs \<noteq> [] \<Longrightarrow> list_all (\<lambda>x. x = TriUnknown) xs \<Longrightarrow> tri_any xs = TriUnknown"
proof (induction xs)
  case (Cons x xs)
  then show ?case by (cases "xs = []") auto
qed simp

lemma evaluate_no_document: "groups_nonempty e \<Longrightarrow> evaluate h e None = TriUnknown"
proof (induction e)
  case (FilterAll es)
  then show ?case by (auto intro!: tri_all_same simp: list_all_iff)
next
  case (FilterAny es)
  then show ?case by (auto intro!: tri_any_same simp: list_all_iff)
qed (simp_all add: condition_evaluate_def)

lemma collect_fields_leaves: "collect_fields e = map condition_field (filter_leaves e)"
  by (induction e) (auto simp: map_concat intro!: arg_cong [where f = concat])

lemma set_referenced_fields: "set (referenced_fields e) = condition_field ` set (filter_leaves e)"
  by (simp add: referenced_fields_def collect_fields_leaves)

lemma sorted_referenced_fields: "sorted (referenced_fields e)"
  by (simp add: referenced_fields_def)

lemma distinct_remdups_adj_sorted: "sorted xs \<Longrightarrow> distinct (remdups_adj xs)"
  by (induction xs rule: remdups_adj.induct) (auto simp: antisym)

lemma distinct_referenced_fields: "distinct (referenced_fields e)"
  by (simp add: referenced_fields_def distinct_remdups_adj_sorted)

lemma evaluate_fields:
  assumes "\<forall>f \<in> set (referenced_fields e). map_of d f = map_of d' f"
  shows "evaluate h e (Some d) = evaluate h e (Some d')"
  using assms
proof (induction e)
  case (FilterCondition c)
  then show ?case by (simp add: set_referenced_fields condition_evaluate_def)
next
  case (FilterAll es)
  then have "map (\<lambda>e. evaluate h e (Some d)) es = map (\<lambda>e. evaluate h e (Some d')) es"
    by (auto simp: set_referenced_fields)
  then show ?case by (simp only: evaluate_groups)
next
  case (FilterAny es)
  then have "map (\<lambda>e. evaluate h e (Some d)) es = map (\<lambda>e. evaluate h e (Some d')) es"
    by (auto simp: set_referenced_fields)
  then show ?case by (simp only: evaluate_groups)
qed (auto simp: set_referenced_fields)

section \<open>Well-formedness and budgets\<close>

definition literal_ok :: "numeric_literal \<Rightarrow> bool" where
  "literal_ok l \<longleftrightarrow> f64_parse (nl_text l) = Some (nl_value l) \<and> f64_finite (nl_value l)"

fun scalar_wf :: "metadata_filter_scalar \<Rightarrow> bool" where
  "scalar_wf (ScalarNumber l) = literal_ok l"
| "scalar_wf _ = True"

fun condition_wf :: "metadata_filter_condition \<Rightarrow> bool" where
  "condition_wf (CondScalar f op v) = scalar_wf v"
| "condition_wf (CondOrdering f op b) = literal_ok b"
| "condition_wf (CondSet f op vs) = (vs \<noteq> [] \<and> length vs \<le> max_filter_set_values \<and> list_all scalar_wf vs)"
| "condition_wf (CondExists f) = True"

definition filter_wf :: "metadata_filter_expression \<Rightarrow> bool" where
  "filter_wf e \<longleftrightarrow> groups_nonempty e \<and>
     list_all (\<lambda>c. condition_wf c \<and> \<not> is_blank (condition_field c)) (filter_leaves e)"

lemma numeric_literal_finite: "numeric_literal_parse t = Inr l \<Longrightarrow> literal_ok l"
  by (auto simp: numeric_literal_parse_def literal_ok_def split: option.splits if_splits)

lemma parse_scalar_wf: "parse_scalar h f op v = Inr s \<Longrightarrow> scalar_wf s"
  by (cases v) (auto simp: and_then_Inr dest: numeric_literal_finite)

lemma parse_set_condition_wf:
  assumes "parse_set_condition h f op items = Inr c"
  shows "condition_wf c \<and> condition_field c = f"
proof -
  obtain vs where all: "list_all2 (\<lambda>x y. parse_set_item h f op x = Inr y) items vs"
    and "c = CondSet f op vs" "items \<noteq> []" "length items \<le> max_filter_set_values"
    using assms
    by (auto simp: parse_set_condition_def and_then_Inr collect_results_Inr split: if_splits)
  moreover have "scalar_wf y" if "parse_set_item h f op x = Inr y" for x y
    using that parse_scalar_wf by (auto simp: parse_set_item_def split: if_splits)
  then have "list_all scalar_wf vs"
    using all by (auto simp: list_all2_conv_all_nth list_all_length)
  ultimately show ?thesis by (auto dest: list_all2_lengthD)
qed

lemma parse_operator_condition_wf:
  "parse_operator_condition h f op v = Inr c \<Longrightarrow> condition_wf c \<and> condition_field c = f"
  by (auto simp: parse_operator_condition_def and_then_Inr parse_scalar_wf numeric_literal_finite
      dest: parse_set_condition_wf split: option.splits if_splits)

lemma field_condition_wf: "field_condition h f v = Inr c \<Longrightarrow> condition_wf c \<and> condition_field c = f"
  by (cases v)
    (auto simp: field_condition_def and_then_Inr
      dest: parse_operator_condition_wf parse_set_condition_wf dest!: parse_scalar_wf numeric_literal_finite
      split: list.splits if_splits prod.splits)

definition leaf_count :: "metadata_filter_expression list \<Rightarrow> nat" where
  "leaf_count es = length (concat (map filter_leaves es))"

lemma leaf_count_simps [simp]:
  "leaf_count [] = 0" "leaf_count (e # es) = length (filter_leaves e) + leaf_count es"
  "leaf_count (es @ fs) = leaf_count es + leaf_count fs"
  by (simp_all add: leaf_count_def)

lemma leaf_count_concat: "leaf_count (concat gs) = sum_list (map leaf_count gs)"
  by (induction gs) simp_all

lemma leaf_count_groups: "leaf_count (map FilterAll gs) = sum_list (map leaf_count gs)"
  by (induction gs) (simp_all add: leaf_count_def)

lemma charge_condition_Inr:
  "charge_condition b f op = Inr b' \<longleftrightarrow> b' = b + 1 \<and> b < max_filter_condition_nodes"
  by (auto simp: charge_condition_def Let_def)

lemma parse_field_condition_Inr:
  "parse_field_condition h f v b = Inr (e, b') \<longleftrightarrow>
     (\<exists>c. \<not> is_blank f \<and> field_condition h f v = Inr c \<and> e = FilterCondition c \<and>
        b' = b + 1 \<and> b < max_filter_condition_nodes)"
  by (auto simp: parse_field_condition_def and_then_Inr charge_condition_Inr is_blank_def)

lemma logical_entries_Inr:
  "logical_entries l v = Inr groups \<longleftrightarrow> groups \<noteq> [] \<and> v = JArray (map JObject groups)"
proof -
  have obj: "as_object e = Some g \<longleftrightarrow> e = JObject g" for e :: "'a json" and g
    by (cases e) auto
  have "list_all2 (\<lambda>e g. (case as_object e of None \<Rightarrow> Inl (LogicalEntryNotObject l (json_type_name e))
      | Some ps \<Rightarrow> Inr ps) = Inr g) es groups \<longleftrightarrow> es = map JObject groups" for es
    by (induction es arbitrary: groups)
      (auto simp: list_all2_Cons1 Cons_eq_map_conv obj split: option.splits)
  then show ?thesis
    by (cases v) (auto simp: logical_entries_def collect_results_Inr)
qed

section \<open>What a successful parse yields\<close>

text \<open>The conditions an object entry contributes.\<close>

definition is_logical :: "string \<Rightarrow> bool" where
  "is_logical k \<longleftrightarrow> k = ''AND'' \<or> k = ''OR'' \<or> k = ''NOT''"

text \<open>The entry's children, from the parsed groups of a logical key.\<close>

definition logical_children ::
  "string \<Rightarrow> metadata_filter_expression list list \<Rightarrow> metadata_filter_expression list" where
  "logical_children k gs =
     (if k = ''AND'' then concat gs
      else if k = ''OR'' then [FilterAny (map FilterAll gs)]
      else [FilterNot (FilterAny (map FilterAll gs))])"

lemma parse_logical_step:
  assumes "is_logical k"
  shows "parse_object_conditions h ((k, v) # rest) b =
    and_then (logical_entries k v) (\<lambda>groups. and_then (parse_groups h k groups b) (\<lambda>(gs, b1).
      and_then (parse_object_conditions h rest b1) (\<lambda>(others, b2).
        Inr (logical_children k gs @ others, b2))))"
proof -
  have assoc: "and_then (and_then r f) g = and_then r (\<lambda>x. and_then (f x) g)"
    for r :: "metadata_filter_error + 'x" and f :: "'x \<Rightarrow> metadata_filter_error + 'y"
      and g :: "'y \<Rightarrow> metadata_filter_error + 'z"
    by (simp add: and_then_def split: sum.split)
  from assms consider "k = ''AND''" | "k = ''OR''" | "k = ''NOT''"
    by (auto simp: is_logical_def)
  then show ?thesis
    by cases (simp_all add: parse_object_conditions.simps(2) logical_children_def assoc case_prod_unfold)
qed

lemma parse_logical:
  assumes "is_logical k"
  shows "parse_object_conditions h ((k, v) # rest) b = Inr (es, b') \<longleftrightarrow>
    (\<exists>groups gs b1 others. groups \<noteq> [] \<and> v = JArray (map JObject groups) \<and>
       parse_groups h k groups b = Inr (gs, b1) \<and>
       parse_object_conditions h rest b1 = Inr (others, b') \<and> es = logical_children k gs @ others)"
  unfolding parse_logical_step [OF assms]
  by (simp add: and_then_Inr logical_entries_Inr split_paired_Ex) blast

lemma parse_plain:
  assumes "\<not> is_logical k"
  shows "parse_object_conditions h ((k, v) # rest) b = Inr (es, b') \<longleftrightarrow>
    (\<exists>c others. \<not> is_blank k \<and> field_condition h k v = Inr c \<and> b < max_filter_condition_nodes \<and>
       parse_object_conditions h rest (b + 1) = Inr (others, b') \<and> es = FilterCondition c # others)"
  using assms
  by (auto simp: parse_object_conditions.simps(2) is_logical_def and_then_Inr parse_field_condition_Inr)

text \<open>
  The successful runs as a relation: \<^verbatim>\<open>parsed_object\<close> relates an object and the budget
  before it to the children and the budget after it.
\<close>

inductive parsed_object :: "'n json_host \<Rightarrow> (string \<times> 'n json) list \<Rightarrow> nat \<Rightarrow>
      metadata_filter_expression list \<Rightarrow> nat \<Rightarrow> bool"
  and parsed_groups :: "'n json_host \<Rightarrow> (string \<times> 'n json) list list \<Rightarrow> nat \<Rightarrow>
      metadata_filter_expression list list \<Rightarrow> nat \<Rightarrow> bool"
  for h :: "'n json_host" where
  parsed_end: "parsed_object h [] b [] b"
| parsed_logical: "is_logical k \<Longrightarrow> groups \<noteq> [] \<Longrightarrow> parsed_groups h groups b gs b1 \<Longrightarrow>
    parsed_object h rest b1 others b' \<Longrightarrow>
    parsed_object h ((k, JArray (map JObject groups)) # rest) b (logical_children k gs @ others) b'"
| parsed_plain: "\<not> is_logical k \<Longrightarrow> \<not> is_blank k \<Longrightarrow> field_condition h k v = Inr c \<Longrightarrow>
    b < max_filter_condition_nodes \<Longrightarrow> parsed_object h rest (b + 1) others b' \<Longrightarrow>
    parsed_object h ((k, v) # rest) b (FilterCondition c # others) b'"
| parsed_groups_end: "parsed_groups h [] b [] b"
| parsed_group: "g \<noteq> [] \<Longrightarrow> parsed_object h g b es b1 \<Longrightarrow> parsed_groups h gs b1 others b' \<Longrightarrow>
    parsed_groups h (g # gs) b (es # others) b'"

lemma parse_parsed_size:
  "(\<forall>ps b es b'. object_size ps < n \<longrightarrow> parse_object_conditions h ps b = Inr (es, b') \<longrightarrow>
      parsed_object h ps b es b') \<and>
   (\<forall>l gs b r b'. size_list object_size gs < n \<longrightarrow> parse_groups h l gs b = Inr (r, b') \<longrightarrow>
      parsed_groups h gs b r b')"
proof (induction n)
  case (Suc n)
  have obj: "parsed_object h ps b es b'"
    if "object_size ps < Suc n" "parse_object_conditions h ps b = Inr (es, b')" for ps b es b'
  proof (cases ps)
    case Nil
    then show ?thesis using that by (auto intro: parsed_end)
  next
    case (Cons kv rest)
    obtain k v where kv: "kv = (k, v)" by fastforce
    have small: "object_size rest < n" "size_json (\<lambda>_. 0) v \<le> n"
      using that(1) Cons kv by auto
    show ?thesis
    proof (cases "is_logical k")
      case True
      from that(2)[unfolded Cons kv parse_logical [OF True]] obtain groups gs b1 others where
        g: "groups \<noteq> []" "v = JArray (map JObject groups)" "parse_groups h k groups b = Inr (gs, b1)"
          "parse_object_conditions h rest b1 = Inr (others, b')" "es = logical_children k gs @ others"
        by blast
      have "size_list object_size groups < n"
        using logical_entries_smaller [of k v groups] g small by (simp add: logical_entries_Inr)
      then have "parsed_groups h groups b gs b1" using Suc.IH g(3) by blast
      moreover have "parsed_object h rest b1 others b'" using Suc.IH g(4) small(1) by blast
      ultimately show ?thesis
        unfolding Cons kv g(2) g(5) by (rule parsed_logical [OF True g(1)])
    next
      case False
      from that(2)[unfolded Cons kv parse_plain [OF False]] obtain c others where
        p: "\<not> is_blank k" "field_condition h k v = Inr c" "b < max_filter_condition_nodes"
          "parse_object_conditions h rest (b + 1) = Inr (others, b')" "es = FilterCondition c # others"
        by blast
      have "parsed_object h rest (b + 1) others b'" using Suc.IH p(4) small(1) by blast
      then show ?thesis
        unfolding Cons kv p(5) by (rule parsed_plain [OF False p(1-3)])
    qed
  qed
  have "parsed_groups h gs b r b'"
    if "size_list object_size gs < Suc n" "parse_groups h l gs b = Inr (r, b')" for l gs b r b'
    using that
  proof (cases gs)
    case (Cons g gs')
    from that(2) obtain es b1 others where g: "g \<noteq> []" "parse_object_conditions h g b = Inr (es, b1)"
        "parse_groups h l gs' b1 = Inr (others, b')" "r = es # others"
      unfolding Cons by (auto simp: and_then_Inr split: if_splits)
    have "object_size g < n" "size_list object_size gs' < n"
      using that(1) Cons by auto
    then show ?thesis
      unfolding Cons g(4) using Suc.IH g by (blast intro: parsed_group)
  qed (auto intro: parsed_groups_end)
  with obj show ?case by blast
qed simp

lemma parsed_parse:
  "parsed_object h ps b es b' \<Longrightarrow> parse_object_conditions h ps b = Inr (es, b')"
  "parsed_groups h gs b r b' \<Longrightarrow> parse_groups h l gs b = Inr (r, b')"
proof (induction arbitrary: and l rule: parsed_object_parsed_groups.inducts)
  case (parsed_logical k groups b gs b1 rest others b')
  show ?case
    unfolding parse_logical [OF parsed_logical.hyps(1)]
    using parsed_logical by blast
next
  case (parsed_plain k v c b rest others b')
  show ?case
    unfolding parse_plain [OF parsed_plain.hyps(1)]
    using parsed_plain by blast
qed simp_all

lemma parse_iff_parsed:
  "parse_object_conditions h ps b = Inr (es, b') \<longleftrightarrow> parsed_object h ps b es b'"
  using parse_parsed_size [of "Suc (object_size ps)" h] parsed_parse(1) by blast

lemma filter_wf_group: "es \<noteq> [] \<Longrightarrow> list_all filter_wf es \<Longrightarrow> filter_wf (FilterAll es)"
  by (auto simp: filter_wf_def list_all_iff)

lemma filter_wf_any: "gs \<noteq> [] \<Longrightarrow> list_all filter_wf gs \<Longrightarrow> filter_wf (FilterAny gs)"
  by (auto simp: filter_wf_def list_all_iff)

lemma filter_wf_children:
  assumes "gs \<noteq> []" and "list_all (\<lambda>es. es \<noteq> [] \<and> list_all filter_wf es) gs"
  shows "list_all filter_wf (logical_children k gs)" and "logical_children k gs \<noteq> []"
proof -
  have "list_all filter_wf (map FilterAll gs)"
    using assms(2) by (auto simp: list_all_iff intro!: filter_wf_group)
  then have any: "filter_wf (FilterAny (map FilterAll gs))"
    using assms(1) by (intro filter_wf_any) auto
  then have neg: "filter_wf (FilterNot (FilterAny (map FilterAll gs)))"
    by (simp add: filter_wf_def)
  show "list_all filter_wf (logical_children k gs)"
    using any neg assms(2) by (auto simp: logical_children_def list_all_iff)
  show "logical_children k gs \<noteq> []"
    using assms by (cases gs) (auto simp: logical_children_def)
qed

lemma leaf_count_children: "leaf_count (logical_children k gs) = sum_list (map leaf_count gs)"
  using leaf_count_groups [of gs] leaf_count_concat [of gs]
  by (simp add: logical_children_def leaf_count_def comp_def)

lemma parsed_object_wf:
  "parsed_object h ps b es b' \<Longrightarrow>
    list_all filter_wf es \<and> b' = b + leaf_count es \<and> (b \<le> max_filter_condition_nodes \<longrightarrow>
      b' \<le> max_filter_condition_nodes) \<and> (ps \<noteq> [] \<longrightarrow> es \<noteq> [])"
  "parsed_groups h gs b r b' \<Longrightarrow>
    list_all (\<lambda>es. es \<noteq> [] \<and> list_all filter_wf es) r \<and> b' = b + sum_list (map leaf_count r) \<and>
    (b \<le> max_filter_condition_nodes \<longrightarrow> b' \<le> max_filter_condition_nodes) \<and> length r = length gs"
proof (induction rule: parsed_object_parsed_groups.inducts)
  case (parsed_logical k groups b gs b1 rest others b')
  then have "gs \<noteq> []" by auto
  with parsed_logical show ?case
    using filter_wf_children [of gs k] by (auto simp: leaf_count_children)
next
  case (parsed_plain k v c b rest others b')
  then show ?case
    using field_condition_wf [of h k v c] by (auto simp: filter_wf_def)
qed auto

section \<open>The meaning of the wire form\<close>

fun json_elements :: "'n json \<Rightarrow> 'n json list" where
  "json_elements (JArray es) = es"
| "json_elements v = []"

definition field_meaning ::
  "'n json_host \<Rightarrow> (string \<times> 'n json) list option \<Rightarrow> string \<Rightarrow> 'n json \<Rightarrow> tristate" where
  "field_meaning h d k v =
     (case field_condition h k v of Inl _ \<Rightarrow> TriUnknown | Inr c \<Rightarrow> condition_evaluate h c d)"

lemma element_smaller:
  assumes "(k, v) \<in> set ps" and "e \<in> set (json_elements v)"
  shows "size_json f e < size_json f (JObject ps)"
proof -
  have "size_json f e < size_json f v"
    using assms(2) by (cases v) (auto simp: size_list_estimation' less_Suc_eq_le)
  also have "size_json f v \<le> size_list (size_prod (\<lambda>_. 0) (size_json f)) ps"
    using assms(1) by (intro size_list_estimation') auto
  finally show ?thesis by simp
qed

text \<open>An object is the conjunction of its entries; groups combine as their key says.\<close>

function wire_meaning :: "'n json_host \<Rightarrow> (string \<times> 'n json) list option \<Rightarrow> 'n json \<Rightarrow> tristate" where
  "wire_meaning h d (JObject ps) =
     tri_all (map (\<lambda>(k, v).
       if k = ''AND'' then tri_all (map (wire_meaning h d) (json_elements v))
       else if k = ''OR'' then tri_any (map (wire_meaning h d) (json_elements v))
       else if k = ''NOT'' then tri_negate (tri_any (map (wire_meaning h d) (json_elements v)))
       else field_meaning h d k v) ps)"
| "wire_meaning h d JNull = TriUnknown"
| "wire_meaning h d (JBool b) = TriUnknown"
| "wire_meaning h d (JNumber n) = TriUnknown"
| "wire_meaning h d (JString s) = TriUnknown"
| "wire_meaning h d (JArray es) = TriUnknown"
  by pat_completeness auto
termination
  by (relation "measure (\<lambda>(h, d, v). size_json (\<lambda>_. 0) v)") (auto simp: element_smaller [simplified])

text \<open>The wire forms that are filters, and the number of conditions they carry.\<close>

function wire_ok :: "'n json_host \<Rightarrow> 'n json \<Rightarrow> bool" where
  "wire_ok h (JObject ps) \<longleftrightarrow>
     list_all (\<lambda>(k, v).
       if is_logical k
       then as_array v \<noteq> None \<and> json_elements v \<noteq> [] \<and>
         list_all (\<lambda>e. e \<noteq> JObject [] \<and> wire_ok h e) (json_elements v)
       else \<not> is_blank k \<and> \<not> isl (field_condition h k v)) ps"
| "wire_ok h JNull \<longleftrightarrow> False"
| "wire_ok h (JBool b) \<longleftrightarrow> False"
| "wire_ok h (JNumber n) \<longleftrightarrow> False"
| "wire_ok h (JString s) \<longleftrightarrow> False"
| "wire_ok h (JArray es) \<longleftrightarrow> False"
  by pat_completeness auto
termination
  by (relation "measure (\<lambda>(h, v). size_json (\<lambda>_. 0) v)") (auto simp: element_smaller [simplified])

function wire_leaves :: "'n json \<Rightarrow> nat" where
  "wire_leaves (JObject ps) =
     sum_list (map (\<lambda>(k, v). if is_logical k then sum_list (map wire_leaves (json_elements v)) else 1) ps)"
| "wire_leaves JNull = 0"
| "wire_leaves (JBool b) = 0"
| "wire_leaves (JNumber n) = 0"
| "wire_leaves (JString s) = 0"
| "wire_leaves (JArray es) = 0"
  by pat_completeness auto
termination
  by (relation "measure (size_json (\<lambda>_. 0))") (auto simp: element_smaller [simplified])

lemma children_meaning:
  "tri_all (map (\<lambda>e. evaluate h e d) (logical_children k gs)) =
    (let gv = map (\<lambda>es. tri_all (map (\<lambda>e. evaluate h e d) es)) gs
     in if k = ''AND'' then tri_all gv else if k = ''OR'' then tri_any gv else tri_negate (tri_any gv))"
  by (simp add: logical_children_def Let_def map_concat tri_all_concat comp_def)

lemma parsed_meaning:
  "parsed_object h ps b es b' \<Longrightarrow>
    tri_all (map (\<lambda>e. evaluate h e d) es) = wire_meaning h d (JObject ps)"
  "parsed_groups h gs b r b' \<Longrightarrow>
    map (\<lambda>es. tri_all (map (\<lambda>e. evaluate h e d) es)) r = map (wire_meaning h d \<circ> JObject) gs"
proof (induction rule: parsed_object_parsed_groups.inducts)
  case (parsed_logical k groups b gs b1 rest others b')
  then show ?case
    by (auto simp: tri_all_append children_meaning Let_def is_logical_def comp_def simp del: wire_meaning.simps(1))
      (simp_all add: comp_def)
next
  case (parsed_plain k v c b rest others b')
  then show ?case by (simp add: is_logical_def field_meaning_def)
qed (simp_all del: wire_meaning.simps(1), simp)

lemma parsed_wire_ok:
  "parsed_object h ps b es b' \<Longrightarrow>
    wire_ok h (JObject ps) \<and> wire_leaves (JObject ps) = leaf_count es"
  "parsed_groups h gs b r b' \<Longrightarrow>
    list_all (\<lambda>g. g \<noteq> [] \<and> wire_ok h (JObject g)) gs \<and>
    sum_list (map (wire_leaves \<circ> JObject) gs) = sum_list (map leaf_count r)"
proof (induction rule: parsed_object_parsed_groups.inducts)
  case (parsed_logical k groups b gs b1 rest others b')
  then show ?case
    by (simp add: leaf_count_children list.pred_map comp_def)
next
  case (parsed_plain k v c b rest others b')
  then show ?case by (simp add: isl_def)
qed simp_all

lemma wire_ok_parsed_size:
  "(\<forall>ps b. object_size ps < n \<longrightarrow> wire_ok h (JObject ps) \<longrightarrow>
      b + wire_leaves (JObject ps) \<le> max_filter_condition_nodes \<longrightarrow>
      (\<exists>es. parsed_object h ps b es (b + wire_leaves (JObject ps)))) \<and>
   (\<forall>gs b. size_list object_size gs < n \<longrightarrow> list_all (\<lambda>g. g \<noteq> [] \<and> wire_ok h (JObject g)) gs \<longrightarrow>
      b + sum_list (map (wire_leaves \<circ> JObject) gs) \<le> max_filter_condition_nodes \<longrightarrow>
      (\<exists>r. parsed_groups h gs b r (b + sum_list (map (wire_leaves \<circ> JObject) gs))))"
proof (induction n)
  case (Suc n)
  note object_IH = Suc.IH [THEN conjunct1, rule_format] and groups_IH = Suc.IH [THEN conjunct2, rule_format]
  have obj: "\<exists>es. parsed_object h ps b es (b + wire_leaves (JObject ps))"
    if ps_size: "object_size ps < Suc n" and ps_ok: "wire_ok h (JObject ps)"
      and ps_leaves: "b + wire_leaves (JObject ps) \<le> max_filter_condition_nodes" for ps b
  proof (cases ps)
    case Nil
    then show ?thesis by (auto intro: parsed_end)
  next
    case (Cons kv rest)
    obtain k v where kv: "kv = (k, v)" by fastforce
    have small: "object_size rest < n" "size_json (\<lambda>_. 0) v \<le> n"
      using ps_size Cons kv by auto
    have rest_ok: "wire_ok h (JObject rest)" using ps_ok Cons kv by simp
    show ?thesis
    proof (cases "is_logical k")
      case True
      then obtain es where v: "v = JArray es" and es: "es \<noteq> []"
        "list_all (\<lambda>e. e \<noteq> JObject [] \<and> wire_ok h e) es"
        using ps_ok Cons kv by (cases v) auto
      have "\<exists>g. e = JObject g" if "wire_ok h e" for e using that by (cases e) auto
      then have "\<forall>e \<in> set es. \<exists>g. e = JObject g" using es(2) by (auto simp: list_all_iff)
      then obtain groups where groups: "es = map JObject groups"
        by (metis ex_map_conv)
      have gok: "list_all (\<lambda>g. g \<noteq> [] \<and> wire_ok h (JObject g)) groups"
        using es(2) by (auto simp: groups list_all_iff)
      have gsmall: "size_list object_size groups < n"
        using logical_entries_smaller [of k v groups] es(1) small
        by (simp add: logical_entries_Inr v groups)
      let ?m = "sum_list (map (wire_leaves \<circ> JObject) groups)"
      have leaves: "wire_leaves (JObject ps) = ?m + wire_leaves (JObject rest)"
        using True by (simp add: Cons kv v groups)
      have room: "b + ?m \<le> max_filter_condition_nodes"
          "b + ?m + wire_leaves (JObject rest) \<le> max_filter_condition_nodes"
        using ps_leaves unfolding leaves by linarith+
      obtain gs where "parsed_groups h groups b gs (b + ?m)"
        using groups_IH [OF gsmall gok room(1)] by blast
      moreover obtain others where "parsed_object h rest (b + ?m) others (b + ?m + wire_leaves (JObject rest))"
        using object_IH [OF small(1) rest_ok room(2)] by blast
      ultimately have "parsed_object h ((k, JArray (map JObject groups)) # rest) b
          (logical_children k gs @ others) (b + ?m + wire_leaves (JObject rest))"
        using es(1) groups by (intro parsed_logical [OF True]) auto
      then show ?thesis
        unfolding leaves by (auto simp: Cons kv v groups add.assoc)
    next
      case False
      then obtain c where c: "\<not> is_blank k" "field_condition h k v = Inr c"
        using ps_ok Cons kv by (auto simp: isl_def) (metis sum.exhaust)
      have leaves: "wire_leaves (JObject ps) = Suc (wire_leaves (JObject rest))"
        using False by (simp add: Cons kv)
      have room: "b + 1 + wire_leaves (JObject rest) \<le> max_filter_condition_nodes"
        using ps_leaves unfolding leaves by linarith
      obtain others where "parsed_object h rest (b + 1) others (b + 1 + wire_leaves (JObject rest))"
        using object_IH [OF small(1) rest_ok room] by blast
      moreover have "b < max_filter_condition_nodes" using ps_leaves leaves by simp
      ultimately have "parsed_object h ((k, v) # rest) b (FilterCondition c # others)
          (b + 1 + wire_leaves (JObject rest))"
        by (intro parsed_plain [OF False c]) auto
      then show ?thesis
        unfolding leaves by (auto simp: Cons kv add.assoc)
    qed
  qed
  have "\<exists>r. parsed_groups h gs b r (b + sum_list (map (wire_leaves \<circ> JObject) gs))"
    if "size_list object_size gs < Suc n" "list_all (\<lambda>g. g \<noteq> [] \<and> wire_ok h (JObject g)) gs"
      "b + sum_list (map (wire_leaves \<circ> JObject) gs) \<le> max_filter_condition_nodes" for gs b
  proof (cases gs)
    case Nil
    then show ?thesis by (auto intro: parsed_groups_end)
  next
    case (Cons g gs')
    let ?m = "wire_leaves (JObject g)" and ?m' = "sum_list (map (wire_leaves \<circ> JObject) gs')"
    have leaves: "sum_list (map (wire_leaves \<circ> JObject) gs) = ?m + ?m'" by (simp add: Cons)
    have small: "object_size g < n" "size_list object_size gs' < n"
      using that(1) Cons by auto
    have room: "b + ?m \<le> max_filter_condition_nodes" "b + ?m + ?m' \<le> max_filter_condition_nodes"
      using that(3) unfolding leaves by linarith+
    have ok: "wire_ok h (JObject g)" "list_all (\<lambda>g. g \<noteq> [] \<and> wire_ok h (JObject g)) gs'"
      using that(2) by (simp_all add: Cons)
    obtain es where "parsed_object h g b es (b + ?m)"
      using object_IH [OF small(1) ok(1) room(1)] by blast
    moreover obtain others where "parsed_groups h gs' (b + ?m) others (b + ?m + ?m')"
      using groups_IH [OF small(2) ok(2) room(2)] by blast
    ultimately have "parsed_groups h (g # gs') b (es # others) (b + ?m + ?m')"
      using that(2) by (intro parsed_group) (auto simp: Cons)
    then show ?thesis
      unfolding leaves by (auto simp: Cons add.assoc)
  qed
  with obj show ?case by blast
qed simp

lemma parse_object_succeeds_iff:
  "(\<exists>es b'. parse_object_conditions h ps 0 = Inr (es, b')) \<longleftrightarrow>
    wire_ok h (JObject ps) \<and> wire_leaves (JObject ps) \<le> max_filter_condition_nodes"
proof
  assume "\<exists>es b'. parse_object_conditions h ps 0 = Inr (es, b')"
  then obtain es b' where run: "parsed_object h ps 0 es b'"
    by (auto simp: parse_iff_parsed)
  then show "wire_ok h (JObject ps) \<and> wire_leaves (JObject ps) \<le> max_filter_condition_nodes"
    using parsed_wire_ok(1) [OF run] parsed_object_wf(1) [OF run] by simp
next
  assume "wire_ok h (JObject ps) \<and> wire_leaves (JObject ps) \<le> max_filter_condition_nodes"
  moreover have "object_size ps < Suc (object_size ps)" by simp
  ultimately obtain es where "parsed_object h ps 0 es (0 + wire_leaves (JObject ps))"
    using wire_ok_parsed_size [of "Suc (object_size ps)" h, THEN conjunct1, rule_format, of ps 0] by auto
  then show "\<exists>es b'. parse_object_conditions h ps 0 = Inr (es, b')"
    by (auto simp: parse_iff_parsed)
qed

definition combine_children :: "metadata_filter_expression list \<Rightarrow> metadata_filter_expression" where
  "combine_children es = (case es of [e] \<Rightarrow> e | _ \<Rightarrow> FilterAll es)"

lemma parse_filter_object:
  "ps \<noteq> [] \<Longrightarrow> parse_metadata_filter h (JObject ps) =
    (case parse_object_conditions h ps 0 of Inl e \<Rightarrow> Inl e
     | Inr (es, _) \<Rightarrow> if es = [] then Inl NoCondition else Inr (Some (combine_children es)))"
  by (auto simp: parse_metadata_filter_def and_then_def combine_children_def
      split: sum.split list.split prod.split)

lemma parse_filter_Some:
  assumes "parse_metadata_filter h v = Inr (Some e)"
  obtains ps es b' where "v = JObject ps" "ps \<noteq> []" "parsed_object h ps 0 es b'" "es \<noteq> []"
    "e = combine_children es"
proof -
  obtain ps where ps: "v = JObject ps" "ps \<noteq> []"
    using assms by (cases v) (auto simp: parse_metadata_filter_def split: if_splits)
  with assms that show ?thesis
    by (auto simp: parse_filter_object parse_iff_parsed split: sum.splits if_splits)
qed

lemma parse_filter_outcome:
  "(\<exists>e. parse_metadata_filter h v = Inr (Some e)) \<longleftrightarrow>
    wire_ok h v \<and> v \<noteq> JObject [] \<and> wire_leaves v \<le> max_filter_condition_nodes"
proof (cases v)
  case (JObject ps)
  show ?thesis
  proof (cases "ps = []")
    case True
    then show ?thesis by (simp add: JObject parse_metadata_filter_def)
  next
    case False
    have "(\<exists>e. parse_metadata_filter h (JObject ps) = Inr (Some e)) \<longleftrightarrow>
        (\<exists>es b'. parse_object_conditions h ps 0 = Inr (es, b'))"
    proof
      assume "\<exists>es b'. parse_object_conditions h ps 0 = Inr (es, b')"
      then obtain es b' where run: "parse_object_conditions h ps 0 = Inr (es, b')" by blast
      then have "es \<noteq> []"
        using parsed_object_wf(1) [of h ps 0 es b'] False by (simp add: parse_iff_parsed)
      then show "\<exists>e. parse_metadata_filter h (JObject ps) = Inr (Some e)"
        using run False by (simp add: parse_filter_object)
    qed (auto simp: parse_filter_object False split: sum.splits if_splits)
    then show ?thesis using False by (simp add: JObject parse_object_succeeds_iff)
  qed
qed (simp_all add: parse_metadata_filter_def)

lemma parse_filter_None: "parse_metadata_filter h v = Inr None \<longleftrightarrow> v = JObject []"
  by (cases v) (auto simp: parse_metadata_filter_def and_then_Inr split: list.splits)

text \<open>\<^verbatim>\<open>NoCondition\<close> is never reached: a non-empty object always yields a child.\<close>

lemma parse_filter_children:
  "parsed_object h ps 0 es b' \<Longrightarrow> ps \<noteq> [] \<Longrightarrow> es \<noteq> []"
  using parsed_object_wf(1) by blast

lemma parsed_filter_wf:
  assumes "parse_metadata_filter h v = Inr (Some e)"
  shows "filter_wf e \<and> length (filter_leaves e) = wire_leaves v \<and> length (filter_leaves e) \<le> 256"
proof -
  obtain ps es b' where v: "v = JObject ps" "ps \<noteq> []" and run: "parsed_object h ps 0 es b'"
    and es: "es \<noteq> []" "e = combine_children es"
    using assms by (rule parse_filter_Some)
  have "filter_wf e \<and> length (filter_leaves e) = leaf_count es"
    using parsed_object_wf(1) [OF run] es filter_wf_group [of es]
    by (cases es rule: remdups_adj.cases) (auto simp: combine_children_def leaf_count_def)
  then show ?thesis
    using parsed_wire_ok(1) [OF run] parsed_object_wf(1) [OF run] v
    by (simp add: max_filter_condition_nodes_def)
qed

end
