(* ===== verification/Service_Types.thy ===== *)
theory Service_Types
  imports Spi_Types
begin

text \<open>
  What the service layer shares: its error (\<^verbatim>\<open>ports.rs\<close> of the contract crate) with one
  constructor function per kind, the request context, the masking of SPI errors
  (\<^verbatim>\<open>store_error.rs\<close>), and the identifier conversions of \<^verbatim>\<open>platform.rs\<close>.
\<close>

section \<open>Errors\<close>

datatype service_error_kind =
  NotFound | Conflict | Validation | Forbidden | ServiceQuotaExceeded | Storage | NotImplemented

record service_error =
  se_kind :: service_error_kind
  se_code :: string
  se_detail :: string

definition storage_error_detail :: string where
  "storage_error_detail = ''internal storage error''"

definition err_not_found :: "string \<Rightarrow> service_error" where
  "err_not_found detail = \<lparr>se_kind = NotFound, se_code = ''not_found'', se_detail = detail\<rparr>"

definition err_conflict :: "string \<Rightarrow> service_error" where
  "err_conflict detail = \<lparr>se_kind = Conflict, se_code = ''conflict'', se_detail = detail\<rparr>"

definition err_validation :: "string \<Rightarrow> service_error" where
  "err_validation detail = \<lparr>se_kind = Validation, se_code = ''validation_error'', se_detail = detail\<rparr>"

definition err_invalid_parameter :: "string \<Rightarrow> service_error" where
  "err_invalid_parameter detail =
     \<lparr>se_kind = Validation, se_code = ''invalid_parameter'', se_detail = detail\<rparr>"

definition err_forbidden :: "string \<Rightarrow> service_error" where
  "err_forbidden detail = \<lparr>se_kind = Forbidden, se_code = ''forbidden'', se_detail = detail\<rparr>"

definition err_quota_exceeded :: "string \<Rightarrow> service_error" where
  "err_quota_exceeded detail =
     \<lparr>se_kind = ServiceQuotaExceeded, se_code = ''quota_exceeded'', se_detail = detail\<rparr>"

definition err_storage :: "string \<Rightarrow> service_error" where
  "err_storage detail = \<lparr>se_kind = Storage, se_code = ''storage_error'', se_detail = detail\<rparr>"

definition err_not_implemented :: "string \<Rightarrow> service_error" where
  "err_not_implemented operation =
     \<lparr>se_kind = NotImplemented, se_code = ''operation_not_implemented'',
      se_detail = ''operation is not implemented: '' @ operation\<rparr>"

text \<open>The message of a provider never leaves this function.\<close>

definition map_memory_spi_error :: "spi_error \<Rightarrow> service_error" where
  "map_memory_spi_error e =
     (case e of
        IdempotencyConflict k \<Rightarrow>
          err_conflict ''resource already exists with a different idempotent payload''
      | _ \<Rightarrow> \<lparr>se_kind = Storage, se_code = ''storage_error'', se_detail = storage_error_detail\<rparr>)"

lemma map_memory_spi_error_cases:
  "map_memory_spi_error e = err_storage storage_error_detail \<or>
   (\<exists>k. e = IdempotencyConflict k) \<and>
     map_memory_spi_error e = err_conflict ''resource already exists with a different idempotent payload''"
  by (cases e) (simp_all add: map_memory_spi_error_def err_storage_def)

text \<open>A service operation over a state: the result, or an error, and the state it leaves.\<close>

type_synonym ('s, 'a) service_op = "'s \<Rightarrow> (service_error + 'a) \<times> 's"

section \<open>Request context\<close>

record request_context =
  rq_api_key_id :: string
  rq_tenant_id :: u64
  rq_actor_id :: "u64 option"
  rq_elevated_tenant_access :: bool

definition for_open_surface :: "string \<Rightarrow> u64 \<Rightarrow> u64 option \<Rightarrow> request_context" where
  "for_open_surface key tenant actor =
     \<lparr>rq_api_key_id = key, rq_tenant_id = tenant, rq_actor_id = actor, rq_elevated_tenant_access = False\<rparr>"

definition for_backend_surface :: "u64 \<Rightarrow> u64 option \<Rightarrow> request_context" where
  "for_backend_surface tenant operator =
     \<lparr>rq_api_key_id = ''backend-'' @ u64_text (case operator of None \<Rightarrow> 0 | Some i \<Rightarrow> i),
      rq_tenant_id = tenant, rq_actor_id = operator, rq_elevated_tenant_access = True\<rparr>"

definition for_background_job :: "u64 \<Rightarrow> u64 option \<Rightarrow> request_context" where
  "for_background_job tenant actor =
     \<lparr>rq_api_key_id = ''background-job'', rq_tenant_id = tenant, rq_actor_id = actor,
      rq_elevated_tenant_access = False\<rparr>"

section \<open>Identifiers\<close>

definition tenant_id_i64 :: "u64 \<Rightarrow> service_error + i64" where
  "tenant_id_i64 t =
     (case i64_try_from t of None \<Rightarrow> Inl (err_validation ''tenantId is out of storage range'')
      | Some x \<Rightarrow> Inr x)"

definition space_id_i64 :: "u64 \<Rightarrow> service_error + i64" where
  "space_id_i64 s =
     (case i64_try_from s of None \<Rightarrow> Inl (err_validation ''spaceId is out of storage range'')
      | Some x \<Rightarrow> Inr x)"

definition optional_u64_as_i64 :: "u64 option \<Rightarrow> service_error + i64 option" where
  "optional_u64_as_i64 v =
     (case v of None \<Rightarrow> Inr None | Some x \<Rightarrow> and_then (space_id_i64 x) (\<lambda>y. Inr (Some y)))"

text \<open>\<^verbatim>\<open>u64::try_from(id.max(0))\<close> cannot fail.\<close>

definition optional_i64_as_u64 :: "i64 option \<Rightarrow> u64 option" where
  "optional_i64_as_u64 v = map_option (\<lambda>id. if sint id < 0 then 0 else id) v"

text \<open>\<^verbatim>\<open>u64::try_from(i64)\<close>: an error below zero.\<close>

definition u64_try_from :: "i64 \<Rightarrow> u64 option" where
  "u64_try_from x = (if sint x < 0 then None else Some x)"

lemma i64_try_from_Some: "i64_try_from x = Some y \<longleftrightarrow> x = y \<and> x \<le> i64_max"
  by (auto simp: i64_try_from_def)

lemma tenant_id_i64_Inr: "tenant_id_i64 x = Inr y \<longleftrightarrow> x = y \<and> x \<le> i64_max"
  by (auto simp: tenant_id_i64_def i64_try_from_Some split: option.splits)
    (auto simp: i64_try_from_def split: if_splits)

lemma space_id_i64_Inr: "space_id_i64 x = Inr y \<longleftrightarrow> x = y \<and> x \<le> i64_max"
  by (auto simp: space_id_i64_def i64_try_from_Some split: option.splits)
    (auto simp: i64_try_from_def split: if_splits)

text \<open>
  Reading the environment (\<^verbatim>\<open>runtime_env.rs\<close> of the contract crate, and \<^verbatim>\<open>platform.rs\<close>). The environment
  is a partial map; the parsers of numbers and booleans of \<^verbatim>\<open>sdkwork_utils_rust\<close> are parameters.
\<close>

type_synonym env = "string \<Rightarrow> string option"

section \<open>The lifecycle environment\<close>

definition configured_environment :: "env \<Rightarrow> string option" where
  "configured_environment env =
     (case env ''SDKWORK_MEMORY_ENVIRONMENT'' of
        Some v \<Rightarrow> Some v
      | None \<Rightarrow> env ''SDKWORK_MEMORY_CONFIG_PROFILE'')"

definition memory_environment_name :: "env \<Rightarrow> string" where
  "memory_environment_name env =
     ascii_lower (case configured_environment env of Some v \<Rightarrow> v | None \<Rightarrow> ''development'')"

definition recognized_environments :: "string list" where
  "recognized_environments =
     [''development'', ''dev'', ''test'', ''staging'', ''stage'', ''demo'', ''production'', ''prod'']"

definition require_explicit_memory_environment :: "env \<Rightarrow> string + unit" where
  "require_explicit_memory_environment env =
     (if env ''SDKWORK_MEMORY_RUNTIME_TARGET'' = Some ''test-runner'' then Inr ()
      else case configured_environment env of
          None \<Rightarrow> Inl (''SDKWORK_MEMORY_ENVIRONMENT must be set explicitly for a Memory server process '' @
            ''(development|staging|production); refusing to start with the historical implicit '' @
            [CHR 0x27] @ ''development'' @ [CHR 0x27] @ '' default because it disables authorization, tenant isolation, '' @
            ''Redis-backed rate limiting, and request deadlines'')
        | Some raw \<Rightarrow>
            if ascii_lower (trim raw) \<in> set recognized_environments then Inr ()
            else Inl (''SDKWORK_MEMORY_ENVIRONMENT value '' @ [CHR 0x27] @ raw @ [CHR 0x27] @ '' is not recognized '' @
              ''(expected one of: development, staging, production)''))"

definition memory_is_production_like_environment :: "env \<Rightarrow> bool" where
  "memory_is_production_like_environment env \<longleftrightarrow>
     memory_environment_name env \<in> {''production'', ''prod'', ''staging'', ''stage'', ''test''}"

definition env_truthy :: "(string \<Rightarrow> bool option) \<Rightarrow> env \<Rightarrow> string \<Rightarrow> bool" where
  "env_truthy parse_bool env key = (case Option.bind (env key) parse_bool of Some b \<Rightarrow> b | None \<Rightarrow> False)"

definition memory_dev_auth_bypass_enabled :: "(string \<Rightarrow> bool option) \<Rightarrow> env \<Rightarrow> bool" where
  "memory_dev_auth_bypass_enabled parse_bool env = env_truthy parse_bool env ''SDKWORK_MEMORY_DEV_AUTH_BYPASS''"

definition memory_use_dev_inline_auth_resolver :: "(string \<Rightarrow> bool option) \<Rightarrow> env \<Rightarrow> bool" where
  "memory_use_dev_inline_auth_resolver parse_bool env \<longleftrightarrow>
     \<not> memory_is_production_like_environment env \<and> memory_dev_auth_bypass_enabled parse_bool env"

section \<open>Identifiers at start-up\<close>

definition memory_id_fallback_policy :: "string option \<Rightarrow> bool \<Rightarrow> bool \<Rightarrow> bool" where
  "memory_id_fallback_policy lifecycle deployment_is_explicit debug_build =
     (case lifecycle of
        Some value \<Rightarrow> value \<notin> {''development'', ''dev'', ''test''}
      | None \<Rightarrow> deployment_is_explicit \<or> \<not> debug_build)"

fun first_set :: "env \<Rightarrow> string list \<Rightarrow> string option" where
  "first_set env [] = None"
| "first_set env (k # ks) = (case env k of Some v \<Rightarrow> Some v | None \<Rightarrow> first_set env ks)"

definition memory_id_fallback_is_forbidden :: "bool \<Rightarrow> env \<Rightarrow> bool" where
  "memory_id_fallback_is_forbidden debug_build env =
     memory_id_fallback_policy
       (map_option (\<lambda>v. ascii_lower (trim v))
         (first_set env [''SDKWORK_MEMORY_ENVIRONMENT'', ''SDKWORK_MEMORY_CONFIG_PROFILE'', ''SDKWORK_CLOUDROUTER_ENVIRONMENT'']))
       (list_ex (\<lambda>k. env k \<noteq> None)
         [''SDKWORK_MEMORY_DEPLOYMENT_PROFILE'', ''SDKWORK_CLOUDROUTER_DEPLOYMENT_PROFILE'',
          ''SDKWORK_MEMORY_RUNTIME_TARGET'', ''SDKWORK_CLOUDROUTER_RUNTIME_TARGET''])
       debug_build"

definition id_generator_health :: "bool \<Rightarrow> bool option option \<Rightarrow> bool" where
  "id_generator_health last_failed lease_healthy =
     (case lease_healthy of
        Some (Some True) \<Rightarrow> \<not> last_failed
      | Some (Some False) \<Rightarrow> False
      | _ \<Rightarrow> \<not> last_failed)"

section \<open>Numbers\<close>

definition parse_numeric_id :: "(string \<Rightarrow> i64 option) \<Rightarrow> string \<Rightarrow> u64 option" where
  "parse_numeric_id parse_int value = Option.bind (parse_int value) u64_try_from"

definition parse_required_numeric_id :: "(string \<Rightarrow> i64 option) \<Rightarrow> string \<Rightarrow> string \<Rightarrow> service_error + u64" where
  "parse_required_numeric_id parse_int value field =
     (case parse_numeric_id parse_int value of
        None \<Rightarrow> Inl (err_storage (field @ '' must be numeric''))
      | Some i \<Rightarrow> Inr i)"

definition non_negative_i64_as_u64 :: "i64 \<Rightarrow> string \<Rightarrow> service_error + u64" where
  "non_negative_i64_as_u64 value field =
     (case u64_try_from (if sint value < 0 then 0 else value) of
        None \<Rightarrow> Inl (err_storage (field @ '' must be non-negative''))
      | Some i \<Rightarrow> Inr i)"

definition read_env_u64 :: "(string \<Rightarrow> i64 option) \<Rightarrow> env \<Rightarrow> string \<Rightarrow> u64 \<Rightarrow> u64" where
  "read_env_u64 parse_int env key fallback =
     (case Option.bind (Option.bind (env key) parse_int) u64_try_from of Some i \<Rightarrow> i | None \<Rightarrow> fallback)"

text \<open>The page bounds are constants of \<^verbatim>\<open>sdkwork_utils_rust\<close>, so parameters.\<close>

definition validated_page_size :: "i32 \<Rightarrow> i32 \<Rightarrow> i32 option \<Rightarrow> service_error + i32" where
  "validated_page_size default_size max_size page_size =
     (let n = (case page_size of Some n \<Rightarrow> n | None \<Rightarrow> default_size)
      in if sint n < 1 \<or> sint max_size < sint n
         then Inl (err_invalid_parameter (''page_size must be between 1 and '' @ i64_text (word_of_int (sint max_size))))
         else Inr n)"

definition max_retrieval_top_k :: i32 where
  "max_retrieval_top_k = 100"

definition clamp_retrieval_top_k :: "i32 \<Rightarrow> i32" where
  "clamp_retrieval_top_k top_k =
     (if sint top_k < 1 then 1 else if sint max_retrieval_top_k < sint top_k then max_retrieval_top_k else top_k)"

definition stable_query_hash :: "(string \<Rightarrow> string) \<Rightarrow> (string \<Rightarrow> string) \<Rightarrow> string \<Rightarrow> string" where
  "stable_query_hash to_lowercase sha256 query = ''sha256:'' @ sha256 (to_lowercase (trim query))"

end
