(* ===== verification/Plugin_Manifest.thy ===== *)
theory Plugin_Manifest
  imports Spi_Types
begin

text \<open>
  Plug-in manifests (\<^verbatim>\<open>manifest.rs\<close>): their data, the validation a registry performs before it
  accepts one, and the two baseline manifests. The lemmas say exactly which manifests are
  valid, as a conjunction over the fields in place of the chain of early returns.
\<close>

section \<open>Data\<close>

datatype implementation_kind =
  NativeSql | EventSourced | SearchFirst | GraphTemporal | LocalEmbedded | ExternalProviderBridge
  | HybridPlatform

datatype plugin_role =
  RoleImplementation | RoleStore | RoleRetriever | RoleIndex | RoleProvider | RoleContext
  | RoleEvaluation

datatype deployment_mode = Server | Container | Private | Local | Test | EvalOnly

datatype provider_kind =
  LanguageModel | EmbeddingModel | RerankModel | SearchEngine | GraphEngine | ExternalMemory

datatype index_kind =
  IkSql | IkKeyword | IkDictionary | IkTime | IkEvent | IkVector | IkGraph | IkGrepFile | IkCustom

datatype plugin_data_class =
  DcPublic | DcInternal | DcTenant | DcPersonal | DcSensitive | DcRegulated

record plugin_port_export =
  pe_port :: string
  pe_builder :: string

record plugin_capabilities =
  pl_canonical_store :: bool
  pl_event_log :: bool
  pl_candidate_lifecycle :: bool
  pl_habit_learning :: bool
  pl_retrieval_trace :: bool
  pl_deletion_propagation :: bool
  pl_audit_log :: bool
  pl_outbox_log :: bool
  pl_embedding_required :: bool

record degradation_policy =
  dp_mode :: string
  dp_returns_stale_hits :: bool

record migration_capabilities =
  mg_export_supported :: bool
  mg_import_supported :: bool
  mg_dual_write_supported :: bool
  mg_shadow_read_supported :: bool

record observability_contract =
  oc_metrics_prefix :: string
  oc_redacts_payloads :: bool

record conformance_contract =
  co_suite :: string
  co_suite_version :: string

record plugin_manifest =
  pm_schema_version :: nat
  pm_kind :: string
  pm_plugin_id :: string
  pm_package_name :: string
  pm_display_name :: string
  pm_version :: string
  pm_owner :: string
  pm_implementation_kinds :: "implementation_kind list"
  pm_plugin_roles :: "plugin_role list"
  pm_deployment_modes :: "deployment_mode list"
  pm_port_exports :: "plugin_port_export list"
  pm_provider_kinds :: "provider_kind list"
  pm_retriever_kinds :: "retriever_kind list"
  pm_index_kinds :: "index_kind list"
  pm_required_core_version :: string
  pm_config_schema_ref :: "string option"
  pm_secret_refs :: "string list"
  pm_data_classes :: "plugin_data_class list"
  pm_capabilities :: plugin_capabilities
  pm_degradation :: degradation_policy
  pm_migration :: migration_capabilities
  pm_observability :: observability_contract
  pm_conformance :: conformance_contract

section \<open>Validation\<close>

definition looks_like_secret_value :: "string \<Rightarrow> bool" where
  "looks_like_secret_value value =
     (let lower = ascii_lower value
      in contains_text lower ''literal'' \<or> contains_text lower ''password'' \<or>
         contains_text lower ''api_key'' \<or> contains_text lower ''private_key'' \<or>
         contains_text lower ''access_token'' \<or> contains_text lower ''refresh_token'' \<or>
         contains_text lower ''bearer '' \<or> contains_text lower ''sk-'' \<or>
         contains_text lower ''token-secret'')"

definition exports_port :: "plugin_manifest \<Rightarrow> string \<Rightarrow> bool" where
  "exports_port m port = list_ex (\<lambda>e. pe_port e = port) (pm_port_exports m)"

definition require_capability_port :: "plugin_manifest \<Rightarrow> bool \<Rightarrow> string \<Rightarrow> string \<Rightarrow> spi_error + unit" where
  "require_capability_port m enabled port capability =
     (if enabled \<and> \<not> exports_port m port
      then Inl (ManifestInvalid (capability @ ''=true requires '' @ port))
      else Inr ())"

definition under_sdkwork_plugins :: "string \<Rightarrow> bool" where
  "under_sdkwork_plugins s \<longleftrightarrow>
     contains_text s ''.sdkwork/plugins'' \<or>
     contains_text s (''.sdkwork'' @ [CHR 0x5C] @ ''plugins'')"

text \<open>The loop over the exports, with the set of ports declared so far.\<close>

fun validate_exports :: "string set \<Rightarrow> plugin_port_export list \<Rightarrow> spi_error + unit" where
  "validate_exports declared [] = Inr ()"
| "validate_exports declared (e # es) =
     (if trim (pe_port e) = [] \<or> trim (pe_builder e) = []
      then Inl (ManifestInvalid ''portExports must declare a non-empty port and executable builder'')
      else if pe_port e \<in> declared
      then Inl (ManifestInvalid (''portExports contains duplicate port '' @ pe_port e))
      else validate_exports (insert (pe_port e) declared) es)"

definition validate_capabilities :: "plugin_manifest \<Rightarrow> spi_error + unit" where
  "validate_capabilities m =
     (let c = pm_capabilities m
      in and_then (require_capability_port m (pl_canonical_store c) ''MemoryRecordStorePort'' ''canonicalStore'') (\<lambda>_.
         and_then (require_capability_port m (pl_event_log c) ''MemoryEventStorePort'' ''eventLog'') (\<lambda>_.
         and_then (require_capability_port m (pl_audit_log c) ''MemoryAuditStorePort'' ''auditLog'') (\<lambda>_.
         and_then (require_capability_port m (pl_outbox_log c) ''MemoryOutboxStorePort'' ''outboxLog'') (\<lambda>_.
         and_then (require_capability_port m (pl_candidate_lifecycle c) ''MemoryCandidateStorePort'' ''candidateLifecycle'') (\<lambda>_.
         and_then (require_capability_port m (pl_habit_learning c) ''MemoryHabitStorePort'' ''habitLearning'') (\<lambda>_.
         require_capability_port m (pl_retrieval_trace c) ''MemoryRetrievalTraceStorePort'' ''retrievalTrace'')))))))"

definition manifest_validate :: "plugin_manifest \<Rightarrow> spi_error + unit" where
  "manifest_validate m =
     (if pm_schema_version m \<noteq> 1 then Inl (ManifestInvalid ''schemaVersion must be 1'')
      else if pm_kind m \<noteq> ''sdkwork.memory.plugin''
      then Inl (ManifestInvalid ''kind must be sdkwork.memory.plugin'')
      else if \<not> starts_with (pm_plugin_id m) ''sdkwork-memory-plugin-''
      then Inl (ManifestInvalid ''pluginId must start with sdkwork-memory-plugin-'')
      else if list_ex under_sdkwork_plugins [pm_plugin_id m, pm_package_name m]
      then Inl (ManifestInvalid ''runtime plugins must not live under .sdkwork/plugins'')
      else if pm_port_exports m = [] then Inl (ManifestInvalid ''portExports must not be empty'')
      else if pm_deployment_modes m = [] then Inl (ManifestInvalid ''deploymentModes must not be empty'')
      else and_then (validate_exports {} (pm_port_exports m)) (\<lambda>_.
        if list_ex looks_like_secret_value (pm_secret_refs m)
        then Inl (ManifestInvalid ''secretRefs must contain references, not literal secret values'')
        else if NativeSql \<in> set (pm_implementation_kinds m) \<and> pl_embedding_required (pm_capabilities m)
        then Inl (ManifestInvalid ''native_sql must not require embeddings'')
        else and_then (validate_capabilities m) (\<lambda>_.
          if pm_retriever_kinds m \<noteq> []
          then if RoleRetriever \<notin> set (pm_plugin_roles m)
               then Inl (ManifestInvalid ''retrieverKinds requires the retriever plugin role'')
               else if \<not> exports_port m ''MemoryRetrieverPort''
               then Inl (ManifestInvalid ''retrieverKinds requires MemoryRetrieverPort'')
               else Inr ()
          else Inr ())))"

section \<open>Baselines\<close>

definition port_export :: "string \<Rightarrow> string \<Rightarrow> plugin_port_export" where
  "port_export port builder = \<lparr>pe_port = port, pe_builder = builder\<rparr>"

definition full_capabilities :: plugin_capabilities where
  "full_capabilities =
     \<lparr>pl_canonical_store = True, pl_event_log = True, pl_candidate_lifecycle = True,
      pl_habit_learning = True, pl_retrieval_trace = True, pl_deletion_propagation = True,
      pl_audit_log = True, pl_outbox_log = True, pl_embedding_required = False\<rparr>"

definition plugin_conformance :: conformance_contract where
  "plugin_conformance =
     \<lparr>co_suite = ''sdkwork-memory-plugin-conformance'', co_suite_version = ''0.1.0''\<rparr>"

definition native_sql_baseline :: plugin_manifest where
  "native_sql_baseline =
     \<lparr>pm_schema_version = 1, pm_kind = ''sdkwork.memory.plugin'',
      pm_plugin_id = ''sdkwork-memory-plugin-native-sql'',
      pm_package_name = ''sdkwork-memory-plugin-native-sql'',
      pm_display_name = ''SDKWork Memory Native SQL Plugin'', pm_version = ''0.1.0'',
      pm_owner = ''sdkwork-memory'', pm_implementation_kinds = [NativeSql, LocalEmbedded],
      pm_plugin_roles = [RoleImplementation, RoleStore, RoleRetriever],
      pm_deployment_modes = [Server, Container, Private, Local, Test],
      pm_port_exports =
       [port_export ''MemoryRecordStorePort'' ''build_native_sql_record_store'',
        port_export ''MemoryEventStorePort'' ''build_native_sql_event_store'',
        port_export ''MemoryAuditStorePort'' ''build_native_sql_audit_store'',
        port_export ''MemoryOutboxStorePort'' ''build_native_sql_outbox_store'',
        port_export ''MemoryCandidateStorePort'' ''build_native_sql_candidate_store'',
        port_export ''MemoryHabitStorePort'' ''build_native_sql_habit_store'',
        port_export ''MemoryRetrievalTraceStorePort'' ''build_native_sql_retrieval_trace_store'',
        port_export ''MemoryGovernanceAccessPort'' ''build_native_sql_governance_access'',
        port_export ''MemorySpaceStorePort'' ''build_native_sql_space_store'',
        port_export ''MemoryRetrieverPort'' ''build_native_sql_retriever''],
      pm_provider_kinds = [],
      pm_retriever_kinds = [RkSql, RkKeyword, RkDictionary, RkTime, RkEvent], pm_index_kinds = [],
      pm_required_core_version = ''0.1.0'', pm_config_schema_ref = None, pm_secret_refs = [],
      pm_data_classes = [DcTenant, DcPersonal], pm_capabilities = full_capabilities,
      pm_degradation =
        \<lparr>dp_mode = ''fail_required_degrade_optional'', dp_returns_stale_hits = False\<rparr>,
      pm_migration = \<lparr>mg_export_supported = True, mg_import_supported = True,
        mg_dual_write_supported = False, mg_shadow_read_supported = True\<rparr>,
      pm_observability =
        \<lparr>oc_metrics_prefix = ''sdkwork_memory_native_sql'', oc_redacts_payloads = True\<rparr>,
      pm_conformance = plugin_conformance\<rparr>"

definition reference_profiles_baseline :: plugin_manifest where
  "reference_profiles_baseline =
     \<lparr>pm_schema_version = 1, pm_kind = ''sdkwork.memory.plugin'',
      pm_plugin_id = ''sdkwork-memory-plugin-reference-profiles'',
      pm_package_name = ''sdkwork-memory-plugin-reference-profiles'',
      pm_display_name = ''SDKWork Memory Reference Profiles Plugin'', pm_version = ''0.1.0'',
      pm_owner = ''sdkwork-memory'', pm_implementation_kinds = [SearchFirst],
      pm_plugin_roles = [RoleImplementation, RoleStore, RoleRetriever, RoleContext],
      pm_deployment_modes = [Test, EvalOnly],
      pm_port_exports =
       [port_export ''MemoryRecordStorePort'' ''build_reference_record_store'',
        port_export ''MemoryEventStorePort'' ''build_reference_event_store'',
        port_export ''MemoryAuditStorePort'' ''build_reference_audit_store'',
        port_export ''MemoryOutboxStorePort'' ''build_reference_outbox_store'',
        port_export ''MemoryCandidateStorePort'' ''build_reference_candidate_store'',
        port_export ''MemoryHabitStorePort'' ''build_reference_habit_store'',
        port_export ''MemoryRetrievalTraceStorePort'' ''build_reference_retrieval_trace_store'',
        port_export ''MemoryGovernanceAccessPort'' ''build_reference_governance_access'',
        port_export ''MemorySpaceStorePort'' ''build_reference_space_store'',
        port_export ''MemoryRetrieverPort'' ''build_reference_retriever'',
        port_export ''MemoryContextAssemblerPort'' ''build_reference_context_assembler''],
      pm_provider_kinds = [], pm_retriever_kinds = [RkKeyword], pm_index_kinds = [],
      pm_required_core_version = ''0.1.0'', pm_config_schema_ref = None, pm_secret_refs = [],
      pm_data_classes = [DcTenant, DcPersonal, DcInternal], pm_capabilities = full_capabilities,
      pm_degradation =
        \<lparr>dp_mode = ''fail_closed_reference_baseline'', dp_returns_stale_hits = False\<rparr>,
      pm_migration = \<lparr>mg_export_supported = False, mg_import_supported = False,
        mg_dual_write_supported = False, mg_shadow_read_supported = False\<rparr>,
      pm_observability =
        \<lparr>oc_metrics_prefix = ''sdkwork_memory_reference_profiles'', oc_redacts_payloads = True\<rparr>,
      pm_conformance = plugin_conformance\<rparr>"

definition phase1_baseline_manifests :: "plugin_manifest list" where
  "phase1_baseline_manifests = [native_sql_baseline, reference_profiles_baseline]"

section \<open>What validation accepts\<close>

definition exports_ok :: "string set \<Rightarrow> plugin_port_export list \<Rightarrow> bool" where
  "exports_ok declared es \<longleftrightarrow>
     list_all (\<lambda>e. trim (pe_port e) \<noteq> [] \<and> trim (pe_builder e) \<noteq> []) es \<and>
     distinct (map pe_port es) \<and> pe_port ` set es \<inter> declared = {}"

definition capability_ports :: "(string \<times> (plugin_capabilities \<Rightarrow> bool)) list" where
  "capability_ports =
     [(''MemoryRecordStorePort'', pl_canonical_store), (''MemoryEventStorePort'', pl_event_log),
      (''MemoryAuditStorePort'', pl_audit_log), (''MemoryOutboxStorePort'', pl_outbox_log),
      (''MemoryCandidateStorePort'', pl_candidate_lifecycle),
      (''MemoryHabitStorePort'', pl_habit_learning),
      (''MemoryRetrievalTraceStorePort'', pl_retrieval_trace)]"

definition manifest_ok :: "plugin_manifest \<Rightarrow> bool" where
  "manifest_ok m \<longleftrightarrow>
     pm_schema_version m = 1 \<and> pm_kind m = ''sdkwork.memory.plugin'' \<and>
     starts_with (pm_plugin_id m) ''sdkwork-memory-plugin-'' \<and>
     \<not> under_sdkwork_plugins (pm_plugin_id m) \<and> \<not> under_sdkwork_plugins (pm_package_name m) \<and>
     pm_port_exports m \<noteq> [] \<and> pm_deployment_modes m \<noteq> [] \<and> exports_ok {} (pm_port_exports m) \<and>
     list_all (\<lambda>s. \<not> looks_like_secret_value s) (pm_secret_refs m) \<and>
     (NativeSql \<in> set (pm_implementation_kinds m) \<longrightarrow> \<not> pl_embedding_required (pm_capabilities m)) \<and>
     list_all (\<lambda>(port, flag). flag (pm_capabilities m) \<longrightarrow> exports_port m port) capability_ports \<and>
     (pm_retriever_kinds m \<noteq> [] \<longrightarrow>
        RoleRetriever \<in> set (pm_plugin_roles m) \<and> exports_port m ''MemoryRetrieverPort'')"

lemma validate_exports_ok: "validate_exports declared es = Inr () \<longleftrightarrow> exports_ok declared es"
  by (induction declared es rule: validate_exports.induct) (auto simp: exports_ok_def)

lemma require_capability_ok:
  "require_capability_port m enabled port c = Inr () \<longleftrightarrow> (enabled \<longrightarrow> exports_port m port)"
  by (simp add: require_capability_port_def)

lemma validate_capabilities_ok:
  "validate_capabilities m = Inr () \<longleftrightarrow>
     list_all (\<lambda>(port, flag). flag (pm_capabilities m) \<longrightarrow> exports_port m port) capability_ports"
  by (simp add: validate_capabilities_def Let_def and_then_Inr require_capability_ok capability_ports_def)

lemma manifest_validate_ok: "manifest_validate m = Inr () \<longleftrightarrow> manifest_ok m"
proof -
  have retrievers: "(if pm_retriever_kinds m \<noteq> []
      then if RoleRetriever \<notin> set (pm_plugin_roles m) then Inl e1
           else if \<not> exports_port m p then Inl e2 else Inr ()
      else Inr ()) = (Inr () :: spi_error + unit) \<longleftrightarrow>
    (pm_retriever_kinds m \<noteq> [] \<longrightarrow> RoleRetriever \<in> set (pm_plugin_roles m) \<and> exports_port m p)"
    for e1 e2 p
    by simp
  have plugins: "list_ex under_sdkwork_plugins [a, b] \<longleftrightarrow> under_sdkwork_plugins a \<or> under_sdkwork_plugins b" for a b
    by simp
  have secrets: "list_ex looks_like_secret_value xs \<longleftrightarrow> \<not> list_all (\<lambda>s. \<not> looks_like_secret_value s) xs" for xs
    by (simp add: list_ex_iff list_all_iff)
  show ?thesis
    unfolding manifest_validate_def manifest_ok_def guard_Inr and_then_unit validate_exports_ok
      validate_capabilities_ok retrievers plugins secrets not_not de_Morgan_disj imp_conv_disj
    by (simp only: not_not de_Morgan_conj de_Morgan_disj conj_assoc)
qed

lemma exports_port_iff: "exports_port m port \<longleftrightarrow> (\<exists>e \<in> set (pm_port_exports m). pe_port e = port)"
  by (simp add: exports_port_def list_ex_iff)

end
