(* ===== verification/Plugin_Runtime.thy ===== *)
theory Plugin_Runtime
  imports Plugin_Manifest
begin

text \<open>
  The composition of plug-ins: the optional ports of a plug-in and the binding of one port
  into a core runtime (\<^verbatim>\<open>runtime.rs\<close>), and the plug-in registry (\<^verbatim>\<open>registry.rs\<close>). The executable
  objects behind the ports (\<^verbatim>\<open>Arc<dyn ..>\<close>) are of an arbitrary type \<^verbatim>\<open>'p\<close>. A core runtime
  records an owner for exactly the ports it holds; a registry holds valid manifests with
  distinct ids, and executables only for ports their manifest declares.
\<close>

section \<open>Ports\<close>

text \<open>One constructor per field the macro \<^verbatim>\<open>define_memory_plugin_ports!\<close> generates.\<close>

datatype runtime_port =
  RecordStore | EventStore | AuditStore | OutboxStore | CandidateStore | HabitStore
  | RetrievalTraceStore | PolicyStore | GovernanceAccess | SpaceStore | Retriever | IndexPort
  | LanguageModelPort | EmbeddingModelPort | RerankModelPort | ExternalMemoryBridge
  | ContextAssembler | Evaluation

fun port_name :: "runtime_port \<Rightarrow> string" where
  "port_name RecordStore = ''MemoryRecordStorePort''"
| "port_name EventStore = ''MemoryEventStorePort''"
| "port_name AuditStore = ''MemoryAuditStorePort''"
| "port_name OutboxStore = ''MemoryOutboxStorePort''"
| "port_name CandidateStore = ''MemoryCandidateStorePort''"
| "port_name HabitStore = ''MemoryHabitStorePort''"
| "port_name RetrievalTraceStore = ''MemoryRetrievalTraceStorePort''"
| "port_name PolicyStore = ''MemoryPolicyStorePort''"
| "port_name GovernanceAccess = ''MemoryGovernanceAccessPort''"
| "port_name SpaceStore = ''MemorySpaceStorePort''"
| "port_name Retriever = ''MemoryRetrieverPort''"
| "port_name IndexPort = ''MemoryIndexPort''"
| "port_name LanguageModelPort = ''LanguageModelPort''"
| "port_name EmbeddingModelPort = ''EmbeddingModelPort''"
| "port_name RerankModelPort = ''RerankModelPort''"
| "port_name ExternalMemoryBridge = ''ExternalMemoryBridgePort''"
| "port_name ContextAssembler = ''MemoryContextAssemblerPort''"
| "port_name Evaluation = ''MemoryEvaluationPort''"

definition all_ports :: "runtime_port list" where
  "all_ports =
     [RecordStore, EventStore, AuditStore, OutboxStore, CandidateStore, HabitStore,
      RetrievalTraceStore, PolicyStore, GovernanceAccess, SpaceStore, Retriever, IndexPort,
      LanguageModelPort, EmbeddingModelPort, RerankModelPort, ExternalMemoryBridge,
      ContextAssembler, Evaluation]"

text \<open>The arm that \<^verbatim>\<open>match port\<close> takes.\<close>

definition port_of_name :: "string \<Rightarrow> runtime_port option" where
  "port_of_name name = List.find (\<lambda>p. port_name p = name) all_ports"

type_synonym 'p plugin_ports = "runtime_port \<Rightarrow> 'p option"

definition ports_new :: "'p plugin_ports" where
  "ports_new = (\<lambda>_. None)"

definition with_port :: "runtime_port \<Rightarrow> 'p \<Rightarrow> 'p plugin_ports \<Rightarrow> 'p plugin_ports" where
  "with_port p x ports = ports(p := Some x)"

definition ports_has :: "'p plugin_ports \<Rightarrow> string \<Rightarrow> bool" where
  "ports_has ports name = (case port_of_name name of Some p \<Rightarrow> ports p \<noteq> None | None \<Rightarrow> False)"

definition port_names :: "'p plugin_ports \<Rightarrow> string list" where
  "port_names ports = map port_name (filter (\<lambda>p. ports p \<noteq> None) all_ports)"

definition supports_port_name :: "string \<Rightarrow> bool" where
  "supports_port_name name = (port_of_name name \<noteq> None)"

text \<open>
  \<^verbatim>\<open>replace\<close> has stored the new executable by the time a port that was bound already is
  reported, so the target is returned with the error.
\<close>

definition bind_port_to :: "'p plugin_ports \<Rightarrow> string \<Rightarrow> string \<Rightarrow> 'p plugin_ports \<Rightarrow>
    (spi_error + unit) \<times> 'p plugin_ports" where
  "bind_port_to source plugin_id name target =
     (case port_of_name name of
        None \<Rightarrow> (Inl (UnsupportedRuntimePort name), target)
      | Some p \<Rightarrow>
          (case source p of
             None \<Rightarrow> (Inl (ExecutablePortMissing plugin_id name), target)
           | Some executable \<Rightarrow>
               (if target p \<noteq> None then Inl (ExecutablePortAlreadyBound name) else Inr (),
                target(p := Some executable))))"

lemma all_ports_complete [simp]: "p \<in> set all_ports"
  by (cases p) (simp_all add: all_ports_def)

lemma distinct_port_names: "distinct (map port_name all_ports)"
  by (simp add: all_ports_def)

lemma port_name_inject [simp]: "port_name p = port_name q \<longleftrightarrow> p = q"
  using distinct_port_names unfolding distinct_map inj_on_def by auto

lemma port_of_name_Some [simp]: "port_of_name name = Some p \<longleftrightarrow> name = port_name p"
proof
  assume "port_of_name name = Some p"
  then show "name = port_name p"
    by (auto simp: port_of_name_def find_Some_iff)
next
  assume "name = port_name p"
  moreover have "\<exists>q. port_of_name (port_name p) = Some q"
    using all_ports_complete [of p] by (auto simp: port_of_name_def find_None_iff simp flip: not_None_eq)
  moreover have "port_of_name (port_name p) = Some q \<Longrightarrow> q = p" for q
    by (auto simp: port_of_name_def find_Some_iff)
  ultimately show "port_of_name name = Some p" by auto
qed

lemma port_of_name_port_name [simp]: "port_of_name (port_name p) = Some p"
  by simp

lemma ports_has_iff: "ports_has ports name \<longleftrightarrow> (\<exists>p. name = port_name p \<and> ports p \<noteq> None)"
  by (auto simp: ports_has_def split: option.splits)

lemma ports_has_port_name [simp]: "ports_has ports (port_name p) \<longleftrightarrow> ports p \<noteq> None"
  by (simp add: ports_has_iff)

lemma port_names_iff: "name \<in> set (port_names ports) \<longleftrightarrow> ports_has ports name"
  by (auto simp: port_names_def ports_has_iff)

section \<open>The core runtime\<close>

record profile_metadata =
  mt_profile_id :: string
  mt_implementation_kind :: implementation_kind
  mt_primary_plugin_id :: string
  mt_deployment_mode :: deployment_mode

record 'p core_runtime =
  ct_profile :: profile_metadata
  ct_port_owners :: "(string, string) bmap"
  ct_ports :: "'p plugin_ports"

definition core_runtime_new :: "profile_metadata \<Rightarrow> 'p core_runtime" where
  "core_runtime_new profile = \<lparr>ct_profile = profile, ct_port_owners = [], ct_ports = ports_new\<rparr>"

definition port_owner :: "'p core_runtime \<Rightarrow> string \<Rightarrow> string option" where
  "port_owner rt name = bm_get (ct_port_owners rt) name"

definition core_has_port :: "'p core_runtime \<Rightarrow> string \<Rightarrow> bool" where
  "core_has_port rt name = ports_has (ct_ports rt) name"

definition bind_port :: "string \<Rightarrow> string \<Rightarrow> 'p plugin_ports \<Rightarrow> 'p core_runtime \<Rightarrow>
    (spi_error + unit) \<times> 'p core_runtime" where
  "bind_port plugin_id name executable rt =
     (if bm_contains (ct_port_owners rt) name
      then (Inl (ExecutablePortAlreadyBound name), rt)
      else (case bind_port_to executable plugin_id name (ct_ports rt) of
          (Inl e, ports) \<Rightarrow> (Inl e, rt\<lparr>ct_ports := ports\<rparr>)
        | (Inr _, ports) \<Rightarrow>
            (Inr (), rt\<lparr>ct_ports := ports,
               ct_port_owners := bm_insert name plugin_id (ct_port_owners rt)\<rparr>)))"

text \<open>Owners and ports go together.\<close>

definition core_inv :: "'p core_runtime \<Rightarrow> bool" where
  "core_inv rt \<longleftrightarrow> bm_ok (ct_port_owners rt) \<and>
     (\<forall>name. bm_contains (ct_port_owners rt) name \<longleftrightarrow> core_has_port rt name)"

lemma core_inv_new: "core_inv (core_runtime_new profile)"
  by (simp add: core_inv_def core_runtime_new_def core_has_port_def ports_has_iff ports_new_def
      bm_ok_def bm_contains_def bm_get_def)

text \<open>
  Under the invariant a binding either adds one port with its owner or changes nothing, the
  latter exactly when it reports an error.
\<close>

lemma bind_port_cases:
  assumes "core_inv rt"
  shows "bind_port plugin_id name ex rt =
    (if core_has_port rt name then (Inl (ExecutablePortAlreadyBound name), rt)
     else case port_of_name name of
         None \<Rightarrow> (Inl (UnsupportedRuntimePort name), rt)
       | Some p \<Rightarrow> (case ex p of
             None \<Rightarrow> (Inl (ExecutablePortMissing plugin_id name), rt)
           | Some x \<Rightarrow> (Inr (), rt\<lparr>ct_ports := (ct_ports rt)(p := Some x),
               ct_port_owners := bm_insert name plugin_id (ct_port_owners rt)\<rparr>)))"
  using assms
  by (auto simp: bind_port_def core_inv_def bind_port_to_def core_has_port_def split: option.splits)

lemma bind_port_inv:
  assumes "core_inv rt"
  shows "core_inv (snd (bind_port plugin_id name ex rt))"
  using assms unfolding bind_port_cases [OF assms]
  by (auto simp: core_inv_def core_has_port_def ports_has_iff bm_contains_def split: option.splits)

section \<open>The registry\<close>

record 'p plugin_registry =
  pr_manifests :: "plugin_manifest list"
  pr_executable_runtimes :: "(string, 'p plugin_ports) bmap"

definition registry_empty :: "'p plugin_registry" where
  "registry_empty = \<lparr>pr_manifests = [], pr_executable_runtimes = []\<rparr>"

definition registry_get :: "'p plugin_registry \<Rightarrow> string \<Rightarrow> plugin_manifest option" where
  "registry_get reg plugin_id = List.find (\<lambda>m. pm_plugin_id m = plugin_id) (pr_manifests reg)"

definition executable_runtime :: "'p plugin_registry \<Rightarrow> string \<Rightarrow> 'p plugin_ports option" where
  "executable_runtime reg plugin_id = bm_get (pr_executable_runtimes reg) plugin_id"

definition require_executable_runtime :: "'p plugin_registry \<Rightarrow> string \<Rightarrow> spi_error + 'p plugin_ports" where
  "require_executable_runtime reg plugin_id =
     (case executable_runtime reg plugin_id of
        None \<Rightarrow> Inl (ExecutableRuntimeMissing plugin_id) | Some ex \<Rightarrow> Inr ex)"

definition has_executable_runtime :: "'p plugin_registry \<Rightarrow> string \<Rightarrow> bool" where
  "has_executable_runtime reg plugin_id = bm_contains (pr_executable_runtimes reg) plugin_id"

definition plugins_for_implementation :: "'p plugin_registry \<Rightarrow> implementation_kind \<Rightarrow> plugin_manifest list" where
  "plugins_for_implementation reg kind =
     filter (\<lambda>m. kind \<in> set (pm_implementation_kinds m)) (pr_manifests reg)"

definition registry_register :: "plugin_manifest \<Rightarrow> 'p plugin_registry \<Rightarrow> (spi_error + unit) \<times> 'p plugin_registry" where
  "registry_register m reg =
     (case manifest_validate m of
        Inl e \<Rightarrow> (Inl e, reg)
      | Inr _ \<Rightarrow>
          if list_ex (\<lambda>existing. pm_plugin_id existing = pm_plugin_id m) (pr_manifests reg)
          then (Inl (DuplicatePluginId (pm_plugin_id m)), reg)
          else (Inr (), reg\<lparr>pr_manifests := pr_manifests reg @ [m]\<rparr>))"

fun undeclared_port :: "plugin_manifest \<Rightarrow> string list \<Rightarrow> spi_error + unit" where
  "undeclared_port m [] = Inr ()"
| "undeclared_port m (port # ports) =
     (if \<not> exports_port m port then Inl (ExecutablePortUndeclared (pm_plugin_id m) port)
      else undeclared_port m ports)"

definition validate_executable_ports_are_declared :: "plugin_manifest \<Rightarrow> 'p plugin_ports \<Rightarrow> spi_error + unit" where
  "validate_executable_ports_are_declared m ex = undeclared_port m (port_names ex)"

definition register_executable :: "plugin_manifest \<Rightarrow> 'p plugin_ports \<Rightarrow> 'p plugin_registry \<Rightarrow>
    (spi_error + unit) \<times> 'p plugin_registry" where
  "register_executable m ex reg =
     (case validate_executable_ports_are_declared m ex of
        Inl e \<Rightarrow> (Inl e, reg)
      | Inr _ \<Rightarrow>
          (case registry_register m reg of
             (Inl e, reg) \<Rightarrow> (Inl e, reg)
           | (Inr _, reg) \<Rightarrow>
               (Inr (), reg\<lparr>pr_executable_runtimes :=
                  bm_insert (pm_plugin_id m) ex (pr_executable_runtimes reg)\<rparr>)))"

definition register_executable_runtime :: "string \<Rightarrow> 'p plugin_ports \<Rightarrow> 'p plugin_registry \<Rightarrow>
    (spi_error + unit) \<times> 'p plugin_registry" where
  "register_executable_runtime plugin_id ex reg =
     (case registry_get reg plugin_id of
        None \<Rightarrow> (Inl (PluginNotFound plugin_id), reg)
      | Some m \<Rightarrow>
          (case validate_executable_ports_are_declared m ex of
             Inl e \<Rightarrow> (Inl e, reg)
           | Inr _ \<Rightarrow>
               if bm_contains (pr_executable_runtimes reg) plugin_id
               then (Inl (DuplicateExecutableRuntime plugin_id), reg)
               else (Inr (), reg\<lparr>pr_executable_runtimes :=
                  bm_insert plugin_id ex (pr_executable_runtimes reg)\<rparr>)))"

fun missing_required_port :: "plugin_manifest \<Rightarrow> string \<Rightarrow> string list \<Rightarrow> spi_error + unit" where
  "missing_required_port m plugin_id [] = Inr ()"
| "missing_required_port m plugin_id (port # ports) =
     (if \<not> exports_port m port then Inl (RequiredPortMissing plugin_id port)
      else missing_required_port m plugin_id ports)"

definition validate_required_ports :: "'p plugin_registry \<Rightarrow> string \<Rightarrow> string list \<Rightarrow> spi_error + unit" where
  "validate_required_ports reg plugin_id ports =
     (case registry_get reg plugin_id of
        None \<Rightarrow> Inl (PluginNotFound plugin_id)
      | Some m \<Rightarrow> missing_required_port m plugin_id ports)"

section \<open>The invariant of a registry\<close>

definition ports_declared :: "plugin_manifest \<Rightarrow> 'p plugin_ports \<Rightarrow> bool" where
  "ports_declared m ex \<longleftrightarrow> (\<forall>p. ex p \<noteq> None \<longrightarrow> exports_port m (port_name p))"

definition registry_inv :: "'p plugin_registry \<Rightarrow> bool" where
  "registry_inv reg \<longleftrightarrow>
     list_all manifest_ok (pr_manifests reg) \<and> distinct (map pm_plugin_id (pr_manifests reg)) \<and>
     bm_ok (pr_executable_runtimes reg) \<and>
     (\<forall>i ex. executable_runtime reg i = Some ex \<longrightarrow>
        (\<exists>m. registry_get reg i = Some m \<and> ports_declared m ex))"

text \<open>Registries that arise from the empty one by registrations, failed ones included.\<close>

inductive registered :: "'p plugin_registry \<Rightarrow> bool" where
  registered_empty: "registered registry_empty"
| registered_manifest: "registered reg \<Longrightarrow> registered (snd (registry_register m reg))"
| registered_executable: "registered reg \<Longrightarrow> registered (snd (register_executable m ex reg))"
| registered_runtime: "registered reg \<Longrightarrow> registered (snd (register_executable_runtime i ex reg))"

lemma undeclared_port_ok: "undeclared_port m ports = Inr () \<longleftrightarrow> list_all (exports_port m) ports"
  by (induction ports) auto

lemma ports_declared_ok: "validate_executable_ports_are_declared m ex = Inr () \<longleftrightarrow> ports_declared m ex"
  by (auto simp: validate_executable_ports_are_declared_def undeclared_port_ok list_all_iff
      port_names_iff ports_has_iff ports_declared_def)

lemma missing_required_port_ok: "missing_required_port m i ports = Inr () \<longleftrightarrow> list_all (exports_port m) ports"
  by (induction ports) auto

lemma registry_get_Some: "registry_get reg i = Some m \<Longrightarrow> m \<in> set (pr_manifests reg) \<and> pm_plugin_id m = i"
  by (auto simp: registry_get_def find_Some_iff)

lemma registry_get_None: "registry_get reg i = None \<longleftrightarrow> (\<forall>m \<in> set (pr_manifests reg). pm_plugin_id m \<noteq> i)"
  by (auto simp: registry_get_def find_None_iff)

lemma find_append: "List.find P (xs @ ys) = (case List.find P xs of None \<Rightarrow> List.find P ys | Some x \<Rightarrow> Some x)"
  by (induction xs) auto

lemma register_outcome:
  "registry_register m reg =
    (if \<not> manifest_ok m then (Inl (projl (manifest_validate m)), reg)
     else if registry_get reg (pm_plugin_id m) \<noteq> None then (Inl (DuplicatePluginId (pm_plugin_id m)), reg)
     else (Inr (), reg\<lparr>pr_manifests := pr_manifests reg @ [m]\<rparr>))"
  unfolding registry_register_def manifest_validate_ok [symmetric]
  by (auto simp: registry_get_None list_ex_iff split: sum.split)

lemma registry_get_after:
  assumes "registry_get reg (pm_plugin_id m) = None"
  shows "registry_get (reg\<lparr>pr_manifests := pr_manifests reg @ [m]\<rparr>) i =
    (if i = pm_plugin_id m then Some m else registry_get reg i)"
  using assms by (auto simp: registry_get_def find_append split: option.splits)

lemma register_inv:
  assumes "registry_inv reg"
  shows "registry_inv (snd (registry_register m reg))"
proof (cases "manifest_ok m \<and> registry_get reg (pm_plugin_id m) = None")
  case True
  then have "\<forall>m' \<in> set (pr_manifests reg). pm_plugin_id m' \<noteq> pm_plugin_id m"
    by (simp add: registry_get_None)
  with True assms show ?thesis
    by (fastforce simp: registry_inv_def register_outcome registry_get_after executable_runtime_def)
qed (use assms in \<open>auto simp: register_outcome\<close>)

lemma insert_executable_inv:
  assumes "registry_inv reg" and "registry_get reg i = Some m" and "ports_declared m ex"
  shows "registry_inv (reg\<lparr>pr_executable_runtimes := bm_insert i ex (pr_executable_runtimes reg)\<rparr>)"
  using assms by (auto simp: registry_inv_def executable_runtime_def registry_get_def)

lemma register_executable_inv:
  assumes "registry_inv reg"
  shows "registry_inv (snd (register_executable m ex reg))"
proof (cases "ports_declared m ex \<and> manifest_ok m \<and> registry_get reg (pm_plugin_id m) = None")
  case True
  then have "validate_executable_ports_are_declared m ex = Inr ()"
    by (simp add: ports_declared_ok)
  then show ?thesis
    using True insert_executable_inv [OF register_inv [OF assms, of m], of "pm_plugin_id m" m ex]
    by (simp add: register_executable_def register_outcome registry_get_after)
next
  case False
  then show ?thesis
    using assms
    by (auto simp: register_executable_def register_outcome ports_declared_ok [symmetric] split: sum.split)
qed

lemma register_runtime_inv:
  assumes "registry_inv reg"
  shows "registry_inv (snd (register_executable_runtime i ex reg))"
proof (cases "registry_get reg i")
  case (Some m)
  then show ?thesis
    using assms insert_executable_inv [OF assms Some, of ex]
    by (auto simp: register_executable_runtime_def ports_declared_ok [symmetric] split: sum.split)
qed (use assms in \<open>simp add: register_executable_runtime_def\<close>)

lemma registry_inv_empty: "registry_inv registry_empty"
  by (simp add: registry_inv_def registry_empty_def executable_runtime_def bm_get_def bm_ok_def)

lemma registered_inv: "registered reg \<Longrightarrow> registry_inv reg"
  by (induction rule: registered.induct)
    (simp_all add: registry_inv_empty register_inv register_executable_inv register_runtime_inv)

end
