(* ===== verification/Profile_Resolver.thy ===== *)
theory Profile_Resolver
  imports Plugin_Runtime Metadata_Filter
begin

text \<open>
  The profile resolver (\<^verbatim>\<open>profile.rs\<close>): a profile draft names a primary plug-in, the ports it
  needs and explicit bindings; \<^verbatim>\<open>resolve\<close> checks it against the registry and chooses a plug-in
  for every port, \<^verbatim>\<open>assemble\<close> binds the executables. The configuration is JSON, refused when it
  holds a literal secret anywhere.
\<close>

section \<open>Data\<close>

record port_binding =
  pb_port :: string
  pb_plugin_id :: string

record 'n profile_draft =
  pd_profile_id :: string
  pd_implementation_kind :: implementation_kind
  pd_primary_plugin_id :: string
  pd_deployment_mode :: deployment_mode
  pd_port_bindings :: "port_binding list"
  pd_required_ports :: "string list"
  pd_safe_config_json :: "'n json"

record resolved_profile =
  rp_profile_id :: string
  rp_implementation_kind :: implementation_kind
  rp_primary_plugin_id :: string
  rp_deployment_mode :: deployment_mode
  rp_port_bindings :: "port_binding list"

datatype runtime_error =
    PrimaryPluginMissing string
  | ImplementationKindUnsupported string string
  | DeploymentModeUnsupported string deployment_mode
  | PortBindingNotRequired string
  | PortBindingPluginMissing string string
  | DuplicatePortBinding string
  | RuntimeRequiredPortMissing string string
  | ExecutablePluginMissing string
  | RuntimeExecutablePortMissing string string
  | UnsafeConfigSecret string
  | RuntimeSpi string

text \<open>The \<^verbatim>\<open>Display\<close> text of an SPI error.\<close>

fun spi_error_text :: "spi_error \<Rightarrow> string" where
  "spi_error_text (ManifestInvalid s) = ''memory plugin manifest is invalid: '' @ s"
| "spi_error_text (DuplicatePluginId s) = ''memory plugin id is already registered: '' @ s"
| "spi_error_text (PluginNotFound s) = ''memory plugin was not found: '' @ s"
| "spi_error_text (RequiredPortMissing i p) = ''memory plugin '' @ i @ '' is missing required port '' @ p"
| "spi_error_text (IdempotencyConflict k) = ''memory idempotency conflict for key '' @ k"
| "spi_error_text (PortOperationFailed p msg) =
     ''memory plugin port '' @ p @ '' operation failed: '' @ msg"
| "spi_error_text (ExecutableRuntimeMissing i) =
     ''memory plugin '' @ i @ '' has no executable runtime registered''"
| "spi_error_text (DuplicateExecutableRuntime s) =
     ''memory plugin executable runtime is already registered: '' @ s"
| "spi_error_text (ExecutablePortMissing i p) = ''memory plugin '' @ i @ '' has no executable port '' @ p"
| "spi_error_text (ExecutablePortAlreadyBound s) = ''memory runtime port is already bound: '' @ s"
| "spi_error_text (UnsupportedRuntimePort s) = ''memory runtime port is unsupported: '' @ s"
| "spi_error_text (ExecutablePortUndeclared i p) =
     ''memory plugin '' @ i @ '' executable runtime exports undeclared port '' @ p"

fun runtime_error_of :: "spi_error \<Rightarrow> runtime_error" where
  "runtime_error_of (RequiredPortMissing i p) = RuntimeRequiredPortMissing i p"
| "runtime_error_of (ExecutableRuntimeMissing i) = ExecutablePluginMissing i"
| "runtime_error_of (ExecutablePortMissing i p) = RuntimeExecutablePortMissing i p"
| "runtime_error_of other = RuntimeSpi (spi_error_text other)"

text \<open>\<^verbatim>\<open>format!("{:?}", kind)\<close>.\<close>

fun implementation_kind_debug :: "implementation_kind \<Rightarrow> string" where
  "implementation_kind_debug NativeSql = ''NativeSql''"
| "implementation_kind_debug EventSourced = ''EventSourced''"
| "implementation_kind_debug SearchFirst = ''SearchFirst''"
| "implementation_kind_debug GraphTemporal = ''GraphTemporal''"
| "implementation_kind_debug LocalEmbedded = ''LocalEmbedded''"
| "implementation_kind_debug ExternalProviderBridge = ''ExternalProviderBridge''"
| "implementation_kind_debug HybridPlatform = ''HybridPlatform''"

section \<open>Profiles\<close>

definition learning_and_trace_ports :: "string list" where
  "learning_and_trace_ports =
     [''MemoryCandidateStorePort'', ''MemoryHabitStorePort'', ''MemoryRetrievalTraceStorePort'']"

definition native_sql_store_ports :: "string list" where
  "native_sql_store_ports =
     [''MemoryRecordStorePort'', ''MemoryEventStorePort'', ''MemoryAuditStorePort'',
      ''MemoryOutboxStorePort'', ''MemoryCandidateStorePort'', ''MemoryHabitStorePort'',
      ''MemoryRetrievalTraceStorePort'', ''MemoryGovernanceAccessPort'', ''MemorySpaceStorePort'',
      ''MemoryRetrieverPort'']"

definition push_missing :: "string list \<Rightarrow> string \<Rightarrow> string list" where
  "push_missing ports port = (if port \<in> set ports then ports else ports @ [port])"

definition reference_profile :: "string \<Rightarrow> implementation_kind \<Rightarrow> string list \<Rightarrow> 'n profile_draft" where
  "reference_profile profile_id kind required =
     \<lparr>pd_profile_id = profile_id, pd_implementation_kind = kind,
      pd_primary_plugin_id = ''sdkwork-memory-plugin-reference-profiles'',
      pd_deployment_mode = EvalOnly, pd_port_bindings = [],
      pd_required_ports = foldl push_missing required learning_and_trace_ports,
      pd_safe_config_json = JObject []\<rparr>"

definition native_sql_phase1 :: "'n profile_draft" where
  "native_sql_phase1 =
     \<lparr>pd_profile_id = ''native-sql-phase1'', pd_implementation_kind = NativeSql,
      pd_primary_plugin_id = ''sdkwork-memory-plugin-native-sql'', pd_deployment_mode = Server,
      pd_port_bindings = [], pd_required_ports = native_sql_store_ports,
      pd_safe_config_json = JObject []\<rparr>"

definition local_embedded_phase1 :: "'n profile_draft" where
  "local_embedded_phase1 =
     \<lparr>pd_profile_id = ''local-embedded-phase1'', pd_implementation_kind = LocalEmbedded,
      pd_primary_plugin_id = ''sdkwork-memory-plugin-native-sql'', pd_deployment_mode = Local,
      pd_port_bindings = [], pd_required_ports = native_sql_store_ports,
      pd_safe_config_json = JObject []\<rparr>"

definition event_sourced_phase1 :: "'n profile_draft" where
  "event_sourced_phase1 = reference_profile ''event-sourced-phase1'' EventSourced
     [''MemoryEventStorePort'', ''MemoryRecordStorePort'', ''MemoryAuditStorePort'', ''MemoryOutboxStorePort'']"

definition search_first_phase1 :: "'n profile_draft" where
  "search_first_phase1 = reference_profile ''search-first-phase1'' SearchFirst
     [''MemoryRecordStorePort'', ''MemoryRetrieverPort'', ''MemoryAuditStorePort'']"

definition graph_temporal_phase1 :: "'n profile_draft" where
  "graph_temporal_phase1 = reference_profile ''graph-temporal-phase1'' GraphTemporal
     [''MemoryRecordStorePort'', ''MemoryRetrieverPort'', ''MemoryIndexPort'', ''MemoryContextAssemblerPort'']"

definition external_provider_bridge_eval :: "'n profile_draft" where
  "external_provider_bridge_eval = reference_profile ''external-provider-bridge-eval'' ExternalProviderBridge
     [''ExternalMemoryBridgePort'', ''MemoryAuditStorePort'', ''MemoryOutboxStorePort'']"

definition hybrid_platform_phase1 :: "'n profile_draft" where
  "hybrid_platform_phase1 = reference_profile ''hybrid-platform-phase1'' HybridPlatform
     [''MemoryRecordStorePort'', ''MemoryEventStorePort'', ''MemoryAuditStorePort'',
      ''MemoryOutboxStorePort'', ''MemoryRetrieverPort'', ''MemoryIndexPort'',
      ''ExternalMemoryBridgePort'', ''MemoryContextAssemblerPort'', ''MemoryEvaluationPort'']"

definition phase1_family_baselines :: "'n profile_draft list" where
  "phase1_family_baselines = [native_sql_phase1, local_embedded_phase1, search_first_phase1]"

definition unqualified_evaluation_drafts :: "'n profile_draft list" where
  "unqualified_evaluation_drafts =
     [event_sourced_phase1, graph_temporal_phase1, external_provider_bridge_eval, hybrid_platform_phase1]"

definition with_port_binding :: "string \<Rightarrow> string \<Rightarrow> 'n profile_draft \<Rightarrow> 'n profile_draft" where
  "with_port_binding port plugin_id draft =
     draft\<lparr>pd_port_bindings := pd_port_bindings draft @ [\<lparr>pb_port = port, pb_plugin_id = plugin_id\<rparr>]\<rparr>"

section \<open>Literal secrets\<close>

definition looks_like_secret_key :: "string \<Rightarrow> bool" where
  "looks_like_secret_key value =
     (let lower = ascii_lower value
      in contains_text lower ''token'' \<or> contains_text lower ''password'' \<or>
         contains_text lower ''api_key'' \<or> contains_text lower ''private_key'' \<or>
         contains_text lower ''secret'')"

fun is_string :: "'n json \<Rightarrow> bool" where
  "is_string (JString s) = True"
| "is_string v = False"

definition index_path :: "string \<Rightarrow> nat \<Rightarrow> string" where
  "index_path path i = path @ ''['' @ nat_text i @ '']''"

definition key_path :: "string \<Rightarrow> string \<Rightarrow> string" where
  "key_path path key = path @ ''.'' @ key"

fun reject_literal_secrets_at :: "string \<Rightarrow> 'n json \<Rightarrow> runtime_error + unit"
  and reject_items :: "string \<Rightarrow> nat \<Rightarrow> 'n json list \<Rightarrow> runtime_error + unit"
  and reject_entries :: "string \<Rightarrow> (string \<times> 'n json) list \<Rightarrow> runtime_error + unit" where
  "reject_literal_secrets_at path (JString text) =
     (if looks_like_secret_value text then Inl (UnsafeConfigSecret path) else Inr ())"
| "reject_literal_secrets_at path (JArray items) = reject_items path 0 items"
| "reject_literal_secrets_at path (JObject entries) = reject_entries path entries"
| "reject_literal_secrets_at path JNull = Inr ()"
| "reject_literal_secrets_at path (JBool b) = Inr ()"
| "reject_literal_secrets_at path (JNumber n) = Inr ()"
| "reject_items path i [] = Inr ()"
| "reject_items path i (v # vs) =
     and_then (reject_literal_secrets_at (index_path path i) v) (\<lambda>_. reject_items path (i + 1) vs)"
| "reject_entries path [] = Inr ()"
| "reject_entries path ((key, v) # rest) =
     (if looks_like_secret_key key \<and> is_string v then Inl (UnsafeConfigSecret (key_path path key))
      else and_then (reject_literal_secrets_at (key_path path key) v) (\<lambda>_. reject_entries path rest))"

definition reject_literal_secrets :: "'n json \<Rightarrow> runtime_error + unit" where
  "reject_literal_secrets v = reject_literal_secrets_at ''$'' v"

section \<open>Resolution\<close>

fun collect_bindings :: "string list \<Rightarrow> port_binding list \<Rightarrow> (string \<rightharpoonup> string) \<Rightarrow>
    runtime_error + (string \<rightharpoonup> string)" where
  "collect_bindings required [] explicit = Inr explicit"
| "collect_bindings required (b # bs) explicit =
     (if pb_port b \<notin> set required then Inl (PortBindingNotRequired (pb_port b))
      else if explicit (pb_port b) \<noteq> None then Inl (DuplicatePortBinding (pb_port b))
      else collect_bindings required bs (explicit(pb_port b \<mapsto> pb_plugin_id b)))"

definition chosen_plugin :: "'n profile_draft \<Rightarrow> (string \<rightharpoonup> string) \<Rightarrow> string \<Rightarrow> string" where
  "chosen_plugin profile explicit port =
     (case explicit port of Some i \<Rightarrow> i | None \<Rightarrow> pd_primary_plugin_id profile)"

definition resolve_port :: "'p plugin_registry \<Rightarrow> 'n profile_draft \<Rightarrow> (string \<rightharpoonup> string) \<Rightarrow> string \<Rightarrow>
    runtime_error + port_binding" where
  "resolve_port reg profile explicit port =
     (let plugin_id = chosen_plugin profile explicit port
      in case registry_get reg plugin_id of
           None \<Rightarrow>
             Inl (if plugin_id = pd_primary_plugin_id profile then PrimaryPluginMissing plugin_id
                  else PortBindingPluginMissing port plugin_id)
         | Some m \<Rightarrow>
             if pd_deployment_mode profile \<notin> set (pm_deployment_modes m)
             then Inl (DeploymentModeUnsupported plugin_id (pd_deployment_mode profile))
             else if \<not> exports_port m port then Inl (RuntimeRequiredPortMissing plugin_id port)
             else Inr \<lparr>pb_port = port, pb_plugin_id = plugin_id\<rparr>)"

definition profile_resolve :: "'p plugin_registry \<Rightarrow> 'n profile_draft \<Rightarrow> runtime_error + resolved_profile" where
  "profile_resolve reg profile =
     (case registry_get reg (pd_primary_plugin_id profile) of
        None \<Rightarrow> Inl (PrimaryPluginMissing (pd_primary_plugin_id profile))
      | Some m \<Rightarrow>
          if pd_implementation_kind profile \<notin> set (pm_implementation_kinds m)
          then Inl (ImplementationKindUnsupported (pd_primary_plugin_id profile)
                 (implementation_kind_debug (pd_implementation_kind profile)))
          else if pd_deployment_mode profile \<notin> set (pm_deployment_modes m)
          then Inl (DeploymentModeUnsupported (pd_primary_plugin_id profile) (pd_deployment_mode profile))
          else and_then (reject_literal_secrets (pd_safe_config_json profile)) (\<lambda>_.
               and_then (collect_bindings (pd_required_ports profile) (pd_port_bindings profile) Map.empty) (\<lambda>explicit.
               and_then (collect_results (resolve_port reg profile explicit) (pd_required_ports profile)) (\<lambda>bindings.
               Inr \<lparr>rp_profile_id = pd_profile_id profile,
                    rp_implementation_kind = pd_implementation_kind profile,
                    rp_primary_plugin_id = pd_primary_plugin_id profile,
                    rp_deployment_mode = pd_deployment_mode profile,
                    rp_port_bindings = bindings\<rparr>))))"

section \<open>Assembly\<close>

definition bind_one :: "'p plugin_registry \<Rightarrow> port_binding \<Rightarrow> 'p core_runtime \<Rightarrow> runtime_error + 'p core_runtime" where
  "bind_one reg b rt =
     (case require_executable_runtime reg (pb_plugin_id b) of
        Inl e \<Rightarrow> Inl (runtime_error_of e)
      | Inr ex \<Rightarrow>
          (case bind_port (pb_plugin_id b) (pb_port b) ex rt of
             (Inl e, _) \<Rightarrow> Inl (runtime_error_of e)
           | (Inr _, rt) \<Rightarrow> Inr rt))"

fun bind_all :: "'p plugin_registry \<Rightarrow> port_binding list \<Rightarrow> 'p core_runtime \<Rightarrow> runtime_error + 'p core_runtime" where
  "bind_all reg [] rt = Inr rt"
| "bind_all reg (b # bs) rt = and_then (bind_one reg b rt) (bind_all reg bs)"

definition resolved_metadata :: "resolved_profile \<Rightarrow> profile_metadata" where
  "resolved_metadata p =
     \<lparr>mt_profile_id = rp_profile_id p, mt_implementation_kind = rp_implementation_kind p,
      mt_primary_plugin_id = rp_primary_plugin_id p, mt_deployment_mode = rp_deployment_mode p\<rparr>"

definition profile_assemble :: "'p plugin_registry \<Rightarrow> resolved_profile \<Rightarrow> runtime_error + 'p core_runtime" where
  "profile_assemble reg p = bind_all reg (rp_port_bindings p) (core_runtime_new (resolved_metadata p))"

definition resolve_executable :: "'p plugin_registry \<Rightarrow> 'n profile_draft \<Rightarrow> runtime_error + 'p core_runtime" where
  "resolve_executable reg profile = and_then (profile_resolve reg profile) (profile_assemble reg)"

end
