(* ===== verification/Profile_Laws.thy ===== *)
theory Profile_Laws
  imports Profile_Resolver
begin

text \<open>
  What the resolver accepts and what it builds, as conditions on the draft and the registry
  in place of the order of the checks: a configuration without literal secrets, bindings
  for required ports only and at most one each, and for every port a registered plug-in
  that supports the mode and declares the port; then executables for all of them.
\<close>

section \<open>Secrets\<close>

text \<open>All values inside a JSON value, itself included.\<close>

fun json_nodes :: "'n json \<Rightarrow> 'n json list"
  and item_nodes :: "'n json list \<Rightarrow> 'n json list"
  and entry_nodes :: "(string \<times> 'n json) list \<Rightarrow> 'n json list" where
  "json_nodes (JArray xs) = JArray xs # item_nodes xs"
| "json_nodes (JObject ps) = JObject ps # entry_nodes ps"
| "json_nodes (JString s) = [JString s]"
| "json_nodes JNull = [JNull]"
| "json_nodes (JBool b) = [JBool b]"
| "json_nodes (JNumber n) = [JNumber n]"
| "item_nodes [] = []"
| "item_nodes (v # vs) = json_nodes v @ item_nodes vs"
| "entry_nodes [] = []"
| "entry_nodes ((k, v) # ps) = json_nodes v @ entry_nodes ps"

definition node_secret_free :: "'n json \<Rightarrow> bool" where
  "node_secret_free v \<longleftrightarrow>
     (case v of
        JString s \<Rightarrow> \<not> looks_like_secret_value s
      | JObject ps \<Rightarrow> list_all (\<lambda>(k, w). \<not> (looks_like_secret_key k \<and> is_string w)) ps
      | _ \<Rightarrow> True)"

definition secret_free :: "'n json \<Rightarrow> bool" where
  "secret_free v \<longleftrightarrow> list_all node_secret_free (json_nodes v)"

lemma node_secret_free_simps [simp]:
  "node_secret_free (JString s) \<longleftrightarrow> \<not> looks_like_secret_value s"
  "node_secret_free (JObject ps) \<longleftrightarrow> list_all (\<lambda>(k, w). \<not> (looks_like_secret_key k \<and> is_string w)) ps"
  "node_secret_free (JArray xs)" "node_secret_free JNull" "node_secret_free (JBool b)"
  "node_secret_free (JNumber n)"
  by (simp_all add: node_secret_free_def)

lemma reject_ok:
  fixes v :: "'n json" and vs :: "'n json list" and ps :: "(string \<times> 'n json) list"
  shows "reject_literal_secrets_at path v = Inr () \<longleftrightarrow> list_all node_secret_free (json_nodes v)"
  "reject_items path i vs = Inr () \<longleftrightarrow> list_all node_secret_free (item_nodes vs)"
  "reject_entries path ps = Inr () \<longleftrightarrow>
     list_all (\<lambda>(k, w). \<not> (looks_like_secret_key k \<and> is_string w)) ps \<and>
     list_all node_secret_free (entry_nodes ps)"
  by (induction path v and path i vs and path ps
        rule: reject_literal_secrets_at_reject_items_reject_entries.induct)
    (auto simp: and_then_unit)

lemma reject_literal_secrets_ok: "reject_literal_secrets v = Inr () \<longleftrightarrow> secret_free v"
  by (simp add: reject_literal_secrets_def secret_free_def reject_ok)

lemma secret_free_JObject_Nil [simp]: "secret_free (JObject [])"
  by (simp add: secret_free_def)

section \<open>Resolution\<close>

definition binding_map :: "port_binding list \<Rightarrow> string \<rightharpoonup> string" where
  "binding_map bs = map_of (map (\<lambda>b. (pb_port b, pb_plugin_id b)) bs)"

lemma binding_map_Nil [simp]: "binding_map [] = Map.empty"
  by (simp add: binding_map_def)

lemma binding_map_Cons [simp]: "binding_map (b # bs) = (binding_map bs)(pb_port b \<mapsto> pb_plugin_id b)"
  by (simp add: binding_map_def)

lemma binding_map_None: "binding_map bs x = None \<longleftrightarrow> x \<notin> pb_port ` set bs"
  by (simp add: binding_map_def map_of_eq_None_iff image_image)

lemma binding_map_get: "distinct (map pb_port bs) \<Longrightarrow> b \<in> set bs \<Longrightarrow> binding_map bs (pb_port b) = Some (pb_plugin_id b)"
  unfolding binding_map_def by (rule map_of_is_SomeI) (auto simp: comp_def)

lemma collect_bindings_ok:
  "collect_bindings required bs explicit = Inr e \<longleftrightarrow>
     list_all (\<lambda>b. pb_port b \<in> set required \<and> explicit (pb_port b) = None) bs \<and>
     distinct (map pb_port bs) \<and> e = explicit ++ binding_map bs"
proof (induction bs arbitrary: explicit)
  case (Cons b bs)
  have moved: "explicit(pb_port b \<mapsto> pb_plugin_id b) ++ binding_map bs =
      explicit ++ (binding_map bs)(pb_port b \<mapsto> pb_plugin_id b)"
    if "pb_port b \<notin> pb_port ` set bs"
  proof -
    have "binding_map bs (pb_port b) = None"
      using that by (simp only: binding_map_None simp_thms)
    then show ?thesis
      by (auto simp: fun_eq_iff map_add_def split: option.splits)
  qed
  show ?case
  proof (cases "pb_port b \<in> pb_port ` set bs")
    case True
    then obtain a where "a \<in> set bs" and "pb_port a = pb_port b" by auto
    then show ?thesis
      using True by (auto simp: Cons.IH list_all_iff)
  next
    case False
    then have "\<forall>a \<in> set bs. pb_port a \<noteq> pb_port b" by (metis image_eqI)
    then show ?thesis
      using False by (auto simp: Cons.IH moved [OF False] list_all_iff fun_upd_other simp del: fun_upd_apply)
  qed
qed auto

definition chosen :: "'n profile_draft \<Rightarrow> string \<Rightarrow> string" where
  "chosen profile port = chosen_plugin profile (binding_map (pd_port_bindings profile)) port"

definition port_available :: "'p plugin_registry \<Rightarrow> deployment_mode \<Rightarrow> string \<Rightarrow> string \<Rightarrow> bool" where
  "port_available reg mode plugin_id port \<longleftrightarrow>
     (\<exists>m. registry_get reg plugin_id = Some m \<and> mode \<in> set (pm_deployment_modes m) \<and> exports_port m port)"

definition profile_ok :: "'p plugin_registry \<Rightarrow> 'n profile_draft \<Rightarrow> bool" where
  "profile_ok reg profile \<longleftrightarrow>
     (\<exists>m. registry_get reg (pd_primary_plugin_id profile) = Some m \<and>
        pd_implementation_kind profile \<in> set (pm_implementation_kinds m) \<and>
        pd_deployment_mode profile \<in> set (pm_deployment_modes m)) \<and>
     secret_free (pd_safe_config_json profile) \<and>
     pb_port ` set (pd_port_bindings profile) \<subseteq> set (pd_required_ports profile) \<and>
     distinct (map pb_port (pd_port_bindings profile)) \<and>
     list_all (\<lambda>port. port_available reg (pd_deployment_mode profile) (chosen profile port) port)
       (pd_required_ports profile)"

definition resolution :: "'n profile_draft \<Rightarrow> resolved_profile" where
  "resolution profile =
     \<lparr>rp_profile_id = pd_profile_id profile, rp_implementation_kind = pd_implementation_kind profile,
      rp_primary_plugin_id = pd_primary_plugin_id profile,
      rp_deployment_mode = pd_deployment_mode profile,
      rp_port_bindings = map (\<lambda>port. \<lparr>pb_port = port, pb_plugin_id = chosen profile port\<rparr>)
        (pd_required_ports profile)\<rparr>"

lemma resolve_port_ok:
  "resolve_port reg profile explicit port = Inr b \<longleftrightarrow>
     port_available reg (pd_deployment_mode profile) (chosen_plugin profile explicit port) port \<and>
     b = \<lparr>pb_port = port, pb_plugin_id = chosen_plugin profile explicit port\<rparr>"
  by (auto simp: resolve_port_def Let_def port_available_def split: option.splits)

lemma collect_results_map:
  assumes "\<And>x y. f x = Inr y \<longleftrightarrow> P x \<and> y = g x"
  shows "collect_results f xs = Inr ys \<longleftrightarrow> list_all P xs \<and> ys = map g xs"
proof (induction xs arbitrary: ys)
  case (Cons x xs)
  show ?case by (auto simp: and_then_Inr assms Cons.IH)
qed auto

lemma resolve_ports_ok:
  "collect_results (resolve_port reg profile explicit) ports = Inr bs \<longleftrightarrow>
     list_all (\<lambda>port. port_available reg (pd_deployment_mode profile)
       (chosen_plugin profile explicit port) port) ports \<and>
     bs = map (\<lambda>port. \<lparr>pb_port = port, pb_plugin_id = chosen_plugin profile explicit port\<rparr>) ports"
  by (rule collect_results_map [OF resolve_port_ok])

lemma profile_resolve_ok: "profile_resolve reg profile = Inr r \<longleftrightarrow> profile_ok reg profile \<and> r = resolution profile"
proof -
  have bindings: "collect_bindings (pd_required_ports profile) (pd_port_bindings profile) Map.empty = Inr e \<longleftrightarrow>
      pb_port ` set (pd_port_bindings profile) \<subseteq> set (pd_required_ports profile) \<and>
      distinct (map pb_port (pd_port_bindings profile)) \<and> e = binding_map (pd_port_bindings profile)" for e
    by (auto simp: collect_bindings_ok list_all_iff)
  show ?thesis
  proof (cases "registry_get reg (pd_primary_plugin_id profile)")
    case None
    then show ?thesis by (simp add: profile_resolve_def profile_ok_def)
  next
    case (Some m)
    show ?thesis
      unfolding profile_resolve_def Some option.case guard_Inr and_then_unit and_then_Inr
        reject_literal_secrets_ok bindings resolve_ports_ok profile_ok_def resolution_def chosen_def
      by (simp add: Some) blast
  qed
qed

section \<open>Assembly\<close>

definition executable_available :: "'p plugin_registry \<Rightarrow> port_binding \<Rightarrow> bool" where
  "executable_available reg b \<longleftrightarrow>
     (\<exists>ex p. executable_runtime reg (pb_plugin_id b) = Some ex \<and> pb_port b = port_name p \<and> ex p \<noteq> None)"

text \<open>The port that a list of bindings adds to a runtime.\<close>

definition bound_port :: "'p plugin_registry \<Rightarrow> (string \<rightharpoonup> string) \<Rightarrow> runtime_port \<Rightarrow> 'p option" where
  "bound_port reg owners p =
     Option.bind (owners (port_name p)) (\<lambda>i. Option.bind (executable_runtime reg i) (\<lambda>ex. ex p))"

lemma bind_one_ok:
  assumes "core_inv rt"
  shows "bind_one reg b rt = Inr rt' \<longleftrightarrow>
    \<not> core_has_port rt (pb_port b) \<and>
    (\<exists>ex p x. executable_runtime reg (pb_plugin_id b) = Some ex \<and> pb_port b = port_name p \<and>
       ex p = Some x \<and>
       rt' = rt\<lparr>ct_ports := (ct_ports rt)(p := Some x),
         ct_port_owners := bm_insert (pb_port b) (pb_plugin_id b) (ct_port_owners rt)\<rparr>)"
  by (auto simp: bind_one_def require_executable_runtime_def bind_port_cases [OF assms]
      split: option.splits)

lemma bind_one_inv: "core_inv rt \<Longrightarrow> bind_one reg b rt = Inr rt' \<Longrightarrow> core_inv rt'"
  using bind_port_inv [of rt "pb_plugin_id b" "pb_port b"]
  by (auto simp: bind_one_def require_executable_runtime_def split: option.splits prod.splits sum.splits)
    (metis snd_conv)

lemma bind_all_result:
  assumes "core_inv rt" and "bind_all reg bs rt = Inr rt'"
  shows "core_inv rt' \<and> ct_profile rt' = ct_profile rt \<and> distinct (map pb_port bs) \<and>
    list_all (\<lambda>b. \<not> core_has_port rt (pb_port b) \<and> executable_available reg b) bs \<and>
    (\<forall>name. port_owner rt' name =
       (case binding_map bs name of None \<Rightarrow> port_owner rt name | Some i \<Rightarrow> Some i)) \<and>
    (\<forall>p. ct_ports rt' p =
       (case binding_map bs (port_name p) of None \<Rightarrow> ct_ports rt p
        | Some i \<Rightarrow> bound_port reg (binding_map bs) p))"
  using assms
proof (induction bs arbitrary: rt)
  case (Cons b bs)
  obtain rt1 where one: "bind_one reg b rt = Inr rt1" and rest: "bind_all reg bs rt1 = Inr rt'"
    using Cons.prems(2) by (auto simp: and_then_Inr)
  from one [unfolded bind_one_ok [OF Cons.prems(1)]] obtain ex p x where
    free: "\<not> core_has_port rt (pb_port b)" and ex: "executable_runtime reg (pb_plugin_id b) = Some ex" and
    p: "pb_port b = port_name p" and x: "ex p = Some x" and
    rt1: "rt1 = rt\<lparr>ct_ports := (ct_ports rt)(p := Some x),
         ct_port_owners := bm_insert (pb_port b) (pb_plugin_id b) (ct_port_owners rt)\<rparr>"
    by blast
  note IH = Cons.IH [OF bind_one_inv [OF Cons.prems(1) one] rest]
  have has1: "core_has_port rt1 name \<longleftrightarrow> name = pb_port b \<or> core_has_port rt name" for name
    by (auto simp: rt1 core_has_port_def ports_has_iff p)
  have fresh: "pb_port b \<notin> pb_port ` set bs"
    using IH by (auto simp: has1 list_all_iff)
  have avail: "executable_available reg b"
    unfolding executable_available_def using ex p x by blast
  have owners: "port_owner rt' name =
      (case binding_map (b # bs) name of None \<Rightarrow> port_owner rt name | Some i \<Rightarrow> Some i)" for name
    using IH fresh by (auto simp: rt1 port_owner_def binding_map_None split: option.splits)
  have ports: "ct_ports rt' q =
      (case binding_map (b # bs) (port_name q) of None \<Rightarrow> ct_ports rt q
       | Some i \<Rightarrow> bound_port reg (binding_map (b # bs)) q)" for q
  proof (cases "q = p")
    case True
    then show ?thesis
      using IH fresh x ex by (simp add: rt1 p bound_port_def binding_map_None [THEN iffD2])
  next
    case False
    then show ?thesis
      using IH by (auto simp: rt1 p bound_port_def split: option.splits)
  qed
  have "list_all (\<lambda>b. \<not> core_has_port rt (pb_port b) \<and> executable_available reg b) (b # bs)"
    using IH free avail by (simp add: has1 list_all_iff)
  moreover have "ct_profile rt1 = ct_profile rt"
    by (simp add: rt1)
  ultimately show ?case
    using IH fresh owners ports by simp
qed auto

lemma bind_all_succeeds:
  assumes "core_inv rt" and "distinct (map pb_port bs)"
    and "list_all (\<lambda>b. \<not> core_has_port rt (pb_port b) \<and> executable_available reg b) bs"
  shows "\<exists>rt'. bind_all reg bs rt = Inr rt'"
  using assms
proof (induction bs arbitrary: rt)
  case (Cons b bs)
  from Cons.prems(3) obtain ex p x where
    b: "\<not> core_has_port rt (pb_port b)" "executable_runtime reg (pb_plugin_id b) = Some ex"
      "pb_port b = port_name p" "ex p = Some x"
    by (auto simp: executable_available_def)
  define rt1 where "rt1 = rt\<lparr>ct_ports := (ct_ports rt)(p := Some x),
         ct_port_owners := bm_insert (pb_port b) (pb_plugin_id b) (ct_port_owners rt)\<rparr>"
  have one: "bind_one reg b rt = Inr rt1"
    unfolding bind_one_ok [OF Cons.prems(1)] rt1_def using b by blast
  have has1: "core_has_port rt1 name \<longleftrightarrow> name = pb_port b \<or> core_has_port rt name" for name
    by (auto simp: rt1_def core_has_port_def ports_has_iff b(3))
  have "pb_port a \<noteq> pb_port b" if "a \<in> set bs" for a
    using Cons.prems(2) that by (metis distinct.simps(2) image_eqI list.map(2) set_map)
  then have "\<exists>rt'. bind_all reg bs rt1 = Inr rt'"
    using Cons.prems by (intro Cons.IH bind_one_inv [OF Cons.prems(1) one]) (auto simp: list_all_iff has1)
  then show ?case by (simp add: one)
qed simp

end
