(* ===== verification/Data_Plane.thy ===== *)
theory Data_Plane
  imports Service_Types Profile_Laws Reference_Records Reference_Journals Reference_Candidates
    Reference_Learning Reference_Governance Reference_Retrieval
begin

text \<open>
  \<^verbatim>\<open>MemoryRuntimeDataPlane\<close>: the service's facade over the ports of an assembled runtime. It
  admits a runtime for the HTTP service only with the ten phase-1 ports and their required
  capabilities, dispatches each call to the port the runtime holds, and masks port errors.
  The ports are those of the reference runtime, which is one object behind all of them.
\<close>

section \<open>Admission\<close>

datatype port_capability =
  CanonicalAtomic | AtomicRecordQuotaAdmission | AtomicSupersede | AtomicCandidatePromotion
  | CandidateDetailLookup | CandidateListing | AtomicCandidatePromotionJournal
  | BoundedScopedSearch | TenantTraceLookup | BoundedGovernanceAccess
  | AtomicUserSpaceQuotaAdmission

datatype plane_error = MissingRequiredPort string string | RequiredCapabilityMissing string string

definition phase1_http_data_plane_ports :: "string list" where
  "phase1_http_data_plane_ports =
     [''MemoryRecordStorePort'', ''MemoryEventStorePort'', ''MemoryAuditStorePort'',
      ''MemoryOutboxStorePort'', ''MemoryCandidateStorePort'', ''MemoryHabitStorePort'',
      ''MemoryRetrievalTraceStorePort'', ''MemoryGovernanceAccessPort'', ''MemorySpaceStorePort'',
      ''MemoryRetrieverPort'']"

definition phase1_capabilities :: "(runtime_port \<times> port_capability \<times> string) list" where
  "phase1_capabilities =
     [(RecordStore, CanonicalAtomic, ''canonical_memory_atomic_mutation''),
      (RecordStore, AtomicRecordQuotaAdmission, ''canonical_memory_atomic_quota_admission''),
      (RecordStore, AtomicSupersede, ''atomic_canonical_supersede''),
      (CandidateStore, AtomicCandidatePromotion, ''atomic_candidate_promotion''),
      (CandidateStore, CandidateDetailLookup, ''tenant_scoped_candidate_detail_lookup''),
      (CandidateStore, CandidateListing, ''tenant_scoped_candidate_listing''),
      (CandidateStore, AtomicCandidatePromotionJournal, ''atomic_candidate_promotion_journal''),
      (Retriever, BoundedScopedSearch, ''bounded_scope_aware_retrieval''),
      (RetrievalTraceStore, TenantTraceLookup, ''tenant_scoped_retrieval_trace_lookup''),
      (GovernanceAccess, BoundedGovernanceAccess, ''bounded_tenant_scoped_governance_access''),
      (SpaceStore, AtomicUserSpaceQuotaAdmission, ''atomic_user_space_quota_admission'')]"

fun missing_phase1_port :: "'p core_runtime \<Rightarrow> string list \<Rightarrow> plane_error + unit" where
  "missing_phase1_port core [] = Inr ()"
| "missing_phase1_port core (port # ports) =
     (if \<not> core_has_port core port
      then Inl (MissingRequiredPort (mt_profile_id (ct_profile core)) port)
      else missing_phase1_port core ports)"

text \<open>
  The capability checks take each port with \<^verbatim>\<open>expect\<close>: \<^term>\<open>None\<close> is the panic of an absent
  port. \<^verbatim>\<open>supports\<close> stands for the \<^verbatim>\<open>supports_..\<close> methods of the executable.
\<close>

fun missing_capability :: "('p \<Rightarrow> port_capability \<Rightarrow> bool) \<Rightarrow> 'p core_runtime \<Rightarrow>
    (runtime_port \<times> port_capability \<times> string) list \<Rightarrow> (plane_error + unit) option" where
  "missing_capability supports core [] = Some (Inr ())"
| "missing_capability supports core ((port, cap, name) # rest) =
     (case ct_ports core port of
        None \<Rightarrow> None
      | Some x \<Rightarrow>
          if \<not> supports x cap
          then Some (Inl (RequiredCapabilityMissing (mt_profile_id (ct_profile core)) name))
          else missing_capability supports core rest)"

definition try_for_phase1_http :: "('p \<Rightarrow> port_capability \<Rightarrow> bool) \<Rightarrow> 'p core_runtime \<Rightarrow>
    (plane_error + 'p core_runtime) option" where
  "try_for_phase1_http supports core =
     (case missing_phase1_port core phase1_http_data_plane_ports of
        Inl e \<Rightarrow> Some (Inl e)
      | Inr _ \<Rightarrow> map_option (\<lambda>r. and_then r (\<lambda>_. Inr core))
          (missing_capability supports core phase1_capabilities))"

text \<open>The reference runtime overrides every capability flag with \<^verbatim>\<open>true\<close>.\<close>

definition reference_supports :: "'p \<Rightarrow> port_capability \<Rightarrow> bool" where
  "reference_supports x cap = True"

text \<open>The ports \<^verbatim>\<open>build_reference_executable_runtime\<close> exports, all the same object.\<close>

definition reference_executable_ports :: "'p \<Rightarrow> 'p plugin_ports" where
  "reference_executable_ports runtime =
     with_port ContextAssembler runtime (with_port Retriever runtime
     (with_port SpaceStore runtime (with_port GovernanceAccess runtime
     (with_port RetrievalTraceStore runtime (with_port HabitStore runtime
     (with_port CandidateStore runtime (with_port OutboxStore runtime
     (with_port AuditStore runtime (with_port EventStore runtime
     (with_port RecordStore runtime ports_new))))))))))"

section \<open>Dispatch\<close>

type_synonym 'a plane_op = "(reference_runtime, 'a) service_op"

definition missing_runtime_port :: "'p core_runtime \<Rightarrow> string \<Rightarrow> service_error" where
  "missing_runtime_port core port =
     map_memory_spi_error (ExecutablePortMissing (mt_primary_plugin_id (ct_profile core)) port)"

definition require_port :: "'p core_runtime \<Rightarrow> runtime_port \<Rightarrow> service_error + 'p" where
  "require_port core port =
     (case ct_ports core port of
        None \<Rightarrow> Inl (missing_runtime_port core (port_name port)) | Some x \<Rightarrow> Inr x)"

definition dispatch :: "'p core_runtime \<Rightarrow> runtime_port \<Rightarrow> 'a rt_op \<Rightarrow> 'a plane_op" where
  "dispatch core port call rt =
     (case require_port core port of
        Inl e \<Rightarrow> (Inl e, rt)
      | Inr _ \<Rightarrow> map_prod (map_sum map_memory_spi_error (\<lambda>x. x)) (\<lambda>rt. rt) (call rt))"

text \<open>Two methods the reference runtime inherits from the port traits.\<close>

record audit_history_query =
  hq_scope :: scope_context
  hq_resource_type :: string
  hq_resource_id :: string
  hq_page_size :: i32

record audit_history_entry =
  he_audit_id :: string
  he_action :: string
  he_resource_type :: string
  he_resource_id :: string
  he_result :: string
  he_actor_type :: string
  he_actor_id :: "string option"
  he_created_at :: string

definition audit_list_history :: "audit_history_query \<Rightarrow> audit_history_entry list rt_op" where
  "audit_list_history q rt =
     (Inl (PortOperationFailed ''MemoryAuditStorePort''
        ''resource-scoped audit history is not implemented''), rt)"

fun record_retrieve_canonical_batch :: "scope_context \<Rightarrow> string list \<Rightarrow> canonical_record option list rt_op" where
  "record_retrieve_canonical_batch sc [] rt = (Inr [], rt)"
| "record_retrieve_canonical_batch sc (i # is) rt =
     (case record_retrieve_canonical \<lparr>sq_scope = sc, sq_id = i\<rparr> rt of
        (Inl e, rt) \<Rightarrow> (Inl e, rt)
      | (Inr r, rt) \<Rightarrow>
          (case record_retrieve_canonical_batch sc is rt of
             (Inl e, rt) \<Rightarrow> (Inl e, rt)
           | (Inr rs, rt) \<Rightarrow> (Inr (r # rs), rt)))"

section \<open>The methods of the data plane\<close>

definition plane_create_record ::
  "'p core_runtime \<Rightarrow> create_record_command \<Rightarrow> memory_record plane_op" where
  "plane_create_record core c = dispatch core RecordStore (record_create c)"

definition plane_retrieve_record ::
  "'p core_runtime \<Rightarrow> scoped_id_query \<Rightarrow> (memory_record option) plane_op" where
  "plane_retrieve_record core q = dispatch core RecordStore (record_retrieve q)"

definition plane_delete_record ::
  "'p core_runtime \<Rightarrow> scoped_id_query \<Rightarrow> deletion_receipt plane_op" where
  "plane_delete_record core q = dispatch core RecordStore (record_mark_deleted q)"

definition plane_create_canonical_memory_atomic ::
  "'p core_runtime \<Rightarrow> create_canonical_command \<Rightarrow> string \<Rightarrow> canonical_record plane_op" where
  "plane_create_canonical_memory_atomic core c now = dispatch core RecordStore (record_create_canonical c now)"

definition plane_create_canonical_memory_atomic_with_quota ::
  "'p core_runtime \<Rightarrow> create_canonical_command \<Rightarrow> nat \<Rightarrow> string \<Rightarrow> (canonical_record record_admission) plane_op" where
  "plane_create_canonical_memory_atomic_with_quota core c m now = dispatch core RecordStore (record_create_canonical_with_quota c m now)"

definition plane_supersede_canonical_memory_atomic_with_quota ::
  "'p core_runtime \<Rightarrow> (string \<Rightarrow> 'j option) \<Rightarrow> supersede_command \<Rightarrow> nat \<Rightarrow> string \<Rightarrow> (canonical_record record_admission) plane_op" where
  "plane_supersede_canonical_memory_atomic_with_quota core from_str c m now = dispatch core RecordStore (record_supersede_with_quota from_str c m now)"

definition plane_retrieve_canonical_memory ::
  "'p core_runtime \<Rightarrow> scoped_id_query \<Rightarrow> (canonical_record option) plane_op" where
  "plane_retrieve_canonical_memory core q = dispatch core RecordStore (record_retrieve_canonical q)"

definition plane_retrieve_canonical_memories_batch ::
  "'p core_runtime \<Rightarrow> scope_context \<Rightarrow> string list \<Rightarrow> (canonical_record option list) plane_op" where
  "plane_retrieve_canonical_memories_batch core sc ids = dispatch core RecordStore (record_retrieve_canonical_batch sc ids)"

definition plane_update_canonical_memory_atomic ::
  "'p core_runtime \<Rightarrow> update_canonical_command \<Rightarrow> string \<Rightarrow> (canonical_record option) plane_op" where
  "plane_update_canonical_memory_atomic core c now = dispatch core RecordStore (record_update_canonical c now)"

definition plane_delete_canonical_memory_atomic ::
  "'p core_runtime \<Rightarrow> delete_canonical_command \<Rightarrow> string \<Rightarrow> deletion_receipt plane_op" where
  "plane_delete_canonical_memory_atomic core c now = dispatch core RecordStore (record_delete_canonical c now)"

definition plane_delete_all_canonical_memory_atomic ::
  "'p core_runtime \<Rightarrow> delete_all_command \<Rightarrow> (string \<Rightarrow> string) \<Rightarrow> nat plane_op" where
  "plane_delete_all_canonical_memory_atomic core c now = dispatch core RecordStore (record_delete_all_canonical c now)"

definition plane_append_audit ::
  "'p core_runtime \<Rightarrow> append_audit_command \<Rightarrow> audit_record plane_op" where
  "plane_append_audit core c = dispatch core AuditStore (audit_append c)"

definition plane_retrieve_audit ::
  "'p core_runtime \<Rightarrow> scoped_id_query \<Rightarrow> (audit_record option) plane_op" where
  "plane_retrieve_audit core q = dispatch core AuditStore (audit_retrieve q)"

definition plane_list_audit_history ::
  "'p core_runtime \<Rightarrow> audit_history_query \<Rightarrow> (audit_history_entry list) plane_op" where
  "plane_list_audit_history core q = dispatch core AuditStore (audit_list_history q)"

definition plane_append_outbox ::
  "'p core_runtime \<Rightarrow> append_outbox_command \<Rightarrow> outbox_event plane_op" where
  "plane_append_outbox core c = dispatch core OutboxStore (outbox_append c)"

definition plane_retrieve_outbox ::
  "'p core_runtime \<Rightarrow> scoped_id_query \<Rightarrow> (outbox_event option) plane_op" where
  "plane_retrieve_outbox core q = dispatch core OutboxStore (outbox_retrieve q)"

definition plane_list_pending_outbox ::
  "'p core_runtime \<Rightarrow> list_pending_query \<Rightarrow> (outbox_event list) plane_op" where
  "plane_list_pending_outbox core q = dispatch core OutboxStore (outbox_list_pending q)"

definition plane_mark_outbox_published ::
  "'p core_runtime \<Rightarrow> mark_published_command \<Rightarrow> string \<Rightarrow> (outbox_event option) plane_op" where
  "plane_mark_outbox_published core c now = dispatch core OutboxStore (outbox_mark_published c now)"

definition plane_mark_outbox_failed ::
  "'p core_runtime \<Rightarrow> mark_failed_command \<Rightarrow> (outbox_event option) plane_op" where
  "plane_mark_outbox_failed core c = dispatch core OutboxStore (outbox_mark_failed c)"

definition plane_create_candidate ::
  "'p core_runtime \<Rightarrow> create_candidate_command \<Rightarrow> string \<Rightarrow> memory_candidate plane_op" where
  "plane_create_candidate core c now = dispatch core CandidateStore (candidate_create c now)"

definition plane_retrieve_candidate ::
  "'p core_runtime \<Rightarrow> scoped_id_query \<Rightarrow> (memory_candidate option) plane_op" where
  "plane_retrieve_candidate core q = dispatch core CandidateStore (candidate_retrieve q)"

definition plane_retrieve_candidate_detail ::
  "'p core_runtime \<Rightarrow> candidate_detail_query \<Rightarrow> (candidate_detail option) plane_op" where
  "plane_retrieve_candidate_detail core q = dispatch core CandidateStore (candidate_retrieve_detail q)"

definition plane_list_candidates ::
  "'p core_runtime \<Rightarrow> nat \<Rightarrow> list_candidates_query \<Rightarrow> candidate_page plane_op" where
  "plane_list_candidates core max_page q = dispatch core CandidateStore (candidate_list max_page q)"

definition plane_promote_candidate_atomic_with_quota ::
  "'p core_runtime \<Rightarrow> promote_candidate_command \<Rightarrow> nat \<Rightarrow> string \<Rightarrow> string \<Rightarrow> (candidate_promotion record_admission) plane_op" where
  "plane_promote_candidate_atomic_with_quota core c m now1 now2 = dispatch core CandidateStore (candidate_promote c m now1 now2)"

definition plane_promote_candidate_atomic_with_quota_and_journal ::
  "'p core_runtime \<Rightarrow> promote_with_journal_command \<Rightarrow> nat \<Rightarrow> string \<Rightarrow> string \<Rightarrow> (candidate_promotion record_admission) plane_op" where
  "plane_promote_candidate_atomic_with_quota_and_journal core c m now1 now2 = dispatch core CandidateStore (candidate_promote_with_journal c m now1 now2)"

definition plane_approve_candidate ::
  "'p core_runtime \<Rightarrow> decide_candidate_command \<Rightarrow> string \<Rightarrow> (memory_candidate option) plane_op" where
  "plane_approve_candidate core c now = dispatch core CandidateStore (candidate_approve c now)"

definition plane_reject_candidate ::
  "'p core_runtime \<Rightarrow> decide_candidate_command \<Rightarrow> string \<Rightarrow> (memory_candidate option) plane_op" where
  "plane_reject_candidate core c now = dispatch core CandidateStore (candidate_reject c now)"

definition plane_upsert_habit ::
  "'p core_runtime \<Rightarrow> upsert_habit_command \<Rightarrow> string \<Rightarrow> memory_habit plane_op" where
  "plane_upsert_habit core c now = dispatch core HabitStore (habit_upsert c now)"

definition plane_retrieve_habit ::
  "'p core_runtime \<Rightarrow> habit_query \<Rightarrow> (memory_habit option) plane_op" where
  "plane_retrieve_habit core q = dispatch core HabitStore (habit_retrieve q)"

definition plane_promote_habit ::
  "'p core_runtime \<Rightarrow> promote_habit_command \<Rightarrow> (memory_habit option) plane_op" where
  "plane_promote_habit core c = dispatch core HabitStore (habit_promote c)"

definition plane_decay_habit ::
  "'p core_runtime \<Rightarrow> decay_habit_command \<Rightarrow> (memory_habit option) plane_op" where
  "plane_decay_habit core c = dispatch core HabitStore (habit_decay c)"

definition plane_append_retrieval_trace ::
  "'p core_runtime \<Rightarrow> append_trace_command \<Rightarrow> string \<Rightarrow> retrieval_trace plane_op" where
  "plane_append_retrieval_trace core c now = dispatch core RetrievalTraceStore (trace_append c now)"

definition plane_retrieve_retrieval_trace ::
  "'p core_runtime \<Rightarrow> scoped_id_query \<Rightarrow> (retrieval_trace option) plane_op" where
  "plane_retrieve_retrieval_trace core q = dispatch core RetrievalTraceStore (trace_retrieve q)"

definition plane_retrieve_retrieval_trace_for_tenant ::
  "'p core_runtime \<Rightarrow> tenant_trace_query \<Rightarrow> (scoped_trace option) plane_op" where
  "plane_retrieve_retrieval_trace_for_tenant core q = dispatch core RetrievalTraceStore (trace_retrieve_for_tenant q)"

definition plane_list_recent_retrieval_traces ::
  "'p core_runtime \<Rightarrow> list_traces_query \<Rightarrow> (retrieval_trace list) plane_op" where
  "plane_list_recent_retrieval_traces core q = dispatch core RetrievalTraceStore (trace_list_recent q)"

definition plane_resolve_space_governance ::
  "'p core_runtime \<Rightarrow> resolve_governance_query \<Rightarrow> governance_facts plane_op" where
  "plane_resolve_space_governance core q = dispatch core GovernanceAccess (resolve_space_governance q)"

definition plane_count_active_records ::
  "'p core_runtime \<Rightarrow> scope_context \<Rightarrow> nat plane_op" where
  "plane_count_active_records core sc = dispatch core GovernanceAccess (count_active_records sc)"

definition plane_count_user_owned_spaces ::
  "'p core_runtime \<Rightarrow> count_spaces_query \<Rightarrow> nat plane_op" where
  "plane_count_user_owned_spaces core q = dispatch core GovernanceAccess (count_user_owned_spaces q)"

definition plane_create_space_atomic_with_quota ::
  "'p core_runtime \<Rightarrow> create_space_command \<Rightarrow> nat \<Rightarrow> string \<Rightarrow> (space_record space_admission) plane_op" where
  "plane_create_space_atomic_with_quota core c m now = dispatch core SpaceStore (create_space_atomic_with_quota c m now)"

definition plane_retrieve_candidates_scoped ::
  "'p core_runtime \<Rightarrow> scope_context \<Rightarrow> retrieve_candidates_command \<Rightarrow> (string list) plane_op" where
  "plane_retrieve_candidates_scoped core sc c = dispatch core Retriever (retrieve_scoped sc c)"

definition plane_search_candidates_scoped ::
  "'p core_runtime \<Rightarrow> (string \<Rightarrow> string) \<Rightarrow> search_query \<Rightarrow> retriever_search_result plane_op" where
  "plane_search_candidates_scoped core lower q = dispatch core Retriever (search_scoped lower q)"

definition plane_assemble_context_scoped ::
  "'p core_runtime \<Rightarrow> scope_context \<Rightarrow> string list \<Rightarrow> context_pack_draft plane_op" where
  "plane_assemble_context_scoped core sc ids = dispatch core ContextAssembler (assemble_scoped sc ids)"

section \<open>Lemmas\<close>

lemma missing_phase1_port_ok: "missing_phase1_port core ports = Inr () \<longleftrightarrow> list_all (core_has_port core) ports"
  by (induction ports) auto

lemma missing_phase1_port_error:
  "missing_phase1_port core ports = Inl e \<Longrightarrow>
    \<exists>port \<in> set ports. \<not> core_has_port core port \<and> e = MissingRequiredPort (mt_profile_id (ct_profile core)) port"
  by (induction ports) (auto split: if_splits)

lemma missing_capability_total:
  assumes "list_all (\<lambda>(port, _, _). ct_ports core port \<noteq> None) caps"
  shows "\<exists>r. missing_capability supports core caps = Some r \<and>
    (r = Inr () \<longleftrightarrow> list_all (\<lambda>(port, cap, _). supports (the (ct_ports core port)) cap) caps)"
  using assms by (induction supports core caps rule: missing_capability.induct) (auto split: option.splits)

lemma phase1_ports_cover: "list_all (core_has_port core) phase1_http_data_plane_ports \<Longrightarrow>
    list_all (\<lambda>(port, _, _). ct_ports core port \<noteq> None) phase1_capabilities"
proof -
  assume "list_all (core_has_port core) phase1_http_data_plane_ports"
  then have "list_all (\<lambda>p. core_has_port core (port_name p))
      [RecordStore, CandidateStore, Retriever, RetrievalTraceStore, GovernanceAccess, SpaceStore]"
    by (simp add: phase1_http_data_plane_ports_def)
  then show ?thesis
    by (simp add: phase1_capabilities_def core_has_port_def)
qed

lemma dispatch_missing: "ct_ports core port = None \<Longrightarrow>
    dispatch core port call rt = (Inl (err_storage storage_error_detail), rt)"
  by (simp add: dispatch_def require_port_def missing_runtime_port_def map_memory_spi_error_def err_storage_def)

lemma dispatch_present: "ct_ports core port = Some x \<Longrightarrow>
    dispatch core port call rt =
      (case call rt of (Inl e, rt') \<Rightarrow> (Inl (map_memory_spi_error e), rt') | (Inr y, rt') \<Rightarrow> (Inr y, rt'))"
  by (auto simp: dispatch_def require_port_def split: prod.splits sum.splits)

lemma retrieve_canonical_batch_ok:
  "RecordsLock \<notin> rm_poisoned rt \<Longrightarrow>
   record_retrieve_canonical_batch sc ids rt =
     (Inr (map (\<lambda>i. Option.bind (hm_get (rm_records rt) (scoped_id_new sc i)) visible_canonical) ids), rt)"
  by (induction ids) (simp_all add: record_retrieve_canonical_def with_lock_def)

end
