(* ===== verification/Plugin_Properties.thy ===== *)
theory Plugin_Properties
  imports Data_Plane
begin

text \<open>The properties of plug-in registration, profile resolution and the data plane.\<close>

section \<open>A sample registry\<close>

text \<open>Both baseline plug-ins with executables; the objects behind the ports are numbers.\<close>

definition native_sql_executable :: "nat plugin_ports" where
  "native_sql_executable p = (if port_name p \<in> set native_sql_store_ports then Some 1 else None)"

definition sample_registry :: "nat plugin_registry" where
  "sample_registry =
     snd (register_executable reference_profiles_baseline (reference_executable_ports 2)
       (snd (register_executable native_sql_baseline native_sql_executable registry_empty)))"

lemma baseline_ids [simp]:
  "pm_plugin_id native_sql_baseline = ''sdkwork-memory-plugin-native-sql''"
  "pm_plugin_id reference_profiles_baseline = ''sdkwork-memory-plugin-reference-profiles''"
  by (simp_all add: native_sql_baseline_def reference_profiles_baseline_def)

lemma native_sql_baseline_ok: "manifest_validate native_sql_baseline = Inr ()"
  by code_simp

lemma reference_profiles_baseline_ok: "manifest_validate reference_profiles_baseline = Inr ()"
  by code_simp

lemma sample_registered: "registered sample_registry"
  unfolding sample_registry_def by (intro registered.intros)

lemma map_of_same_keys:
  "map_of (map (\<lambda>x. (x, f x)) xs) x = (if x \<in> set xs then Some (f x) else None)"
  by (induction xs) auto

text \<open>A core runtime before any port is bound.\<close>

definition bare_core :: "nat core_runtime" where
  "bare_core = core_runtime_new (resolved_metadata (resolution (search_first_phase1 :: unit profile_draft)))"

section \<open>Properties\<close>

text \<open>
  C26. Whatever registrations are attempted, and whichever of them fail, a registry holds
  only valid manifests with distinct ids, and an executable only for a registered plug-in
  whose manifest declares every port of it.
\<close>

theorem registry_invariant:
  assumes "registered reg"
  shows "list_all manifest_ok (pr_manifests reg) \<and> distinct (map pm_plugin_id (pr_manifests reg)) \<and>
    (\<forall>i ex. executable_runtime reg i = Some ex \<longrightarrow>
       (\<exists>m. registry_get reg i = Some m \<and> (\<forall>p. ex p \<noteq> None \<longrightarrow> exports_port m (port_name p))))"
  using registered_inv [OF assms] by (simp add: registry_inv_def ports_declared_def)

theorem registry_invariant_witness:
  "distinct (map pm_plugin_id (pr_manifests sample_registry)) \<and> length (pr_manifests sample_registry) = 2"
proof -
  have "length (pr_manifests sample_registry) = 2" by code_simp
  with registry_invariant [OF sample_registered] show ?thesis by blast
qed

text \<open>
  C27. A profile resolves exactly when its primary plug-in supports its kind and mode, its
  configuration holds no literal secret at any depth, it binds only required ports and each
  at most once, and every required port is declared by a registered plug-in that supports
  the mode: the bound one, else the primary one. Nothing else is in the result.
\<close>

theorem profile_resolution_exact:
  "profile_resolve reg profile = Inr r \<longleftrightarrow> profile_ok reg profile \<and> r = resolution profile"
  by (rule profile_resolve_ok)

text \<open>
  Assembly succeeds exactly for a resolvable profile whose required ports are distinct
  and executable in the chosen plug-ins. The runtime then holds each required port, from the
  chosen plug-in and owned by it, and no other port.
\<close>

theorem assembled_runtime_exact:
  "((\<exists>rt. resolve_executable reg profile = Inr rt) \<longleftrightarrow>
     profile_ok reg profile \<and> distinct (pd_required_ports profile) \<and>
     (\<forall>port \<in> set (pd_required_ports profile).
        \<exists>ex p. executable_runtime reg (chosen profile port) = Some ex \<and> port = port_name p \<and> ex p \<noteq> None)) \<and>
   (\<forall>rt. resolve_executable reg profile = Inr rt \<longrightarrow>
     (\<forall>p. ct_ports rt p =
        (if port_name p \<in> set (pd_required_ports profile)
         then Option.bind (executable_runtime reg (chosen profile (port_name p))) (\<lambda>ex. ex p) else None)) \<and>
     (\<forall>name. port_owner rt name =
        (if name \<in> set (pd_required_ports profile) then Some (chosen profile name) else None)))"
proof -
  let ?bs = "map (\<lambda>port. \<lparr>pb_port = port, pb_plugin_id = chosen profile port\<rparr>) (pd_required_ports profile)"
  let ?new = "core_runtime_new (resolved_metadata (resolution profile)) :: 'a core_runtime"
  have new: "\<not> core_has_port ?new name" "port_owner ?new name = None" "ct_ports ?new p = None" for name p
    by (simp_all add: core_runtime_new_def core_has_port_def ports_has_iff ports_new_def port_owner_def bm_get_def)
  have run: "resolve_executable reg profile = Inr rt \<longleftrightarrow>
      profile_ok reg profile \<and> bind_all reg ?bs ?new = Inr rt" for rt
    by (auto simp: resolve_executable_def and_then_Inr profile_resolve_ok profile_assemble_def
        resolution_def)
  have avail: "list_all (\<lambda>b. \<not> core_has_port ?new (pb_port b) \<and> executable_available reg b) ?bs \<longleftrightarrow>
      (\<forall>port \<in> set (pd_required_ports profile).
        \<exists>ex p. executable_runtime reg (chosen profile port) = Some ex \<and> port = port_name p \<and> ex p \<noteq> None)"
    by (auto simp: list_all_iff new executable_available_def)
  have ports: "map pb_port ?bs = pd_required_ports profile" by (simp add: comp_def)
  have bmap: "binding_map ?bs name =
      (if name \<in> set (pd_required_ports profile) then Some (chosen profile name) else None)" for name
    by (simp add: binding_map_def comp_def map_of_same_keys)
  note result = bind_all_result [OF core_inv_new, of reg ?bs]
  have "(\<exists>rt. resolve_executable reg profile = Inr rt) \<longleftrightarrow>
      profile_ok reg profile \<and> distinct (pd_required_ports profile) \<and>
      list_all (\<lambda>b. \<not> core_has_port ?new (pb_port b) \<and> executable_available reg b) ?bs"
    using result bind_all_succeeds [OF core_inv_new, of ?bs] unfolding run ports by blast
  moreover have "(\<forall>p. ct_ports rt p =
        (if port_name p \<in> set (pd_required_ports profile)
         then Option.bind (executable_runtime reg (chosen profile (port_name p))) (\<lambda>ex. ex p) else None)) \<and>
     (\<forall>name. port_owner rt name =
        (if name \<in> set (pd_required_ports profile) then Some (chosen profile name) else None))"
    if "resolve_executable reg profile = Inr rt" for rt
  proof -
    have bound: "bind_all reg ?bs ?new = Inr rt" using that unfolding run by blast
    show ?thesis using bind_all_result [OF core_inv_new bound] by (simp add: new bmap bound_port_def)
  qed
  ultimately show ?thesis unfolding avail by blast
qed

theorem assembled_runtime_exact_witness:
  "\<exists>rt. resolve_executable sample_registry (search_first_phase1 :: unit profile_draft) = Inr rt \<and>
    ct_ports rt Retriever = Some 2 \<and> ct_ports rt EventStore = None"
proof -
  have ok: "case resolve_executable sample_registry (search_first_phase1 :: unit profile_draft) of
      Inr rt \<Rightarrow> True | Inl e \<Rightarrow> False"
    by code_simp
  then obtain rt where rt: "resolve_executable sample_registry (search_first_phase1 :: unit profile_draft) = Inr rt"
    by (auto split: sum.splits)
  have ports: "''MemoryRetrieverPort'' \<in> set (pd_required_ports (search_first_phase1 :: unit profile_draft))"
    "''MemoryEventStorePort'' \<notin> set (pd_required_ports (search_first_phase1 :: unit profile_draft))"
    by code_simp+
  have ex: "Option.bind (executable_runtime sample_registry
      (chosen (search_first_phase1 :: unit profile_draft) ''MemoryRetrieverPort'')) (\<lambda>ex. ex Retriever) = Some 2"
    by code_simp
  show ?thesis
    using assembled_runtime_exact [of sample_registry "search_first_phase1 :: unit profile_draft"] rt ports ex
    by simp
qed

text \<open>
  The shipped profiles over both baseline plug-ins. The baseline manifests are valid; the
  three family baselines resolve and assemble; the four evaluation drafts are refused, since
  the reference plug-in declares another implementation kind. Both SQL profiles qualify for
  the HTTP service, the search-first one does not: it has no event store.
\<close>

theorem shipped_profiles:
  "list_all manifest_ok phase1_baseline_manifests \<and>
   list_all (\<lambda>d. profile_ok sample_registry d) (phase1_family_baselines :: unit profile_draft list) \<and>
   map (profile_resolve sample_registry) (unqualified_evaluation_drafts :: unit profile_draft list) =
     map (\<lambda>kind. Inl (ImplementationKindUnsupported ''sdkwork-memory-plugin-reference-profiles'' kind))
       [''EventSourced'', ''GraphTemporal'', ''ExternalProviderBridge'', ''HybridPlatform''] \<and>
   map (\<lambda>d. map_sum (\<lambda>e. e) (\<lambda>core. map_option (map_sum (\<lambda>e. e) (\<lambda>_. ()))
          (try_for_phase1_http reference_supports core)) (resolve_executable sample_registry d))
       (phase1_family_baselines :: unit profile_draft list) =
     [Inr (Some (Inr ())), Inr (Some (Inr ())),
      Inr (Some (Inl (MissingRequiredPort ''search-first-phase1'' ''MemoryEventStorePort'')))]"
proof (intro conjI)
  show "list_all manifest_ok phase1_baseline_manifests"
    by (simp add: phase1_baseline_manifests_def native_sql_baseline_ok reference_profiles_baseline_ok
        manifest_validate_ok [symmetric])
  have "list_all (\<lambda>d. case profile_resolve sample_registry d of Inr r \<Rightarrow> True | Inl e \<Rightarrow> False)
      (phase1_family_baselines :: unit profile_draft list)"
    by code_simp
  then show "list_all (\<lambda>d. profile_ok sample_registry d) (phase1_family_baselines :: unit profile_draft list)"
    by (rule list.pred_mono_strong) (auto simp: profile_resolve_ok split: sum.splits)
qed code_simp+

text \<open>
  The HTTP service takes a runtime exactly when it holds all ten phase-1 ports and each
  capability the service relies on is supported by the port that has to provide it; the
  check itself never panics on an absent port.
\<close>

theorem phase1_gate_exact:
  "\<exists>outcome. try_for_phase1_http supports core = Some outcome \<and>
    (outcome = Inr core \<longleftrightarrow>
       list_all (core_has_port core) phase1_http_data_plane_ports \<and>
       list_all (\<lambda>(port, cap, _). \<exists>x. ct_ports core port = Some x \<and> supports x cap) phase1_capabilities)"
proof (cases "list_all (core_has_port core) phase1_http_data_plane_ports")
  case True
  note here = phase1_ports_cover [OF True]
  from missing_capability_total [OF here, of supports] obtain r where
    r: "missing_capability supports core phase1_capabilities = Some r"
      "r = Inr () \<longleftrightarrow> list_all (\<lambda>(port, cap, _). supports (the (ct_ports core port)) cap) phase1_capabilities"
    by blast
  have "list_all (\<lambda>(port, cap, _). supports (the (ct_ports core port)) cap) phase1_capabilities \<longleftrightarrow>
      list_all (\<lambda>(port, cap, _). \<exists>x. ct_ports core port = Some x \<and> supports x cap) phase1_capabilities"
    using here by (fastforce simp: list_all_iff)
  then show ?thesis
    using True r
    by (auto simp: try_for_phase1_http_def missing_phase1_port_ok [THEN iffD2] and_then_def split: sum.split)
next
  case False
  then obtain e where "missing_phase1_port core phase1_http_data_plane_ports = Inl e"
    using missing_phase1_port_ok [of core phase1_http_data_plane_ports]
    by (cases "missing_phase1_port core phase1_http_data_plane_ports") auto
  then show ?thesis
    using False by (simp add: try_for_phase1_http_def)
qed

text \<open>
  The data plane adds nothing to a port and leaks nothing from it: a value and the state
  are the port's own; every error is either the one conflict text or the one masked storage
  text, whatever the provider said; and without the port nothing runs.
\<close>

theorem data_plane_masks_errors:
  assumes "dispatch core port call rt = (res, rt')"
  shows "(\<forall>e. res = Inl e \<longrightarrow> e = err_storage ''internal storage error'' \<or>
       e = err_conflict ''resource already exists with a different idempotent payload'') \<and>
    (ct_ports core port = None \<longrightarrow> res = Inl (err_storage ''internal storage error'') \<and> rt' = rt) \<and>
    (ct_ports core port \<noteq> None \<longrightarrow> rt' = snd (call rt) \<and> (\<forall>x. res = Inr x \<longleftrightarrow> fst (call rt) = Inr x))"
proof (cases "ct_ports core port")
  case None
  then show ?thesis
    using assms by (auto simp: dispatch_missing storage_error_detail_def)
next
  case (Some x)
  then show ?thesis
    using assms map_memory_spi_error_cases
    by (auto simp: dispatch_present storage_error_detail_def split: prod.splits sum.splits)
qed

theorem data_plane_masks_errors_witness:
  "\<forall>q. fst (plane_retrieve_record bare_core q runtime_new) = Inl (err_storage ''internal storage error'')"
proof
  fix q
  have "ct_ports bare_core RecordStore = None"
    by (simp add: bare_core_def core_runtime_new_def ports_new_def)
  with data_plane_masks_errors [of bare_core RecordStore "record_retrieve q" runtime_new,
      OF surjective_pairing]
  show "fst (plane_retrieve_record bare_core q runtime_new) = Inl (err_storage ''internal storage error'')"
    unfolding plane_retrieve_record_def by blast
qed

end
