(* ===== verification/Space_Access.thy ===== *)
theory Space_Access
  imports Data_Plane
begin

text \<open>
  The authorization of the service (\<^verbatim>\<open>access.rs\<close>): one bounded snapshot of governance facts
  decides whether an actor may use a memory space. Unknown states, unparsable times and
  incomplete snapshots are errors, never grants. \<^verbatim>\<open>parse_datetime\<close> is the parameter \<^verbatim>\<open>parse\<close>
  into a linear order, the clock is the parameter \<^verbatim>\<open>now\<close>, and the provider of the facts is
  the parameter \<^verbatim>\<open>resolve\<close>, the data plane's \<^verbatim>\<open>resolve_space_governance\<close>. Log lines and the
  counter of denials are left out.
\<close>

section \<open>Facts\<close>

definition capability_memory_retrieve :: string where
  "capability_memory_retrieve = ''memory.retrieve''"

definition capability_memory_write :: string where
  "capability_memory_write = ''memory.write''"

definition invalid_governance_state :: "string \<Rightarrow> service_error" where
  "invalid_governance_state detail = err_storage detail"

definition fact_is_current :: "(string \<Rightarrow> 't::linorder option) \<Rightarrow> string option \<Rightarrow> string option \<Rightarrow> string \<Rightarrow>
    service_error + bool" where
  "fact_is_current parse valid_from valid_to now =
     (case parse now of
        None \<Rightarrow> Inl (invalid_governance_state ''runtime governance evaluation time is invalid'')
      | Some t \<Rightarrow>
          and_then (case valid_from of
              None \<Rightarrow> Inr True
            | Some f \<Rightarrow> (case parse f of
                None \<Rightarrow> Inl (invalid_governance_state ''governance validFrom timestamp is invalid'')
              | Some a \<Rightarrow> Inr (\<not> t < a))) (\<lambda>begun.
          if \<not> begun then Inr False
          else (case valid_to of
              None \<Rightarrow> Inr True
            | Some e \<Rightarrow> (case parse e of
                None \<Rightarrow> Inl (invalid_governance_state ''governance validTo timestamp is invalid'')
              | Some b \<Rightarrow> Inr (\<not> b < t)))))"

text \<open>The three \<^verbatim>\<open>match\<close> tables of a binding; \<^term>\<open>None\<close> is an unsupported text.\<close>

definition binding_status_active :: "string \<Rightarrow> bool option" where
  "binding_status_active s =
     (if s = ''active'' then Some True
      else if s \<in> {''disabled'', ''expired'', ''deleted''} then Some False else None)"

definition binding_kind_grants :: "string \<Rightarrow> bool option" where
  "binding_kind_grants s =
     (if s \<in> {''access'', ''share'', ''ownership''} then Some True
      else if s \<in> {''reference'', ''provision''} then Some False else None)"

definition binding_role_writes :: "string \<Rightarrow> bool option" where
  "binding_role_writes s =
     (if s \<in> {''owner'', ''learner''} then Some True
      else if s \<in> {''viewer'', ''retriever'', ''context_source'', ''evidence'', ''correction'',
                   ''suppression'', ''import_shadow''} then Some False else None)"

definition supported :: "'a option \<Rightarrow> string \<Rightarrow> service_error + 'a" where
  "supported v detail = (case v of None \<Rightarrow> Inl (invalid_governance_state detail) | Some x \<Rightarrow> Inr x)"

text \<open>One round of the loop: whether the binding grants what is asked.\<close>

definition binding_grant :: "(string \<Rightarrow> 't::linorder option) \<Rightarrow> bool \<Rightarrow> string \<Rightarrow> actor_binding \<Rightarrow>
    service_error + bool" where
  "binding_grant parse require_write now b =
     (if is_blank (ab_binding_id b) \<or> is_blank (ab_binding_role b)
      then Inl (invalid_governance_state ''governance binding identifiers and roles must not be blank'')
      else and_then (supported (binding_status_active (ab_status b)) ''governance binding status is unsupported'') (\<lambda>active.
           and_then (supported (binding_kind_grants (ab_binding_kind b)) ''governance binding kind is unsupported'') (\<lambda>grants.
           and_then (supported (binding_role_writes (ab_binding_role b)) ''governance binding role is unsupported'') (\<lambda>writes.
           and_then (fact_is_current parse (ab_valid_from b) (ab_valid_to b) now) (\<lambda>current.
           Inr (active \<and> current \<and> grants \<and> (require_write \<longrightarrow> writes)))))))"

fun actor_binding_loop :: "(string \<Rightarrow> 't::linorder option) \<Rightarrow> bool \<Rightarrow> string \<Rightarrow> bool \<Rightarrow> actor_binding list \<Rightarrow>
    service_error + bool" where
  "actor_binding_loop parse require_write now granted [] = Inr granted"
| "actor_binding_loop parse require_write now granted (b # bs) =
     and_then (binding_grant parse require_write now b) (\<lambda>grant.
       actor_binding_loop parse require_write now (granted \<or> grant) bs)"

definition actor_has_active_binding :: "(string \<Rightarrow> 't::linorder option) \<Rightarrow> actor_binding list \<Rightarrow> bool \<Rightarrow>
    string \<Rightarrow> service_error + bool" where
  "actor_has_active_binding parse bindings require_write now =
     actor_binding_loop parse require_write now False bindings"

datatype capability_decision = Allow | Deny | Conditional

definition capability_status_active :: "string \<Rightarrow> bool option" where
  "capability_status_active s =
     (if s = ''active'' then Some True else if s \<in> {''disabled'', ''deleted''} then Some False else None)"

definition capability_mode :: "string \<Rightarrow> capability_decision option" where
  "capability_mode s =
     (if s = ''allow'' then Some Allow else if s = ''deny'' then Some Deny
      else if s = ''conditional'' then Some Conditional else None)"

definition capability_denies :: "(string \<Rightarrow> 't::linorder option) \<Rightarrow> string \<Rightarrow> string \<Rightarrow> capability_binding \<Rightarrow>
    service_error + bool" where
  "capability_denies parse code now b =
     (if is_blank (cb_binding_id b) \<or> cb_capability_code b \<noteq> code
      then Inl (invalid_governance_state
             ''governance capability fact does not match the requested capability'')
      else and_then (supported (capability_status_active (cb_status b)) ''governance capability status is unsupported'') (\<lambda>active.
           and_then (supported (capability_mode (cb_mode b)) ''governance capability mode is unsupported'') (\<lambda>mode.
           and_then (fact_is_current parse (cb_valid_from b) (cb_valid_to b) now) (\<lambda>current.
           if active \<and> current
           then (case mode of
                   Allow \<Rightarrow> Inr False
                 | Deny \<Rightarrow> Inr True
                 | Conditional \<Rightarrow> Inl (invalid_governance_state
                     ''conditional capability policy has no reviewed evaluator''))
           else Inr False))))"

fun capability_loop :: "(string \<Rightarrow> 't::linorder option) \<Rightarrow> string \<Rightarrow> string \<Rightarrow> bool \<Rightarrow> capability_binding list \<Rightarrow>
    service_error + bool" where
  "capability_loop parse code now denied [] = Inr denied"
| "capability_loop parse code now denied (b # bs) =
     and_then (capability_denies parse code now b) (\<lambda>d. capability_loop parse code now (denied \<or> d) bs)"

definition capability_is_denied :: "(string \<Rightarrow> 't::linorder option) \<Rightarrow> capability_binding list \<Rightarrow> string \<Rightarrow>
    string \<Rightarrow> service_error + bool" where
  "capability_is_denied parse bindings code now = capability_loop parse code now False bindings"

section \<open>The decision on a snapshot\<close>

record space_authorization =
  sz_space_id :: u64
  sz_actor_is_space_owner :: bool

definition subject_owns :: "u64 \<Rightarrow> space_fact \<Rightarrow> bool" where
  "subject_owns actor_id space \<longleftrightarrow>
     sf_owner_subject_type space \<in> {''user'', ''agent''} \<and> sf_owner_subject_id space = u64_text actor_id"

definition actor_is_space_owner :: "governance_facts \<Rightarrow> request_context \<Rightarrow> bool" where
  "actor_is_space_owner facts ctx =
     (case gf_space facts of
        None \<Rightarrow> False
      | Some space \<Rightarrow> (case rq_actor_id ctx of None \<Rightarrow> False | Some a \<Rightarrow> subject_owns a space))"

definition capability_denied_detail :: "string \<Rightarrow> string" where
  "capability_denied_detail code =
     (if code = capability_memory_retrieve
      then ''retrieval denied for this memory space by capability policy''
      else if code = capability_memory_write
      then ''write denied for this memory space by capability policy''
      else ''memory operation denied for this space by capability policy'')"

definition check_lifecycle :: "string \<Rightarrow> bool \<Rightarrow> service_error + unit" where
  "check_lifecycle status require_write =
     (if status = ''active'' then Inr ()
      else if status = ''archived'' \<and> require_write
      then Inl (err_forbidden ''archived memory spaces are read-only'')
      else if status = ''archived'' then Inr ()
      else if status = ''deleted'' then Inl (err_not_found ''memory space not found'')
      else Inl (invalid_governance_state ''memory space lifecycle status is unsupported''))"

definition authorize_actor_for_existing_space :: "(string \<Rightarrow> 't::linorder option) \<Rightarrow> governance_facts \<Rightarrow>
    request_context \<Rightarrow> u64 \<Rightarrow> bool \<Rightarrow> string option \<Rightarrow> string \<Rightarrow> service_error + space_authorization" where
  "authorize_actor_for_existing_space parse facts ctx space_id require_write code now =
     (case gf_space facts of
        None \<Rightarrow> Inl (err_not_found ''memory space not found'')
      | Some space \<Rightarrow>
          and_then (check_lifecycle (sf_lifecycle_status space) require_write) (\<lambda>_.
          let owner = actor_is_space_owner facts ctx;
              authorization = \<lparr>sz_space_id = space_id, sz_actor_is_space_owner = owner\<rparr>
          in if rq_elevated_tenant_access ctx then Inr authorization
             else if rq_actor_id ctx = None
             then Inl (err_forbidden ''authenticated actor is required for memory space access'')
             else and_then (if owner then Inr True
                   else actor_has_active_binding parse (gf_actor_bindings facts) require_write now) (\<lambda>bound.
               if \<not> bound then Inl (err_forbidden ''actor is not authorized for this memory space'')
               else (case code of
                   None \<Rightarrow> Inr authorization
                 | Some c \<Rightarrow>
                     and_then (capability_is_denied parse (gf_capability_bindings facts) c now) (\<lambda>denied.
                       if denied then Inl (err_forbidden (capability_denied_detail c))
                       else Inr authorization)))))"

section \<open>Resolution and the entry points\<close>

definition governance_query :: "request_context \<Rightarrow> i64 \<Rightarrow> i64 \<Rightarrow> string option \<Rightarrow> resolve_governance_query" where
  "governance_query ctx tenant space code =
     \<lparr>rg_scope = \<lparr>sc_tenant_id = tenant, sc_space_id = space, sc_organization_id = None,
        sc_user_id = Option.bind (rq_actor_id ctx) i64_try_from\<rparr>,
      rg_actor = map_option (\<lambda>a. \<lparr>ga_subject_type = None, ga_subject_id = u64_text a\<rparr>) (rq_actor_id ctx),
      rg_capability_code = code, rg_fact_limit = max_governance_facts\<rparr>"

text \<open>Running a pure check or continuing on a value, with the state passed along.\<close>

definition op_then :: "('s, 'a) service_op \<Rightarrow> ('a \<Rightarrow> ('s, 'b) service_op) \<Rightarrow> ('s, 'b) service_op" where
  "op_then f k s = (case f s of (Inl e, s') \<Rightarrow> (Inl e, s') | (Inr x, s') \<Rightarrow> k x s')"

definition op_pure :: "service_error + 'a \<Rightarrow> ('s, 'a) service_op" where
  "op_pure r s = (r, s)"

definition check_facts :: "i64 \<Rightarrow> governance_facts \<Rightarrow> service_error + governance_facts" where
  "check_facts space facts =
     (if \<not> gf_complete facts
      then Inl (invalid_governance_state ''governance fact set exceeded the bounded authorization limit'')
      else if (case gf_space facts of None \<Rightarrow> False | Some f \<Rightarrow> sf_space_id f \<noteq> space)
      then Inl (invalid_governance_state ''governance provider returned a mismatched space'')
      else Inr facts)"

type_synonym 's governance_resolver = "resolve_governance_query \<Rightarrow> ('s, governance_facts) service_op"

definition resolve_governance_facts :: "'s governance_resolver \<Rightarrow> request_context \<Rightarrow> u64 \<Rightarrow> string option \<Rightarrow>
    ('s, governance_facts) service_op" where
  "resolve_governance_facts resolve ctx space_id code =
     op_then (op_pure (tenant_id_i64 (rq_tenant_id ctx))) (\<lambda>tenant.
     op_then (op_pure (space_id_i64 space_id)) (\<lambda>space.
     op_then (resolve (governance_query ctx tenant space code)) (\<lambda>facts.
     op_pure (check_facts space facts))))"

definition authorize_actor_for_space :: "(string \<Rightarrow> 't::linorder option) \<Rightarrow> 's governance_resolver \<Rightarrow>
    request_context \<Rightarrow> u64 \<Rightarrow> bool \<Rightarrow> string option \<Rightarrow> string \<Rightarrow> ('s, space_authorization) service_op" where
  "authorize_actor_for_space parse resolve ctx space_id require_write code now =
     (let query = (if rq_elevated_tenant_access ctx then None else code)
      in op_then (resolve_governance_facts resolve ctx space_id query) (\<lambda>facts.
           op_pure (authorize_actor_for_existing_space parse facts ctx space_id require_write query now)))"

definition authorize_actor_for_space_retrieval :: "(string \<Rightarrow> 't::linorder option) \<Rightarrow> 's governance_resolver \<Rightarrow>
    request_context \<Rightarrow> u64 \<Rightarrow> string \<Rightarrow> ('s, space_authorization) service_op" where
  "authorize_actor_for_space_retrieval parse resolve ctx space_id now =
     authorize_actor_for_space parse resolve ctx space_id False (Some capability_memory_retrieve) now"

definition authorize_actor_for_space_access :: "(string \<Rightarrow> 't::linorder option) \<Rightarrow> 's governance_resolver \<Rightarrow>
    request_context \<Rightarrow> u64 \<Rightarrow> string \<Rightarrow> ('s, space_authorization) service_op" where
  "authorize_actor_for_space_access parse resolve ctx space_id now =
     authorize_actor_for_space parse resolve ctx space_id False None now"

definition assert_actor_can_access_space :: "(string \<Rightarrow> 't::linorder option) \<Rightarrow> 's governance_resolver \<Rightarrow>
    request_context \<Rightarrow> u64 \<Rightarrow> string \<Rightarrow> ('s, unit) service_op" where
  "assert_actor_can_access_space parse resolve ctx space_id now =
     op_then (authorize_actor_for_space_access parse resolve ctx space_id now) (\<lambda>_. op_pure (Inr ()))"

definition assert_actor_can_access_space_for_write :: "(string \<Rightarrow> 't::linorder option) \<Rightarrow>
    's governance_resolver \<Rightarrow> request_context \<Rightarrow> u64 \<Rightarrow> string \<Rightarrow> ('s, unit) service_op" where
  "assert_actor_can_access_space_for_write parse resolve ctx space_id now =
     op_then (authorize_actor_for_space parse resolve ctx space_id True (Some capability_memory_write) now)
       (\<lambda>_. op_pure (Inr ()))"

definition checked_space_id :: "i64 \<Rightarrow> service_error + u64" where
  "checked_space_id space_id =
     (if sint space_id < 0 then Inl (err_validation ''spaceId must be non-negative'')
      else (case u64_try_from space_id of
          None \<Rightarrow> Inl (err_validation ''spaceId must fit in an unsigned 64-bit integer'')
        | Some x \<Rightarrow> Inr x))"

definition assert_actor_can_access_space_i64 :: "(string \<Rightarrow> 't::linorder option) \<Rightarrow> 's governance_resolver \<Rightarrow>
    request_context \<Rightarrow> i64 \<Rightarrow> string \<Rightarrow> ('s, unit) service_op" where
  "assert_actor_can_access_space_i64 parse resolve ctx space_id now =
     op_then (op_pure (checked_space_id space_id)) (\<lambda>id.
       assert_actor_can_access_space parse resolve ctx id now)"

definition assert_actor_can_access_space_for_write_i64 :: "(string \<Rightarrow> 't::linorder option) \<Rightarrow>
    's governance_resolver \<Rightarrow> request_context \<Rightarrow> i64 \<Rightarrow> string \<Rightarrow> ('s, unit) service_op" where
  "assert_actor_can_access_space_for_write_i64 parse resolve ctx space_id now =
     op_then (op_pure (checked_space_id space_id)) (\<lambda>id.
       assert_actor_can_access_space_for_write parse resolve ctx id now)"

section \<open>Several spaces\<close>

text \<open>\<^verbatim>\<open>filter(|id| seen.insert(*id))\<close>: the first occurrence of each id.\<close>

fun first_occurrences :: "u64 set \<Rightarrow> u64 list \<Rightarrow> u64 list" where
  "first_occurrences seen [] = []"
| "first_occurrences seen (x # xs) =
     (if x \<in> seen then first_occurrences seen xs else x # first_occurrences (insert x seen) xs)"

definition unique_bounded_space_ids :: "u64 list \<Rightarrow> service_error + u64 list" where
  "unique_bounded_space_ids ids =
     (let unique_ids = first_occurrences {} ids
      in if max_governance_facts < length unique_ids
         then Inl (err_validation (''at most '' @ nat_text max_governance_facts @
                '' memory spaces may be authorized per request''))
         else Inr unique_ids)"

fun authorize_each :: "(u64 \<Rightarrow> ('s, space_authorization) service_op) \<Rightarrow> u64 list \<Rightarrow>
    ('s, space_authorization list) service_op" where
  "authorize_each authorize [] = op_pure (Inr [])"
| "authorize_each authorize (i # is) =
     op_then (authorize i) (\<lambda>a. op_then (authorize_each authorize is) (\<lambda>as. op_pure (Inr (a # as))))"

definition authorize_actor_for_spaces_access :: "(string \<Rightarrow> 't::linorder option) \<Rightarrow> 's governance_resolver \<Rightarrow>
    request_context \<Rightarrow> u64 list \<Rightarrow> (u64 \<Rightarrow> string) \<Rightarrow> ('s, space_authorization list) service_op" where
  "authorize_actor_for_spaces_access parse resolve ctx ids now =
     op_then (op_pure (unique_bounded_space_ids ids))
       (authorize_each (\<lambda>i. authorize_actor_for_space_access parse resolve ctx i (now i)))"

definition authorize_actor_for_retrieval_spaces :: "(string \<Rightarrow> 't::linorder option) \<Rightarrow> 's governance_resolver \<Rightarrow>
    request_context \<Rightarrow> u64 list \<Rightarrow> (u64 \<Rightarrow> string) \<Rightarrow> ('s, space_authorization list) service_op" where
  "authorize_actor_for_retrieval_spaces parse resolve ctx ids now =
     op_then (op_pure (unique_bounded_space_ids ids))
       (authorize_each (\<lambda>i. authorize_actor_for_space_retrieval parse resolve ctx i (now i)))"

definition require_list_space_id :: "u64 option \<Rightarrow> service_error + u64" where
  "require_list_space_id space_id =
     (case space_id of None \<Rightarrow> Inl (err_validation ''spaceId query parameter is required'') | Some i \<Rightarrow> Inr i)"

definition require_commercial_list_space_id :: "request_context \<Rightarrow> u64 option \<Rightarrow> service_error + u64 option" where
  "require_commercial_list_space_id ctx space_id =
     (if rq_elevated_tenant_access ctx then Inr space_id
      else and_then (require_list_space_id space_id) (\<lambda>i. Inr (Some i)))"

section \<open>Sensitivity\<close>

definition actor_may_read_sensitivity :: "request_context \<Rightarrow> string \<Rightarrow> bool \<Rightarrow> bool" where
  "actor_may_read_sensitivity ctx level owner =
     (if level \<in> {''public'', ''internal''} then True
      else if level \<in> {''private'', ''sensitive''} then rq_elevated_tenant_access ctx \<or> owner
      else owner)"

definition assert_actor_may_read_record_sensitivity_for_owner :: "request_context \<Rightarrow> string \<Rightarrow> bool \<Rightarrow>
    service_error + unit" where
  "assert_actor_may_read_record_sensitivity_for_owner ctx level owner =
     (if actor_may_read_sensitivity ctx level owner then Inr () else Inl (err_not_found ''memory not found''))"

definition assert_actor_may_read_entity_sensitivity :: "request_context \<Rightarrow> string \<Rightarrow> bool \<Rightarrow> service_error + unit" where
  "assert_actor_may_read_entity_sensitivity ctx level owner =
     (if actor_may_read_sensitivity ctx level owner then Inr () else Inl (err_not_found ''entity not found''))"

definition owner_of_snapshot :: "request_context \<Rightarrow> governance_facts \<Rightarrow> service_error + bool" where
  "owner_of_snapshot ctx facts =
     (case gf_space facts of
        None \<Rightarrow> Inr False
      | Some space \<Rightarrow>
          if sf_lifecycle_status space \<in> {''active'', ''archived''}
          then Inr (case rq_actor_id ctx of None \<Rightarrow> False | Some a \<Rightarrow> subject_owns a space)
          else if sf_lifecycle_status space = ''deleted'' then Inr False
          else Inl (invalid_governance_state ''memory space lifecycle status is unsupported''))"

definition actual_actor_is_space_owner :: "'s governance_resolver \<Rightarrow> request_context \<Rightarrow> u64 \<Rightarrow> ('s, bool) service_op" where
  "actual_actor_is_space_owner resolve ctx space_id =
     op_then (resolve_governance_facts resolve ctx space_id None) (\<lambda>facts.
       op_pure (owner_of_snapshot ctx facts))"

definition assert_actor_may_read_record_sensitivity :: "'s governance_resolver \<Rightarrow> request_context \<Rightarrow> u64 \<Rightarrow>
    string \<Rightarrow> ('s, unit) service_op" where
  "assert_actor_may_read_record_sensitivity resolve ctx space_id level =
     op_then (actual_actor_is_space_owner resolve ctx space_id) (\<lambda>owner.
       op_pure (assert_actor_may_read_record_sensitivity_for_owner ctx level owner))"

definition access_read_scope :: "request_context \<Rightarrow> bool \<Rightarrow> i32" where
  "access_read_scope ctx owner = (if owner then 2 else if rq_elevated_tenant_access ctx then 1 else 0)"

definition sensitivity_read_scope_from_i32 :: "i32 \<Rightarrow> sensitivity_read_scope" where
  "sensitivity_read_scope_from_i32 v = (if v = 0 then Public else if v = 1 then Elevated else Owner)"

section \<open>Creation\<close>

definition validate_user_space_owner :: "request_context \<Rightarrow> string \<Rightarrow> string \<Rightarrow> service_error + unit" where
  "validate_user_space_owner ctx owner_type owner_id =
     (if rq_elevated_tenant_access ctx then Inr ()
      else if owner_type \<noteq> ''user''
      then Inl (err_forbidden ''only backend operators may create non-user-owned memory spaces'')
      else (case rq_actor_id ctx of
          None \<Rightarrow> Inl (err_forbidden ''authenticated actor is required to create a user-owned memory space'')
        | Some a \<Rightarrow>
            if owner_id \<noteq> u64_text a
            then Inl (err_forbidden ''ownerSubjectId must match the authenticated actor for user-owned spaces'')
            else Inr ()))"

end
