(* ===== verification/Access_Laws.thy ===== *)
theory Access_Laws
  imports Space_Access
begin

text \<open>
  What an authorization means. First the decision on a snapshot as one condition on its
  facts, with no order of checks left. Then the contract of a governance provider (locale
  \<^verbatim>\<open>governance_provider\<close>): it reads only, and a complete answer lists exactly the stored facts.
  Under the contract an authorization rests on stored facts; the data plane over the
  reference runtime meets it.
\<close>

section \<open>Times\<close>

text \<open>The times a check has to read are parsable, and the check holds.\<close>

definition times_readable :: "(string \<Rightarrow> 't::linorder option) \<Rightarrow> string option \<Rightarrow> string option \<Rightarrow> string \<Rightarrow> bool" where
  "times_readable parse valid_from valid_to now \<longleftrightarrow>
     (\<exists>t. parse now = Some t \<and>
       (\<forall>f. valid_from = Some f \<longrightarrow> parse f \<noteq> None) \<and>
       ((\<forall>f a. valid_from = Some f \<longrightarrow> parse f = Some a \<longrightarrow> a \<le> t) \<longrightarrow>
          (\<forall>e. valid_to = Some e \<longrightarrow> parse e \<noteq> None)))"

definition within_validity :: "(string \<Rightarrow> 't::linorder option) \<Rightarrow> string option \<Rightarrow> string option \<Rightarrow> string \<Rightarrow> bool" where
  "within_validity parse valid_from valid_to now \<longleftrightarrow>
     (\<forall>f. valid_from = Some f \<longrightarrow> the (parse f) \<le> the (parse now)) \<and>
     (\<forall>e. valid_to = Some e \<longrightarrow> the (parse now) \<le> the (parse e))"

lemma fact_is_current_exact:
  "fact_is_current parse f e now = Inr r \<longleftrightarrow>
     times_readable parse f e now \<and> r = within_validity parse f e now"
  by (cases "parse now"; cases f; cases e)
    (auto simp: fact_is_current_def times_readable_def within_validity_def and_then_def
      split: option.splits if_splits)

section \<open>Bindings and capabilities\<close>

definition binding_acceptable :: "(string \<Rightarrow> 't::linorder option) \<Rightarrow> string \<Rightarrow> actor_binding \<Rightarrow> bool" where
  "binding_acceptable parse now b \<longleftrightarrow>
     \<not> is_blank (ab_binding_id b) \<and> \<not> is_blank (ab_binding_role b) \<and>
     binding_status_active (ab_status b) \<noteq> None \<and> binding_kind_grants (ab_binding_kind b) \<noteq> None \<and>
     binding_role_writes (ab_binding_role b) \<noteq> None \<and>
     times_readable parse (ab_valid_from b) (ab_valid_to b) now"

definition binding_gives :: "(string \<Rightarrow> 't::linorder option) \<Rightarrow> bool \<Rightarrow> string \<Rightarrow> actor_binding \<Rightarrow> bool" where
  "binding_gives parse require_write now b \<longleftrightarrow>
     ab_status b = ''active'' \<and> ab_binding_kind b \<in> {''access'', ''share'', ''ownership''} \<and>
     (require_write \<longrightarrow> ab_binding_role b \<in> {''owner'', ''learner''}) \<and>
     within_validity parse (ab_valid_from b) (ab_valid_to b) now"

lemma supported_Inr: "supported v d = Inr x \<longleftrightarrow> v = Some x"
  by (auto simp: supported_def split: option.splits)

lemma binding_grant_exact:
  "binding_grant parse w now b = Inr r \<longleftrightarrow>
     binding_acceptable parse now b \<and> r = binding_gives parse w now b"
proof -
  have status: "binding_status_active s = Some True \<longleftrightarrow> s = ''active''" for s
    by (simp add: binding_status_active_def)
  have kind: "binding_kind_grants s = Some True \<longleftrightarrow> s \<in> {''access'', ''share'', ''ownership''}" for s
    by (simp add: binding_kind_grants_def)
  have role: "binding_role_writes s = Some True \<longleftrightarrow> s \<in> {''owner'', ''learner''}" for s
    by (simp add: binding_role_writes_def)
  show ?thesis
    unfolding binding_grant_def guard_Inr and_then_Inr supported_Inr fact_is_current_exact
      binding_acceptable_def binding_gives_def status [symmetric] kind [symmetric] role [symmetric]
    by auto
qed

lemma actor_binding_loop_exact:
  "actor_binding_loop parse w now g bs = Inr r \<longleftrightarrow>
     list_all (binding_acceptable parse now) bs \<and> r = (g \<or> list_ex (binding_gives parse w now) bs)"
  by (induction bs arbitrary: g) (auto simp: and_then_Inr binding_grant_exact)

lemma actor_binding_exact:
  "actor_has_active_binding parse bs w now = Inr r \<longleftrightarrow>
     list_all (binding_acceptable parse now) bs \<and> r = list_ex (binding_gives parse w now) bs"
  by (simp add: actor_has_active_binding_def actor_binding_loop_exact)

definition capability_in_force :: "(string \<Rightarrow> 't::linorder option) \<Rightarrow> string \<Rightarrow> capability_binding \<Rightarrow> bool" where
  "capability_in_force parse now b \<longleftrightarrow>
     cb_status b = ''active'' \<and> within_validity parse (cb_valid_from b) (cb_valid_to b) now"

definition capability_acceptable :: "(string \<Rightarrow> 't::linorder option) \<Rightarrow> string \<Rightarrow> string \<Rightarrow> capability_binding \<Rightarrow> bool" where
  "capability_acceptable parse code now b \<longleftrightarrow>
     \<not> is_blank (cb_binding_id b) \<and> cb_capability_code b = code \<and>
     capability_status_active (cb_status b) \<noteq> None \<and> capability_mode (cb_mode b) \<noteq> None \<and>
     times_readable parse (cb_valid_from b) (cb_valid_to b) now \<and>
     (capability_in_force parse now b \<longrightarrow> cb_mode b \<noteq> ''conditional'')"

definition capability_forbids :: "(string \<Rightarrow> 't::linorder option) \<Rightarrow> string \<Rightarrow> capability_binding \<Rightarrow> bool" where
  "capability_forbids parse now b \<longleftrightarrow> capability_in_force parse now b \<and> cb_mode b = ''deny''"

lemma capability_denies_exact:
  "capability_denies parse code now b = Inr r \<longleftrightarrow>
     capability_acceptable parse code now b \<and> r = capability_forbids parse now b"
proof -
  have status: "capability_status_active s = Some True \<longleftrightarrow> s = ''active''" for s
    by (simp add: capability_status_active_def)
  have mode: "capability_mode s = Some Conditional \<longleftrightarrow> s = ''conditional''"
    "capability_mode s = Some Deny \<longleftrightarrow> s = ''deny''" for s
    by (simp_all add: capability_mode_def)
  have last: "(if a then case m of Allow \<Rightarrow> Inr False | Deny \<Rightarrow> Inr True | Conditional \<Rightarrow> Inl e
      else Inr False) = Inr r \<longleftrightarrow> (a \<longrightarrow> m \<noteq> Conditional) \<and> r = (a \<and> m = Deny)"
    for a m and e :: service_error
    by (cases m) auto
  show ?thesis
    unfolding capability_denies_def guard_Inr and_then_Inr supported_Inr fact_is_current_exact last
      capability_acceptable_def capability_forbids_def capability_in_force_def status [symmetric]
      mode [symmetric]
    by auto
qed

lemma capability_loop_exact:
  "capability_loop parse code now d bs = Inr r \<longleftrightarrow>
     list_all (capability_acceptable parse code now) bs \<and>
     r = (d \<or> list_ex (capability_forbids parse now) bs)"
  by (induction bs arbitrary: d) (auto simp: and_then_Inr capability_denies_exact)

lemma capability_is_denied_exact:
  "capability_is_denied parse bs code now = Inr r \<longleftrightarrow>
     list_all (capability_acceptable parse code now) bs \<and> r = list_ex (capability_forbids parse now) bs"
  by (simp add: capability_is_denied_def capability_loop_exact)

section \<open>The decision\<close>

definition lifecycle_open :: "string \<Rightarrow> bool \<Rightarrow> bool" where
  "lifecycle_open status require_write \<longleftrightarrow>
     status = ''active'' \<or> status = ''archived'' \<and> \<not> require_write"

definition actor_admitted :: "(string \<Rightarrow> 't::linorder option) \<Rightarrow> governance_facts \<Rightarrow> request_context \<Rightarrow> bool \<Rightarrow>
    string option \<Rightarrow> string \<Rightarrow> bool" where
  "actor_admitted parse facts ctx require_write code now \<longleftrightarrow>
     rq_actor_id ctx \<noteq> None \<and>
     (actor_is_space_owner facts ctx \<or>
        list_all (binding_acceptable parse now) (gf_actor_bindings facts) \<and>
        list_ex (binding_gives parse require_write now) (gf_actor_bindings facts)) \<and>
     (\<forall>c. code = Some c \<longrightarrow>
        list_all (capability_acceptable parse c now) (gf_capability_bindings facts) \<and>
        \<not> list_ex (capability_forbids parse now) (gf_capability_bindings facts))"

definition access_granted :: "(string \<Rightarrow> 't::linorder option) \<Rightarrow> governance_facts \<Rightarrow> request_context \<Rightarrow> bool \<Rightarrow>
    string option \<Rightarrow> string \<Rightarrow> bool" where
  "access_granted parse facts ctx require_write code now \<longleftrightarrow>
     (\<exists>space. gf_space facts = Some space \<and> lifecycle_open (sf_lifecycle_status space) require_write) \<and>
     (rq_elevated_tenant_access ctx \<or> actor_admitted parse facts ctx require_write code now)"

lemma check_lifecycle_exact: "check_lifecycle s w = Inr () \<longleftrightarrow> lifecycle_open s w"
  by (auto simp: check_lifecycle_def lifecycle_open_def)

lemma authorize_existing_exact:
  "authorize_actor_for_existing_space parse facts ctx space_id w code now = Inr a \<longleftrightarrow>
     access_granted parse facts ctx w code now \<and>
     a = \<lparr>sz_space_id = space_id, sz_actor_is_space_owner = actor_is_space_owner facts ctx\<rparr>"
proof (cases "gf_space facts")
  case None
  then show ?thesis by (simp add: authorize_actor_for_existing_space_def access_granted_def)
next
  case (Some space)
  have bound: "(if owner then Inr True else actor_has_active_binding parse bs w now) = Inr r \<longleftrightarrow>
      (if owner then r else list_all (binding_acceptable parse now) bs \<and> r = list_ex (binding_gives parse w now) bs)"
    for owner r bs
    by (auto simp: actor_binding_exact)
  have cap: "(case code of None \<Rightarrow> Inr x
      | Some c \<Rightarrow> and_then (capability_is_denied parse cs c now) (\<lambda>denied.
          if denied then Inl (e c) else Inr x)) = Inr y \<longleftrightarrow>
      (\<forall>c. code = Some c \<longrightarrow> list_all (capability_acceptable parse c now) cs \<and>
         \<not> list_ex (capability_forbids parse now) cs) \<and> y = x"
    for cs e and x y :: space_authorization
    by (auto simp: and_then_Inr capability_is_denied_exact split: option.splits)
  show ?thesis
    unfolding authorize_actor_for_existing_space_def Some option.case Let_def and_then_unit
      check_lifecycle_exact access_granted_def actor_admitted_def
    by (auto simp: Some guard_Inr and_then_Inr bound cap)
qed

text \<open>Reading is granted whenever writing is; an archived space is never written.\<close>

lemma access_granted_read:
  assumes "access_granted parse facts ctx True code now"
  shows "access_granted parse facts ctx w None now"
  using assms
  by (auto simp: access_granted_def actor_admitted_def lifecycle_open_def list_ex_iff binding_gives_def)

section \<open>The contract of a governance provider\<close>

locale governance_provider =
  fixes resolve :: "resolve_governance_query \<Rightarrow> ('s, governance_facts) service_op"
    and stored_space :: "i64 \<Rightarrow> i64 \<Rightarrow> 's \<Rightarrow> space_fact option"
    and stored_bindings :: "scope_context \<Rightarrow> governance_actor \<Rightarrow> 's \<Rightarrow> actor_binding list"
    and stored_capabilities :: "scope_context \<Rightarrow> string \<Rightarrow> 's \<Rightarrow> capability_binding list"
  assumes reads_only: "snd (resolve q s) = s"
    and complete_space: "fst (resolve q s) = Inr facts \<Longrightarrow> gf_complete facts \<Longrightarrow>
      gf_space facts = stored_space (sc_tenant_id (rg_scope q)) (sc_space_id (rg_scope q)) s"
    and complete_bindings: "fst (resolve q s) = Inr facts \<Longrightarrow> gf_complete facts \<Longrightarrow>
      mset (gf_actor_bindings facts) =
        (case rg_actor q of None \<Rightarrow> {#} | Some a \<Rightarrow> mset (stored_bindings (rg_scope q) a s))"
    and complete_capabilities: "fst (resolve q s) = Inr facts \<Longrightarrow> gf_complete facts \<Longrightarrow>
      mset (gf_capability_bindings facts) =
        (case rg_capability_code q of None \<Rightarrow> {#} | Some c \<Rightarrow> mset (stored_capabilities (rg_scope q) c s))"
begin

text \<open>The stored facts a request is decided on.\<close>

definition stored_facts :: "request_context \<Rightarrow> u64 \<Rightarrow> string option \<Rightarrow> 's \<Rightarrow> governance_facts" where
  "stored_facts ctx space_id code s =
     (let q = governance_query ctx (rq_tenant_id ctx) space_id code
      in \<lparr>gf_space = stored_space (rq_tenant_id ctx) space_id s,
          gf_actor_bindings = (case rg_actor q of None \<Rightarrow> [] | Some a \<Rightarrow> stored_bindings (rg_scope q) a s),
          gf_capability_bindings = (case code of None \<Rightarrow> [] | Some c \<Rightarrow> stored_capabilities (rg_scope q) c s),
          gf_complete = True\<rparr>)"

lemma resolve_facts_result:
  assumes "resolve_governance_facts resolve ctx space_id code s = (Inr facts, s')"
  shows "s' = s \<and> rq_tenant_id ctx \<le> i64_max \<and> space_id \<le> i64_max \<and> gf_complete facts \<and>
    gf_space facts = gf_space (stored_facts ctx space_id code s) \<and>
    mset (gf_actor_bindings facts) = mset (gf_actor_bindings (stored_facts ctx space_id code s)) \<and>
    mset (gf_capability_bindings facts) = mset (gf_capability_bindings (stored_facts ctx space_id code s)) \<and>
    (\<forall>f. gf_space facts = Some f \<longrightarrow> sf_space_id f = space_id)"
proof -
  from assms obtain t sp where t: "tenant_id_i64 (rq_tenant_id ctx) = Inr t"
    and sp: "space_id_i64 space_id = Inr sp"
    and rest: "op_then (resolve (governance_query ctx t sp code)) (\<lambda>facts. op_pure (check_facts sp facts)) s
      = (Inr facts, s')"
    by (auto simp: resolve_governance_facts_def op_then_def op_pure_def split: sum.splits prod.splits)
  have ts: "t = rq_tenant_id ctx" "sp = space_id" "rq_tenant_id ctx \<le> i64_max" "space_id \<le> i64_max"
    using t sp by (auto simp: tenant_id_i64_Inr space_id_i64_Inr)
  let ?q = "governance_query ctx (rq_tenant_id ctx) space_id code"
  obtain r s1 where run: "resolve ?q s = (r, s1)" by fastforce
  have s1: "s1 = s" using reads_only [of ?q s] run by simp
  from rest run obtain facts0 where r: "r = Inr facts0" and chk: "check_facts space_id facts0 = Inr facts"
    and s': "s' = s1"
    by (auto simp: op_then_def op_pure_def ts split: sum.splits)
  have facts: "facts0 = facts" "gf_complete facts" "\<forall>f. gf_space facts = Some f \<longrightarrow> sf_space_id f = space_id"
    using chk by (auto simp: check_facts_def split: if_splits option.splits)
  have got: "fst (resolve ?q s) = Inr facts" by (simp add: run r facts(1))
  note laws = complete_space [OF got facts(2)] complete_bindings [OF got facts(2)]
    complete_capabilities [OF got facts(2)]
  show ?thesis
    using laws facts s' s1 ts
    by (auto simp: stored_facts_def Let_def governance_query_def split: option.splits)
qed

text \<open>The decision depends on the facts as a set, so on the stored facts.\<close>

lemma access_granted_mset:
  assumes "gf_space f = gf_space g" and "mset (gf_actor_bindings f) = mset (gf_actor_bindings g)"
    and "mset (gf_capability_bindings f) = mset (gf_capability_bindings g)"
  shows "access_granted parse f ctx w code now \<longleftrightarrow> access_granted parse g ctx w code now"
    and "actor_is_space_owner f ctx = actor_is_space_owner g ctx"
proof -
  note sets = assms(2,3) [THEN mset_eq_setD]
  show owner: "actor_is_space_owner f ctx = actor_is_space_owner g ctx"
    by (simp add: actor_is_space_owner_def assms(1))
  show "access_granted parse f ctx w code now \<longleftrightarrow> access_granted parse g ctx w code now"
    by (simp add: access_granted_def actor_admitted_def owner assms(1) sets list_all_iff list_ex_iff)
qed

lemma authorize_grounded:
  assumes "authorize_actor_for_space parse resolve ctx space_id w code now s = (Inr a, s')"
  defines "query \<equiv> if rq_elevated_tenant_access ctx then None else code"
  shows "s' = s \<and> rq_tenant_id ctx \<le> i64_max \<and> space_id \<le> i64_max \<and>
    access_granted parse (stored_facts ctx space_id query s) ctx w query now \<and>
    a = \<lparr>sz_space_id = space_id,
         sz_actor_is_space_owner = actor_is_space_owner (stored_facts ctx space_id query s) ctx\<rparr> \<and>
    (\<exists>f. stored_space (rq_tenant_id ctx) space_id s = Some f \<and> sf_space_id f = space_id)"
proof -
  from assms(1) obtain facts where
    run: "resolve_governance_facts resolve ctx space_id query s = (Inr facts, s')" and
    dec: "authorize_actor_for_existing_space parse facts ctx space_id w query now = Inr a"
    by (auto simp: authorize_actor_for_space_def Let_def query_def op_then_def op_pure_def
        split: sum.splits prod.splits)
  note res = resolve_facts_result [OF run]
  note granted = dec [unfolded authorize_existing_exact]
  have same: "access_granted parse facts ctx w query now =
      access_granted parse (stored_facts ctx space_id query s) ctx w query now"
    "actor_is_space_owner facts ctx = actor_is_space_owner (stored_facts ctx space_id query s) ctx"
    using access_granted_mset [of facts "stored_facts ctx space_id query s"] res by blast+
  obtain f where f: "gf_space facts = Some f"
    using granted by (auto simp: access_granted_def)
  then have "stored_space (rq_tenant_id ctx) space_id s = Some f \<and> sf_space_id f = space_id"
    using res by (simp add: stored_facts_def Let_def)
  then show ?thesis
    using res granted same by blast
qed

end

section \<open>Several spaces under the contract\<close>

lemma first_occurrences_spec:
  "set (first_occurrences seen ids) = set ids - seen \<and> distinct (first_occurrences seen ids)"
proof (induction seen ids rule: first_occurrences.induct)
  case (2 seen x xs)
  then show ?case by (cases "x \<in> seen") auto
qed simp

lemma unique_bounded_ok:
  "unique_bounded_space_ids ids = Inr us \<longleftrightarrow>
     us = first_occurrences {} ids \<and> card (set ids) \<le> max_governance_facts"
proof -
  have "length (first_occurrences {} ids) = card (set ids)"
    using first_occurrences_spec [of "{}" ids] distinct_card by force
  then show ?thesis by (auto simp: unique_bounded_space_ids_def Let_def)
qed

lemma authorize_each_read_only:
  "(\<And>i. snd (authorize i s) = s) \<Longrightarrow> snd (authorize_each authorize ids s) = s"
  by (induction ids) (auto simp: op_then_def op_pure_def split: sum.splits prod.splits, (metis snd_conv)+)

lemma authorize_each_ok:
  assumes "\<And>i. snd (authorize i s) = s"
  shows "authorize_each authorize ids s = (Inr as, s') \<longleftrightarrow>
    s' = s \<and> list_all2 (\<lambda>i a. authorize i s = (Inr a, s)) ids as"
proof (induction ids arbitrary: as s')
  case (Cons i ids)
  obtain r where one: "authorize i s = (r, s)" using assms [of i] by (metis prod.collapse)
  obtain rest where all: "authorize_each authorize ids s = (rest, s)"
    using authorize_each_read_only [of authorize s ids, OF assms] by (metis prod.collapse)
  show ?case
    using Cons.IH by (cases r; cases as; cases rest) (auto simp: one all op_then_def op_pure_def)
qed (auto simp: op_pure_def)

context governance_provider
begin

lemma facts_read_only: "snd (resolve_governance_facts resolve ctx space_id code s) = s"
  using reads_only
  by (auto simp: resolve_governance_facts_def op_then_def op_pure_def split: sum.splits prod.splits)
    (metis snd_conv)+

lemma authorize_read_only: "snd (authorize_actor_for_space parse resolve ctx space_id w code now s) = s"
  using facts_read_only
  by (auto simp: authorize_actor_for_space_def Let_def op_then_def op_pure_def split: sum.splits prod.splits)
    (metis snd_conv)+

lemma authorize_several:
  "op_then (op_pure (unique_bounded_space_ids ids))
     (authorize_each (\<lambda>i. authorize_actor_for_space parse resolve ctx i w code (now i))) s = (Inr as, s') \<longleftrightarrow>
   card (set ids) \<le> max_governance_facts \<and> s' = s \<and>
   list_all2 (\<lambda>i a. authorize_actor_for_space parse resolve ctx i w code (now i) s = (Inr a, s))
     (first_occurrences {} ids) as"
proof (cases "unique_bounded_space_ids ids")
  case (Inr us)
  then show ?thesis
    using unique_bounded_ok [of ids us]
      authorize_each_ok [of "\<lambda>i. authorize_actor_for_space parse resolve ctx i w code (now i)" s us as s',
        OF authorize_read_only]
    by (simp add: op_then_def op_pure_def)
next
  case (Inl e)
  then have "\<not> card (set ids) \<le> max_governance_facts"
    using unique_bounded_ok [of ids "first_occurrences {} ids"] by auto
  with Inl show ?thesis by (simp add: op_then_def op_pure_def)
qed

lemma stored_facts_fields:
  "gf_space (stored_facts ctx space_id code s) = stored_space (rq_tenant_id ctx) space_id s"
  "gf_actor_bindings (stored_facts ctx space_id code s) =
     gf_actor_bindings (stored_facts ctx space_id None s)"
  by (cases "rq_actor_id ctx"; simp add: stored_facts_def Let_def governance_query_def)+

text \<open>What an authorization takes: storable ids, a complete answer, and a stored space and facts
  that grant the access.\<close>

lemma authorize_exact:
  "authorize_actor_for_space parse resolve ctx space_id w code now s = (Inr a, s') \<longleftrightarrow>
   (let query = if rq_elevated_tenant_access ctx then None else code;
        stored = stored_facts ctx space_id query s
    in s' = s \<and> rq_tenant_id ctx \<le> i64_max \<and> space_id \<le> i64_max \<and>
       (\<exists>facts. fst (resolve (governance_query ctx (rq_tenant_id ctx) space_id query) s) = Inr facts \<and>
          gf_complete facts) \<and>
       (\<forall>f. gf_space stored = Some f \<longrightarrow> sf_space_id f = space_id) \<and>
       access_granted parse stored ctx w query now \<and>
       a = \<lparr>sz_space_id = space_id, sz_actor_is_space_owner = actor_is_space_owner stored ctx\<rparr>)"
  (is "_ \<longleftrightarrow> ?right")
proof -
  let ?query = "if rq_elevated_tenant_access ctx then None else code"
  let ?q = "governance_query ctx (rq_tenant_id ctx) space_id ?query"
  let ?stored = "stored_facts ctx space_id ?query s"
  have fwd: "?right" if run: "authorize_actor_for_space parse resolve ctx space_id w code now s = (Inr a, s')"
  proof -
    note grounded = authorize_grounded [OF run]
    have "\<exists>facts. fst (resolve ?q s) = Inr facts \<and> gf_complete facts"
      using run grounded
      by (auto simp: authorize_actor_for_space_def resolve_governance_facts_def Let_def op_then_def
          op_pure_def check_facts_def tenant_id_i64_Inr space_id_i64_Inr
          split: sum.splits prod.splits if_splits)
    then show ?thesis
      using grounded by (auto simp: Let_def stored_facts_def)
  qed
  have bwd: "authorize_actor_for_space parse resolve ctx space_id w code now s = (Inr a, s')" if ?right
  proof -
    from that have ids: "rq_tenant_id ctx \<le> i64_max" "space_id \<le> i64_max" and s': "s' = s"
      and space: "\<forall>f. gf_space ?stored = Some f \<longrightarrow> sf_space_id f = space_id"
      and granted: "access_granted parse ?stored ctx w ?query now"
      and a: "a = \<lparr>sz_space_id = space_id, sz_actor_is_space_owner = actor_is_space_owner ?stored ctx\<rparr>"
      by (simp_all add: Let_def)
    from that obtain facts where got: "fst (resolve ?q s) = Inr facts" and complete: "gf_complete facts"
      by (auto simp: Let_def)
    have res: "resolve ?q s = (Inr facts, s)" using got reads_only [of ?q s] by (metis prod.collapse)
    have sp: "gf_space facts = gf_space ?stored"
      using complete_space [OF got complete] unfolding stored_facts_fields(1)
      by (simp add: governance_query_def)
    have same: "resolve_governance_facts resolve ctx space_id ?query s = (Inr facts, s)"
      using ids complete space sp
      by (auto simp: resolve_governance_facts_def op_then_def op_pure_def check_facts_def res
          tenant_id_i64_Inr [THEN iffD2] space_id_i64_Inr [THEN iffD2] split: option.splits)
    have "access_granted parse facts ctx w ?query now"
      "actor_is_space_owner facts ctx = actor_is_space_owner ?stored ctx"
      using access_granted_mset [of facts ?stored] resolve_facts_result [OF same] granted by blast+
    then show ?thesis
      by (simp add: authorize_actor_for_space_def Let_def op_then_def op_pure_def same
          authorize_existing_exact [THEN iffD2] a s')
  qed
  show ?thesis using fwd bwd by blast
qed

end

text \<open>A provider that answers a query with a capability completely also answers it without.\<close>

locale monotone_governance_provider = governance_provider +
  assumes fewer_facts: "fst (resolve q s) = Inr facts \<Longrightarrow> gf_complete facts \<Longrightarrow>
    \<exists>facts'. fst (resolve (q\<lparr>rg_capability_code := None\<rparr>) s) = Inr facts' \<and> gf_complete facts'"
begin

text \<open>An authorization to write is one to read at the same time, with no capability asked.\<close>

lemma write_gives_read:
  assumes "authorize_actor_for_space parse resolve ctx space_id True code now s = (Inr a, s')"
  shows "authorize_actor_for_space parse resolve ctx space_id False None now s = (Inr a, s)"
proof -
  let ?query = "if rq_elevated_tenant_access ctx then None else code"
  let ?q = "governance_query ctx (rq_tenant_id ctx) space_id"
  let ?f = "stored_facts ctx space_id ?query s" and ?g = "stored_facts ctx space_id None s"
  from assms obtain facts where got: "fst (resolve (?q ?query) s) = Inr facts" and complete: "gf_complete facts"
    and ids: "rq_tenant_id ctx \<le> i64_max" "space_id \<le> i64_max"
    and space: "\<forall>f. gf_space ?f = Some f \<longrightarrow> sf_space_id f = space_id"
    and granted: "access_granted parse ?f ctx True ?query now"
    and a: "a = \<lparr>sz_space_id = space_id, sz_actor_is_space_owner = actor_is_space_owner ?f ctx\<rparr>"
    unfolding authorize_exact Let_def by blast
  have q: "(?q ?query)\<lparr>rg_capability_code := None\<rparr> = ?q None" by (simp add: governance_query_def)
  have answer: "\<exists>facts'. fst (resolve (?q None) s) = Inr facts' \<and> gf_complete facts'"
    using fewer_facts [OF got complete] unfolding q .
  have same: "gf_space ?f = gf_space ?g" "gf_actor_bindings ?f = gf_actor_bindings ?g"
    by (simp only: stored_facts_fields(1), rule stored_facts_fields(2))
  have owner: "actor_is_space_owner ?f ctx = actor_is_space_owner ?g ctx"
    by (simp add: actor_is_space_owner_def same)
  have "access_granted parse ?g ctx False None now"
    using access_granted_read [OF granted, of False]
    by (simp add: access_granted_def actor_admitted_def owner same)
  then show ?thesis
    using ids space answer unfolding authorize_exact Let_def by (simp add: same a owner)
qed

end

end
