(* ===== verification/Access_Properties.thy ===== *)
theory Access_Properties
  imports Access_Laws
begin

text \<open>
  The data plane over the reference runtime meets the contract of a governance provider, and
  the properties of space access: who is admitted, on what facts, and what an admitted
  actor may read.
\<close>

section \<open>The data plane as a governance provider\<close>

definition stored_space_fact :: "i64 \<Rightarrow> i64 \<Rightarrow> reference_runtime \<Rightarrow> space_fact option" where
  "stored_space_fact t sp rt = hm_get (rm_governance_spaces rt) (GovernanceSpaceKey t sp)"

lemma plane_governance_result:
  "fst (plane_resolve_space_governance core q rt) = Inr facts \<Longrightarrow>
     fst (resolve_space_governance q rt) = Inr facts"
  by (cases "ct_ports core GovernanceAccess"; cases "resolve_space_governance q rt")
    (auto simp: plane_resolve_space_governance_def dispatch_missing dispatch_present split: sum.splits)

lemma plane_governance_no_write: "snd (plane_resolve_space_governance core q rt) = rt"
  using resolve_no_write [of q rt]
  by (cases "ct_ports core GovernanceAccess"; cases "resolve_space_governance q rt")
    (auto simp: plane_resolve_space_governance_def dispatch_missing dispatch_present split: sum.splits)

lemma resolved_complete:
  assumes "fst (resolve_space_governance q rt) = Inr facts" and "gf_complete facts"
  shows "gf_space facts = stored_space_fact (sc_tenant_id (rg_scope q)) (sc_space_id (rg_scope q)) rt"
    and "mset (gf_actor_bindings facts) =
      (case rg_actor q of None \<Rightarrow> {#} | Some a \<Rightarrow> mset (actor_facts (rg_scope q) a rt))"
    and "mset (gf_capability_bindings facts) =
      (case rg_capability_code q of None \<Rightarrow> {#} | Some c \<Rightarrow> mset (capability_facts (rg_scope q) c rt))"
  using assms
  by (auto simp: resolve_space_governance_def with_lock_def stored_space_fact_def Let_def
      bounded_facts_spec(6) split: sum.splits option.splits prod.splits if_splits)

lemma resolved_fewer:
  assumes "fst (resolve_space_governance q rt) = Inr facts" and "gf_complete facts"
  shows "\<exists>facts'. fst (resolve_space_governance (q\<lparr>rg_capability_code := None\<rparr>) rt) = Inr facts' \<and>
    gf_complete facts'"
  using assms
  by (auto simp: resolve_space_governance_def with_lock_def Let_def
      split: sum.splits option.splits prod.splits if_splits)

lemma plane_governance_fewer:
  assumes "fst (plane_resolve_space_governance core q rt) = Inr facts" and "gf_complete facts"
  shows "\<exists>facts'. fst (plane_resolve_space_governance core (q\<lparr>rg_capability_code := None\<rparr>) rt) = Inr facts' \<and>
    gf_complete facts'"
proof (cases "ct_ports core GovernanceAccess")
  case None
  with assms show ?thesis by (simp add: plane_resolve_space_governance_def dispatch_missing)
next
  case (Some x)
  obtain r rt' where run: "resolve_space_governance (q\<lparr>rg_capability_code := None\<rparr>) rt = (r, rt')" by fastforce
  from resolved_fewer [OF plane_governance_result [OF assms(1)] assms(2)] run Some
  show ?thesis by (auto simp: plane_resolve_space_governance_def dispatch_present)
qed

interpretation reference_governance: monotone_governance_provider "plane_resolve_space_governance core"
  stored_space_fact actor_facts capability_facts for core
proof
  fix q rt facts
  show "snd (plane_resolve_space_governance core q rt) = rt"
    by (rule plane_governance_no_write)
  assume "fst (plane_resolve_space_governance core q rt) = Inr facts" and complete: "gf_complete facts"
  from plane_governance_result [OF this(1)] complete
  show "gf_space facts = stored_space_fact (sc_tenant_id (rg_scope q)) (sc_space_id (rg_scope q)) rt"
    and "mset (gf_actor_bindings facts) =
      (case rg_actor q of None \<Rightarrow> {#} | Some a \<Rightarrow> mset (actor_facts (rg_scope q) a rt))"
    and "mset (gf_capability_bindings facts) =
      (case rg_capability_code q of None \<Rightarrow> {#} | Some c \<Rightarrow> mset (capability_facts (rg_scope q) c rt))"
    by (fact resolved_complete)+
  show "\<exists>facts'. fst (plane_resolve_space_governance core (q\<lparr>rg_capability_code := None\<rparr>) rt) = Inr facts' \<and>
      gf_complete facts'"
    by (rule plane_governance_fewer) fact+
qed

text \<open>When the reference runtime answers completely.\<close>

definition governance_answers :: "'p core_runtime \<Rightarrow> resolve_governance_query \<Rightarrow> reference_runtime \<Rightarrow> bool" where
  "governance_answers core q rt \<longleftrightarrow>
     ct_ports core GovernanceAccess \<noteq> None \<and> GovernanceSpacesLock \<notin> rm_poisoned rt \<and>
     (\<forall>a. rg_actor q = Some a \<longrightarrow> GovernanceBindingsLock \<notin> rm_poisoned rt \<and>
        length (actor_facts (rg_scope q) a rt) \<le> rg_fact_limit q) \<and>
     (\<forall>c. rg_capability_code q = Some c \<longrightarrow> GovernanceCapabilitiesLock \<notin> rm_poisoned rt \<and>
        length (capability_facts (rg_scope q) c rt) \<le> rg_fact_limit q)"

lemma resolve_answers:
  assumes "validate_governance_fact_limit (rg_fact_limit q) = Inr (rg_fact_limit q)"
  shows "(\<exists>facts. fst (resolve_space_governance q rt) = Inr facts \<and> gf_complete facts) \<longleftrightarrow>
    GovernanceSpacesLock \<notin> rm_poisoned rt \<and>
     (\<forall>a. rg_actor q = Some a \<longrightarrow> GovernanceBindingsLock \<notin> rm_poisoned rt \<and>
        length (actor_facts (rg_scope q) a rt) \<le> rg_fact_limit q) \<and>
     (\<forall>c. rg_capability_code q = Some c \<longrightarrow> GovernanceCapabilitiesLock \<notin> rm_poisoned rt \<and>
        length (capability_facts (rg_scope q) c rt) \<le> rg_fact_limit q)"
  by (cases "rg_actor q"; cases "rg_capability_code q")
    (auto simp: resolve_space_governance_def assms with_lock_def bounded_facts_def Let_def)

lemma plane_governance_answers:
  assumes "validate_governance_fact_limit (rg_fact_limit q) = Inr (rg_fact_limit q)"
  shows "(\<exists>facts. fst (plane_resolve_space_governance core q rt) = Inr facts \<and> gf_complete facts) \<longleftrightarrow>
    governance_answers core q rt"
proof (cases "ct_ports core GovernanceAccess")
  case None
  then show ?thesis
    by (simp add: plane_resolve_space_governance_def dispatch_missing governance_answers_def)
next
  case (Some x)
  obtain r rt' where run: "resolve_space_governance q rt = (r, rt')" by fastforce
  show ?thesis
    using resolve_answers [OF assms, of rt] Some
    by (cases r) (simp_all add: plane_resolve_space_governance_def dispatch_present governance_answers_def run)
qed

text \<open>The facts the reference runtime stores for a request.\<close>

definition stored_governance :: "request_context \<Rightarrow> u64 \<Rightarrow> string option \<Rightarrow> reference_runtime \<Rightarrow> governance_facts" where
  "stored_governance ctx space_id code rt =
     (let q = governance_query ctx (rq_tenant_id ctx) space_id code
      in \<lparr>gf_space = hm_get (rm_governance_spaces rt) (GovernanceSpaceKey (rq_tenant_id ctx) space_id),
          gf_actor_bindings = (case rg_actor q of None \<Rightarrow> [] | Some a \<Rightarrow> actor_facts (rg_scope q) a rt),
          gf_capability_bindings = (case code of None \<Rightarrow> [] | Some c \<Rightarrow> capability_facts (rg_scope q) c rt),
          gf_complete = True\<rparr>)"

lemma stored_governance_facts:
  "stored_governance ctx space_id code rt = reference_governance.stored_facts ctx space_id code rt"
  by (simp add: stored_governance_def reference_governance.stored_facts_def stored_space_fact_def Let_def)

lemma governance_query_limit [simp]:
  "validate_governance_fact_limit (rg_fact_limit (governance_query ctx t sp code)) =
     Inr (rg_fact_limit (governance_query ctx t sp code))"
  by (simp add: validate_governance_fact_limit_def governance_query_def max_governance_facts_def)

section \<open>A sample space\<close>

definition sample_parse :: "string \<Rightarrow> nat option" where
  "sample_parse s = (if s = [] then None else Some (length s))"

definition sample_space :: space_fact where
  "sample_space = \<lparr>sf_space_id = 2, sf_organization_id = None, sf_owner_subject_type = ''user'',
     sf_owner_subject_id = ''7'', sf_lifecycle_status = ''active''\<rparr>"

definition sample_access_runtime :: reference_runtime where
  "sample_access_runtime = snd (seed_governance_space 1 sample_space runtime_new)"

definition sample_core :: "nat core_runtime" where
  "sample_core =
     (core_runtime_new (resolved_metadata (resolution (search_first_phase1 :: unit profile_draft))))
       \<lparr>ct_ports := (\<lambda>_. Some 0)\<rparr>"

definition sample_context :: request_context where
  "sample_context = for_open_surface ''key'' 1 (Some 7)"

section \<open>Properties\<close>

text \<open>
  C32. The decision on a snapshot, with no order of checks left: the space is active, or
  archived and only read; and the context is elevated, or its actor owns the space or holds
  a binding in force that gives the access, with every binding well-formed, and no
  capability binding in force denies or leaves open the operation.
\<close>

theorem authorization_decision_exact:
  "authorize_actor_for_existing_space parse facts ctx space_id w code now = Inr a \<longleftrightarrow>
     access_granted parse facts ctx w code now \<and>
     a = \<lparr>sz_space_id = space_id, sz_actor_is_space_owner = actor_is_space_owner facts ctx\<rparr>"
  by (rule authorize_existing_exact)

text \<open>
  C33. An authorization over the reference runtime is granted exactly when the ids fit, the
  runtime answers completely (at most 32 facts of each sort), the space is stored, and the
  stored facts grant the access. It never writes.
\<close>

theorem authorization_rests_on_stored_facts:
  "authorize_actor_for_space parse (plane_resolve_space_governance core) ctx space_id w code now rt = (Inr a, rt') \<longleftrightarrow>
   (let query = if rq_elevated_tenant_access ctx then None else code;
        stored = stored_governance ctx space_id query rt
    in rt' = rt \<and> rq_tenant_id ctx \<le> i64_max \<and> space_id \<le> i64_max \<and>
       governance_answers core (governance_query ctx (rq_tenant_id ctx) space_id query) rt \<and>
       (case gf_space stored of None \<Rightarrow> True | Some f \<Rightarrow> sf_space_id f = space_id) \<and>
       access_granted parse stored ctx w query now \<and>
       a = \<lparr>sz_space_id = space_id, sz_actor_is_space_owner = actor_is_space_owner stored ctx\<rparr>)"
  unfolding reference_governance.authorize_exact stored_governance_facts Let_def
    plane_governance_answers [OF governance_query_limit]
  by (auto split: option.splits)

text \<open>
  Who may write a space may read it: after a successful write assertion the access
  assertion succeeds at the same time, and the space is not archived.
\<close>

theorem writing_implies_reading:
  assumes "assert_actor_can_access_space_for_write parse (plane_resolve_space_governance core) ctx space_id now rt = (Inr (), rt')"
  shows "assert_actor_can_access_space parse (plane_resolve_space_governance core) ctx space_id now rt = (Inr (), rt) \<and>
    (\<exists>f. hm_get (rm_governance_spaces rt) (GovernanceSpaceKey (rq_tenant_id ctx) space_id) = Some f \<and>
      sf_lifecycle_status f = ''active'')"
proof -
  from assms obtain a where run: "authorize_actor_for_space parse (plane_resolve_space_governance core) ctx space_id
      True (Some capability_memory_write) now rt = (Inr a, rt')"
    by (auto simp: assert_actor_can_access_space_for_write_def op_then_def op_pure_def
        split: sum.splits prod.splits)
  from reference_governance.authorize_grounded [OF run]
  have "\<exists>f. hm_get (rm_governance_spaces rt) (GovernanceSpaceKey (rq_tenant_id ctx) space_id) = Some f \<and>
      sf_lifecycle_status f = ''active''"
    by (auto simp: access_granted_def lifecycle_open_def reference_governance.stored_facts_fields stored_space_fact_def)
  then show ?thesis
    using reference_governance.write_gives_read [OF run]
    by (simp add: assert_actor_can_access_space_def authorize_actor_for_space_access_def op_then_def op_pure_def)
qed

theorem writing_implies_reading_witness:
  "assert_actor_can_access_space sample_parse (plane_resolve_space_governance sample_core) sample_context 2 ''now''
     sample_access_runtime = (Inr (), sample_access_runtime)"
proof -
  have "assert_actor_can_access_space_for_write sample_parse (plane_resolve_space_governance sample_core) sample_context 2
      ''now'' sample_access_runtime = (Inr (), sample_access_runtime)"
    by code_simp
  from writing_implies_reading [OF this] show ?thesis by blast
qed

text \<open>
  A request for several spaces is one authorization per distinct id, in the order of
  first occurrence: it succeeds exactly when there are at most 32 distinct ids and each is
  authorized, and the answer lists each once.
\<close>

theorem several_spaces_exact:
  "(authorize_actor_for_retrieval_spaces parse (plane_resolve_space_governance core) ctx ids now rt = (Inr as, rt') \<longleftrightarrow>
     card (set ids) \<le> max_governance_facts \<and> rt' = rt \<and>
     list_all2 (\<lambda>i a. authorize_actor_for_space_retrieval parse (plane_resolve_space_governance core) ctx i (now i) rt =
         (Inr a, rt)) (first_occurrences {} ids) as) \<and>
   set (first_occurrences {} ids) = set ids \<and> distinct (first_occurrences {} ids)"
  using reference_governance.authorize_several [of ids] first_occurrences_spec [of "{}" ids]
  by (simp add: authorize_actor_for_retrieval_spaces_def authorize_actor_for_space_retrieval_def)

text \<open>
  The read scope handed to the stores admits what the access check admits: for the five
  sensitivity levels of the contract, a store reading under the scope of the context
  returns a record exactly when the access check lets the actor read it. For any other
  level the two differ, and only for an elevated context that does not own the space.
\<close>

theorem read_scope_matches_access:
  "readable (sensitivity_read_scope_from_i32 (access_read_scope ctx owner)) r \<longleftrightarrow>
     actor_may_read_sensitivity ctx (cr_sensitivity_level r) owner \<or>
     \<not> owner \<and> rq_elevated_tenant_access ctx \<and>
     cr_sensitivity_level r \<notin> {''public'', ''internal'', ''private'', ''sensitive'', ''restricted''}"
  by (auto simp: readable_def sensitivity_read_scope_from_i32_def access_read_scope_def
      actor_may_read_sensitivity_def)

end
