(* ===== verification/Sql_Tables.thy ===== *)
theory Sql_Tables
  imports Stores
begin

text \<open>
  A table as the list of its rows, and the statements the store runs on it: an \<^verbatim>\<open>UPDATE\<close> with
  a condition and its number of affected rows, and an ordered, limited \<^verbatim>\<open>SELECT\<close> (\<^verbatim>\<open>top_by\<close>).
  A comparison with a \<^verbatim>\<open>NULL\<close> column is unknown, so it does not select the row. Timestamps are
  text columns and compare as text; \<^verbatim>\<open>clock\<close> is what one call reads from the system clock.
\<close>

datatype memory_sql_dialect = Sqlite | Postgres

record clock =
  ck_now :: string
  ck_after :: "nat \<Rightarrow> string"

text \<open>The clock moves forward: a time in the future is not before now.\<close>

definition clock_ok :: "clock \<Rightarrow> bool" where
  "clock_ok ck \<longleftrightarrow> (\<forall>s > 0. ck_now ck < ck_after ck s)"

definition sql_eq :: "'a option \<Rightarrow> 'a \<Rightarrow> bool" where
  "sql_eq column v \<longleftrightarrow> column = Some v"

definition sql_after :: "'a::linorder option \<Rightarrow> 'a \<Rightarrow> bool" where
  "sql_after column v \<longleftrightarrow> (case column of None \<Rightarrow> False | Some x \<Rightarrow> v < x)"

text \<open>\<^verbatim>\<open>column IS NULL OR column <= v\<close>.\<close>

definition sql_null_or_upto :: "'a::linorder option \<Rightarrow> 'a \<Rightarrow> bool" where
  "sql_null_or_upto column v \<longleftrightarrow> (case column of None \<Rightarrow> True | Some x \<Rightarrow> x \<le> v)"

lemma sql_null_or_upto_iff: "sql_null_or_upto c v \<longleftrightarrow> \<not> sql_after c v"
  by (auto simp: sql_null_or_upto_def sql_after_def split: option.split)

definition update_where :: "('r \<Rightarrow> bool) \<Rightarrow> ('r \<Rightarrow> 'r) \<Rightarrow> 'r list \<Rightarrow> 'r list" where
  "update_where p f t = map (\<lambda>r. if p r then f r else r) t"

definition rows_affected :: "('r \<Rightarrow> bool) \<Rightarrow> 'r list \<Rightarrow> nat" where
  "rows_affected p t = length (filter p t)"

lemma length_update_where [simp]: "length (update_where p f t) = length t"
  by (simp add: update_where_def)

lemma set_update_where: "set (update_where p f t) = {r \<in> set t. \<not> p r} \<union> f ` {r \<in> set t. p r}"
  by (auto simp: update_where_def)

lemma update_where_none: "rows_affected p t = 0 \<Longrightarrow> update_where p f t = t"
  by (induction t) (auto simp: update_where_def rows_affected_def split: if_splits)

lemma rows_affected_0: "rows_affected p t = 0 \<longleftrightarrow> (\<forall>r \<in> set t. \<not> p r)"
  by (auto simp: rows_affected_def filter_empty_conv)

lemma map_update_where: "(\<And>r. p r \<Longrightarrow> k (f r) = k r) \<Longrightarrow> map k (update_where p f t) = map k t"
  by (simp add: update_where_def)

lemma update_where_same: "(\<And>r. r \<in> set t \<Longrightarrow> p r = q r) \<Longrightarrow> update_where p f t = update_where q f t"
  by (simp add: update_where_def)

text \<open>A row found by its key.\<close>

lemma find_update_where:
  assumes "\<And>r. p r \<Longrightarrow> k (f r) = k r"
  shows "find (\<lambda>r. k r = x) (update_where p f t) =
    map_option (\<lambda>r. if p r then f r else r) (find (\<lambda>r. k r = x) t)"
  using assms by (induction t) (auto simp: update_where_def)

lemma find_Some_in: "find p xs = Some x \<Longrightarrow> x \<in> set xs \<and> p x"
  by (auto simp: find_Some_iff)

lemma find_distinct:
  assumes "distinct (map k t)" and "r \<in> set t"
  shows "find (\<lambda>r'. k r' = k r) t = Some r"
  using assms by (induction t) (auto simp: image_iff)

text \<open>
  Tables whose rows live through a state machine of their own. A statement moves some rows one
  step along their life (\<^verbatim>\<open>evolves_by\<close>); an insert adds a row. The locale \<^verbatim>\<open>row_life\<close> is the contract
  of the row steps, \<^verbatim>\<open>row_machine\<close> that of the operations on the table; what holds of every
  run is proved here once for all tables.
\<close>

definition evolves_by :: "('r \<Rightarrow> 'r \<Rightarrow> bool) \<Rightarrow> 'r list \<Rightarrow> 'r list \<Rightarrow> bool" where
  "evolves_by step t t' \<longleftrightarrow> list_all2 step\<^sup>*\<^sup>* t t'"

locale row_life =
  fixes step :: "'r \<Rightarrow> 'r \<Rightarrow> bool"
    and key :: "'r \<Rightarrow> 'k"
    and row_fine is_open :: "'r \<Rightarrow> bool"
  assumes step_key: "step r r' \<Longrightarrow> key r' = key r"
    and step_fine: "step r r' \<Longrightarrow> row_fine r \<Longrightarrow> row_fine r'"
    and step_open: "step r r' \<Longrightarrow> is_open r"
begin

lemma steps_key: "step\<^sup>*\<^sup>* r r' \<Longrightarrow> key r' = key r"
  by (induction rule: rtranclp_induct) (auto dest: step_key)

lemma steps_fine: "step\<^sup>*\<^sup>* r r' \<Longrightarrow> row_fine r \<Longrightarrow> row_fine r'"
  by (induction rule: rtranclp_induct) (auto dest: step_fine)

lemma steps_closed: "step\<^sup>*\<^sup>* r r' \<Longrightarrow> \<not> is_open r \<Longrightarrow> r' = r"
  by (induction rule: converse_rtranclp_induct) (auto dest: step_open)

lemma evolves_refl [simp]: "evolves_by step t t"
  by (simp add: evolves_by_def list.rel_refl)

lemma evolves_trans: "evolves_by step t u \<Longrightarrow> evolves_by step u v \<Longrightarrow> evolves_by step t v"
  unfolding evolves_by_def by (rule list_all2_trans [of "step\<^sup>*\<^sup>*"]) auto

lemma evolves_map: "(\<And>r. r \<in> set t \<Longrightarrow> f r = r \<or> step r (f r)) \<Longrightarrow> evolves_by step t (map f t)"
  unfolding evolves_by_def list_all2_map2 list_all2_same by (metis r_into_rtranclp rtranclp.rtrancl_refl)

lemma evolves_update: "(\<And>r. r \<in> set t \<Longrightarrow> p r \<Longrightarrow> step r (f r)) \<Longrightarrow> evolves_by step t (update_where p f t)"
  unfolding update_where_def by (rule evolves_map) auto

lemma evolves_keys: "evolves_by step t t' \<Longrightarrow> map key t' = map key t"
  unfolding evolves_by_def by (induction rule: list_all2_induct) (auto dest: steps_key)

lemma evolves_fine: "evolves_by step t t' \<Longrightarrow> \<forall>r \<in> set t. row_fine r \<Longrightarrow> \<forall>r \<in> set t'. row_fine r"
  unfolding evolves_by_def by (induction rule: list_all2_induct) (auto intro: steps_fine)

lemma evolves_closed: "evolves_by step t t' \<Longrightarrow> r \<in> set t \<Longrightarrow> \<not> is_open r \<Longrightarrow> r \<in> set t'"
  by (metis evolves_by_def in_set_conv_nth list_all2_conv_all_nth steps_closed)

end

locale row_machine = row_life +
  fixes table_step :: "'a list \<Rightarrow> 'a list \<Rightarrow> bool"
    and table_fine :: "'a list \<Rightarrow> bool"
  assumes table_step_rows:
    "table_step t t' \<Longrightarrow> table_fine t \<Longrightarrow> \<exists>u new. t' = u @ new \<and> evolves_by step t u \<and> table_fine t'"
begin

lemma table_steps_rows:
  assumes "table_step\<^sup>*\<^sup>* t t'" and "table_fine t"
  shows "\<exists>u new. t' = u @ new \<and> evolves_by step t u \<and> table_fine t'"
  using assms(1)
proof (induction rule: rtranclp_induct)
  case base
  then show ?case using assms(2) evolves_refl by blast
next
  case (step v w)
  then obtain u new where u: "v = u @ new" "evolves_by step t u" "table_fine v"
    by blast
  obtain x y where x: "w = x @ y" "evolves_by step v x" "table_fine w"
    using table_step_rows [OF step.hyps(2) u(3)] by blast
  have "length v = length x"
    using x(2) unfolding evolves_by_def by (rule list_all2_lengthD)
  then have "length x = length u + length new"
    by (simp add: u(1))
  then obtain x1 x2 where s: "x = x1 @ x2" "length x1 = length u"
    by (metis append_take_drop_id le_add1 length_take min.absorb2)
  then have "evolves_by step u x1"
    using x(2) u(1) by (auto simp: evolves_by_def list_all2_append)
  then show ?case
    using x s u(2) evolves_trans [of t u x1] by (metis append.assoc)
qed

lemma runs_keep_fine: "table_step\<^sup>*\<^sup>* t t' \<Longrightarrow> table_fine t \<Longrightarrow> table_fine t'"
  using table_steps_rows by blast

lemma runs_keep_closed: "table_step\<^sup>*\<^sup>* t t' \<Longrightarrow> table_fine t \<Longrightarrow> r \<in> set t \<Longrightarrow> \<not> is_open r \<Longrightarrow> r \<in> set t'"
  using table_steps_rows evolves_closed by (metis Un_iff set_append)

end

end
