(* ===== verification/Filter_Pushdown.thy ===== *)
theory Filter_Pushdown
  imports Metadata_Filter Sql_Tables
begin

text \<open>
  The push-down of a metadata filter into SQL (\<^verbatim>\<open>filter_pushdown.rs\<close> of the native SQL
  plug-in): the text of the predicate and the parameters it binds, for both dialects.
  \<^verbatim>\<open>debug\<close> renders a text as \<^verbatim>\<open>{:?}\<close> does; it occurs in one error message only.
\<close>

datatype pushdown_error = MetadataFilterUnsupported string

record sql_predicate =
  sp_sql :: string
  sp_binds :: "string list"

definition sql_predicate_default :: sql_predicate where
  "sql_predicate_default = \<lparr>sp_sql = [], sp_binds = []\<rparr>"

definition unsupported :: "string \<Rightarrow> pushdown_error" where
  "unsupported message = MetadataFilterUnsupported message"

definition push_sql :: "string \<Rightarrow> sql_predicate \<Rightarrow> sql_predicate" where
  "push_sql s p = p\<lparr>sp_sql := sp_sql p @ s\<rparr>"

definition push_binds :: "string list \<Rightarrow> sql_predicate \<Rightarrow> sql_predicate" where
  "push_binds bs p = p\<lparr>sp_binds := sp_binds p @ bs\<rparr>"

text \<open>\<^verbatim>\<open>escape_like_pattern\<close> of \<^verbatim>\<open>privacy.rs\<close>; the three characters are single bytes.\<close>

fun escape_like_pattern :: "string \<Rightarrow> string" where
  "escape_like_pattern [] = []"
| "escape_like_pattern (c # cs) =
     (if c \<in> {CHR ''%'', CHR ''_'', CHR 0x5C}
      then CHR 0x5C # c # escape_like_pattern cs else c # escape_like_pattern cs)"

definition contains_pattern :: "string \<Rightarrow> string" where
  "contains_pattern s = ''%'' @ escape_like_pattern s @ ''%''"

definition is_ascii :: "string \<Rightarrow> bool" where
  "is_ascii s = list_all (\<lambda>c. (of_char c :: nat) < 128) s"

section \<open>Operands\<close>

definition sqlite_path :: string where
  "sqlite_path = ''('$.' || ?)''"

definition existence_predicate :: "memory_sql_dialect \<Rightarrow> string \<Rightarrow> string \<Rightarrow> sql_predicate \<Rightarrow> string \<times> sql_predicate" where
  "existence_predicate dialect table_alias field p =
     (case dialect of
        Postgres \<Rightarrow> ''jsonb_exists(('' @ table_alias @ ''.metadata_json)::jsonb, ?)''
      | Sqlite \<Rightarrow> ''(CASE WHEN '' @ table_alias @ ''.metadata_json IS NULL THEN NULL '' @
          ''ELSE (json_type('' @ table_alias @ ''.metadata_json, ('$.' || ?)) IS NOT NULL) END)'',
      push_binds [field] p)"

definition metadata_text_expr :: "memory_sql_dialect \<Rightarrow> string \<Rightarrow> string \<Rightarrow> sql_predicate \<Rightarrow> string \<times> sql_predicate" where
  "metadata_text_expr dialect table_alias field p =
     (case dialect of
        Postgres \<Rightarrow> (''(('' @ table_alias @ ''.metadata_json)::jsonb ->> ?)'', push_binds [field] p)
      | Sqlite \<Rightarrow>
          (''(CASE json_type('' @ table_alias @ ''.metadata_json, '' @ sqlite_path @ '') '' @
           ''WHEN 'true' THEN 'true' '' @ ''WHEN 'false' THEN 'false' '' @ ''WHEN 'null' THEN NULL '' @
           ''ELSE CAST(json_extract('' @ table_alias @ ''.metadata_json, '' @ sqlite_path @ '') AS TEXT) END)'',
           push_binds [field, field] p))"

section \<open>Conditions\<close>

definition icontains_refusal :: string where
  "icontains_refusal =
     ''icontains with a non-ASCII operand cannot be expressed on SQLite, '' @
     ''whose lower() folds ASCII only; PostgreSQL would match more rows''"

definition like_escape :: string where
  "like_escape = '' ESCAPE '' @ [CHR 0x27, CHR 0x5C, CHR 0x27]"

definition render_scalar :: "memory_sql_dialect \<Rightarrow> string \<Rightarrow> scalar_filter_operator \<Rightarrow> string \<Rightarrow> sql_predicate \<Rightarrow>
    pushdown_error + sql_predicate" where
  "render_scalar dialect left op operand p =
     (case (dialect, op) of
        (Postgres, OpEq) \<Rightarrow> Inr (push_binds [operand] (push_sql (left @ '' = ?'') p))
      | (Postgres, OpNe) \<Rightarrow> Inr (push_binds [operand] (push_sql (left @ '' != ?'') p))
      | (Postgres, OpContains) \<Rightarrow>
          Inr (push_binds [contains_pattern operand] (push_sql (left @ '' LIKE ?'' @ like_escape) p))
      | (Postgres, OpIContains) \<Rightarrow>
          Inr (push_binds [contains_pattern operand] (push_sql (left @ '' ILIKE ?'' @ like_escape) p))
      | (Sqlite, OpEq) \<Rightarrow> Inr (push_binds [operand] (push_sql (left @ '' = ?'') p))
      | (Sqlite, OpNe) \<Rightarrow> Inr (push_binds [operand] (push_sql (left @ '' != ?'') p))
      | (Sqlite, OpContains) \<Rightarrow>
          Inr (push_binds [operand] (push_sql (''instr('' @ left @ '', ?) > 0'') p))
      | (Sqlite, OpIContains) \<Rightarrow>
          if \<not> is_ascii operand then Inl (unsupported icontains_refusal)
          else Inr (push_binds [operand] (push_sql (''instr(lower('' @ left @ ''), lower(?)) > 0'') p)))"

fun ordering_sql :: "ordering_filter_operator \<Rightarrow> string" where
  "ordering_sql OpGt = ''>''"
| "ordering_sql OpGte = ''>=''"
| "ordering_sql OpLt = ''<''"
| "ordering_sql OpLte = ''<=''"

definition bound_is_numeric :: "numeric_literal \<Rightarrow> bool" where
  "bound_is_numeric bound = (case f64_parse (nl_text bound) of None \<Rightarrow> False | Some v \<Rightarrow> f64_finite v)"

definition ordering_text :: "memory_sql_dialect \<Rightarrow> string \<Rightarrow> ordering_filter_operator \<Rightarrow> string" where
  "ordering_text dialect table_alias op =
     (case dialect of
        Postgres \<Rightarrow>
          ''(CASE WHEN jsonb_typeof((('' @ table_alias @ ''.metadata_json)::jsonb) -> ?) = 'number' '' @
          ''THEN ((('' @ table_alias @ ''.metadata_json)::jsonb) ->> ?)::numeric END) '' @
          ordering_sql op @ '' ?::numeric''
      | Sqlite \<Rightarrow>
          ''(CASE WHEN json_type('' @ table_alias @ ''.metadata_json, '' @ sqlite_path @ '') '' @
          ''IN ('integer','real') '' @
          ''THEN CAST(json_extract('' @ table_alias @ ''.metadata_json, '' @ sqlite_path @ '') AS REAL) END) '' @
          ordering_sql op @ '' CAST(? AS REAL)'')"

definition render_ordering :: "(string \<Rightarrow> string) \<Rightarrow> memory_sql_dialect \<Rightarrow> string \<Rightarrow> string \<Rightarrow>
    ordering_filter_operator \<Rightarrow> numeric_literal \<Rightarrow> sql_predicate \<Rightarrow> pushdown_error + sql_predicate" where
  "render_ordering debug dialect table_alias field op bound p =
     (if \<not> bound_is_numeric bound
      then Inl (unsupported (''ordering bound '' @ nl_text bound @ '' for field '' @ debug field @
             '' is not a finite decimal '' @ ''number both dialects can cast''))
      else Inr (push_sql (ordering_text dialect table_alias op) (push_binds [field, field, nl_text bound] p)))"

definition render_set :: "string \<Rightarrow> set_filter_operator \<Rightarrow> metadata_filter_scalar list \<Rightarrow> sql_predicate \<Rightarrow>
    pushdown_error + sql_predicate" where
  "render_set left op values p =
     (let placeholders = join_text '', '' (replicate (length values) ''?'')
      in Inr (push_binds (map as_comparison_text values)
           (push_sql (left @ (case op of OpIn \<Rightarrow> '' IN ('' | OpNin \<Rightarrow> '' NOT IN ('') @ placeholders @ '')'') p)))"

definition render_condition :: "(string \<Rightarrow> string) \<Rightarrow> memory_sql_dialect \<Rightarrow> string \<Rightarrow>
    metadata_filter_condition \<Rightarrow> sql_predicate \<Rightarrow> pushdown_error + sql_predicate" where
  "render_condition debug dialect table_alias c p =
     (case c of
        CondExists field \<Rightarrow>
          (let (presence, p) = existence_predicate dialect table_alias field p in Inr (push_sql presence p))
      | CondScalar field op v \<Rightarrow>
          (let (left, p) = metadata_text_expr dialect table_alias field p
           in render_scalar dialect left op (as_comparison_text v) p)
      | CondSet field op values \<Rightarrow>
          if values = []
          then Inl (unsupported ''a set predicate carries no value, which would widen the result set'')
          else (let (left, p) = metadata_text_expr dialect table_alias field p in render_set left op values p)
      | CondOrdering field op bound \<Rightarrow> render_ordering debug dialect table_alias field op bound p)"

section \<open>Expressions\<close>

definition empty_group_refusal :: string where
  "empty_group_refusal = ''a logical group carries no condition, which would widen the result set''"

fun render_expression :: "(string \<Rightarrow> string) \<Rightarrow> memory_sql_dialect \<Rightarrow> string \<Rightarrow> metadata_filter_expression \<Rightarrow>
    sql_predicate \<Rightarrow> pushdown_error + sql_predicate"
and render_children :: "(string \<Rightarrow> string) \<Rightarrow> memory_sql_dialect \<Rightarrow> string \<Rightarrow> string \<Rightarrow> bool \<Rightarrow>
    metadata_filter_expression list \<Rightarrow> sql_predicate \<Rightarrow> pushdown_error + sql_predicate" where
  "render_expression debug dialect table_alias (FilterCondition c) p = render_condition debug dialect table_alias c p"
| "render_expression debug dialect table_alias (FilterAll es) p =
     (if es = [] then Inl (unsupported empty_group_refusal)
      else and_then (render_children debug dialect table_alias '' AND '' True es (push_sql ''('' p)) (\<lambda>p.
        Inr (push_sql '')'' p)))"
| "render_expression debug dialect table_alias (FilterAny es) p =
     (if es = [] then Inl (unsupported empty_group_refusal)
      else and_then (render_children debug dialect table_alias '' OR '' True es (push_sql ''('' p)) (\<lambda>p.
        Inr (push_sql '')'' p)))"
| "render_expression debug dialect table_alias (FilterNot e) p =
     and_then (render_expression debug dialect table_alias e (push_sql ''NOT ('' p)) (\<lambda>p.
       Inr (push_sql '')'' p))"
| "render_children debug dialect table_alias separator is_first [] p = Inr p"
| "render_children debug dialect table_alias separator is_first (e # es) p =
     and_then (render_expression debug dialect table_alias e (if is_first then p else push_sql separator p)) (\<lambda>p.
       render_children debug dialect table_alias separator False es p)"

definition translate_metadata_filter :: "(string \<Rightarrow> string) \<Rightarrow> memory_sql_dialect \<Rightarrow> string \<Rightarrow>
    metadata_filter_expression option \<Rightarrow> pushdown_error + sql_predicate" where
  "translate_metadata_filter debug dialect table_alias filter_option =
     (case filter_option of
        None \<Rightarrow> Inr sql_predicate_default
      | Some e \<Rightarrow>
          and_then (render_expression debug dialect table_alias e (push_sql '' AND ('' sql_predicate_default)) (\<lambda>p.
            Inr (push_sql '')'' p)))"

end
