(* ===== verification/Pushdown_Laws.thy ===== *)
theory Pushdown_Laws
  imports Filter_Pushdown Filter_Laws
begin

text \<open>
  The push-down as a compiler. The SQL a filter is rendered to is the text of a syntax tree
  (\<^verbatim>\<open>sql\<close>), its binds are the parameters of the tree in textual order, and the tree depends on
  the user's texts only through its parameters. A tree has the usual three-valued meaning
  (\<^verbatim>\<open>sql_value\<close>), where the functions of the database are a parameter.
\<close>

declare evaluate.simps(2,3) [simp del]

section \<open>Syntax trees\<close>

datatype sql =
    QCol
  | QPrm string
  | QLit string
  | QNull
  | QZero
  | QParen sql
  | QCast sql string
  | QCastAs sql string
  | QInfix string sql sql
  | QEscape sql
  | QCall string "sql list"
  | QIn bool sql string "sql list"
  | QIsNotNull sql
  | QWhen sql sql
  | QNullGuard sql sql
  | QJsonText sql sql
  | QNot sql
  | QAnd "sql list"
  | QOr "sql list"

text \<open>
  \<^verbatim>\<open>QWhen c x\<close> is \<^verbatim>\<open>CASE WHEN c THEN x END\<close>, \<^verbatim>\<open>QNullGuard x y\<close> is \<^verbatim>\<open>CASE WHEN x IS NULL THEN NULL
  ELSE y END\<close>, and \<^verbatim>\<open>QJsonText t x\<close> the \<^verbatim>\<open>CASE\<close> over the JSON type that renders a value as text.
\<close>

fun show_sql :: "string \<Rightarrow> sql \<Rightarrow> string" where
  "show_sql a QCol = a @ ''.metadata_json''"
| "show_sql a (QPrm s) = ''?''"
| "show_sql a (QLit s) = [CHR 0x27] @ s @ [CHR 0x27]"
| "show_sql a QNull = ''NULL''"
| "show_sql a QZero = ''0''"
| "show_sql a (QParen x) = ''('' @ show_sql a x @ '')''"
| "show_sql a (QCast x ty) = show_sql a x @ ''::'' @ ty"
| "show_sql a (QCastAs x ty) = ''CAST('' @ show_sql a x @ '' AS '' @ ty @ '')''"
| "show_sql a (QInfix op x y) = show_sql a x @ '' '' @ op @ '' '' @ show_sql a y"
| "show_sql a (QEscape x) = show_sql a x @ like_escape"
| "show_sql a (QCall f xs) = f @ ''('' @ join_text '', '' (map (show_sql a) xs) @ '')''"
| "show_sql a (QIn neg x sep xs) =
     show_sql a x @ (if neg then '' NOT IN ('' else '' IN ('') @ join_text sep (map (show_sql a) xs) @ '')''"
| "show_sql a (QIsNotNull x) = show_sql a x @ '' IS NOT NULL''"
| "show_sql a (QWhen c x) = ''(CASE WHEN '' @ show_sql a c @ '' THEN '' @ show_sql a x @ '' END)''"
| "show_sql a (QNullGuard x y) =
     ''(CASE WHEN '' @ show_sql a x @ '' IS NULL THEN NULL ELSE '' @ show_sql a y @ '' END)''"
| "show_sql a (QJsonText t x) =
     ''(CASE '' @ show_sql a t @ '' WHEN 'true' THEN 'true' WHEN 'false' THEN 'false' '' @
     ''WHEN 'null' THEN NULL ELSE '' @ show_sql a x @ '' END)''"
| "show_sql a (QNot x) = ''NOT ('' @ show_sql a x @ '')''"
| "show_sql a (QAnd xs) = ''('' @ join_text '' AND '' (map (show_sql a) xs) @ '')''"
| "show_sql a (QOr xs) = ''('' @ join_text '' OR '' (map (show_sql a) xs) @ '')''"

fun params :: "sql \<Rightarrow> string list" where
  "params QCol = []"
| "params (QPrm s) = [s]"
| "params (QLit s) = []"
| "params QNull = []"
| "params QZero = []"
| "params (QParen x) = params x"
| "params (QCast x ty) = params x"
| "params (QCastAs x ty) = params x"
| "params (QInfix op x y) = params x @ params y"
| "params (QEscape x) = params x"
| "params (QCall f xs) = concat (map params xs)"
| "params (QIn neg x sep xs) = params x @ concat (map params xs)"
| "params (QIsNotNull x) = params x"
| "params (QWhen c x) = params c @ params x"
| "params (QNullGuard x y) = params x @ params y"
| "params (QJsonText t x) = params t @ params x"
| "params (QNot x) = params x"
| "params (QAnd xs) = concat (map params xs)"
| "params (QOr xs) = concat (map params xs)"

section \<open>The compiled filter\<close>

definition path_tree :: "string \<Rightarrow> sql" where
  "path_tree field = QParen (QInfix ''||'' (QLit ''$.'') (QPrm field))"

fun text_tree :: "memory_sql_dialect \<Rightarrow> string \<Rightarrow> sql" where
  "text_tree Postgres field = QParen (QInfix ''->>'' (QCast (QParen QCol) ''jsonb'') (QPrm field))"
| "text_tree Sqlite field =
     QJsonText (QCall ''json_type'' [QCol, path_tree field])
       (QCastAs (QCall ''json_extract'' [QCol, path_tree field]) ''TEXT'')"

fun exists_tree :: "memory_sql_dialect \<Rightarrow> string \<Rightarrow> sql" where
  "exists_tree Postgres field = QCall ''jsonb_exists'' [QCast (QParen QCol) ''jsonb'', QPrm field]"
| "exists_tree Sqlite field =
     QNullGuard QCol (QParen (QIsNotNull (QCall ''json_type'' [QCol, path_tree field])))"

fun scalar_tree :: "memory_sql_dialect \<Rightarrow> sql \<Rightarrow> scalar_filter_operator \<Rightarrow> string \<Rightarrow> sql" where
  "scalar_tree d left OpEq operand = QInfix ''='' left (QPrm operand)"
| "scalar_tree d left OpNe operand = QInfix ''!='' left (QPrm operand)"
| "scalar_tree Postgres left OpContains operand =
     QEscape (QInfix ''LIKE'' left (QPrm (contains_pattern operand)))"
| "scalar_tree Postgres left OpIContains operand =
     QEscape (QInfix ''ILIKE'' left (QPrm (contains_pattern operand)))"
| "scalar_tree Sqlite left OpContains operand = QInfix ''>'' (QCall ''instr'' [left, QPrm operand]) QZero"
| "scalar_tree Sqlite left OpIContains operand =
     QInfix ''>'' (QCall ''instr'' [QCall ''lower'' [left], QCall ''lower'' [QPrm operand]]) QZero"

fun number_tree :: "memory_sql_dialect \<Rightarrow> string \<Rightarrow> sql" where
  "number_tree Postgres field =
     QWhen (QInfix ''='' (QCall ''jsonb_typeof''
              [QInfix ''->'' (QParen (QCast (QParen QCol) ''jsonb'')) (QPrm field)]) (QLit ''number''))
       (QCast (QParen (QInfix ''->>'' (QParen (QCast (QParen QCol) ''jsonb'')) (QPrm field))) ''numeric'')"
| "number_tree Sqlite field =
     QWhen (QIn False (QCall ''json_type'' [QCol, path_tree field]) '','' [QLit ''integer'', QLit ''real''])
       (QCastAs (QCall ''json_extract'' [QCol, path_tree field]) ''REAL'')"

fun bound_tree :: "memory_sql_dialect \<Rightarrow> string \<Rightarrow> sql" where
  "bound_tree Postgres text = QCast (QPrm text) ''numeric''"
| "bound_tree Sqlite text = QCastAs (QPrm text) ''REAL''"

fun condition_tree :: "memory_sql_dialect \<Rightarrow> metadata_filter_condition \<Rightarrow> sql" where
  "condition_tree d (CondExists f) = exists_tree d f"
| "condition_tree d (CondScalar f op v) = scalar_tree d (text_tree d f) op (as_comparison_text v)"
| "condition_tree d (CondSet f op vs) =
     QIn (op = OpNin) (text_tree d f) '', '' (map (\<lambda>v. QPrm (as_comparison_text v)) vs)"
| "condition_tree d (CondOrdering f op b) =
     QInfix (ordering_sql op) (number_tree d f) (bound_tree d (nl_text b))"

fun filter_tree :: "memory_sql_dialect \<Rightarrow> metadata_filter_expression \<Rightarrow> sql" where
  "filter_tree d (FilterCondition c) = condition_tree d c"
| "filter_tree d (FilterAll es) = QAnd (map (filter_tree d) es)"
| "filter_tree d (FilterAny es) = QOr (map (filter_tree d) es)"
| "filter_tree d (FilterNot e) = QNot (filter_tree d e)"

text \<open>What a dialect refuses.\<close>

fun condition_expressible :: "memory_sql_dialect \<Rightarrow> metadata_filter_condition \<Rightarrow> bool" where
  "condition_expressible d (CondScalar f op v) =
     (d = Sqlite \<longrightarrow> op = OpIContains \<longrightarrow> is_ascii (as_comparison_text v))"
| "condition_expressible d (CondSet f op vs) = (vs \<noteq> [])"
| "condition_expressible d (CondOrdering f op b) = bound_is_numeric b"
| "condition_expressible d (CondExists f) = True"

definition expressible :: "memory_sql_dialect \<Rightarrow> metadata_filter_expression \<Rightarrow> bool" where
  "expressible d e \<longleftrightarrow> groups_nonempty e \<and> list_all (condition_expressible d) (filter_leaves e)"

section \<open>Rendering is printing\<close>

definition push_tree :: "string \<Rightarrow> sql \<Rightarrow> sql_predicate \<Rightarrow> sql_predicate" where
  "push_tree a t p = \<lparr>sp_sql = sp_sql p @ show_sql a t, sp_binds = sp_binds p @ params t\<rparr>"

lemma render_condition_exact:
  "render_condition debug d a c p = Inr p' \<longleftrightarrow>
     condition_expressible d c \<and> p' = push_tree a (condition_tree d c) p"
proof (cases c)
  case (CondScalar f op v)
  then show ?thesis
    by (cases d; cases op)
      (auto simp: render_condition_def render_scalar_def metadata_text_expr_def push_sql_def push_binds_def
        push_tree_def path_tree_def sqlite_path_def)
next
  case (CondOrdering f op b)
  then show ?thesis
    by (cases d)
      (auto simp: render_condition_def render_ordering_def ordering_text_def push_sql_def push_binds_def
        push_tree_def path_tree_def sqlite_path_def)
next
  case (CondSet f op vs)
  have prm: "map (show_sql a) (map (\<lambda>v. QPrm (as_comparison_text v)) vs) = replicate (length vs) ''?''"
    by (simp add: comp_def map_replicate_const)
  have binds: "concat (map params (map (\<lambda>v. QPrm (as_comparison_text v)) vs)) = map as_comparison_text vs"
    by (induction vs) simp_all
  show ?thesis
    using CondSet prm binds
    by (cases d; cases op)
      (auto simp: render_condition_def render_set_def metadata_text_expr_def push_sql_def push_binds_def
        push_tree_def path_tree_def sqlite_path_def Let_def simp del: map_map)
next
  case (CondExists f)
  then show ?thesis
    by (cases d)
      (auto simp: render_condition_def existence_predicate_def push_sql_def push_binds_def push_tree_def
        path_tree_def)
qed

definition push_children :: "string \<Rightarrow> string \<Rightarrow> bool \<Rightarrow> sql list \<Rightarrow> sql_predicate \<Rightarrow> sql_predicate" where
  "push_children a sep is_first ts p =
     \<lparr>sp_sql = sp_sql p @ (if is_first \<or> ts = [] then [] else sep) @ join_text sep (map (show_sql a) ts),
      sp_binds = sp_binds p @ concat (map params ts)\<rparr>"

lemma push_children_Cons:
  "push_children a sep False ts (push_tree a t (if is_first then p else push_sql sep p)) =
     push_children a sep is_first (t # ts) p"
  by (cases ts) (auto simp: push_children_def push_tree_def push_sql_def)

lemma render_exact:
  "render_expression debug d a e p = Inr p' \<longleftrightarrow> expressible d e \<and> p' = push_tree a (filter_tree d e) p"
  "render_children debug d a sep is_first es p = Inr p' \<longleftrightarrow>
     list_all (expressible d) es \<and> p' = push_children a sep is_first (map (filter_tree d) es) p"
proof (induction debug d a e p and debug d a sep is_first es p
    arbitrary: p' and p' rule: render_expression_render_children.induct)
  case (1 debug d a c p)
  then show ?case by (simp add: render_condition_exact expressible_def)
next
  case (2 debug d a es p)
  then show ?case
    by (auto simp: and_then_Inr expressible_def list_all_iff push_tree_def push_children_def push_sql_def)
next
  case (3 debug d a es p)
  then show ?case
    by (auto simp: and_then_Inr expressible_def list_all_iff push_tree_def push_children_def push_sql_def)
next
  case (4 debug d a e p)
  then show ?case
    by (auto simp: and_then_Inr expressible_def push_tree_def push_sql_def)
next
  case (5 debug d a sep is_first p)
  then show ?case by (auto simp: push_children_def)
next
  case (6 debug d a sep is_first e es p)
  let ?q = "if is_first then p else push_sql sep p"
  show ?case
  proof (cases "expressible d e")
    case True
    with "6.IH"(1) have one: "render_expression debug d a e ?q = Inr (push_tree a (filter_tree d e) ?q)"
      by blast
    show ?thesis
      using "6.IH"(2) [OF one] True by (simp add: one push_children_Cons)
  next
    case False
    then have "\<nexists>q. render_expression debug d a e ?q = Inr q" using "6.IH"(1) by blast
    then show ?thesis using False by (auto simp: and_then_Inr)
  qed
qed

lemma translate_exact:
  "translate_metadata_filter debug d a (Some e) = Inr p \<longleftrightarrow>
     expressible d e \<and>
     p = \<lparr>sp_sql = '' AND ('' @ show_sql a (filter_tree d e) @ '')'', sp_binds = params (filter_tree d e)\<rparr>"
  by (auto simp: translate_metadata_filter_def and_then_Inr render_exact push_tree_def push_sql_def
      sql_predicate_default_def)

section \<open>What the text of the SQL depends on\<close>

text \<open>A filter without its texts: the same structure, with every field and value empty.\<close>

definition blank_scalar :: metadata_filter_scalar where
  "blank_scalar = ScalarText []"

fun condition_shape :: "metadata_filter_condition \<Rightarrow> metadata_filter_condition" where
  "condition_shape (CondScalar f op v) = CondScalar [] op blank_scalar"
| "condition_shape (CondOrdering f op b) = CondOrdering [] op (NumericLiteral [] f64_zero)"
| "condition_shape (CondSet f op vs) = CondSet [] op (map (\<lambda>_. blank_scalar) vs)"
| "condition_shape (CondExists f) = CondExists []"

fun filter_shape :: "metadata_filter_expression \<Rightarrow> metadata_filter_expression" where
  "filter_shape (FilterCondition c) = FilterCondition (condition_shape c)"
| "filter_shape (FilterAll es) = FilterAll (map filter_shape es)"
| "filter_shape (FilterAny es) = FilterAny (map filter_shape es)"
| "filter_shape (FilterNot e) = FilterNot (filter_shape e)"

lemma show_text_tree: "show_sql a (text_tree d f) = show_sql a (text_tree d [])"
  by (cases d) (simp_all add: path_tree_def)

lemma show_condition_shape:
  "show_sql a (condition_tree d c) = show_sql a (condition_tree d (condition_shape c))"
proof (cases c)
  case (CondScalar f op v)
  then show ?thesis
    using show_text_tree [of a d f] by (cases d; cases op) simp_all
next
  case (CondOrdering f op b)
  then show ?thesis by (cases d) (simp_all add: path_tree_def)
next
  case (CondSet f op vs)
  have "map (show_sql a) (map (\<lambda>v. QPrm (as_comparison_text v)) vs) =
      map (show_sql a) (map (\<lambda>v. QPrm (as_comparison_text v)) (map (\<lambda>_. blank_scalar) vs))"
    by simp
  then show ?thesis
    using CondSet show_text_tree [of a d f] by (simp only: condition_tree.simps condition_shape.simps show_sql.simps)
next
  case (CondExists f)
  then show ?thesis by (cases d) (simp_all add: path_tree_def)
qed

lemma show_filter_shape: "show_sql a (filter_tree d e) = show_sql a (filter_tree d (filter_shape e))"
proof (induction e)
  case (FilterCondition c)
  show ?case by (simp add: show_condition_shape [of a d c])
next
  case (FilterAll es)
  then have "map (show_sql a) (map (filter_tree d) es) = map (show_sql a) (map (filter_tree d) (map filter_shape es))"
    by simp
  then show ?case by (simp only: filter_tree.simps filter_shape.simps show_sql.simps)
next
  case (FilterAny es)
  then have "map (show_sql a) (map (filter_tree d) es) = map (show_sql a) (map (filter_tree d) (map filter_shape es))"
    by simp
  then show ?case by (simp only: filter_tree.simps filter_shape.simps show_sql.simps)
qed simp

text \<open>As many placeholders as parameters.\<close>

abbreviation marks :: "string \<Rightarrow> nat" where
  "marks s \<equiv> count_list s (CHR ''?'')"

lemma marks_join: "marks sep = 0 \<Longrightarrow> marks (join_text sep xs) = sum_list (map marks xs)"
  by (induction sep xs rule: join_text.induct) simp_all

lemma marks_text_tree: "marks a = 0 \<Longrightarrow> marks (show_sql a (text_tree d f)) = length (params (text_tree d f))"
  by (cases d) (simp_all add: path_tree_def)

lemma marks_condition_tree:
  assumes "marks a = 0"
  shows "marks (show_sql a (condition_tree d c)) = length (params (condition_tree d c))"
proof (cases c)
  case (CondScalar f op v)
  then show ?thesis
    using assms marks_text_tree [OF assms, of d f] by (cases d; cases op) (simp_all add: like_escape_def)
next
  case (CondOrdering f op b)
  then show ?thesis using assms by (cases d; cases op) (simp_all add: path_tree_def)
next
  case (CondSet f op vs)
  have "sum_list (map (marks \<circ> show_sql a \<circ> (\<lambda>v. QPrm (as_comparison_text v))) vs) = length vs"
    by (induction vs) simp_all
  moreover have "length (concat (map (params \<circ> (\<lambda>v. QPrm (as_comparison_text v))) vs)) = length vs"
    by (induction vs) simp_all
  ultimately show ?thesis
    using CondSet assms marks_text_tree [OF assms, of d f] by (simp add: marks_join comp_assoc)
next
  case (CondExists f)
  then show ?thesis using assms by (cases d) (simp_all add: path_tree_def)
qed

lemma marks_trees:
  "(\<And>t. t \<in> set ts \<Longrightarrow> marks (show_sql a t) = length (params t)) \<Longrightarrow>
     sum_list (map marks (map (show_sql a) ts)) = length (concat (map params ts))"
  by (induction ts) simp_all

lemma marks_filter_tree:
  "marks a = 0 \<Longrightarrow> marks (show_sql a (filter_tree d e)) = length (params (filter_tree d e))"
proof (induction e)
  case (FilterAll es)
  then show ?case using marks_trees [of "map (filter_tree d) es" a] by (auto simp: marks_join)
next
  case (FilterAny es)
  then show ?case using marks_trees [of "map (filter_tree d) es" a] by (auto simp: marks_join)
qed (simp_all add: marks_condition_tree)

section \<open>The meaning of a tree\<close>

text \<open>
  Values of the two databases; \<^verbatim>\<open>'q\<close> are PostgreSQL's numerics. \<^verbatim>\<open>call\<close> gives the functions,
  casts and special operators of the database by name.
\<close>

datatype ('n, 'q) sql_value =
    VNull | VText string | VInt int | VReal f64 | VNumeric 'q | VBool bool | VJson "'n json"

type_synonym ('n, 'q) sql_calls = "string \<Rightarrow> ('n, 'q) sql_value list \<Rightarrow> ('n, 'q) sql_value"

fun sql_less :: "('n, 'q::linorder) sql_value \<Rightarrow> ('n, 'q) sql_value \<Rightarrow> bool option" where
  "sql_less (VInt x) (VInt y) = Some (x < y)"
| "sql_less (VReal x) (VReal y) = Some (f64_lt x y)"
| "sql_less (VNumeric x) (VNumeric y) = Some (x < y)"
| "sql_less _ _ = None"

fun sql_less_equal :: "('n, 'q::linorder) sql_value \<Rightarrow> ('n, 'q) sql_value \<Rightarrow> bool option" where
  "sql_less_equal (VInt x) (VInt y) = Some (x \<le> y)"
| "sql_less_equal (VReal x) (VReal y) = Some (f64_le x y)"
| "sql_less_equal (VNumeric x) (VNumeric y) = Some (x \<le> y)"
| "sql_less_equal _ _ = None"

fun sql_equal :: "('n, 'q) sql_value \<Rightarrow> ('n, 'q) sql_value \<Rightarrow> bool option" where
  "sql_equal (VText x) (VText y) = Some (x = y)"
| "sql_equal _ _ = None"

definition sql_truth :: "bool option \<Rightarrow> ('n, 'q) sql_value" where
  "sql_truth b = (case b of None \<Rightarrow> VNull | Some b \<Rightarrow> VBool b)"

definition sql_infix :: "('n, 'q::linorder) sql_calls \<Rightarrow> string \<Rightarrow> ('n, 'q) sql_value \<Rightarrow> ('n, 'q) sql_value \<Rightarrow>
    ('n, 'q) sql_value" where
  "sql_infix call op x y =
     (if op = ''='' then sql_truth (sql_equal x y)
      else if op = ''!='' then sql_truth (map_option Not (sql_equal x y))
      else if op = ''<'' then sql_truth (sql_less x y)
      else if op = ''<='' then sql_truth (sql_less_equal x y)
      else if op = ''>'' then sql_truth (sql_less y x)
      else if op = ''>='' then sql_truth (sql_less_equal y x)
      else call op [x, y])"

fun truth :: "('n, 'q) sql_value \<Rightarrow> tristate" where
  "truth (VBool b) = tri_of_bool b"
| "truth _ = TriUnknown"

fun of_tri :: "tristate \<Rightarrow> ('n, 'q) sql_value" where
  "of_tri TriTrue = VBool True"
| "of_tri TriFalse = VBool False"
| "of_tri TriUnknown = VNull"

lemma truth_of_tri [simp]: "truth (of_tri t) = t"
  by (cases t) (simp_all add: tri_of_bool_def)

definition sql_in :: "bool \<Rightarrow> ('n, 'q) sql_value \<Rightarrow> ('n, 'q) sql_value list \<Rightarrow> ('n, 'q) sql_value" where
  "sql_in neg x ys =
     (let t = foldr tri_or (map (\<lambda>y. truth (sql_truth (sql_equal x y) :: ('n, 'q) sql_value)) ys) TriFalse
      in of_tri (if neg then tri_negate t else t))"

fun sql_eval :: "('n, 'q::linorder) sql_calls \<Rightarrow> string option \<Rightarrow> sql \<Rightarrow> ('n, 'q) sql_value" where
  "sql_eval call doc QCol = (case doc of None \<Rightarrow> VNull | Some t \<Rightarrow> VText t)"
| "sql_eval call doc (QPrm s) = VText s"
| "sql_eval call doc (QLit s) = VText s"
| "sql_eval call doc QNull = VNull"
| "sql_eval call doc QZero = VInt 0"
| "sql_eval call doc (QParen x) = sql_eval call doc x"
| "sql_eval call doc (QCast x ty) = call (''::'' @ ty) [sql_eval call doc x]"
| "sql_eval call doc (QCastAs x ty) = call (''CAST AS '' @ ty) [sql_eval call doc x]"
| "sql_eval call doc (QInfix op x y) = sql_infix call op (sql_eval call doc x) (sql_eval call doc y)"
| "sql_eval call doc (QEscape x) = sql_eval call doc x"
| "sql_eval call doc (QCall f xs) = call f (map (sql_eval call doc) xs)"
| "sql_eval call doc (QIn neg x sep xs) = sql_in neg (sql_eval call doc x) (map (sql_eval call doc) xs)"
| "sql_eval call doc (QIsNotNull x) = VBool (sql_eval call doc x \<noteq> VNull)"
| "sql_eval call doc (QWhen c x) = (if truth (sql_eval call doc c) = TriTrue then sql_eval call doc x else VNull)"
| "sql_eval call doc (QNullGuard x y) = (if sql_eval call doc x = VNull then VNull else sql_eval call doc y)"
| "sql_eval call doc (QJsonText t x) =
     (if sql_eval call doc t = VText ''true'' then VText ''true''
      else if sql_eval call doc t = VText ''false'' then VText ''false''
      else if sql_eval call doc t = VText ''null'' then VNull else sql_eval call doc x)"
| "sql_eval call doc (QNot x) = of_tri (tri_negate (truth (sql_eval call doc x)))"
| "sql_eval call doc (QAnd xs) = of_tri (foldr tri_and (map (\<lambda>x. truth (sql_eval call doc x)) xs) TriTrue)"
| "sql_eval call doc (QOr xs) = of_tri (foldr tri_or (map (\<lambda>x. truth (sql_eval call doc x)) xs) TriFalse)"

section \<open>Patterns\<close>

text \<open>\<^verbatim>\<open>LIKE\<close> with the escape character of the fragments.\<close>

fun like_match :: "string \<Rightarrow> string \<Rightarrow> bool" where
  "like_match [] s = (s = [])"
| "like_match (c # ps) s =
     (if c = CHR ''%'' then like_match ps s \<or> (case s of [] \<Rightarrow> False | _ # t \<Rightarrow> like_match (c # ps) t)
      else if c = CHR 0x5C \<and> ps \<noteq> [] then s \<noteq> [] \<and> hd s = hd ps \<and> like_match (tl ps) (tl s)
      else if c = CHR ''_'' then s \<noteq> [] \<and> like_match ps (tl s)
      else s \<noteq> [] \<and> hd s = c \<and> like_match ps (tl s))"

lemma like_match_any: "like_match [CHR ''%''] s"
  by (induction s) simp_all

lemma like_match_escaped:
  "like_match (escape_like_pattern p @ ''%'') s \<longleftrightarrow> starts_with s p"
proof (induction p arbitrary: s)
  case Nil
  then show ?case using like_match_any by (simp add: starts_with_def)
next
  case (Cons c cs)
  then show ?case by (cases s) (auto simp: starts_with_iff)
qed

lemma like_match_contains: "like_match (contains_pattern p) s \<longleftrightarrow> contains_text s p"
proof (induction s)
  case Nil
  then show ?case
    using like_match_escaped [of p "[]"] by (auto simp: contains_pattern_def starts_with_iff)
next
  case (Cons c s)
  then show ?case
    using like_match_escaped [of p "c # s"] by (simp add: contains_pattern_def)
qed

end
