(* ===== verification/Pushdown_Properties.thy ===== *)
theory Pushdown_Properties
  imports Pushdown_Laws Filter_Properties
begin

text \<open>
  The push-down against the contract of the filter. The behaviour of the two databases is
  assumed as documented (\<^verbatim>\<open>engine_documented\<close>), and a row has to avoid the corners where they
  are documented to differ from the reference evaluation (\<^verbatim>\<open>row_agrees\<close>): nested paths in a
  field name on SQLite, containers, letters outside ASCII on SQLite, and decimals that are
  not separated as doubles on PostgreSQL.
\<close>

section \<open>The databases\<close>













section \<open>Operands\<close>














section \<open>Expressions\<close>






section \<open>A sample database\<close>




section \<open>Properties\<close>

text \<open>
  C37. The SQL of a filter carries no text of the caller: two filters that differ in field
  names and values only have the same SQL, every text is a bind, and there is one bind per
  placeholder. A parsed filter is refused only for a case-insensitive search with a
  non-ASCII text on SQLite.
\<close>

theorem pushdown_is_parameterised:
  assumes "parse_metadata_filter h v = Inr (Some e)" and "count_list table_alias (CHR ''?'') = 0"
  shows "((\<exists>p. translate_metadata_filter debug d table_alias (Some e) = Inr p) \<longleftrightarrow>
      (d = Sqlite \<longrightarrow> (\<forall>f t. CondScalar f OpIContains t \<in> set (filter_leaves e) \<longrightarrow>
         is_ascii (as_comparison_text t)))) \<and>
    (\<forall>p. translate_metadata_filter debug d table_alias (Some e) = Inr p \<longrightarrow>
      count_list (sp_sql p) (CHR ''?'') = length (sp_binds p) \<and>
      (\<forall>e' p'. filter_shape e' = filter_shape e \<longrightarrow>
         translate_metadata_filter debug d table_alias (Some e') = Inr p' \<longrightarrow> sp_sql p' = sp_sql p))"
proof (intro conjI allI impI)
  have wf: "filter_wf e" using parsed_filter_wf [OF assms(1)] ..
  have leaf: "condition_expressible d c \<longleftrightarrow>
      (d = Sqlite \<longrightarrow> (\<forall>f t. c = CondScalar f OpIContains t \<longrightarrow> is_ascii (as_comparison_text t)))"
    if "c \<in> set (filter_leaves e)" for c
  proof -
    have "condition_wf c" using that wf by (auto simp: filter_wf_def list_all_iff)
    then show ?thesis by (cases c) (auto simp: bound_is_numeric_def literal_ok_def)
  qed
  show "(\<exists>p. translate_metadata_filter debug d table_alias (Some e) = Inr p) \<longleftrightarrow>
      (d = Sqlite \<longrightarrow> (\<forall>f t. CondScalar f OpIContains t \<in> set (filter_leaves e) \<longrightarrow>
         is_ascii (as_comparison_text t)))"
    using wf leaf by (auto simp: translate_exact expressible_def filter_wf_def list_all_iff)
next
  fix p
  assume p: "translate_metadata_filter debug d table_alias (Some e) = Inr p"
  then show "count_list (sp_sql p) (CHR ''?'') = length (sp_binds p)"
    using marks_filter_tree [OF assms(2), of d e] by (simp add: translate_exact)
  fix e' p'
  assume "filter_shape e' = filter_shape e" and "translate_metadata_filter debug d table_alias (Some e') = Inr p'"
  then show "sp_sql p' = sp_sql p"
    using p show_filter_shape [of table_alias d e] show_filter_shape [of table_alias d e'] by (simp add: translate_exact)
qed

theorem pushdown_is_parameterised_witness:
  "\<exists>p. translate_metadata_filter (\<lambda>s. s) Sqlite ''m'' (Some sample_expression) = Inr p \<and>
     count_list (sp_sql p) (CHR ''?'') = length (sp_binds p)"
proof -
  have "\<forall>f t. CondScalar f OpIContains t \<in> set (filter_leaves sample_expression) \<longrightarrow> is_ascii (as_comparison_text t)"
    by (simp add: sample_expression_def)
  with pushdown_is_parameterised [OF sample_parse, of "''m''" "\<lambda>s. s" Sqlite] show ?thesis by auto
qed



end
