(* ===== verification/Lease_Tables.thy ===== *)
theory Lease_Tables
  imports Sql_Tables
begin

text \<open>
  What the leased tables of the native SQL store share: the comparison of a lease, the lease
  duration, and the sweep of expired leases in batches of 500 (the same loop in \<^verbatim>\<open>store.rs\<close> for
  the outbox and in \<^verbatim>\<open>learning_jobs.rs\<close> for learning jobs and evaluation runs). The locale
  \<^verbatim>\<open>lease_sweep\<close> is the contract of such a table; under it the batched sweep ends and is one
  unbounded update.
\<close>

section \<open>Leases\<close>

text \<open>\<^verbatim>\<open>lease_owner = ? AND lease_token = ? AND lease_expires_at > ?\<close>.\<close>

definition lease_matches :: "string option \<Rightarrow> string option \<Rightarrow> string option \<Rightarrow> string \<Rightarrow> string \<Rightarrow> string \<Rightarrow> bool" where
  "lease_matches column_owner column_token column_expires owner token now \<longleftrightarrow>
     sql_eq column_owner owner \<and> sql_eq column_token token \<and> sql_after column_expires now"

text \<open>\<^verbatim>\<open>lease_expires_at IS NULL OR lease_expires_at <= ?\<close>.\<close>

definition lease_expired :: "string option \<Rightarrow> string \<Rightarrow> bool" where
  "lease_expired column_expires now \<longleftrightarrow> sql_null_or_upto column_expires now"

definition lease_seconds :: "nat \<Rightarrow> nat" where
  "lease_seconds duration = max duration 5"

lemma lease_seconds_pos: "0 < lease_seconds d"
  by (simp add: lease_seconds_def)

lemma lease_matches_unique:
  "lease_matches c1 c2 c3 o1 t1 n1 \<Longrightarrow> lease_matches c1 c2 c3 o2 t2 n2 \<Longrightarrow> o1 = o2 \<and> t1 = t2"
  by (simp add: lease_matches_def sql_eq_def)

lemma lease_matches_not_expired:
  "lease_matches c1 c2 c3 ow tk now \<Longrightarrow> \<not> lease_expired c3 now"
  by (simp add: lease_matches_def lease_expired_def sql_null_or_upto_iff)

lemma lease_matches_None [simp]:
  "\<not> lease_matches None c2 c3 ow tk now" "\<not> lease_matches c1 None c3 ow tk now"
  "\<not> lease_matches c1 c2 None ow tk now"
  by (simp_all add: lease_matches_def sql_eq_def sql_after_def)

lemma lease_matches_fresh:
  "clock_ok ck \<Longrightarrow> lease_matches (Some ow) (Some tk) (Some (ck_after ck (lease_seconds d))) ow tk (ck_now ck)"
  by (simp add: lease_matches_def sql_eq_def sql_after_def clock_ok_def lease_seconds_pos)

section \<open>The batched sweep\<close>

record stale_requeue_counts =
  sr_requeued :: nat
  sr_dead :: nat

definition sweep_batch :: nat where
  "sweep_batch = 500"

definition batch_ids :: "('r \<Rightarrow> int) \<Rightarrow> ('r \<Rightarrow> bool) \<Rightarrow> 'r list \<Rightarrow> int list" where
  "batch_ids rid p t = map rid (top_by rid sweep_batch (filter p t))"

text \<open>\<^verbatim>\<open>UPDATE .. WHERE <predicate> AND id IN (..)\<close>.\<close>

definition in_batch :: "('r \<Rightarrow> int) \<Rightarrow> ('r \<Rightarrow> bool) \<Rightarrow> int list \<Rightarrow> 'r \<Rightarrow> bool" where
  "in_batch rid p ids r \<longleftrightarrow> p r \<and> rid r \<in> set ids"

text \<open>One round: both sets of ids are read before either update runs.\<close>

definition sweep_round :: "('r \<Rightarrow> int) \<Rightarrow> ('r \<Rightarrow> bool) \<Rightarrow> ('r \<Rightarrow> bool) \<Rightarrow> ('r \<Rightarrow> 'r) \<Rightarrow> ('r \<Rightarrow> 'r) \<Rightarrow>
    stale_requeue_counts \<Rightarrow> 'r list \<Rightarrow> stale_requeue_counts \<times> 'r list" where
  "sweep_round rid dead requeue bury release counts t =
     (let p = in_batch rid dead (batch_ids rid dead t);
          q = in_batch rid requeue (batch_ids rid requeue t);
          t1 = update_where p bury t
      in (\<lparr>sr_requeued = sr_requeued counts + rows_affected q t1,
           sr_dead = sr_dead counts + rows_affected p t\<rparr>,
          update_where q release t1))"

partial_function (option) sweep_loop :: "('r \<Rightarrow> int) \<Rightarrow> ('r \<Rightarrow> bool) \<Rightarrow> ('r \<Rightarrow> bool) \<Rightarrow> ('r \<Rightarrow> 'r) \<Rightarrow> ('r \<Rightarrow> 'r) \<Rightarrow>
    stale_requeue_counts \<Rightarrow> 'r list \<Rightarrow> (stale_requeue_counts \<times> 'r list) option" where
  "sweep_loop rid dead requeue bury release counts t =
     (if batch_ids rid dead t = [] \<and> batch_ids rid requeue t = [] then Some (counts, t)
      else case sweep_round rid dead requeue bury release counts t of
        (counts', t') \<Rightarrow> sweep_loop rid dead requeue bury release counts' t')"

lemma batch_ids_Nil: "batch_ids rid p t = [] \<longleftrightarrow> filter p t = []"
proof (cases "filter p t")
  case Nil
  then show ?thesis by (simp add: batch_ids_def top_by_def)
next
  case (Cons x xs)
  have "length (batch_ids rid p t) = min (length (filter p t)) sweep_batch"
    by (simp add: batch_ids_def length_top_by)
  then have "0 < length (batch_ids rid p t)"
    using Cons by (simp add: sweep_batch_def)
  then show ?thesis
    using Cons by simp
qed

lemma batch_ids_hit: "filter p t \<noteq> [] \<Longrightarrow> \<exists>r \<in> set t. in_batch rid p (batch_ids rid p t) r"
proof -
  assume "filter p t \<noteq> []"
  then have "batch_ids rid p t \<noteq> []"
    by (simp add: batch_ids_Nil)
  then have "top_by rid sweep_batch (filter p t) \<noteq> []"
    by (simp add: batch_ids_def)
  then obtain r where r: "r \<in> set (top_by rid sweep_batch (filter p t))"
    by (meson last_in_set)
  then have "r \<in> set t \<and> p r"
    using set_top_by [of rid sweep_batch "filter p t"] by auto
  then show ?thesis
    using r by (auto simp: in_batch_def batch_ids_def)
qed

text \<open>One update of every row the sweep is about, without batches.\<close>

definition settled :: "('r \<Rightarrow> bool) \<Rightarrow> ('r \<Rightarrow> bool) \<Rightarrow> ('r \<Rightarrow> 'r) \<Rightarrow> ('r \<Rightarrow> 'r) \<Rightarrow> 'r \<Rightarrow> 'r" where
  "settled dead requeue bury release r = (if dead r then bury r else if requeue r then release r else r)"

locale lease_sweep =
  fixes rid :: "'r \<Rightarrow> int"
    and dead requeue :: "'r \<Rightarrow> bool"
    and bury release :: "'r \<Rightarrow> 'r"
  assumes disjoint: "dead r \<Longrightarrow> \<not> requeue r"
    and buried: "dead r \<Longrightarrow> \<not> dead (bury r) \<and> \<not> requeue (bury r)"
    and released_gone: "requeue r \<Longrightarrow> \<not> dead (release r) \<and> \<not> requeue (release r)"
begin

abbreviation settle :: "'r \<Rightarrow> 'r" where
  "settle \<equiv> settled dead requeue bury release"

lemma settle_buried [simp]: "dead r \<Longrightarrow> settle (bury r) = settle r"
  using buried by (simp add: settled_def)

lemma settle_released [simp]: "requeue r \<Longrightarrow> settle (release r) = settle r"
  using released_gone disjoint by (auto simp: settled_def)

lemma round_row:
  assumes r: "sweep_round rid dead requeue bury release c t = (c', t')"
  shows "\<exists>f. t' = map f t \<and> (\<forall>r. f r = r \<or> (dead r \<and> f r = bury r) \<or> (requeue r \<and> f r = release r))
      \<and> (filter dead t \<noteq> [] \<or> filter requeue t \<noteq> [] \<longrightarrow>
          (\<exists>r \<in> set t. (dead r \<and> f r = bury r) \<or> (requeue r \<and> f r = release r)))"
proof -
  let ?p = "in_batch rid dead (batch_ids rid dead t)"
  let ?q = "in_batch rid requeue (batch_ids rid requeue t)"
  let ?f = "\<lambda>r. if ?p r then bury r else if ?q r then release r else r"
  have pd: "?p r \<Longrightarrow> dead r" and qr: "?q r \<Longrightarrow> requeue r" for r
    by (simp_all add: in_batch_def)
  have nq: "dead r \<Longrightarrow> \<not> ?q (bury r)" for r
    using buried [of r] by (simp add: in_batch_def)
  have eq: "t' = map ?f t"
    using r nq pd by (auto simp: sweep_round_def Let_def update_where_def)
  have hit: "\<exists>r \<in> set t. (dead r \<and> ?f r = bury r) \<or> (requeue r \<and> ?f r = release r)"
    if "filter dead t \<noteq> [] \<or> filter requeue t \<noteq> []"
  proof (cases "filter dead t \<noteq> []")
    case True
    then show ?thesis
      using batch_ids_hit [of dead t rid] pd by fastforce
  next
    case False
    then have "\<forall>r \<in> set t. \<not> ?p r" and "filter requeue t \<noteq> []"
      using that pd by (auto simp: filter_empty_conv)
    then show ?thesis
      using batch_ids_hit [of requeue t rid] qr by fastforce
  qed
  show ?thesis
    using eq hit pd qr by (intro exI [of _ ?f]) auto
qed

definition left_over :: "'r list \<Rightarrow> nat" where
  "left_over t = length (filter (\<lambda>r. dead r \<or> requeue r) t)"

lemma round_counts:
  assumes "sweep_round rid dead requeue bury release c t = (c', t')"
  shows "sr_dead c' + length (filter dead t') = sr_dead c + length (filter dead t)"
    and "sr_requeued c' + length (filter requeue t') = sr_requeued c + length (filter requeue t)"
proof -
  let ?p = "in_batch rid dead (batch_ids rid dead t)"
  let ?q = "in_batch rid requeue (batch_ids rid requeue t)"
  have pd: "?p r \<Longrightarrow> dead r" and qr: "?q r \<Longrightarrow> requeue r" for r
    by (simp_all add: in_batch_def)
  have upd: "rows_affected p u + length (filter d (update_where p f u)) = length (filter d u)"
    if "\<And>r. p r \<Longrightarrow> d r" "\<And>r. p r \<Longrightarrow> \<not> d (f r)" for p d f and u :: "'r list"
    using that by (induction u) (auto simp: rows_affected_def update_where_def)
  have keep: "length (filter d (update_where p f u)) = length (filter d u)"
    if "\<And>r. p r \<Longrightarrow> d r = d (f r)" for p d f and u :: "'r list"
    using that by (induction u) (auto simp: update_where_def)
  let ?t1 = "update_where ?p bury t"
  have c: "sr_dead c' = sr_dead c + rows_affected ?p t" "sr_requeued c' = sr_requeued c + rows_affected ?q ?t1"
    and t': "t' = update_where ?q release ?t1"
    using assms by (auto simp: sweep_round_def Let_def)
  have "rows_affected ?p t + length (filter dead ?t1) = length (filter dead t)"
    by (rule upd) (use pd buried in blast)+
  moreover have "length (filter dead t') = length (filter dead ?t1)"
    unfolding t' by (rule keep) (use qr disjoint released_gone in blast)
  ultimately show "sr_dead c' + length (filter dead t') = sr_dead c + length (filter dead t)"
    using c by simp
  have "rows_affected ?q ?t1 + length (filter requeue t') = length (filter requeue ?t1)"
    unfolding t' by (rule upd) (use qr released_gone in blast)+
  moreover have "length (filter requeue ?t1) = length (filter requeue t)"
    by (rule keep) (use pd disjoint buried in blast)
  ultimately show "sr_requeued c' + length (filter requeue t') = sr_requeued c + length (filter requeue t)"
    using c by simp
qed

lemma left_over_decreases:
  assumes "\<And>r. f r = r \<or> (dead r \<and> f r = bury r) \<or> (requeue r \<and> f r = release r)"
    and "r \<in> set t" and "(dead r \<and> f r = bury r) \<or> (requeue r \<and> f r = release r)"
  shows "left_over (map f t) < left_over t"
proof -
  let ?P = "\<lambda>r. dead r \<or> requeue r"
  have le: "?P (f x) \<Longrightarrow> ?P x" for x
    using assms(1) [of x] buried [of x] released_gone [of x] by metis
  have lt: "?P r \<and> \<not> ?P (f r)"
    using assms(3) buried [of r] released_gone [of r] by metis
  have mono: "length (filter ?P (map f u)) \<le> length (filter ?P u)" for u
    using le by (induction u) auto
  show ?thesis
    using assms(2)
  proof (induction t)
    case (Cons x xs)
    then show ?case
      using lt le mono [of xs] by (auto simp: left_over_def less_Suc_eq_le)
  qed simp
qed

theorem sweep_total:
  "sweep_loop rid dead requeue bury release c t =
     Some (\<lparr>sr_requeued = sr_requeued c + length (filter requeue t),
            sr_dead = sr_dead c + length (filter dead t)\<rparr>, map settle t)"
proof (induction "left_over t" arbitrary: c t rule: less_induct)
  case less
  show ?case
  proof (cases "filter dead t = [] \<and> filter requeue t = []")
    case True
    then have "map settle t = t"
      by (auto simp: settled_def filter_empty_conv intro: map_idI)
    then show ?thesis
      using True by (subst sweep_loop.simps) (simp add: batch_ids_Nil)
  next
    case False
    obtain c' t' where r: "sweep_round rid dead requeue bury release c t = (c', t')"
      by fastforce
    obtain f where f: "t' = map f t" "\<And>r. f r = r \<or> (dead r \<and> f r = bury r) \<or> (requeue r \<and> f r = release r)"
      and hit: "\<exists>r \<in> set t. (dead r \<and> f r = bury r) \<or> (requeue r \<and> f r = release r)"
      using round_row [OF r] False by metis
    have "left_over t' < left_over t"
      using hit left_over_decreases [of f] f by blast
    moreover have "settle (f x) = settle x" for x
      using f(2) [of x] by auto
    then have "map settle t' = map settle t"
      by (simp add: f(1))
    moreover have "sweep_loop rid dead requeue bury release c t = sweep_loop rid dead requeue bury release c' t'"
      using False by (subst sweep_loop.simps) (simp only: batch_ids_Nil if_False r prod.case)
    ultimately show ?thesis
      using less.hyps [of t' c'] round_counts [OF r] by simp
  qed
qed

lemma sweep_counts: "length (filter dead t) + length (filter requeue t) = length (filter (\<lambda>r. dead r \<or> requeue r) t)"
  using disjoint by (induction t) auto

lemma settle_done: "\<not> dead (settle r) \<and> \<not> requeue (settle r)"
  using buried released_gone by (simp add: settled_def)

end

end
