(* ===== verification/Outbox_Queue.thy ===== *)
theory Outbox_Queue
  imports Lease_Tables Spi_Types
begin

text \<open>
  The outbox of the native SQL store (\<^verbatim>\<open>store.rs\<close>): a table of events that workers claim under
  a lease, deliver, and acknowledge or fail. Each definition is one method, its SQL statements
  read as operations on the table. A statement the database refuses changes nothing, so the
  methods are modelled as they run when the database answers.
\<close>

section \<open>Rows\<close>

record outbox_row =
  or_id :: int
  or_uuid :: string
  or_tenant_id :: i64
  or_aggregate_type :: string
  or_aggregate_id :: string
  or_event_type :: string
  or_event_version :: string
  or_payload_json :: string
  or_publish_state :: string
  or_published_at :: "string option"
  or_retry_count :: int
  or_lease_owner :: "string option"
  or_lease_token :: "string option"
  or_lease_expires_at :: "string option"
  or_next_attempt_at :: "string option"
  or_created_at :: string
  or_updated_at :: string

record native_outbox_event =
  no_outbox_id :: string
  no_aggregate_type :: string
  no_aggregate_id :: string
  no_event_type :: string
  no_event_version :: string
  no_payload_json :: string
  no_publish_state :: string
  no_published_at :: "string option"
  no_retry_count :: int

record scoped_outbox_event =
  so_tenant_id :: i64
  so_lease_owner :: "string option"
  so_lease_token :: "string option"
  so_lease_expires_at :: "string option"
  so_outbox :: native_outbox_event

record append_outbox_event_command =
  ae_scope :: scope_context
  ae_outbox_id :: string
  ae_aggregate_type :: string
  ae_aggregate_id :: string
  ae_event_type :: string
  ae_event_version :: string
  ae_payload_json :: string

datatype outbox_store_error = OutboxConflict i64 string | PayloadNotJson | IdGeneration

definition native_event :: "outbox_row \<Rightarrow> native_outbox_event" where
  "native_event r =
     \<lparr>no_outbox_id = or_uuid r, no_aggregate_type = or_aggregate_type r, no_aggregate_id = or_aggregate_id r,
      no_event_type = or_event_type r, no_event_version = or_event_version r,
      no_payload_json = or_payload_json r, no_publish_state = or_publish_state r,
      no_published_at = or_published_at r, no_retry_count = or_retry_count r\<rparr>"

text \<open>\<^verbatim>\<open>WHERE tenant_id = ? AND uuid = ?\<close>.\<close>

definition outbox_key :: "i64 \<Rightarrow> string \<Rightarrow> outbox_row \<Rightarrow> bool" where
  "outbox_key tenant uuid r \<longleftrightarrow> or_tenant_id r = tenant \<and> or_uuid r = uuid"

definition retrieve_outbox_event :: "scope_context \<Rightarrow> string \<Rightarrow> outbox_row list \<Rightarrow> native_outbox_event option" where
  "retrieve_outbox_event sc uuid t = map_option native_event (find (outbox_key (sc_tenant_id sc) uuid) t)"

section \<open>Appending\<close>

definition same_event :: "append_outbox_event_command \<Rightarrow> outbox_row \<Rightarrow> bool" where
  "same_event c r \<longleftrightarrow>
     or_aggregate_type r = ae_aggregate_type c \<and> or_aggregate_id r = ae_aggregate_id c \<and>
     or_event_type r = ae_event_type c \<and> or_event_version r = ae_event_version c \<and>
     or_payload_json r = ae_payload_json c"

definition outbox_conflict :: "append_outbox_event_command \<Rightarrow> outbox_store_error" where
  "outbox_conflict c = OutboxConflict (sc_tenant_id (ae_scope c)) (ae_outbox_id c)"

definition existing_outbox :: "append_outbox_event_command \<Rightarrow> outbox_row list \<Rightarrow> outbox_row option" where
  "existing_outbox c t = find (outbox_key (sc_tenant_id (ae_scope c)) (ae_outbox_id c)) t"

definition inserted_outbox :: "int \<Rightarrow> string \<Rightarrow> string \<Rightarrow> append_outbox_event_command \<Rightarrow> outbox_row" where
  "inserted_outbox row_id created updated c =
     \<lparr>or_id = row_id, or_uuid = ae_outbox_id c, or_tenant_id = sc_tenant_id (ae_scope c),
      or_aggregate_type = ae_aggregate_type c, or_aggregate_id = ae_aggregate_id c,
      or_event_type = ae_event_type c, or_event_version = ae_event_version c,
      or_payload_json = ae_payload_json c, or_publish_state = ''pending'', or_published_at = None,
      or_retry_count = 0, or_lease_owner = None, or_lease_token = None, or_lease_expires_at = None,
      or_next_attempt_at = None, or_created_at = created, or_updated_at = updated\<rparr>"

definition appended_outbox :: "append_outbox_event_command \<Rightarrow> native_outbox_event" where
  "appended_outbox c =
     \<lparr>no_outbox_id = ae_outbox_id c, no_aggregate_type = ae_aggregate_type c,
      no_aggregate_id = ae_aggregate_id c, no_event_type = ae_event_type c,
      no_event_version = ae_event_version c, no_payload_json = ae_payload_json c,
      no_publish_state = ''pending'', no_published_at = None, no_retry_count = 0\<rparr>"

definition replay_or_conflict :: "append_outbox_event_command \<Rightarrow> outbox_row option \<Rightarrow>
    outbox_store_error + native_outbox_event" where
  "replay_or_conflict c existing =
     (case existing of
        Some r \<Rightarrow> if same_event c r then Inr (native_event r) else Inl (outbox_conflict c)
      | None \<Rightarrow> Inl (outbox_conflict c))"

text \<open>
  The first look reads the table \<^verbatim>\<open>seen\<close>; the insert meets the table \<^verbatim>\<open>t\<close>, to which others may
  have added rows since. The unique index on tenant and uuid refuses a second row, and the
  refusal is resolved by looking again. The clock is read twice, and the id generator may fail.
\<close>

definition append_outbox_event :: "(string \<Rightarrow> bool) \<Rightarrow> int option \<Rightarrow> string \<Rightarrow> string \<Rightarrow> append_outbox_event_command \<Rightarrow>
    outbox_row list \<Rightarrow> outbox_row list \<Rightarrow> (outbox_store_error + native_outbox_event) \<times> outbox_row list" where
  "append_outbox_event is_json next_row_id created updated c seen t =
     (if \<not> is_json (ae_payload_json c) then (Inl PayloadNotJson, t)
      else (case existing_outbox c seen of
          Some r \<Rightarrow> (replay_or_conflict c (Some r), t)
        | None \<Rightarrow>
            (case next_row_id of
               None \<Rightarrow> (Inl IdGeneration, t)
             | Some row_id \<Rightarrow>
                 if existing_outbox c t \<noteq> None
                 then (replay_or_conflict c (existing_outbox c t), t)
                 else (Inr (appended_outbox c), t @ [inserted_outbox row_id created updated c]))))"

section \<open>Scans\<close>

definition outbox_order :: "outbox_row \<Rightarrow> string \<times> int" where
  "outbox_order r = (or_created_at r, or_id r)"

definition list_pending_outbox_events :: "scope_context \<Rightarrow> nat \<Rightarrow> outbox_row list \<Rightarrow> native_outbox_event list" where
  "list_pending_outbox_events sc limit t =
     map native_event (top_by outbox_order (max limit 1)
       (filter (\<lambda>r. or_tenant_id r = sc_tenant_id sc \<and> or_publish_state r = ''pending'') t))"

definition scoped_event :: "string option \<Rightarrow> string option \<Rightarrow> string option \<Rightarrow> outbox_row \<Rightarrow> scoped_outbox_event" where
  "scoped_event owner token expires r =
     \<lparr>so_tenant_id = or_tenant_id r, so_lease_owner = owner, so_lease_token = token,
      so_lease_expires_at = expires, so_outbox = native_event r\<rparr>"

definition list_global_pending_outbox_events :: "nat \<Rightarrow> outbox_row list \<Rightarrow> scoped_outbox_event list" where
  "list_global_pending_outbox_events limit t =
     map (scoped_event None None None) (top_by outbox_order (max limit 1)
       (filter (\<lambda>r. or_publish_state r = ''pending'') t))"

section \<open>Claiming\<close>

definition claimable :: "string \<Rightarrow> outbox_row \<Rightarrow> bool" where
  "claimable now r \<longleftrightarrow> or_publish_state r = ''pending'' \<and> sql_null_or_upto (or_next_attempt_at r) now"

definition claim_candidates :: "string \<Rightarrow> nat \<Rightarrow> outbox_row list \<Rightarrow> outbox_row list" where
  "claim_candidates now limit t = top_by outbox_order (max limit 1) (filter (claimable now) t)"

definition lease_row :: "string \<Rightarrow> string \<Rightarrow> string \<Rightarrow> string \<Rightarrow> outbox_row \<Rightarrow> outbox_row" where
  "lease_row owner token expires now r =
     r\<lparr>or_publish_state := ''processing'', or_lease_owner := Some owner, or_lease_token := Some token,
       or_lease_expires_at := Some expires, or_next_attempt_at := None, or_updated_at := now\<rparr>"

definition claim_global_pending_outbox_events_postgres :: "clock \<Rightarrow> nat \<Rightarrow> string \<Rightarrow> string \<Rightarrow> nat \<Rightarrow> outbox_row list \<Rightarrow>
    scoped_outbox_event list \<times> outbox_row list" where
  "claim_global_pending_outbox_events_postgres ck limit owner token duration t =
     (let now = ck_now ck;
          expires = ck_after ck (lease_seconds duration);
          picked = map or_id (claim_candidates now limit t);
          t' = update_where (\<lambda>r. or_id r \<in> set picked) (lease_row owner token expires now) t
      in (map (scoped_event (Some owner) (Some token) (Some expires)) (filter (\<lambda>r. or_id r \<in> set picked) t'), t'))"

text \<open>The event reported for a row that the loop of the SQLite branch has updated.\<close>

definition sqlite_claimed :: "string \<Rightarrow> string \<Rightarrow> string \<Rightarrow> outbox_row \<Rightarrow> scoped_outbox_event" where
  "sqlite_claimed owner token expires r =
     scoped_event (Some owner) (Some token) (Some expires)
       (r\<lparr>or_publish_state := ''processing'', or_published_at := None\<rparr>)"

fun claim_each :: "string \<Rightarrow> string \<Rightarrow> string \<Rightarrow> string \<Rightarrow> outbox_row list \<Rightarrow> outbox_row list \<Rightarrow>
    scoped_outbox_event list \<times> outbox_row list" where
  "claim_each owner token expires now [] t = ([], t)"
| "claim_each owner token expires now (r # rs) t =
     (let p = (\<lambda>r'. or_id r' = or_id r \<and> or_publish_state r' = ''pending'');
          t' = update_where p (lease_row owner token expires now) t;
          (claimed, t'') = claim_each owner token expires now rs t'
      in (if 0 < rows_affected p t then sqlite_claimed owner token expires r # claimed else claimed, t''))"

definition claim_global_pending_outbox_events_sqlite :: "clock \<Rightarrow> nat \<Rightarrow> string \<Rightarrow> string \<Rightarrow> nat \<Rightarrow> outbox_row list \<Rightarrow>
    scoped_outbox_event list \<times> outbox_row list" where
  "claim_global_pending_outbox_events_sqlite ck limit owner token duration t =
     (let rows = claim_candidates (ck_now ck) limit t
      in if rows = [] then ([], t)
         else claim_each owner token (ck_after ck (lease_seconds duration)) (ck_now ck) rows t)"

definition claim_global_pending_outbox_events :: "memory_sql_dialect \<Rightarrow> clock \<Rightarrow> nat \<Rightarrow> string \<Rightarrow> string \<Rightarrow> nat \<Rightarrow>
    outbox_row list \<Rightarrow> scoped_outbox_event list \<times> outbox_row list" where
  "claim_global_pending_outbox_events dialect =
     (case dialect of
        Postgres \<Rightarrow> claim_global_pending_outbox_events_postgres
      | Sqlite \<Rightarrow> claim_global_pending_outbox_events_sqlite)"

section \<open>Acknowledging\<close>

definition holds_lease :: "string \<Rightarrow> string \<Rightarrow> string \<Rightarrow> outbox_row \<Rightarrow> bool" where
  "holds_lease owner token now r \<longleftrightarrow>
     lease_matches (or_lease_owner r) (or_lease_token r) (or_lease_expires_at r) owner token now"

definition fenced :: "i64 \<Rightarrow> string \<Rightarrow> string \<Rightarrow> string \<Rightarrow> string \<Rightarrow> outbox_row \<Rightarrow> bool" where
  "fenced tenant uuid owner token now r \<longleftrightarrow>
     outbox_key tenant uuid r \<and> or_publish_state r = ''processing'' \<and> holds_lease owner token now r"

definition released :: "outbox_row \<Rightarrow> outbox_row" where
  "released r = r\<lparr>or_lease_owner := None, or_lease_token := None, or_lease_expires_at := None\<rparr>"

definition tenant_scope :: "i64 \<Rightarrow> scope_context" where
  "tenant_scope tenant =
     \<lparr>sc_tenant_id = tenant, sc_space_id = 0, sc_organization_id = None, sc_user_id = None\<rparr>"

definition mark_outbox_published :: "clock \<Rightarrow> scope_context \<Rightarrow> string \<Rightarrow> string \<Rightarrow> string \<Rightarrow> outbox_row list \<Rightarrow>
    native_outbox_event option \<times> outbox_row list" where
  "mark_outbox_published ck sc uuid owner token t =
     (let now = ck_now ck;
          p = (\<lambda>r. outbox_key (sc_tenant_id sc) uuid r \<and> or_publish_state r \<in> {''pending'', ''processing''} \<and>
                 holds_lease owner token now r);
          t' = update_where p (\<lambda>r. r\<lparr>or_publish_state := ''published'', or_published_at := Some now,
                 or_updated_at := now\<rparr>) t
      in if rows_affected p t = 0 then (None, t) else (retrieve_outbox_event sc uuid t', t'))"

definition published_row :: "string \<Rightarrow> outbox_row \<Rightarrow> outbox_row" where
  "published_row now r =
     (released r)\<lparr>or_publish_state := ''published'', or_published_at := Some now, or_next_attempt_at := None,
       or_updated_at := now\<rparr>"

definition ack_outbox_delivery_success :: "clock \<Rightarrow> i64 \<Rightarrow> string \<Rightarrow> string \<Rightarrow> string \<Rightarrow> outbox_row list \<Rightarrow>
    native_outbox_event option \<times> outbox_row list" where
  "ack_outbox_delivery_success ck tenant uuid owner token t =
     (let now = ck_now ck;
          p = fenced tenant uuid owner token now;
          t' = update_where p (published_row now) t
      in if rows_affected p t = 0 then (None, t)
         else (retrieve_outbox_event (tenant_scope tenant) uuid t', t'))"

section \<open>Failing\<close>

definition saturating_succ :: "int \<Rightarrow> int" where
  "saturating_succ n = min (n + 1) (2 ^ 63 - 1)"

definition backoff_seconds :: "int \<Rightarrow> nat" where
  "backoff_seconds next_retry = 2 ^ nat (max 1 (min next_retry 5))"

definition failed_row :: "clock \<Rightarrow> nat \<Rightarrow> int \<Rightarrow> outbox_row \<Rightarrow> outbox_row" where
  "failed_row ck max_retries next_retry r =
     (let failed = int (max max_retries 1) \<le> next_retry
      in (released r)\<lparr>or_retry_count := next_retry,
           or_publish_state := (if failed then ''failed'' else ''pending''),
           or_next_attempt_at := (if failed then None else Some (ck_after ck (backoff_seconds next_retry))),
           or_updated_at := ck_now ck\<rparr>)"

definition fail_outbox_delivery :: "clock \<Rightarrow> i64 \<Rightarrow> string \<Rightarrow> string \<Rightarrow> string \<Rightarrow> nat \<Rightarrow> outbox_row list \<Rightarrow>
    bool \<times> outbox_row list" where
  "fail_outbox_delivery ck tenant uuid owner token max_retries t =
     (case find (fenced tenant uuid owner token (ck_now ck)) t of
        None \<Rightarrow> (False, t)
      | Some current \<Rightarrow>
          let next_retry = saturating_succ (or_retry_count current);
              p = (\<lambda>r. outbox_key tenant uuid r \<and> or_publish_state r = ''processing'' \<and>
                     sql_eq (or_lease_owner r) owner \<and> sql_eq (or_lease_token r) token)
          in if rows_affected p t = 0 then (False, t)
             else (True, update_where p (failed_row ck max_retries next_retry) t))"

definition mark_outbox_failed :: "clock \<Rightarrow> scope_context \<Rightarrow> string \<Rightarrow> string \<Rightarrow> string \<Rightarrow> nat \<Rightarrow> outbox_row list \<Rightarrow>
    native_outbox_event option \<times> outbox_row list" where
  "mark_outbox_failed ck sc uuid owner token max_retries t =
     (let (updated, t') = fail_outbox_delivery ck (sc_tenant_id sc) uuid owner token max_retries t
      in if \<not> updated then (None, t') else (retrieve_outbox_event sc uuid t', t'))"

definition record_outbox_delivery_failure :: "clock \<Rightarrow> i64 \<Rightarrow> string \<Rightarrow> string \<Rightarrow> string \<Rightarrow> nat \<Rightarrow>
    outbox_row list \<Rightarrow> native_outbox_event option \<times> outbox_row list" where
  "record_outbox_delivery_failure ck tenant uuid owner token max_retries t =
     (let (updated, t') = fail_outbox_delivery ck tenant uuid owner token max_retries t
      in if \<not> updated then (None, t') else (retrieve_outbox_event (tenant_scope tenant) uuid t', t'))"

definition renew_outbox_delivery_lease :: "clock \<Rightarrow> i64 \<Rightarrow> string \<Rightarrow> string \<Rightarrow> string \<Rightarrow> nat \<Rightarrow>
    outbox_row list \<Rightarrow> bool \<times> outbox_row list" where
  "renew_outbox_delivery_lease ck tenant uuid owner token duration t =
     (let p = fenced tenant uuid owner token (ck_now ck)
      in (rows_affected p t = 1,
          update_where p (\<lambda>r. r\<lparr>or_lease_expires_at := Some (ck_after ck (lease_seconds duration)),
            or_updated_at := ck_now ck\<rparr>) t))"

section \<open>The sweep of expired leases\<close>

definition stale :: "string \<Rightarrow> outbox_row \<Rightarrow> bool" where
  "stale now r \<longleftrightarrow> or_publish_state r = ''processing'' \<and> lease_expired (or_lease_expires_at r) now"

definition swept_row :: "string \<Rightarrow> string \<Rightarrow> outbox_row \<Rightarrow> outbox_row" where
  "swept_row publish_state now r =
     (released r)\<lparr>or_publish_state := publish_state, or_retry_count := or_retry_count r + 1, or_updated_at := now\<rparr>"

definition outbox_dead :: "string \<Rightarrow> nat \<Rightarrow> outbox_row \<Rightarrow> bool" where
  "outbox_dead now max_retries r \<longleftrightarrow> stale now r \<and> int max_retries \<le> or_retry_count r + 1"

definition outbox_requeue :: "string \<Rightarrow> nat \<Rightarrow> outbox_row \<Rightarrow> bool" where
  "outbox_requeue now max_retries r \<longleftrightarrow> stale now r \<and> or_retry_count r + 1 < int max_retries"

text \<open>
  The statements of the sweep always carry 500 placeholders and bind only the ids found; SQLite
  reads the rest as \<^verbatim>\<open>NULL\<close>, which is in no list of ids.
\<close>

definition requeue_stale_processing_outbox_events :: "clock \<Rightarrow> nat \<Rightarrow> outbox_row list \<Rightarrow>
    (stale_requeue_counts \<times> outbox_row list) option" where
  "requeue_stale_processing_outbox_events ck max_retries t =
     (let now = ck_now ck
      in sweep_loop or_id (outbox_dead now max_retries) (outbox_requeue now max_retries)
           (swept_row ''failed'' now) (swept_row ''pending'' now) \<lparr>sr_requeued = 0, sr_dead = 0\<rparr> t)"

end
