(* ===== verification/Outbox_Laws.thy ===== *)
theory Outbox_Laws
  imports Outbox_Queue Sql_Tables
begin

text \<open>
  The life of an outbox row as a step relation on rows (\<^verbatim>\<open>row_step\<close>), every operation of the
  queue as steps of its rows, the state machine of the table (\<^verbatim>\<open>outbox_step\<close>), and its
  invariant. What an operation answers is stated for a table that satisfies the invariant.
\<close>

section \<open>The invariant\<close>

definition row_key :: "outbox_row \<Rightarrow> i64 \<times> string" where
  "row_key r = (or_tenant_id r, or_uuid r)"

definition lease_free :: "outbox_row \<Rightarrow> bool" where
  "lease_free r \<longleftrightarrow> or_lease_owner r = None \<and> or_lease_token r = None \<and> or_lease_expires_at r = None"

definition leased :: "outbox_row \<Rightarrow> bool" where
  "leased r \<longleftrightarrow> or_lease_owner r \<noteq> None \<and> or_lease_token r \<noteq> None \<and> or_lease_expires_at r \<noteq> None"

definition open_row :: "outbox_row \<Rightarrow> bool" where
  "open_row r \<longleftrightarrow> or_publish_state r \<in> {''pending'', ''processing''}"

definition row_ok :: "outbox_row \<Rightarrow> bool" where
  "row_ok r \<longleftrightarrow>
     or_publish_state r \<in> {''pending'', ''processing'', ''published'', ''failed''} \<and> 0 \<le> or_retry_count r \<and>
     (or_publish_state r = ''processing'' \<longrightarrow> leased r) \<and>
     (or_publish_state r \<in> {''pending'', ''failed''} \<longrightarrow> lease_free r) \<and>
     (or_published_at r \<noteq> None \<longleftrightarrow> or_publish_state r = ''published'') \<and>
     (or_next_attempt_at r \<noteq> None \<longrightarrow> or_publish_state r = ''pending'')"

definition outbox_ok :: "outbox_row list \<Rightarrow> bool" where
  "outbox_ok t \<longleftrightarrow> distinct (map or_id t) \<and> distinct (map row_key t) \<and> (\<forall>r \<in> set t. row_ok r)"

lemma outbox_key_row_key: "outbox_key tenant uuid r \<longleftrightarrow> row_key r = (tenant, uuid)"
  by (simp add: outbox_key_def row_key_def)

section \<open>The steps of a row\<close>

inductive row_step :: "outbox_row \<Rightarrow> outbox_row \<Rightarrow> bool" where
  claimed: "or_publish_state r = ''pending'' \<Longrightarrow> row_step r (lease_row ow tk ex now r)"
| marked: "or_publish_state r \<in> {''pending'', ''processing''} \<Longrightarrow> holds_lease ow tk now r \<Longrightarrow>
    row_step r (r\<lparr>or_publish_state := ''published'', or_published_at := Some now, or_updated_at := now\<rparr>)"
| acknowledged: "or_publish_state r = ''processing'' \<Longrightarrow> holds_lease ow tk now r \<Longrightarrow> row_step r (published_row now r)"
| charged: "or_publish_state r = ''processing'' \<Longrightarrow> holds_lease ow tk (ck_now ck) r \<Longrightarrow>
    row_step r (failed_row ck m (saturating_succ (or_retry_count r)) r)"
| renewed: "or_publish_state r = ''processing'' \<Longrightarrow> holds_lease ow tk now r \<Longrightarrow>
    row_step r (r\<lparr>or_lease_expires_at := Some ex, or_updated_at := now\<rparr>)"
| swept: "stale now r \<Longrightarrow> s \<in> {''pending'', ''failed''} \<Longrightarrow> row_step r (swept_row s now r)"

lemmas row_defs = lease_row_def published_row_def failed_row_def swept_row_def released_def Let_def

lemma saturating_succ_nonneg: "0 \<le> n \<Longrightarrow> 0 \<le> saturating_succ n"
  by (simp add: saturating_succ_def)

lemma row_step_ok: "row_step r r' \<Longrightarrow> row_ok r \<Longrightarrow> row_ok r'"
  by (induction rule: row_step.induct)
     (auto simp: row_ok_def row_defs leased_def lease_free_def holds_lease_def saturating_succ_nonneg stale_def)

lemma row_step_open: "row_step r r' \<Longrightarrow> open_row r"
  by (induction rule: row_step.induct) (auto simp: open_row_def stale_def)

text \<open>A step changes the state of delivery, never the event.\<close>

definition same_content :: "outbox_row \<Rightarrow> outbox_row \<Rightarrow> bool" where
  "same_content r r' \<longleftrightarrow>
     or_id r = or_id r' \<and> or_uuid r = or_uuid r' \<and> or_tenant_id r = or_tenant_id r' \<and>
     or_aggregate_type r = or_aggregate_type r' \<and> or_aggregate_id r = or_aggregate_id r' \<and>
     or_event_type r = or_event_type r' \<and> or_event_version r = or_event_version r' \<and>
     or_payload_json r = or_payload_json r' \<and> or_created_at r = or_created_at r'"

lemma row_step_content: "row_step r r' \<Longrightarrow> same_content r r'"
  by (induction rule: row_step.induct) (simp_all add: same_content_def row_defs)

section \<open>The operations as row steps\<close>

definition full_key :: "outbox_row \<Rightarrow> int \<times> (i64 \<times> string)" where
  "full_key r = (or_id r, row_key r)"

interpretation outbox_life: row_life row_step full_key row_ok open_row
  by unfold_locales
     (auto simp: full_key_def row_key_def same_content_def dest: row_step_content row_step_ok row_step_open)

abbreviation evolves :: "outbox_row list \<Rightarrow> outbox_row list \<Rightarrow> bool" where
  "evolves \<equiv> evolves_by row_step"

lemmas evolves_refl = outbox_life.evolves_refl
lemmas evolves_trans = outbox_life.evolves_trans
lemmas evolves_map = outbox_life.evolves_map
lemmas evolves_update = outbox_life.evolves_update

lemma outbox_keys_evolve:
  assumes "evolves t t'"
  shows "map row_key t' = map row_key t" and "map or_id t' = map or_id t"
proof -
  have k: "map full_key t' = map full_key t"
    by (rule outbox_life.evolves_keys [OF assms])
  have "map row_key u = map snd (map full_key u)" and "map or_id u = map fst (map full_key u)" for u
    by (simp_all add: full_key_def)
  then show "map row_key t' = map row_key t" and "map or_id t' = map or_id t"
    using k by metis+
qed

lemma evolves_ok: "evolves t t' \<Longrightarrow> outbox_ok t \<Longrightarrow> outbox_ok t'"
  using outbox_keys_evolve [of t t'] outbox_life.evolves_fine [of t t'] by (simp add: outbox_ok_def)

lemma row_steps_content: "row_step\<^sup>*\<^sup>* r r' \<Longrightarrow> same_content r r'"
  by (induction rule: rtranclp_induct) (auto simp: same_content_def dest: row_step_content [unfolded same_content_def])

lemma evolves_content: "evolves t t' \<Longrightarrow> list_all2 same_content t t'"
  unfolding evolves_by_def by (erule list_all2_mono) (rule row_steps_content)

text \<open>Two rows of a table with the same key are one.\<close>

lemma key_unique: "outbox_ok t \<Longrightarrow> r \<in> set t \<Longrightarrow> r' \<in> set t \<Longrightarrow> row_key r = row_key r' \<Longrightarrow> r = r'"
  by (auto simp: outbox_ok_def distinct_map dest: inj_onD)

lemma id_unique: "outbox_ok t \<Longrightarrow> r \<in> set t \<Longrightarrow> r' \<in> set t \<Longrightarrow> or_id r = or_id r' \<Longrightarrow> r = r'"
  by (auto simp: outbox_ok_def distinct_map dest: inj_onD)

lemma claim_each_evolves: "evolves t (snd (claim_each ow tk ex now rs t))"
proof (induction rs arbitrary: t)
  case (Cons r rs)
  let ?t = "update_where (\<lambda>r'. or_id r' = or_id r \<and> or_publish_state r' = ''pending'') (lease_row ow tk ex now) t"
  have "evolves t ?t"
    by (rule evolves_update) (auto intro: claimed)
  then show ?case
    using Cons.IH [of ?t] by (auto simp: Let_def split_beta intro: evolves_trans)
qed simp

lemma candidates_claimable: "r \<in> set (claim_candidates now limit t) \<Longrightarrow> r \<in> set t \<and> claimable now r"
  using set_top_by [of outbox_order "max limit 1" "filter (claimable now) t"] by (auto simp: claim_candidates_def)

lemma claim_evolves:
  assumes "outbox_ok t"
  shows "evolves t (snd (claim_global_pending_outbox_events d ck limit ow tk dur t))"
proof (cases d)
  case Sqlite
  then show ?thesis
    using claim_each_evolves
    by (simp add: claim_global_pending_outbox_events_def claim_global_pending_outbox_events_sqlite_def Let_def)
next
  case Postgres
  have "or_publish_state r = ''pending''"
    if "r \<in> set t" "or_id r \<in> or_id ` set (claim_candidates (ck_now ck) limit t)" for r
  proof -
    from that(2) obtain c where "c \<in> set (claim_candidates (ck_now ck) limit t)" and i: "or_id r = or_id c"
      by blast
    then have c: "c \<in> set t" "claimable (ck_now ck) c"
      using candidates_claimable by blast+
    then show ?thesis
      using id_unique [OF assms that(1) c(1) i] by (simp add: claimable_def)
  qed
  then show ?thesis
    using Postgres
    by (auto simp: claim_global_pending_outbox_events_def claim_global_pending_outbox_events_postgres_def Let_def
        intro!: evolves_update claimed)
qed

text \<open>The row an acknowledgement is about, and what it becomes.\<close>

lemma fenced_unique: "outbox_ok t \<Longrightarrow> r \<in> set t \<Longrightarrow> r' \<in> set t \<Longrightarrow>
    fenced tenant uuid ow tk now r \<Longrightarrow> outbox_key tenant uuid r' \<Longrightarrow> r' = r"
  by (auto simp: fenced_def outbox_key_row_key intro: key_unique)

lemma find_fenced:
  assumes "outbox_ok t" and "find (fenced tenant uuid ow tk now) t = Some r"
  shows "r \<in> set t" and "fenced tenant uuid ow tk now r"
  using assms(2) by (auto dest: find_Some_in)

lemma fail_evolves:
  assumes "outbox_ok t"
  shows "evolves t (snd (fail_outbox_delivery ck tenant uuid ow tk m t))"
proof (cases "find (fenced tenant uuid ow tk (ck_now ck)) t")
  case (Some r)
  note r = find_fenced [OF assms Some]
  have "evolves t (update_where (\<lambda>r'. outbox_key tenant uuid r' \<and> or_publish_state r' = ''processing'' \<and>
      sql_eq (or_lease_owner r') ow \<and> sql_eq (or_lease_token r') tk)
      (failed_row ck m (saturating_succ (or_retry_count r))) t)"
  proof (rule evolves_update)
    fix r'
    assume "r' \<in> set t" and "outbox_key tenant uuid r' \<and> or_publish_state r' = ''processing'' \<and>
      sql_eq (or_lease_owner r') ow \<and> sql_eq (or_lease_token r') tk"
    then have "r' = r"
      using fenced_unique [OF assms r(1) _ r(2)] by blast
    then show "row_step r' (failed_row ck m (saturating_succ (or_retry_count r)) r')"
      using r(2) charged [of r ow tk ck m] by (simp add: fenced_def)
  qed
  then show ?thesis
    using Some by (simp add: fail_outbox_delivery_def Let_def)
qed (simp add: fail_outbox_delivery_def)

lemma sweep_gone: "\<not> stale now (swept_row s now r)" if "s \<in> {''pending'', ''failed''}"
  using that by (auto simp: stale_def swept_row_def)

interpretation outbox_sweep: lease_sweep or_id "outbox_dead now m" "outbox_requeue now m"
    "swept_row ''failed'' now" "swept_row ''pending'' now" for now m
  by unfold_locales (auto simp: outbox_dead_def outbox_requeue_def sweep_gone)

lemma outbox_stale_split: "outbox_dead now m r \<or> outbox_requeue now m r \<longleftrightarrow> stale now r"
  by (auto simp: outbox_dead_def outbox_requeue_def)

abbreviation swept_table :: "string \<Rightarrow> nat \<Rightarrow> outbox_row list \<Rightarrow> outbox_row list" where
  "swept_table now m t \<equiv> map (settled (outbox_dead now m) (outbox_requeue now m)
     (swept_row ''failed'' now) (swept_row ''pending'' now)) t"

lemma sweep_exact:
  "requeue_stale_processing_outbox_events ck m t =
     Some (\<lparr>sr_requeued = length (filter (outbox_requeue (ck_now ck) m) t),
            sr_dead = length (filter (outbox_dead (ck_now ck) m) t)\<rparr>, swept_table (ck_now ck) m t)"
  by (simp add: requeue_stale_processing_outbox_events_def Let_def outbox_sweep.sweep_total)

lemma outbox_swept:
  "length (filter (outbox_dead now m) t) + length (filter (outbox_requeue now m) t) = length (filter (stale now) t)"
  "list_all (\<lambda>r. \<not> stale now r) (map (settled (outbox_dead now m) (outbox_requeue now m) (swept_row ''failed'' now) (swept_row ''pending'' now)) t)"
  subgoal using outbox_sweep.sweep_counts [of now m t] by (simp only: outbox_stale_split)
  subgoal using outbox_sweep.settle_done [of now m] outbox_stale_split [of now m] by (simp add: list_all_iff) blast
  done

lemma sweep_evolves: "evolves t (swept_table now m t)"
  by (rule evolves_map) (auto simp: settled_def outbox_dead_def outbox_requeue_def intro: swept)

section \<open>The state machine\<close>

inductive outbox_step :: "outbox_row list \<Rightarrow> outbox_row list \<Rightarrow> bool" where
  append: "row_id \<notin> or_id ` set t \<Longrightarrow>
    outbox_step t (snd (append_outbox_event is_json (Some row_id) created updated c seen t))"
| append_refused: "outbox_step t (snd (append_outbox_event is_json None created updated c seen t))"
| claim: "outbox_step t (snd (claim_global_pending_outbox_events d ck limit ow tk dur t))"
| publish: "outbox_step t (snd (mark_outbox_published ck sc uuid ow tk t))"
| ack: "outbox_step t (snd (ack_outbox_delivery_success ck tenant uuid ow tk t))"
| fail: "outbox_step t (snd (mark_outbox_failed ck sc uuid ow tk m t))"
| record_failure: "outbox_step t (snd (record_outbox_delivery_failure ck tenant uuid ow tk m t))"
| renew: "outbox_step t (snd (renew_outbox_delivery_lease ck tenant uuid ow tk dur t))"
| sweep: "requeue_stale_processing_outbox_events ck m t = Some (counts, t') \<Longrightarrow> outbox_step t t'"

definition reachable_outbox :: "outbox_row list \<Rightarrow> bool" where
  "reachable_outbox t \<longleftrightarrow> outbox_step\<^sup>*\<^sup>* [] t"

lemma append_grows:
  "snd (append_outbox_event is_json (Some row_id) created updated c seen t) = t \<or>
   (snd (append_outbox_event is_json (Some row_id) created updated c seen t) = t @ [inserted_outbox row_id created updated c] \<and>
    existing_outbox c t = None)"
  by (auto simp: append_outbox_event_def split: option.splits)

lemma append_refused_same: "snd (append_outbox_event is_json None created updated c seen t) = t"
  by (auto simp: append_outbox_event_def split: option.splits)

lemma existing_None: "existing_outbox c t = None \<longleftrightarrow> (sc_tenant_id (ae_scope c), ae_outbox_id c) \<notin> row_key ` set t"
  by (simp add: existing_outbox_def find_None_iff outbox_key_row_key image_iff) metis

lemma inserted_ok: "row_ok (inserted_outbox row_id created updated c)"
  by (simp add: row_ok_def inserted_outbox_def lease_free_def)

lemma inserted_keys [simp]:
  "row_key (inserted_outbox row_id created updated c) = (sc_tenant_id (ae_scope c), ae_outbox_id c)"
  "or_id (inserted_outbox row_id created updated c) = row_id"
  by (simp_all add: row_key_def inserted_outbox_def)

text \<open>Every step keeps the rows and moves each of them along its life; one may be added.\<close>

lemma outbox_step_rows:
  assumes "outbox_step t t'" and ok: "outbox_ok t"
  shows "\<exists>u new. t' = u @ new \<and> evolves t u \<and> outbox_ok t'"
  using assms(1)
proof cases
  case (append row_id is_json created updated c seen)
  have "outbox_ok (t @ [inserted_outbox row_id created updated c])" if "existing_outbox c t = None"
    using ok that append(2) inserted_ok [of row_id created updated c] by (auto simp: outbox_ok_def existing_None)
  moreover have "t' = t \<or> (t' = t @ [inserted_outbox row_id created updated c] \<and> existing_outbox c t = None)"
    unfolding append(1) by (rule append_grows)
  ultimately show ?thesis
    using ok evolves_refl [of t] by (metis append_Nil2)
next
  case (append_refused is_json created updated c seen)
  then have "t' = t"
    by (simp add: append_refused_same)
  then show ?thesis
    using ok evolves_refl [of t] by (metis append_Nil2)
next
  case (claim d ck limit ow tk dur)
  then show ?thesis
    using claim_evolves [OF ok] evolves_ok [OF _ ok] by (intro exI [of _ t'] exI [of _ "[]"]) simp
next
  case (publish ck sc uuid ow tk)
  have "evolves t t'"
    unfolding publish mark_outbox_published_def Let_def
    by (auto intro!: evolves_update marked [of _ ow tk])
  then show ?thesis
    using evolves_ok [OF _ ok] by (intro exI [of _ t'] exI [of _ "[]"]) simp
next
  case (ack ck tenant uuid ow tk)
  have "evolves t t'"
    unfolding ack ack_outbox_delivery_success_def Let_def
    by (auto simp: fenced_def intro!: evolves_update acknowledged [of _ ow tk])
  then show ?thesis
    using evolves_ok [OF _ ok] by (intro exI [of _ t'] exI [of _ "[]"]) simp
next
  case (fail ck sc uuid ow tk m)
  then have "t' = snd (fail_outbox_delivery ck (sc_tenant_id sc) uuid ow tk m t)"
    by (simp add: mark_outbox_failed_def split_beta)
  then show ?thesis
    using fail_evolves [OF ok] evolves_ok [OF _ ok] by (intro exI [of _ t'] exI [of _ "[]"]) simp
next
  case (record_failure ck tenant uuid ow tk m)
  then have "t' = snd (fail_outbox_delivery ck tenant uuid ow tk m t)"
    by (simp add: record_outbox_delivery_failure_def split_beta)
  then show ?thesis
    using fail_evolves [OF ok] evolves_ok [OF _ ok] by (intro exI [of _ t'] exI [of _ "[]"]) simp
next
  case (renew ck tenant uuid ow tk dur)
  have "evolves t t'"
    unfolding renew renew_outbox_delivery_lease_def Let_def
    by (auto simp: fenced_def intro!: evolves_update renewed [of _ ow tk])
  then show ?thesis
    using evolves_ok [OF _ ok] by (intro exI [of _ t'] exI [of _ "[]"]) simp
next
  case (sweep ck m counts)
  then have "t' = swept_table (ck_now ck) m t"
    by (simp add: sweep_exact)
  then show ?thesis
    using sweep_evolves evolves_ok [OF _ ok] by (intro exI [of _ t'] exI [of _ "[]"]) simp
qed

interpretation outbox_machine: row_machine row_step full_key row_ok open_row outbox_step outbox_ok
  by unfold_locales (rule outbox_step_rows)

lemma outbox_ok_Nil [simp]: "outbox_ok []"
  by (simp add: outbox_ok_def)

lemma reachable_ok: "reachable_outbox t \<Longrightarrow> outbox_ok t"
  using outbox_machine.runs_keep_fine [of "[]" t] by (simp add: reachable_outbox_def)

text \<open>
  What the operations of the queue answer on a table that satisfies the invariant, and the
  equivalence of the two ways to claim.
\<close>

section \<open>Exact effects\<close>

definition replace_row :: "outbox_row \<Rightarrow> outbox_row \<Rightarrow> outbox_row list \<Rightarrow> outbox_row list" where
  "replace_row r r' t = map (\<lambda>x. if x = r then r' else x) t"

lemma pointed_update:
  assumes "outbox_ok t" and "r \<in> set t" and "\<And>x. x \<in> set t \<Longrightarrow> p x \<longleftrightarrow> x = r"
  shows "update_where p f t = replace_row r (f r) t" and "rows_affected p t = 1"
proof -
  show "update_where p f t = replace_row r (f r) t"
    using assms(3) by (simp add: update_where_def replace_row_def)
  have "distinct t"
    using assms(1) by (auto simp: outbox_ok_def distinct_map)
  then have "length (filter p t) = card (set (filter p t))"
    by (metis distinct_card distinct_filter)
  also have "set (filter p t) = {r}"
    using assms(2,3) by auto
  finally show "rows_affected p t = 1"
    by (simp add: rows_affected_def)
qed

lemma fenced_iff:
  assumes "outbox_ok t" and "r \<in> set t" and "fenced tenant uuid ow tk now r" and "x \<in> set t"
  shows "fenced tenant uuid ow tk now x \<longleftrightarrow> x = r"
  using assms fenced_unique [OF assms(1,2,4,3)] by (auto simp: fenced_def)

lemma retrieve_replaced:
  assumes "outbox_ok t" and "r \<in> set t" and "row_key r = (sc_tenant_id sc, uuid)" and "row_key r' = row_key r"
  shows "retrieve_outbox_event sc uuid (replace_row r r' t) = Some (native_event r')"
proof -
  have "\<And>x. x \<in> set t \<Longrightarrow> x \<noteq> r \<Longrightarrow> row_key x \<noteq> row_key r"
    using key_unique [OF assms(1) _ assms(2)] by blast
  then have "find (\<lambda>x. row_key x = row_key r) (replace_row r r' t) = Some r'"
    using assms(2,4) by (induction t) (auto simp: replace_row_def)
  moreover have "outbox_key (sc_tenant_id sc) uuid = (\<lambda>x. row_key x = row_key r)"
    using assms(3) by (simp add: fun_eq_iff outbox_key_row_key)
  ultimately show ?thesis
    by (simp add: retrieve_outbox_event_def)
qed

lemma no_fenced: "\<not> (\<exists>r \<in> set t. fenced tenant uuid ow tk now r) \<Longrightarrow> rows_affected (fenced tenant uuid ow tk now) t = 0"
  by (auto simp: rows_affected_0)

lemma row_key_kept [simp]:
  "row_key (published_row now r) = row_key r" "row_key (failed_row ck m n r) = row_key r"
  "row_key (swept_row s now r) = row_key r" "row_key (lease_row ow tk ex now r) = row_key r"
  by (simp_all add: row_key_def row_defs)

lemma ack_exact:
  assumes ok: "outbox_ok t"
  shows "(\<exists>r \<in> set t. fenced tenant uuid ow tk (ck_now ck) r \<and>
        ack_outbox_delivery_success ck tenant uuid ow tk t =
          (Some (native_event (published_row (ck_now ck) r)), replace_row r (published_row (ck_now ck) r) t)) \<or>
     (\<forall>r \<in> set t. \<not> fenced tenant uuid ow tk (ck_now ck) r) \<and>
       ack_outbox_delivery_success ck tenant uuid ow tk t = (None, t)"
proof (cases "\<exists>r \<in> set t. fenced tenant uuid ow tk (ck_now ck) r")
  case True
  then obtain r where r: "r \<in> set t" "fenced tenant uuid ow tk (ck_now ck) r"
    by blast
  note u = pointed_update [OF ok r(1) fenced_iff [OF ok r]]
  have "row_key r = (sc_tenant_id (tenant_scope tenant), uuid)"
    using r(2) by (simp add: fenced_def outbox_key_row_key tenant_scope_def)
  then have "retrieve_outbox_event (tenant_scope tenant) uuid (replace_row r (published_row (ck_now ck) r) t) =
      Some (native_event (published_row (ck_now ck) r))"
    by (rule retrieve_replaced [OF ok r(1)]) simp
  then show ?thesis
    using r u by (auto simp: ack_outbox_delivery_success_def Let_def)
next
  case False
  then show ?thesis
    using no_fenced [OF False] by (simp add: ack_outbox_delivery_success_def Let_def)
qed

lemma fail_exact:
  assumes ok: "outbox_ok t"
  shows "(\<exists>r \<in> set t. fenced tenant uuid ow tk (ck_now ck) r \<and>
        fail_outbox_delivery ck tenant uuid ow tk m t =
          (True, replace_row r (failed_row ck m (saturating_succ (or_retry_count r)) r) t)) \<or>
     (\<forall>r \<in> set t. \<not> fenced tenant uuid ow tk (ck_now ck) r) \<and>
       fail_outbox_delivery ck tenant uuid ow tk m t = (False, t)"
proof (cases "find (fenced tenant uuid ow tk (ck_now ck)) t")
  case None
  then show ?thesis
    using find_None_iff [THEN iffD1, OF None] by (auto simp: fail_outbox_delivery_def)
next
  case (Some r)
  note r = find_fenced [OF ok Some]
  let ?p = "\<lambda>r'. outbox_key tenant uuid r' \<and> or_publish_state r' = ''processing'' \<and>
      sql_eq (or_lease_owner r') ow \<and> sql_eq (or_lease_token r') tk"
  have "?p x \<longleftrightarrow> x = r" if "x \<in> set t" for x
    using fenced_unique [OF ok r(1) that r(2)] r(2)
    by (auto simp: fenced_def holds_lease_def lease_matches_def)
  note u = pointed_update [of t r ?p, OF ok r(1) this]
  show ?thesis
    using r Some u by (auto simp: fail_outbox_delivery_def Let_def)
qed

lemma record_failure_exact:
  assumes ok: "outbox_ok t"
  shows "(\<exists>r \<in> set t. fenced tenant uuid ow tk (ck_now ck) r \<and>
        record_outbox_delivery_failure ck tenant uuid ow tk m t =
          (Some (native_event (failed_row ck m (saturating_succ (or_retry_count r)) r)),
           replace_row r (failed_row ck m (saturating_succ (or_retry_count r)) r) t)) \<or>
     (\<forall>r \<in> set t. \<not> fenced tenant uuid ow tk (ck_now ck) r) \<and>
       record_outbox_delivery_failure ck tenant uuid ow tk m t = (None, t)"
  using fail_exact [OF ok, of tenant uuid ow tk ck m]
proof (elim disjE bexE conjE)
  fix r
  assume r: "r \<in> set t" "fenced tenant uuid ow tk (ck_now ck) r"
    and e: "fail_outbox_delivery ck tenant uuid ow tk m t =
      (True, replace_row r (failed_row ck m (saturating_succ (or_retry_count r)) r) t)"
  have "row_key r = (sc_tenant_id (tenant_scope tenant), uuid)"
    using r(2) by (simp add: fenced_def outbox_key_row_key tenant_scope_def)
  note retrieve_replaced [OF ok r(1) this row_key_kept(2)]
  then show ?thesis
    using r e by (auto simp: record_outbox_delivery_failure_def)
qed (simp add: record_outbox_delivery_failure_def)

lemma renew_exact:
  assumes ok: "outbox_ok t"
  shows "(\<exists>r \<in> set t. fenced tenant uuid ow tk (ck_now ck) r \<and>
        renew_outbox_delivery_lease ck tenant uuid ow tk dur t =
          (True, replace_row r (r\<lparr>or_lease_expires_at := Some (ck_after ck (lease_seconds dur)),
             or_updated_at := ck_now ck\<rparr>) t)) \<or>
     (\<forall>r \<in> set t. \<not> fenced tenant uuid ow tk (ck_now ck) r) \<and>
       renew_outbox_delivery_lease ck tenant uuid ow tk dur t = (False, t)"
proof (cases "\<exists>r \<in> set t. fenced tenant uuid ow tk (ck_now ck) r")
  case True
  then obtain r where r: "r \<in> set t" "fenced tenant uuid ow tk (ck_now ck) r"
    by blast
  note u = pointed_update [OF ok r(1) fenced_iff [OF ok r]]
  show ?thesis
    using r u by (auto simp: renew_outbox_delivery_lease_def Let_def)
next
  case False
  then show ?thesis
    using no_fenced [OF False] update_where_none [OF no_fenced [OF False]]
    by (simp add: renew_outbox_delivery_lease_def Let_def)
qed

section \<open>Both ways to claim\<close>

lemma claim_each_exact:
  assumes "distinct (map or_id rs)" and "distinct (map or_id t)"
    and "\<And>r. r \<in> set rs \<Longrightarrow> \<exists>r' \<in> set t. or_id r' = or_id r \<and> or_publish_state r' = ''pending''"
  shows "claim_each ow tk ex now rs t =
    (map (sqlite_claimed ow tk ex) rs,
     update_where (\<lambda>r. or_id r \<in> or_id ` set rs \<and> or_publish_state r = ''pending'') (lease_row ow tk ex now) t)"
  using assms
proof (induction rs arbitrary: t)
  case Nil
  then show ?case by (simp add: update_where_def)
next
  case (Cons r rs)
  let ?p = "\<lambda>r'. or_id r' = or_id r \<and> or_publish_state r' = ''pending''"
  let ?t = "update_where ?p (lease_row ow tk ex now) t"
  have ids: "map or_id ?t = map or_id t"
    by (rule map_update_where) (simp add: lease_row_def)
  have "\<exists>x' \<in> set ?t. or_id x' = or_id x \<and> or_publish_state x' = ''pending''" if x: "x \<in> set rs" for x
  proof -
    obtain x' where "x' \<in> set t" "or_id x' = or_id x" "or_publish_state x' = ''pending''"
      using Cons.prems(3) [of x] x by auto
    moreover have "or_id x \<noteq> or_id r"
      using Cons.prems(1) x by (auto simp: image_iff)
    ultimately show ?thesis
      by (auto simp: set_update_where)
  qed
  then have IH: "claim_each ow tk ex now rs ?t = (map (sqlite_claimed ow tk ex) rs,
      update_where (\<lambda>r. or_id r \<in> or_id ` set rs \<and> or_publish_state r = ''pending'') (lease_row ow tk ex now) ?t)"
    using Cons.IH [of ?t] Cons.prems(1,2) ids by simp
  have "0 < rows_affected ?p t"
    using Cons.prems(3) [of r] by (auto simp: rows_affected_def filter_empty_conv)
  moreover have "update_where (\<lambda>r. or_id r \<in> or_id ` set rs \<and> or_publish_state r = ''pending'')
        (lease_row ow tk ex now) ?t =
      update_where (\<lambda>x. or_id x \<in> or_id ` set (r # rs) \<and> or_publish_state x = ''pending'') (lease_row ow tk ex now) t"
    by (auto simp: update_where_def lease_row_def)
  ultimately show ?case
    using IH by simp
qed

lemma distinct_candidates: "outbox_ok t \<Longrightarrow> distinct (map or_id (claim_candidates now limit t))"
  unfolding claim_candidates_def top_by_def outbox_ok_def
  by (auto simp: distinct_map inj_on_def intro!: distinct_take dest!: in_set_takeD)

definition claimed_rows :: "string \<Rightarrow> nat \<Rightarrow> outbox_row list \<Rightarrow> outbox_row \<Rightarrow> bool" where
  "claimed_rows now limit t r \<longleftrightarrow> r \<in> set (claim_candidates now limit t)"

lemma picked_iff:
  assumes "outbox_ok t" and "r \<in> set t"
  shows "or_id r \<in> or_id ` set (claim_candidates now limit t) \<longleftrightarrow> claimed_rows now limit t r"
proof
  assume "or_id r \<in> or_id ` set (claim_candidates now limit t)"
  then obtain c where c: "c \<in> set (claim_candidates now limit t)" "or_id r = or_id c"
    by blast
  then have "r = c"
    using candidates_claimable [OF c(1)] by (intro id_unique [OF assms]) auto
  then show "claimed_rows now limit t r"
    using c(1) by (simp add: claimed_rows_def)
qed (simp add: claimed_rows_def)

abbreviation claimed_table :: "clock \<Rightarrow> nat \<Rightarrow> string \<Rightarrow> string \<Rightarrow> nat \<Rightarrow> outbox_row list \<Rightarrow> outbox_row list" where
  "claimed_table ck limit ow tk dur t \<equiv> update_where (claimed_rows (ck_now ck) limit t)
     (lease_row ow tk (ck_after ck (lease_seconds dur)) (ck_now ck)) t"

abbreviation claim_result :: "clock \<Rightarrow> string \<Rightarrow> string \<Rightarrow> nat \<Rightarrow> outbox_row \<Rightarrow> scoped_outbox_event" where
  "claim_result ck ow tk dur r \<equiv> scoped_event (Some ow) (Some tk) (Some (ck_after ck (lease_seconds dur)))
     (lease_row ow tk (ck_after ck (lease_seconds dur)) (ck_now ck) r)"

lemma sqlite_claimed_eq: "row_ok r \<Longrightarrow> claimable now r \<Longrightarrow>
    sqlite_claimed ow tk ex r = scoped_event (Some ow) (Some tk) (Some ex) (lease_row ow tk ex now' r)"
  by (simp add: row_ok_def claimable_def sqlite_claimed_def scoped_event_def native_event_def lease_row_def)

lemma claim_sqlite_exact:
  assumes ok: "outbox_ok t"
  shows "claim_global_pending_outbox_events_sqlite ck limit ow tk dur t =
    (map (claim_result ck ow tk dur) (claim_candidates (ck_now ck) limit t), claimed_table ck limit ow tk dur t)"
proof -
  let ?cs = "claim_candidates (ck_now ck) limit t" and ?ex = "ck_after ck (lease_seconds dur)"
  have c: "r \<in> set t \<and> claimable (ck_now ck) r" if "r \<in> set ?cs" for r
    using candidates_claimable [OF that] .
  have "claim_each ow tk ?ex (ck_now ck) ?cs t = (map (sqlite_claimed ow tk ?ex) ?cs,
      update_where (\<lambda>r. or_id r \<in> or_id ` set ?cs \<and> or_publish_state r = ''pending'')
        (lease_row ow tk ?ex (ck_now ck)) t)"
    using ok c distinct_candidates [OF ok] by (intro claim_each_exact) (auto simp: outbox_ok_def claimable_def)
  also have "update_where (\<lambda>r. or_id r \<in> or_id ` set ?cs \<and> or_publish_state r = ''pending'')
        (lease_row ow tk ?ex (ck_now ck)) t = claimed_table ck limit ow tk dur t"
    using c by (intro update_where_same) (auto simp: picked_iff [OF ok] claimed_rows_def claimable_def)
  also have "map (sqlite_claimed ow tk ?ex) ?cs = map (claim_result ck ow tk dur) ?cs"
    using ok c sqlite_claimed_eq [of _ "ck_now ck" ow tk ?ex "ck_now ck"] by (auto simp: outbox_ok_def)
  finally have e: "claim_each ow tk ?ex (ck_now ck) ?cs t =
    (map (claim_result ck ow tk dur) ?cs, claimed_table ck limit ow tk dur t)" .
  show ?thesis
  proof (cases "?cs = []")
    case True
    then show ?thesis
      using e by (simp add: claim_global_pending_outbox_events_sqlite_def)
  next
    case False
    then show ?thesis
      using e by (simp add: claim_global_pending_outbox_events_sqlite_def)
  qed
qed

lemma claim_postgres_exact:
  assumes ok: "outbox_ok t"
  shows "claim_global_pending_outbox_events_postgres ck limit ow tk dur t =
    (map (claim_result ck ow tk dur) (filter (claimed_rows (ck_now ck) limit t) t), claimed_table ck limit ow tk dur t)"
proof -
  let ?cs = "claim_candidates (ck_now ck) limit t" and ?ex = "ck_after ck (lease_seconds dur)"
  let ?f = "lease_row ow tk ?ex (ck_now ck)"
  let ?p = "\<lambda>r. or_id r \<in> or_id ` set ?cs"
  have f1: "filter ?p (update_where ?p ?f u) = map ?f (filter ?p u)" for u
    by (induction u) (auto simp: update_where_def lease_row_def)
  have f2: "update_where ?p ?f t = claimed_table ck limit ow tk dur t"
    by (intro update_where_same) (simp add: picked_iff [OF ok])
  have f3: "filter ?p t = filter (claimed_rows (ck_now ck) limit t) t"
    by (intro filter_cong refl) (simp add: picked_iff [OF ok])
  have "filter ?p (claimed_table ck limit ow tk dur t) = map ?f (filter (claimed_rows (ck_now ck) limit t) t)"
    using f1 [of t] unfolding f2 f3 .
  then show ?thesis
    using f2 by (simp add: claim_global_pending_outbox_events_postgres_def Let_def comp_def)
qed

lemma claimed_mset:
  assumes ok: "outbox_ok t"
  shows "mset (filter (claimed_rows now limit t) t) = mset (claim_candidates now limit t)"
proof -
  have d: "distinct (claim_candidates now limit t)"
    using distinct_candidates [OF ok] by (simp add: distinct_map)
  have "distinct (filter (claimed_rows now limit t) t)"
    using ok by (auto simp: outbox_ok_def distinct_map)
  moreover have "set (filter (claimed_rows now limit t) t) = set (claim_candidates now limit t)"
    by (auto simp: claimed_rows_def dest: candidates_claimable)
  ultimately show ?thesis
    using d set_eq_iff_mset_eq_distinct by blast
qed

lemma claim_exact:
  assumes "outbox_ok t" and "claim_global_pending_outbox_events d ck limit ow tk dur t = (es, t')"
  shows "t' = claimed_table ck limit ow tk dur t"
    and "mset es = mset (map (claim_result ck ow tk dur) (claim_candidates (ck_now ck) limit t))"
  using assms claim_sqlite_exact [OF assms(1), of ck limit ow tk dur]
    claim_postgres_exact [OF assms(1), of ck limit ow tk dur] claimed_mset [OF assms(1), of "ck_now ck" limit]
  by (auto simp: claim_global_pending_outbox_events_def split: memory_sql_dialect.splits)

end
