(* ===== verification/Outbox_Publisher.thy ===== *)
theory Outbox_Publisher
  imports Outbox_Laws
begin

text \<open>
  The outbox publisher (\<^verbatim>\<open>outbox_publisher.rs\<close>): a cycle sweeps expired leases, claims a batch, and
  delivers each claimed event under its lease, renewed by a heartbeat. The delivery tasks of a
  cycle work on different rows and are modelled one after the other. The last section shows
  that enough cycles settle every event.
\<close>

section \<open>Configuration\<close>

record outbox_delivery_config =
  od_timeout_seconds :: nat
  od_max_retries :: "32 word"

text \<open>\<^verbatim>\<open>read_env_u64(name, default)\<close>: the parsed variable or the default.\<close>

definition env_or :: "nat option \<Rightarrow> nat \<Rightarrow> nat" where
  "env_or v d = (case v of None \<Rightarrow> d | Some n \<Rightarrow> n)"

definition default_outbox_concurrency :: nat where
  "default_outbox_concurrency = 16"

definition max_outbox_concurrency :: nat where
  "max_outbox_concurrency = 64"

definition delivery_concurrency :: "nat option \<Rightarrow> nat" where
  "delivery_concurrency v = max 1 (min max_outbox_concurrency (env_or v default_outbox_concurrency))"

definition u64_limit :: nat where
  "u64_limit = 2 ^ 64 - 1"

definition lease_duration_seconds :: "nat option \<Rightarrow> outbox_delivery_config \<Rightarrow> nat" where
  "lease_duration_seconds v cfg =
     max (env_or v (max 30 (min u64_limit (od_timeout_seconds cfg * 2))))
         (min u64_limit (od_timeout_seconds cfg + 5))"

definition heartbeat_seconds :: "nat \<Rightarrow> nat" where
  "heartbeat_seconds lease = max 1 (lease div 3)"

record publisher =
  pu_dialect :: memory_sql_dialect
  pu_id :: string
  pu_config :: outbox_delivery_config
  pu_concurrency :: nat
  pu_lease :: nat

definition spawn_outbox_publisher :: "memory_sql_dialect \<Rightarrow> string \<Rightarrow> outbox_delivery_config \<Rightarrow> nat option \<Rightarrow>
    nat option \<Rightarrow> publisher" where
  "spawn_outbox_publisher dialect numeric_id cfg concurrency lease =
     \<lparr>pu_dialect = dialect, pu_id = ''memory-outbox-'' @ numeric_id, pu_config = cfg,
      pu_concurrency = delivery_concurrency concurrency, pu_lease = lease_duration_seconds lease cfg\<rparr>"

section \<open>One claimed event\<close>

text \<open>
  What happens to one delivery: the clocks of the heartbeats that fall into it (\<^verbatim>\<open>None\<close> when the
  store answers the renewal with an error), whether the endpoint accepted the event, and the
  clock of the final statement (\<^verbatim>\<open>None\<close> when the store answers it with an error).
\<close>

record delivery =
  dl_ticks :: "clock option list"
  dl_accepted :: bool
  dl_final :: "clock option"

text \<open>The \<^verbatim>\<open>select!\<close> loop: the delivery result is used only while every renewal succeeded.\<close>

fun heartbeat_loop :: "clock option list \<Rightarrow> i64 \<Rightarrow> string \<Rightarrow> string \<Rightarrow> string \<Rightarrow> nat \<Rightarrow> outbox_row list \<Rightarrow>
    bool \<times> outbox_row list" where
  "heartbeat_loop [] tenant uuid owner token lease t = (True, t)"
| "heartbeat_loop (None # ticks) tenant uuid owner token lease t = (False, t)"
| "heartbeat_loop (Some ck # ticks) tenant uuid owner token lease t =
     (case renew_outbox_delivery_lease ck tenant uuid owner token lease t of
        (True, t') \<Rightarrow> heartbeat_loop ticks tenant uuid owner token lease t'
      | (False, t') \<Rightarrow> (False, t'))"

definition process_claimed_event :: "outbox_delivery_config \<Rightarrow> nat \<Rightarrow> delivery \<Rightarrow> scoped_outbox_event \<Rightarrow>
    outbox_row list \<Rightarrow> outbox_row list" where
  "process_claimed_event cfg lease dl row t =
     (let tenant = so_tenant_id row; uuid = no_outbox_id (so_outbox row) in
      case so_lease_owner row of None \<Rightarrow> t | Some owner \<Rightarrow>
      case so_lease_token row of None \<Rightarrow> t | Some token \<Rightarrow>
      case heartbeat_loop (dl_ticks dl) tenant uuid owner token lease t of
        (False, t') \<Rightarrow> t'
      | (True, t') \<Rightarrow>
          (case dl_final dl of
             None \<Rightarrow> t'
           | Some ck \<Rightarrow>
               if dl_accepted dl then snd (ack_outbox_delivery_success ck tenant uuid owner token t')
               else snd (record_outbox_delivery_failure ck tenant uuid owner token (unat (od_max_retries cfg)) t')))"

section \<open>One cycle\<close>

record cycle =
  cy_sweep :: "clock option"
  cy_token :: "string option"
  cy_claim :: "clock option"
  cy_deliver :: "scoped_outbox_event \<Rightarrow> delivery"

definition sweep_phase :: "publisher \<Rightarrow> cycle \<Rightarrow> outbox_row list \<Rightarrow> outbox_row list" where
  "sweep_phase pu c t =
     (case cy_sweep c of
        None \<Rightarrow> t
      | Some ck \<Rightarrow>
          (case requeue_stale_processing_outbox_events ck (unat (od_max_retries (pu_config pu))) t of
             None \<Rightarrow> t | Some (counts, t') \<Rightarrow> t'))"

definition publisher_cycle :: "publisher \<Rightarrow> cycle \<Rightarrow> outbox_row list \<Rightarrow> outbox_row list" where
  "publisher_cycle pu c t =
     (let t1 = sweep_phase pu c t in
      case cy_token c of None \<Rightarrow> t1 | Some token \<Rightarrow>
      case cy_claim c of None \<Rightarrow> t1 | Some ck \<Rightarrow>
        let (rows, t2) = claim_global_pending_outbox_events (pu_dialect pu) ck (pu_concurrency pu) (pu_id pu)
              token (pu_lease pu) t1
        in fold (\<lambda>row. process_claimed_event (pu_config pu) (pu_lease pu) (cy_deliver c row) row) rows t2)"

fun publisher_run :: "publisher \<Rightarrow> cycle list \<Rightarrow> outbox_row list \<Rightarrow> outbox_row list" where
  "publisher_run pu [] t = t"
| "publisher_run pu (c # cs) t = publisher_run pu cs (publisher_cycle pu c t)"

section \<open>The work left\<close>

definition attempts_left :: "nat \<Rightarrow> outbox_row \<Rightarrow> nat" where
  "attempts_left m r = nat (max 1 (int (max m 1) - or_retry_count r))"

definition row_work :: "nat \<Rightarrow> outbox_row \<Rightarrow> nat" where
  "row_work m r =
     (if or_publish_state r = ''pending'' then 2 * attempts_left m r + 1
      else if or_publish_state r = ''processing'' then 2 * attempts_left m r
      else 0)"

definition table_work :: "nat \<Rightarrow> outbox_row list \<Rightarrow> nat" where
  "table_work m t = sum_list (map (row_work m) t)"

lemma row_work_0: "row_work m r = 0 \<longleftrightarrow> \<not> open_row r"
  by (auto simp: row_work_def open_row_def attempts_left_def)

lemma table_work_0: "table_work m t = 0 \<longleftrightarrow> (\<forall>r \<in> set t. \<not> open_row r)"
  by (auto simp: table_work_def row_work_0)

lemma table_work_bound:
  assumes "\<forall>r \<in> set t. row_ok r"
  shows "table_work m t \<le> (2 * max m 1 + 1) * length t"
proof -
  have "row_work m r \<le> 2 * max m 1 + 1" if "row_ok r" for r
    using that by (auto simp: row_work_def attempts_left_def row_ok_def)
  then show ?thesis
    using assms sum_list_mono [of t "row_work m" "\<lambda>_. 2 * max m 1 + 1"]
    by (simp add: table_work_def sum_list_triv mult.commute)
qed

lemma table_work_map_le: "(\<And>r. r \<in> set t \<Longrightarrow> row_work m (f r) \<le> row_work m r) \<Longrightarrow> table_work m (map f t) \<le> table_work m t"
  unfolding table_work_def by (auto intro!: sum_list_mono simp: comp_def)

lemma table_work_map_less:
  assumes "\<And>r. r \<in> set t \<Longrightarrow> row_work m (f r) \<le> row_work m r"
    and "x \<in> set t" and "row_work m (f x) < row_work m x"
  shows "table_work m (map f t) < table_work m t"
  using assms
proof (induction t)
  case (Cons r t)
  have "table_work m (map f t) \<le> table_work m t"
    by (rule table_work_map_le) (simp add: Cons.prems(1))
  then show ?case
    using Cons.IH Cons.prems by (cases "x = r") (force simp: table_work_def add_less_le_mono add_le_less_mono)+
qed simp

subsection \<open>The steps of a cycle on the work\<close>

lemma failed_row_work:
  assumes "or_publish_state r = ''processing''" and "m < 2 ^ 32" and ok: "row_ok r"
  shows "row_work m (failed_row ck m (saturating_succ (or_retry_count r)) r) < row_work m r"
proof (cases "int (max m 1) \<le> saturating_succ (or_retry_count r)")
  case True
  then show ?thesis
    using assms by (simp add: row_work_def row_defs attempts_left_def)
next
  case False
  then have "saturating_succ (or_retry_count r) = or_retry_count r + 1"
    using assms(2) by (simp add: saturating_succ_def min_def split: if_splits)
  then show ?thesis
    using False assms by (simp add: row_work_def row_defs attempts_left_def)
qed

lemma swept_row_work:
  assumes "stale now r"
  shows "row_work m (settled (outbox_dead now m) (outbox_requeue now m)
    (swept_row ''failed'' now) (swept_row ''pending'' now) r) < row_work m r"
  using assms
  by (auto simp: settled_def outbox_dead_def outbox_requeue_def stale_def row_work_def swept_row_def released_def
      attempts_left_def)

lemma settled_fresh: "\<not> stale now r \<Longrightarrow> settled (outbox_dead now m) (outbox_requeue now m) f g r = r"
  by (simp add: settled_def outbox_dead_def outbox_requeue_def)

lemma swept_work_le: "table_work m (swept_table now m t) \<le> table_work m t"
  by (rule table_work_map_le) (metis less_imp_le order_refl settled_fresh swept_row_work)

lemma swept_work_less: "r \<in> set t \<Longrightarrow> stale now r \<Longrightarrow> table_work m (swept_table now m t) < table_work m t"
  by (rule table_work_map_less [of t m _ r]) (metis less_imp_le order_refl settled_fresh swept_row_work)+

lemma leased_work: "or_publish_state r = ''pending'' \<Longrightarrow> row_work m (lease_row ow tk ex now r) < row_work m r"
  by (simp add: row_work_def lease_row_def attempts_left_def)

lemma claimed_pending: "claimed_rows now limit t r \<Longrightarrow> r \<in> set t \<and> or_publish_state r = ''pending''"
  by (auto simp: claimed_rows_def claimable_def dest: candidates_claimable)

lemma claim_work_le: "table_work m (claimed_table ck limit ow tk dur t) \<le> table_work m t"
  unfolding update_where_def
  by (rule table_work_map_le) (auto intro!: less_imp_le leased_work dest: claimed_pending)

lemma claim_work_less:
  assumes "r \<in> set t" and "claimable (ck_now ck) r"
  shows "table_work m (claimed_table ck limit ow tk dur t) < table_work m t"
proof -
  have "filter (claimable (ck_now ck)) t \<noteq> []"
    using assms by (auto simp: filter_empty_conv)
  then have "0 < length (claim_candidates (ck_now ck) limit t)"
    by (simp add: claim_candidates_def length_top_by)
  then obtain c where "claimed_rows (ck_now ck) limit t c"
    unfolding claimed_rows_def using nth_mem by blast
  then show ?thesis
    unfolding update_where_def
    by (intro table_work_map_less [of t m _ c]) (auto intro!: leased_work less_imp_le dest: claimed_pending)
qed

text \<open>A row replaced by one of its steps.\<close>

lemma replace_evolves: "row_step r r' \<Longrightarrow> evolves t (replace_row r r' t)"
  unfolding replace_row_def by (rule evolves_map) auto

lemma replace_work: "row_work m r' \<le> row_work m r \<Longrightarrow> table_work m (replace_row r r' t) \<le> table_work m t"
  unfolding replace_row_def by (rule table_work_map_le) auto

definition settles :: "nat \<Rightarrow> outbox_row list \<Rightarrow> outbox_row list \<Rightarrow> bool" where
  "settles m t t' \<longleftrightarrow> evolves t t' \<and> table_work m t' \<le> table_work m t"

lemma settles_refl [simp]: "settles m t t"
  by (simp add: settles_def)

lemma settles_trans: "settles m t u \<Longrightarrow> settles m u v \<Longrightarrow> settles m t v"
  by (auto simp: settles_def intro: evolves_trans)

lemma settles_ok: "settles m t t' \<Longrightarrow> outbox_ok t \<Longrightarrow> outbox_ok t'"
  by (auto simp: settles_def intro: evolves_ok)

lemma replace_settles: "row_step r r' \<Longrightarrow> row_work m r' \<le> row_work m r \<Longrightarrow> settles m t (replace_row r r' t)"
  by (simp add: settles_def replace_evolves replace_work)

lemma fencedD: "fenced tenant uuid ow tk now r \<Longrightarrow> or_publish_state r = ''processing'' \<and> holds_lease ow tk now r"
  by (simp add: fenced_def)

lemma published_work [simp]: "row_work m (published_row now r) = 0"
  by (simp add: row_work_def published_row_def)

lemma ack_settles: "outbox_ok t \<Longrightarrow> settles m t (snd (ack_outbox_delivery_success ck tenant uuid ow tk t))"
  using ack_exact [of t tenant uuid ow tk ck]
  by (auto dest!: fencedD intro!: replace_settles acknowledged)

lemma record_settles:
  "outbox_ok t \<Longrightarrow> m < 2 ^ 32 \<Longrightarrow> settles m t (snd (record_outbox_delivery_failure ck tenant uuid ow tk m t))"
  using record_failure_exact [of t tenant uuid ow tk ck m]
  by (auto dest!: fencedD intro!: replace_settles charged less_imp_le failed_row_work simp: outbox_ok_def)

lemma renew_settles: "outbox_ok t \<Longrightarrow> settles m t (snd (renew_outbox_delivery_lease ck tenant uuid ow tk dur t))"
  using renew_exact [of t tenant uuid ow tk ck dur]
  by (auto dest!: fencedD intro!: replace_settles renewed simp: row_work_def attempts_left_def)

lemma heartbeat_settles: "outbox_ok t \<Longrightarrow> settles m t (snd (heartbeat_loop ticks tenant uuid ow tk lease t))"
proof (induction ticks tenant uuid ow tk lease t rule: heartbeat_loop.induct)
  case (3 ck ticks tenant uuid ow tk lease t)
  obtain alive t' where r: "renew_outbox_delivery_lease ck tenant uuid ow tk lease t = (alive, t')"
    by fastforce
  have s: "settles m t t'"
    using renew_settles [OF 3(2), of m ck tenant uuid ow tk lease] r by simp
  then show ?case
    using 3(1) [OF r [symmetric]] settles_ok [OF s 3(2)] settles_trans [OF s] r by (cases alive) auto
qed simp_all

lemma process_settles:
  assumes ok: "outbox_ok t" and m: "m = unat (od_max_retries cfg)"
  shows "settles m t (process_claimed_event cfg lease dl row t)"
proof (cases "so_lease_owner row = None \<or> so_lease_token row = None")
  case True
  then show ?thesis by (auto simp: process_claimed_event_def Let_def split: option.split)
next
  case False
  then obtain ow tk where ow: "so_lease_owner row = Some ow" "so_lease_token row = Some tk"
    by auto
  let ?n = "so_tenant_id row" and ?u = "no_outbox_id (so_outbox row)"
  obtain alive t' where h: "heartbeat_loop (dl_ticks dl) ?n ?u ow tk lease t = (alive, t')"
    by fastforce
  have s: "settles m t t'"
    using heartbeat_settles [OF ok, of m "dl_ticks dl" ?n ?u ow tk lease] h by simp
  have "m < 2 ^ 32"
    unfolding m using unsigned_less [of "od_max_retries cfg", where 'a = nat] by simp
  then have b: "settles m t (snd (record_outbox_delivery_failure ck ?n ?u ow tk m t'))" for ck
    by (rule settles_trans [OF s record_settles [OF settles_ok [OF s ok]]])
  have a: "settles m t (snd (ack_outbox_delivery_success ck ?n ?u ow tk t'))" for ck
    by (rule settles_trans [OF s ack_settles [OF settles_ok [OF s ok]]])
  have "process_claimed_event cfg lease dl row t =
    (if alive then case dl_final dl of None \<Rightarrow> t'
       | Some ck \<Rightarrow> if dl_accepted dl then snd (ack_outbox_delivery_success ck ?n ?u ow tk t')
           else snd (record_outbox_delivery_failure ck ?n ?u ow tk m t')
     else t')"
    by (cases alive) (simp_all add: process_claimed_event_def Let_def ow h m split: option.split)
  then show ?thesis
    using a b s by (simp split: option.split)
qed

lemma fold_settles:
  assumes "\<And>x t. outbox_ok t \<Longrightarrow> settles m t (f x t)" and "outbox_ok t"
  shows "settles m t (fold f xs t)"
  using assms(2)
proof (induction xs arbitrary: t)
  case (Cons x xs)
  then show ?case
    using assms(1) [OF Cons.prems, of x] by (auto intro: settles_trans settles_ok)
qed simp

lemma sweep_phase_eq:
  "sweep_phase pu c t = (case cy_sweep c of None \<Rightarrow> t
     | Some ck \<Rightarrow> swept_table (ck_now ck) (unat (od_max_retries (pu_config pu))) t)"
  by (simp add: sweep_phase_def sweep_exact split: option.split)

lemma sweep_settles: "settles m t (swept_table now m t)"
  by (simp add: settles_def sweep_evolves swept_work_le)

text \<open>The deliveries of a cycle after its claim.\<close>

lemma deliveries_settle:
  assumes "outbox_ok t" and "m = unat (od_max_retries (pu_config pu))"
  shows "settles m t (fold (\<lambda>row. process_claimed_event (pu_config pu) (pu_lease pu) (cy_deliver c row) row) rows t)"
  by (rule fold_settles [OF process_settles [OF _ assms(2)] assms(1)])

lemma claimed_settles:
  "outbox_ok t \<Longrightarrow> settles m t (claimed_table ck limit ow tk dur t)"
  using claim_evolves [of t Sqlite ck limit ow tk dur] claim_work_le [of m ck limit t ow tk dur]
  by (simp add: settles_def claim_global_pending_outbox_events_def claim_sqlite_exact)

lemma cycle_settles:
  assumes ok: "outbox_ok t" and m: "m = unat (od_max_retries (pu_config pu))"
  shows "settles m t (publisher_cycle pu c t)"
proof -
  let ?t1 = "sweep_phase pu c t"
  have s: "settles m t ?t1"
    by (simp add: sweep_phase_eq m sweep_settles split: option.split)
  note ok1 = settles_ok [OF s ok]
  show ?thesis
  proof (cases "cy_token c = None \<or> cy_claim c = None")
    case True
    then show ?thesis using s by (auto simp: publisher_cycle_def Let_def split: option.split)
  next
    case False
    then obtain tk ck where tk: "cy_token c = Some tk" "cy_claim c = Some ck"
      by auto
    obtain rows t2 where r: "claim_global_pending_outbox_events (pu_dialect pu) ck (pu_concurrency pu) (pu_id pu)
        tk (pu_lease pu) ?t1 = (rows, t2)"
      by fastforce
    have s2: "settles m ?t1 t2"
      unfolding claim_exact(1) [OF ok1 r] by (rule claimed_settles [OF ok1])
    show ?thesis
      using settles_trans [OF settles_trans [OF s s2] deliveries_settle [OF settles_ok [OF s2 ok1] m]] tk r
      by (simp add: publisher_cycle_def Let_def)
  qed
qed

section \<open>Progress\<close>

text \<open>
  A cycle is timely when the store answers its sweep and its claim, and the leases and retry
  times of the open events have passed when it starts.
\<close>

definition due :: "string \<Rightarrow> outbox_row \<Rightarrow> bool" where
  "due now r \<longleftrightarrow> lease_expired (or_lease_expires_at r) now \<and> sql_null_or_upto (or_next_attempt_at r) now"

definition timely_cycle :: "cycle \<Rightarrow> outbox_row list \<Rightarrow> bool" where
  "timely_cycle c t \<longleftrightarrow>
     (case (cy_sweep c, cy_token c, cy_claim c) of
        (Some ck, Some token, Some ck') \<Rightarrow>
          ck_now ck \<le> ck_now ck' \<and> list_all (\<lambda>r. open_row r \<longrightarrow> due (ck_now ck) r) t
      | _ \<Rightarrow> False)"

fun timely_run :: "publisher \<Rightarrow> cycle list \<Rightarrow> outbox_row list \<Rightarrow> bool" where
  "timely_run pu [] t \<longleftrightarrow> True"
| "timely_run pu (c # cs) t \<longleftrightarrow> timely_cycle c t \<and> timely_run pu cs (publisher_cycle pu c t)"

lemma upto_trans: "sql_null_or_upto x a \<Longrightarrow> a \<le> b \<Longrightarrow> sql_null_or_upto x b"
  by (auto simp: sql_null_or_upto_def split: option.splits)

lemma timely_progress:
  assumes ok: "outbox_ok t" and timely: "timely_cycle c t"
    and m: "m = unat (od_max_retries (pu_config pu))" and x: "x \<in> set t" "open_row x"
  shows "table_work m (publisher_cycle pu c t) < table_work m t"
proof -
  obtain ck tk ck' where c: "cy_sweep c = Some ck" "cy_token c = Some tk" "cy_claim c = Some ck'"
    and le: "ck_now ck \<le> ck_now ck'" and d: "\<And>r. r \<in> set t \<Longrightarrow> open_row r \<Longrightarrow> due (ck_now ck) r"
    using timely by (auto simp: timely_cycle_def list_all_iff split: option.splits)
  let ?t1 = "swept_table (ck_now ck) m t"
  have t1: "sweep_phase pu c t = ?t1"
    by (simp add: sweep_phase_eq c m)
  have ok1: "outbox_ok ?t1"
    by (rule settles_ok [OF sweep_settles [of m] ok])
  obtain rows t2 where r: "claim_global_pending_outbox_events (pu_dialect pu) ck' (pu_concurrency pu) (pu_id pu)
      tk (pu_lease pu) ?t1 = (rows, t2)"
    by fastforce
  have s2: "settles m ?t1 t2"
    unfolding claim_exact(1) [OF ok1 r] by (rule claimed_settles [OF ok1])
  have rest: "table_work m (publisher_cycle pu c t) \<le> table_work m t2"
    using deliveries_settle [OF settles_ok [OF s2 ok1] m, of c rows] c r t1
    by (simp add: publisher_cycle_def Let_def settles_def)
  show ?thesis
  proof (cases "or_publish_state x = ''processing''")
    case True
    then have "stale (ck_now ck) x"
      using d [OF x] by (simp add: stale_def due_def)
    then show ?thesis
      using swept_work_less [OF x(1), of "ck_now ck" m] s2 rest by (simp add: settles_def)
  next
    case False
    then have p: "or_publish_state x = ''pending''"
      using x(2) by (simp add: open_row_def)
    then have "\<not> stale (ck_now ck) x"
      by (simp add: stale_def)
    then have "x \<in> set ?t1"
      using x(1) settled_fresh by (metis image_eqI set_map)
    moreover have "claimable (ck_now ck') x"
      using d [OF x] p le by (auto simp: claimable_def due_def intro: upto_trans)
    ultimately have "table_work m t2 < table_work m ?t1"
      unfolding claim_exact(1) [OF ok1 r] by (rule claim_work_less)
    then show ?thesis
      using rest swept_work_le [of m "ck_now ck" t] by simp
  qed
qed

lemma run_settles:
  "outbox_ok t \<Longrightarrow> settles (unat (od_max_retries (pu_config pu))) t (publisher_run pu cs t)"
  by (induction cs arbitrary: t)
     (auto intro: settles_trans settles_ok [OF cycle_settles [OF _ refl]] cycle_settles [OF _ refl])

lemma run_work:
  assumes "outbox_ok t" and "timely_run pu cs t" and "m = unat (od_max_retries (pu_config pu))"
  shows "table_work m (publisher_run pu cs t) = 0 \<or> table_work m (publisher_run pu cs t) + length cs \<le> table_work m t"
  using assms(1,2)
proof (induction cs arbitrary: t)
  case (Cons c cs)
  let ?t = "publisher_cycle pu c t"
  note s = cycle_settles [OF Cons.prems(1) assms(3), of c]
  have ok: "outbox_ok ?t"
    by (rule settles_ok [OF s Cons.prems(1)])
  have IH: "table_work m (publisher_run pu cs ?t) = 0 \<or>
      table_work m (publisher_run pu cs ?t) + length cs \<le> table_work m ?t"
    using Cons.IH [OF ok] Cons.prems(2) by simp
  show ?case
  proof (cases "table_work m t = 0")
    case True
    then have "table_work m (publisher_run pu cs ?t) = 0"
      using s run_settles [OF ok, of pu cs] assms(3) by (simp add: settles_def)
    then show ?thesis by simp
  next
    case False
    then obtain x where "x \<in> set t" "open_row x"
      by (auto simp: table_work_0)
    then have "table_work m ?t < table_work m t"
      using timely_progress [OF Cons.prems(1) _ assms(3)] Cons.prems(2) by simp
    then show ?thesis using IH by auto
  qed
qed simp

lemma run_drains:
  assumes ok: "outbox_ok t" and "timely_run pu cs t"
    and "(2 * max (unat (od_max_retries (pu_config pu))) 1 + 1) * length t \<le> length cs"
  shows "\<forall>r \<in> set (publisher_run pu cs t). \<not> open_row r"
proof -
  let ?m = "unat (od_max_retries (pu_config pu))"
  have "table_work ?m t \<le> length cs"
    using table_work_bound [of t ?m] ok assms(3) by (simp add: outbox_ok_def)
  then have "table_work ?m (publisher_run pu cs t) = 0"
    using run_work [OF ok assms(2) refl] by linarith
  then show ?thesis
    by (simp add: table_work_0)
qed

section \<open>Nothing is published without an accepted delivery\<close>

definition publishes_nothing :: "outbox_row list \<Rightarrow> outbox_row list \<Rightarrow> bool" where
  "publishes_nothing t t' \<longleftrightarrow> (\<forall>r \<in> set t'. or_publish_state r = ''published'' \<longrightarrow> r \<in> set t)"

lemma quiet_refl [simp]: "publishes_nothing t t"
  by (simp add: publishes_nothing_def)

lemma quiet_trans: "publishes_nothing t u \<Longrightarrow> publishes_nothing u v \<Longrightarrow> publishes_nothing t v"
  by (auto simp: publishes_nothing_def)

lemma quiet_map: "(\<And>r. r \<in> set t \<Longrightarrow> f r = r \<or> or_publish_state (f r) \<noteq> ''published'') \<Longrightarrow> publishes_nothing t (map f t)"
  by (fastforce simp: publishes_nothing_def)

lemma quiet_update: "(\<And>r. r \<in> set t \<Longrightarrow> p r \<Longrightarrow> or_publish_state (f r) \<noteq> ''published'') \<Longrightarrow> publishes_nothing t (update_where p f t)"
  unfolding update_where_def by (rule quiet_map) auto

lemma renew_quiet: "publishes_nothing t (snd (renew_outbox_delivery_lease ck tenant uuid ow tk dur t))"
proof -
  have "publishes_nothing t (update_where (fenced tenant uuid ow tk (ck_now ck))
      (\<lambda>r. r\<lparr>or_lease_expires_at := Some (ck_after ck (lease_seconds dur)), or_updated_at := ck_now ck\<rparr>) t)"
    by (rule quiet_update) (simp add: fenced_def)
  then show ?thesis
    by (simp add: renew_outbox_delivery_lease_def Let_def)
qed

lemma fail_quiet: "publishes_nothing t (snd (fail_outbox_delivery ck tenant uuid ow tk m t))"
  by (auto simp: fail_outbox_delivery_def Let_def failed_row_def intro!: quiet_update split: option.split if_splits)

lemma record_quiet: "publishes_nothing t (snd (record_outbox_delivery_failure ck tenant uuid ow tk m t))"
  using fail_quiet [of t ck tenant uuid ow tk m] by (simp add: record_outbox_delivery_failure_def split_beta)

lemma heartbeat_quiet: "publishes_nothing t (snd (heartbeat_loop ticks tenant uuid ow tk lease t))"
proof (induction ticks tenant uuid ow tk lease t rule: heartbeat_loop.induct)
  case (3 ck ticks tenant uuid ow tk lease t)
  obtain alive t' where r: "renew_outbox_delivery_lease ck tenant uuid ow tk lease t = (alive, t')"
    by fastforce
  have s: "publishes_nothing t t'"
    using renew_quiet [of t ck tenant uuid ow tk lease] r by simp
  then show ?case
    using 3 [OF r [symmetric]] quiet_trans [OF s] r by (cases alive) auto
qed simp_all

lemma process_quiet: "\<not> dl_accepted dl \<Longrightarrow> publishes_nothing t (process_claimed_event cfg lease dl row t)"
proof (cases "so_lease_owner row = None \<or> so_lease_token row = None")
  case True
  then show ?thesis by (auto simp: process_claimed_event_def Let_def split: option.split)
next
  case False
  assume no: "\<not> dl_accepted dl"
  from False obtain ow tk where ow: "so_lease_owner row = Some ow" "so_lease_token row = Some tk"
    by auto
  let ?n = "so_tenant_id row" and ?u = "no_outbox_id (so_outbox row)"
  obtain alive t' where h: "heartbeat_loop (dl_ticks dl) ?n ?u ow tk lease t = (alive, t')"
    by fastforce
  have "publishes_nothing t t'"
    using heartbeat_quiet [of t "dl_ticks dl" ?n ?u ow tk lease] h by simp
  then show ?thesis
    using quiet_trans [OF _ record_quiet] ow h no
    by (cases alive) (simp_all add: process_claimed_event_def Let_def split: option.split)
qed

lemma fold_quiet: "(\<And>x t. publishes_nothing t (f x t)) \<Longrightarrow> publishes_nothing t (fold f xs t)"
  by (induction xs arbitrary: t) (auto intro: quiet_trans)

lemma claim_each_quiet: "publishes_nothing t (snd (claim_each ow tk ex now rs t))"
proof (induction rs arbitrary: t)
  case (Cons r rs)
  let ?t = "update_where (\<lambda>r'. or_id r' = or_id r \<and> or_publish_state r' = ''pending'') (lease_row ow tk ex now) t"
  have "publishes_nothing t ?t"
    by (rule quiet_update) (simp add: lease_row_def)
  then show ?case
    using Cons.IH [of ?t] by (auto simp: Let_def split_beta intro: quiet_trans)
qed simp

lemma claim_quiet: "publishes_nothing t (snd (claim_global_pending_outbox_events d ck limit ow tk dur t))"
  using claim_each_quiet
  by (cases d) (auto simp: claim_global_pending_outbox_events_def claim_global_pending_outbox_events_postgres_def
      claim_global_pending_outbox_events_sqlite_def Let_def lease_row_def intro!: quiet_update)

lemma cycle_quiet:
  assumes "\<And>row. \<not> dl_accepted (cy_deliver c row)"
  shows "publishes_nothing t (publisher_cycle pu c t)"
proof -
  let ?t1 = "sweep_phase pu c t"
  have s: "publishes_nothing t ?t1"
    unfolding sweep_phase_eq
    by (auto simp: settled_def swept_row_def intro!: quiet_map split: option.split if_splits)
  show ?thesis
  proof (cases "cy_token c = None \<or> cy_claim c = None")
    case True
    then show ?thesis using s by (auto simp: publisher_cycle_def Let_def split: option.split)
  next
    case False
    then obtain tk ck where tk: "cy_token c = Some tk" "cy_claim c = Some ck"
      by auto
    obtain rows t2 where r: "claim_global_pending_outbox_events (pu_dialect pu) ck (pu_concurrency pu) (pu_id pu)
        tk (pu_lease pu) ?t1 = (rows, t2)"
      by fastforce
    have "publishes_nothing ?t1 t2"
      using claim_quiet [of ?t1 "pu_dialect pu" ck "pu_concurrency pu" "pu_id pu" tk "pu_lease pu"] r by simp
    moreover have "publishes_nothing t2
        (fold (\<lambda>row. process_claimed_event (pu_config pu) (pu_lease pu) (cy_deliver c row) row) rows t2)"
      by (rule fold_quiet) (rule process_quiet [OF assms])
    ultimately show ?thesis
      using quiet_trans [OF quiet_trans [OF s]] tk r by (simp add: publisher_cycle_def Let_def)
  qed
qed

lemma run_quiet:
  "(\<And>c row. c \<in> set cs \<Longrightarrow> \<not> dl_accepted (cy_deliver c row)) \<Longrightarrow> publishes_nothing t (publisher_run pu cs t)"
proof (induction cs arbitrary: t)
  case (Cons c cs)
  have "publishes_nothing t (publisher_cycle pu c t)"
    by (rule cycle_quiet) (simp add: Cons.prems)
  moreover have "publishes_nothing (publisher_cycle pu c t) (publisher_run pu cs (publisher_cycle pu c t))"
    by (rule Cons.IH) (simp add: Cons.prems)
  ultimately show ?case
    using quiet_trans by (metis publisher_run.simps(2))
qed simp

end
