(* ===== verification/Learning_Jobs.thy ===== *)
theory Learning_Jobs
  imports Lease_Tables Spi_Types
begin

text \<open>
  The queues of learning jobs and evaluation runs of the native SQL store (\<^verbatim>\<open>learning_jobs.rs\<close>):
  insertion with an idempotency key, claims in both dialects with the parameters in the order
  they are bound, completion, retry, renewal and sweep. The schema's \<^verbatim>\<open>CHECK\<close> on the states
  and its unique indexes are part of the model: what they refuse is an error.
\<close>

section \<open>Rows\<close>

record native_sql_learning_job =
  lj_job_uuid :: string
  lj_tenant_id :: i64
  lj_space_id :: "i64 option"
  lj_job_type :: string
  lj_state :: string
  lj_priority :: int
  lj_input_json :: "string option"
  lj_result_json :: "string option"
  lj_error_json :: "string option"
  lj_started_at :: "string option"
  lj_finished_at :: "string option"
  lj_lease_owner :: "string option"
  lj_lease_token :: "string option"
  lj_lease_expires_at :: "string option"
  lj_created_at :: string
  lj_updated_at :: string
  lj_version :: int

text \<open>The columns of \<^verbatim>\<open>ai_learning_job\<close> that the struct leaves out.\<close>

record job_row = native_sql_learning_job +
  jr_id :: int
  jr_idempotency_key :: "string option"
  jr_attempt_count :: int
  jr_next_attempt_at :: "string option"

definition map_learning_job_row :: "job_row \<Rightarrow> native_sql_learning_job" where
  "map_learning_job_row r = native_sql_learning_job.truncate r"

record insert_learning_job_command =
  ij_tenant_id :: i64
  ij_job_uuid :: string
  ij_space_id :: "i64 option"
  ij_job_type :: string
  ij_state :: string
  ij_priority :: int
  ij_idempotency_key :: "string option"
  ij_input_json :: "string option"

record finish_learning_job_command =
  fj_tenant_id :: i64
  fj_job_uuid :: string
  fj_lease_owner :: string
  fj_lease_token :: string
  fj_state :: string
  fj_result_json :: "string option"
  fj_error_json :: "string option"

datatype job_store_error =
    IdempotencyConflict string
  | UniqueViolation
  | CheckViolation

text \<open>\<^verbatim>\<open>CHECK (state IN (..))\<close> of the two tables.\<close>

definition job_states :: "string list" where
  "job_states = [''queued'', ''running'', ''succeeded'', ''failed'', ''dead'']"

definition eval_states :: "string list" where
  "eval_states = [''accepted'', ''queued'', ''running'', ''succeeded'', ''failed'', ''dead'']"

section \<open>Enqueueing\<close>

definition job_key :: "i64 \<Rightarrow> string \<Rightarrow> job_row \<Rightarrow> bool" where
  "job_key tenant uuid r \<longleftrightarrow> lj_tenant_id r = tenant \<and> lj_job_uuid r = uuid"

definition idempotency_hit :: "i64 \<Rightarrow> string \<Rightarrow> string \<Rightarrow> job_row \<Rightarrow> bool" where
  "idempotency_hit tenant job_type key r \<longleftrightarrow>
     lj_tenant_id r = tenant \<and> lj_job_type r = job_type \<and> sql_eq (jr_idempotency_key r) key"

definition learning_job_input_for_idempotency_key :: "i64 \<Rightarrow> string \<Rightarrow> string \<Rightarrow> job_row list \<Rightarrow>
    string option option" where
  "learning_job_input_for_idempotency_key tenant job_type key t =
     map_option lj_input_json (find (idempotency_hit tenant job_type key) t)"

definition inserted_job :: "int \<Rightarrow> string \<Rightarrow> insert_learning_job_command \<Rightarrow> job_row" where
  "inserted_job row_id now c =
     \<lparr>lj_job_uuid = ij_job_uuid c, lj_tenant_id = ij_tenant_id c, lj_space_id = ij_space_id c,
      lj_job_type = ij_job_type c, lj_state = ij_state c, lj_priority = ij_priority c,
      lj_input_json = ij_input_json c, lj_result_json = None, lj_error_json = None,
      lj_started_at = None, lj_finished_at = None, lj_lease_owner = None, lj_lease_token = None,
      lj_lease_expires_at = None, lj_created_at = now, lj_updated_at = now, lj_version = 1,
      jr_id = row_id, jr_idempotency_key = ij_idempotency_key c, jr_attempt_count = 0,
      jr_next_attempt_at = None\<rparr>"

text \<open>The unique indexes on (tenant, uuid) and, where a key is given, on (tenant, type, key).\<close>

definition job_unique_conflict :: "insert_learning_job_command \<Rightarrow> job_row \<Rightarrow> bool" where
  "job_unique_conflict c r \<longleftrightarrow>
     job_key (ij_tenant_id c) (ij_job_uuid c) r \<or>
     (case ij_idempotency_key c of
        None \<Rightarrow> False
      | Some key \<Rightarrow> idempotency_hit (ij_tenant_id c) (ij_job_type c) key r)"

definition insert_learning_job :: "int \<Rightarrow> string \<Rightarrow> insert_learning_job_command \<Rightarrow> job_row list \<Rightarrow>
    (job_store_error + unit) \<times> job_row list" where
  "insert_learning_job row_id now c t =
     (if ij_state c \<notin> set job_states then (Inl CheckViolation, t)
      else if \<not> list_ex (job_unique_conflict c) t then (Inr (), t @ [inserted_job row_id now c])
      else case ij_idempotency_key c of
          None \<Rightarrow> (Inl UniqueViolation, t)
        | Some key \<Rightarrow>
            (case learning_job_input_for_idempotency_key (ij_tenant_id c) (ij_job_type c) key t of
               None \<Rightarrow> (Inl UniqueViolation, t)
             | Some None \<Rightarrow> (Inl (IdempotencyConflict key), t)
             | Some (Some existing) \<Rightarrow>
                 if Some existing = ij_input_json c then (Inr (), t) else (Inl (IdempotencyConflict key), t)))"

section \<open>Claiming learning jobs\<close>

text \<open>
  \<^verbatim>\<open>ORDER BY priority DESC, created_at ASC\<close> leaves rows equal; \<^verbatim>\<open>tie\<close> is the order in which the
  database then delivers them.
\<close>

definition job_order :: "(job_row \<Rightarrow> nat) \<Rightarrow> job_row \<Rightarrow> int desc \<times> string \<times> nat" where
  "job_order tie r = (Desc (lj_priority r), lj_created_at r, tie r)"

definition job_claimable :: "string \<Rightarrow> job_row \<Rightarrow> bool" where
  "job_claimable now r \<longleftrightarrow> lj_state r = ''queued'' \<and> sql_null_or_upto (jr_next_attempt_at r) now"

definition job_candidates :: "(job_row \<Rightarrow> nat) \<Rightarrow> string \<Rightarrow> int \<Rightarrow> job_row list \<Rightarrow> job_row list" where
  "job_candidates tie now limit t = top_by (job_order tie) (nat (max limit 1)) (filter (job_claimable now) t)"

text \<open>The columns a claim writes: started, owner, token, expiry, updated.\<close>

definition run_job :: "string \<Rightarrow> string \<Rightarrow> string \<Rightarrow> string \<Rightarrow> string \<Rightarrow> job_row \<Rightarrow> job_row" where
  "run_job started owner token expires updated r =
     r\<lparr>lj_state := ''running'', lj_started_at := Some started, lj_lease_owner := Some owner,
       lj_lease_token := Some token, lj_lease_expires_at := Some expires, lj_updated_at := updated,
       lj_version := lj_version r + 1\<rparr>"

definition same_job :: "job_row \<Rightarrow> job_row \<Rightarrow> bool" where
  "same_job a b \<longleftrightarrow> lj_tenant_id a = lj_tenant_id b \<and> lj_job_uuid a = lj_job_uuid b"

text \<open>
  The PostgreSQL claim binds seven values. In the order of the statement its parameters are
  \<^verbatim>\<open>started_at\<close>, \<^verbatim>\<open>lease_owner\<close>, \<^verbatim>\<open>lease_token\<close>, \<^verbatim>\<open>lease_expires_at\<close>, \<^verbatim>\<open>updated_at\<close>, the bound of
  \<^verbatim>\<open>next_attempt_at\<close> and the limit.
\<close>

definition claim_job_binds :: "clock \<Rightarrow> string \<Rightarrow> string \<Rightarrow> nat \<Rightarrow> string \<times> string \<times> string \<times> string \<times> string \<times> string" where
  "claim_job_binds ck owner token duration =
     (ck_now ck, ck_now ck, owner, token, ck_after ck (lease_seconds duration), ck_now ck)"

definition claim_queued_learning_jobs_postgres :: "(job_row \<Rightarrow> nat) \<Rightarrow> clock \<Rightarrow> int \<Rightarrow> string \<Rightarrow> string \<Rightarrow> nat \<Rightarrow>
    job_row list \<Rightarrow> native_sql_learning_job list \<times> job_row list" where
  "claim_queued_learning_jobs_postgres tie ck limit owner token duration t =
     (case claim_job_binds ck owner token duration of
        (started, own, tok, expires, updated, due) \<Rightarrow>
          let picked = job_candidates tie due limit t;
              p = (\<lambda>r. list_ex (same_job r) picked \<and> lj_state r = ''queued'')
          in (map (\<lambda>r. map_learning_job_row (run_job started own tok expires updated r)) (filter p t),
              update_where p (run_job started own tok expires updated) t))"

text \<open>The SQLite claim reads the clock again for every row.\<close>

definition sqlite_claimed_job :: "clock \<Rightarrow> string \<Rightarrow> string \<Rightarrow> nat \<Rightarrow> job_row \<Rightarrow> native_sql_learning_job" where
  "sqlite_claimed_job ck owner token duration r =
     (map_learning_job_row r)\<lparr>lj_state := ''running'', lj_started_at := Some (ck_now ck),
       lj_lease_owner := Some owner, lj_lease_token := Some token,
       lj_lease_expires_at := Some (ck_after ck (lease_seconds duration))\<rparr>"

fun claim_jobs_each :: "(job_row \<Rightarrow> clock) \<Rightarrow> string \<Rightarrow> string \<Rightarrow> nat \<Rightarrow> job_row list \<Rightarrow> job_row list \<Rightarrow>
    native_sql_learning_job list \<times> job_row list" where
  "claim_jobs_each clk owner token duration [] t = ([], t)"
| "claim_jobs_each clk owner token duration (r # rs) t =
     (let ck = clk r;
          p = (\<lambda>r'. same_job r' r \<and> lj_state r' = ''queued'');
          t' = update_where p
                 (run_job (ck_now ck) owner token (ck_after ck (lease_seconds duration)) (ck_now ck)) t;
          (claimed, t'') = claim_jobs_each clk owner token duration rs t'
      in (if rows_affected p t = 0 then claimed
          else sqlite_claimed_job ck owner token duration r # claimed, t''))"

definition claim_queued_learning_jobs_sqlite :: "(job_row \<Rightarrow> nat) \<Rightarrow> clock \<Rightarrow> (job_row \<Rightarrow> clock) \<Rightarrow> int \<Rightarrow> string \<Rightarrow>
    string \<Rightarrow> nat \<Rightarrow> job_row list \<Rightarrow> native_sql_learning_job list \<times> job_row list" where
  "claim_queued_learning_jobs_sqlite tie ck clk limit owner token duration t =
     claim_jobs_each clk owner token duration (job_candidates tie (ck_now ck) limit t) t"

definition claim_queued_learning_jobs :: "memory_sql_dialect \<Rightarrow> (job_row \<Rightarrow> nat) \<Rightarrow> clock \<Rightarrow> (job_row \<Rightarrow> clock) \<Rightarrow> int \<Rightarrow>
    string \<Rightarrow> string \<Rightarrow> nat \<Rightarrow> job_row list \<Rightarrow> native_sql_learning_job list \<times> job_row list" where
  "claim_queued_learning_jobs dialect tie ck clk =
     (case dialect of
        Postgres \<Rightarrow> claim_queued_learning_jobs_postgres tie ck
      | Sqlite \<Rightarrow> claim_queued_learning_jobs_sqlite tie ck clk)"

section \<open>Reading jobs\<close>

definition retrieve_learning_job_for_tenant :: "i64 \<Rightarrow> string \<Rightarrow> job_row list \<Rightarrow> native_sql_learning_job option" where
  "retrieve_learning_job_for_tenant tenant uuid t = map_option map_learning_job_row (find (job_key tenant uuid) t)"

definition clamp_job_page :: "int \<Rightarrow> nat" where
  "clamp_job_page page_size = nat (max 1 (min page_size 200))"

text \<open>A cursor that names no job of the tenant stands for id 0, below every row.\<close>

definition job_cursor_id :: "i64 \<Rightarrow> string \<Rightarrow> job_row list \<Rightarrow> int" where
  "job_cursor_id tenant cursor t = (case find (job_key tenant cursor) t of None \<Rightarrow> 0 | Some r \<Rightarrow> jr_id r)"

definition list_learning_jobs_for_tenant :: "i64 \<Rightarrow> string \<Rightarrow> i64 option \<Rightarrow> int \<Rightarrow> string option \<Rightarrow> job_row list \<Rightarrow>
    native_sql_learning_job list" where
  "list_learning_jobs_for_tenant tenant job_type space page_size cursor t =
     (let cur = (case cursor of None \<Rightarrow> [] | Some c \<Rightarrow> c)
      in map map_learning_job_row (top_by (\<lambda>r. Desc (jr_id r)) (clamp_job_page page_size + 1)
           (filter (\<lambda>r. lj_tenant_id r = tenant \<and> lj_job_type r = job_type \<and>
              (space = None \<or> lj_space_id r = space) \<and>
              (cur = [] \<or> jr_id r < job_cursor_id tenant cur t)) t)))"

section \<open>Completion and retry\<close>

definition job_fenced :: "i64 \<Rightarrow> string \<Rightarrow> string \<Rightarrow> string \<Rightarrow> string \<Rightarrow> job_row \<Rightarrow> bool" where
  "job_fenced tenant uuid owner token now r \<longleftrightarrow>
     job_key tenant uuid r \<and> lj_state r = ''running'' \<and>
     lease_matches (lj_lease_owner r) (lj_lease_token r) (lj_lease_expires_at r) owner token now"

definition job_released :: "job_row \<Rightarrow> job_row" where
  "job_released r = r\<lparr>lj_lease_owner := None, lj_lease_token := None, lj_lease_expires_at := None\<rparr>"

definition coalesce :: "'a option \<Rightarrow> 'a option \<Rightarrow> 'a option" where
  "coalesce x y = (case x of None \<Rightarrow> y | Some v \<Rightarrow> Some v)"

definition finished_job :: "string \<Rightarrow> finish_learning_job_command \<Rightarrow> job_row \<Rightarrow> job_row" where
  "finished_job now c r =
     (job_released r)\<lparr>lj_state := fj_state c, lj_result_json := coalesce (fj_result_json c) (lj_result_json r),
       lj_error_json := coalesce (fj_error_json c) (lj_error_json r), lj_finished_at := Some now,
       lj_updated_at := now, lj_version := lj_version r + 1\<rparr>"

definition finish_learning_job :: "clock \<Rightarrow> finish_learning_job_command \<Rightarrow> job_row list \<Rightarrow>
    (job_store_error + native_sql_learning_job option) \<times> job_row list" where
  "finish_learning_job ck c t =
     (let now = ck_now ck;
          p = job_fenced (fj_tenant_id c) (fj_job_uuid c) (fj_lease_owner c) (fj_lease_token c) now;
          t' = update_where p (finished_job now c) t
      in if rows_affected p t = 0 then (Inr None, t)
         else if fj_state c \<notin> set job_states then (Inl CheckViolation, t)
         else (Inr (retrieve_learning_job_for_tenant (fj_tenant_id c) (fj_job_uuid c) t'), t'))"

definition retried_job :: "clock \<Rightarrow> int \<Rightarrow> nat \<Rightarrow> string \<Rightarrow> job_row \<Rightarrow> job_row" where
  "retried_job ck max_attempts backoff error_json r =
     (let exhausted = max_attempts \<le> jr_attempt_count r + 1
      in (job_released r)\<lparr>lj_state := (if exhausted then ''failed'' else ''queued''),
           jr_attempt_count := jr_attempt_count r + 1,
           jr_next_attempt_at := (if exhausted then None else Some (ck_after ck (max backoff 1))),
           lj_error_json := Some error_json, lj_updated_at := ck_now ck, lj_version := lj_version r + 1\<rparr>)"

definition requeue_failed_learning_job :: "clock \<Rightarrow> i64 \<Rightarrow> string \<Rightarrow> string \<Rightarrow> string \<Rightarrow> int \<Rightarrow> nat \<Rightarrow> string \<Rightarrow>
    job_row list \<Rightarrow> string option \<times> job_row list" where
  "requeue_failed_learning_job ck tenant uuid owner token max_attempts backoff error_json t =
     (let p = job_fenced tenant uuid owner token (ck_now ck);
          t' = update_where p (retried_job ck max_attempts backoff error_json) t
      in if rows_affected p t = 0 then (None, t)
         else (map_option lj_state (retrieve_learning_job_for_tenant tenant uuid t'), t'))"

definition renew_learning_job_lease :: "clock \<Rightarrow> i64 \<Rightarrow> string \<Rightarrow> string \<Rightarrow> string \<Rightarrow> nat \<Rightarrow> job_row list \<Rightarrow>
    bool \<times> job_row list" where
  "renew_learning_job_lease ck tenant uuid owner token duration t =
     (let p = job_fenced tenant uuid owner token (ck_now ck)
      in (rows_affected p t = 1,
          update_where p (\<lambda>r. r\<lparr>lj_lease_expires_at := Some (ck_after ck (lease_seconds duration)),
            lj_updated_at := ck_now ck, lj_version := lj_version r + 1\<rparr>) t))"

section \<open>The sweep of learning jobs\<close>

definition job_stale :: "string \<Rightarrow> job_row \<Rightarrow> bool" where
  "job_stale now r \<longleftrightarrow> lj_state r = ''running'' \<and> lease_expired (lj_lease_expires_at r) now"

text \<open>\<^verbatim>\<open>i64::try_from(max_attempts).unwrap_or(i64::MAX)\<close>.\<close>

definition attempt_ceiling :: "u64 \<Rightarrow> int" where
  "attempt_ceiling n = (case i64_try_from n of None \<Rightarrow> 2 ^ 63 - 1 | Some m \<Rightarrow> sint m)"

definition job_dead :: "string \<Rightarrow> int \<Rightarrow> job_row \<Rightarrow> bool" where
  "job_dead now m r \<longleftrightarrow> job_stale now r \<and> m \<le> jr_attempt_count r"

definition job_requeue :: "string \<Rightarrow> int \<Rightarrow> job_row \<Rightarrow> bool" where
  "job_requeue now m r \<longleftrightarrow> job_stale now r \<and> jr_attempt_count r < m"

definition max_attempts_error :: string where
  "max_attempts_error = ''{\"error\":\"max_attempts_exceeded\"}''"

definition buried_job :: "string \<Rightarrow> job_row \<Rightarrow> job_row" where
  "buried_job now r =
     (job_released r)\<lparr>lj_state := ''dead'', lj_error_json := Some max_attempts_error, lj_updated_at := now\<rparr>"

definition requeued_job :: "string \<Rightarrow> job_row \<Rightarrow> job_row" where
  "requeued_job now r =
     (job_released r)\<lparr>lj_state := ''queued'', jr_attempt_count := jr_attempt_count r + 1,
       lj_started_at := None, lj_updated_at := now\<rparr>"

definition requeue_stale_running_learning_jobs :: "clock \<Rightarrow> u64 \<Rightarrow> job_row list \<Rightarrow>
    (stale_requeue_counts \<times> job_row list) option" where
  "requeue_stale_running_learning_jobs ck max_attempts t =
     (let now = ck_now ck; m = attempt_ceiling max_attempts
      in sweep_loop jr_id (job_dead now m) (job_requeue now m) (buried_job now) (requeued_job now)
           \<lparr>sr_requeued = 0, sr_dead = 0\<rparr> t)"

section \<open>Evaluation runs\<close>

record eval_row =
  er_id :: int
  er_uuid :: string
  er_tenant_id :: i64
  er_eval_type :: string
  er_state :: string
  er_metrics_json :: "string option"
  er_result_json :: "string option"
  er_error_json :: "string option"
  er_started_at :: "string option"
  er_finished_at :: "string option"
  er_lease_owner :: "string option"
  er_lease_token :: "string option"
  er_lease_expires_at :: "string option"
  er_attempt_count :: int
  er_created_at :: string
  er_updated_at :: string
  er_version :: int

record claimed_eval_run =
  ce_tenant_id :: i64
  ce_eval_run_uuid :: string
  ce_eval_type :: string
  ce_lease_owner :: string
  ce_lease_token :: string
  ce_lease_expires_at :: string

record update_eval_run_state_command =
  ue_tenant_id :: i64
  ue_eval_run_uuid :: string
  ue_lease_owner :: string
  ue_lease_token :: string
  ue_state :: string
  ue_metrics_json :: "string option"
  ue_result_json :: "string option"

definition eval_fenced :: "i64 \<Rightarrow> string \<Rightarrow> string \<Rightarrow> string \<Rightarrow> string \<Rightarrow> eval_row \<Rightarrow> bool" where
  "eval_fenced tenant uuid owner token now r \<longleftrightarrow>
     er_tenant_id r = tenant \<and> er_uuid r = uuid \<and> er_state r = ''running'' \<and>
     lease_matches (er_lease_owner r) (er_lease_token r) (er_lease_expires_at r) owner token now"

definition eval_released :: "eval_row \<Rightarrow> eval_row" where
  "eval_released r = r\<lparr>er_lease_owner := None, er_lease_token := None, er_lease_expires_at := None\<rparr>"

definition updated_eval_run :: "string \<Rightarrow> update_eval_run_state_command \<Rightarrow> eval_row \<Rightarrow> eval_row" where
  "updated_eval_run now c r =
     (eval_released r)\<lparr>er_state := ue_state c, er_metrics_json := coalesce (ue_metrics_json c) (er_metrics_json r),
       er_result_json := coalesce (ue_result_json c) (er_result_json r), er_finished_at := Some now,
       er_updated_at := now, er_version := er_version r + 1\<rparr>"

definition update_eval_run_state :: "clock \<Rightarrow> update_eval_run_state_command \<Rightarrow> eval_row list \<Rightarrow>
    (job_store_error + bool) \<times> eval_row list" where
  "update_eval_run_state ck c t =
     (let now = ck_now ck;
          p = eval_fenced (ue_tenant_id c) (ue_eval_run_uuid c) (ue_lease_owner c) (ue_lease_token c) now
      in if rows_affected p t = 0 then (Inr False, t)
         else if ue_state c \<notin> set eval_states then (Inl CheckViolation, t)
         else (Inr (rows_affected p t = 1), update_where p (updated_eval_run now c) t))"

definition eval_waiting :: "eval_row \<Rightarrow> bool" where
  "eval_waiting r \<longleftrightarrow> er_state r \<in> {''accepted'', ''queued''}"

definition eval_candidates :: "(eval_row \<Rightarrow> nat) \<Rightarrow> int \<Rightarrow> eval_row list \<Rightarrow> eval_row list" where
  "eval_candidates tie limit t = top_by (\<lambda>r. (er_created_at r, tie r)) (nat (max limit 1)) (filter eval_waiting t)"

definition run_eval :: "clock \<Rightarrow> string \<Rightarrow> string \<Rightarrow> nat \<Rightarrow> eval_row \<Rightarrow> eval_row" where
  "run_eval ck owner token duration r =
     r\<lparr>er_state := ''running'', er_started_at := coalesce (er_started_at r) (Some (ck_now ck)),
       er_lease_owner := Some owner, er_lease_token := Some token,
       er_lease_expires_at := Some (ck_after ck (lease_seconds duration)), er_updated_at := ck_now ck\<rparr>"

definition claimed_eval :: "clock \<Rightarrow> string \<Rightarrow> string \<Rightarrow> nat \<Rightarrow> eval_row \<Rightarrow> claimed_eval_run" where
  "claimed_eval ck owner token duration r =
     \<lparr>ce_tenant_id = er_tenant_id r, ce_eval_run_uuid = er_uuid r, ce_eval_type = er_eval_type r,
      ce_lease_owner = owner, ce_lease_token = token,
      ce_lease_expires_at = ck_after ck (lease_seconds duration)\<rparr>"

definition same_eval :: "eval_row \<Rightarrow> eval_row \<Rightarrow> bool" where
  "same_eval a b \<longleftrightarrow> er_tenant_id a = er_tenant_id b \<and> er_uuid a = er_uuid b"

definition claim_queued_eval_runs_postgres :: "(eval_row \<Rightarrow> nat) \<Rightarrow> clock \<Rightarrow> int \<Rightarrow> string \<Rightarrow> string \<Rightarrow> nat \<Rightarrow>
    eval_row list \<Rightarrow> claimed_eval_run list \<times> eval_row list" where
  "claim_queued_eval_runs_postgres tie ck limit owner token duration t =
     (let picked = eval_candidates tie limit t;
          p = (\<lambda>r. list_ex (same_eval r) picked \<and> eval_waiting r)
      in (map (claimed_eval ck owner token duration) (filter p t),
          update_where p (run_eval ck owner token duration) t))"

fun claim_evals_each :: "(eval_row \<Rightarrow> clock) \<Rightarrow> string \<Rightarrow> string \<Rightarrow> nat \<Rightarrow> eval_row list \<Rightarrow> eval_row list \<Rightarrow>
    claimed_eval_run list \<times> eval_row list" where
  "claim_evals_each clk owner token duration [] t = ([], t)"
| "claim_evals_each clk owner token duration (r # rs) t =
     (let p = (\<lambda>r'. same_eval r' r \<and> eval_waiting r');
          t' = update_where p (run_eval (clk r) owner token duration) t;
          (claimed, t'') = claim_evals_each clk owner token duration rs t'
      in (if rows_affected p t = 0 then claimed
          else claimed_eval (clk r) owner token duration r # claimed, t''))"

definition claim_queued_eval_runs_sqlite :: "(eval_row \<Rightarrow> nat) \<Rightarrow> (eval_row \<Rightarrow> clock) \<Rightarrow> int \<Rightarrow> string \<Rightarrow> string \<Rightarrow> nat \<Rightarrow>
    eval_row list \<Rightarrow> claimed_eval_run list \<times> eval_row list" where
  "claim_queued_eval_runs_sqlite tie clk limit owner token duration t =
     claim_evals_each clk owner token duration (eval_candidates tie limit t) t"

definition claim_queued_eval_runs :: "memory_sql_dialect \<Rightarrow> (eval_row \<Rightarrow> nat) \<Rightarrow> clock \<Rightarrow> (eval_row \<Rightarrow> clock) \<Rightarrow> int \<Rightarrow>
    string \<Rightarrow> string \<Rightarrow> nat \<Rightarrow> eval_row list \<Rightarrow> claimed_eval_run list \<times> eval_row list" where
  "claim_queued_eval_runs dialect tie ck clk =
     (case dialect of
        Postgres \<Rightarrow> claim_queued_eval_runs_postgres tie ck
      | Sqlite \<Rightarrow> claim_queued_eval_runs_sqlite tie clk)"

definition renew_eval_run_lease :: "clock \<Rightarrow> i64 \<Rightarrow> string \<Rightarrow> string \<Rightarrow> string \<Rightarrow> nat \<Rightarrow> eval_row list \<Rightarrow>
    bool \<times> eval_row list" where
  "renew_eval_run_lease ck tenant uuid owner token duration t =
     (let p = eval_fenced tenant uuid owner token (ck_now ck)
      in (rows_affected p t = 1,
          update_where p (\<lambda>r. r\<lparr>er_lease_expires_at := Some (ck_after ck (lease_seconds duration)),
            er_updated_at := ck_now ck\<rparr>) t))"

definition eval_stale :: "string \<Rightarrow> eval_row \<Rightarrow> bool" where
  "eval_stale now r \<longleftrightarrow> er_state r = ''running'' \<and> lease_expired (er_lease_expires_at r) now"

definition eval_dead :: "string \<Rightarrow> int \<Rightarrow> eval_row \<Rightarrow> bool" where
  "eval_dead now m r \<longleftrightarrow> eval_stale now r \<and> m \<le> er_attempt_count r"

definition eval_requeue :: "string \<Rightarrow> int \<Rightarrow> eval_row \<Rightarrow> bool" where
  "eval_requeue now m r \<longleftrightarrow> eval_stale now r \<and> er_attempt_count r < m"

definition buried_eval :: "string \<Rightarrow> eval_row \<Rightarrow> eval_row" where
  "buried_eval now r =
     (eval_released r)\<lparr>er_state := ''dead'', er_error_json := Some max_attempts_error, er_updated_at := now\<rparr>"

definition requeued_eval :: "string \<Rightarrow> eval_row \<Rightarrow> eval_row" where
  "requeued_eval now r =
     (eval_released r)\<lparr>er_state := ''queued'', er_attempt_count := er_attempt_count r + 1,
       er_started_at := None, er_updated_at := now\<rparr>"

definition requeue_stale_running_eval_runs :: "clock \<Rightarrow> u64 \<Rightarrow> eval_row list \<Rightarrow>
    (stale_requeue_counts \<times> eval_row list) option" where
  "requeue_stale_running_eval_runs ck max_attempts t =
     (let now = ck_now ck; m = attempt_ceiling max_attempts
      in sweep_loop er_id (eval_dead now m) (eval_requeue now m) (buried_eval now) (requeued_eval now)
           \<lparr>sr_requeued = 0, sr_dead = 0\<rparr> t)"

end
