(* ===== verification/Job_Laws.thy ===== *)
theory Job_Laws
  imports Learning_Jobs Sql_Tables
begin

text \<open>
  The life of a learning job as row steps and as a state machine of the table, with the
  schema's constraints as its invariant; the sweeps of both tables as interpretations of
  \<^verbatim>\<open>lease_sweep\<close>; and the lease a claim leaves in the table, in both dialects.
\<close>

section \<open>Sweeps\<close>

interpretation job_sweep: lease_sweep jr_id "job_dead now m" "job_requeue now m" "buried_job now" "requeued_job now"
  for now m
  by unfold_locales
     (auto simp: job_dead_def job_requeue_def job_stale_def buried_job_def requeued_job_def)

interpretation eval_sweep: lease_sweep er_id "eval_dead now m" "eval_requeue now m" "buried_eval now" "requeued_eval now"
  for now m
  by unfold_locales
     (auto simp: eval_dead_def eval_requeue_def eval_stale_def buried_eval_def requeued_eval_def)

lemma job_sweep_exact:
  "requeue_stale_running_learning_jobs ck n t =
     Some (\<lparr>sr_requeued = length (filter (job_requeue (ck_now ck) (attempt_ceiling n)) t),
            sr_dead = length (filter (job_dead (ck_now ck) (attempt_ceiling n)) t)\<rparr>,
       map (settled (job_dead (ck_now ck) (attempt_ceiling n)) (job_requeue (ck_now ck) (attempt_ceiling n))
         (buried_job (ck_now ck)) (requeued_job (ck_now ck))) t)"
  by (simp add: requeue_stale_running_learning_jobs_def Let_def job_sweep.sweep_total)

lemma eval_sweep_exact:
  "requeue_stale_running_eval_runs ck n t =
     Some (\<lparr>sr_requeued = length (filter (eval_requeue (ck_now ck) (attempt_ceiling n)) t),
            sr_dead = length (filter (eval_dead (ck_now ck) (attempt_ceiling n)) t)\<rparr>,
       map (settled (eval_dead (ck_now ck) (attempt_ceiling n)) (eval_requeue (ck_now ck) (attempt_ceiling n))
         (buried_eval (ck_now ck)) (requeued_eval (ck_now ck))) t)"
  by (simp add: requeue_stale_running_eval_runs_def Let_def eval_sweep.sweep_total)

lemma job_stale_split: "job_dead now m r \<or> job_requeue now m r \<longleftrightarrow> job_stale now r"
  by (auto simp: job_dead_def job_requeue_def)

lemma eval_stale_split: "eval_dead now m r \<or> eval_requeue now m r \<longleftrightarrow> eval_stale now r"
  by (auto simp: eval_dead_def eval_requeue_def)

lemma jobs_swept:
  "length (filter (job_dead now m) t) + length (filter (job_requeue now m) t) = length (filter (job_stale now) t)"
  "list_all (\<lambda>r. \<not> job_stale now r) (map (settled (job_dead now m) (job_requeue now m) (buried_job now) (requeued_job now)) t)"
  subgoal using job_sweep.sweep_counts [of now m t] by (simp only: job_stale_split)
  subgoal using job_sweep.settle_done [of now m] job_stale_split [of now m] by (simp add: list_all_iff) blast
  done

lemma evals_swept:
  "length (filter (eval_dead now m) t) + length (filter (eval_requeue now m) t) = length (filter (eval_stale now) t)"
  "list_all (\<lambda>r. \<not> eval_stale now r) (map (settled (eval_dead now m) (eval_requeue now m) (buried_eval now) (requeued_eval now)) t)"
  subgoal using eval_sweep.sweep_counts [of now m t] by (simp only: eval_stale_split)
  subgoal using eval_sweep.settle_done [of now m] eval_stale_split [of now m] by (simp add: list_all_iff) blast
  done

section \<open>The invariant\<close>

definition job_lease_shape :: "job_row \<Rightarrow> bool" where
  "job_lease_shape r \<longleftrightarrow>
     (lj_lease_owner r = None \<and> lj_lease_token r = None \<and> lj_lease_expires_at r = None) \<or>
     (lj_lease_owner r \<noteq> None \<and> lj_lease_token r \<noteq> None \<and> lj_lease_expires_at r \<noteq> None \<and> lj_state r = ''running'')"

definition job_row_ok :: "job_row \<Rightarrow> bool" where
  "job_row_ok r \<longleftrightarrow> lj_state r \<in> set job_states \<and> 0 \<le> jr_attempt_count r \<and> job_lease_shape r"

definition open_job :: "job_row \<Rightarrow> bool" where
  "open_job r \<longleftrightarrow> lj_state r \<in> {''queued'', ''running''}"

type_synonym job_keys = "int \<times> (i64 \<times> string) \<times> (i64 \<times> string \<times> string option)"

definition job_keys :: "job_row \<Rightarrow> job_keys" where
  "job_keys r = (jr_id r, (lj_tenant_id r, lj_job_uuid r), (lj_tenant_id r, lj_job_type r, jr_idempotency_key r))"

text \<open>The primary key and both unique indexes; the last one only counts rows with a key.\<close>

definition unique_job_keys :: "job_keys list \<Rightarrow> bool" where
  "unique_job_keys ks \<longleftrightarrow>
     distinct (map fst ks) \<and> distinct (map (fst \<circ> snd) ks) \<and>
     distinct (filter (\<lambda>k. snd (snd k) \<noteq> None) (map (snd \<circ> snd) ks))"

definition jobs_ok :: "job_row list \<Rightarrow> bool" where
  "jobs_ok t \<longleftrightarrow> unique_job_keys (map job_keys t) \<and> (\<forall>r \<in> set t. job_row_ok r)"

section \<open>The steps of a job\<close>

inductive job_row_step :: "job_row \<Rightarrow> job_row \<Rightarrow> bool" where
  started: "lj_state r = ''queued'' \<Longrightarrow> job_row_step r (run_job st ow tk ex up r)"
| finished: "lj_state r = ''running'' \<Longrightarrow> fj_state c \<in> set job_states \<Longrightarrow> job_row_step r (finished_job now c r)"
| retried: "lj_state r = ''running'' \<Longrightarrow> job_row_step r (retried_job ck m backoff err r)"
| renewed: "job_fenced tenant uuid ow tk now r \<Longrightarrow>
    job_row_step r (r\<lparr>lj_lease_expires_at := Some ex, lj_updated_at := up, lj_version := lj_version r + 1\<rparr>)"
| buried: "job_stale now r \<Longrightarrow> job_row_step r (buried_job now r)"
| requeued: "job_stale now r \<Longrightarrow> job_row_step r (requeued_job now r)"

lemmas job_defs = run_job_def finished_job_def retried_job_def buried_job_def requeued_job_def job_released_def Let_def

lemma job_fencedD: "job_fenced tenant uuid ow tk now r \<Longrightarrow>
    lj_state r = ''running'' \<and> lj_lease_owner r = Some ow \<and> lj_lease_token r = Some tk \<and> lj_lease_expires_at r \<noteq> None"
  by (auto simp: job_fenced_def lease_matches_def sql_eq_def sql_after_def split: option.splits)

lemma job_step_ok: "job_row_step r r' \<Longrightarrow> job_row_ok r \<Longrightarrow> job_row_ok r'"
  by (induction rule: job_row_step.induct)
     (auto simp: job_row_ok_def job_lease_shape_def job_states_def job_defs dest!: job_fencedD)

lemma job_step_keys: "job_row_step r r' \<Longrightarrow> job_keys r' = job_keys r"
  by (induction rule: job_row_step.induct) (simp_all add: job_keys_def job_defs)

lemma job_step_open: "job_row_step r r' \<Longrightarrow> open_job r"
  by (induction rule: job_row_step.induct) (auto simp: open_job_def job_stale_def dest: job_fencedD)

interpretation job_life: row_life job_row_step job_keys job_row_ok open_job
  by unfold_locales (fact job_step_keys job_step_ok job_step_open)+

abbreviation jobs_evolve :: "job_row list \<Rightarrow> job_row list \<Rightarrow> bool" where
  "jobs_evolve \<equiv> evolves_by job_row_step"

lemma jobs_evolve_ok: "jobs_evolve t t' \<Longrightarrow> jobs_ok t \<Longrightarrow> jobs_ok t'"
  using job_life.evolves_keys [of t t'] job_life.evolves_fine [of t t'] by (simp add: jobs_ok_def)

lemma claim_jobs_each_evolves: "jobs_evolve t (snd (claim_jobs_each clk ow tk dur rs t))"
proof (induction rs arbitrary: t)
  case (Cons r rs)
  let ?t = "update_where (\<lambda>r'. same_job r' r \<and> lj_state r' = ''queued'')
      (run_job (ck_now (clk r)) ow tk (ck_after (clk r) (lease_seconds dur)) (ck_now (clk r))) t"
  have "jobs_evolve t ?t"
    by (rule job_life.evolves_update) (auto intro: started)
  then show ?case
    using Cons.IH [of ?t] by (auto simp: Let_def split_beta intro: job_life.evolves_trans)
qed simp

lemma claim_jobs_evolves: "jobs_evolve t (snd (claim_queued_learning_jobs d tie ck clk limit ow tk dur t))"
  using claim_jobs_each_evolves
  by (cases d) (auto simp: claim_queued_learning_jobs_def claim_queued_learning_jobs_postgres_def
      claim_queued_learning_jobs_sqlite_def Let_def split_beta intro!: job_life.evolves_update started)

lemma finish_evolves: "jobs_evolve t (snd (finish_learning_job ck c t))"
  by (auto simp: finish_learning_job_def Let_def intro!: job_life.evolves_update finished dest: job_fencedD)

lemma retry_evolves: "jobs_evolve t (snd (requeue_failed_learning_job ck tenant uuid ow tk m backoff err t))"
  by (auto simp: requeue_failed_learning_job_def Let_def intro!: job_life.evolves_update retried dest: job_fencedD)

lemma renew_job_evolves: "jobs_evolve t (snd (renew_learning_job_lease ck tenant uuid ow tk dur t))"
  by (auto simp: renew_learning_job_lease_def Let_def intro!: job_life.evolves_update renewed)

lemma job_sweep_evolves:
  "requeue_stale_running_learning_jobs ck n t = Some (counts, t') \<Longrightarrow> jobs_evolve t t'"
  unfolding job_sweep_exact
proof (clarify, rule job_life.evolves_map)
  fix r
  show "job_sweep.settle (ck_now ck) (attempt_ceiling n) r = r \<or>
      job_row_step r (job_sweep.settle (ck_now ck) (attempt_ceiling n) r)"
    using job_row_step.buried [of "ck_now ck" r] job_row_step.requeued [of "ck_now ck" r]
    by (simp add: settled_def job_dead_def job_requeue_def)
qed

section \<open>The state machine\<close>

inductive job_step :: "job_row list \<Rightarrow> job_row list \<Rightarrow> bool" where
  insert: "row_id \<notin> jr_id ` set t \<Longrightarrow> insert_learning_job row_id now c t = (r, t') \<Longrightarrow> job_step t t'"
| claim: "claim_queued_learning_jobs d tie ck clk limit ow tk dur t = (js, t') \<Longrightarrow> job_step t t'"
| finish: "finish_learning_job ck f t = (x, t') \<Longrightarrow> job_step t t'"
| retry: "requeue_failed_learning_job ck tenant uuid ow tk m backoff err t = (s, t') \<Longrightarrow> job_step t t'"
| renew: "renew_learning_job_lease ck tenant uuid ow tk dur t = (b, t') \<Longrightarrow> job_step t t'"
| sweep: "requeue_stale_running_learning_jobs ck n t = Some (counts, t') \<Longrightarrow> job_step t t'"

lemma inserted_job_ok: "ij_state c \<in> set job_states \<Longrightarrow> job_row_ok (inserted_job row_id now c)"
  by (simp add: job_row_ok_def inserted_job_def job_lease_shape_def)

lemma inserted_job_keys: "job_keys (inserted_job row_id now c) =
    (row_id, (ij_tenant_id c, ij_job_uuid c), (ij_tenant_id c, ij_job_type c, ij_idempotency_key c))"
  by (simp add: job_keys_def inserted_job_def)

lemma insert_cases:
  "snd (insert_learning_job row_id now c t) = t \<or>
   (snd (insert_learning_job row_id now c t) = t @ [inserted_job row_id now c] \<and>
    ij_state c \<in> set job_states \<and> \<not> list_ex (job_unique_conflict c) t)"
  by (auto simp: insert_learning_job_def split: option.splits)

lemma insert_keeps_unique:
  assumes "unique_job_keys (map job_keys t)" and "row_id \<notin> jr_id ` set t"
    and free: "\<not> list_ex (job_unique_conflict c) t"
  shows "unique_job_keys (map job_keys (t @ [inserted_job row_id now c]))"
proof -
  have n: "\<not> job_unique_conflict c r" if "r \<in> set t" for r
    using free that by (auto simp: list_ex_iff)
  have k: "(ij_tenant_id c, ij_job_uuid c) \<notin> (\<lambda>r. (lj_tenant_id r, lj_job_uuid r)) ` set t"
  proof
    assume "(ij_tenant_id c, ij_job_uuid c) \<in> (\<lambda>r. (lj_tenant_id r, lj_job_uuid r)) ` set t"
    then obtain r where "r \<in> set t" "lj_tenant_id r = ij_tenant_id c" "lj_job_uuid r = ij_job_uuid c"
      by auto
    then show False
      using n [of r] by (simp add: job_unique_conflict_def job_key_def)
  qed
  have i: "(ij_tenant_id c, ij_job_type c, ij_idempotency_key c) \<notin>
      (\<lambda>r. (lj_tenant_id r, lj_job_type r, jr_idempotency_key r)) ` set t" if "ij_idempotency_key c \<noteq> None"
    using n that by (fastforce simp: job_unique_conflict_def idempotency_hit_def sql_eq_def split: option.splits)
  have "map job_keys (t @ [inserted_job row_id now c]) = map job_keys t @
      [(row_id, (ij_tenant_id c, ij_job_uuid c), (ij_tenant_id c, ij_job_type c, ij_idempotency_key c))]"
    by (simp add: inserted_job_keys)
  then show ?thesis
    using assms(1,2) k i by (auto simp: unique_job_keys_def job_keys_def comp_def)
qed

lemma job_step_rows:
  assumes "job_step t t'" and ok: "jobs_ok t"
  shows "\<exists>u new. t' = u @ new \<and> jobs_evolve t u \<and> jobs_ok t'"
proof -
  have by_steps: ?thesis if "jobs_evolve t t'"
    using that jobs_evolve_ok [OF that ok] by (intro exI [of _ t'] exI [of _ "[]"]) simp
  show ?thesis
    using assms(1)
  proof cases
    case (insert row_id now c r)
    have t': "t' = snd (insert_learning_job row_id now c t)"
      by (simp add: insert(2))
    show ?thesis
      using insert_cases [of row_id now c t]
    proof
      assume "snd (insert_learning_job row_id now c t) = t"
      then show ?thesis using t' by_steps by simp
    next
      assume n: "snd (insert_learning_job row_id now c t) = t @ [inserted_job row_id now c] \<and>
        ij_state c \<in> set job_states \<and> \<not> list_ex (job_unique_conflict c) t"
      then have "jobs_ok t'"
        using ok insert_keeps_unique [of t row_id c now] insert(1) inserted_job_ok [of c row_id now] t'
        by (auto simp: jobs_ok_def)
      then show ?thesis
        using n t' by (intro exI [of _ t] exI [of _ "[inserted_job row_id now c]"]) simp
    qed
  next
    case (claim d tie ck clk limit ow tk dur js)
    then show ?thesis using claim_jobs_evolves [of t d tie ck clk limit ow tk dur] by_steps by simp
  next
    case (finish ck f x)
    then show ?thesis using finish_evolves [of t ck f] by_steps by simp
  next
    case (retry ck tenant uuid ow tk m backoff err s)
    then show ?thesis using retry_evolves [of t ck tenant uuid ow tk m backoff err] by_steps by simp
  next
    case (renew ck tenant uuid ow tk dur b)
    then show ?thesis using renew_job_evolves [of t ck tenant uuid ow tk dur] by_steps by simp
  next
    case (sweep ck n counts)
    then show ?thesis using job_sweep_evolves by_steps by simp
  qed
qed

interpretation job_machine: row_machine job_row_step job_keys job_row_ok open_job job_step jobs_ok
  by unfold_locales (rule job_step_rows)

lemma jobs_ok_Nil [simp]: "jobs_ok []"
  by (simp add: jobs_ok_def unique_job_keys_def)

section \<open>The lease a claim leaves\<close>

lemma claim_jobs_each_keeps: "r \<in> set t \<Longrightarrow> lj_state r \<noteq> ''queued'' \<Longrightarrow> r \<in> set (snd (claim_jobs_each clk ow tk dur rs t))"
  by (induction rs arbitrary: t) (auto simp: Let_def split_beta set_update_where)

text \<open>The row of a claimed job, seen by the worker as \<^verbatim>\<open>j\<close>.\<close>

definition claimed_as :: "native_sql_learning_job \<Rightarrow> job_row \<Rightarrow> bool" where
  "claimed_as j r \<longleftrightarrow> job_key (lj_tenant_id j) (lj_job_uuid j) r \<and> lj_state r = ''running'' \<and>
     lj_lease_owner r = lj_lease_owner j \<and> lj_lease_token r = lj_lease_token j \<and>
     lj_lease_expires_at r = lj_lease_expires_at j"

lemmas truncated = map_learning_job_row_def native_sql_learning_job.truncate_def

lemma claim_jobs_each_row:
  assumes "j \<in> set (fst (claim_jobs_each clk ow tk dur rs t))"
  shows "\<exists>r x. r \<in> set (snd (claim_jobs_each clk ow tk dur rs t)) \<and> claimed_as j r \<and>
    lj_lease_owner j = Some ow \<and> lj_lease_token j = Some tk \<and> x \<in> set rs \<and>
    lj_lease_expires_at j = Some (ck_after (clk x) (lease_seconds dur))"
  using assms
proof (induction rs arbitrary: t)
  case (Cons x rs)
  let ?p = "\<lambda>r'. same_job r' x \<and> lj_state r' = ''queued''"
  let ?f = "run_job (ck_now (clk x)) ow tk (ck_after (clk x) (lease_seconds dur)) (ck_now (clk x))"
  let ?t = "update_where ?p ?f t"
  have s: "snd (claim_jobs_each clk ow tk dur (x # rs) t) = snd (claim_jobs_each clk ow tk dur rs ?t)"
    by (simp add: Let_def split_beta)
  from Cons.prems consider (rest) "j \<in> set (fst (claim_jobs_each clk ow tk dur rs ?t))"
    | (here) "j = sqlite_claimed_job (clk x) ow tk dur x" "rows_affected ?p t \<noteq> 0"
    by (auto simp: Let_def split_beta split: if_splits)
  then show ?case
  proof cases
    case rest
    then show ?thesis
      using Cons.IH [OF rest] s by (metis list.set_intros(2))
  next
    case here
    then obtain r where r: "r \<in> set t" "same_job r x" "lj_state r = ''queued''"
      by (auto simp: rows_affected_0)
    have in': "?f r \<in> set (snd (claim_jobs_each clk ow tk dur rs ?t))"
      by (rule claim_jobs_each_keeps) (use r in \<open>auto simp: set_update_where run_job_def\<close>)
    show ?thesis
      by (rule exI [of _ "?f r"], rule exI [of _ x])
         (use here(1) r(2) in' s in \<open>simp add: claimed_as_def sqlite_claimed_job_def truncated job_key_def same_job_def run_job_def\<close>)
  qed
qed simp

lemma claimed_job_postgres:
  assumes "claim_queued_learning_jobs_postgres tie ck limit ow tk dur t = (js, t')" and "j \<in> set js"
  shows "(\<exists>r \<in> set t'. claimed_as j r) \<and> lj_lease_owner j = Some (ck_now ck) \<and> lj_lease_token j = Some ow \<and>
    lj_lease_expires_at j = Some tk"
proof -
  let ?f = "run_job (ck_now ck) (ck_now ck) ow tk (ck_after ck (lease_seconds dur))"
  obtain p where js: "js = map (\<lambda>r. map_learning_job_row (?f r)) (filter p t)" and t': "t' = update_where p ?f t"
    using assms(1) by (auto simp: claim_queued_learning_jobs_postgres_def claim_job_binds_def Let_def)
  then obtain r where r: "r \<in> set t" "p r" "j = map_learning_job_row (?f r)"
    using assms(2) by auto
  then have "?f r \<in> set t'"
    by (auto simp: t' set_update_where)
  moreover have "claimed_as j (?f r)"
    by (simp add: r(3) claimed_as_def truncated job_key_def run_job_def)
  ultimately show ?thesis
    using r(3) by (auto simp: truncated run_job_def)
qed

lemma job_key_unique:
  assumes "jobs_ok t" and "r \<in> set t" and "r' \<in> set t" and "job_key n u r" and "job_key n u r'"
  shows "r' = r"
proof -
  have "distinct (map (\<lambda>r. (lj_tenant_id r, lj_job_uuid r)) t)"
    using assms(1) by (simp add: jobs_ok_def unique_job_keys_def comp_def job_keys_def)
  then show ?thesis
    using assms(2-) by (auto simp: distinct_map job_key_def dest: inj_onD)
qed

lemma claimed_job_fence:
  assumes "jobs_ok t'" and "r \<in> set t'" and "claimed_as j r"
    and "lj_lease_owner j = Some ow" and "lj_lease_token j = Some tk" and "lj_lease_expires_at j = Some ex"
  shows "(\<exists>x \<in> set t'. job_fenced (lj_tenant_id j) (lj_job_uuid j) ow tk now x) \<longleftrightarrow> now < ex"
proof
  assume "\<exists>x \<in> set t'. job_fenced (lj_tenant_id j) (lj_job_uuid j) ow tk now x"
  then obtain x where x: "x \<in> set t'" "job_fenced (lj_tenant_id j) (lj_job_uuid j) ow tk now x"
    by blast
  then have "x = r"
    using job_key_unique [OF assms(1,2) x(1)] assms(3) by (auto simp: claimed_as_def job_fenced_def)
  then show "now < ex"
    using x(2) assms(3,6) by (auto simp: claimed_as_def job_fenced_def lease_matches_def sql_after_def)
next
  assume "now < ex"
  then have "job_fenced (lj_tenant_id j) (lj_job_uuid j) ow tk now r"
    using assms(3-6) by (simp add: claimed_as_def job_fenced_def lease_matches_def sql_eq_def sql_after_def)
  then show "\<exists>x \<in> set t'. job_fenced (lj_tenant_id j) (lj_job_uuid j) ow tk now x"
    using assms(2) by blast
qed

lemma finish_refused_iff:
  assumes ok: "jobs_ok t"
  shows "fst (finish_learning_job ck c t) = Inr None \<longleftrightarrow>
    \<not> (\<exists>r \<in> set t. job_fenced (fj_tenant_id c) (fj_job_uuid c) (fj_lease_owner c) (fj_lease_token c) (ck_now ck) r)"
proof (cases "\<exists>r \<in> set t. job_fenced (fj_tenant_id c) (fj_job_uuid c) (fj_lease_owner c) (fj_lease_token c) (ck_now ck) r")
  case True
  let ?p = "job_fenced (fj_tenant_id c) (fj_job_uuid c) (fj_lease_owner c) (fj_lease_token c) (ck_now ck)"
  let ?t' = "update_where ?p (finished_job (ck_now ck) c) t"
  obtain r where r: "r \<in> set t" "?p r"
    using True by blast
  then have "finished_job (ck_now ck) c r \<in> set ?t'" "job_key (fj_tenant_id c) (fj_job_uuid c) (finished_job (ck_now ck) c r)"
    by (auto simp: set_update_where job_fenced_def job_key_def finished_job_def job_released_def)
  then have "find (job_key (fj_tenant_id c) (fj_job_uuid c)) ?t' \<noteq> None"
    by (auto simp: find_None_iff)
  then have "retrieve_learning_job_for_tenant (fj_tenant_id c) (fj_job_uuid c) ?t' \<noteq> None"
    by (simp add: retrieve_learning_job_for_tenant_def)
  moreover have "rows_affected ?p t \<noteq> 0"
    using r by (auto simp: rows_affected_0)
  ultimately show ?thesis
    using True by (simp add: finish_learning_job_def Let_def)
next
  case False
  then have "rows_affected (job_fenced (fj_tenant_id c) (fj_job_uuid c) (fj_lease_owner c) (fj_lease_token c) (ck_now ck)) t = 0"
    by (auto simp: rows_affected_0)
  then show ?thesis
    using False by (simp add: finish_learning_job_def Let_def)
qed

end
