(* ===== verification/Sql_Placeholders.thy ===== *)
theory Sql_Placeholders
  imports Stores
begin

text \<open>
  \<^verbatim>\<open>sqlx_compat.rs\<close>: rewriting the \<^verbatim>\<open>?\<close> markers of a statement to \<^verbatim>\<open>$1\<close>, \<^verbatim>\<open>$2\<close>, .. by a lexer that knows
  quotes, comments and dollar quotes, behind a bounded cache. A statement is the list of its
  bytes; \<^verbatim>\<open>None\<close> is the panic of slicing inside a character.
\<close>

section \<open>The lexer\<close>

datatype sql_lex_state =
    Normal
  | SingleQuoted
  | DoubleQuoted
  | LineComment
  | BlockComment
  | DollarQuoted string

definition sq :: char where "sq = CHR 0x27"
definition dq :: char where "dq = CHR 0x22"
definition newline :: char where "newline = CHR 0x0A"

definition is_tag_char :: "char \<Rightarrow> bool" where
  "is_tag_char c \<longleftrightarrow>
     (let n = of_char c :: nat
      in (48 \<le> n \<and> n \<le> 57) \<or> (65 \<le> n \<and> n \<le> 90) \<or> (97 \<le> n \<and> n \<le> 122) \<or> c = CHR ''_'')"

text \<open>
  The text after a \<^verbatim>\<open>$\<close>: when it is a tag up to the next \<^verbatim>\<open>$\<close>, the whole tag and what follows it.
\<close>

definition dollar_quote_tag_end :: "string \<Rightarrow> (string \<times> string) option" where
  "dollar_quote_tag_end cs =
     (case dropWhile is_tag_char cs of
        [] \<Rightarrow> None
      | c # rest \<Rightarrow>
          if c = CHR ''$'' then Some (CHR ''$'' # takeWhile is_tag_char cs @ ''$'', rest) else None)"

text \<open>\<^verbatim>\<open>output.push(byte as char)\<close>: a byte above 127 becomes the Latin-1 character of that number.\<close>

definition push_byte :: "char \<Rightarrow> string" where
  "push_byte c =
     (let n = of_char c :: nat in if n < 128 then [c] else [char_of (192 + n div 64), char_of (128 + n mod 64)])"

text \<open>A byte \<^verbatim>\<open>10xxxxxx\<close> is inside a character.\<close>

definition char_boundary :: "char \<Rightarrow> bool" where
  "char_boundary c \<longleftrightarrow> (let n = of_char c :: nat in \<not> (128 \<le> n \<and> n < 192))"

definition emit :: "string \<Rightarrow> string option \<Rightarrow> string option" where
  "emit s r = map_option ((@) s) r"

lemma dollar_tag_shorter: "dollar_quote_tag_end cs = Some (tag, rest) \<Longrightarrow> length rest < length cs"
  using length_dropWhile_le [of is_tag_char cs]
  by (auto simp: dollar_quote_tag_end_def split: list.splits if_splits)

function number_from :: "sql_lex_state \<Rightarrow> nat \<Rightarrow> string \<Rightarrow> string option" where
  "number_from st n [] = Some []"
| "number_from Normal n (c # cs) =
     (if c = sq then emit [sq] (number_from SingleQuoted n cs)
      else if c = dq then emit [dq] (number_from DoubleQuoted n cs)
      else if starts_with (c # cs) ''--'' then emit ''--'' (number_from LineComment n (tl cs))
      else if starts_with (c # cs) ''/*'' then emit ''/*'' (number_from BlockComment n (tl cs))
      else if c = CHR ''$'' then
        (case dollar_quote_tag_end cs of
           Some (tag, rest) \<Rightarrow> emit tag (number_from (DollarQuoted tag) n rest)
         | None \<Rightarrow> emit ''$'' (number_from Normal n cs))
      else if c = CHR ''?'' \<and> \<not> starts_with cs ''|'' \<and> \<not> starts_with cs ''&'' then
        emit (CHR ''$'' # nat_text n) (number_from Normal (Suc n) cs)
      else emit (push_byte c) (number_from Normal n cs))"
| "number_from SingleQuoted n (c # cs) =
     emit (push_byte c)
       (if c = sq then
          if starts_with cs [sq] then emit [sq] (number_from SingleQuoted n (tl cs)) else number_from Normal n cs
        else number_from SingleQuoted n cs)"
| "number_from DoubleQuoted n (c # cs) =
     emit (push_byte c)
       (if c = dq then
          if starts_with cs [dq] then emit [dq] (number_from DoubleQuoted n (tl cs)) else number_from Normal n cs
        else number_from DoubleQuoted n cs)"
| "number_from LineComment n (c # cs) =
     emit (push_byte c) (number_from (if c = newline then Normal else LineComment) n cs)"
| "number_from BlockComment n (c # cs) =
     (if starts_with (c # cs) ''*/'' then emit ''*/'' (number_from Normal n (tl cs))
      else emit (push_byte c) (number_from BlockComment n cs))"
| "number_from (DollarQuoted tag) n (c # cs) =
     (if \<not> char_boundary c then None
      else if starts_with (c # cs) tag \<and> tag \<noteq> [] then
        emit tag (number_from Normal n (drop (length tag) (c # cs)))
      else emit (push_byte c) (number_from (DollarQuoted tag) n cs))"
  by pat_completeness auto
termination
  by (relation "measure (\<lambda>(st, n, s). length s)") (auto dest: dollar_tag_shorter)

definition number_placeholders :: "string \<Rightarrow> string option" where
  "number_placeholders sql = number_from Normal 1 sql"

section \<open>The cache\<close>

definition max_cached_query_shapes :: nat where
  "max_cached_query_shapes = 2048"

record normalized_sql_cache =
  nc_map :: "(string, string) hmap"
  nc_order :: "string list"

text \<open>\<^verbatim>\<open>while map.len() >= MAX\<close>: drop the oldest shape; it stops when the queue is empty.\<close>

fun evict :: "normalized_sql_cache \<Rightarrow> string list \<Rightarrow> normalized_sql_cache" where
  "evict c [] = c\<lparr>nc_order := []\<rparr>"
| "evict c (oldest # rest) =
     (if max_cached_query_shapes \<le> length (nc_map c)
      then evict (c\<lparr>nc_map := filter (\<lambda>(k, v). k \<noteq> oldest) (nc_map c)\<rparr>) rest
      else c\<lparr>nc_order := oldest # rest\<rparr>)"

definition normalized_sql :: "string \<Rightarrow> normalized_sql_cache \<Rightarrow> string option \<times> normalized_sql_cache" where
  "normalized_sql sql c =
     (case hm_get (nc_map c) sql of
        Some v \<Rightarrow> (Some v, c)
      | None \<Rightarrow>
          (case number_placeholders sql of
             None \<Rightarrow> (None, c)
           | Some v \<Rightarrow>
               let c1 = evict c (nc_order c)
               in (Some v, \<lparr>nc_map = hm_insert sql v (nc_map c1), nc_order = nc_order c1 @ [sql]\<rparr>)))"

section \<open>Statements as pieces\<close>

text \<open>
  The grammar the lexer is meant for: plain text, a marker, quoted text (its quotes doubled),
  comments and dollar quotes.
\<close>

datatype piece =
    Plain string
  | Marker
  | QuotedText string
  | QuotedName string
  | LineRemark string
  | BlockRemark string
  | DollarText string string

definition double_quotes :: "char \<Rightarrow> string \<Rightarrow> string" where
  "double_quotes q s = concat (map (\<lambda>c. if c = q then [q, q] else [c]) s)"

fun show_piece :: "piece \<Rightarrow> string" where
  "show_piece (Plain s) = s"
| "show_piece Marker = ''?''"
| "show_piece (QuotedText s) = [sq] @ double_quotes sq s @ [sq]"
| "show_piece (QuotedName s) = [dq] @ double_quotes dq s @ [dq]"
| "show_piece (LineRemark s) = ''--'' @ s @ [newline]"
| "show_piece (BlockRemark s) = ''/*'' @ s @ ''*/''"
| "show_piece (DollarText tag s) = (CHR ''$'' # tag @ ''$'') @ s @ (CHR ''$'' # tag @ ''$'')"

definition show_pieces :: "piece list \<Rightarrow> string" where
  "show_pieces ps = concat (map show_piece ps)"

text \<open>The same statement with its markers numbered from \<^verbatim>\<open>n\<close>.\<close>

fun show_numbered :: "nat \<Rightarrow> piece list \<Rightarrow> string" where
  "show_numbered n [] = []"
| "show_numbered n (Marker # ps) = CHR ''$'' # nat_text n @ show_numbered (Suc n) ps"
| "show_numbered n (p # ps) = show_piece p @ show_numbered n ps"

definition ascii_char :: "char \<Rightarrow> bool" where
  "ascii_char c \<longleftrightarrow> (of_char c :: nat) < 128"

text \<open>Plain text opens no quote or comment and has no marker, read with the text behind it.\<close>

fun plain_ok :: "string \<Rightarrow> string \<Rightarrow> bool" where
  "plain_ok [] rest \<longleftrightarrow> True"
| "plain_ok (c # cs) rest \<longleftrightarrow>
     ascii_char c \<and> c \<noteq> sq \<and> c \<noteq> dq \<and> \<not> starts_with (c # cs @ rest) ''--'' \<and> \<not> starts_with (c # cs @ rest) ''/*'' \<and>
     (c = CHR ''$'' \<longrightarrow> dollar_quote_tag_end (cs @ rest) = None) \<and>
     (c = CHR ''?'' \<longrightarrow> starts_with (cs @ rest) ''|'' \<or> starts_with (cs @ rest) ''&'') \<and> plain_ok cs rest"

text \<open>The closing tag does not begin inside the text.\<close>

fun free_of :: "string \<Rightarrow> string \<Rightarrow> bool" where
  "free_of tag [] \<longleftrightarrow> True"
| "free_of tag (c # cs) \<longleftrightarrow> \<not> starts_with (c # cs @ tag) tag \<and> free_of tag cs"

fun piece_ok :: "piece \<Rightarrow> string \<Rightarrow> bool" where
  "piece_ok (Plain s) rest \<longleftrightarrow> plain_ok s rest"
| "piece_ok Marker rest \<longleftrightarrow> \<not> starts_with rest ''|'' \<and> \<not> starts_with rest ''&''"
| "piece_ok (QuotedText s) rest \<longleftrightarrow> list_all ascii_char s \<and> \<not> starts_with rest [sq]"
| "piece_ok (QuotedName s) rest \<longleftrightarrow> list_all ascii_char s \<and> \<not> starts_with rest [dq]"
| "piece_ok (LineRemark s) rest \<longleftrightarrow> list_all ascii_char s \<and> newline \<notin> set s"
| "piece_ok (BlockRemark s) rest \<longleftrightarrow> list_all ascii_char s \<and> free_of ''*/'' s"
| "piece_ok (DollarText tag s) rest \<longleftrightarrow>
     list_all is_tag_char tag \<and> list_all ascii_char s \<and> free_of (CHR ''$'' # tag @ ''$'') s"

fun pieces_ok :: "piece list \<Rightarrow> bool" where
  "pieces_ok [] \<longleftrightarrow> True"
| "pieces_ok (p # ps) \<longleftrightarrow> piece_ok p (show_pieces ps) \<and> pieces_ok ps"

text \<open>Reading the numbered markers back, counting from \<^verbatim>\<open>n\<close>.\<close>

function unnumber :: "nat \<Rightarrow> string \<Rightarrow> string" where
  "unnumber n [] = []"
| "unnumber n (c # cs) =
     (case strip_prefix (CHR ''$'' # nat_text n) (c # cs) of
        Some rest \<Rightarrow> CHR ''?'' # unnumber (Suc n) rest
      | None \<Rightarrow> c # unnumber n cs)"
  by pat_completeness auto
termination
  by (relation "measure (\<lambda>(n, s). length s)")
     (auto simp: strip_prefix_eq split: if_splits dest!: arg_cong [of "_ # _" _ length])

section \<open>The lexer on the pieces\<close>

declare number_from.simps(2-7) [simp del]

lemma starts_with_Nil [simp]: "starts_with s []"
  by (simp add: starts_with_def)

lemma starts_with_Cons [simp]: "starts_with (c # cs) (p # ps) \<longleftrightarrow> c = p \<and> starts_with cs ps"
  by (auto simp: starts_with_def)

lemma starts_with_Nil_Cons [simp]: "\<not> starts_with [] (p # ps)"
  by (simp add: starts_with_def)

lemma starts_with_append [simp]: "starts_with (p @ r) p"
  by (simp add: starts_with_def)

lemma emit_simps [simp]: "emit s None = None" "emit s (Some r) = Some (s @ r)"
  by (simp_all add: emit_def)

lemma emit_emit [simp]: "emit s (emit u r) = emit (s @ u) r"
  by (cases r) simp_all

lemma emit_Nil [simp]: "emit [] r = r"
  by (cases r) simp_all

lemma push_ascii [simp]: "ascii_char c \<Longrightarrow> push_byte c = [c]"
  by (simp add: ascii_char_def push_byte_def)

lemma ascii_marks [simp]: "push_byte sq = [sq]" "push_byte dq = [dq]" "push_byte newline = [newline]"
  "push_byte CHR ''$'' = ''$''"
  by (simp_all add: push_byte_def sq_def dq_def newline_def)

lemma distinct_marks [simp]:
  "sq \<noteq> dq" "dq \<noteq> sq" "CHR ''$'' \<noteq> sq" "CHR ''$'' \<noteq> dq" "CHR ''?'' \<noteq> sq" "CHR ''?'' \<noteq> dq"
  "CHR ''-'' \<noteq> sq" "CHR ''-'' \<noteq> dq" "CHR ''/'' \<noteq> sq" "CHR ''/'' \<noteq> dq"
  by (simp_all add: sq_def dq_def)

lemma lex_plain: "plain_ok s rest \<Longrightarrow> number_from Normal n (s @ rest) = emit s (number_from Normal n rest)"
proof (induction s)
  case (Cons c cs)
  then show ?case
    by (auto simp: number_from.simps(2) split: option.splits)
qed simp

lemma lex_marker:
  "\<not> starts_with rest ''|'' \<Longrightarrow> \<not> starts_with rest ''&'' \<Longrightarrow>
    number_from Normal n (CHR ''?'' # rest) = emit (CHR ''$'' # nat_text n) (number_from Normal (Suc n) rest)"
  by (simp add: number_from.simps(2))

lemma lex_quoted:
  assumes "list_all ascii_char s" and "\<not> starts_with rest [sq]"
  shows "number_from SingleQuoted n (double_quotes sq s @ sq # rest) =
    emit (double_quotes sq s @ [sq]) (number_from Normal n rest)"
  using assms by (induction s) (simp_all add: double_quotes_def number_from.simps(3))

lemma lex_name:
  assumes "list_all ascii_char s" and "\<not> starts_with rest [dq]"
  shows "number_from DoubleQuoted n (double_quotes dq s @ dq # rest) =
    emit (double_quotes dq s @ [dq]) (number_from Normal n rest)"
  using assms by (induction s) (simp_all add: double_quotes_def number_from.simps(4))

lemma lex_line:
  "list_all ascii_char s \<Longrightarrow> newline \<notin> set s \<Longrightarrow>
    number_from LineComment n (s @ newline # rest) = emit (s @ [newline]) (number_from Normal n rest)"
  by (induction s) (auto simp: number_from.simps(5))

lemma starts_with_longer: "starts_with (s @ t @ r) t \<longleftrightarrow> starts_with (s @ t) t"
  by (simp add: starts_with_def)

lemma lex_block:
  "list_all ascii_char s \<Longrightarrow> free_of ''*/'' s \<Longrightarrow>
    number_from BlockComment n (s @ ''*/'' @ rest) = emit (s @ ''*/'') (number_from Normal n rest)"
proof (induction s)
  case (Cons c cs)
  have "starts_with (c # cs @ ''*/'' @ rest) ''*/'' \<longleftrightarrow> starts_with (c # cs @ ''*/'') ''*/''"
    using starts_with_longer [of "c # cs" "''*/''" rest] by simp
  then show ?case
    using Cons by (auto simp: number_from.simps(6))
qed (simp add: number_from.simps(6))

lemma ascii_boundary: "ascii_char c \<Longrightarrow> char_boundary c"
  by (simp add: ascii_char_def char_boundary_def)

lemma lex_dollar:
  assumes "list_all ascii_char s" and "free_of tag s" and "tag \<noteq> []" and "char_boundary (hd tag)"
  shows "number_from (DollarQuoted tag) n (s @ tag @ rest) = emit (s @ tag) (number_from Normal n rest)"
  using assms(1,2)
proof (induction s)
  case Nil
  obtain c cs where tag: "tag = c # cs"
    using assms(3) by (cases tag) auto
  have "starts_with (tag @ rest) tag"
    by simp
  then show ?case
    using assms(4) tag by (simp add: number_from.simps(7))
next
  case (Cons c cs)
  have "starts_with (c # cs @ tag @ rest) tag \<longleftrightarrow> starts_with (c # cs @ tag) tag"
    using starts_with_longer [of "c # cs" tag rest] by simp
  then show ?case
    using Cons ascii_boundary by (simp add: number_from.simps(7))
qed

lemma tag_end:
  assumes "list_all is_tag_char tag"
  shows "dollar_quote_tag_end (tag @ CHR ''$'' # rest) = Some (CHR ''$'' # tag @ ''$'', rest)"
proof -
  have d: "\<not> is_tag_char CHR ''$''"
    by (simp add: is_tag_char_def)
  have "dropWhile is_tag_char (tag @ CHR ''$'' # rest) = CHR ''$'' # rest"
    and "takeWhile is_tag_char (tag @ CHR ''$'' # rest) = tag"
    using assms d by (induction tag) auto
  then show ?thesis
    by (simp add: dollar_quote_tag_end_def)
qed

theorem lex_pieces: "pieces_ok ps \<Longrightarrow> number_from Normal n (show_pieces ps) = Some (show_numbered n ps)"
proof (induction ps arbitrary: n)
  case Nil
  then show ?case by (simp add: show_pieces_def)
next
  case (Cons p ps)
  let ?rest = "show_pieces ps"
  have s: "show_pieces (p # ps) = show_piece p @ ?rest"
    by (simp add: show_pieces_def)
  have IH: "number_from Normal m ?rest = Some (show_numbered m ps)" for m
    using Cons by simp
  show ?case
  proof (cases p)
    case (Plain t)
    then show ?thesis using s Cons.prems IH by (simp add: lex_plain)
  next
    case Marker
    then show ?thesis using s Cons.prems IH by (simp add: lex_marker)
  next
    case (QuotedText t)
    then show ?thesis using s Cons.prems IH by (simp add: number_from.simps(2) lex_quoted)
  next
    case (QuotedName t)
    then show ?thesis using s Cons.prems IH by (simp add: number_from.simps(2) lex_name)
  next
    case (LineRemark t)
    then show ?thesis using s Cons.prems IH by (simp add: number_from.simps(2) lex_line)
  next
    case (BlockRemark t)
    then show ?thesis
      using s Cons.prems IH lex_block [of t n ?rest] by (simp add: number_from.simps(2))
  next
    case (DollarText tag t)
    then have ok: "list_all is_tag_char tag" "list_all ascii_char t" "free_of (CHR ''$'' # tag @ ''$'') t"
      using Cons.prems by simp_all
    have "number_from Normal n (show_pieces (p # ps)) =
      emit (CHR ''$'' # tag @ ''$'') (number_from (DollarQuoted (CHR ''$'' # tag @ ''$'')) n
        (t @ (CHR ''$'' # tag @ ''$'') @ ?rest))"
      using s DollarText tag_end [OF ok(1), of "t @ (CHR ''$'' # tag @ ''$'') @ ?rest"]
      by (simp add: number_from.simps(2))
    also have "\<dots> = emit (CHR ''$'' # tag @ ''$'') (emit (t @ (CHR ''$'' # tag @ ''$'')) (number_from Normal n ?rest))"
      using lex_dollar [OF ok(2,3)] by (simp add: char_boundary_def)
    finally show ?thesis
      using IH DollarText by simp
  qed
qed

section \<open>Reading back\<close>

lemma strip_prefix_append [simp]: "strip_prefix p (p @ r) = Some r"
  by (simp add: strip_prefix_eq)

lemma unnumber_plain: "CHR ''$'' \<notin> set s \<Longrightarrow> unnumber n (s @ r) = s @ unnumber n r"
  by (induction s) auto

lemma unnumber_mark: "unnumber n (CHR ''$'' # nat_text n @ r) = CHR ''?'' # unnumber (Suc n) r"
  using strip_prefix_append [of "CHR ''$'' # nat_text n" r] by simp

theorem unnumber_numbered:
  "CHR ''$'' \<notin> set (show_pieces ps) \<Longrightarrow> unnumber n (show_numbered n ps) = show_pieces ps"
proof (induction ps arbitrary: n)
  case Nil
  then show ?case by (simp add: show_pieces_def)
next
  case (Cons p ps)
  have s: "show_pieces (p # ps) = show_piece p @ show_pieces ps"
    by (simp add: show_pieces_def)
  then have "CHR ''$'' \<notin> set (show_piece p)" and IH: "unnumber m (show_numbered m ps) = show_pieces ps" for m
    using Cons by auto
  then show ?case
    using s unnumber_plain [of "show_piece p" n "show_numbered n ps"]
    by (cases p) (simp_all add: unnumber_mark del: unnumber.simps show_piece.simps, simp_all)
qed

section \<open>The cache answers as the lexer\<close>

definition cache_ok :: "normalized_sql_cache \<Rightarrow> bool" where
  "cache_ok c \<longleftrightarrow> hm_ok (nc_map c) \<and> distinct (nc_order c) \<and> set (nc_order c) = fst ` set (nc_map c) \<and>
     length (nc_map c) \<le> max_cached_query_shapes \<and>
     (\<forall>k v. hm_get (nc_map c) k = Some v \<longrightarrow> number_placeholders k = Some v)"

text \<open>Eviction from a queue that names the entries leaves room and the rest of the entries.\<close>

lemma evict_ok:
  assumes "hm_ok (nc_map c)" and "distinct q" and "set q = fst ` set (nc_map c)"
  shows "hm_ok (nc_map (evict c q)) \<and> distinct (nc_order (evict c q)) \<and>
    set (nc_order (evict c q)) = fst ` set (nc_map (evict c q)) \<and>
    length (nc_map (evict c q)) < max_cached_query_shapes \<and> set (nc_map (evict c q)) \<subseteq> set (nc_map c)"
  using assms
proof (induction q arbitrary: c)
  case Nil
  then show ?case by (simp add: max_cached_query_shapes_def)
next
  case (Cons x q)
  let ?m = "filter (\<lambda>(k, v). k \<noteq> x) (nc_map c)"
  show ?case
  proof (cases "max_cached_query_shapes \<le> length (nc_map c)")
    case True
    have "hm_ok ?m"
      using Cons.prems(1) by (simp add: hm_ok_def distinct_map_filter)
    moreover have "set q = fst ` set ?m"
      using Cons.prems(2,3) by force
    ultimately show ?thesis
      using Cons.IH [of "c\<lparr>nc_map := ?m\<rparr>"] Cons.prems(2) True by auto
  next
    case False
    then show ?thesis
      using Cons.prems by simp
  qed
qed

lemma hm_insert_new: "hm_get m k = None \<Longrightarrow> hm_insert k v m = m @ [(k, v)]"
  unfolding hm_get_def hm_insert_def by (induction m) (auto split: if_splits)

lemma normalized_sql_ok:
  assumes "cache_ok c"
  shows "fst (normalized_sql sql c) = number_placeholders sql \<and> cache_ok (snd (normalized_sql sql c))"
proof (cases "hm_get (nc_map c) sql")
  case (Some v)
  then show ?thesis
    using assms by (simp add: normalized_sql_def cache_ok_def)
next
  case None
  show ?thesis
  proof (cases "number_placeholders sql")
    case none: None
    then show ?thesis
      using None assms by (simp add: normalized_sql_def)
  next
    case (Some v)
    let ?c = "evict c (nc_order c)"
    have e: "hm_ok (nc_map ?c)" "distinct (nc_order ?c)" "set (nc_order ?c) = fst ` set (nc_map ?c)"
      "length (nc_map ?c) < max_cached_query_shapes" "set (nc_map ?c) \<subseteq> set (nc_map c)"
      using evict_ok [of c "nc_order c"] assms by (auto simp: cache_ok_def)
    have "sql \<notin> fst ` set (nc_map c)"
      using None by (simp add: hm_get_def map_of_eq_None_iff)
    then have new: "sql \<notin> fst ` set (nc_map ?c)"
      using e(5) by blast
    then have "hm_insert sql v (nc_map ?c) = nc_map ?c @ [(sql, v)]"
      by (intro hm_insert_new) (simp add: hm_get_def map_of_eq_None_iff)
    then have shape: "length (hm_insert sql v (nc_map ?c)) = Suc (length (nc_map ?c))"
      "fst ` set (hm_insert sql v (nc_map ?c)) = insert sql (fst ` set (nc_map ?c))"
      by simp_all
    have "number_placeholders k = Some w" if "hm_get (nc_map ?c) k = Some w" for k w
    proof -
      have "hm_get (nc_map c) k = Some w"
        using that e(1,5) assms by (auto simp: hm_get_in cache_ok_def)
      then show ?thesis
        using assms by (simp add: cache_ok_def)
    qed
    then have "cache_ok \<lparr>nc_map = hm_insert sql v (nc_map ?c), nc_order = nc_order ?c @ [sql]\<rparr>"
      using e(2-4) new Some hm_ok_insert [OF e(1), of sql v] shape by (auto simp: cache_ok_def)
    then show ?thesis
      using None Some by (simp add: normalized_sql_def Let_def)
  qed
qed

end
