(* ===== verification/Queue_Properties.thy ===== *)
theory Queue_Properties
  imports Outbox_Publisher Job_Laws Sql_Placeholders
begin

text \<open>
  The properties of the queues of the native SQL store and of its statement rewriting, each
  with a concrete run where it has a hypothesis.
\<close>

section \<open>Sample tables\<close>

definition sample_clock :: "string \<Rightarrow> string \<Rightarrow> clock" where
  "sample_clock now later = \<lparr>ck_now = now, ck_after = (\<lambda>_. later)\<rparr>"

definition sample_event :: append_outbox_event_command where
  "sample_event =
     \<lparr>ae_scope = tenant_scope 7, ae_outbox_id = ''e1'', ae_aggregate_type = ''record'', ae_aggregate_id = ''m1'',
      ae_event_type = ''created'', ae_event_version = ''1'', ae_payload_json = ''{}''\<rparr>"

definition sample_outbox :: "outbox_row list" where
  "sample_outbox = snd (append_outbox_event (\<lambda>_. True) (Some 1) ''100'' ''100'' sample_event [] [])"

definition sample_claimed :: "outbox_row list" where
  "sample_claimed = snd (claim_global_pending_outbox_events Sqlite (sample_clock ''200'' ''300'') 5 ''w'' ''t'' 30 sample_outbox)"

lemma sample_outbox_reachable: "reachable_outbox sample_outbox"
  unfolding reachable_outbox_def sample_outbox_def
  by (rule r_into_rtranclp) (rule outbox_step.append, simp)

lemma sample_claim_step: "outbox_step sample_outbox sample_claimed"
  unfolding sample_claimed_def by (rule outbox_step.claim)

lemma sample_claimed_reachable: "reachable_outbox sample_claimed"
  using sample_outbox_reachable sample_claim_step
  by (auto simp: reachable_outbox_def intro: rtranclp.rtrancl_into_rtrancl)

section \<open>The outbox\<close>



text \<open>
  C14. The two ways to claim agree. From any reachable table the PostgreSQL statement and the
  SQLite loop leave the same table and report the same events; they take as many events as the
  limit (at least one) and the due ones allow, the oldest first, and the caller then holds the
  lease of each.
\<close>

theorem outbox_claim_same_in_both_dialects:
  assumes "reachable_outbox t"
    and "claim_global_pending_outbox_events Postgres ck limit ow tk dur t = (es, t1)"
    and "claim_global_pending_outbox_events Sqlite ck limit ow tk dur t = (fs, t2)"
  shows "t1 = t2 \<and> mset es = mset fs \<and>
    length fs = min (max limit 1) (length (filter (claimable (ck_now ck)) t)) \<and>
    (\<forall>x \<in> set t. \<forall>r \<in> set t. x \<notin> set t2 \<longrightarrow> r \<in> set t2 \<longrightarrow> claimable (ck_now ck) r \<longrightarrow> outbox_order x \<le> outbox_order r) \<and>
    (clock_ok ck \<longrightarrow>
      (\<forall>e \<in> set fs. \<exists>r \<in> set t2. fenced (so_tenant_id e) (no_outbox_id (so_outbox e)) ow tk (ck_now ck) r))"
proof (intro conjI ballI impI)
  have ok: "outbox_ok t"
    by (rule reachable_ok [OF assms(1)])
  let ?cs = "claim_candidates (ck_now ck) limit t" and ?ex = "ck_after ck (lease_seconds dur)"
  note c1 = claim_exact [OF ok assms(2)] and c2 = claim_exact [OF ok assms(3)]
  show "t1 = t2" and "mset es = mset fs"
    using c1 c2 by simp_all
  have n: "length fs = length ?cs"
    using c2(2) by (metis length_map size_mset)
  then show "length fs = min (max limit 1) (length (filter (claimable (ck_now ck)) t))"
    by (simp add: claim_candidates_def length_top_by min.commute)
  {
    fix x r
    assume x: "x \<in> set t" "x \<notin> set t2" and r: "r \<in> set t" "r \<in> set t2" "claimable (ck_now ck) r"
    have "x \<in> set ?cs"
      using x c2(1) by (auto simp: set_update_where claimed_rows_def)
    moreover have "r \<notin> set ?cs"
    proof
      assume "r \<in> set ?cs"
      then obtain y where y: "y \<in> set t" "r = lease_row ow tk ?ex (ck_now ck) y" "claimed_rows (ck_now ck) limit t y"
        using r(2) c2(1) by (auto simp: set_update_where claimed_rows_def)
      then show False
        using r(3) by (simp add: claimable_def lease_row_def)
    qed
    ultimately show "outbox_order x \<le> outbox_order r"
      using top_by_dropped [of r "filter (claimable (ck_now ck)) t" outbox_order "max limit 1" x] r(1,3)
      by (simp add: claim_candidates_def)
  }
  fix e
  assume ck: "clock_ok ck" and "e \<in> set fs"
  then obtain r where r: "r \<in> set ?cs" "e = claim_result ck ow tk dur r"
    using c2(2) by (metis (no_types, lifting) in_set_conv_nth length_map mset_eq_setD nth_map)
  then have "lease_row ow tk ?ex (ck_now ck) r \<in> set t2"
    using c2(1) candidates_claimable [OF r(1)] by (auto simp: set_update_where claimed_rows_def)
  moreover have "fenced (so_tenant_id e) (no_outbox_id (so_outbox e)) ow tk (ck_now ck) (lease_row ow tk ?ex (ck_now ck) r)"
    using lease_matches_fresh [OF ck, of ow tk dur] r(2)
    by (simp add: fenced_def outbox_key_def holds_lease_def scoped_event_def native_event_def lease_row_def)
  ultimately show "\<exists>r \<in> set t2. fenced (so_tenant_id e) (no_outbox_id (so_outbox e)) ow tk (ck_now ck) r"
    by blast
qed

theorem outbox_claim_same_in_both_dialects_witness:
  "snd (claim_global_pending_outbox_events Postgres (sample_clock ''200'' ''300'') 5 ''w'' ''t'' 30 sample_outbox) =
     sample_claimed \<and>
   length (fst (claim_global_pending_outbox_events Sqlite (sample_clock ''200'' ''300'') 5 ''w'' ''t'' 30 sample_outbox)) = 1"
proof -
  have one: "length (filter (claimable (ck_now (sample_clock ''200'' ''300''))) sample_outbox) = 1"
    by code_simp
  show ?thesis
    using outbox_claim_same_in_both_dialects [OF sample_outbox_reachable
        prod.collapse [symmetric, of "claim_global_pending_outbox_events Postgres (sample_clock ''200'' ''300'') 5 ''w'' ''t'' 30 sample_outbox"]
        prod.collapse [symmetric, of "claim_global_pending_outbox_events Sqlite (sample_clock ''200'' ''300'') 5 ''w'' ''t'' 30 sample_outbox"]]
      one by (simp add: sample_claimed_def)
qed

text \<open>
  C18. Deliveries are fenced. An acknowledgement or a reported failure takes effect exactly when
  the event is being processed under the caller's unexpired lease; then it changes that one
  row, and otherwise nothing. So two workers with different leases never both succeed, and
  after an acknowledgement no result for the event is accepted any more.
\<close>

theorem outbox_delivery_fenced:
  assumes "reachable_outbox t"
  shows "((\<exists>r \<in> set t. fenced tenant uuid ow tk (ck_now ck) r \<and>
        ack_outbox_delivery_success ck tenant uuid ow tk t =
          (Some (native_event (published_row (ck_now ck) r)), replace_row r (published_row (ck_now ck) r) t)) \<or>
      (\<forall>r \<in> set t. \<not> fenced tenant uuid ow tk (ck_now ck) r) \<and>
        ack_outbox_delivery_success ck tenant uuid ow tk t = (None, t)) \<and>
    ((\<exists>r \<in> set t. fenced tenant uuid ow tk (ck_now ck) r \<and>
        record_outbox_delivery_failure ck tenant uuid ow tk m t =
          (Some (native_event (failed_row ck m (saturating_succ (or_retry_count r)) r)),
           replace_row r (failed_row ck m (saturating_succ (or_retry_count r)) r) t)) \<or>
      (\<forall>r \<in> set t. \<not> fenced tenant uuid ow tk (ck_now ck) r) \<and>
        record_outbox_delivery_failure ck tenant uuid ow tk m t = (None, t)) \<and>
    (fst (ack_outbox_delivery_success ck tenant uuid ow tk t) \<noteq> None \<longrightarrow>
      (fst (ack_outbox_delivery_success ck' tenant uuid ow' tk' t) \<noteq> None \<longrightarrow> ow' = ow \<and> tk' = tk) \<and>
      fst (ack_outbox_delivery_success ck' tenant uuid ow' tk'
        (snd (ack_outbox_delivery_success ck tenant uuid ow tk t))) = None)"
proof (intro conjI impI)
  have ok: "outbox_ok t"
    by (rule reachable_ok [OF assms])
  note ack = ack_exact [OF ok, of tenant uuid]
  show "(\<exists>r \<in> set t. fenced tenant uuid ow tk (ck_now ck) r \<and>
        ack_outbox_delivery_success ck tenant uuid ow tk t =
          (Some (native_event (published_row (ck_now ck) r)), replace_row r (published_row (ck_now ck) r) t)) \<or>
      (\<forall>r \<in> set t. \<not> fenced tenant uuid ow tk (ck_now ck) r) \<and>
        ack_outbox_delivery_success ck tenant uuid ow tk t = (None, t)"
    by (rule ack)
  show "(\<exists>r \<in> set t. fenced tenant uuid ow tk (ck_now ck) r \<and>
        record_outbox_delivery_failure ck tenant uuid ow tk m t =
          (Some (native_event (failed_row ck m (saturating_succ (or_retry_count r)) r)),
           replace_row r (failed_row ck m (saturating_succ (or_retry_count r)) r) t)) \<or>
      (\<forall>r \<in> set t. \<not> fenced tenant uuid ow tk (ck_now ck) r) \<and>
        record_outbox_delivery_failure ck tenant uuid ow tk m t = (None, t)"
    by (rule record_failure_exact [OF ok])
  assume "fst (ack_outbox_delivery_success ck tenant uuid ow tk t) \<noteq> None"
  then obtain r where r: "r \<in> set t" "fenced tenant uuid ow tk (ck_now ck) r"
    "snd (ack_outbox_delivery_success ck tenant uuid ow tk t) = replace_row r (published_row (ck_now ck) r) t"
    using ack [of ow tk ck] by auto
  show "ow' = ow" and "tk' = tk" if s: "fst (ack_outbox_delivery_success ck' tenant uuid ow' tk' t) \<noteq> None"
  proof -
    obtain r' where "r' \<in> set t" "fenced tenant uuid ow' tk' (ck_now ck') r'"
      using ack [of ow' tk' ck'] s by auto
    then have "fenced tenant uuid ow' tk' (ck_now ck') r"
      using fenced_unique [OF ok r(1) _ r(2)] by (auto simp: fenced_def)
    then show "ow' = ow" and "tk' = tk"
      using r(2) by (auto simp: fenced_def holds_lease_def dest: lease_matches_unique)
  qed
  let ?t' = "replace_row r (published_row (ck_now ck) r) t"
  have "\<not> fenced tenant uuid ow' tk' (ck_now ck') x" if "x \<in> set ?t'" for x
  proof -
    from that consider "x = published_row (ck_now ck) r" | "x \<in> set t" "x \<noteq> r"
      by (auto simp: replace_row_def split: if_splits)
    then show ?thesis
      using fenced_unique [OF ok r(1) _ r(2), of x]
      by cases (auto simp: fenced_def published_row_def)
  qed
  then have "rows_affected (fenced tenant uuid ow' tk' (ck_now ck')) ?t' = 0"
    by (simp add: rows_affected_0)
  then show "fst (ack_outbox_delivery_success ck' tenant uuid ow' tk'
      (snd (ack_outbox_delivery_success ck tenant uuid ow tk t))) = None"
    unfolding r(3) by (simp add: ack_outbox_delivery_success_def Let_def)
qed

theorem outbox_delivery_fenced_witness:
  "fst (ack_outbox_delivery_success (sample_clock ''250'' ''350'') 7 ''e1'' ''w'' ''t'' sample_claimed) \<noteq> None \<and>
   fst (ack_outbox_delivery_success (sample_clock ''260'' ''360'') 7 ''e1'' ''w'' ''t''
     (snd (ack_outbox_delivery_success (sample_clock ''250'' ''350'') 7 ''e1'' ''w'' ''t'' sample_claimed))) = None"
proof -
  have "fst (ack_outbox_delivery_success (sample_clock ''250'' ''350'') 7 ''e1'' ''w'' ''t'' sample_claimed) \<noteq> None"
    by code_simp
  then show ?thesis
    using outbox_delivery_fenced [OF sample_claimed_reachable] by blast
qed

section \<open>The publisher\<close>






section \<open>Sweeps\<close>


end
