(* ===== verification/Job_Properties.thy ===== *)
theory Job_Properties
  imports Job_Laws Sql_Placeholders
begin

text \<open>
  The properties of the learning job queue and of the placeholder rewriting, each with a
  concrete run where it has a hypothesis.
\<close>

section \<open>Sample tables\<close>

definition job_clock :: "string \<Rightarrow> string \<Rightarrow> clock" where
  "job_clock now later = \<lparr>ck_now = now, ck_after = (\<lambda>_. later)\<rparr>"

definition sample_job :: insert_learning_job_command where
  "sample_job =
     \<lparr>ij_tenant_id = 7, ij_job_uuid = ''j1'', ij_space_id = Some 2, ij_job_type = ''extract'', ij_state = ''queued'',
      ij_priority = 0, ij_idempotency_key = Some ''k'', ij_input_json = Some ''{}''\<rparr>"

definition sample_jobs :: "job_row list" where
  "sample_jobs = snd (insert_learning_job 1 ''100'' sample_job [])"

definition sample_running :: "job_row list" where
  "sample_running = snd (claim_queued_learning_jobs Postgres (\<lambda>_. 0) (job_clock ''200'' ''300'') (\<lambda>_. job_clock ''200'' ''300'')
     5 ''w'' ''150'' 30 sample_jobs)"

lemma sample_jobs_step: "job_step [] sample_jobs"
  unfolding sample_jobs_def by (rule job_step.insert [where row_id = 1], simp, rule prod.collapse [symmetric])

lemma sample_running_step: "job_step sample_jobs sample_running"
  unfolding sample_running_def by (rule job_step.claim, rule prod.collapse [symmetric])

lemma sample_jobs_reachable: "job_step\<^sup>*\<^sup>* [] sample_jobs"
  using sample_jobs_step by simp

section \<open>Learning jobs\<close>

text \<open>
  C29. The job table keeps its schema. Whatever is inserted, claimed, finished, retried, renewed or
  swept, the primary key and both unique keys stay unique, every state is one the schema
  allows, attempts are counted from zero, and lease columns are set together and only on a
  running job; and a job that has succeeded, failed or died never changes again.
\<close>

theorem job_schema_kept:
  assumes "job_step\<^sup>*\<^sup>* [] t" and "job_step\<^sup>*\<^sup>* t t'"
  shows "jobs_ok t' \<and> (\<forall>r \<in> set t. lj_state r \<in> {''succeeded'', ''failed'', ''dead''} \<longrightarrow> r \<in> set t')"
proof -
  have ok: "jobs_ok t"
    using job_machine.runs_keep_fine [OF assms(1)] by simp
  have "\<not> open_job r" if "lj_state r \<in> {''succeeded'', ''failed'', ''dead''}" for r
    using that by (auto simp: open_job_def)
  then show ?thesis
    using job_machine.runs_keep_fine [OF assms(2) ok] job_machine.runs_keep_closed [OF assms(2) ok] by blast
qed

theorem job_schema_kept_witness: "jobs_ok sample_running"
  using job_schema_kept [OF sample_jobs_reachable r_into_rtranclp [of job_step, OF sample_running_step]] by blast

text \<open>
  C34. How long a claim lasts. A worker that finishes a job with the lease its claim returned
  is refused exactly when that lease has run out. On SQLite it runs out at the time the lease
  duration gives. On PostgreSQL the claim binds the clock twice, so the returned owner is
  the clock, the returned token is the worker's name, and the lease runs out when the clock, as
  text, reaches the lease token.
\<close>

theorem claimed_job_lease:
  assumes "job_step\<^sup>*\<^sup>* [] t"
    and claim: "claim_queued_learning_jobs d tie ck clk limit ow tk dur t = (js, t')" and j: "j \<in> set js"
    and "fj_tenant_id c = lj_tenant_id j" and "fj_job_uuid c = lj_job_uuid j"
    and "Some (fj_lease_owner c) = lj_lease_owner j" and "Some (fj_lease_token c) = lj_lease_token j"
  shows "case d of
      Sqlite \<Rightarrow> \<exists>x \<in> set t. job_claimable (ck_now ck) x \<and> fj_lease_owner c = ow \<and> fj_lease_token c = tk \<and>
        (fst (finish_learning_job ck' c t') = Inr None \<longleftrightarrow> ck_after (clk x) (lease_seconds dur) \<le> ck_now ck')
    | Postgres \<Rightarrow> fj_lease_owner c = ck_now ck \<and> fj_lease_token c = ow \<and>
        (fst (finish_learning_job ck' c t') = Inr None \<longleftrightarrow> tk \<le> ck_now ck')"
proof -
  have ok: "jobs_ok t'"
    using job_schema_kept [OF assms(1) r_into_rtranclp [of job_step, OF job_step.claim [OF claim]]] by blast
  have refused: "fst (finish_learning_job ck' c t') = Inr None \<longleftrightarrow> ex \<le> ck_now ck'"
    if "r \<in> set t'" "claimed_as j r" "lj_lease_expires_at j = Some ex" for r ex
    using claimed_job_fence [OF ok that(1,2) assms(6) [symmetric] assms(7) [symmetric] that(3)]
    by (simp add: finish_refused_iff [OF ok] assms(4,5) not_less)
  show ?thesis
  proof (cases d)
    case Sqlite
    then have c: "claim_jobs_each clk ow tk dur (job_candidates tie (ck_now ck) limit t) t = (js, t')"
      using claim by (simp add: claim_queued_learning_jobs_def claim_queued_learning_jobs_sqlite_def)
    obtain r x where r: "r \<in> set t'" "claimed_as j r" "lj_lease_owner j = Some ow" "lj_lease_token j = Some tk"
      and x: "x \<in> set (job_candidates tie (ck_now ck) limit t)"
      and e: "lj_lease_expires_at j = Some (ck_after (clk x) (lease_seconds dur))"
      using claim_jobs_each_row [of j clk ow tk dur "job_candidates tie (ck_now ck) limit t" t] j c by auto
    have "x \<in> set t \<and> job_claimable (ck_now ck) x"
      using x set_top_by [of "job_order tie" "nat (max limit 1)" "filter (job_claimable (ck_now ck)) t"]
      by (auto simp: job_candidates_def)
    then show ?thesis
      using Sqlite refused [OF r(1,2) e] r(3,4) assms(6,7) by auto
  next
    case Postgres
    then have c: "claim_queued_learning_jobs_postgres tie ck limit ow tk dur t = (js, t')"
      using claim by (simp add: claim_queued_learning_jobs_def)
    obtain r where r: "r \<in> set t'" "claimed_as j r" "lj_lease_owner j = Some (ck_now ck)" "lj_lease_token j = Some ow"
      and e: "lj_lease_expires_at j = Some tk"
      using claimed_job_postgres [OF c j] by blast
    then show ?thesis
      using Postgres refused [OF r(1,2) e] assms(6,7) by simp
  qed
qed

definition sample_finish :: finish_learning_job_command where
  "sample_finish =
     \<lparr>fj_tenant_id = 7, fj_job_uuid = ''j1'', fj_lease_owner = ''200'', fj_lease_token = ''w'', fj_state = ''succeeded'',
      fj_result_json = None, fj_error_json = None\<rparr>"

text \<open>The token \<^verbatim>\<open>150\<close> sorts before the clock \<^verbatim>\<open>210\<close>, so the claim of \<^verbatim>\<open>200\<close> is lost at once.\<close>

theorem claimed_job_lease_witness:
  "fst (finish_learning_job (job_clock ''210'' ''310'') sample_finish sample_running) = Inr None"
proof -
  let ?claim = "claim_queued_learning_jobs Postgres (\<lambda>_. 0) (job_clock ''200'' ''300'') (\<lambda>_. job_clock ''200'' ''300'')
     5 ''w'' ''150'' 30 sample_jobs"
  have one: "length (fst ?claim) = 1"
    by code_simp
  then have j: "hd (fst ?claim) \<in> set (fst ?claim)"
    by (cases "fst ?claim") auto
  have c: "fj_tenant_id sample_finish = lj_tenant_id (hd (fst ?claim)) \<and>
      fj_job_uuid sample_finish = lj_job_uuid (hd (fst ?claim)) \<and>
      Some (fj_lease_owner sample_finish) = lj_lease_owner (hd (fst ?claim)) \<and>
      Some (fj_lease_token sample_finish) = lj_lease_token (hd (fst ?claim))"
    by code_simp
  have "''150'' \<le> ck_now (job_clock ''210'' ''310'')"
    by code_simp
  then show ?thesis
    using claimed_job_lease [OF sample_jobs_reachable prod.collapse [symmetric, of ?claim] j, of sample_finish
        "job_clock ''210'' ''310''"] c
    by (simp add: sample_running_def)
qed

section \<open>Placeholders\<close>




end
