(* ===== verification/F64_Ops.thy ===== *)
theory F64_Ops
  imports F64
begin

text \<open>
  The rest of the IEEE-754 arithmetic the ranking code uses: addition, multiplication,
  division, negation, minimum, clamping and conversion from integers, on the values of
  \<^verbatim>\<open>F64\<close>, each rounded to nearest even; the order of values as an integer key; and the
  monotonicity of rounding as bounds on quotients.
\<close>

section \<open>Operations\<close>

fun f64_neg :: "f64 \<Rightarrow> f64" where
  "f64_neg (F64Fin s m) = F64Fin (\<not> s) m"
| "f64_neg (F64Inf s) = F64Inf (\<not> s)"
| "f64_neg F64NaN = F64NaN"

fun f64_add :: "f64 \<Rightarrow> f64 \<Rightarrow> f64" where
  "f64_add (F64Fin s m) (F64Fin t n) =
     (let d = f64_int s m + f64_int t n
      in if d = 0 then F64Fin (m = 0 \<and> s \<and> t) 0 else f64_round (d < 0) (nat \<bar>d\<bar>) 1)"
| "f64_add (F64Fin s m) (F64Inf t) = F64Inf t"
| "f64_add (F64Inf s) (F64Fin t n) = F64Inf s"
| "f64_add (F64Inf s) (F64Inf t) = (if s = t then F64Inf s else F64NaN)"
| "f64_add _ _ = F64NaN"

fun f64_mul :: "f64 \<Rightarrow> f64 \<Rightarrow> f64" where
  "f64_mul (F64Fin s m) (F64Fin t n) = f64_round (s \<noteq> t) (m * n) (2 ^ 1074)"
| "f64_mul (F64Fin s m) (F64Inf t) = (if m = 0 then F64NaN else F64Inf (s \<noteq> t))"
| "f64_mul (F64Inf s) (F64Fin t n) = (if n = 0 then F64NaN else F64Inf (s \<noteq> t))"
| "f64_mul (F64Inf s) (F64Inf t) = F64Inf (s \<noteq> t)"
| "f64_mul _ _ = F64NaN"

fun f64_div :: "f64 \<Rightarrow> f64 \<Rightarrow> f64" where
  "f64_div (F64Fin s m) (F64Fin t n) =
     (if n = 0 then (if m = 0 then F64NaN else F64Inf (s \<noteq> t))
      else f64_round (s \<noteq> t) (m * 2 ^ 1074) n)"
| "f64_div (F64Fin s m) (F64Inf t) = F64Fin (s \<noteq> t) 0"
| "f64_div (F64Inf s) (F64Fin t n) = F64Inf (s \<noteq> t)"
| "f64_div _ _ = F64NaN"

text \<open>\<^verbatim>\<open>n as f64\<close> for an unsigned integer.\<close>

definition f64_of_nat :: "nat \<Rightarrow> f64" where
  "f64_of_nat n = f64_round False (n * 2 ^ 1074) 1"

text \<open>\<^verbatim>\<open>f64::min\<close>: the other operand when one is NaN.\<close>

definition f64_min :: "f64 \<Rightarrow> f64 \<Rightarrow> f64" where
  "f64_min x y = (if x = F64NaN then y else if y = F64NaN then x
     else if f64_lt y x then y else x)"

text \<open>\<^verbatim>\<open>x.clamp(lo, hi)\<close>; a NaN stays.\<close>

definition f64_clamp :: "f64 \<Rightarrow> f64 \<Rightarrow> f64 \<Rightarrow> f64" where
  "f64_clamp lo hi x = (if f64_lt x lo then lo else if f64_lt hi x then hi else x)"

text \<open>\<^verbatim>\<open>x == y\<close>.\<close>

definition f64_eq :: "f64 \<Rightarrow> f64 \<Rightarrow> bool" where
  "f64_eq x y \<longleftrightarrow> f64_le x y \<and> f64_le y x"

text \<open>A decimal literal of the source with the digits \<open>n\<close> and \<open>k\<close> of them after the point.\<close>

definition f64_lit :: "nat \<Rightarrow> nat \<Rightarrow> f64" where
  "f64_lit n k = f64_round False (n * 2 ^ 1074) (10 ^ k)"

lemma f64_add_ok: "f64_ok (f64_add x y)"
  by (cases "(x, y)" rule: f64_add.cases) (auto simp: Let_def f64_round_ok)

lemma f64_mul_ok: "f64_ok (f64_mul x y)"
  by (cases "(x, y)" rule: f64_mul.cases) (auto simp: f64_round_ok)

lemma f64_div_ok: "f64_ok (f64_div x y)"
  by (cases "(x, y)" rule: f64_div.cases) (auto simp: f64_round_ok)

lemma f64_lit_ok: "f64_ok (f64_lit n k)"
  by (simp add: f64_lit_def f64_round_ok)

lemma f64_of_nat_ok: "f64_ok (f64_of_nat n)"
  by (simp add: f64_of_nat_def f64_round_ok)

lemma f64_min_ok: "f64_ok x \<Longrightarrow> f64_ok y \<Longrightarrow> f64_ok (f64_min x y)"
  by (simp add: f64_min_def)

lemma f64_min_le: "f64_le (f64_min x y) y \<or> x = F64NaN \<or> y = F64NaN"
  by (cases x; cases y) (auto simp: f64_min_def)

section \<open>The order as a key\<close>

text \<open>An integer that orders the representable values other than NaN; both zeros have key 0.\<close>

fun f64_key :: "f64 \<Rightarrow> int" where
  "f64_key (F64Fin s m) = f64_int s m"
| "f64_key (F64Inf s) = (if s then - int f64_limit else int f64_limit)"
| "f64_key F64NaN = 0"

definition f64_num :: "f64 \<Rightarrow> bool" where
  "f64_num x \<longleftrightarrow> f64_ok x \<and> x \<noteq> F64NaN"

lemma f64_lt_key: "f64_num x \<Longrightarrow> f64_num y \<Longrightarrow> f64_lt x y \<longleftrightarrow> f64_key x < f64_key y"
  by (cases x; cases y) (auto simp: f64_num_def mag_ok_def f64_limit_def)

lemma f64_le_key: "f64_num x \<Longrightarrow> f64_num y \<Longrightarrow> f64_le x y \<longleftrightarrow> f64_key x \<le> f64_key y"
  by (cases x; cases y) (auto simp: f64_num_def mag_ok_def f64_limit_def)

lemma f64_key_inject:
  "f64_num x \<Longrightarrow> f64_num y \<Longrightarrow> 0 < f64_key x \<Longrightarrow> f64_key x = f64_key y \<longleftrightarrow> x = y"
  by (cases x; cases y) (auto simp: f64_num_def mag_ok_def f64_limit_def split: if_splits)

lemma f64_limit_pos: "0 < f64_limit" "f64_limit \<noteq> 0"
  by (simp_all add: f64_limit_def)

lemma f64_one_num: "f64_num f64_one"
proof -
  have "bit_len (2 ^ 1074) \<le> 1075"
    by (rule bit_len_le) (simp add: power_strict_increasing)
  then have "mag_ok (2 ^ 1074)"
    unfolding mag_ok_def f64_limit_def by (intro conjI le_imp_power_dvd power_strict_increasing) simp_all
  then show ?thesis by (simp add: f64_num_def f64_one_def)
qed

lemma f64_one_mag: "mag_ok (2 ^ 1074)"
  using f64_one_num by (simp add: f64_num_def f64_one_def)

lemma f64_one_key: "f64_key f64_one = 2 ^ 1074"
  by (simp add: f64_one_def)

section \<open>Bounds of rounded quotients\<close>

lemma round_ratio_0 [simp]: "round_ratio 0 d = 0"
  by (cases "d = 0") (simp_all add: round_ratio_def round_even_div_def)

lemma round_ratio_le_quotient:
  assumes "n \<le> m * d" and "mag_ok m" and "0 < d"
  shows "round_ratio n d \<le> m"
proof -
  let ?s = "bit_len (n div d) - 53"
  have "n div d \<le> m"
    using assms by (metis div_le_mono nonzero_mult_div_cancel_right not_gr0)
  then have "2 ^ ?s dvd (2::nat) ^ (bit_len m - 53)"
    using bit_len_mono [of "n div d" m] by (simp add: le_imp_power_dvd diff_le_mono)
  then have "2 ^ ?s dvd m"
    using assms(2) dvd_trans unfolding mag_ok_def by blast
  then obtain k where k: "m = k * 2 ^ ?s"
    by (metis dvdE mult.commute)
  then have "round_even_div n (d * 2 ^ ?s) \<le> k"
    using assms(1,3) by (intro round_even_div_le) (auto simp: ac_simps)
  then show ?thesis by (simp add: round_ratio_def Let_def k)
qed

lemma round_ratio_ge_quotient:
  assumes "m * d \<le> n" and "mag_ok m" and "0 < d"
  shows "m \<le> round_ratio n d"
proof -
  let ?s = "bit_len (n div d) - 53"
  have ge: "m \<le> n div d"
    using assms by (simp add: less_eq_div_iff_mult_less_eq)
  show ?thesis
  proof (cases "2 ^ ?s dvd m")
    case True
    then obtain k where k: "m = k * 2 ^ ?s"
      by (metis dvdE mult.commute)
    then have "k \<le> round_even_div n (d * 2 ^ ?s)"
      using assms(1,3) by (intro round_even_div_ge) (auto simp: ac_simps)
    then show ?thesis by (simp add: round_ratio_def Let_def k)
  next
    case False
    have less: "bit_len m < bit_len (n div d)"
    proof (rule ccontr)
      assume "\<not> ?thesis"
      then have "2 ^ ?s dvd (2::nat) ^ (bit_len m - 53)"
        by (simp add: le_imp_power_dvd diff_le_mono)
      then show False
        using False assms(2) dvd_trans unfolding mag_ok_def by blast
    qed
    have s: "0 < ?s"
      using False by (cases "?s = 0") auto
    have "m < 2 ^ bit_len m" by (rule bit_len_upper)
    also have "\<dots> \<le> 2 ^ (52 + ?s)"
      using less s by (intro power_increasing) auto
    finally have m: "m \<le> 2 ^ 52 * 2 ^ ?s" by (simp add: power_add)
    have "\<not> n div d < 2 ^ (bit_len (n div d) - 1)"
      using bit_len_le [of "n div d" "bit_len (n div d) - 1"] s by auto
    then have "2 ^ (52 + ?s) \<le> n div d"
      using s by (simp add: not_less)
    then have "2 ^ 52 * (d * 2 ^ ?s) \<le> n"
      using assms(3) by (simp add: less_eq_div_iff_mult_less_eq power_add ac_simps)
    then have "2 ^ 52 \<le> round_even_div n (d * 2 ^ ?s)"
      using assms(3) by (intro round_even_div_ge) auto
    then have "2 ^ 52 * 2 ^ ?s \<le> round_ratio n d"
      by (simp add: round_ratio_def Let_def)
    with m show ?thesis by (rule order_trans)
  qed
qed

lemma f64_lit_pos:
  assumes "10 ^ k \<le> n"
  shows "0 < f64_key (f64_lit n k)"
proof -
  have "2 ^ 1074 * 10 ^ k \<le> n * 2 ^ 1074"
    using assms by simp
  then have "2 ^ 1074 \<le> round_ratio (n * 2 ^ 1074) (10 ^ k)"
    using f64_one_mag by (intro round_ratio_ge_quotient) simp_all
  then have "0 < round_ratio (n * 2 ^ 1074) (10 ^ k)"
    by (rule less_le_trans [rotated]) simp
  then show ?thesis
    by (simp add: f64_lit_def f64_round_def Let_def f64_limit_pos)
qed

section \<open>Sums and quotients that stay numbers\<close>

definition f64_nonneg :: "f64 \<Rightarrow> bool" where
  "f64_nonneg x \<longleftrightarrow> f64_num x \<and> 0 \<le> f64_key x"

lemma f64_round_nonneg: "0 < d \<Longrightarrow> f64_nonneg (f64_round False n d)"
  using f64_round_ok [of d False n] by (auto simp: f64_nonneg_def f64_num_def f64_round_def Let_def)

lemma f64_add_nonneg: "f64_nonneg x \<Longrightarrow> f64_nonneg y \<Longrightarrow> f64_nonneg (f64_add x y)"
  using f64_add_ok [of x y]
  by (cases "(x, y)" rule: f64_add.cases)
    (auto simp: f64_nonneg_def f64_num_def Let_def f64_limit_pos f64_round_def split: if_splits)

lemma f64_add_pos: "f64_nonneg x \<Longrightarrow> f64_nonneg y \<Longrightarrow> 0 < f64_key x \<Longrightarrow> f64_add x y \<noteq> F64Fin s 0"
proof (cases "(x, y)" rule: f64_add.cases)
  case (1 s m t n)
  assume a: "f64_nonneg x" "f64_nonneg y" "0 < f64_key x"
  then have m: "\<not> s" "0 < m" "mag_ok m" "f64_int t n = int n"
    using 1 by (auto simp: f64_nonneg_def f64_num_def split: if_splits)
  have "m \<le> round_ratio (m + n) 1"
    using m by (intro round_ratio_ge_quotient) auto
  then show ?thesis
    using 1 m by (auto simp: Let_def f64_round_def nat_add_distrib nat_int_add)
qed auto

lemma f64_div_nonneg:
  "f64_nonneg x \<Longrightarrow> f64_finite x \<Longrightarrow> f64_nonneg y \<Longrightarrow> (\<And>s. y \<noteq> F64Fin s 0) \<Longrightarrow> f64_nonneg (f64_div x y)"
  using f64_div_ok [of x y]
  by (cases "(x, y)" rule: f64_div.cases)
    (auto simp: f64_nonneg_def f64_num_def f64_limit_pos f64_round_def Let_def split: if_splits)

lemma foldl_add_nonneg: "f64_nonneg x \<Longrightarrow> \<forall>y \<in> set ys. f64_nonneg y \<Longrightarrow> f64_nonneg (foldl f64_add x ys)"
  by (induction ys arbitrary: x) (auto simp: f64_add_nonneg)

text \<open>Finite operands never give NaN.\<close>

lemma f64_add_num: "f64_num x \<Longrightarrow> f64_finite y \<Longrightarrow> f64_ok y \<Longrightarrow> f64_num (f64_add x y)"
  using f64_add_ok [of x y]
  by (cases "(x, y)" rule: f64_add.cases)
    (auto simp: f64_num_def Let_def f64_round_def split: if_splits)

lemma f64_div_num:
  "f64_num x \<Longrightarrow> f64_nonneg y \<Longrightarrow> f64_finite y \<Longrightarrow> 0 < f64_key y \<Longrightarrow> f64_num (f64_div x y)"
  using f64_div_ok [of x y]
  by (cases "(x, y)" rule: f64_div.cases)
    (auto simp: f64_num_def Let_def f64_round_def split: if_splits)

lemma f64_min_num: "f64_num x \<Longrightarrow> f64_num y \<Longrightarrow> f64_num (f64_min x y) \<and> f64_le (f64_min x y) y"
  by (auto simp: f64_min_def f64_num_def f64_le_key f64_lt_key)

lemma f64_finite_num: "f64_finite x \<Longrightarrow> f64_ok x \<Longrightarrow> f64_num x"
  by (cases x) (simp_all add: f64_num_def)

text \<open>
  Single precision. Every \<^verbatim>\<open>f32\<close> is also an \<^verbatim>\<open>f64\<close>, so an \<^verbatim>\<open>f32\<close> is represented by that value:
  \<^verbatim>\<open>f64::from\<close> is the identity and comparisons are those of \<^verbatim>\<open>f64\<close>. The cast \<^verbatim>\<open>as f32\<close> rounds to 24 bits
  above the quantum \<open>2\<^sup>-\<^sup>1\<^sup>4\<^sup>9\<close>, which is \<open>2\<^sup>9\<^sup>2\<^sup>5\<close> units of \<^verbatim>\<open>f64\<close>.
\<close>

type_synonym f32 = f64

section \<open>Rounding\<close>

definition f32_limit :: nat where
  "f32_limit = 2 ^ (128 + 1074)"

definition f32_round_mag :: "nat \<Rightarrow> nat" where
  "f32_round_mag m = (let k = max (bit_len m - 24) 925 in round_even_div m (2 ^ k) * 2 ^ k)"

text \<open>\<^verbatim>\<open>x as f32\<close>.\<close>

fun to_f32 :: "f64 \<Rightarrow> f32" where
  "to_f32 (F64Fin s m) = (if f32_limit \<le> f32_round_mag m then F64Inf s else F64Fin s (f32_round_mag m))"
| "to_f32 x = x"

lemma f32_round_mag_le:
  assumes "m \<le> 2 ^ j" and "925 \<le> j"
  shows "f32_round_mag m \<le> 2 ^ j"
proof -
  let ?k = "max (bit_len m - 24) 925"
  have "bit_len m \<le> Suc j"
    using assms(1) by (intro bit_len_le) (simp add: le_imp_less_Suc less_exp order_le_less_trans)
  then have k: "?k \<le> j"
    using assms(2) by simp
  then have split: "(2::nat) ^ j = 2 ^ (j - ?k) * 2 ^ ?k"
    by (simp flip: power_add)
  have "round_even_div m (2 ^ ?k) \<le> 2 ^ (j - ?k)"
    using assms(1) split by (intro round_even_div_le) simp_all
  then have "round_even_div m (2 ^ ?k) * 2 ^ ?k \<le> 2 ^ (j - ?k) * 2 ^ ?k"
    by (rule mult_le_mono1)
  then show ?thesis
    by (simp only: f32_round_mag_def Let_def split)
qed

section \<open>The total order\<close>

text \<open>
  \<^verbatim>\<open>total_cmp\<close> compares these integers: it separates the zeros, and infinities and the (positive) NaN
  lie outside the numbers.
\<close>

fun f64_total :: "f64 \<Rightarrow> int" where
  "f64_total (F64Fin s m) = (if s then - int m - 1 else int m)"
| "f64_total (F64Inf s) = (if s then - int f64_limit - 1 else int f64_limit)"
| "f64_total F64NaN = int f64_limit + 1"

lemma f64_total_inject:
  assumes "f64_ok x" and "f64_ok y"
  shows "f64_total x = f64_total y \<longleftrightarrow> x = y"
  using assms by (cases x; cases y) (auto simp: mag_ok_def)

text \<open>It refines the order of the numbers.\<close>

lemma f64_total_lt: "f64_num x \<Longrightarrow> f64_num y \<Longrightarrow> f64_lt x y \<Longrightarrow> f64_total x < f64_total y"
  by (cases x; cases y) (auto simp: f64_num_def mag_ok_def split: if_splits)

text \<open>A number between minus one and one keeps these bounds when it is cast.\<close>

definition f64_unit_ball :: "f64 \<Rightarrow> bool" where
  "f64_unit_ball x \<longleftrightarrow> (\<exists>s m. x = F64Fin s m \<and> m \<le> 2 ^ 1074)"

lemma to_f32_unit_ball: "f64_unit_ball x \<Longrightarrow> f64_unit_ball (to_f32 x)"
proof -
  assume "f64_unit_ball x"
  then obtain s m where x: "x = F64Fin s m" "m \<le> 2 ^ 1074"
    by (auto simp: f64_unit_ball_def)
  then have le: "f32_round_mag m \<le> 2 ^ 1074"
    by (intro f32_round_mag_le) simp_all
  moreover have "(2::nat) ^ 1074 < f32_limit"
    unfolding f32_limit_def by (rule power_strict_increasing) simp_all
  ultimately have "\<not> f32_limit \<le> f32_round_mag m"
    by linarith
  then show ?thesis
    using le by (simp only: x(1) to_f32.simps if_False f64_unit_ball_def) blast
qed

lemma clamp_unit_ball:
  assumes "f64_finite x"
  shows "f64_unit_ball (f64_clamp (f64_neg f64_one) f64_one x)"
proof -
  obtain s m where x: "x = F64Fin s m"
    using assms by (cases x) simp_all
  show ?thesis
  proof (cases "m \<le> 2 ^ 1074")
    case True
    then have "int m \<le> 2 ^ 1074"
      by (simp only: of_nat_power of_nat_numeral flip: of_nat_le_iff [where 'a = int])
    then have "f64_clamp (f64_neg f64_one) f64_one x = x"
      by (auto simp: x f64_clamp_def f64_one_def)
    then show ?thesis
      using True by (auto simp: x f64_unit_ball_def)
  next
    case False
    then have "f64_clamp (f64_neg f64_one) f64_one x = F64Fin s (2 ^ 1074)"
      by (auto simp: x f64_clamp_def f64_one_def not_le simp flip: of_nat_power)
    then show ?thesis
      by (auto simp: f64_unit_ball_def)
  qed
qed

end
