(* ===== verification/Ranking.thy ===== *)
theory Ranking
  imports Stores F64_Ops
begin

text \<open>
  Ranking by floating-point scores: \<^verbatim>\<open>sort_by\<close> with the comparators of the code, which fall back
  to an identifier when scores are equal. The locale \<^verbatim>\<open>ranking\<close> is the contract of a comparator,
  a linear key that it compares; the score comparators meet it on scores that are numbers.
\<close>

section \<open>Sorting with a comparator\<close>

text \<open>\<open>le x y\<close> stands for a comparison of \<open>x\<close> with \<open>y\<close> that is not \<^verbatim>\<open>Ordering::Greater\<close>; the sort is stable.\<close>

fun place :: "('a \<Rightarrow> 'a \<Rightarrow> bool) \<Rightarrow> 'a \<Rightarrow> 'a list \<Rightarrow> 'a list" where
  "place le x [] = [x]"
| "place le x (y # ys) = (if le x y then x # y # ys else y # place le x ys)"

definition sort_by :: "('a \<Rightarrow> 'a \<Rightarrow> bool) \<Rightarrow> 'a list \<Rightarrow> 'a list" where
  "sort_by le xs = foldr (place le) xs []"

text \<open>\<^verbatim>\<open>score_order(l, r).then_with(..)\<close>: the higher score first, else the next comparison.\<close>

definition by_score :: "('a \<Rightarrow> f64) \<Rightarrow> ('a \<Rightarrow> 'a \<Rightarrow> bool) \<Rightarrow> 'a \<Rightarrow> 'a \<Rightarrow> bool" where
  "by_score score le l r \<longleftrightarrow>
     f64_lt (score r) (score l) \<or> (\<not> f64_lt (score l) (score r) \<and> le l r)"

definition by_id :: "('a \<Rightarrow> 'i::linorder) \<Rightarrow> 'a \<Rightarrow> 'a \<Rightarrow> bool" where
  "by_id ident l r \<longleftrightarrow> ident l \<le> ident r"

locale ranking =
  fixes le :: "'a \<Rightarrow> 'a \<Rightarrow> bool" and key :: "'a \<Rightarrow> 'k::linorder" and ok :: "'a \<Rightarrow> bool"
  assumes le_key: "ok x \<Longrightarrow> ok y \<Longrightarrow> le x y \<longleftrightarrow> key x \<le> key y"
begin

lemma place_key: "ok x \<Longrightarrow> \<forall>y \<in> set ys. ok y \<Longrightarrow> place le x ys = insort_key key x ys"
  by (induction ys) (auto simp: le_key)

lemma sort_by_key: "\<forall>x \<in> set xs. ok x \<Longrightarrow> sort_by le xs = sort_key key xs"
  by (induction xs) (simp_all add: sort_by_def place_key)

lemma best_first: "\<forall>x \<in> set xs. ok x \<Longrightarrow> sorted (map key (sort_by le xs))"
  by (simp add: sort_by_key)

text \<open>What the key determines does not depend on the order of the input.\<close>

lemma order_free:
  assumes ok: "\<forall>x \<in> set xs. ok x" and same: "mset xs = mset ys"
    and determined: "\<forall>x \<in> set xs. \<forall>y \<in> set xs. key x = key y \<longrightarrow> f x = f y"
  shows "map f (sort_by le xs) = map f (sort_by le ys)"
proof -
  define g where "g k = f (SOME x. x \<in> set xs \<and> key x = k)" for k
  have g: "f x = g (key x)" if "x \<in> set xs" for x
  proof -
    let ?y = "SOME y. y \<in> set xs \<and> key y = key x"
    have "?y \<in> set xs \<and> key ?y = key x"
      by (rule someI [of _ x]) (simp add: that)
    then have "f x = f ?y"
      using determined [THEN bspec, OF that, THEN bspec, of ?y] by (simp only: simp_thms)
    then show ?thesis by (simp only: g_def)
  qed
  have set: "set ys = set xs"
    using same by (metis set_mset_mset)
  have "map key (sort_key key zs) = sorted_list_of_multiset (mset (map key zs))" for zs
    by (simp only: sorted_list_of_multiset_mset) (rule properties_for_sort [symmetric], simp_all)
  then have keys: "map key (sort_key key xs) = map key (sort_key key ys)"
    using same by (simp only: mset_map)
  have eq: "map f (sort_by le zs) = map g (map key (sort_key key zs))" if "set zs = set xs" for zs
    using ok g that by (simp add: sort_by_key)
  show ?thesis
    by (simp only: eq [OF refl] eq [OF set] keys)
qed

text \<open>A last element is inserted behind everything of its key.\<close>

lemma sort_by_last:
  assumes "\<forall>x \<in> set xs. ok x" and "ok d"
  shows "\<exists>ys zs. sort_by le (xs @ [d]) = ys @ d # zs \<and> sort_by le xs = ys @ zs \<and>
    (\<forall>x \<in> set zs. key d < key x)"
  using assms
proof (induction xs)
  case Nil
  have "sort_by le ([] @ [d]) = [] @ d # [] \<and> sort_by le [] = [] @ []"
    by (simp add: sort_by_def)
  then show ?case by fastforce
next
  case (Cons a xs)
  then obtain ys zs where ih: "sort_key key (xs @ [d]) = ys @ d # zs" "sort_key key xs = ys @ zs"
    "\<forall>x \<in> set zs. key d < key x"
    by (fastforce simp: sort_by_key)
  have s: "sorted (map key (ys @ d # zs))"
    using sorted_sort_key [of key "xs @ [d]"] ih(1) by simp
  have *: "\<exists>ys' zs'. insort_key key a (ys @ d # zs) = ys' @ d # zs' \<and>
      insort_key key a (ys @ zs) = ys' @ zs' \<and> (\<forall>x \<in> set zs'. key d < key x)"
    using ih(3) s
  proof (induction ys)
    case Nil
    show ?case
    proof (cases "key a \<le> key d")
      case True
      then have "insort_key key a zs = a # zs"
        using Nil by (cases zs) (auto intro: less_imp_le order_trans)
      then have "insort_key key a ([] @ d # zs) = [a] @ d # zs \<and> insort_key key a ([] @ zs) = [a] @ zs"
        using True by simp
      then show ?thesis using Nil by blast
    next
      case False
      then have "insort_key key a ([] @ d # zs) = [] @ d # insort_key key a zs \<and>
          insort_key key a ([] @ zs) = [] @ insort_key key a zs"
        by simp
      moreover have "\<forall>x \<in> set (insort_key key a zs). key d < key x"
        using False Nil by (auto simp: set_insort_key)
      ultimately show ?thesis by blast
    qed
  next
    case (Cons y ys)
    show ?case
    proof (cases "key a \<le> key y")
      case True
      then have "insort_key key a ((y # ys) @ d # zs) = (a # y # ys) @ d # zs \<and>
          insort_key key a ((y # ys) @ zs) = (a # y # ys) @ zs"
        by simp
      then show ?thesis using Cons.prems(1) by blast
    next
      case False
      obtain ys' zs' where "insort_key key a (ys @ d # zs) = ys' @ d # zs'"
        "insort_key key a (ys @ zs) = ys' @ zs'" "\<forall>x \<in> set zs'. key d < key x"
        using Cons.IH Cons.prems by auto
      then have "insort_key key a ((y # ys) @ d # zs) = (y # ys') @ d # zs' \<and>
          insort_key key a ((y # ys) @ zs) = (y # ys') @ zs'"
        using False by simp
      then show ?thesis using \<open>\<forall>x \<in> set zs'. key d < key x\<close> by blast
    qed
  qed
  show ?case
    using * ih Cons.prems by (simp add: sort_by_key)
qed

end

lemma set_place [simp]: "set (place le x ys) = insert x (set ys)"
  by (induction ys) auto

lemma set_sort_by [simp]: "set (sort_by le xs) = set xs"
  by (induction xs) (simp_all add: sort_by_def)

lemma length_sort_by [simp]: "length (sort_by le xs) = length xs"
proof -
  have "length (place le x ys) = Suc (length ys)" for x ys
    by (induction ys) auto
  then show ?thesis by (induction xs) (simp_all add: sort_by_def)
qed

lemma mset_place [simp]: "mset (place le x ys) = add_mset x (mset ys)"
  by (induction ys) auto

lemma mset_sort_by [simp]: "mset (sort_by le xs) = mset xs"
  by (induction xs) (simp_all add: sort_by_def)

lemma distinct_sort_by: "distinct (map f (sort_by le xs)) \<longleftrightarrow> distinct (map f xs)"
  by (metis mset_map mset_sort_by mset_eq_imp_distinct_iff)

text \<open>The comparators of the code on scores that are numbers.\<close>

interpretation scored: ranking "by_score score (by_id ident)"
    "\<lambda>x. (Desc (f64_key (score x)), ident x)" "\<lambda>x. f64_num (score x)"
  for score :: "'a \<Rightarrow> f64" and ident :: "'a \<Rightarrow> 'i::linorder"
  by unfold_locales (auto simp: by_score_def by_id_def f64_lt_key less_eq_prod_def)

interpretation twice_scored: ranking "by_score score (by_score score' (by_id ident))"
    "\<lambda>x. (Desc (f64_key (score x)), Desc (f64_key (score' x)), ident x)"
    "\<lambda>x. f64_num (score x) \<and> f64_num (score' x)"
  for score score' :: "'a \<Rightarrow> f64" and ident :: "'a \<Rightarrow> 'i::linorder"
  by unfold_locales (auto simp: by_score_def by_id_def f64_lt_key less_eq_prod_def)

section \<open>First occurrences with their rank\<close>

text \<open>\<^verbatim>\<open>if !seen.insert(id) { continue; } computed_rank += 1;\<close>.\<close>

fun ranked_once :: "('a \<Rightarrow> 'i) \<Rightarrow> 'i set \<Rightarrow> nat \<Rightarrow> 'a list \<Rightarrow> (nat \<times> 'a) list" where
  "ranked_once ident seen rank [] = []"
| "ranked_once ident seen rank (x # xs) =
     (if ident x \<in> seen then ranked_once ident seen rank xs
      else (rank + 1, x) # ranked_once ident (insert (ident x) seen) (rank + 1) xs)"

lemma ranked_once_view:
  "(\<And>x. x \<in> set xs \<Longrightarrow> ident' (v x) = ident x) \<Longrightarrow>
    map (\<lambda>(r, x). (r, v x)) (ranked_once ident seen rank xs) = ranked_once ident' seen rank (map v xs)"
  by (induction xs arbitrary: seen rank) auto

lemma ranked_once_repeated:
  "ident d \<in> seen \<or> (\<exists>x \<in> set ys. ident x = ident d) \<Longrightarrow>
    ranked_once ident seen rank (ys @ d # zs) = ranked_once ident seen rank (ys @ zs)"
  by (induction ys arbitrary: seen rank) auto

lemma ranked_once_set: "set (map snd (ranked_once ident seen rank xs)) \<subseteq> set xs"
  by (induction xs arbitrary: seen rank) (simp_all add: subset_insertI2 insert_mono)

lemma ranked_once_ids:
  "set (map (ident \<circ> snd) (ranked_once ident seen rank xs)) = ident ` set xs - seen \<and>
   distinct (map (ident \<circ> snd) (ranked_once ident seen rank xs))"
  by (induction xs arbitrary: seen rank) auto

lemma ranked_once_ranks:
  "map fst (ranked_once ident seen rank xs) = [rank + 1 ..< rank + 1 + length (ranked_once ident seen rank xs)]"
proof (induction xs arbitrary: seen rank)
  case (Cons x xs)
  show ?case
    using Cons.IH [of seen rank] Cons.IH [of "insert (ident x) seen" "rank + 1"]
    by (cases "ident x \<in> seen") (simp_all add: upt_conv_Cons del: upt_Suc)
qed simp

end
