(* ===== verification/Contract_Types.thy ===== *)
theory Contract_Types
  imports Metadata_Filter F64_Ops
begin

text \<open>
  The records and hits of the service contract (\<^verbatim>\<open>sdkwork-memory-contract/src/dto.rs\<close>) that the
  retrieval code ranks and packs. \<open>'n\<close> is the type of JSON numbers in the metadata.
\<close>

datatype memory_type =
    Working | Session | Semantic | Episodic | Procedural | Habit | Relationship | DomainKnowledge

record 'n contract_memory =
  cm_memory_id :: u64
  cm_uuid :: "string option"
  cm_in_space :: u64
  cm_user_id :: "u64 option"
  cm_scope :: string
  cm_memory_type :: memory_type
  cm_subject :: "string option"
  cm_predicate :: "string option"
  cm_object_text :: "string option"
  cm_canonical_text :: string
  cm_summary_text :: "string option"
  cm_metadata :: "'n json option"
  cm_confidence :: f64
  cm_evidence_count :: "i32 option"
  cm_contradiction_count :: "i32 option"
  cm_status :: string
  cm_sensitivity_level :: string
  cm_supersedes_memory_id :: "u64 option"
  cm_superseded_by_memory_id :: "u64 option"
  cm_created_at :: string
  cm_updated_at :: string
  cm_expires_at :: "string option"
  cm_version :: u64

record 'n retrieval_hit_dto =
  rh_hit_id :: u64
  rh_memory :: "'n contract_memory option"
  rh_memory_id :: "u64 option"
  rh_retriever_name :: string
  rh_result_rank :: i32
  rh_raw_score :: "f64 option"
  rh_fused_score :: "f64 option"
  rh_explanation :: "'n json option"
  rh_status :: string

end
