(* ===== verification/Retrieval_Fusion.thy ===== *)
theory Retrieval_Fusion
  imports Ranking Contract_Types
begin

text \<open>
  Weighted reciprocal rank fusion (\<^verbatim>\<open>sdkwork-memory-retrieval/src/retrieval/mod.rs\<close>): the hits of
  several retrievers become one list. \<^verbatim>\<open>exp\<close> of the platform's mathematics library is a parameter.
\<close>

section \<open>Candidates and hits\<close>

record 'n retrieval_candidate =
  rc_memory :: "'n contract_memory"
  rc_retriever_name :: string
  rc_raw_score :: f64
  rc_rank :: i32

record 'n fused_retrieval_hit =
  fh_memory :: "'n contract_memory"
  fh_retriever_name :: string
  fh_retrievers :: "string list"
  fh_raw_score :: f64
  fh_fused_score :: f64
  fh_rank :: i32

record 'n fusion_aggregate =
  fa_memory :: "'n contract_memory"
  fa_raw_score :: f64
  fa_rrf_score :: f64
  fa_dominant_contribution :: f64
  fa_dominant_retriever :: string
  fa_retrievers :: "string list"

abbreviation rc_id :: "'n retrieval_candidate \<Rightarrow> u64" where
  "rc_id c \<equiv> cm_memory_id (rc_memory c)"

abbreviation fa_id :: "'n fusion_aggregate \<Rightarrow> u64" where
  "fa_id a \<equiv> cm_memory_id (fa_memory a)"

definition rrf_rank_constant :: f64 where
  "rrf_rank_constant = f64_lit 600 1"

definition fusion_rank_constant :: "f64 \<Rightarrow> f64" where
  "fusion_rank_constant c =
     (if f64_finite c \<and> f64_le f64_one c then c else rrf_rank_constant)"

section \<open>Grouping by retriever\<close>

definition usable_score :: "f64 \<Rightarrow> bool" where
  "usable_score x \<longleftrightarrow> f64_finite x \<and> f64_lt f64_zero x"

definition push_candidate :: "'n retrieval_candidate \<Rightarrow> (string, 'n retrieval_candidate list) hmap \<Rightarrow>
    (string, 'n retrieval_candidate list) hmap" where
  "push_candidate c m =
     (if usable_score (rc_raw_score c)
      then hm_insert (rc_retriever_name c)
        ((case hm_get m (rc_retriever_name c) of None \<Rightarrow> [] | Some cs \<Rightarrow> cs) @ [c]) m
      else m)"

definition by_retriever :: "'n retrieval_candidate list \<Rightarrow> (string, 'n retrieval_candidate list) hmap" where
  "by_retriever cs = fold push_candidate cs []"

section \<open>Accumulating the contributions\<close>

definition rrf_contribution :: "f64 \<Rightarrow> nat \<Rightarrow> f64 \<Rightarrow> f64" where
  "rrf_contribution k rank raw = f64_div raw (f64_add k (f64_of_nat (max rank 1)))"

definition new_aggregate :: "f64 \<Rightarrow> string \<Rightarrow> nat \<Rightarrow> 'n contract_memory \<Rightarrow> f64 \<Rightarrow> 'n fusion_aggregate" where
  "new_aggregate k name rank memory raw =
     (let contribution = rrf_contribution k rank raw
      in \<lparr>fa_memory = memory, fa_raw_score = raw, fa_rrf_score = contribution,
          fa_dominant_contribution = contribution, fa_dominant_retriever = name, fa_retrievers = [name]\<rparr>)"

definition add_contribution :: "f64 \<Rightarrow> string \<Rightarrow> nat \<Rightarrow> f64 \<Rightarrow> 'n fusion_aggregate \<Rightarrow> 'n fusion_aggregate" where
  "add_contribution k name rank raw a =
     (let contribution = rrf_contribution k rank raw;
          a' = a\<lparr>fa_raw_score := f64_max (fa_raw_score a) raw,
                 fa_rrf_score := f64_add (fa_rrf_score a) contribution,
                 fa_retrievers := bs_insert name (fa_retrievers a)\<rparr>
      in if f64_lt (fa_dominant_contribution a) contribution \<or>
            (f64_eq contribution (fa_dominant_contribution a) \<and> name < fa_dominant_retriever a)
         then a'\<lparr>fa_dominant_contribution := contribution, fa_dominant_retriever := name\<rparr>
         else a')"

definition absorb_candidate :: "f64 \<Rightarrow> string \<Rightarrow> nat \<times> 'n retrieval_candidate \<Rightarrow>
    (u64, 'n fusion_aggregate) hmap \<Rightarrow> (u64, 'n fusion_aggregate) hmap" where
  "absorb_candidate k name e aggregates =
     (case e of (rank, c) \<Rightarrow>
        if hm_contains aggregates (rc_id c)
        then hm_modify (rc_id c) (add_contribution k name rank (rc_raw_score c)) aggregates
        else hm_insert (rc_id c) (new_aggregate k name rank (rc_memory c) (rc_raw_score c)) aggregates)"

definition retriever_ranking :: "'n retrieval_candidate list \<Rightarrow> (nat \<times> 'n retrieval_candidate) list" where
  "retriever_ranking cs = ranked_once rc_id {} 0 (sort_by (by_score rc_raw_score (by_id rc_id)) cs)"

definition absorb_retriever :: "f64 \<Rightarrow> (string, 'n retrieval_candidate list) hmap \<Rightarrow> string \<Rightarrow>
    (u64, 'n fusion_aggregate) hmap \<Rightarrow> (u64, 'n fusion_aggregate) hmap" where
  "absorb_retriever k groups name aggregates =
     (case hm_get groups name of
        None \<Rightarrow> aggregates
      | Some cs \<Rightarrow> fold (absorb_candidate k name) (retriever_ranking cs) aggregates)"

definition fusion_aggregates :: "f64 \<Rightarrow> 'n retrieval_candidate list \<Rightarrow> (u64, 'n fusion_aggregate) hmap" where
  "fusion_aggregates k cs =
     (let groups = by_retriever cs
      in fold (absorb_retriever k groups) (sort (map fst groups)) [])"

section \<open>The fused list\<close>

definition aggregate_order :: "'n fusion_aggregate \<Rightarrow> 'n fusion_aggregate \<Rightarrow> bool" where
  "aggregate_order = by_score fa_rrf_score (by_score fa_raw_score (by_id fa_id))"

definition fused_hit :: "(f64 \<Rightarrow> f64) \<Rightarrow> f64 \<Rightarrow> nat \<times> 'n fusion_aggregate \<Rightarrow> 'n fused_retrieval_hit" where
  "fused_hit exp k e =
     (case e of (index, a) \<Rightarrow>
        \<lparr>fh_memory = fa_memory a, fh_retriever_name = fa_dominant_retriever a,
         fh_retrievers = fa_retrievers a, fh_raw_score = fa_raw_score a,
         fh_fused_score =
           f64_sub f64_one (exp (f64_mul (f64_neg (fa_rrf_score a)) (f64_add k f64_one))),
         fh_rank = of_nat index + 1\<rparr>)"

definition fuse_retrieval_candidates_with_policy :: "(f64 \<Rightarrow> f64) \<Rightarrow> 'n retrieval_candidate list \<Rightarrow> nat \<Rightarrow> f64 \<Rightarrow>
    'n fused_retrieval_hit list" where
  "fuse_retrieval_candidates_with_policy exp cs top_k rank_constant =
     (if top_k = 0 then []
      else let k = fusion_rank_constant rank_constant;
               fused = sort_by aggregate_order (map snd (fusion_aggregates k cs))
           in map (fused_hit exp k) (enumerate 0 (take top_k fused)))"

definition fuse_retrieval_candidates :: "(f64 \<Rightarrow> f64) \<Rightarrow> 'n retrieval_candidate list \<Rightarrow> nat \<Rightarrow>
    'n fused_retrieval_hit list" where
  "fuse_retrieval_candidates exp cs top_k =
     fuse_retrieval_candidates_with_policy exp cs top_k rrf_rank_constant"

end
