(* ===== verification/Fusion_Laws.thy ===== *)
theory Fusion_Laws
  imports Retrieval_Fusion
begin

text \<open>
  What fusion computes: the groups and the ranking of each retriever in closed form, the
  aggregate of a memory as a fold over its entries, the order of the result, and its
  independence of the order of the input and of repeated hits.
\<close>

section \<open>Groups\<close>

definition candidates_of :: "string \<Rightarrow> 'n retrieval_candidate list \<Rightarrow> 'n retrieval_candidate list" where
  "candidates_of n cs = filter (\<lambda>c. usable_score (rc_raw_score c) \<and> rc_retriever_name c = n) cs"

definition retriever_names :: "'n retrieval_candidate list \<Rightarrow> string list" where
  "retriever_names cs =
     sorted_list_of_set (rc_retriever_name ` {c \<in> set cs. usable_score (rc_raw_score c)})"

lemma by_retriever_get:
  "hm_get (by_retriever cs) n = (if candidates_of n cs = [] then None else Some (candidates_of n cs))"
proof -
  have "hm_get (fold push_candidate cs m) n =
      (case hm_get m n of
         None \<Rightarrow> if candidates_of n cs = [] then None else Some (candidates_of n cs)
       | Some xs \<Rightarrow> Some (xs @ candidates_of n cs))" for m
    by (induction cs arbitrary: m) (auto simp: candidates_of_def push_candidate_def split: option.splits)
  then show ?thesis by (simp add: by_retriever_def)
qed

lemma by_retriever_ok: "hm_ok (by_retriever cs)"
proof -
  have "hm_ok m \<Longrightarrow> hm_ok (fold push_candidate cs m)" for m
    by (induction cs arbitrary: m) (simp_all add: push_candidate_def)
  then show ?thesis by (simp add: by_retriever_def)
qed

lemma by_retriever_names: "sort (map fst (by_retriever cs)) = retriever_names cs"
proof -
  have "set (map fst (by_retriever cs)) = {n. hm_get (by_retriever cs) n \<noteq> None}"
    by (force simp: hm_get_def map_of_eq_None_iff)
  also have "\<dots> = rc_retriever_name ` {c \<in> set cs. usable_score (rc_raw_score c)}"
    by (auto simp: by_retriever_get candidates_of_def filter_empty_conv)
  finally have "sorted_list_of_set (set (map fst (by_retriever cs))) = retriever_names cs"
    by (simp only: retriever_names_def)
  then show ?thesis
    using by_retriever_ok [of cs]
    by (simp add: hm_ok_def distinct_remdups_id sorted_list_of_set_sort_remdups del: set_map)
qed

definition fusion_entries :: "'n retrieval_candidate list \<Rightarrow> (string \<times> nat \<times> 'n retrieval_candidate) list" where
  "fusion_entries cs =
     concat (map (\<lambda>n. map (\<lambda>e. (n, e)) (retriever_ranking (candidates_of n cs))) (retriever_names cs))"

lemma fusion_aggregates_eq:
  "fusion_aggregates k cs = fold (\<lambda>(n, e). absorb_candidate k n e) (fusion_entries cs) []"
proof -
  have step: "absorb_retriever k (by_retriever cs) n m =
      fold (\<lambda>(n, e). absorb_candidate k n e) (map (\<lambda>e. (n, e)) (retriever_ranking (candidates_of n cs))) m" for n m
    by (simp add: absorb_retriever_def by_retriever_get fold_map comp_def retriever_ranking_def sort_by_def)
  have "fold (absorb_retriever k (by_retriever cs)) ns m =
      fold (\<lambda>(n, e). absorb_candidate k n e)
        (concat (map (\<lambda>n. map (\<lambda>e. (n, e)) (retriever_ranking (candidates_of n cs))) ns)) m" for ns m
    by (induction ns arbitrary: m) (simp_all add: step)
  then show ?thesis
    by (simp add: fusion_aggregates_def by_retriever_names fusion_entries_def Let_def)
qed

section \<open>Entries and their views\<close>

text \<open>An entry counts through the memory and the score only.\<close>

definition entry_view :: "string \<times> nat \<times> 'n retrieval_candidate \<Rightarrow> string \<times> nat \<times> 'n contract_memory \<times> f64" where
  "entry_view e = (case e of (n, r, c) \<Rightarrow> (n, r, rc_memory c, rc_raw_score c))"

lemma absorb_by_view:
  assumes "map entry_view es = map entry_view es'"
  shows "fold (\<lambda>(n, e). absorb_candidate k n e) es m = fold (\<lambda>(n, e). absorb_candidate k n e) es' m"
proof -
  have "list_all2 (\<lambda>x y. entry_view x = entry_view y) es es'"
    using assms by (simp only: list.rel_eq [symmetric] list.rel_map)
  then show ?thesis
  proof (induction arbitrary: m rule: list_all2_induct)
    case (Cons x xs y ys)
    have "(case x of (n, e) \<Rightarrow> absorb_candidate k n e) = (case y of (n, e) \<Rightarrow> absorb_candidate k n e)"
      using Cons.hyps(1) by (auto simp: entry_view_def absorb_candidate_def fun_eq_iff split: prod.splits)
    then show ?case by (simp add: Cons.IH)
  qed simp
qed

definition same_memory_per_id :: "'n retrieval_candidate list \<Rightarrow> bool" where
  "same_memory_per_id cs \<longleftrightarrow>
     (\<forall>x \<in> set cs. \<forall>y \<in> set cs. rc_id x = rc_id y \<longrightarrow> rc_memory x = rc_memory y)"

definition scores_ok :: "'n retrieval_candidate list \<Rightarrow> bool" where
  "scores_ok cs \<longleftrightarrow> (\<forall>c \<in> set cs. f64_ok (rc_raw_score c))"

lemma usable_num: "usable_score x \<Longrightarrow> f64_ok x \<Longrightarrow> f64_num x \<and> 0 < f64_key x"
  by (cases x) (auto simp: usable_score_def f64_num_def)

lemma candidates_num:
  "scores_ok cs \<Longrightarrow> \<forall>c \<in> set (candidates_of n cs). f64_num (rc_raw_score c) \<and> 0 < f64_key (rc_raw_score c)"
  using usable_num by (auto simp: candidates_of_def scores_ok_def)

lemma ranking_views:
  assumes "mset g = mset g'" and "\<forall>c \<in> set g. f64_num (rc_raw_score c) \<and> 0 < f64_key (rc_raw_score c)"
    and "same_memory_per_id g"
  shows "map (\<lambda>e. entry_view (n, e)) (retriever_ranking g) = map (\<lambda>e. entry_view (n, e)) (retriever_ranking g')"
proof -
  let ?v = "\<lambda>c. (rc_memory c, rc_raw_score c)"
  have views: "map ?v (sort_by (by_score rc_raw_score (by_id rc_id)) g) =
      map ?v (sort_by (by_score rc_raw_score (by_id rc_id)) g')"
    using assms f64_key_inject
    by (intro scored.order_free [where score = rc_raw_score and ident = rc_id])
      (auto simp: same_memory_per_id_def)
  have once: "map (\<lambda>(r, c). (r, ?v c)) (retriever_ranking h) =
      ranked_once (cm_memory_id \<circ> fst) {} 0 (map ?v (sort_by (by_score rc_raw_score (by_id rc_id)) h))" for h
    unfolding retriever_ranking_def by (rule ranked_once_view) simp
  have entry: "map (\<lambda>e. entry_view (n, e)) h = map (\<lambda>(r, v). (n, r, v)) (map (\<lambda>(r, c). (r, ?v c)) h)" for h
    by (induction h) (auto simp: entry_view_def)
  show ?thesis by (simp only: entry once views)
qed

lemma same_entries:
  assumes "retriever_names cs = retriever_names cs'"
    and "\<And>n. n \<in> set (retriever_names cs') \<Longrightarrow> map (\<lambda>e. entry_view (n, e)) (retriever_ranking (candidates_of n cs)) =
      map (\<lambda>e. entry_view (n, e)) (retriever_ranking (candidates_of n cs'))"
  shows "fusion_aggregates k cs = fusion_aggregates k cs'"
proof -
  have "map entry_view (fusion_entries cs) = map entry_view (fusion_entries cs')"
    using assms by (simp add: fusion_entries_def map_concat comp_def cong: map_cong)
  then show ?thesis
    unfolding fusion_aggregates_eq by (rule absorb_by_view)
qed

lemma candidates_of_mset: "mset cs = mset cs' \<Longrightarrow> mset (candidates_of n cs) = mset (candidates_of n cs')"
  by (simp add: candidates_of_def)

lemma aggregates_order_free:
  assumes "mset cs = mset cs'" and "scores_ok cs" and "same_memory_per_id cs"
  shows "fusion_aggregates k cs = fusion_aggregates k cs'"
proof (rule same_entries)
  have "set cs = set cs'"
    using assms(1) by (metis set_mset_mset)
  then show "retriever_names cs = retriever_names cs'"
    by (simp add: retriever_names_def)
  show "map (\<lambda>e. entry_view (n, e)) (retriever_ranking (candidates_of n cs)) =
      map (\<lambda>e. entry_view (n, e)) (retriever_ranking (candidates_of n cs'))" for n
    using assms candidates_num [of cs n]
    by (intro ranking_views candidates_of_mset) (auto simp: same_memory_per_id_def candidates_of_def)
qed

section \<open>Repeated hits\<close>

text \<open>A hit that its retriever repeats with a score that is not better.\<close>

definition repeats :: "'n retrieval_candidate list \<Rightarrow> 'n retrieval_candidate \<Rightarrow> bool" where
  "repeats cs d \<longleftrightarrow>
     (\<exists>c \<in> set cs. rc_retriever_name c = rc_retriever_name d \<and> rc_memory c = rc_memory d \<and>
        usable_score (rc_raw_score c) \<and> f64_le (rc_raw_score d) (rc_raw_score c))"

lemma ranking_repeated:
  assumes "\<forall>x \<in> set (g @ [d]). f64_num (rc_raw_score x)"
    and "c \<in> set g" and "rc_id c = rc_id d" and "f64_le (rc_raw_score d) (rc_raw_score c)"
  shows "retriever_ranking (g @ [d]) = retriever_ranking g"
proof -
  obtain ys zs where s: "sort_by (by_score rc_raw_score (by_id rc_id)) (g @ [d]) = ys @ d # zs"
    "sort_by (by_score rc_raw_score (by_id rc_id)) g = ys @ zs"
    "\<forall>x \<in> set zs. (Desc (f64_key (rc_raw_score d)), rc_id d) < (Desc (f64_key (rc_raw_score x)), rc_id x)"
    using scored.sort_by_last [of g rc_raw_score d rc_id] assms(1) by auto
  have "c \<in> set (ys @ zs)"
    using assms(2) s(2) by (metis set_sort_by)
  moreover have "f64_key (rc_raw_score d) \<le> f64_key (rc_raw_score c)"
    using assms f64_le_key by auto
  then have "c \<notin> set zs"
    using s(3) assms(3) by (auto simp: less_prod_def)
  ultimately have "c \<in> set ys" by simp
  then show ?thesis
    unfolding retriever_ranking_def s(1,2) using assms(3) by (intro ranked_once_repeated) auto
qed

lemma aggregates_repeated:
  assumes "repeats cs d" and "scores_ok (cs @ [d])"
  shows "fusion_aggregates k (cs @ [d]) = fusion_aggregates k cs"
proof (cases "usable_score (rc_raw_score d)")
  case False
  then have "candidates_of n (cs @ [d]) = candidates_of n cs" for n
    by (simp add: candidates_of_def)
  moreover have "retriever_names (cs @ [d]) = retriever_names cs"
  proof -
    have "{c \<in> set (cs @ [d]). usable_score (rc_raw_score c)} = {c \<in> set cs. usable_score (rc_raw_score c)}"
      using False by auto
    then show ?thesis by (simp only: retriever_names_def)
  qed
  ultimately show ?thesis
    by (intro same_entries) simp_all
next
  case True
  obtain c where c: "c \<in> set cs" "rc_retriever_name c = rc_retriever_name d" "rc_memory c = rc_memory d"
    "usable_score (rc_raw_score c)" "f64_le (rc_raw_score d) (rc_raw_score c)"
    using assms(1) by (auto simp: repeats_def)
  have "rc_retriever_name ` {c \<in> set (cs @ [d]). usable_score (rc_raw_score c)} =
      rc_retriever_name ` {c \<in> set cs. usable_score (rc_raw_score c)}"
  proof -
    have "{c \<in> set (cs @ [d]). usable_score (rc_raw_score c)} = insert d {c \<in> set cs. usable_score (rc_raw_score c)}"
      using True by auto
    moreover have "rc_retriever_name d \<in> rc_retriever_name ` {c \<in> set cs. usable_score (rc_raw_score c)}"
      using c by (auto intro!: image_eqI [where x = c])
    ultimately show ?thesis by (simp add: insert_absorb)
  qed
  then have names: "retriever_names (cs @ [d]) = retriever_names cs"
    by (simp only: retriever_names_def)
  have "retriever_ranking (candidates_of n (cs @ [d])) = retriever_ranking (candidates_of n cs)" for n
  proof (cases "n = rc_retriever_name d")
    case n: True
    have "candidates_of n (cs @ [d]) = candidates_of n cs @ [d]"
      using True n by (simp add: candidates_of_def)
    moreover have "c \<in> set (candidates_of n cs)"
      using c n by (simp add: candidates_of_def)
    moreover have "\<forall>x \<in> set (candidates_of n cs @ [d]). f64_num (rc_raw_score x)"
      using assms(2) True usable_num by (auto simp: candidates_of_def scores_ok_def)
    ultimately show ?thesis
      using ranking_repeated [of "candidates_of n cs" d c] c by simp
  qed (simp add: candidates_of_def)
  then show ?thesis
    by (intro same_entries [OF names]) simp
qed

section \<open>The aggregate of a memory\<close>

abbreviation entry_id :: "string \<times> nat \<times> 'n retrieval_candidate \<Rightarrow> u64" where
  "entry_id e \<equiv> rc_id (snd (snd e))"

definition first_entry :: "f64 \<Rightarrow> string \<times> nat \<times> 'n retrieval_candidate \<Rightarrow> 'n fusion_aggregate" where
  "first_entry k e = (case e of (n, r, c) \<Rightarrow> new_aggregate k n r (rc_memory c) (rc_raw_score c))"

definition next_entry :: "f64 \<Rightarrow> string \<times> nat \<times> 'n retrieval_candidate \<Rightarrow> 'n fusion_aggregate \<Rightarrow> 'n fusion_aggregate" where
  "next_entry k e a = (case e of (n, r, c) \<Rightarrow> add_contribution k n r (rc_raw_score c) a)"

definition aggregate_of :: "f64 \<Rightarrow> (string \<times> nat \<times> 'n retrieval_candidate) list \<Rightarrow> 'n fusion_aggregate option" where
  "aggregate_of k es = (case es of [] \<Rightarrow> None | e # rest \<Rightarrow> Some (fold (next_entry k) rest (first_entry k e)))"

lemma absorb_get:
  "hm_get (absorb_candidate k n (r, c) m) i =
    (if i = rc_id c
     then Some (case hm_get m i of None \<Rightarrow> first_entry k (n, r, c) | Some a \<Rightarrow> next_entry k (n, r, c) a)
     else hm_get m i)"
  by (auto simp: absorb_candidate_def hm_contains_def first_entry_def next_entry_def split: option.splits)

lemma absorb_all_get:
  "hm_get (fold (\<lambda>(n, e). absorb_candidate k n e) es m) i =
    (case hm_get m i of
       None \<Rightarrow> aggregate_of k (filter (\<lambda>e. entry_id e = i) es)
     | Some a \<Rightarrow> Some (fold (next_entry k) (filter (\<lambda>e. entry_id e = i) es) a))"
proof (induction es arbitrary: m)
  case Nil
  then show ?case by (simp add: aggregate_of_def split: option.splits)
next
  case (Cons e es)
  obtain n r c where e: "e = (n, r, c)" by (cases e)
  show ?case
    by (simp add: e Cons.IH absorb_get aggregate_of_def split: option.splits)
qed

lemma absorb_all_ok: "hm_ok m \<Longrightarrow> hm_ok (fold (\<lambda>(n, e). absorb_candidate k n e) es m)"
  by (induction es arbitrary: m) (auto simp: absorb_candidate_def split: prod.splits)

definition entries_of :: "'n retrieval_candidate list \<Rightarrow> u64 \<Rightarrow> (string \<times> nat \<times> 'n retrieval_candidate) list" where
  "entries_of cs i = filter (\<lambda>e. entry_id e = i) (fusion_entries cs)"

lemma aggregates_get: "hm_get (fusion_aggregates k cs) i = aggregate_of k (entries_of cs i)"
  by (simp add: fusion_aggregates_eq absorb_all_get entries_of_def)

lemma aggregates_ok: "hm_ok (fusion_aggregates k cs)"
  by (simp add: fusion_aggregates_eq absorb_all_ok)

text \<open>The sum of the contributions of a memory, in the order of the retrievers' names.\<close>

definition rrf_sum :: "f64 \<Rightarrow> 'n retrieval_candidate list \<Rightarrow> u64 \<Rightarrow> f64" where
  "rrf_sum k cs i =
     (case map (\<lambda>(n, r, c). rrf_contribution k r (rc_raw_score c)) (entries_of cs i) of
        [] \<Rightarrow> f64_zero | x # xs \<Rightarrow> foldl f64_add x xs)"

lemma next_entry_fields:
  "fa_memory (next_entry k (n, r, c) a) = fa_memory a"
  "fa_rrf_score (next_entry k (n, r, c) a) = f64_add (fa_rrf_score a) (rrf_contribution k r (rc_raw_score c))"
  "set (fa_retrievers (next_entry k (n, r, c) a)) = insert n (set (fa_retrievers a))"
  "fa_retrievers (next_entry k (n, r, c) a) = bs_insert n (fa_retrievers a)"
  "fa_dominant_retriever (next_entry k (n, r, c) a) \<in> {fa_dominant_retriever a, n}"
  "fa_raw_score (next_entry k (n, r, c) a) = f64_max (fa_raw_score a) (rc_raw_score c)"
  unfolding next_entry_def add_contribution_def Let_def prod.case
  by (simp_all split: if_split)

lemma next_entries:
  "fa_memory (fold (next_entry k) es a) = fa_memory a"
  "fa_rrf_score (fold (next_entry k) es a) =
     foldl f64_add (fa_rrf_score a) (map (\<lambda>(n, r, c). rrf_contribution k r (rc_raw_score c)) es)"
  "set (fa_retrievers (fold (next_entry k) es a)) = set (fa_retrievers a) \<union> fst ` set es"
  "bs_ok (fa_retrievers a) \<Longrightarrow> bs_ok (fa_retrievers (fold (next_entry k) es a))"
  "fa_dominant_retriever (fold (next_entry k) es a) \<in> insert (fa_dominant_retriever a) (fst ` set es)"
  "fa_raw_score (fold (next_entry k) es a) = foldl f64_max (fa_raw_score a) (map (\<lambda>(n, r, c). rc_raw_score c) es)"
proof (induction es arbitrary: a)
  case (Cons e es)
  obtain n r c where e: "e = (n, r, c)" by (cases e)
  note s = next_entry_fields [of k n r c]
  {
    case 1 then show ?case by (simp add: Cons.IH s e)
  next
    case 2 then show ?case by (simp add: Cons.IH s e)
  next
    case 3 then show ?case by (simp add: Cons.IH(3) s(3) e)
  next
    case 4 then show ?case by (simp add: Cons.IH(4) s(4) e)
  next
    case 5 then show ?case using Cons.IH(5) [of "next_entry k (n, r, c) a"] s(5) [of a] by (auto simp: e)
  next
    case 6 then show ?case by (simp add: Cons.IH s e)
  }
qed simp_all

lemma max_of_numbers:
  assumes "f64_num x" and "\<forall>y \<in> set ys. f64_num y"
  shows "foldl f64_max x ys \<in> insert x (set ys) \<and> f64_num (foldl f64_max x ys) \<and>
    (\<forall>y \<in> insert x (set ys). f64_le y (foldl f64_max x ys))"
  using assms
proof (induction ys arbitrary: x)
  case Nil
  then show ?case by (simp add: f64_le_key)
next
  case (Cons y ys)
  have num: "f64_num (f64_max x y)" and choice: "f64_max x y = x \<or> f64_max x y = y"
    using Cons.prems by (auto simp: f64_max_def)
  have ub: "f64_key x \<le> f64_key (f64_max x y)" "f64_key y \<le> f64_key (f64_max x y)"
    using Cons.prems by (auto simp: f64_max_def f64_lt_key f64_num_def)
  have ih: "foldl f64_max (f64_max x y) ys \<in> insert (f64_max x y) (set ys)"
    "f64_num (foldl f64_max (f64_max x y) ys)"
    "\<forall>z \<in> insert (f64_max x y) (set ys). f64_le z (foldl f64_max (f64_max x y) ys)"
    using Cons.IH [OF num] Cons.prems by auto
  have "f64_key (f64_max x y) \<le> f64_key (foldl f64_max (f64_max x y) ys)"
    using ih(2,3) num f64_le_key by auto
  then have "f64_le x (foldl f64_max (f64_max x y) ys)" "f64_le y (foldl f64_max (f64_max x y) ys)"
    using ub ih(2) Cons.prems by (auto simp: f64_le_key)
  then show ?case using ih choice by auto
qed

section \<open>The entries of a memory\<close>

lemma set_retriever_names:
  "set (retriever_names cs) = rc_retriever_name ` {c \<in> set cs. usable_score (rc_raw_score c)}"
  by (simp add: retriever_names_def)

lemma in_entries_of:
  "(n, r, c) \<in> set (entries_of cs i) \<longleftrightarrow>
    n \<in> set (retriever_names cs) \<and> (r, c) \<in> set (retriever_ranking (candidates_of n cs)) \<and> rc_id c = i"
  by (auto simp: entries_of_def fusion_entries_def)

lemma ranking_members: "(r, c) \<in> set (retriever_ranking g) \<Longrightarrow> c \<in> set g"
  using ranked_once_set [of rc_id "{}" 0 "sort_by (by_score rc_raw_score (by_id rc_id)) g"]
  by (force simp: retriever_ranking_def)

lemma ranking_covers: "c \<in> set g \<Longrightarrow> \<exists>r d. (r, d) \<in> set (retriever_ranking g) \<and> rc_id d = rc_id c"
proof -
  assume "c \<in> set g"
  then have "rc_id c \<in> set (map (rc_id \<circ> snd) (retriever_ranking g))"
    using ranked_once_ids [of rc_id "{}" 0 "sort_by (by_score rc_raw_score (by_id rc_id)) g"]
    unfolding retriever_ranking_def by auto
  then show ?thesis by force
qed

lemma entry_names:
  "fst ` set (entries_of cs i) = rc_retriever_name ` {c \<in> set cs. usable_score (rc_raw_score c) \<and> rc_id c = i}"
    (is "?L = ?R")
proof
  show "?L \<subseteq> ?R"
    by (force simp: in_entries_of candidates_of_def dest!: ranking_members)
  show "?R \<subseteq> ?L"
  proof
    fix n assume "n \<in> ?R"
    then obtain c where c: "c \<in> set cs" "usable_score (rc_raw_score c)" "rc_id c = i" "n = rc_retriever_name c"
      by auto
    then have "c \<in> set (candidates_of n cs)" "n \<in> set (retriever_names cs)"
      by (auto simp: candidates_of_def set_retriever_names)
    then obtain r d where "(n, r, d) \<in> set (entries_of cs i)"
      using ranking_covers [of c "candidates_of n cs"] c(3) by (auto simp: in_entries_of)
    then show "n \<in> ?L" by force
  qed
qed

definition group_of :: "'n retrieval_candidate list \<Rightarrow> u64 \<Rightarrow> 'n retrieval_candidate set" where
  "group_of cs i = {c \<in> set cs. usable_score (rc_raw_score c) \<and> rc_id c = i}"

definition fused_ids :: "'n retrieval_candidate list \<Rightarrow> u64 set" where
  "fused_ids cs = rc_id ` {c \<in> set cs. usable_score (rc_raw_score c)}"

lemma ranked_once_first:
  assumes "(r, c) \<in> set (ranked_once ident seen rank xs)" and "sorted (map key xs)"
    and "x \<in> set xs" and "ident x = ident c"
  shows "key c \<le> key x"
  using assms
proof (induction xs arbitrary: seen rank)
  case (Cons a xs)
  show ?case
  proof (cases "ident a \<in> seen")
    case True
    have "ident c \<notin> seen"
      using Cons.prems(1) ranked_once_ids [of ident seen rank "a # xs"] by force
    then show ?thesis
      using Cons True by auto
  next
    case False
    show ?thesis
    proof (cases "ident c = ident a")
      case True
      have "c = a"
        using Cons.prems(1) False True ranked_once_ids [of ident "insert (ident a) seen" "rank + 1" xs] by force
      then show ?thesis
        using Cons.prems(2,3) by auto
    next
      case other: False
      then show ?thesis
        using Cons.IH [of "insert (ident a) seen" "rank + 1"] Cons.prems False by auto
    qed
  qed
qed simp

lemma ranking_best:
  assumes "\<forall>c \<in> set g. f64_num (rc_raw_score c)" and "c \<in> set g"
  shows "\<exists>r d. (r, d) \<in> set (retriever_ranking g) \<and> rc_id d = rc_id c \<and> f64_le (rc_raw_score c) (rc_raw_score d)"
proof -
  obtain r d where d: "(r, d) \<in> set (retriever_ranking g)" "rc_id d = rc_id c"
    using ranking_covers [OF assms(2)] by blast
  let ?key = "\<lambda>x. (Desc (f64_key (rc_raw_score x)), rc_id x)"
  have "?key d \<le> ?key c"
    using d assms scored.best_first [of g rc_raw_score rc_id]
    by (intro ranked_once_first [of r d rc_id "{}" 0 "sort_by (by_score rc_raw_score (by_id rc_id)) g"])
      (auto simp: retriever_ranking_def)
  then have "f64_le (rc_raw_score c) (rc_raw_score d)"
    using d assms ranking_members [OF d(1)] by (auto simp: f64_le_key less_eq_prod_def)
  then show ?thesis using d by blast
qed

section \<open>Scores stay numbers\<close>

lemma fusion_constant_pos:
  "f64_ok c \<Longrightarrow> f64_nonneg (fusion_rank_constant c) \<and> 0 < f64_key (fusion_rank_constant c)"
proof -
  have "f64_nonneg rrf_rank_constant"
    unfolding rrf_rank_constant_def f64_lit_def by (rule f64_round_nonneg) simp
  moreover have "0 < f64_key rrf_rank_constant"
    unfolding rrf_rank_constant_def by (rule f64_lit_pos) simp
  moreover have "f64_nonneg c \<and> 0 < f64_key c" if "f64_ok c" "f64_finite c" "f64_le f64_one c"
  proof -
    have "f64_num c"
      using that by (cases c) (simp_all add: f64_num_def)
    moreover have "f64_key f64_one \<le> f64_key c"
      using that(3) calculation by (simp add: f64_le_key f64_one_num)
    moreover have "0 < f64_key f64_one"
      by (simp only: f64_one_key) simp
    ultimately show ?thesis
      unfolding f64_nonneg_def by linarith
  qed
  ultimately show "f64_ok c \<Longrightarrow> ?thesis"
    by (simp add: fusion_rank_constant_def)
qed

lemma contribution_nonneg:
  assumes "f64_ok c" and "f64_nonneg raw" and "f64_finite raw"
  shows "f64_nonneg (rrf_contribution (fusion_rank_constant c) r raw)"
  unfolding rrf_contribution_def
proof (rule f64_div_nonneg [OF assms(2,3)])
  have n: "f64_nonneg (f64_of_nat (max r 1))"
    unfolding f64_of_nat_def by (rule f64_round_nonneg) simp
  show "f64_nonneg (f64_add (fusion_rank_constant c) (f64_of_nat (max r 1)))"
    using f64_add_nonneg fusion_constant_pos [OF assms(1)] n by blast
  show "f64_add (fusion_rank_constant c) (f64_of_nat (max r 1)) \<noteq> F64Fin s 0" for s
    using f64_add_pos fusion_constant_pos [OF assms(1)] n by blast
qed

section \<open>What an aggregate holds\<close>

lemma entries_group: "(n, r, c) \<in> set (entries_of cs i) \<Longrightarrow> c \<in> group_of cs i \<and> rc_retriever_name c = n"
  by (auto simp: in_entries_of group_of_def candidates_of_def dest!: ranking_members)

lemma group_entries:
  assumes "scores_ok cs" and "c \<in> group_of cs i"
  shows "\<exists>n r d. (n, r, d) \<in> set (entries_of cs i) \<and> f64_le (rc_raw_score c) (rc_raw_score d)"
proof -
  let ?n = "rc_retriever_name c"
  have c: "c \<in> set (candidates_of ?n cs)" "?n \<in> set (retriever_names cs)" "rc_id c = i"
    using assms(2) by (auto simp: group_of_def candidates_of_def set_retriever_names)
  obtain r d where "(r, d) \<in> set (retriever_ranking (candidates_of ?n cs))" "rc_id d = i"
    "f64_le (rc_raw_score c) (rc_raw_score d)"
    using ranking_best [of "candidates_of ?n cs" c] candidates_num [OF assms(1)] c by auto
  then show ?thesis using c(2) by (auto simp: in_entries_of)
qed

lemma group_num:
  "scores_ok cs \<Longrightarrow> c \<in> group_of cs i \<Longrightarrow> f64_nonneg (rc_raw_score c) \<and> f64_finite (rc_raw_score c)"
  using usable_num [of "rc_raw_score c"] by (auto simp: group_of_def scores_ok_def f64_nonneg_def usable_score_def)

definition aggregate_fits :: "f64 \<Rightarrow> 'n retrieval_candidate list \<Rightarrow> u64 \<Rightarrow> 'n fusion_aggregate \<Rightarrow> bool" where
  "aggregate_fits k cs i a \<longleftrightarrow>
     fa_id a = i \<and> fa_memory a \<in> rc_memory ` group_of cs i \<and>
     fa_retrievers a = sorted_list_of_set (rc_retriever_name ` group_of cs i) \<and>
     fa_dominant_retriever a \<in> set (fa_retrievers a) \<and>
     fa_raw_score a \<in> rc_raw_score ` group_of cs i \<and>
     (\<forall>c \<in> group_of cs i. f64_le (rc_raw_score c) (fa_raw_score a)) \<and>
     fa_rrf_score a = rrf_sum k cs i"

lemma aggregate_fits:
  assumes ok: "scores_ok cs" and c: "f64_ok c" and a: "hm_get (fusion_aggregates (fusion_rank_constant c) cs) i = Some a"
  shows "aggregate_fits (fusion_rank_constant c) cs i a \<and> f64_num (fa_rrf_score a) \<and> f64_num (fa_raw_score a)"
proof -
  let ?k = "fusion_rank_constant c"
  obtain n r d es where es: "entries_of cs i = (n, r, d) # es"
    and a_eq: "a = fold (next_entry ?k) es (new_aggregate ?k n r (rc_memory d) (rc_raw_score d))"
    using a by (auto simp: aggregates_get aggregate_of_def first_entry_def split: list.splits)
  let ?a0 = "new_aggregate ?k n r (rc_memory d) (rc_raw_score d)"
  note facts = next_entries [where k = ?k and es = es and a = ?a0, folded a_eq]
  have new: "fa_memory ?a0 = rc_memory d" "fa_raw_score ?a0 = rc_raw_score d"
    "fa_rrf_score ?a0 = rrf_contribution ?k r (rc_raw_score d)"
    "fa_dominant_retriever ?a0 = n" "fa_retrievers ?a0 = [n]"
    by (simp_all add: new_aggregate_def Let_def)
  have d: "d \<in> group_of cs i"
    using entries_group [of n r d cs i] es by simp
  have names: "set (fa_retrievers a) = rc_retriever_name ` group_of cs i"
    using facts(3) entry_names [of cs i] new es by (simp add: group_of_def)
  have sorted: "fa_retrievers a = sorted_list_of_set (rc_retriever_name ` group_of cs i)"
    using facts(4) new names [symmetric] sorted_list_of_set.idem_if_sorted_distinct [of "fa_retrievers a"]
    by (simp add: bs_ok_def strict_sorted_iff)
  have raws: "\<forall>y \<in> insert (rc_raw_score d) (set (map (\<lambda>(n, r, c). rc_raw_score c) es)). f64_num y"
    using entries_group [of _ _ _ cs i] group_num [OF ok] es by (fastforce simp: f64_nonneg_def)
  note max = max_of_numbers [of "rc_raw_score d" "map (\<lambda>(n, r, c). rc_raw_score c) es"]
  have raw: "fa_raw_score a \<in> rc_raw_score ` group_of cs i" "f64_num (fa_raw_score a)"
    "\<forall>e \<in> set (entries_of cs i). f64_le (rc_raw_score (snd (snd e))) (fa_raw_score a)"
  proof -
    have m: "foldl f64_max (rc_raw_score d) (map (\<lambda>(n, r, c). rc_raw_score c) es) = fa_raw_score a"
      using facts(6) new by simp
    show "f64_num (fa_raw_score a)"
      using max raws m by simp
    show "\<forall>e \<in> set (entries_of cs i). f64_le (rc_raw_score (snd (snd e))) (fa_raw_score a)"
      using max raws m by (force simp: es)
    have "fa_raw_score a \<in> insert (rc_raw_score d) (set (map (\<lambda>(n, r, c). rc_raw_score c) es))"
      using max raws m by simp
    then show "fa_raw_score a \<in> rc_raw_score ` group_of cs i"
      using d entries_group [of _ _ _ cs i] es by fastforce
  qed
  have sum: "fa_rrf_score a = rrf_sum ?k cs i"
    using facts(2) new by (simp add: rrf_sum_def es)
  have contributions: "\<forall>y \<in> set (map (\<lambda>(n, r, c). rrf_contribution ?k r (rc_raw_score c)) (entries_of cs i)). f64_nonneg y"
    using entries_group [of _ _ _ cs i] group_num [OF ok] contribution_nonneg [OF c] by fastforce
  have "f64_nonneg (fa_rrf_score a)"
    using contributions facts(2) new es by (simp add: foldl_add_nonneg)
  then have num: "f64_num (fa_rrf_score a)"
    by (simp add: f64_nonneg_def)
  have le: "f64_le (rc_raw_score x) (fa_raw_score a)" if x: "x \<in> group_of cs i" for x
  proof -
    obtain n' r' y where y: "(n', r', y) \<in> set (entries_of cs i)" "f64_le (rc_raw_score x) (rc_raw_score y)"
      using group_entries [OF ok x] by blast
    then have "f64_le (rc_raw_score y) (fa_raw_score a)"
      using raw(3) by force
    moreover have "f64_num (rc_raw_score x)" "f64_num (rc_raw_score y)"
      using group_num [OF ok x] group_num [OF ok] entries_group [OF y(1)] by (auto simp: f64_nonneg_def)
    ultimately show ?thesis
      using y(2) raw(2) by (simp add: f64_le_key)
  qed
  have "fa_memory a = rc_memory d" and "fa_dominant_retriever a \<in> set (fa_retrievers a)"
    using facts(1,3,5) new by auto
  then show ?thesis
    using d sorted raw(1,2) sum num le by (auto simp: aggregate_fits_def group_of_def)
qed

lemma hm_keys: "fst ` set m = {i. hm_get m i \<noteq> None}"
  by (simp add: hm_get_def map_of_eq_None_iff)

lemma aggregate_ids: "fst ` set (fusion_aggregates k cs) = fused_ids cs"
proof -
  have "fst ` set (fusion_aggregates k cs) = {i. entries_of cs i \<noteq> []}"
    unfolding hm_keys aggregates_get by (auto simp: aggregate_of_def split: list.split)
  also have "\<dots> = {i. fst ` set (entries_of cs i) \<noteq> {}}"
    by simp
  also have "\<dots> = fused_ids cs"
    unfolding entry_names by (auto simp: fused_ids_def)
  finally show ?thesis .
qed

definition fused_aggregates :: "f64 \<Rightarrow> 'n retrieval_candidate list \<Rightarrow> 'n fusion_aggregate list" where
  "fused_aggregates k cs = sort_by aggregate_order (map snd (fusion_aggregates k cs))"

lemma fused_aggregates:
  assumes "scores_ok cs" and "f64_ok c"
  defines "k \<equiv> fusion_rank_constant c"
  shows "\<forall>a \<in> set (fused_aggregates k cs). aggregate_fits k cs (fa_id a) a"
    and "distinct (map fa_id (fused_aggregates k cs))"
    and "set (map fa_id (fused_aggregates k cs)) = fused_ids cs"
    and "sorted_wrt (\<lambda>a b. f64_le (rrf_sum k cs (fa_id b)) (rrf_sum k cs (fa_id a))) (fused_aggregates k cs)"
proof -
  have fits: "aggregate_fits k cs i a \<and> f64_num (fa_rrf_score a) \<and> f64_num (fa_raw_score a)"
    if "(i, a) \<in> set (fusion_aggregates k cs)" for i a
    using that aggregate_fits [OF assms(1,2)] aggregates_ok [of k cs] unfolding k_def by (simp add: hm_get_in)
  then have ids: "map fst (fusion_aggregates k cs) = map fa_id (map snd (fusion_aggregates k cs))"
    by (auto simp: aggregate_fits_def)
  show fits': "\<forall>a \<in> set (fused_aggregates k cs). aggregate_fits k cs (fa_id a) a"
    using fits by (fastforce simp: fused_aggregates_def aggregate_fits_def)
  show "distinct (map fa_id (fused_aggregates k cs))"
    using aggregates_ok [of k cs] ids by (simp add: fused_aggregates_def distinct_sort_by hm_ok_def)
  have "set (map fa_id (fused_aggregates k cs)) = set (map fst (fusion_aggregates k cs))"
    unfolding ids by (simp add: fused_aggregates_def image_image)
  then show "set (map fa_id (fused_aggregates k cs)) = fused_ids cs"
    by (simp only: set_map aggregate_ids)
  have num: "\<forall>a \<in> set (map snd (fusion_aggregates k cs)). f64_num (fa_rrf_score a) \<and> f64_num (fa_raw_score a)"
    using fits by auto
  note best = twice_scored.best_first [of "map snd (fusion_aggregates k cs)" fa_rrf_score fa_raw_score fa_id, OF num]
  have "sorted_wrt (\<lambda>a b. f64_key (fa_rrf_score b) \<le> f64_key (fa_rrf_score a)) (fused_aggregates k cs)"
    using best unfolding fused_aggregates_def aggregate_order_def
    by (simp add: sorted_map, elim sorted_wrt_mono_rel [rotated]) (auto simp: less_eq_prod_def)
  then show "sorted_wrt (\<lambda>a b. f64_le (rrf_sum k cs (fa_id b)) (rrf_sum k cs (fa_id a))) (fused_aggregates k cs)"
  proof (rule sorted_wrt_mono_rel [rotated])
    fix a b assume "a \<in> set (fused_aggregates k cs)" "b \<in> set (fused_aggregates k cs)"
      "f64_key (fa_rrf_score b) \<le> f64_key (fa_rrf_score a)"
    moreover from this have "f64_num (fa_rrf_score a)" "f64_num (fa_rrf_score b)"
      using num by (auto simp: fused_aggregates_def)
    ultimately show "f64_le (rrf_sum k cs (fa_id b)) (rrf_sum k cs (fa_id a))"
      using fits' by (auto simp: aggregate_fits_def f64_le_key)
  qed
qed

end
