(* ===== verification/Retrieval_Text.thy ===== *)
theory Retrieval_Text
  imports Metadata_Filter F64_Ops
begin

text \<open>
  Text as the retrieval crate reads it: the characters of a UTF-8 string, the CJK scripts and
  their bigrams (\<^verbatim>\<open>text.rs\<close>), and the query tokenizer of \<^verbatim>\<open>retrieval/mod.rs\<close>. Unicode's table of
  alphanumeric characters is the parameter \<^verbatim>\<open>alnum\<close>, lower-casing the parameter \<^verbatim>\<open>lower\<close>.
\<close>

section \<open>Characters\<close>

text \<open>\<^verbatim>\<open>str::chars\<close>: decoding the bytes of valid UTF-8; a truncated last character is dropped.\<close>

definition continuation_bits :: "char \<Rightarrow> nat" where
  "continuation_bits c = of_char c mod 64"

fun chars :: "string \<Rightarrow> nat list" where
  "chars [] = []"
| "chars (a # s) =
     (let n = of_char a in
      if n < 0x80 then n # chars s
      else if n < 0xE0 then
        (case s of b # t \<Rightarrow> ((n mod 32) * 64 + continuation_bits b) # chars t | [] \<Rightarrow> [])
      else if n < 0xF0 then
        (case s of b # c # t \<Rightarrow>
            ((n mod 16) * 4096 + continuation_bits b * 64 + continuation_bits c) # chars t | _ \<Rightarrow> [])
      else
        (case s of b # c # d # t \<Rightarrow>
            ((n mod 8) * 262144 + continuation_bits b * 4096 + continuation_bits c * 64 + continuation_bits d) # chars t
         | _ \<Rightarrow> []))"

text \<open>\<^verbatim>\<open>String::push\<close>: encoding one character.\<close>

definition utf8_char :: "nat \<Rightarrow> string" where
  "utf8_char n =
     (if n < 0x80 then [char_of n]
      else if n < 0x800 then [char_of (0xC0 + n div 64), char_of (0x80 + n mod 64)]
      else if n < 0x10000 then
        [char_of (0xE0 + n div 4096), char_of (0x80 + n div 64 mod 64), char_of (0x80 + n mod 64)]
      else
        [char_of (0xF0 + n div 262144), char_of (0x80 + n div 4096 mod 64),
         char_of (0x80 + n div 64 mod 64), char_of (0x80 + n mod 64)])"

definition utf8 :: "nat list \<Rightarrow> string" where
  "utf8 cs = concat (map utf8_char cs)"

text \<open>A value a \<^verbatim>\<open>char\<close> can have.\<close>

definition scalar_value :: "nat \<Rightarrow> bool" where
  "scalar_value n \<longleftrightarrow> n < 0x110000 \<and> (n < 0xD800 \<or> 0xDFFF < n)"

definition white_chars :: "nat list" where
  "white_chars =
     [0x09, 0x0A, 0x0B, 0x0C, 0x0D, 0x20, 0x85, 0xA0, 0x1680, 0x2000, 0x2001, 0x2002, 0x2003, 0x2004,
      0x2005, 0x2006, 0x2007, 0x2008, 0x2009, 0x200A, 0x2028, 0x2029, 0x202F, 0x205F, 0x3000]"

definition is_whitespace :: "nat \<Rightarrow> bool" where
  "is_whitespace c \<longleftrightarrow> c \<in> set white_chars"

lemma continuation_byte: "r < 64 \<Longrightarrow> continuation_bits (char_of (0x80 + r)) = r"
  by (simp add: continuation_bits_def mod_add_eq [of "0x80 :: nat" 64 r, symmetric])

lemma lead_byte: "k < 256 \<Longrightarrow> of_char (char_of k :: char) = (k :: nat)"
  by simp

lemma chars_one: "n < 0x80 \<Longrightarrow> chars (char_of n # s) = n # chars s"
  by (simp add: lead_byte)

lemma chars_two:
  assumes "q < 32" and "r < 64"
  shows "chars (char_of (0xC0 + q) # char_of (0x80 + r) # s) = (q * 64 + r) # chars s"
proof -
  have q: "of_char (char_of (0xC0 + q) :: char) = 0xC0 + q"
    using assms by (intro lead_byte) simp
  have m: "(0xC0 + q) mod 32 = q"
    using assms mod_mult_self4 [of 32 6 q] by simp
  have b: "\<not> 0xC0 + q < 0x80" "0xC0 + q < 0xE0"
    using assms by simp_all
  show ?thesis
    by (subst chars.simps(2)) (simp only: q m b Let_def list.case if_True if_False simp_thms
        continuation_byte [OF assms(2)])
qed

lemma chars_three:
  assumes "q < 16" and "r < 64" and "r' < 64"
  shows "chars (char_of (0xE0 + q) # char_of (0x80 + r) # char_of (0x80 + r') # s) =
    (q * 4096 + r * 64 + r') # chars s"
proof -
  have q: "of_char (char_of (0xE0 + q) :: char) = 0xE0 + q"
    using assms by (intro lead_byte) simp
  have m: "(0xE0 + q) mod 16 = q"
    using assms mod_mult_self4 [of 16 14 q] by simp
  have b: "\<not> 0xE0 + q < 0x80" "\<not> 0xE0 + q < 0xE0" "0xE0 + q < 0xF0"
    using assms by simp_all
  show ?thesis
    by (subst chars.simps(2)) (simp only: q m b Let_def list.case if_True if_False simp_thms
        continuation_byte [OF assms(2)] continuation_byte [OF assms(3)])
qed

lemma chars_four:
  assumes "q < 8" and "r < 64" and "r' < 64" and "r'' < 64"
  shows "chars (char_of (0xF0 + q) # char_of (0x80 + r) # char_of (0x80 + r') # char_of (0x80 + r'') # s) =
    (q * 262144 + r * 4096 + r' * 64 + r'') # chars s"
proof -
  have q: "of_char (char_of (0xF0 + q) :: char) = 0xF0 + q"
    using assms by (intro lead_byte) simp
  have m: "(0xF0 + q) mod 8 = q"
    using assms mod_mult_self4 [of 8 30 q] by simp
  have b: "\<not> 0xF0 + q < 0x80" "\<not> 0xF0 + q < 0xE0" "\<not> 0xF0 + q < 0xF0"
    using assms by simp_all
  show ?thesis
    by (subst chars.simps(2)) (simp only: q m b Let_def list.case if_True if_False simp_thms
        continuation_byte [OF assms(2)] continuation_byte [OF assms(3)] continuation_byte [OF assms(4)])
qed

lemma digits_64:
  fixes n :: nat
  shows "n div 64 * 64 + n mod 64 = n"
    and "n div 4096 * 4096 + n div 64 mod 64 * 64 + n mod 64 = n"
    and "n div 262144 * 262144 + n div 4096 mod 64 * 4096 + n div 64 mod 64 * 64 + n mod 64 = n"
proof -
  show "n div 64 * 64 + n mod 64 = n"
    by simp
  have d: "n div 4096 = n div 64 div 64" "n div 262144 = n div 64 div 64 div 64" "n div 4096 mod 64 = n div 64 div 64 mod 64"
    by (simp_all flip: div_mult2_eq)
  have e: "a * 4096 + b * 64 + c = (a * 64 + b) * 64 + c"
    "a * 262144 + b * 4096 + c * 64 + d = ((a * 64 + b) * 64 + c) * 64 + d" for a b c d :: nat
    by simp_all
  show "n div 4096 * 4096 + n div 64 mod 64 * 64 + n mod 64 = n"
    by (simp only: d(1) e div_mult_mod_eq)
  show "n div 262144 * 262144 + n div 4096 mod 64 * 4096 + n div 64 mod 64 * 64 + n mod 64 = n"
    by (simp only: d(2,3) e div_mult_mod_eq)
qed

lemma chars_utf8_char:
  assumes "n < 0x110000"
  shows "chars (utf8_char n @ s) = n # chars s"
proof -
  consider "n < 0x80" | "0x80 \<le> n" "n < 0x800" | "0x800 \<le> n" "n < 0x10000" | "0x10000 \<le> n"
    by linarith
  then show ?thesis
  proof cases
    case 1
    then show ?thesis by (simp add: utf8_char_def chars_one del: chars.simps)
  next
    case 2
    then have "n div 64 < 32" by simp
    then show ?thesis
      using 2 by (simp add: utf8_char_def chars_two digits_64 del: chars.simps)
  next
    case 3
    then have "n div 4096 < 16" by simp
    then show ?thesis
      using 3 by (simp add: utf8_char_def chars_three digits_64 del: chars.simps)
  next
    case 4
    then have "n div 262144 < 8" using assms by simp
    then show ?thesis
      using 4 by (simp add: utf8_char_def chars_four digits_64 del: chars.simps)
  qed
qed

lemma chars_utf8 [simp]: "list_all scalar_value cs \<Longrightarrow> chars (utf8 cs) = cs"
proof (induction cs)
  case (Cons c cs)
  then show ?case
    using chars_utf8_char [of c "utf8 cs"] by (simp add: utf8_def scalar_value_def)
qed (simp add: utf8_def)

lemma chars_utf8_append: "list_all scalar_value cs \<Longrightarrow> chars (utf8 cs @ s) = cs @ chars s"
proof (induction cs)
  case (Cons c cs)
  then show ?case
    using chars_utf8_char [of c "utf8 cs @ s"] by (simp add: utf8_def scalar_value_def)
qed (simp add: utf8_def)

section \<open>CJK runs\<close>

definition is_cjk :: "nat \<Rightarrow> bool" where
  "is_cjk c \<longleftrightarrow>
     0x3400 \<le> c \<and> c \<le> 0x4DBF \<or> 0x4E00 \<le> c \<and> c \<le> 0x9FFF \<or> 0xF900 \<le> c \<and> c \<le> 0xFAFF \<or>
     0x20000 \<le> c \<and> c \<le> 0x2FA1F \<or> 0x3040 \<le> c \<and> c \<le> 0x30FF \<or> 0xAC00 \<le> c \<and> c \<le> 0xD7A3"

fun bigrams :: "nat list \<Rightarrow> nat list list" where
  "bigrams (a # b # cs) = [a, b] # bigrams (b # cs)"
| "bigrams _ = []"

text \<open>\<^verbatim>\<open>flush_cjk_run\<close>: the tokens it pushes; the run is empty afterwards.\<close>

definition flush_cjk_run :: "nat list \<Rightarrow> string list" where
  "flush_cjk_run run = (if length run = 1 then [utf8 run] else map utf8 (bigrams run))"

text \<open>\<^verbatim>\<open>tokens.retain(|token| seen.insert(token.clone()))\<close>.\<close>

fun retain_first :: "'a set \<Rightarrow> 'a list \<Rightarrow> 'a list" where
  "retain_first seen [] = []"
| "retain_first seen (x # xs) =
     (if x \<in> seen then retain_first seen xs else x # retain_first (insert x seen) xs)"

fun cjk_runs :: "nat list \<Rightarrow> nat list \<Rightarrow> string list" where
  "cjk_runs run [] = flush_cjk_run run"
| "cjk_runs run (c # cs) =
     (if is_cjk c then cjk_runs (run @ [c]) cs else flush_cjk_run run @ cjk_runs [] cs)"

definition cjk_bigrams :: "string \<Rightarrow> string list" where
  "cjk_bigrams s = retain_first {} (cjk_runs [] (chars s))"

lemma retain_first_spec:
  "set (retain_first seen xs) = set xs - seen \<and> distinct (retain_first seen xs)"
  by (induction xs arbitrary: seen) auto

section \<open>Query tokens\<close>

text \<open>The loop of the tokenizers: \<open>word\<close> and \<open>run\<close> are the pending word and CJK run.\<close>

definition push_word :: "nat list \<Rightarrow> string list" where
  "push_word word = (if word = [] then [] else [utf8 word])"

fun mixed_tokens :: "(nat \<Rightarrow> bool) \<Rightarrow> nat list \<Rightarrow> nat list \<Rightarrow> nat list \<Rightarrow> string list" where
  "mixed_tokens wordy word run [] = flush_cjk_run run @ push_word word"
| "mixed_tokens wordy word run (c # cs) =
     (if is_cjk c then push_word word @ mixed_tokens wordy [] (run @ [c]) cs
      else flush_cjk_run run @
        (if wordy c then mixed_tokens wordy (word @ [c]) [] cs
         else push_word word @ mixed_tokens wordy [] [] cs))"

text \<open>\<^verbatim>\<open>split(..).filter(|token| !token.is_empty())\<close>.\<close>

fun words_of :: "(nat \<Rightarrow> bool) \<Rightarrow> nat list \<Rightarrow> nat list \<Rightarrow> string list" where
  "words_of wordy word [] = push_word word"
| "words_of wordy word (c # cs) =
     (if wordy c then words_of wordy (word @ [c]) cs else push_word word @ words_of wordy [] cs)"

definition tokenise_query :: "(nat \<Rightarrow> bool) \<Rightarrow> (string \<Rightarrow> string) \<Rightarrow> string \<Rightarrow> string list" where
  "tokenise_query alnum lower s =
     (let text' = lower (trim s); cs = chars text'
      in if text' = [] then []
         else if list_ex is_cjk cs then retain_first {} (mixed_tokens alnum [] [] cs)
         else words_of alnum [] cs)"

end
