(* ===== verification/Context_Pack.thy ===== *)
theory Context_Pack
  imports Retrieval_Text Contract_Types "HOL-Library.Signed_Division" "HOL-Library.Sublist"
begin

text \<open>
  The context pack (\<^verbatim>\<open>context_pack.rs\<close>): ranked hits are cut to a token budget and near-duplicates
  are left out. Counters are \<^verbatim>\<open>i32\<close>: integers with the wrap-around of release builds.
\<close>

section \<open>Counting tokens\<close>

definition i32_wrap :: "int \<Rightarrow> int" where
  "i32_wrap n = (n + 2 ^ 31) mod 2 ^ 32 - 2 ^ 31"

text \<open>The counters of CJK characters and of other characters that are not white space.\<close>

definition count_char :: "nat \<Rightarrow> int \<times> int \<Rightarrow> int \<times> int" where
  "count_char c counts =
     (case counts of (cjk, other) \<Rightarrow>
        if is_cjk c then (i32_wrap (cjk + 1), other)
        else if \<not> is_whitespace c then (cjk, i32_wrap (other + 1))
        else (cjk, other))"

definition estimate_tokens_from_counts :: "int \<times> int \<Rightarrow> int" where
  "estimate_tokens_from_counts counts =
     (case counts of (cjk, other) \<Rightarrow> i32_wrap (cjk + i32_wrap (other + 3) sdiv 4))"

definition estimate_tokens :: "string \<Rightarrow> int" where
  "estimate_tokens s =
     (if list_all is_whitespace (chars s) then 0
      else estimate_tokens_from_counts (fold count_char (chars s) (0, 0)))"

section \<open>Truncating a text\<close>

text \<open>The loop of \<^verbatim>\<open>truncate_to_token_budget\<close>: \<open>out\<close> holds the characters pushed so far.\<close>

fun push_within :: "int \<Rightarrow> int \<times> int \<Rightarrow> nat list \<Rightarrow> nat list \<Rightarrow> nat list" where
  "push_within budget counts out [] = out"
| "push_within budget counts out (c # cs) =
     (let counts' = count_char c counts
      in if budget < estimate_tokens_from_counts counts' then out
         else push_within budget counts' (out @ [c]) cs)"

definition trim_end_chars :: "nat list \<Rightarrow> nat list" where
  "trim_end_chars cs = rev (dropWhile is_whitespace (rev cs))"

definition truncate_to_token_budget :: "string \<Rightarrow> int \<Rightarrow> string" where
  "truncate_to_token_budget s budget =
     (if budget \<le> 0 then [] else utf8 (trim_end_chars (push_within budget (0, 0) [] (chars s))))"

section \<open>Near-duplicates\<close>

definition near_duplicate_threshold :: f64 where
  "near_duplicate_threshold = f64_lit 85 2"

definition similarity_tokens :: "(nat \<Rightarrow> bool) \<Rightarrow> (string \<Rightarrow> string) \<Rightarrow> string \<Rightarrow> string set" where
  "similarity_tokens alnum lower s =
     (let cs = chars (lower s)
      in if list_ex is_cjk cs
         then let ks = filter alnum cs
              in if length ks < 2 then set (map (\<lambda>c. utf8 [c]) ks) else set (map utf8 (bigrams ks))
         else set (words_of alnum [] cs))"

definition jaccard_similarity :: "string set \<Rightarrow> string set \<Rightarrow> f64" where
  "jaccard_similarity l r =
     (if l = {} \<or> r = {} then f64_zero
      else f64_div (f64_of_nat (card (l \<inter> r))) (f64_of_nat (card (l \<union> r))))"

definition near_duplicate :: "string set \<Rightarrow> string set \<Rightarrow> bool" where
  "near_duplicate candidate selected \<longleftrightarrow>
     f64_le near_duplicate_threshold (jaccard_similarity candidate selected)"

definition is_redundant :: "(nat \<Rightarrow> bool) \<Rightarrow> (string \<Rightarrow> string) \<Rightarrow> string \<Rightarrow> string set list \<Rightarrow> bool" where
  "is_redundant alnum lower candidate selected \<longleftrightarrow>
     list_ex (near_duplicate (similarity_tokens alnum lower candidate)) selected"

section \<open>Building the pack\<close>

record pack_fragment =
  pf_memory_id :: string
  pf_canonical_text :: string
  pf_memory_type :: memory_type
  pf_retriever_name :: string
  pf_rank :: i32
  pf_fused_score :: "f64 option"
  pf_truncated :: bool

record pack_state =
  ps_fragments :: "pack_fragment list"
  ps_selected :: "string set list"
  ps_used_tokens :: int
  ps_truncated :: bool
  ps_deduplicated :: nat

definition empty_pack :: pack_state where
  "empty_pack = \<lparr>ps_fragments = [], ps_selected = [], ps_used_tokens = 0, ps_truncated = False, ps_deduplicated = 0\<rparr>"

text \<open>The character \<open>U+2026\<close>.\<close>

definition ellipsis :: string where
  "ellipsis = utf8 [0x2026]"

definition fragment_of :: "'n retrieval_hit_dto \<Rightarrow> 'n contract_memory \<Rightarrow> string \<Rightarrow> bool \<Rightarrow> pack_fragment" where
  "fragment_of h m s short =
     \<lparr>pf_memory_id = u64_text (cm_memory_id m), pf_canonical_text = s, pf_memory_type = cm_memory_type m,
      pf_retriever_name = rh_retriever_name h, pf_rank = rh_result_rank h, pf_fused_score = rh_fused_score h,
      pf_truncated = short\<rparr>"

definition select_fragment :: "(nat \<Rightarrow> bool) \<Rightarrow> (string \<Rightarrow> string) \<Rightarrow> 'n retrieval_hit_dto \<Rightarrow> 'n contract_memory \<Rightarrow>
    string \<Rightarrow> int \<Rightarrow> bool \<Rightarrow> pack_state \<Rightarrow> pack_state" where
  "select_fragment alnum lower h m s tokens short st =
     (if s = [] \<or> tokens \<le> 0 then st
      else st\<lparr>ps_selected := ps_selected st @ [similarity_tokens alnum lower s],
              ps_fragments := ps_fragments st @ [fragment_of h m s short],
              ps_used_tokens := ps_used_tokens st + tokens,
              ps_truncated := ps_truncated st \<or> short\<rparr>)"

definition pack_hit :: "(nat \<Rightarrow> bool) \<Rightarrow> (string \<Rightarrow> string) \<Rightarrow> int \<Rightarrow> 'n retrieval_hit_dto \<Rightarrow> pack_state \<Rightarrow> pack_state" where
  "pack_hit alnum lower budget h st =
     (case rh_memory h of
        None \<Rightarrow> st
      | Some m \<Rightarrow>
          if is_redundant alnum lower (cm_canonical_text m) (ps_selected st)
          then st\<lparr>ps_deduplicated := ps_deduplicated st + 1\<rparr>
          else
            let remaining = budget - ps_used_tokens st;
                original = estimate_tokens (cm_canonical_text m)
            in if remaining \<le> 0 then st\<lparr>ps_truncated := True\<rparr>
               else if original \<le> remaining
               then select_fragment alnum lower h m (cm_canonical_text m) original False st
               else if remaining < 2 then st\<lparr>ps_truncated := True\<rparr>
               else if ps_fragments st = []
               then let s = truncate_to_token_budget (cm_canonical_text m) (remaining - 1) @ ellipsis
                    in select_fragment alnum lower h m s (estimate_tokens s) True st
               else st\<lparr>ps_truncated := True\<rparr>)"

record context_pack =
  cp_fragments :: "pack_fragment list"
  cp_embedding_optional :: bool
  cp_algorithm :: string
  cp_deduplicated_count :: nat

definition build_context_pack_from_hits :: "(nat \<Rightarrow> bool) \<Rightarrow> (string \<Rightarrow> string) \<Rightarrow> 'n retrieval_hit_dto list \<Rightarrow> int \<Rightarrow>
    context_pack \<times> int \<times> bool" where
  "build_context_pack_from_hits alnum lower hits budget_tokens =
     (let st = fold (pack_hit alnum lower (max budget_tokens 0)) hits empty_pack
      in (\<lparr>cp_fragments = ps_fragments st, cp_embedding_optional = True,
           cp_algorithm = ''ranked_budgeted_dedup'', cp_deduplicated_count = ps_deduplicated st\<rparr>,
          ps_used_tokens st, ps_truncated st))"

section \<open>The counters\<close>

definition text_fits :: "string \<Rightarrow> bool" where
  "text_fits s \<longleftrightarrow> length (chars s) < 2 ^ 31 - 8"

definition plain_counts :: "nat list \<Rightarrow> int \<times> int" where
  "plain_counts cs =
     (int (length (filter is_cjk cs)), int (length (filter (\<lambda>c. \<not> is_cjk c \<and> \<not> is_whitespace c) cs)))"

lemma i32_wrap_small: "- (2 ^ 31) \<le> n \<Longrightarrow> n < 2 ^ 31 \<Longrightarrow> i32_wrap n = n"
  by (simp add: i32_wrap_def)

lemma fold_counts:
  "length cs < 2 ^ 31 - 8 \<Longrightarrow> fold count_char cs (0, 0) = plain_counts cs"
proof (induction cs rule: rev_induct)
  case (snoc c cs)
  have "int (length (filter P cs)) < 2 ^ 31 - 8" for P
  proof -
    have "length (filter P cs) < 2 ^ 31 - 8"
      by (rule le_less_trans [OF length_filter_le]) (use snoc.prems in simp)
    then show ?thesis by simp
  qed
  from this [of is_cjk] this [of "\<lambda>c. \<not> is_cjk c \<and> \<not> is_whitespace c"]
  show ?case
    using snoc by (simp add: plain_counts_def count_char_def i32_wrap_small)
qed (simp add: plain_counts_def)

definition plain_tokens :: "nat list \<Rightarrow> int" where
  "plain_tokens cs = (case plain_counts cs of (cjk, other) \<Rightarrow> cjk + (other + 3) div 4)"

lemma plain_counts_bounds:
  "0 \<le> fst (plain_counts cs)" "0 \<le> snd (plain_counts cs)"
  "fst (plain_counts cs) + snd (plain_counts cs) \<le> int (length cs)"
proof -
  have "length (filter is_cjk cs) + length (filter (\<lambda>c. \<not> is_cjk c \<and> \<not> is_whitespace c) cs) \<le> length cs"
    by (induction cs) auto
  then show "fst (plain_counts cs) + snd (plain_counts cs) \<le> int (length cs)"
    by (simp add: plain_counts_def)
qed (simp_all add: plain_counts_def)

lemma estimate_counts:
  assumes "length cs < 2 ^ 31 - 8"
  shows "estimate_tokens_from_counts (fold count_char cs (0, 0)) = plain_tokens cs"
proof -
  obtain a b where ab: "plain_counts cs = (a, b)" by (cases "plain_counts cs")
  then have "0 \<le> a" "0 \<le> b" "a + b \<le> int (length cs)"
    using plain_counts_bounds [of cs] by simp_all
  then have "0 \<le> a" "0 \<le> b" "a + b < 2 ^ 31 - 8"
    using assms by (simp_all only: of_nat_less_iff [where 'a = int, symmetric]) simp_all
  moreover from this have "(b + 3) sdiv 4 = (b + 3) div 4"
    by (simp add: signed_divide_int_def)
  ultimately show ?thesis
    unfolding fold_counts [OF assms] plain_tokens_def ab estimate_tokens_from_counts_def
    by (simp add: i32_wrap_small)
qed

lemma plain_tokens_blank: "list_all is_whitespace cs \<Longrightarrow> plain_tokens cs = 0"
proof -
  have "\<not> is_cjk c" if "is_whitespace c" for c
    using that by (auto simp: is_whitespace_def white_chars_def is_cjk_def)
  then show "list_all is_whitespace cs \<Longrightarrow> ?thesis"
    by (auto simp: plain_tokens_def plain_counts_def list_all_iff filter_empty_conv)
qed

text \<open>The special case of a blank text is no special case.\<close>

lemma estimate_tokens_plain: "text_fits s \<Longrightarrow> estimate_tokens s = plain_tokens (chars s)"
  by (auto simp: estimate_tokens_def plain_tokens_blank text_fits_def estimate_counts)

end
