(* ===== verification/Pack_Laws.thy ===== *)
theory Pack_Laws
  imports Context_Pack
begin

text \<open>
  The loop invariant of the context pack: what a selected fragment is, that the selection stays
  within the budget and free of near-duplicates, and what an untruncated pack covers.
\<close>

section \<open>Truncation\<close>

lemma plain_counts_append:
  "plain_counts (xs @ ys) = (fst (plain_counts xs) + fst (plain_counts ys), snd (plain_counts xs) + snd (plain_counts ys))"
  by (simp add: plain_counts_def)

lemma plain_tokens_append_le: "plain_tokens xs \<le> plain_tokens (xs @ ys)"
  using plain_counts_bounds [of ys]
  by (simp add: plain_tokens_def plain_counts_append case_prod_unfold add_mono zdiv_mono1)

lemma plain_tokens_Nil [simp]: "plain_tokens [] = 0"
  by (simp add: plain_tokens_def plain_counts_def)

lemma plain_tokens_ellipsis: "plain_tokens (cs @ [0x2026]) \<le> plain_tokens cs + 1"
proof -
  have "plain_counts [0x2026] = (0, 1)"
    by (simp add: plain_counts_def is_cjk_def is_whitespace_def white_chars_def)
  then show ?thesis
    by (simp add: plain_tokens_def plain_counts_append case_prod_unfold)
qed

lemma plain_tokens_trim [simp]: "plain_tokens (trim_end_chars cs) = plain_tokens cs"
proof -
  let ?w = "takeWhile is_whitespace (rev cs)"
  have "\<forall>c \<in> set ?w. is_whitespace c \<and> \<not> is_cjk c"
  proof
    fix c assume "c \<in> set ?w"
    then have "is_whitespace c"
      by (rule set_takeWhileD [THEN conjunct2])
    then show "is_whitespace c \<and> \<not> is_cjk c"
      by (auto simp: is_whitespace_def white_chars_def is_cjk_def)
  qed
  then have w: "plain_counts (rev ?w) = (0, 0)"
    by (auto simp: plain_counts_def filter_empty_conv)
  have "cs = trim_end_chars cs @ rev ?w"
    unfolding trim_end_chars_def by (metis rev_append rev_rev_ident takeWhile_dropWhile_id)
  then have "plain_counts cs = plain_counts (trim_end_chars cs)"
    using plain_counts_append [of "trim_end_chars cs" "rev ?w"] w by simp
  then show ?thesis by (simp only: plain_tokens_def)
qed

text \<open>The loop pushes the longest prefix within the budget.\<close>

lemma push_within_prefix:
  assumes "length (out @ cs) < 2 ^ 31 - 8" and "counts = fold count_char out (0, 0)"
    and "plain_tokens out \<le> budget"
  shows "\<exists>p q. cs = p @ q \<and> push_within budget counts out cs = out @ p \<and> plain_tokens (out @ p) \<le> budget \<and>
    (q \<noteq> [] \<longrightarrow> budget < plain_tokens (out @ p @ [hd q]))"
  using assms
proof (induction cs arbitrary: out counts)
  case (Cons c cs)
  have counts: "count_char c counts = fold count_char (out @ [c]) (0, 0)"
    using Cons.prems(2) by simp
  have tokens: "estimate_tokens_from_counts (count_char c counts) = plain_tokens (out @ [c])"
    unfolding counts using Cons.prems(1) by (intro estimate_counts) simp
  show ?case
  proof (cases "budget < plain_tokens (out @ [c])")
    case True
    then show ?thesis
      using Cons.prems(3) tokens by (intro exI [of _ "[]"] exI [of _ "c # cs"]) (simp add: Let_def)
  next
    case False
    then obtain p q where pq: "cs = p @ q" "push_within budget (count_char c counts) (out @ [c]) cs = (out @ [c]) @ p"
      "plain_tokens ((out @ [c]) @ p) \<le> budget" "q \<noteq> [] \<longrightarrow> budget < plain_tokens ((out @ [c]) @ p @ [hd q])"
      using Cons.IH [of "out @ [c]" "count_char c counts"] counts Cons.prems(1) by auto
    then show ?thesis
      using False tokens by (intro exI [of _ "c # p"] exI [of _ q]) (simp add: Let_def)
  qed
qed simp

text \<open>The rescanning loop the incremental one replaced.\<close>

fun push_rescanning :: "int \<Rightarrow> nat list \<Rightarrow> nat list \<Rightarrow> nat list" where
  "push_rescanning budget out [] = out"
| "push_rescanning budget out (c # cs) =
     (if budget < estimate_tokens (utf8 (out @ [c])) then out else push_rescanning budget (out @ [c]) cs)"

lemma incremental_matches_rescan:
  assumes "length (out @ cs) < 2 ^ 31 - 8" and "counts = fold count_char out (0, 0)"
    and "list_all scalar_value (out @ cs)"
  shows "push_within budget counts out cs = push_rescanning budget out cs"
  using assms
proof (induction cs arbitrary: out counts)
  case (Cons c cs)
  have "estimate_tokens_from_counts (count_char c counts) = plain_tokens (out @ [c])"
    using Cons.prems(1) estimate_counts [of "out @ [c]"] by (simp add: Cons.prems(2))
  moreover have "estimate_tokens (utf8 (out @ [c])) = plain_tokens (out @ [c])"
    using Cons.prems(1,3) by (subst estimate_tokens_plain) (simp_all add: text_fits_def)
  ultimately show ?case
    using Cons.IH [of "out @ [c]" "count_char c counts"] Cons.prems by (simp add: Let_def)
qed simp

definition valid_text :: "string \<Rightarrow> bool" where
  "valid_text s \<longleftrightarrow> (\<exists>cs. list_all scalar_value cs \<and> s = utf8 cs) \<and> text_fits s"

lemma set_trim_end_chars: "set (trim_end_chars cs) \<subseteq> set cs"
  by (auto simp: trim_end_chars_def dest: set_dropWhileD)

lemma truncated_text:
  assumes "valid_text s" and "0 < budget" and "budget < estimate_tokens s"
  shows "\<exists>p q. chars s = p @ q \<and> q \<noteq> [] \<and> truncate_to_token_budget s budget = utf8 (trim_end_chars p) \<and>
    plain_tokens p \<le> budget \<and> budget < plain_tokens (p @ [hd q]) \<and>
    estimate_tokens (utf8 (trim_end_chars p) @ ellipsis) = plain_tokens (trim_end_chars p @ [0x2026])"
proof -
  have fits: "text_fits s" and len: "length (chars s) < 2 ^ 31 - 8"
    using assms(1) by (simp_all add: valid_text_def text_fits_def)
  have scalar: "list_all scalar_value (chars s)"
    using assms(1) by (auto simp: valid_text_def)
  have "\<exists>p q. chars s = p @ q \<and> push_within budget (0, 0) [] (chars s) = p \<and> plain_tokens p \<le> budget \<and>
      (q \<noteq> [] \<longrightarrow> budget < plain_tokens (p @ [hd q]))"
    using push_within_prefix [of "[]" "chars s" "(0, 0)" budget] len assms(2) by simp
  then obtain p q where pq: "chars s = p @ q" "push_within budget (0, 0) [] (chars s) = p" "plain_tokens p \<le> budget"
    "q \<noteq> [] \<longrightarrow> budget < plain_tokens (p @ [hd q])"
    by blast
  have "q \<noteq> []"
    using pq assms(3) estimate_tokens_plain [OF fits] by auto
  have "length (trim_end_chars p) \<le> length p"
    using length_dropWhile_le [of is_whitespace "rev p"] by (simp add: trim_end_chars_def)
  moreover have "length p < length (chars s)"
    using pq(1) \<open>q \<noteq> []\<close> by simp
  ultimately have "length (trim_end_chars p @ [0x2026]) < 2 ^ 31 - 8"
    using len by simp
  moreover have "list_all scalar_value (trim_end_chars p)"
    using scalar set_trim_end_chars [of p] by (auto simp: pq(1) list_all_iff)
  moreover from this have c: "chars (utf8 (trim_end_chars p) @ ellipsis) = trim_end_chars p @ [0x2026]"
    by (simp add: chars_utf8_append ellipsis_def scalar_value_def)
  ultimately have "estimate_tokens (utf8 (trim_end_chars p) @ ellipsis) = plain_tokens (trim_end_chars p @ [0x2026])"
    by (subst estimate_tokens_plain) (simp_all add: text_fits_def)
  then show ?thesis
    using pq \<open>q \<noteq> []\<close> assms(2) by (intro exI [of _ p] exI [of _ q]) (simp add: truncate_to_token_budget_def)
qed

section \<open>The invariant\<close>

text \<open>A fragment holds the text of its memory, or a proper prefix of it with an ellipsis.\<close>

definition fragment_from :: "'n retrieval_hit_dto \<Rightarrow> pack_fragment \<Rightarrow> bool" where
  "fragment_from h f \<longleftrightarrow>
     (\<exists>m. rh_memory h = Some m \<and>
        (f = fragment_of h m (cm_canonical_text m) False \<or>
         (\<exists>p q. chars (cm_canonical_text m) = p @ q \<and> q \<noteq> [] \<and>
            f = fragment_of h m (utf8 (trim_end_chars p) @ ellipsis) True)))"

definition fragment_tokens :: "pack_fragment \<Rightarrow> int" where
  "fragment_tokens f = estimate_tokens (pf_canonical_text f)"

definition fragment_words :: "(nat \<Rightarrow> bool) \<Rightarrow> (string \<Rightarrow> string) \<Rightarrow> pack_fragment \<Rightarrow> string set" where
  "fragment_words alnum lower f = similarity_tokens alnum lower (pf_canonical_text f)"

definition no_near_duplicates :: "(nat \<Rightarrow> bool) \<Rightarrow> (string \<Rightarrow> string) \<Rightarrow> pack_fragment list \<Rightarrow> bool" where
  "no_near_duplicates alnum lower fs \<longleftrightarrow>
     sorted_wrt (\<lambda>f g. \<not> near_duplicate (fragment_words alnum lower g) (fragment_words alnum lower f)) fs"

text \<open>A memory is in the pack in full, or near something in it, or blank.\<close>

definition covered :: "(nat \<Rightarrow> bool) \<Rightarrow> (string \<Rightarrow> string) \<Rightarrow> pack_fragment list \<Rightarrow> 'n contract_memory \<Rightarrow> bool" where
  "covered alnum lower fs m \<longleftrightarrow>
     estimate_tokens (cm_canonical_text m) = 0 \<or>
     (\<exists>f \<in> set fs. near_duplicate (similarity_tokens alnum lower (cm_canonical_text m)) (fragment_words alnum lower f)) \<or>
     (\<exists>f \<in> set fs. pf_memory_id f = u64_text (cm_memory_id m) \<and> pf_canonical_text f = cm_canonical_text m)"

definition pack_inv :: "(nat \<Rightarrow> bool) \<Rightarrow> (string \<Rightarrow> string) \<Rightarrow> int \<Rightarrow> 'n retrieval_hit_dto list \<Rightarrow> pack_state \<Rightarrow> bool" where
  "pack_inv alnum lower budget hs st \<longleftrightarrow>
     ps_used_tokens st = sum_list (map fragment_tokens (ps_fragments st)) \<and> ps_used_tokens st \<le> budget \<and>
     (\<forall>f \<in> set (ps_fragments st). 0 < fragment_tokens f) \<and>
     ps_selected st = map (fragment_words alnum lower) (ps_fragments st) \<and>
     (\<exists>ks. subseq ks hs \<and> list_all2 fragment_from ks (ps_fragments st)) \<and>
     (\<forall>f \<in> set (tl (ps_fragments st)). \<not> pf_truncated f) \<and>
     no_near_duplicates alnum lower (ps_fragments st) \<and>
     (\<forall>f \<in> set (ps_fragments st). pf_truncated f \<longrightarrow> ps_truncated st) \<and>
     (\<not> ps_truncated st \<longrightarrow>
       (\<forall>h \<in> set hs. \<forall>m. rh_memory h = Some m \<longrightarrow> covered alnum lower (ps_fragments st) m))"

lemma covered_append: "covered alnum lower fs m \<Longrightarrow> covered alnum lower (fs @ gs) m"
  by (auto simp: covered_def)

lemma pack_inv_empty: "0 \<le> budget \<Longrightarrow> pack_inv alnum lower budget [] empty_pack"
  by (simp add: pack_inv_def empty_pack_def no_near_duplicates_def)

text \<open>A hit that leaves the selection as it is.\<close>

lemma pack_inv_skip:
  assumes "pack_inv alnum lower budget hs st"
    and "ps_fragments st' = ps_fragments st" and "ps_selected st' = ps_selected st"
    and "ps_used_tokens st' = ps_used_tokens st" and "ps_truncated st \<longrightarrow> ps_truncated st'"
    and "\<not> ps_truncated st' \<longrightarrow> (\<forall>m. rh_memory h = Some m \<longrightarrow> covered alnum lower (ps_fragments st) m)"
  shows "pack_inv alnum lower budget (hs @ [h]) st'"
proof -
  have "\<exists>ks. subseq ks (hs @ [h]) \<and> list_all2 fragment_from ks (ps_fragments st)"
    using assms(1) by (auto simp: pack_inv_def intro: list_emb_prefix)
  then show ?thesis
    using assms by (auto simp: pack_inv_def)
qed

text \<open>A hit that is selected.\<close>

lemma pack_inv_select:
  assumes inv: "pack_inv alnum lower budget hs st" and m: "rh_memory h = Some m"
    and new: "\<not> is_redundant alnum lower (cm_canonical_text m) (ps_selected st)"
    and f: "fragment_from h (fragment_of h m s short)"
    and tokens: "0 < estimate_tokens s" "ps_used_tokens st + estimate_tokens s \<le> budget"
    and full: "\<not> short \<longrightarrow> s = cm_canonical_text m" and first: "short \<longrightarrow> ps_fragments st = []"
    and s: "s \<noteq> []"
  shows "pack_inv alnum lower budget (hs @ [h]) (select_fragment alnum lower h m s (estimate_tokens s) short st)"
proof -
  let ?f = "fragment_of h m s short"
  have f_simps: "pf_canonical_text ?f = s" "pf_truncated ?f = short" "pf_memory_id ?f = u64_text (cm_memory_id m)"
    by (simp_all add: fragment_of_def)
  have eq: "select_fragment alnum lower h m s (estimate_tokens s) short st =
      st\<lparr>ps_selected := ps_selected st @ [fragment_words alnum lower ?f], ps_fragments := ps_fragments st @ [?f],
         ps_used_tokens := ps_used_tokens st + estimate_tokens s, ps_truncated := ps_truncated st \<or> short\<rparr>"
    using tokens(1) s by (simp add: select_fragment_def fragment_words_def f_simps)
  obtain ks where ks: "subseq ks hs" "list_all2 fragment_from ks (ps_fragments st)"
    using inv by (auto simp: pack_inv_def)
  have "subseq (ks @ [h]) (hs @ [h])"
    using ks by simp
  moreover have "list_all2 fragment_from (ks @ [h]) (ps_fragments st @ [?f])"
    using ks f by (intro list_all2_appendI) simp_all
  ultimately have source: "\<exists>ks. subseq ks (hs @ [h]) \<and> list_all2 fragment_from ks (ps_fragments st @ [?f])"
    by blast
  have distinct: "no_near_duplicates alnum lower (ps_fragments st @ [?f])"
  proof (cases short)
    case True
    then show ?thesis
      using first by (simp add: no_near_duplicates_def)
  next
    case False
    then have "\<forall>g \<in> set (ps_fragments st). \<not> near_duplicate (fragment_words alnum lower ?f) (fragment_words alnum lower g)"
      using new full inv by (auto simp: is_redundant_def list_ex_iff pack_inv_def fragment_words_def fragment_of_def)
    then show ?thesis
      using inv by (simp add: no_near_duplicates_def sorted_wrt_append pack_inv_def)
  qed
  have rest: "\<forall>g \<in> set (tl (ps_fragments st @ [?f])). \<not> pf_truncated g"
    using inv first f_simps(2) by (cases "ps_fragments st") (auto simp: pack_inv_def)
  have cover: "\<forall>k \<in> set (hs @ [h]). \<forall>m'. rh_memory k = Some m' \<longrightarrow> covered alnum lower (ps_fragments st @ [?f]) m'"
    if "\<not> (ps_truncated st \<or> short)"
  proof -
    have "covered alnum lower (ps_fragments st @ [?f]) m"
      using full that f_simps by (auto simp: covered_def)
    moreover have "\<forall>k \<in> set hs. \<forall>m'. rh_memory k = Some m' \<longrightarrow> covered alnum lower (ps_fragments st @ [?f]) m'"
      using inv that by (auto simp: pack_inv_def intro!: covered_append)
    ultimately show ?thesis using m by simp
  qed
  show ?thesis
    unfolding eq pack_inv_def using inv tokens source distinct rest cover f_simps
    by (simp add: pack_inv_def fragment_tokens_def)
qed

lemma pack_hit_inv:
  assumes inv: "pack_inv alnum lower budget hs st"
    and valid: "\<forall>m. rh_memory h = Some m \<longrightarrow> valid_text (cm_canonical_text m)"
  shows "pack_inv alnum lower budget (hs @ [h]) (pack_hit alnum lower budget h st)"
proof (cases "rh_memory h")
  case None
  then show ?thesis
    by (intro pack_inv_skip [OF inv]) (simp_all add: pack_hit_def)
next
  case (Some m)
  let ?s = "cm_canonical_text m" and ?r = "budget - ps_used_tokens st"
  have v: "valid_text ?s" and fits: "text_fits ?s"
    using valid Some by (auto simp: valid_text_def)
  have nonneg: "0 \<le> estimate_tokens ?s"
    using estimate_tokens_plain [OF fits] plain_tokens_append_le [of "[]" "chars ?s"] by simp
  show ?thesis
  proof (cases "is_redundant alnum lower ?s (ps_selected st)")
    case True
    then have "covered alnum lower (ps_fragments st) m"
      using inv by (auto simp: is_redundant_def list_ex_iff covered_def pack_inv_def)
    then show ?thesis
      using True Some by (intro pack_inv_skip [OF inv]) (simp_all add: pack_hit_def)
  next
    case new: False
    consider "?r \<le> 0 \<or> ?r < estimate_tokens ?s \<and> (?r < 2 \<or> ps_fragments st \<noteq> [])"
      | "0 < ?r" "estimate_tokens ?s \<le> ?r"
      | "2 \<le> ?r" "?r < estimate_tokens ?s" "ps_fragments st = []"
      by linarith
    then show ?thesis
    proof cases
      case 1
      then have "pack_hit alnum lower budget h st = st\<lparr>ps_truncated := True\<rparr>"
        using new Some by (auto simp: pack_hit_def Let_def)
      then show ?thesis
        by (intro pack_inv_skip [OF inv]) simp_all
    next
      case 2
      then have eq: "pack_hit alnum lower budget h st = select_fragment alnum lower h m ?s (estimate_tokens ?s) False st"
        using new Some by (simp add: pack_hit_def Let_def)
      show ?thesis
      proof (cases "estimate_tokens ?s = 0")
        case True
        then show ?thesis
          unfolding eq by (intro pack_inv_skip [OF inv]) (use Some in \<open>simp_all add: select_fragment_def covered_def\<close>)
      next
        case False
        then have "?s \<noteq> []"
          by (auto simp: estimate_tokens_def)
        then show ?thesis
          unfolding eq using False nonneg 2 new Some
          by (intro pack_inv_select [OF inv Some new]) (auto simp: fragment_from_def)
      qed
    next
      case 3
      let ?t = "truncate_to_token_budget ?s (?r - 1) @ ellipsis"
      obtain p q where pq: "chars ?s = p @ q" "q \<noteq> []" "?t = utf8 (trim_end_chars p) @ ellipsis"
        "plain_tokens p \<le> ?r - 1" "estimate_tokens ?t = plain_tokens (trim_end_chars p @ [0x2026])"
        using truncated_text [OF v, of "?r - 1"] 3 by auto
      have eq: "pack_hit alnum lower budget h st = select_fragment alnum lower h m ?t (estimate_tokens ?t) True st"
        using new Some 3 by (simp add: pack_hit_def Let_def)
      have le: "estimate_tokens ?t \<le> ?r"
        using plain_tokens_ellipsis [of "trim_end_chars p"] pq(4,5) by simp
      have "plain_tokens [0x2026] \<le> plain_tokens (trim_end_chars p @ [0x2026])"
        using plain_counts_bounds [of "trim_end_chars p"]
        by (simp add: plain_tokens_def plain_counts_append case_prod_unfold add_mono zdiv_mono1)
      moreover have "plain_tokens [0x2026] = 1"
        by (simp add: plain_tokens_def plain_counts_def is_cjk_def is_whitespace_def white_chars_def)
      ultimately have pos: "0 < estimate_tokens ?t"
        using pq(5) by simp
      have "fragment_from h (fragment_of h m ?t True)"
        using Some pq(1,2,3) by (auto simp: fragment_from_def)
      then show ?thesis
        unfolding eq using 3 pos le new Some
        by (intro pack_inv_select [OF inv Some new]) (auto simp: ellipsis_def utf8_def utf8_char_def)
    qed
  qed
qed

lemma pack_all_inv:
  assumes "0 \<le> budget" and "\<forall>h \<in> set hs. \<forall>m. rh_memory h = Some m \<longrightarrow> valid_text (cm_canonical_text m)"
  shows "pack_inv alnum lower budget hs (fold (pack_hit alnum lower budget) hs empty_pack)"
  using assms(2)
proof (induction hs rule: rev_induct)
  case Nil
  then show ?case by (simp add: pack_inv_empty assms(1))
next
  case (snoc h hs)
  then show ?case by (simp add: pack_hit_inv)
qed

end
