(* ===== verification/Keyword_Scores.thy ===== *)
theory Keyword_Scores
  imports Retrieval_Text Ranking
begin

text \<open>
  The rule-based lemmatizer of the keyword signal (\<^verbatim>\<open>lemmatization.rs\<close>). A token that takes
  part in suffix stripping is ASCII, so lengths in bytes and in characters agree there.
\<close>

section \<open>Tables\<close>

definition stopwords :: "string list" where
  "stopwords =
    [''a'', ''an'', ''the'', ''and'', ''or'', ''but'', ''if'', ''then'', ''than'', ''so'', ''as'',
     ''at'', ''by'', ''for'', ''from'', ''in'', ''into'', ''of'', ''on'', ''onto'', ''to'',
     ''with'', ''without'', ''is'', ''are'', ''was'', ''were'', ''be'', ''been'', ''being'', ''am'',
     ''do'', ''does'', ''did'', ''have'', ''has'', ''had'', ''it'', ''its'', ''this'', ''that'',
     ''these'', ''those'', ''i'', ''you'', ''he'', ''she'', ''we'', ''they'', ''them'', ''his'',
     ''her'', ''our'', ''their'', ''my'', ''your'']"

definition derivational_suffixes :: "string list" where
  "derivational_suffixes =
    [''tion'', ''sion'', ''ation'', ''ment'', ''ness'', ''ity'', ''ance'', ''ence'', ''ism'',
     ''ist'', ''ize'', ''ise'', ''ology'', ''ship'', ''hood'', ''ward'']"

definition irregulars :: "(string \<times> string) list" where
  "irregulars =
    [(''are'', ''be''), (''was'', ''be''), (''were'', ''be''), (''been'', ''be''),
     (''being'', ''be''), (''am'', ''be''), (''is'', ''be''), (''has'', ''have''),
     (''had'', ''have''), (''having'', ''have''), (''does'', ''do''), (''did'', ''do''),
     (''done'', ''do''), (''doing'', ''do''), (''went'', ''go''), (''gone'', ''go''),
     (''going'', ''go''), (''children'', ''child''), (''men'', ''man''), (''women'', ''woman''),
     (''people'', ''person''), (''feet'', ''foot''), (''teeth'', ''tooth''), (''mice'', ''mouse''),
     (''geese'', ''goose''), (''better'', ''good''), (''best'', ''good''), (''worse'', ''bad''),
     (''worst'', ''bad''), (''more'', ''much''), (''most'', ''much''), (''said'', ''say''),
     (''made'', ''make''), (''took'', ''take''), (''taken'', ''take''), (''gave'', ''give''),
     (''given'', ''give''), (''got'', ''get''), (''gotten'', ''get''), (''ran'', ''run''),
     (''saw'', ''see''), (''seen'', ''see''), (''came'', ''come''), (''became'', ''become'')]"

definition min_stem_len :: nat where
  "min_stem_len = 3"

definition silent_e_stems :: "string list" where
  "silent_e_stems =
    [''mak'', ''tak'', ''giv'', ''com'', ''hav'', ''us'', ''writ'', ''driv'', ''choos'', ''mov'',
     ''lov'', ''lik'', ''serv'', ''creat'', ''manag'', ''sourc'', ''typ'', ''nam'', ''stor'',
     ''updat'', ''remov'', ''delet'', ''merg'', ''split'', ''measur'', ''requir'', ''achiev'',
     ''includ'', ''larg'', ''chang'', ''shar'', ''valu'', ''siz'', ''tim'', ''dat'', ''not'',
     ''quot'', ''defin'', ''describ'', ''prefer'', ''configur'', ''regist'', ''valid'', ''cach'',
     ''handl'', ''compil'', ''rout'', ''resolv'', ''provid'', ''schedul'', ''notifi'', ''encod'',
     ''decod'', ''escap'']"

section \<open>One token\<close>

text \<open>\<^verbatim>\<open>str::ends_with\<close> and \<^verbatim>\<open>str::strip_suffix\<close>.\<close>

definition ends_with :: "string \<Rightarrow> string \<Rightarrow> bool" where
  "ends_with s suffix \<longleftrightarrow> starts_with (rev s) (rev suffix)"

definition strip_suffix :: "string \<Rightarrow> string \<Rightarrow> string option" where
  "strip_suffix s suffix = map_option rev (strip_prefix (rev suffix) (rev s))"

definition is_silent_e_stem :: "string \<Rightarrow> bool" where
  "is_silent_e_stem stem \<longleftrightarrow> stem \<in> set silent_e_stems"

definition ends_with_sibilant :: "string \<Rightarrow> bool" where
  "ends_with_sibilant stem \<longleftrightarrow>
     ends_with stem ''ss'' \<or> ends_with stem ''x'' \<or> ends_with stem ''z'' \<or> ends_with stem ''sh'' \<or> ends_with stem ''ch''"

definition is_stopword :: "string \<Rightarrow> bool" where
  "is_stopword token \<longleftrightarrow> token \<in> set stopwords"

definition acceptable_stem :: "string \<Rightarrow> bool" where
  "acceptable_stem stem \<longleftrightarrow> min_stem_len \<le> length stem \<or> is_silent_e_stem stem"

definition restore_after_suffix_strip :: "string \<Rightarrow> string" where
  "restore_after_suffix_strip stem =
     (let doubled = (2 \<le> length stem \<and> last stem = last (butlast stem));
          genuine = (doubled \<and> last stem \<in> set ''lszf'')
      in if doubled \<and> \<not> genuine then butlast stem
         else if doubled then stem
         else if is_silent_e_stem stem then stem @ ''e''
         else stem)"

text \<open>One rule: the suffix, the test of the stem, and what is made of it.\<close>

definition suffix_rule :: "string \<Rightarrow> string \<Rightarrow> (string \<Rightarrow> bool) \<Rightarrow> (string \<Rightarrow> string) \<Rightarrow> string option \<Rightarrow> string option" where
  "suffix_rule token suffix test f otherwise =
     (case strip_suffix token suffix of
        Some stem \<Rightarrow> if test stem then Some (f stem) else otherwise
      | None \<Rightarrow> otherwise)"

definition strip_suffix_rules :: "string \<Rightarrow> string option" where
  "strip_suffix_rules token =
     (let long = (\<lambda>stem. min_stem_len \<le> length stem);
          singular = (ends_with token ''ss'' \<or> ends_with token ''us'' \<or> ends_with token ''is'')
      in suffix_rule token ''ies'' long (\<lambda>stem. stem @ ''y'')
        (suffix_rule token ''ves'' long (\<lambda>stem. stem @ ''f'')
        (suffix_rule token ''es'' (\<lambda>stem. long stem \<and> ends_with_sibilant stem) (\<lambda>stem. stem)
        (suffix_rule token ''ed'' acceptable_stem restore_after_suffix_strip
        (suffix_rule token ''ing'' acceptable_stem restore_after_suffix_strip
        (suffix_rule token ''est'' long (\<lambda>stem. stem)
        (suffix_rule token ''er'' (\<lambda>stem. long stem \<and> \<not> ends_with stem ''h'') (\<lambda>stem. stem)
        (suffix_rule token ''s'' (\<lambda>stem. \<not> singular \<and> long stem) (\<lambda>stem. stem) None))))))))"

definition is_ascii_alphabetic :: "nat \<Rightarrow> bool" where
  "is_ascii_alphabetic c \<longleftrightarrow> 65 \<le> c \<and> c \<le> 90 \<or> 97 \<le> c \<and> c \<le> 122"

definition lemmatize_token :: "(string \<Rightarrow> string) \<Rightarrow> string \<Rightarrow> string" where
  "lemmatize_token lower token =
     (let lowered = lower token
      in if lowered = [] then lowered
         else case map_of irregulars lowered of
             Some lemma' \<Rightarrow> lemma'
           | None \<Rightarrow>
               if \<not> list_all is_ascii_alphabetic (chars lowered) then lowered
               else if length lowered < min_stem_len then lowered
               else if list_ex (ends_with lowered) derivational_suffixes then lowered
               else (case strip_suffix_rules lowered of Some stem \<Rightarrow> stem | None \<Rightarrow> lowered))"

section \<open>A text\<close>

definition lemma_tokens :: "(nat \<Rightarrow> bool) \<Rightarrow> string \<Rightarrow> string list" where
  "lemma_tokens alnum s = mixed_tokens (\<lambda>c. alnum c \<or> c = 95) [] [] (chars s)"

definition token_lemmas :: "(string \<Rightarrow> string) \<Rightarrow> string \<Rightarrow> string list" where
  "token_lemmas lower token =
     (let lowered = lower token; lemma' = lemmatize_token lower token
      in if is_stopword lowered then []
         else if lemma' = [] then []
         else lemma' # (if ends_with lowered ''ing'' \<and> lemma' \<noteq> lowered then [lowered] else []))"

definition lemmatize_for_bm25 :: "(nat \<Rightarrow> bool) \<Rightarrow> (string \<Rightarrow> string) \<Rightarrow> string \<Rightarrow> string" where
  "lemmatize_for_bm25 alnum lower s =
     join_text '' '' (concat (map (token_lemmas lower) (lemma_tokens alnum s)))"

text \<open>
  Okapi BM25 over a bounded set of documents (\<^verbatim>\<open>bm25.rs\<close>). \<^verbatim>\<open>ln\<close> and \<^verbatim>\<open>exp\<close> of the platform's
  mathematics library are parameters. Counts of terms in memory are natural numbers.
\<close>

section \<open>Terms and the index\<close>

text \<open>\<^verbatim>\<open>split_whitespace\<close> on the characters, without empty pieces.\<close>

definition split_whitespace :: "string \<Rightarrow> string list" where
  "split_whitespace s = words_of (\<lambda>c. \<not> is_whitespace c) [] (chars s)"

definition bm25_terms :: "(string \<Rightarrow> string) \<Rightarrow> string \<Rightarrow> string list" where
  "bm25_terms lower s =
     concat (map (\<lambda>term'. let lowered = lower term'
       in if list_ex is_cjk (chars lowered) then cjk_bigrams lowered
          else if lowered \<noteq> [] then [lowered] else []) (split_whitespace s))"

record bm25_document =
  bd_memory_id :: string
  bd_lemmatized_text :: string

record bm25_index =
  bi_memory_ids :: "string list"
  bi_term_frequencies :: "(string, nat) hmap list"
  bi_document_lengths :: "nat list"
  bi_document_frequency :: "(string, nat) bmap"
  bi_average_document_length :: f64

definition count_term :: "string \<Rightarrow> (string, nat) hmap \<Rightarrow> (string, nat) hmap" where
  "count_term t m = hm_insert t ((case hm_get m t of None \<Rightarrow> 0 | Some n \<Rightarrow> n) + 1) m"

definition term_frequencies :: "string list \<Rightarrow> (string, nat) hmap" where
  "term_frequencies ts = fold count_term ts []"

definition count_document :: "string \<Rightarrow> (string, nat) bmap \<Rightarrow> (string, nat) bmap" where
  "count_document t m = bm_insert t ((case bm_get m t of None \<Rightarrow> 0 | Some n \<Rightarrow> n) + 1) m"

definition document_length :: "(string, nat) hmap \<Rightarrow> nat" where
  "document_length m = sum_list (map snd m)"

definition bm25_fit :: "(string \<Rightarrow> string) \<Rightarrow> bm25_document list \<Rightarrow> bm25_index" where
  "bm25_fit lower ds =
     (let fs = map (\<lambda>d. term_frequencies (bm25_terms lower (bd_lemmatized_text d))) ds;
          lens = map document_length fs
      in \<lparr>bi_memory_ids = map bd_memory_id ds, bi_term_frequencies = fs, bi_document_lengths = lens,
          bi_document_frequency = fold (\<lambda>f m. fold count_document (map fst f) m) fs [],
          bi_average_document_length =
            (if lens = [] then f64_zero
             else f64_div (f64_of_nat (sum_list lens)) (f64_of_nat (length lens)))\<rparr>)"

section \<open>Raw scores\<close>

definition bm25_k1 :: f64 where "bm25_k1 = f64_lit 12 1"

definition bm25_b :: f64 where "bm25_b = f64_lit 75 2"

definition idf :: "(f64 \<Rightarrow> f64) \<Rightarrow> f64 \<Rightarrow> f64 \<Rightarrow> f64" where
  "idf ln document_frequency total_documents =
     (let numerator = f64_add (f64_sub total_documents document_frequency) (f64_lit 5 1);
          denominator = f64_add document_frequency (f64_lit 5 1)
      in if f64_le total_documents f64_zero \<or> f64_le document_frequency f64_zero \<or>
            f64_le numerator f64_zero \<or> f64_le denominator f64_zero
         then f64_zero
         else ln (f64_add f64_one (f64_div numerator denominator)))"

definition term_frequency_saturation :: "f64 \<Rightarrow> f64 \<Rightarrow> f64 \<Rightarrow> f64" where
  "term_frequency_saturation term_frequency len average =
     (let length_ratio = (if f64_lt f64_zero average then f64_div len average else f64_one);
          denominator = f64_add term_frequency
            (f64_mul bm25_k1 (f64_add (f64_sub f64_one bm25_b) (f64_mul bm25_b length_ratio)))
      in if f64_le denominator f64_zero then f64_zero
         else f64_div (f64_mul term_frequency (f64_add bm25_k1 f64_one)) denominator)"

definition term_score :: "(f64 \<Rightarrow> f64) \<Rightarrow> bm25_index \<Rightarrow> (string, nat) hmap \<Rightarrow> nat \<Rightarrow> string \<Rightarrow> f64 \<Rightarrow> f64" where
  "term_score ln ix frequencies len t score =
     (case hm_get frequencies t of
        None \<Rightarrow> score
      | Some tf \<Rightarrow>
          let df = f64_of_nat (case bm_get (bi_document_frequency ix) t of None \<Rightarrow> 0 | Some n \<Rightarrow> n)
          in if f64_eq df f64_zero then score
             else f64_add score (f64_mul (idf ln df (f64_of_nat (length (bi_memory_ids ix))))
               (term_frequency_saturation (f64_of_nat tf) (f64_of_nat len) (bi_average_document_length ix))))"

definition document_score :: "(f64 \<Rightarrow> f64) \<Rightarrow> bm25_index \<Rightarrow> string list \<Rightarrow> (string, nat) hmap \<Rightarrow> nat \<Rightarrow> f64" where
  "document_score ln ix query_terms frequencies len =
     fold (term_score ln ix frequencies len) query_terms f64_zero"

definition bm25_score :: "(f64 \<Rightarrow> f64) \<Rightarrow> bm25_index \<Rightarrow> string list \<Rightarrow> (string \<times> f64) list" where
  "bm25_score ln ix query_terms =
     (if query_terms = [] \<or> bi_memory_ids ix = [] then []
      else sort_by (by_score snd (by_id fst))
        (filter (\<lambda>(i, score). f64_finite score \<and> f64_lt f64_zero score)
          (map (\<lambda>(i, f, len). (i, document_score ln ix query_terms f len))
            (zip (bi_memory_ids ix) (zip (bi_term_frequencies ix) (bi_document_lengths ix))))))"

section \<open>Normalized scores\<close>

definition get_bm25_params :: "string list \<Rightarrow> f64 \<times> f64" where
  "get_bm25_params query_terms =
     (let n = max (length query_terms) 1
      in if n \<le> 3 then (f64_lit 50 1, f64_lit 7 1)
         else if n \<le> 6 then (f64_lit 70 1, f64_lit 6 1)
         else if n \<le> 9 then (f64_lit 90 1, f64_lit 5 1)
         else if n \<le> 15 then (f64_lit 100 1, f64_lit 5 1)
         else (f64_lit 120 1, f64_lit 5 1))"

definition normalize_bm25 :: "(f64 \<Rightarrow> f64) \<Rightarrow> f64 \<Rightarrow> f64 \<Rightarrow> f64 \<Rightarrow> f64" where
  "normalize_bm25 exp raw midpoint steepness =
     (if \<not> f64_finite raw \<or> \<not> f64_finite midpoint \<or> \<not> f64_finite steepness \<or> f64_le steepness f64_zero
      then f64_zero
      else f64_clamp f64_zero f64_one
        (f64_div f64_one (f64_add f64_one (exp (f64_mul (f64_neg steepness) (f64_sub raw midpoint))))))"

definition normalized_keyword_scores :: "(f64 \<Rightarrow> f64) \<Rightarrow> (f64 \<Rightarrow> f64) \<Rightarrow> (string \<Rightarrow> string) \<Rightarrow> string \<Rightarrow>
    bm25_document list \<Rightarrow> (string \<times> f64) list" where
  "normalized_keyword_scores ln exp lower lemmatized_query ds =
     (let query_terms = bm25_terms lower lemmatized_query
      in if query_terms = [] \<or> ds = [] then []
         else let (midpoint, steepness) = get_bm25_params query_terms
              in map (\<lambda>(i, raw). (i, normalize_bm25 exp raw midpoint steepness))
                   (bm25_score ln (bm25_fit lower ds) query_terms))"

end
