(* ===== verification/Additive_Scoring.thy ===== *)
theory Additive_Scoring
  imports Keyword_Scores
begin

text \<open>
  Additive hybrid scoring (\<^verbatim>\<open>scoring.rs\<close>): semantic, keyword and entity signals are summed,
  divided by the largest possible sum and ranked; the threshold gates the semantic score.
\<close>

definition entity_boost_weight :: f64 where
  "entity_boost_weight = f64_lit 5 1"

definition min_internal_fetch_limit :: "32 word" where
  "min_internal_fetch_limit = 60"

definition internal_fetch_multiplier :: "32 word" where
  "internal_fetch_multiplier = 4"

record semantic_candidate =
  sm_memory_id :: string
  sm_semantic_score :: f64

record hybrid_signals =
  hs_bm25_scores :: "(string, f64) bmap"
  hs_entity_boosts :: "(string, f64) bmap"

record score_details =
  sd_semantic_score :: f64
  sd_bm25_score :: f64
  sd_entity_boost :: f64
  sd_raw_score :: f64
  sd_max_possible_score :: f64
  sd_final_score :: f64
  sd_threshold :: f64

record scored_memory_hit =
  sh_memory_id :: string
  sh_score :: f64
  sh_details :: "score_details option"

definition max_possible_score :: "bool \<Rightarrow> bool \<Rightarrow> f64" where
  "max_possible_score has_bm25 has_entity_boost =
     (let total = f64_one;
          total = (if has_bm25 then f64_add total f64_one else total)
      in if has_entity_boost then f64_add total entity_boost_weight else total)"

text \<open>\<^verbatim>\<open>saturating_mul\<close> on \<^verbatim>\<open>u32\<close>.\<close>

definition saturating_mul_u32 :: "32 word \<Rightarrow> 32 word \<Rightarrow> 32 word" where
  "saturating_mul_u32 x y = (if 2 ^ 32 \<le> unat x * unat y then 0xFFFFFFFF else x * y)"

definition internal_fetch_limit :: "32 word \<Rightarrow> 32 word" where
  "internal_fetch_limit top_k = max (saturating_mul_u32 top_k internal_fetch_multiplier) min_internal_fetch_limit"

definition validate_threshold :: "(f64 \<Rightarrow> string) \<Rightarrow> f64 \<Rightarrow> string + unit" where
  "validate_threshold show threshold =
     (if \<not> f64_finite threshold
      then Inl (''memory search threshold must be a finite number, got '' @ show threshold)
      else if \<not> (f64_le f64_zero threshold \<and> f64_le threshold f64_one)
      then Inl (''memory search threshold must be within [0, 1], got '' @ show threshold)
      else Inr ())"

definition sanitize_score :: "f64 \<Rightarrow> f64" where
  "sanitize_score v = (if f64_finite v then v else f64_zero)"

definition signal_score :: "(string, f64) bmap \<Rightarrow> string \<Rightarrow> f64" where
  "signal_score m i = (case bm_get m i of None \<Rightarrow> f64_zero | Some v \<Rightarrow> sanitize_score v)"

definition score_candidate :: "hybrid_signals \<Rightarrow> f64 \<Rightarrow> f64 \<Rightarrow> bool \<Rightarrow> semantic_candidate \<Rightarrow> scored_memory_hit" where
  "score_candidate signals max_possible threshold explain c =
     (let semantic_score = sanitize_score (sm_semantic_score c);
          bm25 = signal_score (hs_bm25_scores signals) (sm_memory_id c);
          entity_boost = signal_score (hs_entity_boosts signals) (sm_memory_id c);
          raw_score = f64_add (f64_add semantic_score bm25) entity_boost;
          final_score = f64_min (f64_div raw_score max_possible) f64_one
      in \<lparr>sh_memory_id = sm_memory_id c, sh_score = final_score,
          sh_details =
            (if explain
             then Some \<lparr>sd_semantic_score = semantic_score, sd_bm25_score = bm25, sd_entity_boost = entity_boost,
                    sd_raw_score = raw_score, sd_max_possible_score = max_possible,
                    sd_final_score = final_score, sd_threshold = threshold\<rparr>
             else None)\<rparr>)"

definition score_and_rank :: "semantic_candidate list \<Rightarrow> hybrid_signals \<Rightarrow> f64 \<Rightarrow> nat \<Rightarrow> bool \<Rightarrow> scored_memory_hit list" where
  "score_and_rank candidates signals threshold top_k explain =
     (if top_k = 0 then []
      else let max_possible = max_possible_score (hs_bm25_scores signals \<noteq> []) (hs_entity_boosts signals \<noteq> [])
           in take top_k (sort_by (by_score sh_score (by_id sh_memory_id))
                (map (score_candidate signals max_possible threshold explain)
                  (filter (\<lambda>c. \<not> f64_lt (sanitize_score (sm_semantic_score c)) threshold) candidates))))"

record additive_score_input =
  as_memory_id :: string
  as_canonical_text :: string
  as_semantic_score :: f64

definition score_candidates_additive :: "(f64 \<Rightarrow> f64) \<Rightarrow> (f64 \<Rightarrow> f64) \<Rightarrow> (nat \<Rightarrow> bool) \<Rightarrow> (string \<Rightarrow> string) \<Rightarrow>
    string \<Rightarrow> additive_score_input list \<Rightarrow> (string, f64) bmap \<Rightarrow> f64 \<Rightarrow> nat \<Rightarrow> bool \<Rightarrow> scored_memory_hit list" where
  "score_candidates_additive ln exp alnum lower query candidates entity_boosts threshold top_k explain =
     (if top_k = 0 \<or> candidates = [] then []
      else
        let documents = map (\<lambda>c. \<lparr>bd_memory_id = as_memory_id c,
              bd_lemmatized_text = lemmatize_for_bm25 alnum lower (as_canonical_text c)\<rparr>) candidates;
            bm25_scores = fold (\<lambda>(i, v) m. bm_insert i v m)
              (normalized_keyword_scores ln exp lower (lemmatize_for_bm25 alnum lower query) documents) [];
            semantic_candidates = map (\<lambda>c. \<lparr>sm_memory_id = as_memory_id c, sm_semantic_score = as_semantic_score c\<rparr>) candidates
        in score_and_rank semantic_candidates
             \<lparr>hs_bm25_scores = bm25_scores, hs_entity_boosts = entity_boosts\<rparr> threshold top_k explain)"

end
