(* ===== verification/Scoring_Laws.thy ===== *)
theory Scoring_Laws
  imports Additive_Scoring
begin

text \<open>
  What the keyword index counts, as a reference definition of Okapi BM25 on lists of terms; and
  the bounds and order of the additive ranking.
\<close>

section \<open>What the index counts\<close>

lemma term_frequencies_get:
  "hm_get (term_frequencies ts) t = (if t \<in> set ts then Some (count_list ts t) else None)"
proof -
  have "hm_get (fold count_term ts m) t =
      (if t \<in> set ts then Some ((case hm_get m t of None \<Rightarrow> 0 | Some n \<Rightarrow> n) + count_list ts t) else hm_get m t)" for m
    by (induction ts arbitrary: m) (auto simp: count_term_def split: option.splits)
  then show ?thesis by (simp add: term_frequencies_def)
qed

lemma term_frequencies_ok: "hm_ok (term_frequencies ts)"
proof -
  have "hm_ok m \<Longrightarrow> hm_ok (fold count_term ts m)" for m
    by (induction ts arbitrary: m) (simp_all add: count_term_def)
  then show ?thesis by (simp add: term_frequencies_def)
qed

lemma document_length_insert:
  "hm_ok m \<Longrightarrow> document_length (hm_insert t ((case hm_get m t of None \<Rightarrow> 0 | Some n \<Rightarrow> n) + 1) m) = document_length m + 1"
  unfolding document_length_def hm_insert_def hm_get_def hm_ok_def
  by (induction m) (auto split: option.splits)

lemma document_length_terms: "document_length (term_frequencies ts) = length ts"
proof -
  have "hm_ok m \<Longrightarrow> document_length (fold count_term ts m) = document_length m + length ts" for m
    by (induction ts arbitrary: m) (simp_all add: count_term_def document_length_insert [simplified])
  then show ?thesis
    by (simp add: term_frequencies_def) (simp add: document_length_def)
qed

lemma count_documents_get:
  assumes "bm_ok m"
  shows "bm_ok (fold count_document ts m) \<and>
    (distinct ts \<longrightarrow> bm_get (fold count_document ts m) t =
      (if t \<in> set ts then Some ((case bm_get m t of None \<Rightarrow> 0 | Some n \<Rightarrow> n) + 1) else bm_get m t))"
  using assms by (induction ts arbitrary: m) (auto simp: count_document_def)

definition documents_with :: "string \<Rightarrow> string list list \<Rightarrow> nat" where
  "documents_with t tss = length (filter (\<lambda>ts. t \<in> set ts) tss)"

lemma document_frequency_get:
  "bm_get (fold (\<lambda>f m. fold count_document (map fst f) m) (map term_frequencies tss) []) t =
    (if documents_with t tss = 0 then None else Some (documents_with t tss))"
proof -
  have keys: "t \<in> set (map fst (term_frequencies ts)) \<longleftrightarrow> t \<in> set ts" for t ts
    using hm_contains_keys [of "term_frequencies ts" t]
    by (simp add: hm_contains_def term_frequencies_get split: if_splits)
  have "bm_ok m \<Longrightarrow> bm_get (fold (\<lambda>f m. fold count_document (map fst f) m) (map term_frequencies tss) m) t =
      (if documents_with t tss = 0 then bm_get m t
       else Some ((case bm_get m t of None \<Rightarrow> 0 | Some n \<Rightarrow> n) + documents_with t tss))" for m
  proof (induction tss arbitrary: m)
    case (Cons ts tss)
    have d: "distinct (map fst (term_frequencies ts))"
      using term_frequencies_ok [of ts] by (simp add: hm_ok_def)
    have step: "bm_ok (fold count_document (map fst (term_frequencies ts)) m)"
      "bm_get (fold count_document (map fst (term_frequencies ts)) m) t =
        (if t \<in> set ts then Some ((case bm_get m t of None \<Rightarrow> 0 | Some n \<Rightarrow> n) + 1) else bm_get m t)"
      using count_documents_get [OF Cons.prems, of "map fst (term_frequencies ts)" t] d keys [of t ts] by auto
    show ?case
      using Cons.IH [OF step(1)] step(2) by (simp add: documents_with_def)
  qed (simp add: documents_with_def)
  from this [of "[]"] show ?thesis by (simp add: bm_ok_def bm_get_def)
qed

section \<open>The reference\<close>

text \<open>Okapi BM25 of a document, from the terms of all documents.\<close>

definition okapi_term :: "(f64 \<Rightarrow> f64) \<Rightarrow> string list list \<Rightarrow> string list \<Rightarrow> string \<Rightarrow> f64" where
  "okapi_term ln tss ts t =
     f64_mul (idf ln (f64_of_nat (documents_with t tss)) (f64_of_nat (length tss)))
       (term_frequency_saturation (f64_of_nat (count_list ts t)) (f64_of_nat (length ts))
         (f64_div (f64_of_nat (sum_list (map length tss))) (f64_of_nat (length tss))))"

definition okapi_score :: "(f64 \<Rightarrow> f64) \<Rightarrow> string list list \<Rightarrow> string list \<Rightarrow> string list \<Rightarrow> f64" where
  "okapi_score ln tss query ts = foldl (\<lambda>s t. f64_add s (okapi_term ln tss ts t)) f64_zero (filter (\<lambda>t. t \<in> set ts) query)"

lemma f64_of_nat_pos: "0 < n \<Longrightarrow> \<not> f64_eq (f64_of_nat n) f64_zero"
proof -
  assume "0 < n"
  then have "2 ^ 1074 * 1 \<le> n * 2 ^ 1074"
    by simp
  then have "2 ^ 1074 \<le> round_ratio (n * 2 ^ 1074) 1"
    using f64_one_mag by (intro round_ratio_ge_quotient) simp_all
  then have "0 < round_ratio (n * 2 ^ 1074) 1"
    by (rule less_le_trans [rotated]) simp
  then show ?thesis
    by (simp add: f64_of_nat_def f64_round_def f64_eq_def Let_def)
qed

lemma document_score_okapi:
  fixes lower :: "string \<Rightarrow> string"
  defines "ts \<equiv> \<lambda>d. bm25_terms lower (bd_lemmatized_text d)"
  assumes "d \<in> set ds"
  shows "document_score ln (bm25_fit lower ds) query (term_frequencies (ts d)) (document_length (term_frequencies (ts d))) =
    okapi_score ln (map ts ds) query (ts d)"
proof -
  let ?ix = "bm25_fit lower ds"
  have fs: "map (\<lambda>d. term_frequencies (bm25_terms lower (bd_lemmatized_text d))) ds = map term_frequencies (map ts ds)"
    by (simp add: ts_def)
  have average: "bi_average_document_length ?ix =
      f64_div (f64_of_nat (sum_list (map length (map ts ds)))) (f64_of_nat (length (map ts ds)))"
    using assms(2) by (cases ds) (simp_all add: bm25_fit_def Let_def comp_def document_length_terms ts_def)
  have df: "bm_get (bi_document_frequency ?ix) t = (if documents_with t (map ts ds) = 0 then None else Some (documents_with t (map ts ds)))" for t
    unfolding bm25_fit_def Let_def fs using document_frequency_get [of "map ts ds" t] by simp
  have n: "length (bi_memory_ids ?ix) = length (map ts ds)"
    by (simp add: bm25_fit_def Let_def)
  have term': "term_score ln ?ix (term_frequencies (ts d)) (document_length (term_frequencies (ts d))) t score =
      (if t \<in> set (ts d) then f64_add score (okapi_term ln (map ts ds) (ts d) t) else score)" for t score
  proof (cases "t \<in> set (ts d)")
    case True
    then have "0 < documents_with t (map ts ds)"
      using assms(2) by (auto simp: documents_with_def filter_empty_conv)
    then show ?thesis
      using True f64_of_nat_pos
      by (simp add: term_score_def term_frequencies_get df n average document_length_terms okapi_term_def Let_def)
  qed (simp add: term_score_def term_frequencies_get)
  have "fold (term_score ln ?ix (term_frequencies (ts d)) (document_length (term_frequencies (ts d)))) query s =
      foldl (\<lambda>s t. f64_add s (okapi_term ln (map ts ds) (ts d) t)) s (filter (\<lambda>t. t \<in> set (ts d)) query)" for s
    by (induction query arbitrary: s) (simp_all add: term')
  then show ?thesis
    by (simp add: document_score_def okapi_score_def)
qed

lemma bm25_score_okapi:
  fixes lower :: "string \<Rightarrow> string"
  defines "ts \<equiv> \<lambda>d. bm25_terms lower (bd_lemmatized_text d)"
  assumes "query \<noteq> []" and "ds \<noteq> []"
  shows "bm25_score ln (bm25_fit lower ds) query =
    sort_by (by_score snd (by_id fst))
      (filter (\<lambda>(i, score). f64_finite score \<and> f64_lt f64_zero score)
        (map (\<lambda>d. (bd_memory_id d, okapi_score ln (map ts ds) query (ts d))) ds))"
proof -
  let ?ix = "bm25_fit lower ds"
  have zip: "zip (bi_memory_ids ?ix) (zip (bi_term_frequencies ?ix) (bi_document_lengths ?ix)) =
      map (\<lambda>d. (bd_memory_id d, term_frequencies (ts d), document_length (term_frequencies (ts d)))) ds"
    by (simp add: bm25_fit_def Let_def ts_def zip_map_map zip_same_conv_map comp_def)
  have scores: "map (\<lambda>(i, f, len). (i, document_score ln ?ix query f len))
        (zip (bi_memory_ids ?ix) (zip (bi_term_frequencies ?ix) (bi_document_lengths ?ix))) =
      map (\<lambda>d. (bd_memory_id d, okapi_score ln (map ts ds) query (ts d))) ds"
    unfolding zip using document_score_okapi [of _ ds ln lower query] by (simp add: ts_def comp_def)
  have "bi_memory_ids ?ix \<noteq> []"
    using assms(3) by (simp add: bm25_fit_def Let_def)
  then show ?thesis
    unfolding bm25_score_def scores using assms(2) by simp
qed

section \<open>Bounds of the normalized score\<close>

lemma f64_clamp_unit: "x \<noteq> F64NaN \<Longrightarrow> f64_ok x \<Longrightarrow>
    f64_le f64_zero (f64_clamp f64_zero f64_one x) \<and> f64_le (f64_clamp f64_zero f64_one x) f64_one"
proof -
  assume "x \<noteq> F64NaN" "f64_ok x"
  then have "f64_num x" "f64_num f64_zero"
    by (simp_all add: f64_num_def)
  moreover have "f64_key f64_zero \<le> f64_key f64_one"
    by (simp add: f64_one_key)
  ultimately show ?thesis
    by (auto simp: f64_clamp_def f64_le_key f64_lt_key f64_one_num)
qed

lemma normalize_unit:
  assumes "\<And>x. x \<noteq> F64NaN \<Longrightarrow> f64_nonneg (exp x)"
  shows "f64_le f64_zero (normalize_bm25 exp raw midpoint steepness) \<and> f64_le (normalize_bm25 exp raw midpoint steepness) f64_one"
proof (cases "f64_finite raw \<and> f64_finite midpoint \<and> f64_finite steepness \<and> \<not> f64_le steepness f64_zero")
  case True
  then obtain s m where st: "steepness = F64Fin s m" "m \<noteq> 0" "\<not> s"
    by (cases steepness) (auto split: if_splits)
  have "f64_mul (f64_neg steepness) (f64_sub raw midpoint) \<noteq> F64NaN"
  proof -
    have "f64_sub raw midpoint \<noteq> F64NaN"
      using True by (cases raw; cases midpoint) (simp_all add: f64_round_def Let_def)
    moreover have "f64_round a b c \<noteq> F64NaN" for a b c
      by (simp add: f64_round_def Let_def)
    ultimately show ?thesis
      by (cases "f64_sub raw midpoint") (simp_all add: st)
  qed
  then have e: "f64_nonneg (exp (f64_mul (f64_neg steepness) (f64_sub raw midpoint)))" (is "f64_nonneg ?e")
    by (rule assms)
  have one: "f64_nonneg f64_one" "f64_finite f64_one" "0 < f64_key f64_one"
    by (simp_all add: f64_nonneg_def f64_one_num f64_one_key) (simp add: f64_one_def)
  have "f64_nonneg (f64_div f64_one (f64_add f64_one ?e))"
    using f64_div_nonneg [OF one(1,2) f64_add_nonneg [OF one(1) e]] f64_add_pos [OF one(1) e one(3)] by blast
  then have "f64_div f64_one (f64_add f64_one ?e) \<noteq> F64NaN" "f64_ok (f64_div f64_one (f64_add f64_one ?e))"
    by (auto simp: f64_nonneg_def f64_num_def)
  then show ?thesis
    using True f64_clamp_unit by (simp add: normalize_bm25_def)
next
  case False
  then have "normalize_bm25 exp raw midpoint steepness = f64_zero"
    by (auto simp: normalize_bm25_def)
  moreover have "f64_le f64_zero f64_one"
    by (simp add: f64_one_def)
  ultimately show ?thesis by simp
qed

section \<open>The additive ranking\<close>

definition admitted_candidate :: "f64 \<Rightarrow> semantic_candidate \<Rightarrow> bool" where
  "admitted_candidate threshold c \<longleftrightarrow> \<not> f64_lt (sanitize_score (sm_semantic_score c)) threshold"

text \<open>Every value of a program is representable.\<close>

definition signal_values_ok :: "(string, f64) bmap \<Rightarrow> bool" where
  "signal_values_ok m \<longleftrightarrow> (\<forall>i v. bm_get m i = Some v \<longrightarrow> f64_ok v)"

definition scoring_inputs_ok :: "semantic_candidate list \<Rightarrow> hybrid_signals \<Rightarrow> bool" where
  "scoring_inputs_ok cs signals \<longleftrightarrow>
     (\<forall>c \<in> set cs. f64_ok (sm_semantic_score c)) \<and>
     signal_values_ok (hs_bm25_scores signals) \<and> signal_values_ok (hs_entity_boosts signals)"

lemma sanitize_ok: "f64_ok v \<Longrightarrow> f64_ok (sanitize_score v) \<and> f64_finite (sanitize_score v)"
  by (simp add: sanitize_score_def)

lemma signal_score_ok: "signal_values_ok m \<Longrightarrow> f64_ok (signal_score m i) \<and> f64_finite (signal_score m i)"
  by (auto simp: signal_score_def signal_values_ok_def sanitize_ok split: option.split)

text \<open>A sum of the active weights: a positive, finite divisor.\<close>

definition small_score :: "nat \<Rightarrow> f64 \<Rightarrow> bool" where
  "small_score k x \<longleftrightarrow> f64_nonneg x \<and> f64_finite x \<and> 0 < f64_key x \<and> f64_key x \<le> 2 ^ k"

lemma small_score_add:
  assumes x: "small_score k x" and y: "small_score k y" and "1074 \<le> k" and "k < 2000"
  shows "small_score (Suc k) (f64_add x y)"
proof -
  obtain s m t n where xy: "x = F64Fin s m" "y = F64Fin t n"
    using x y by (cases x; cases y) (auto simp: small_score_def)
  then have pos: "\<not> s" "\<not> t" "0 < m" "0 < n" and le: "m \<le> 2 ^ k" "n \<le> 2 ^ k"
    using x y by (auto simp: small_score_def split: if_splits simp flip: of_nat_power)
  have "bit_len (2 ^ Suc k) \<le> Suc (Suc k)"
    by (rule bit_len_le) (rule power_strict_increasing, simp_all)
  moreover have "(2::nat) ^ Suc k < f64_limit"
    unfolding f64_limit_def using assms(4) by (intro power_strict_increasing) simp_all
  ultimately have "mag_ok (2 ^ Suc k)"
    using assms(3) unfolding mag_ok_def by (intro conjI le_imp_power_dvd) simp_all
  then have r: "round_ratio (m + n) 1 \<le> 2 ^ Suc k"
    using le by (intro round_ratio_le) simp_all
  then have "\<not> f64_limit \<le> round_ratio (m + n) 1"
    using \<open>2 ^ Suc k < f64_limit\<close> by linarith
  then have eq: "f64_add x y = F64Fin False (round_ratio (m + n) 1)"
    using pos by (simp add: xy Let_def f64_round_def nat_add_distrib nat_int_add)
  have "f64_nonneg (f64_add x y)" and "f64_add x y \<noteq> F64Fin False 0"
    using x y by (auto simp: small_score_def f64_add_nonneg f64_add_pos)
  then show ?thesis
    using r unfolding eq by (simp add: small_score_def flip: of_nat_power of_nat_Suc power_Suc)
qed

lemma small_score_mono: "small_score k x \<Longrightarrow> k \<le> l \<Longrightarrow> small_score l x"
  unfolding small_score_def by (elim conjE, intro conjI order_trans [OF _ power_increasing [of k l "2 :: int"]]) simp_all

lemma small_one: "small_score 1074 f64_one"
  by (simp add: small_score_def f64_nonneg_def f64_one_num f64_one_key) (simp add: f64_one_def)

text \<open>A decimal literal between zero and one: its magnitude lies between any power of two that its value
  reaches and one.\<close>

lemma f64_lit_unit:
  assumes "n \<le> 10 ^ d" and "k \<le> 1074" and "2 ^ k * 10 ^ d \<le> n * 2 ^ 1074"
  shows "\<exists>r. f64_lit n d = F64Fin False r \<and> 2 ^ k \<le> r \<and> r \<le> 2 ^ 1074"
proof -
  have r: "round_ratio (n * 2 ^ 1074) (10 ^ d) \<le> 2 ^ 1074"
    using f64_one_mag assms(1) by (intro round_ratio_le_quotient) simp_all
  have "bit_len (2 ^ k) \<le> k + 1"
    by (rule bit_len_le) (rule power_strict_increasing, simp_all)
  moreover have "(2::nat) ^ k < f64_limit"
    unfolding f64_limit_def using assms(2) by (intro power_strict_increasing) simp_all
  ultimately have "mag_ok (2 ^ k)"
    unfolding mag_ok_def by (intro conjI le_imp_power_dvd) simp_all
  then have "2 ^ k \<le> round_ratio (n * 2 ^ 1074) (10 ^ d)"
    using assms(3) by (intro round_ratio_ge_quotient) simp_all
  moreover have "(2::nat) ^ 1074 < f64_limit"
    unfolding f64_limit_def by (rule power_strict_increasing) simp_all
  then have "\<not> f64_limit \<le> round_ratio (n * 2 ^ 1074) (10 ^ d)"
    using r by linarith
  then have "f64_lit n d = F64Fin False (round_ratio (n * 2 ^ 1074) (10 ^ d))"
    unfolding f64_lit_def f64_round_def Let_def by (simp only: if_False)
  ultimately show ?thesis
    using r by blast
qed

lemma small_boost: "small_score 1074 entity_boost_weight"
proof -
  obtain r where r: "entity_boost_weight = F64Fin False r" "2 ^ 1073 \<le> r" "r \<le> 2 ^ 1074"
    using f64_lit_unit [of 5 1 1073] unfolding entity_boost_weight_def by auto
  have "f64_nonneg entity_boost_weight"
    unfolding entity_boost_weight_def f64_lit_def by (rule f64_round_nonneg) simp
  moreover have "int r \<le> 2 ^ 1074"
    using r(3) by (simp only: of_nat_power of_nat_numeral flip: of_nat_le_iff [where 'a = int])
  moreover have "0 < r"
    using r(2) by (rule less_le_trans [rotated]) simp
  ultimately show ?thesis
    unfolding small_score_def r(1) by (simp only: f64_finite.simps f64_key.simps f64_int.simps if_False of_nat_0_less_iff simp_thms)
qed

lemma max_possible_small: "small_score 1076 (max_possible_score has_bm25 has_entity_boost)"
proof -
  have two: "small_score 1075 (f64_add f64_one f64_one)"
    using small_score_add [OF small_one small_one] by simp
  have "small_score 1075 (f64_add f64_one entity_boost_weight)"
    using small_score_add [OF small_one small_boost] by simp
  moreover have "small_score 1076 (f64_add (f64_add f64_one f64_one) entity_boost_weight)"
    using small_score_add [OF two small_score_mono [OF small_boost, of 1075]] by simp
  ultimately show ?thesis
    using two small_one small_score_mono by (auto simp: max_possible_score_def)
qed

text \<open>A final score is a number and at most one.\<close>

lemma score_candidate_num:
  assumes "f64_ok (sm_semantic_score c)" and "signal_values_ok (hs_bm25_scores signals)"
    and "signal_values_ok (hs_entity_boosts signals)"
  shows "f64_num (sh_score (score_candidate signals (max_possible_score p q) threshold explain c)) \<and>
    f64_le (sh_score (score_candidate signals (max_possible_score p q) threshold explain c)) f64_one"
proof -
  let ?b = "signal_score (hs_bm25_scores signals) (sm_memory_id c)"
  let ?e = "signal_score (hs_entity_boosts signals) (sm_memory_id c)"
  have s: "f64_ok (sanitize_score (sm_semantic_score c))" "f64_finite (sanitize_score (sm_semantic_score c))"
    and b: "f64_ok ?b" "f64_finite ?b" and e: "f64_ok ?e" "f64_finite ?e"
    using assms sanitize_ok signal_score_ok by blast+
  have "f64_num (f64_add (f64_add (sanitize_score (sm_semantic_score c)) ?b) ?e)"
    using f64_add_num f64_finite_num s b e by blast
  then have "f64_num (f64_div (f64_add (f64_add (sanitize_score (sm_semantic_score c)) ?b) ?e) (max_possible_score p q))"
    using max_possible_small [of p q] f64_div_num by (simp add: small_score_def)
  then show ?thesis
    using f64_min_num f64_one_num by (simp add: score_candidate_def Let_def)
qed

text \<open>The ranking as a sorted and cut list of the scored candidates above the threshold.\<close>

definition scored_candidates :: "semantic_candidate list \<Rightarrow> hybrid_signals \<Rightarrow> f64 \<Rightarrow> bool \<Rightarrow> scored_memory_hit list" where
  "scored_candidates cs signals threshold explain =
     map (score_candidate signals (max_possible_score (hs_bm25_scores signals \<noteq> []) (hs_entity_boosts signals \<noteq> []))
       threshold explain) (filter (admitted_candidate threshold) cs)"

definition hit_key :: "scored_memory_hit \<Rightarrow> int desc \<times> string" where
  "hit_key h = (Desc (f64_key (sh_score h)), sh_memory_id h)"

lemma score_and_rank_top:
  assumes "scoring_inputs_ok cs signals"
  shows "score_and_rank cs signals threshold k explain = top_by hit_key k (scored_candidates cs signals threshold explain)"
proof -
  have "\<forall>h \<in> set (scored_candidates cs signals threshold explain). f64_num (sh_score h)"
    using assms score_candidate_num by (auto simp: scored_candidates_def scoring_inputs_ok_def)
  then have "sort_by (by_score sh_score (by_id sh_memory_id)) (scored_candidates cs signals threshold explain) =
      sort_key (\<lambda>h. (Desc (f64_key (sh_score h)), sh_memory_id h)) (scored_candidates cs signals threshold explain)"
    by (rule scored.sort_by_key)
  then show ?thesis
    by (simp add: score_and_rank_def scored_candidates_def admitted_candidate_def [abs_def] top_by_def hit_key_def [abs_def] Let_def)
qed

end
