(* ===== verification/Retrieval_Signals.thy ===== *)
theory Retrieval_Signals
  imports Retrieval_Text Ranking
begin

text \<open>
  The recall signals and their orchestration (\<^verbatim>\<open>retrieval/mod.rs\<close>). Reading a time stamp against the
  clock (\<^verbatim>\<open>age_hours\<close>) and the functions of the platform's mathematics library are parameters.
\<close>

section \<open>Strategies\<close>

datatype memory_retrieval_strategy = Balanced | SearchFirst | EventAware | AdditiveHybrid

fun strategy_code :: "memory_retrieval_strategy \<Rightarrow> string" where
  "strategy_code Balanced = ''balanced''"
| "strategy_code SearchFirst = ''search_first''"
| "strategy_code EventAware = ''event_aware''"
| "strategy_code AdditiveHybrid = ''additive_hybrid''"

definition strategy_parse :: "string \<Rightarrow> string + memory_retrieval_strategy" where
  "strategy_parse value =
     (let s = ascii_lower (trim value)
      in if s = ''balanced'' then Inr Balanced
         else if s = ''search_first'' \<or> s = ''search-first'' then Inr SearchFirst
         else if s = ''event_aware'' \<or> s = ''event-aware'' then Inr EventAware
         else if s = ''additive_hybrid'' \<or> s = ''additive-hybrid'' then Inr AdditiveHybrid
         else Inl (''memory retrieval strategy must be balanced, additive_hybrid, search_first, or event_aware; got '' @ s))"

definition strategies :: "memory_retrieval_strategy list" where
  "strategies = [Balanced, SearchFirst, EventAware, AdditiveHybrid]"

text \<open>\<^verbatim>\<open>{ name: { "weight": w }, .. }\<close>; \<open>num\<close> renders a weight as a JSON number.\<close>

definition weights_json :: "(f64 \<Rightarrow> 'n) \<Rightarrow> (string \<times> f64) list \<Rightarrow> 'n json" where
  "weights_json num ws = JObject (map (\<lambda>(name, w). (name, JObject [(''weight'', JNumber (num w))])) ws)"

fun retriever_profile :: "(f64 \<Rightarrow> 'n) \<Rightarrow> memory_retrieval_strategy \<Rightarrow> 'n json" where
  "retriever_profile num Balanced = weights_json num
     [(''keyword'', f64_one), (''dictionary'', f64_lit 85 2), (''time'', f64_lit 5 1), (''event'', f64_lit 6 1),
      (''sql'', f64_lit 75 2)]"
| "retriever_profile num SearchFirst = weights_json num
     [(''keyword'', f64_one), (''dictionary'', f64_lit 55 2), (''sql'', f64_lit 35 2)]"
| "retriever_profile num EventAware = weights_json num
     [(''event'', f64_one), (''keyword'', f64_lit 8 1), (''time'', f64_lit 65 2), (''dictionary'', f64_lit 4 1),
      (''sql'', f64_lit 2 1)]"
| "retriever_profile num AdditiveHybrid = weights_json num
     [(''keyword'', f64_one), (''vector'', f64_one), (''entity'', f64_lit 8 1)]"

section \<open>Inputs\<close>

record retrieval_record_input =
  ri_memory_id :: string
  ri_subject :: "string option"
  ri_predicate :: "string option"
  ri_object_text :: string
  ri_canonical_text :: string
  ri_created_at :: string

record retrieval_event_input =
  re_memory_id :: "string option"
  re_event_id :: string
  re_payload_text :: string
  re_created_at :: string

record vector_similarity_input =
  vs_memory_id :: string
  vs_similarity :: f64

record entity_boost_input =
  eb_memory_id :: string
  eb_boost :: f64

record orchestrated_candidate =
  oc_record :: retrieval_record_input
  oc_retriever_name :: string
  oc_raw_score :: f64
  oc_rank :: i32

record text_host =
  th_alnum :: "nat \<Rightarrow> bool"
  th_lower :: "string \<Rightarrow> string"
  th_age_hours :: "string \<Rightarrow> int option"
  th_exp2 :: "f64 \<Rightarrow> f64"
  th_sqrt :: "f64 \<Rightarrow> f64"

section \<open>Scores\<close>

definition token_overlap_score :: "string \<Rightarrow> string list \<Rightarrow> f64" where
  "token_overlap_score haystack tokens =
     (if tokens = [] then f64_zero
      else f64_div (f64_of_nat (length (filter (contains_text haystack) tokens))) (f64_of_nat (length tokens)))"

definition keyword_match_score :: "text_host \<Rightarrow> string \<Rightarrow> string \<Rightarrow> f64" where
  "keyword_match_score u query canonical_text =
     (let q = th_lower u (trim query); haystack = th_lower u canonical_text
      in if q = [] then f64_zero
         else if haystack = q then f64_one
         else if contains_text haystack q then f64_lit 85 2
         else token_overlap_score haystack (tokenise_query (th_alnum u) (th_lower u) q))"

definition dictionary_match_score :: "text_host \<Rightarrow> string \<Rightarrow> string option \<Rightarrow> string option \<Rightarrow> string \<Rightarrow> f64" where
  "dictionary_match_score u query subject predicate object_text =
     (let part = (\<lambda>v. case v of None \<Rightarrow> [] | Some s \<Rightarrow> s @ '' '')
      in token_overlap_score (th_lower u (part subject @ part predicate @ object_text))
           (tokenise_query (th_alnum u) (th_lower u) query))"

definition sql_structured_match_score :: "text_host \<Rightarrow> string \<Rightarrow> string option \<Rightarrow> string option \<Rightarrow> f64" where
  "sql_structured_match_score u query subject predicate =
     (let q = th_lower u (trim query)
      in if q = [] then f64_zero
         else
           let equals = (\<lambda>v. case v of None \<Rightarrow> False | Some s \<Rightarrow> th_lower u s = q);
               contains = (\<lambda>t v. case v of None \<Rightarrow> False | Some s \<Rightarrow> contains_text (th_lower u s) t);
               s1 = (if equals subject then f64_max f64_zero f64_one else f64_zero);
               s2 = (if equals predicate then f64_max s1 (f64_lit 95 2) else s1)
           in if list_ex (\<lambda>t. contains t subject \<or> contains t predicate)
                (tokenise_query (th_alnum u) (th_lower u) q)
              then f64_max s2 (f64_lit 8 1) else s2)"

definition recency_score_for_age_hours :: "text_host \<Rightarrow> f64 \<Rightarrow> f64" where
  "recency_score_for_age_hours u age =
     f64_clamp (f64_lit 5 2) f64_one
       (th_exp2 u (f64_div (f64_neg age) (f64_mul (f64_lit 240 1) (f64_lit 70 1))))"

definition time_recency_score :: "text_host \<Rightarrow> string \<Rightarrow> f64" where
  "time_recency_score u created_at =
     (case th_age_hours u created_at of
        None \<Rightarrow> f64_zero
      | Some age \<Rightarrow> if age < 0 then f64_zero else recency_score_for_age_hours u (f64_of_nat (nat age)))"

definition event_match_score :: "text_host \<Rightarrow> string \<Rightarrow> string \<Rightarrow> f64" where
  "event_match_score u query payload_text = keyword_match_score u query payload_text"

text \<open>Vectors hold \<^verbatim>\<open>f32\<close> values, which are \<^verbatim>\<open>f64\<close> values too; \<^verbatim>\<open>sum\<close> starts at minus zero.\<close>

definition f64_sum :: "f64 list \<Rightarrow> f64" where
  "f64_sum xs = foldl f64_add (F64Fin True 0) xs"

definition f64_epsilon :: f64 where
  "f64_epsilon = F64Fin False (2 ^ 1022)"

definition cosine_similarity :: "text_host \<Rightarrow> f64 list \<Rightarrow> f64 list \<Rightarrow> f64" where
  "cosine_similarity u left right =
     (if length left \<noteq> length right \<or> left = [] then f64_zero
      else
        let dot = f64_sum (map2 f64_mul left right);
            norm_left = th_sqrt u (f64_sum (map (\<lambda>a. f64_mul a a) left));
            norm_right = th_sqrt u (f64_sum (map (\<lambda>b. f64_mul b b) right))
        in if f64_le norm_left f64_epsilon \<or> f64_le norm_right f64_epsilon then f64_zero
           else f64_div dot (f64_mul norm_left norm_right))"

definition vector_similarity_score :: "f64 \<Rightarrow> f64" where
  "vector_similarity_score s = (if \<not> f64_finite s then f64_zero else f64_clamp f64_zero f64_one s)"

section \<open>Weights\<close>

text \<open>\<^verbatim>\<open>Value::get\<close> with a key.\<close>

fun json_get :: "'n json \<Rightarrow> string \<Rightarrow> 'n json option" where
  "json_get (JObject ps) k = map_of ps k"
| "json_get v k = None"

definition retriever_weight :: "'n json_host \<Rightarrow> 'n json option \<Rightarrow> string \<Rightarrow> f64 \<Rightarrow> f64" where
  "retriever_weight h profile retriever default_weight =
     (case profile of
        None \<Rightarrow> default_weight
      | Some p \<Rightarrow>
          (case Option.bind (Option.bind (json_get p retriever) (\<lambda>e. json_get e ''weight'')) (as_f64 h) of
             Some w \<Rightarrow> if f64_finite w \<and> f64_lt f64_zero w then w else f64_zero
           | None \<Rightarrow> f64_zero))"

section \<open>Ranked signals\<close>

text \<open>The best score of each memory, as the loop of \<^verbatim>\<open>append_ranked_signal\<close> collects it.\<close>

definition keep_best :: "retrieval_record_input \<times> f64 \<Rightarrow> (string, retrieval_record_input \<times> f64) hmap \<Rightarrow>
    (string, retrieval_record_input \<times> f64) hmap" where
  "keep_best e m =
     (case e of (r, score) \<Rightarrow>
        if \<not> f64_finite score \<or> f64_le score f64_zero then m
        else case hm_get m (ri_memory_id r) of
            None \<Rightarrow> hm_insert (ri_memory_id r) (r, score) m
          | Some existing \<Rightarrow>
              if f64_lt (snd existing) score then hm_insert (ri_memory_id r) (r, score) m else m)"

definition ranked_signal :: "string \<Rightarrow> f64 \<Rightarrow> (retrieval_record_input \<times> f64) list \<Rightarrow> nat \<Rightarrow> orchestrated_candidate list" where
  "ranked_signal retriever_name weight scored top_k =
     (if f64_le weight f64_zero \<or> top_k = 0 then []
      else map (\<lambda>(index, r, score).
             \<lparr>oc_record = r, oc_retriever_name = retriever_name, oc_raw_score = f64_mul score weight,
              oc_rank = of_nat index + 1\<rparr>)
           (enumerate 0 (take top_k
             (sort_by (by_score snd (by_id (\<lambda>e. ri_memory_id (fst e)))) (map snd (fold keep_best scored []))))))"

text \<open>\<^verbatim>\<open>collect::<HashMap<_, _>>()\<close>: a later record replaces an earlier one of the same id.\<close>

definition records_by_id :: "retrieval_record_input list \<Rightarrow> string \<Rightarrow> retrieval_record_input option" where
  "records_by_id rs = map_of (rev (map (\<lambda>r. (ri_memory_id r, r)) rs))"

definition event_record :: "retrieval_event_input \<Rightarrow> retrieval_record_input" where
  "event_record e =
     \<lparr>ri_memory_id = (case re_memory_id e of Some i \<Rightarrow> i | None \<Rightarrow> ''event:'' @ re_event_id e),
      ri_subject = Some ''event'', ri_predicate = Some ''mentions'', ri_object_text = re_payload_text e,
      ri_canonical_text = re_payload_text e, ri_created_at = re_created_at e\<rparr>"

definition record_dictionary_score :: "text_host \<Rightarrow> string \<Rightarrow> retrieval_record_input \<Rightarrow> f64" where
  "record_dictionary_score u query r =
     dictionary_match_score u query (ri_subject r) (ri_predicate r) (ri_object_text r)"

definition time_scores :: "text_host \<Rightarrow> string \<Rightarrow> retrieval_record_input list \<Rightarrow> (retrieval_record_input \<times> f64) list" where
  "time_scores u query rs =
     map (\<lambda>r. (r, time_recency_score u (ri_created_at r)))
       (filter (\<lambda>r. f64_lt f64_zero (f64_max (keyword_match_score u query (ri_canonical_text r))
           (record_dictionary_score u query r)) \<or> is_blank query) rs)"

definition vector_scores :: "retrieval_record_input list \<Rightarrow> vector_similarity_input list \<Rightarrow> (retrieval_record_input \<times> f64) list" where
  "vector_scores rs vs =
     List.map_filter (\<lambda>v. map_option (\<lambda>r. (r, vector_similarity_score (vs_similarity v)))
       (records_by_id rs (vs_memory_id v))) vs"

definition entity_scores :: "retrieval_record_input list \<Rightarrow> entity_boost_input list \<Rightarrow> (retrieval_record_input \<times> f64) list" where
  "entity_scores rs es =
     List.map_filter (\<lambda>e. Option.bind (records_by_id rs (eb_memory_id e)) (\<lambda>r.
       if f64_finite (eb_boost e) \<and> f64_lt f64_zero (eb_boost e)
       then Some (r, f64_min (eb_boost e) f64_one) else None)) es"

definition orchestrate_retrieval_candidates_with_entity_boosts :: "'n json_host \<Rightarrow> text_host \<Rightarrow> string \<Rightarrow>
    retrieval_record_input list \<Rightarrow> retrieval_event_input list \<Rightarrow> vector_similarity_input list \<Rightarrow>
    entity_boost_input list \<Rightarrow> 'n json option \<Rightarrow> nat \<Rightarrow> orchestrated_candidate list" where
  "orchestrate_retrieval_candidates_with_entity_boosts h u query rs es vs bs profile top_k =
     (let weight = retriever_weight h profile
      in ranked_signal ''keyword'' (weight ''keyword'' f64_one)
           (map (\<lambda>r. (r, keyword_match_score u query (ri_canonical_text r))) rs) top_k @
         ranked_signal ''dictionary'' (weight ''dictionary'' (f64_lit 85 2))
           (map (\<lambda>r. (r, record_dictionary_score u query r)) rs) top_k @
         ranked_signal ''sql'' (weight ''sql'' (f64_lit 75 2))
           (map (\<lambda>r. (r, sql_structured_match_score u query (ri_subject r) (ri_predicate r))) rs) top_k @
         ranked_signal ''time'' (weight ''time'' (f64_lit 5 1)) (time_scores u query rs) top_k @
         ranked_signal ''event'' (weight ''event'' (f64_lit 6 1))
           (map (\<lambda>e. (event_record e, event_match_score u query (re_payload_text e))) es) top_k @
         (if f64_lt f64_zero (weight ''vector'' f64_zero)
          then ranked_signal ''vector'' (weight ''vector'' f64_zero) (vector_scores rs vs) top_k else []) @
         (if f64_lt f64_zero (weight ''entity'' f64_zero)
          then ranked_signal ''entity'' (weight ''entity'' f64_zero) (entity_scores rs bs) top_k else []))"

definition orchestrate_retrieval_candidates_with_vector :: "'n json_host \<Rightarrow> text_host \<Rightarrow> string \<Rightarrow>
    retrieval_record_input list \<Rightarrow> retrieval_event_input list \<Rightarrow> vector_similarity_input list \<Rightarrow>
    'n json option \<Rightarrow> nat \<Rightarrow> orchestrated_candidate list" where
  "orchestrate_retrieval_candidates_with_vector h u query rs es vs profile top_k =
     orchestrate_retrieval_candidates_with_entity_boosts h u query rs es vs [] profile top_k"

definition orchestrate_retrieval_candidates :: "'n json_host \<Rightarrow> text_host \<Rightarrow> string \<Rightarrow>
    retrieval_record_input list \<Rightarrow> retrieval_event_input list \<Rightarrow> 'n json option \<Rightarrow> nat \<Rightarrow> orchestrated_candidate list" where
  "orchestrate_retrieval_candidates h u query rs es profile top_k =
     orchestrate_retrieval_candidates_with_entity_boosts h u query rs es [] [] profile top_k"

end
