(* ===== verification/Retrieval_Properties.thy ===== *)
theory Retrieval_Properties
  imports Fusion_Laws Pack_Laws Scoring_Laws Retrieval_Signals
begin

text \<open>
  The properties of the retrieval crate: the fusion of the retrievers' lists, the context pack,
  keyword scores, the additive ranking and the recall signals.
\<close>

section \<open>Fusion\<close>

abbreviation fh_id :: "'n fused_retrieval_hit \<Rightarrow> u64" where
  "fh_id h \<equiv> cm_memory_id (fh_memory h)"

text \<open>What a fused hit says, in terms of the usable candidates of its memory.\<close>

definition hit_fits :: "(f64 \<Rightarrow> f64) \<Rightarrow> f64 \<Rightarrow> 'n retrieval_candidate list \<Rightarrow> 'n fused_retrieval_hit \<Rightarrow> bool" where
  "hit_fits exp k cs h \<longleftrightarrow>
     fh_memory h \<in> rc_memory ` group_of cs (fh_id h) \<and>
     fh_retrievers h = sorted_list_of_set (rc_retriever_name ` group_of cs (fh_id h)) \<and>
     fh_retriever_name h \<in> set (fh_retrievers h) \<and>
     fh_raw_score h \<in> rc_raw_score ` group_of cs (fh_id h) \<and>
     (\<forall>c \<in> group_of cs (fh_id h). f64_le (rc_raw_score c) (fh_raw_score h)) \<and>
     fh_fused_score h = f64_sub f64_one (exp (f64_mul (f64_neg (rrf_sum k cs (fh_id h))) (f64_add k f64_one)))"

lemma fused_hit_fits: "aggregate_fits k cs (fa_id a) a \<Longrightarrow> hit_fits exp k cs (fused_hit exp k (i, a))"
  unfolding hit_fits_def aggregate_fits_def fused_hit_def prod.case fused_retrieval_hit.select_convs
  by (elim conjE, intro conjI) (assumption | simp)+

lemma fused_hits:
  "fuse_retrieval_candidates_with_policy exp cs top_k c =
     map (fused_hit exp (fusion_rank_constant c)) (enumerate 0 (take top_k (fused_aggregates (fusion_rank_constant c) cs)))"
  by (simp add: fuse_retrieval_candidates_with_policy_def fused_aggregates_def Let_def)

lemma fused_hit_ids: "map (fh_id \<circ> fused_hit exp k) (enumerate n as) = map fa_id as"
  by (induction as arbitrary: n) (simp_all add: fused_hit_def)

lemma fused_ids_list: "fused_ids cs = set (map rc_id (filter (\<lambda>c. usable_score (rc_raw_score c)) cs))"
  by (simp add: fused_ids_def)

text \<open>
  C10. The fused list. A memory is in it at most once, and it holds as many memories with a
  usable candidate as \<open>top_k\<close> lets in. Every hit carries a memory one of its retrievers gave, the
  sorted names of exactly the retrievers that gave it, the best of its raw scores and the fused
  score of the summed contributions of its ranks; its own rank is its position. The hits are
  in the order of their sums, and no memory that was cut has a greater one.
\<close>

theorem fusion_exact:
  fixes exp :: "f64 \<Rightarrow> f64" and top_k :: nat
  assumes "scores_ok cs" and "f64_ok c"
  defines "k \<equiv> fusion_rank_constant c"
  defines "hits \<equiv> fuse_retrieval_candidates_with_policy exp cs top_k c"
  shows "length hits = min (card (fused_ids cs)) top_k \<and> distinct (map fh_id hits) \<and>
    set (map fh_id hits) \<subseteq> fused_ids cs \<and> (\<forall>h \<in> set hits. hit_fits exp k cs h) \<and>
    map fh_rank hits = map of_nat [1..<Suc (length hits)] \<and>
    sorted_wrt (\<lambda>a b. f64_le (rrf_sum k cs (fh_id b)) (rrf_sum k cs (fh_id a))) hits \<and>
    (\<forall>i \<in> fused_ids cs - set (map fh_id hits). \<forall>h \<in> set hits. f64_le (rrf_sum k cs i) (rrf_sum k cs (fh_id h)))"
proof -
  note agg = fused_aggregates [OF assms(1,2), folded k_def]
  let ?as = "fused_aggregates k cs"
  let ?le = "\<lambda>i j. f64_le (rrf_sum k cs j) (rrf_sum k cs i)"
  have hits: "hits = map (fused_hit exp k) (enumerate 0 (take top_k ?as))"
    by (simp add: hits_def k_def fused_hits)
  have ids: "map fh_id hits = take top_k (map fa_id ?as)"
    using fused_hit_ids [of exp k 0 "take top_k ?as"] by (simp add: hits take_map)
  have len: "length ?as = card (fused_ids cs)"
    using distinct_card [OF agg(2)] agg(3) by simp
  have sorted: "sorted_wrt ?le (take top_k (map fa_id ?as) @ drop top_k (map fa_id ?as))"
    using agg(4) by (simp only: append_take_drop_id sorted_wrt_map)
  have "sorted_wrt ?le (map fh_id hits)"
    using sorted unfolding ids by (simp only: sorted_wrt_append)
  moreover have "f64_le (rrf_sum k cs i) (rrf_sum k cs (fh_id h))"
    if "i \<in> fused_ids cs - set (map fh_id hits)" and "h \<in> set hits" for i h
  proof -
    have "set (take top_k (map fa_id ?as)) \<union> set (drop top_k (map fa_id ?as)) = fused_ids cs"
      unfolding agg(3) [symmetric] set_append [symmetric] append_take_drop_id ..
    then have "i \<in> set (drop top_k (map fa_id ?as))"
      using that(1) unfolding ids by blast
    moreover have "fh_id h \<in> set (take top_k (map fa_id ?as))"
      using that(2) unfolding ids [symmetric] by simp
    ultimately show ?thesis
      using sorted by (simp only: sorted_wrt_append)
  qed
  moreover have "hit_fits exp k cs h" if "h \<in> set hits" for h
    using that agg(1) by (auto simp: hits enumerate_eq_zip intro!: fused_hit_fits dest!: set_zip_rightD in_set_takeD)
  moreover have "map fh_rank hits = map of_nat [1..<Suc (length hits)]"
    by (rule nth_equalityI) (simp_all add: hits nth_enumerate_eq fused_hit_def del: upt_Suc)
  moreover have "distinct (map fh_id hits)" and "set (map fh_id hits) \<subseteq> fused_ids cs"
    using agg(2) set_take_subset [of top_k "map fa_id ?as"] agg(3) unfolding ids by (simp_all only: distinct_take)
  ultimately show ?thesis
    by (simp add: sorted_wrt_map) (simp add: hits len)
qed

definition sample_memory :: "nat \<Rightarrow> string \<Rightarrow> unit contract_memory" where
  "sample_memory i s =
     \<lparr>cm_memory_id = of_nat i, cm_uuid = None, cm_in_space = 1, cm_user_id = None, cm_scope = ''user'',
      cm_memory_type = Semantic, cm_subject = None, cm_predicate = None, cm_object_text = None,
      cm_canonical_text = s, cm_summary_text = None, cm_metadata = None, cm_confidence = f64_one,
      cm_evidence_count = None, cm_contradiction_count = None, cm_status = ''active'',
      cm_sensitivity_level = ''normal'', cm_supersedes_memory_id = None, cm_superseded_by_memory_id = None,
      cm_created_at = ''1'', cm_updated_at = ''1'', cm_expires_at = None, cm_version = 1\<rparr>"

definition sample_candidate :: "string \<Rightarrow> nat \<Rightarrow> unit retrieval_candidate" where
  "sample_candidate name i =
     \<lparr>rc_memory = sample_memory i ''a'', rc_retriever_name = name, rc_raw_score = f64_one, rc_rank = 1\<rparr>"

definition sample_fusion :: "unit retrieval_candidate list" where
  "sample_fusion = [sample_candidate ''sql'' 4, sample_candidate ''keyword'' 4, sample_candidate ''sql'' 9]"

lemma one_usable: "usable_score f64_one" "f64_ok f64_one"
  using f64_one_num by (simp_all add: usable_score_def f64_num_def) (simp_all add: f64_one_def)

lemma sample_fusion_ok: "scores_ok sample_fusion"
  by (simp add: scores_ok_def sample_fusion_def sample_candidate_def one_usable)

lemma sample_fusion_ids: "fused_ids sample_fusion = {4, 9}"
  by (simp add: fused_ids_list sample_fusion_def sample_candidate_def sample_memory_def one_usable insert_commute)

theorem fusion_exact_witness:
  "length (fuse_retrieval_candidates_with_policy (\<lambda>_. f64_zero) sample_fusion 1 f64_one) = 1 \<and>
   set (map fh_id (fuse_retrieval_candidates_with_policy (\<lambda>_. f64_zero) sample_fusion 1 f64_one)) \<subseteq> {4, 9}"
  using fusion_exact [OF sample_fusion_ok one_usable(2), where exp = "\<lambda>_. f64_zero" and top_k = 1]
  by (simp add: sample_fusion_ids)

text \<open>
  What does not matter for the fused list: the order of the candidates, and a candidate
  that repeats what its retriever already gave for the same memory with a score not lower. So a
  retriever cannot raise a memory by returning it twice.
\<close>

theorem fusion_order_and_repeats:
  assumes "mset cs' = mset cs + mset ds" and "list_all (repeats cs) ds"
    and "scores_ok cs'" and "same_memory_per_id cs'"
  shows "fuse_retrieval_candidates_with_policy exp cs' top_k c = fuse_retrieval_candidates_with_policy exp cs top_k c"
proof -
  have set: "set cs' = set (cs @ ds)"
    using assms(1) by (metis mset_append set_mset_mset)
  have "fusion_aggregates k (cs @ ds) = fusion_aggregates k cs" for k
    using assms(2) assms(3) [unfolded scores_ok_def set]
  proof (induction ds rule: rev_induct)
    case (snoc d ds)
    then have "repeats (cs @ ds) d"
      by (auto simp: repeats_def)
    then show ?case
      using snoc aggregates_repeated [of "cs @ ds" d k] by (simp add: scores_ok_def)
  qed simp
  moreover have "fusion_aggregates k cs' = fusion_aggregates k (cs @ ds)" for k
    using assms by (intro aggregates_order_free) simp_all
  ultimately show ?thesis
    by (simp add: fuse_retrieval_candidates_with_policy_def)
qed

theorem fusion_order_and_repeats_witness:
  "fuse_retrieval_candidates_with_policy (\<lambda>_. f64_zero) (sample_candidate ''sql'' 9 # sample_fusion) 5 f64_one =
   fuse_retrieval_candidates_with_policy (\<lambda>_. f64_zero) sample_fusion 5 f64_one"
proof (rule fusion_order_and_repeats [where ds = "[sample_candidate ''sql'' 9]"])
  have "f64_le f64_one f64_one"
    by (simp add: f64_le_key f64_one_num)
  then show "list_all (repeats sample_fusion) [sample_candidate ''sql'' 9]"
    by (auto simp: repeats_def sample_fusion_def sample_candidate_def one_usable)
qed (auto simp: scores_ok_def same_memory_per_id_def sample_fusion_def sample_candidate_def sample_memory_def one_usable)

section \<open>The context pack\<close>

text \<open>
  C22. The context pack. The token estimates of its fragments are positive, add up to the
  reported number, and stay within the budget. The fragments come from the hits in their order,
  each with the text of its memory; at most the first is cut, to a proper prefix closed by an
  ellipsis. No fragment is a near-duplicate of an earlier one. An answer that does not say it
  was truncated covers every memory that was given.
\<close>

theorem context_pack_within_budget:
  assumes "\<forall>h \<in> set hs. \<forall>m. rh_memory h = Some m \<longrightarrow> valid_text (cm_canonical_text m)"
    and "build_context_pack_from_hits alnum lower hs budget = (pack, used, truncated)"
  shows "used = sum_list (map fragment_tokens (cp_fragments pack)) \<and> used \<le> max budget 0 \<and>
    (\<forall>f \<in> set (cp_fragments pack). 0 < fragment_tokens f) \<and>
    (\<exists>ks. subseq ks hs \<and> list_all2 fragment_from ks (cp_fragments pack)) \<and>
    (\<forall>f \<in> set (tl (cp_fragments pack)). \<not> pf_truncated f) \<and>
    no_near_duplicates alnum lower (cp_fragments pack) \<and>
    (\<not> truncated \<longrightarrow>
       (\<forall>h \<in> set hs. \<forall>m. rh_memory h = Some m \<longrightarrow> covered alnum lower (cp_fragments pack) m))"
  using pack_all_inv [of "max budget 0" hs alnum lower] assms
  by (auto simp: pack_inv_def build_context_pack_from_hits_def Let_def)

definition sample_hit :: "nat \<Rightarrow> string \<Rightarrow> unit retrieval_hit_dto" where
  "sample_hit i s =
     \<lparr>rh_hit_id = of_nat i, rh_memory = Some (sample_memory i s), rh_memory_id = None, rh_retriever_name = ''sql'',
      rh_result_rank = 1, rh_raw_score = None, rh_fused_score = None, rh_explanation = None, rh_status = ''active''\<rparr>"

lemma valid_ascii:
  assumes "list_all (\<lambda>c. of_char c < (0x80 :: nat)) s" and "length s < 100"
  shows "valid_text s"
proof -
  have "utf8 (map of_char s) = s"
    using assms(1) by (induction s) (simp_all add: utf8_def utf8_char_def)
  moreover have "list_all scalar_value (map of_char s)"
    using assms(1) by (auto simp: list_all_iff scalar_value_def)
  ultimately show ?thesis
    using assms(2) chars_utf8 [of "map of_char s"] by (auto simp: valid_text_def text_fits_def)
qed

text \<open>A hit that is cut to the budget of two tokens.\<close>

lemma sample_chars: "chars ''likes teas'' = [108, 105, 107, 101, 115, 32, 116, 101, 97, 115]"
  by simp

lemmas token_counting = count_char_def is_cjk_def is_whitespace_def white_chars_def estimate_tokens_from_counts_def
  i32_wrap_def signed_divide_int_def

lemma sample_short: "truncate_to_token_budget ''likes teas'' 1 = ''like''"
proof -
  have "utf8 [108, 105, 107, 101] = ''like''"
    by code_simp
  then show ?thesis
    by (simp add: truncate_to_token_budget_def sample_chars token_counting trim_end_chars_def Let_def del: chars.simps)
qed

lemma sample_tokens: "estimate_tokens ''likes teas'' = 3" "estimate_tokens (CHR ''l'' # CHR ''i'' # CHR ''k'' # CHR ''e'' # ellipsis) = 2"
proof -
  have "chars (CHR ''l'' # CHR ''i'' # CHR ''k'' # CHR ''e'' # ellipsis) = [108, 105, 107, 101, 0x2026]"
    using chars_utf8 [of "[0x2026]"] by (simp add: ellipsis_def scalar_value_def)
  then show "estimate_tokens (CHR ''l'' # CHR ''i'' # CHR ''k'' # CHR ''e'' # ellipsis) = 2"
    by (simp add: estimate_tokens_def token_counting)
qed (simp add: estimate_tokens_def sample_chars token_counting del: chars.simps)

theorem context_pack_within_budget_witness:
  "case build_context_pack_from_hits (\<lambda>_. True) (\<lambda>s. s) [sample_hit 4 ''likes teas''] 2 of (pack, used, truncated) \<Rightarrow>
     used = sum_list (map fragment_tokens (cp_fragments pack)) \<and> length (cp_fragments pack) = 1 \<and>
     used = 2 \<and> truncated"
proof -
  let ?hs = "[sample_hit 4 ''likes teas'']"
  obtain pack used truncated where run:
    "build_context_pack_from_hits (\<lambda>_. True) (\<lambda>s. s) ?hs 2 = (pack, used, truncated)"
    using prod_cases3 by blast
  have "valid_text ''likes teas''"
    by (simp add: valid_ascii)
  then have "\<forall>h \<in> set ?hs. \<forall>m. rh_memory h = Some m \<longrightarrow> valid_text (cm_canonical_text m)"
    by (simp add: sample_hit_def sample_memory_def)
  note facts = context_pack_within_budget [OF this run]
  have "case build_context_pack_from_hits (\<lambda>_. True) (\<lambda>s. s) ?hs 2 of (pack, used, truncated) \<Rightarrow>
      length (cp_fragments pack) = 1 \<and> used = 2 \<and> truncated"
    by (simp add: build_context_pack_from_hits_def pack_hit_def empty_pack_def is_redundant_def sample_hit_def
        sample_memory_def sample_short sample_tokens select_fragment_def Let_def)
  then show ?thesis
    using facts by (simp add: run)
qed

section \<open>Keyword scores\<close>

text \<open>
  C30. The keyword index computes Okapi BM25. From the terms of all documents the reference
  definition gives each document its score; the index, with its counters and maps, returns
  exactly the documents with a positive score, best first and then by id, each with that score
  normalized; and a normalized score lies between zero and one.
\<close>

theorem bm25_is_okapi:
  fixes lower :: "string \<Rightarrow> string"
  defines "terms \<equiv> \<lambda>d. bm25_terms lower (bd_lemmatized_text d)"
  assumes exp: "\<And>x. x \<noteq> F64NaN \<Longrightarrow> f64_nonneg (exp x)"
    and "bm25_terms lower query \<noteq> []"
  shows "normalized_keyword_scores ln exp lower query ds =
      map (\<lambda>(i, raw). (i, normalize_bm25 exp raw (fst (get_bm25_params (bm25_terms lower query)))
          (snd (get_bm25_params (bm25_terms lower query)))))
        (sort_by (by_score snd (by_id fst))
          (filter (\<lambda>(i, score). f64_finite score \<and> f64_lt f64_zero score)
            (map (\<lambda>d. (bd_memory_id d, okapi_score ln (map terms ds) (bm25_terms lower query) (terms d))) ds))) \<and>
    list_all (\<lambda>(i, s). f64_le f64_zero s \<and> f64_le s f64_one) (normalized_keyword_scores ln exp lower query ds)"
proof (cases "ds = []")
  case True
  then show ?thesis
    by (simp add: normalized_keyword_scores_def Let_def sort_by_def)
next
  case False
  have "normalized_keyword_scores ln exp lower query ds =
      map (\<lambda>(i, raw). (i, normalize_bm25 exp raw (fst (get_bm25_params (bm25_terms lower query)))
          (snd (get_bm25_params (bm25_terms lower query)))))
        (bm25_score ln (bm25_fit lower ds) (bm25_terms lower query))"
    using assms(3) False by (simp add: normalized_keyword_scores_def Let_def case_prod_unfold)
  then show ?thesis
    using bm25_score_okapi [OF assms(3) False, of ln lower] normalize_unit [OF exp]
    by (simp add: terms_def list_all_iff case_prod_unfold)
qed

theorem bm25_is_okapi_witness:
  "list_all (\<lambda>(i, s). f64_le f64_zero s \<and> f64_le s f64_one)
    (normalized_keyword_scores (\<lambda>_. f64_one) (\<lambda>_. f64_one) (\<lambda>s. s) ''tea''
      [\<lparr>bd_memory_id = ''m4'', bd_lemmatized_text = ''tea tea''\<rparr>])"
proof (rule bm25_is_okapi [THEN conjunct2])
  show "f64_nonneg f64_one"
    by (simp add: f64_nonneg_def f64_one_num f64_one_key)
  have "utf8 [116, 101, 97] = ''tea''"
    by code_simp
  then show "bm25_terms (\<lambda>s. s) ''tea'' \<noteq> []"
    by (simp add: bm25_terms_def split_whitespace_def is_whitespace_def white_chars_def is_cjk_def push_word_def)
qed

section \<open>The additive ranking\<close>

definition blended_score :: "hybrid_signals \<Rightarrow> semantic_candidate \<Rightarrow> f64" where
  "blended_score signals c =
     f64_min (f64_div
       (f64_add (f64_add (sanitize_score (sm_semantic_score c)) (signal_score (hs_bm25_scores signals) (sm_memory_id c)))
         (signal_score (hs_entity_boosts signals) (sm_memory_id c)))
       (max_possible_score (hs_bm25_scores signals \<noteq> []) (hs_entity_boosts signals \<noteq> []))) f64_one"

lemma in_scored:
  "h \<in> set (scored_candidates cs signals threshold explain) \<longleftrightarrow>
    (\<exists>c \<in> set cs. admitted_candidate threshold c \<and>
      h = score_candidate signals (max_possible_score (hs_bm25_scores signals \<noteq> []) (hs_entity_boosts signals \<noteq> []))
        threshold explain c)"
  by (auto simp: scored_candidates_def)

lemma score_candidate_fields:
  "sh_memory_id (score_candidate signals m threshold explain c) = sm_memory_id c"
  "sh_score (score_candidate signals (max_possible_score (hs_bm25_scores signals \<noteq> []) (hs_entity_boosts signals \<noteq> []))
      threshold explain c) = blended_score signals c"
  by (simp_all add: score_candidate_def blended_score_def Let_def)

text \<open>
  C35. The additive ranking. Only candidates whose own semantic score reaches the threshold
  are ranked, whatever the keyword and entity signals add; as many are returned as \<open>top_k\<close> lets
  in. Each has the blended score, at most one; the list is in falling order of that score,
  equal ones by id; what was cut has no greater score; and the order of the candidates does not
  matter.
\<close>

theorem additive_ranking_gated:
  fixes explain :: bool and top_k :: nat and threshold :: f64
  assumes "scoring_inputs_ok cs signals"
  defines "hits \<equiv> score_and_rank cs signals threshold top_k explain"
  shows "length hits = min (length (filter (admitted_candidate threshold) cs)) top_k \<and>
    (\<forall>h \<in> set hits. f64_le (sh_score h) f64_one \<and>
       (\<exists>c \<in> set cs. admitted_candidate threshold c \<and> sh_memory_id h = sm_memory_id c \<and> sh_score h = blended_score signals c)) \<and>
    sorted_wrt (\<lambda>a b. f64_le (sh_score b) (sh_score a) \<and>
       (f64_le (sh_score a) (sh_score b) \<longrightarrow> sh_memory_id a \<le> sh_memory_id b)) hits \<and>
    (\<forall>c \<in> set cs. admitted_candidate threshold c \<and> sm_memory_id c \<notin> sh_memory_id ` set hits \<longrightarrow>
       (\<forall>h \<in> set hits. f64_le (blended_score signals c) (sh_score h))) \<and>
    (\<forall>cs'. mset cs' = mset cs \<and> distinct (map sm_memory_id cs) \<longrightarrow>
       score_and_rank cs' signals threshold top_k explain = hits)"
proof -
  let ?S = "scored_candidates cs signals threshold explain"
  have hits: "hits = top_by hit_key top_k ?S"
    unfolding hits_def by (rule score_and_rank_top [OF assms(1)])
  have num: "f64_num (sh_score h) \<and> f64_le (sh_score h) f64_one" if "h \<in> set ?S" for h
    using that assms(1) score_candidate_num by (auto simp: in_scored scoring_inputs_ok_def)
  have sub: "set hits \<subseteq> set ?S"
    unfolding hits by (rule set_top_by)
  have order: "f64_le (sh_score b) (sh_score a) \<and> (f64_le (sh_score a) (sh_score b) \<longrightarrow> sh_memory_id a \<le> sh_memory_id b)"
    if "a \<in> set ?S" and "b \<in> set ?S" and "hit_key a \<le> hit_key b" for a b
    using that num by (auto simp: hit_key_def less_eq_prod_def f64_le_key)
  have "sorted_wrt (\<lambda>a b. hit_key a \<le> hit_key b) hits"
    using sorted_top_by [of hit_key top_k ?S] by (simp add: hits sorted_wrt_map)
  then have "sorted_wrt (\<lambda>a b. f64_le (sh_score b) (sh_score a) \<and>
       (f64_le (sh_score a) (sh_score b) \<longrightarrow> sh_memory_id a \<le> sh_memory_id b)) hits"
    by (rule sorted_wrt_mono_rel [rotated]) (use order sub in blast)
  moreover have "f64_le (blended_score signals c) (sh_score h)"
    if c: "c \<in> set cs" "admitted_candidate threshold c" "sm_memory_id c \<notin> sh_memory_id ` set hits" and "h \<in> set hits" for c h
  proof -
    let ?x = "score_candidate signals (max_possible_score (hs_bm25_scores signals \<noteq> []) (hs_entity_boosts signals \<noteq> []))
      threshold explain c"
    have x: "?x \<in> set ?S" "?x \<notin> set hits"
      using c imageI [of ?x "set hits" sh_memory_id] by (auto simp: in_scored score_candidate_fields)
    then have "hit_key h \<le> hit_key ?x"
      using top_by_dropped [of ?x ?S hit_key top_k h] \<open>h \<in> set hits\<close> unfolding hits by blast
    then show ?thesis
      using order [of h ?x] x sub \<open>h \<in> set hits\<close> by (auto simp: score_candidate_fields)
  qed
  moreover have "score_and_rank cs' signals threshold top_k explain = hits"
    if "mset cs' = mset cs" and "distinct (map sm_memory_id cs)" for cs'
  proof -
    have "scoring_inputs_ok cs' signals"
      using assms(1) mset_eq_setD [OF that(1)] by (simp add: scoring_inputs_ok_def)
    moreover have "mset ?S = mset (scored_candidates cs' signals threshold explain)"
      using that(1) by (simp add: scored_candidates_def)
    moreover have "inj_on hit_key (set ?S)"
    proof (rule inj_onI)
      fix a b assume "a \<in> set ?S" "b \<in> set ?S" "hit_key a = hit_key b"
      then obtain c d where cd: "c \<in> set cs" "d \<in> set cs" "sm_memory_id c = sm_memory_id d"
        and ab: "a = score_candidate signals (max_possible_score (hs_bm25_scores signals \<noteq> [])
            (hs_entity_boosts signals \<noteq> [])) threshold explain c"
          "b = score_candidate signals (max_possible_score (hs_bm25_scores signals \<noteq> [])
            (hs_entity_boosts signals \<noteq> [])) threshold explain d"
        by (auto simp: in_scored hit_key_def score_candidate_fields)
      have "c = d"
        using that(2) cd by (auto simp: distinct_map dest: inj_onD)
      then show "a = b" by (simp add: ab)
    qed
    ultimately show ?thesis
      unfolding hits by (simp only: score_and_rank_top top_by_order)
  qed
  moreover have "length hits = min (length (filter (admitted_candidate threshold) cs)) top_k"
    by (simp add: hits length_top_by scored_candidates_def)
  moreover have "f64_le (sh_score h) f64_one \<and> (\<exists>c \<in> set cs. admitted_candidate threshold c \<and>
      sh_memory_id h = sm_memory_id c \<and> sh_score h = blended_score signals c)" if "h \<in> set hits" for h
    using that sub num by (force simp: in_scored score_candidate_fields)
  ultimately show ?thesis
    by blast
qed

definition sample_scored :: "semantic_candidate list" where
  "sample_scored = [\<lparr>sm_memory_id = ''m4'', sm_semantic_score = f64_one\<rparr>, \<lparr>sm_memory_id = ''m9'', sm_semantic_score = f64_zero\<rparr>]"

definition sample_signals :: hybrid_signals where
  "sample_signals = \<lparr>hs_bm25_scores = [(''m9'', f64_one)], hs_entity_boosts = []\<rparr>"

text \<open>The keyword match of \<open>m9\<close> does not bring it over a threshold of one.\<close>

theorem additive_ranking_gated_witness:
  "length (score_and_rank sample_scored sample_signals f64_one 5 False) = 1 \<and>
   length (filter (admitted_candidate f64_one) sample_scored) = 1"
proof -
  have "\<not> f64_lt f64_one f64_one" "f64_lt f64_zero f64_one"
    by (simp_all add: f64_lt_key f64_one_num f64_one_key) (simp add: f64_one_def)
  then have n: "length (filter (admitted_candidate f64_one) sample_scored) = 1"
    by (simp add: sample_scored_def admitted_candidate_def sanitize_score_def) (simp add: f64_one_def)
  have "scoring_inputs_ok sample_scored sample_signals"
    using one_usable(2)
    by (auto simp: scoring_inputs_ok_def signal_values_ok_def sample_scored_def sample_signals_def bm_get_def split: if_splits)
  from additive_ranking_gated [OF this, where threshold = f64_one and top_k = 5 and explain = False] n
  show ?thesis by simp
qed

section \<open>Recall signals\<close>















end
