(* ===== verification/Entity_Extraction.thy ===== *)
theory Entity_Extraction
  imports Prelude Additive_Scoring
begin

text \<open>
  The closed word tables of the entity extractor (\<^verbatim>\<open>entities.rs\<close>), word for word.
\<close>

definition generic_heads :: "string list" where
  "generic_heads =
    [''thing'', ''stuff'', ''way'', ''time'', ''experience'', ''situation'', ''case'', ''fact'',
     ''matter'', ''issue'', ''idea'', ''thought'', ''feeling'', ''place'', ''area'', ''part'',
     ''kind'', ''type'', ''sort'', ''lot'', ''bit'', ''day'', ''year'', ''week'', ''month'',
     ''moment'', ''instance'', ''example'', ''technique'', ''method'', ''approach'', ''process'',
     ''step'', ''tool'', ''result'', ''outcome'', ''goal'', ''task'', ''item'', ''topic'',
     ''scale'', ''size'', ''level'', ''degree'', ''amount'', ''number'', ''style'', ''look'',
     ''color'', ''colour'', ''shape'', ''form'', ''piece'', ''section'', ''side'', ''end'',
     ''edge'', ''surface'', ''point'']"

definition generic_single_entity_terms :: "string list" where
  "generic_single_entity_terms =
    [''user'', ''assistant'', ''agent'', ''customer'', ''client'', ''person'', ''people'',
     ''human'', ''memory'', ''message'', ''conversation'', ''chat'', ''session'', ''system'',
     ''top'']"

definition non_specific_adj :: "string list" where
  "non_specific_adj =
    [''many'', ''few'', ''several'', ''some'', ''any'', ''all'', ''most'', ''more'', ''less'',
     ''much'', ''little'', ''enough'', ''various'', ''numerous'', ''multiple'', ''countless'',
     ''great'', ''good'', ''bad'', ''nice'', ''terrible'', ''awful'', ''awesome'', ''amazing'',
     ''wonderful'', ''horrible'', ''excellent'', ''poor'', ''best'', ''worst'', ''fine'', ''okay'',
     ''new'', ''old'', ''recent'', ''past'', ''future'', ''current'', ''previous'', ''next'',
     ''last'', ''first'', ''latest'', ''early'', ''late'', ''former'', ''modern'', ''ancient'',
     ''big'', ''small'', ''large'', ''tiny'', ''huge'', ''enormous'', ''long'', ''short'', ''tall'',
     ''high'', ''low'', ''wide'', ''narrow'', ''thick'', ''thin'', ''deep'', ''shallow'',
     ''similar'', ''different'', ''same'', ''other'', ''another'', ''such'', ''certain'',
     ''important'', ''main'', ''major'', ''minor'', ''key'', ''primary'', ''real'', ''actual'',
     ''true'', ''whole'', ''entire'', ''full'', ''complete'', ''total'', ''basic'', ''simple'',
     ''interesting'', ''boring'', ''exciting'', ''special'', ''particular'', ''general'',
     ''common'', ''unique'', ''rare'', ''typical'', ''usual'', ''normal'', ''regular'',
     ''possible'', ''likely'', ''potential'', ''available'', ''necessary'', ''only'', ''solo'',
     ''individual'', ''team'', ''group'', ''joint'', ''collaborative'', ''final'', ''initial'',
     ''side'']"

definition generic_endings :: "string list" where
  "generic_endings =
    [''work'', ''works'', ''job'', ''jobs'', ''task'', ''tasks'', ''stuff'', ''things'', ''thing'',
     ''info'', ''information'', ''details'', ''data'', ''content'', ''material'', ''materials'',
     ''activities'', ''activity'', ''efforts'', ''effort'', ''options'', ''option'', ''choices'',
     ''choice'', ''results'', ''result'', ''output'', ''outputs'', ''products'', ''product'',
     ''items'', ''item'']"

definition generic_caps :: "string list" where
  "generic_caps =
    [''works'', ''items'', ''things'', ''stuff'', ''resources'', ''options'', ''tips'', ''ideas'',
     ''steps'', ''ways'', ''methods'', ''tools'', ''features'', ''benefits'', ''examples'',
     ''details'', ''notes'', ''instructions'', ''guidelines'', ''recommendations'', ''suggestions'',
     ''overview'', ''summary'', ''conclusion'', ''introduction'', ''pros'', ''cons'',
     ''advantages'', ''disadvantages'']"

definition allowed_inner_connectors :: "string list" where
  "allowed_inner_connectors =
    [''of'', ''the'', ''for'', ''at'', ''in'']"

definition sentence_opener_verbs :: "string list" where
  "sentence_opener_verbs =
    [''adds'', ''admires'', ''adores'', ''agrees'', ''answers'', ''asked'', ''asks'', ''avoids'',
     ''believes'', ''bought'', ''brings'', ''builds'', ''buys'', ''called'', ''calls'', ''came'',
     ''can'', ''carries'', ''chose'', ''chooses'', ''cooks'', ''costs'', ''could'', ''creates'',
     ''decided'', ''designed'', ''developed'', ''dislikes'', ''does'', ''drank'', ''drinks'',
     ''drives'', ''drove'', ''eats'', ''enjoys'', ''expects'', ''explains'', ''feels'', ''felt'',
     ''finished'', ''finds'', ''found'', ''gave'', ''gets'', ''gives'', ''goes'', ''got'',
     ''graduated'', ''had'', ''handles'', ''has'', ''hates'', ''helps'', ''hopes'', ''improves'',
     ''includes'', ''is'', ''joined'', ''joins'', ''keeps'', ''kept'', ''knows'', ''learned'',
     ''learns'', ''leaves'', ''led'', ''left'', ''likes'', ''lives'', ''loves'', ''made'',
     ''makes'', ''manages'', ''may'', ''mentioned'', ''mentions'', ''might'', ''moved'', ''moves'',
     ''must'', ''needs'', ''noted'', ''notes'', ''offers'', ''owns'', ''plans'', ''played'',
     ''plays'', ''prefers'', ''produces'', ''reads'', ''recommended'', ''recommends'', ''reduced'',
     ''refused'', ''remembers'', ''replied'', ''requires'', ''returned'', ''returns'', ''reads'',
     ''runs'', ''said'', ''says'', ''seems'', ''sells'', ''should'', ''sings'', ''sold'',
     ''speaks'', ''spoke'', ''started'', ''starts'', ''stopped'', ''studied'', ''studies'',
     ''suggested'', ''suggests'', ''supports'', ''takes'', ''talked'', ''talks'', ''tells'',
     ''thinks'', ''told'', ''took'', ''travels'', ''tried'', ''tries'', ''understands'', ''uses'',
     ''visited'', ''visits'', ''walks'', ''wanted'', ''wants'', ''was'', ''watches'', ''were'',
     ''will'', ''wishes'', ''worked'', ''works'', ''would'', ''writes'', ''wrote'']"

text \<open>
  Entity extraction and entity boosts (\<^verbatim>\<open>entities.rs\<close>). Offsets count characters. Unicode's
  character classes and lower-casing are the parameter \<^verbatim>\<open>char_tables\<close>.
\<close>

record char_tables =
  ct_alnum :: "nat \<Rightarrow> bool"
  ct_upper :: "nat \<Rightarrow> bool"
  ct_alpha :: "nat \<Rightarrow> bool"
  ct_numeric :: "nat \<Rightarrow> bool"
  ct_lower :: "string \<Rightarrow> string"

section \<open>Candidates\<close>

definition max_query_entities :: nat where
  "max_query_entities = 8"

definition entity_similarity_threshold :: f64 where
  "entity_similarity_threshold = f64_lit 5 1"

definition max_entity_text_chars :: nat where
  "max_entity_text_chars = 100"

datatype entity_kind = IdentifierEntity | ProperEntity | QuotedEntity | TopicEntity

fun kind_code :: "entity_kind \<Rightarrow> string" where
  "kind_code IdentifierEntity = ''IDENTIFIER''"
| "kind_code ProperEntity = ''PROPER''"
| "kind_code QuotedEntity = ''QUOTED''"
| "kind_code TopicEntity = ''TOPIC''"

fun kind_priority :: "entity_kind \<Rightarrow> nat" where
  "kind_priority IdentifierEntity = 1"
| "kind_priority ProperEntity = 2"
| "kind_priority QuotedEntity = 3"
| "kind_priority TopicEntity = 4"

fun kind_confidence :: "entity_kind \<Rightarrow> f64" where
  "kind_confidence IdentifierEntity = f64_lit 90 2"
| "kind_confidence ProperEntity = f64_lit 80 2"
| "kind_confidence QuotedEntity = f64_lit 75 2"
| "kind_confidence TopicEntity = f64_lit 45 2"

record entity_span =
  es_start :: nat
  es_end :: nat

definition span_len :: "entity_span \<Rightarrow> nat" where
  "span_len s = es_end s - es_start s"

record extracted_entity =
  ee_kind :: entity_kind
  ee_text :: string
  ee_span :: "entity_span option"
  ee_confidence :: f64
  ee_priority :: nat
  ee_source :: string

section \<open>Cleaning a text\<close>

definition drop_right :: "(nat \<Rightarrow> bool) \<Rightarrow> nat list \<Rightarrow> nat list" where
  "drop_right p cs = rev (dropWhile p (rev cs))"

definition is_ascii_digit :: "nat \<Rightarrow> bool" where
  "is_ascii_digit c \<longleftrightarrow> 48 \<le> c \<and> c \<le> 57"

definition collapse_whitespace :: "string \<Rightarrow> string" where
  "collapse_whitespace s = join_text '' '' (split_whitespace s)"

text \<open>The characters are 42 for the asterisk, 58 for the colon and 46 for the dot.\<close>

definition clean_text :: "string \<Rightarrow> string" where
  "clean_text raw =
     (let cs = drop_right is_whitespace (dropWhile is_whitespace (chars raw));
          cs = dropWhile is_whitespace (dropWhile (\<lambda>c. c = 42) cs);
          cs = drop_right is_whitespace (drop_right (\<lambda>c. c = 42) cs);
          cs = drop_right is_whitespace (drop_right (\<lambda>c. c = 58) cs);
          cs = (if takeWhile is_ascii_digit cs = [] then cs
                else case dropWhile is_whitespace (dropWhile is_ascii_digit cs) of
                    [] \<Rightarrow> cs
                  | c # rest \<Rightarrow> if c = 46 then dropWhile is_whitespace rest else cs)
      in collapse_whitespace (utf8 cs))"

text \<open>\<^verbatim>\<open>windows(3)\<close> with an asterisk between white space.\<close>

fun spaced_star :: "nat list \<Rightarrow> bool" where
  "spaced_star (a # b # c # cs) \<longleftrightarrow> is_whitespace a \<and> b = 42 \<and> is_whitespace c \<or> spaced_star (b # c # cs)"
| "spaced_star _ \<longleftrightarrow> False"

definition has_star_artifact :: "string \<Rightarrow> bool" where
  "has_star_artifact s \<longleftrightarrow>
     (let cs = chars s
      in spaced_star cs \<or>
         2 \<le> length cs \<and> is_whitespace (cs ! (length cs - 2)) \<and> cs ! (length cs - 1) = 42 \<or>
         2 \<le> length cs \<and> cs ! 0 = 42 \<and> is_whitespace (cs ! 1))"

definition artifact_starts :: "nat list" where
  "artifact_starts = [0x2022, 45, 43, 0x2013, 0x2014, 35, 42]"

definition has_artifacts :: "string \<Rightarrow> bool" where
  "has_artifacts s \<longleftrightarrow>
     contains_text s ''**'' \<or> contains_text s ''__'' \<or> contains_text s '':*'' \<or> contains_text s ''  '' \<or>
     contains_text s [CHR 0x0A] \<or> contains_text s [CHR 0x09] \<or>
     max_entity_text_chars < length (chars s) \<or>
     (case chars s of c # _ \<Rightarrow> c \<in> set artifact_starts | [] \<Rightarrow> False) \<or>
     has_star_artifact s"

definition push_candidate_entity :: "entity_kind \<Rightarrow> string \<Rightarrow> entity_span option \<Rightarrow> string \<Rightarrow> extracted_entity list" where
  "push_candidate_entity kind raw span source =
     (let s = clean_text raw
      in if s = [] \<or> length (chars s) \<le> 2 \<or> has_artifacts s then []
         else [\<lparr>ee_kind = kind, ee_text = s, ee_span = span, ee_confidence = kind_confidence kind,
                ee_priority = kind_priority kind, ee_source = source\<rparr>])"

section \<open>Tokens\<close>

record token =
  tk_text :: string
  tk_start :: nat
  tk_end :: nat

text \<open>A word starts at \<open>begin'\<close>; the characters 46, 45 and 95 are dot, hyphen and underscore.\<close>

definition push_token :: "nat list \<Rightarrow> nat \<Rightarrow> token list" where
  "push_token raw begin' =
     (let trimmed = (\<lambda>c. c = 46 \<or> c = 45 \<or> c = 95);
          leading = length (takeWhile trimmed raw);
          trailing = length (takeWhile trimmed (rev raw))
      in if length raw \<le> leading + trailing then []
         else [\<lparr>tk_text = utf8 (take (length raw - trailing - leading) (drop leading raw)),
                tk_start = begin' + leading, tk_end = begin' + length raw - trailing\<rparr>])"

text \<open>\<open>word\<close> holds the characters from \<^verbatim>\<open>start\<close> up to the current index \<open>i\<close>.\<close>

fun word_tokens :: "char_tables \<Rightarrow> nat list \<Rightarrow> nat \<Rightarrow> nat list \<Rightarrow> token list" where
  "word_tokens u word i [] = push_token word (i - length word)"
| "word_tokens u word i (c # cs) =
     (if ct_alnum u c \<or> c = 95 \<or> c = 45 \<or> c = 46 then word_tokens u (word @ [c]) (i + 1) cs
      else push_token word (i - length word) @ word_tokens u [] (i + 1) cs)"

definition entity_tokens :: "char_tables \<Rightarrow> nat list \<Rightarrow> token list" where
  "entity_tokens u cs = word_tokens u [] 0 cs"

text \<open>Looking back from an offset; 10 is the line feed.\<close>

definition sentence_marks :: "nat list" where
  "sentence_marks = [46, 33, 63, 58, 0x2022, 45, 43, 35, 42, 0x2013, 0x2014]"

fun start_before :: "nat list \<Rightarrow> bool" where
  "start_before [] \<longleftrightarrow> True"
| "start_before (p # ps) \<longleftrightarrow>
     (if p = 10 then True else if is_whitespace p then start_before ps else p \<in> set sentence_marks)"

definition is_sentence_start :: "nat list \<Rightarrow> nat \<Rightarrow> bool" where
  "is_sentence_start cs offset = start_before (rev (take offset cs))"

section \<open>Classes of tokens\<close>

definition has_internal_cap_or_digit :: "char_tables \<Rightarrow> string \<Rightarrow> bool" where
  "has_internal_cap_or_digit u s \<longleftrightarrow>
     list_ex (ct_numeric u) (chars s) \<or> list_ex (ct_upper u) (drop 1 (chars s)) \<or> contains_text s ''_''"

definition is_bad_single_name_token :: "char_tables \<Rightarrow> string \<Rightarrow> bool" where
  "is_bad_single_name_token u s \<longleftrightarrow>
     (let low = ct_lower u s
      in low \<in> set generic_single_entity_terms \<or> low \<in> set generic_caps \<or> is_stopword low)"

definition formatting_markers :: "string list" where
  "formatting_markers =
     [''*'', ''-'', ''+'', utf8 [0x2022], utf8 [0x2013], utf8 [0x2014], ''#'', ''##'', ''###'', ''**'', ''__'']"

definition is_name_like_token :: "char_tables \<Rightarrow> string \<Rightarrow> bool \<Rightarrow> bool" where
  "is_name_like_token u s at_sentence_start \<longleftrightarrow>
     \<not> (s = [] \<or> s \<in> set formatting_markers) \<and>
     (case chars s of c # _ \<Rightarrow> ct_upper u c | [] \<Rightarrow> False) \<and>
     list_ex (ct_alpha u) (chars s) \<and> \<not> is_bad_single_name_token u s \<and>
     \<not> (at_sentence_start \<and> ct_lower u s \<in> set sentence_opener_verbs)"

definition is_topic_token :: "char_tables \<Rightarrow> string \<Rightarrow> bool" where
  "is_topic_token u s \<longleftrightarrow>
     3 \<le> length (chars s) \<and> list_all (\<lambda>c. \<not> ct_upper u c) (chars s) \<and> list_ex (ct_alpha u) (chars s) \<and>
     \<not> is_stopword (ct_lower u s)"

definition lemma_of :: "char_tables \<Rightarrow> string \<Rightarrow> string" where
  "lemma_of u s = lemmatize_token (ct_lower u) (ct_lower u s)"

section \<open>Identifiers\<close>

fun split_dots :: "nat list \<Rightarrow> nat list \<Rightarrow> nat list list" where
  "split_dots seg [] = [seg]"
| "split_dots seg (c # cs) = (if c = 46 then seg # split_dots [] cs else split_dots (seg @ [c]) cs)"

definition identifier_segment :: "char_tables \<Rightarrow> nat list \<Rightarrow> bool" where
  "identifier_segment u seg \<longleftrightarrow>
     (case seg of
        [] \<Rightarrow> False
      | c # cs \<Rightarrow> (is_ascii_alphabetic c \<or> c = 95) \<and> list_all (\<lambda>c. ct_alnum u c \<or> c = 95 \<or> c = 45) cs)"

definition looks_like_technical_identifier :: "char_tables \<Rightarrow> string \<Rightarrow> bool" where
  "looks_like_technical_identifier u s \<longleftrightarrow>
     (let segments = split_dots [] (chars s)
      in 2 \<le> length segments \<and> list_all (identifier_segment u) segments)"

definition looks_like_heuristic_identifier :: "char_tables \<Rightarrow> string \<Rightarrow> bool" where
  "looks_like_heuristic_identifier u s \<longleftrightarrow>
     3 \<le> length (chars s) \<and> \<not> contains_text s ''.'' \<and>
     (list_ex (ct_numeric u) (chars s) \<or> list_ex (ct_upper u) (drop 1 (chars s)) \<or> contains_text s ''_'')"

definition token_span :: "token \<Rightarrow> entity_span option" where
  "token_span t = Some \<lparr>es_start = tk_start t, es_end = tk_end t\<rparr>"

definition identifier_candidate :: "char_tables \<Rightarrow> token \<Rightarrow> extracted_entity list" where
  "identifier_candidate u t =
     (if looks_like_technical_identifier u (tk_text t)
      then push_candidate_entity IdentifierEntity (tk_text t) (token_span t) ''technical_identifier''
      else if looks_like_heuristic_identifier u (tk_text t)
      then push_candidate_entity IdentifierEntity (tk_text t) (token_span t) ''identifier_heuristic''
      else [])"

definition collect_technical_identifiers :: "char_tables \<Rightarrow> token list \<Rightarrow> extracted_entity list" where
  "collect_technical_identifiers u ts = concat (map (identifier_candidate u) ts)"

section \<open>Proper names\<close>

definition name_like :: "char_tables \<Rightarrow> nat list \<Rightarrow> token \<Rightarrow> bool" where
  "name_like u cs t = is_name_like_token u (tk_text t) (is_sentence_start cs (tk_start t))"

definition is_connector :: "char_tables \<Rightarrow> token \<Rightarrow> bool" where
  "is_connector u t \<longleftrightarrow> ct_lower u (tk_text t) \<in> set allowed_inner_connectors"

text \<open>The inner loop: the tokens that join the span, and the tokens from \<^verbatim>\<open>cursor\<close> on.\<close>

fun extend_name :: "char_tables \<Rightarrow> nat list \<Rightarrow> token list \<Rightarrow> token list \<times> token list" where
  "extend_name u cs [] = ([], [])"
| "extend_name u cs [t] = (if name_like u cs t then ([t], []) else ([], [t]))"
| "extend_name u cs (t # n # ts) =
     (if name_like u cs t
      then let (span, rest) = extend_name u cs (n # ts) in (t # span, rest)
      else if is_connector u t \<and> name_like u cs n
      then let (span, rest) = extend_name u cs ts in (t # n # span, rest)
      else ([], t # n # ts))"

definition accepts_name :: "char_tables \<Rightarrow> nat list \<Rightarrow> token list \<Rightarrow> bool" where
  "accepts_name u cs span \<longleftrightarrow>
     1 < length (filter (name_like u cs) span) \<or>
     \<not> (is_bad_single_name_token u (tk_text (hd span)) \<or>
        is_sentence_start cs (tk_start (hd span)) \<and> \<not> has_internal_cap_or_digit u (tk_text (hd span)))"

definition name_candidate :: "char_tables \<Rightarrow> nat list \<Rightarrow> token list \<Rightarrow> extracted_entity list" where
  "name_candidate u cs span =
     (if accepts_name u cs span
      then push_candidate_entity ProperEntity (join_text '' '' (map tk_text span))
        (Some \<lparr>es_start = tk_start (hd span), es_end = tk_end (last span)\<rparr>) ''proper_name_span''
      else [])"

lemma extend_name_shorter: "length (snd (extend_name u cs ts)) \<le> length ts"
  by (induction u cs ts rule: extend_name.induct) (auto split: prod.splits)

function collect_proper_names :: "char_tables \<Rightarrow> nat list \<Rightarrow> token list \<Rightarrow> extracted_entity list" where
  "collect_proper_names u cs [] = []"
| "collect_proper_names u cs (t # ts) =
     (if \<not> name_like u cs t then collect_proper_names u cs ts
      else name_candidate u cs (t # fst (extend_name u cs ts)) @
        collect_proper_names u cs (snd (extend_name u cs ts)))"
  by pat_completeness auto
termination
  by (relation "measure (\<lambda>(u, cs, ts). length ts)") (auto simp: le_imp_less_Suc extend_name_shorter)

section \<open>Quoted text\<close>

definition quote_boundaries :: "nat list" where
  "quote_boundaries = [40, 91, 123, 44, 59, 46, 58, 33, 63, 41, 93]"

definition is_quote_boundary :: "nat \<Rightarrow> bool" where
  "is_quote_boundary c \<longleftrightarrow> is_whitespace c \<or> c \<in> set quote_boundaries"

text \<open>\<open>prev\<close> is the character before the index, \<open>cs\<close> the characters from the index on.\<close>

function quoted_from :: "nat \<Rightarrow> bool \<Rightarrow> nat option \<Rightarrow> nat list \<Rightarrow> extracted_entity list" where
  "quoted_from quote bounded prev [] = []"
| "quoted_from quote bounded prev (c # cs) =
     (if c \<noteq> quote then quoted_from quote bounded (Some c) cs
      else if bounded \<and> (case prev of Some p \<Rightarrow> \<not> is_quote_boundary p | None \<Rightarrow> False)
      then quoted_from quote bounded (Some c) cs
      else case dropWhile (\<lambda>c. c \<noteq> quote) cs of
          [] \<Rightarrow> []
        | q # rest \<Rightarrow>
            let inner = takeWhile (\<lambda>c. c \<noteq> quote) cs
            in (if bounded \<and> (case rest of c # _ \<Rightarrow> \<not> is_quote_boundary c | [] \<Rightarrow> False) then []
                else if 2 < length (drop_right is_whitespace (dropWhile is_whitespace inner))
                then push_candidate_entity QuotedEntity (utf8 inner) None ''quoted'' else []) @
               quoted_from quote bounded (Some q) rest)"
  by pat_completeness auto
termination
proof (relation "measure (\<lambda>(quote, bounded, prev, cs). length cs)", goal_cases)
  case (4 quote bounded prev c cs q rest)
  then show ?case
    using length_dropWhile_le [of "\<lambda>c. c \<noteq> quote" cs] by simp
qed simp_all

text \<open>First double quotes (34), then single ones (39).\<close>

definition collect_quoted :: "string \<Rightarrow> extracted_entity list" where
  "collect_quoted s = quoted_from 34 False None (chars s) @ quoted_from 39 True None (chars s)"

section \<open>Topics\<close>

definition non_specific :: "char_tables \<Rightarrow> token \<Rightarrow> bool" where
  "non_specific u t \<longleftrightarrow> lemma_of u (tk_text t) \<in> set non_specific_adj"

definition strip_opener :: "char_tables \<Rightarrow> token list \<Rightarrow> token list" where
  "strip_opener u words =
     (case words of
        t # ts \<Rightarrow> if ct_lower u (tk_text t) \<in> set sentence_opener_verbs then ts else words
      | [] \<Rightarrow> [])"

definition strip_ending :: "char_tables \<Rightarrow> token list \<Rightarrow> token list" where
  "strip_ending u words =
     (if 2 < length words \<and> lemma_of u (tk_text (last words)) \<in> set generic_endings then butlast words else words)"

definition emit_topic :: "char_tables \<Rightarrow> token list \<Rightarrow> extracted_entity list" where
  "emit_topic u run =
     (if length run < 2 then []
      else let words = strip_opener u run
      in if length words < 2 then []
      else let head_generic = (lemma_of u (tk_text (last words)) \<in> set generic_heads);
               has_specific_modifier = list_ex (\<lambda>t. \<not> non_specific u t) (butlast words);
               has_compound = (2 < length words)
      in if head_generic \<and> \<not> has_specific_modifier \<and> \<not> has_compound then []
      else let filtered = strip_ending u (filter (\<lambda>t. \<not> non_specific u t) words)
      in if filtered = [] then []
      else let s = join_text '' '' (map tk_text filtered)
      in if 3 < length (chars s) \<and> contains_text s '' ''
         then push_candidate_entity TopicEntity s
           (Some \<lparr>es_start = tk_start (hd filtered), es_end = tk_end (last filtered)\<rparr>) ''topic_phrase''
         else [])"

fun collect_topics :: "char_tables \<Rightarrow> token list \<Rightarrow> token list \<Rightarrow> extracted_entity list" where
  "collect_topics u run [] = emit_topic u run"
| "collect_topics u run (t # ts) =
     (if is_topic_token u (tk_text t) then collect_topics u (run @ [t]) ts
      else emit_topic u run @ collect_topics u [] ts)"

section \<open>Resolving the candidates\<close>

definition normalize_entity_text :: "char_tables \<Rightarrow> string \<Rightarrow> string" where
  "normalize_entity_text u s = join_text '' '' (split_whitespace (ct_lower u (trim s)))"

text \<open>\<^verbatim>\<open>(priority, -confidence) < (priority, -confidence)\<close>.\<close>

definition better_rank :: "extracted_entity \<Rightarrow> extracted_entity \<Rightarrow> bool" where
  "better_rank c d \<longleftrightarrow>
     ee_priority c < ee_priority d \<or>
     ee_priority c = ee_priority d \<and> f64_lt (f64_neg (ee_confidence c)) (f64_neg (ee_confidence d))"

definition absorb_entity :: "char_tables \<Rightarrow> extracted_entity \<Rightarrow> (string, nat) bmap \<times> extracted_entity list \<Rightarrow>
    (string, nat) bmap \<times> extracted_entity list" where
  "absorb_entity u c st =
     (case st of (positions, deduped) \<Rightarrow>
        let key = normalize_entity_text u (ee_text c)
        in case bm_get positions key of
            Some i \<Rightarrow> (positions, if better_rank c (deduped ! i) then deduped[i := c] else deduped)
          | None \<Rightarrow> (bm_insert key (length deduped) positions, deduped @ [c]))"

definition deduplicate :: "char_tables \<Rightarrow> extracted_entity list \<Rightarrow> extracted_entity list" where
  "deduplicate u cs = snd (fold (absorb_entity u) cs ([], []))"

definition usize_max :: nat where
  "usize_max = 2 ^ 64 - 1"

definition start_key :: "extracted_entity \<Rightarrow> nat" where
  "start_key c = (case ee_span c of None \<Rightarrow> usize_max | Some s \<Rightarrow> es_start s)"

definition end_key :: "extracted_entity \<Rightarrow> nat" where
  "end_key c = (case ee_span c of None \<Rightarrow> 0 | Some s \<Rightarrow> es_end s)"

definition spans_overlap :: "extracted_entity \<Rightarrow> extracted_entity \<Rightarrow> bool" where
  "spans_overlap l r \<longleftrightarrow>
     (case (ee_span l, ee_span r) of
        (Some a, Some b) \<Rightarrow> es_start a < es_end b \<and> es_start b < es_end a
      | _ \<Rightarrow> False)"

text \<open>\<^verbatim>\<open>a.cmp(b).then_with(..)\<close> on a key.\<close>

definition then_by :: "('a \<Rightarrow> 'k::linorder) \<Rightarrow> ('a \<Rightarrow> 'a \<Rightarrow> bool) \<Rightarrow> 'a \<Rightarrow> 'a \<Rightarrow> bool" where
  "then_by key le l r \<longleftrightarrow> key l < key r \<or> key l = key r \<and> le l r"

definition precedence_order :: "extracted_entity \<Rightarrow> extracted_entity \<Rightarrow> bool" where
  "precedence_order =
     then_by ee_priority (by_score ee_confidence
       (then_by (\<lambda>c. Desc (start_key c - end_key c)) (\<lambda>l r. start_key l \<le> start_key r)))"

definition position_order :: "extracted_entity \<Rightarrow> extracted_entity \<Rightarrow> bool" where
  "position_order = then_by start_key (then_by end_key (\<lambda>l r. ee_priority l \<le> ee_priority r))"

definition conflicts :: "extracted_entity list \<Rightarrow> extracted_entity \<Rightarrow> bool" where
  "conflicts accepted c \<longleftrightarrow>
     list_ex (\<lambda>d. spans_overlap c d \<and>
       \<not> (ee_kind c = TopicEntity \<and> contains_text (ee_text c) '' '' \<and> ee_kind d = ProperEntity)) accepted"

definition accept_entity :: "extracted_entity \<Rightarrow> extracted_entity list \<Rightarrow> extracted_entity list" where
  "accept_entity c accepted = (if conflicts accepted c then accepted else accepted @ [c])"

definition resolve_candidates :: "char_tables \<Rightarrow> extracted_entity list \<Rightarrow> extracted_entity list" where
  "resolve_candidates u cs =
     sort_by position_order (fold accept_entity (sort_by precedence_order (deduplicate u cs)) [])"

definition extraction_candidates :: "char_tables \<Rightarrow> string \<Rightarrow> extracted_entity list" where
  "extraction_candidates u s =
     (let cs = chars s; ts = entity_tokens u cs
      in collect_technical_identifiers u ts @ collect_proper_names u cs ts @ collect_quoted s @ collect_topics u [] ts)"

definition extract_entities :: "char_tables \<Rightarrow> string \<Rightarrow> extracted_entity list" where
  "extract_entities u s = resolve_candidates u (extraction_candidates u s)"

definition extract_entity_texts :: "char_tables \<Rightarrow> string \<Rightarrow> string list" where
  "extract_entity_texts u s = map ee_text (extract_entities u s)"

section \<open>Query entities and boosts\<close>

fun select_from :: "char_tables \<Rightarrow> string list \<Rightarrow> extracted_entity list \<Rightarrow> extracted_entity list" where
  "select_from u seen [] = []"
| "select_from u seen (e # es) =
     (let key = normalize_entity_text u (ee_text e)
      in if key = [] \<or> key \<in> set seen then select_from u seen es
         else e # select_from u (seen @ [key]) es)"

definition select_query_entities :: "char_tables \<Rightarrow> extracted_entity list \<Rightarrow> extracted_entity list" where
  "select_query_entities u es = select_from u [] (take max_query_entities es)"

record linked_entity_match =
  le_similarity :: f64
  le_memory_ids :: "string list"

definition memory_count_weight :: "nat \<Rightarrow> f64" where
  "memory_count_weight n =
     (let excess = f64_of_nat (max n 1 - 1)
      in f64_div f64_one (f64_add f64_one (f64_mul (f64_mul (f64_lit 1 3) excess) excess)))"

definition boost_memory :: "f64 \<Rightarrow> string \<Rightarrow> (string, f64) bmap \<Rightarrow> (string, f64) bmap" where
  "boost_memory contribution i boosts =
     (if i = [] then boosts
      else case bm_get boosts i of
          None \<Rightarrow> bm_insert i contribution boosts
        | Some existing \<Rightarrow> if f64_lt existing contribution then bm_insert i contribution boosts else boosts)"

definition match_contribution :: "linked_entity_match \<Rightarrow> f64" where
  "match_contribution m =
     f64_mul (f64_mul (le_similarity m) entity_boost_weight) (memory_count_weight (length (le_memory_ids m)))"

definition boost_match :: "linked_entity_match \<Rightarrow> (string, f64) bmap \<Rightarrow> (string, f64) bmap" where
  "boost_match m boosts =
     (if \<not> f64_finite (le_similarity m) \<or> f64_lt (le_similarity m) entity_similarity_threshold \<or> le_memory_ids m = []
      then boosts
      else let contribution = match_contribution m
           in if \<not> f64_finite contribution \<or> f64_le contribution f64_zero then boosts
              else fold (boost_memory contribution) (le_memory_ids m) boosts)"

definition entity_boosts :: "linked_entity_match list \<Rightarrow> (string, f64) bmap" where
  "entity_boosts ms = fold boost_match ms []"

end
