(* ===== verification/Entity_Laws.thy ===== *)
theory Entity_Laws
  imports Entity_Extraction "HOL-Library.Sublist"
begin

text \<open>
  Tokens are ordered and disjoint; a topic and a proper name never share a token, so the
  exemption in the overlap test is dead and all accepted spans are disjoint.
\<close>

section \<open>Tokens\<close>

definition tokens_within :: "nat \<Rightarrow> nat \<Rightarrow> token list \<Rightarrow> bool" where
  "tokens_within a b ts \<longleftrightarrow>
     (\<forall>t \<in> set ts. a \<le> tk_start t \<and> tk_start t < tk_end t \<and> tk_end t \<le> b) \<and>
     sorted_wrt (\<lambda>s t. tk_end s \<le> tk_start t) ts"

lemma tokens_within_append:
  "tokens_within a b ss \<Longrightarrow> tokens_within b c ts \<Longrightarrow> a \<le> b \<Longrightarrow> b \<le> c \<Longrightarrow> tokens_within a c (ss @ ts)"
  by (fastforce simp: tokens_within_def sorted_wrt_append)

lemma tokens_within_wider: "tokens_within a b ts \<Longrightarrow> a' \<le> a \<Longrightarrow> b \<le> b' \<Longrightarrow> tokens_within a' b' ts"
  by (fastforce simp: tokens_within_def)

lemma push_token_within: "tokens_within b (b + length raw) (push_token raw b)"
  by (auto simp: push_token_def tokens_within_def Let_def)

lemma word_tokens_within:
  "length word \<le> i \<Longrightarrow> tokens_within (i - length word) (i + length cs) (word_tokens u word i cs)"
proof (induction cs arbitrary: word i)
  case Nil
  then show ?case
    using push_token_within [of "i - length word" word] by simp
next
  case (Cons c cs)
  have push: "tokens_within (i - length word) i (push_token word (i - length word))"
    using push_token_within [of "i - length word" word] Cons.prems by simp
  have grow: "tokens_within (i - length word) (i + length (c # cs)) (word_tokens u (word @ [c]) (i + 1) cs)"
    using Cons.IH [of "word @ [c]" "i + 1"] Cons.prems by simp
  have "tokens_within i (i + length (c # cs)) (word_tokens u [] (i + 1) cs)"
    using Cons.IH [of "[]" "i + 1"] tokens_within_wider by fastforce
  then have "tokens_within (i - length word) (i + length (c # cs))
      (push_token word (i - length word) @ word_tokens u [] (i + 1) cs)"
    by (rule tokens_within_append [OF push]) simp_all
  then show ?case
    using grow by simp
qed

lemma entity_tokens_within: "tokens_within 0 (length cs) (entity_tokens u cs)"
  using word_tokens_within [of "[]" 0 cs u] by (simp add: entity_tokens_def)

section \<open>Candidates over a block of tokens\<close>

definition block_candidate :: "token list \<Rightarrow> (token \<Rightarrow> bool) \<Rightarrow> extracted_entity \<Rightarrow> bool" where
  "block_candidate ts P c \<longleftrightarrow>
     (\<exists>l m r. ts = l @ m @ r \<and> m \<noteq> [] \<and> (\<forall>t \<in> set m. P t) \<and>
        ee_span c = Some \<lparr>es_start = tk_start (hd m), es_end = tk_end (last m)\<rparr>)"

lemma tokens_block:
  assumes "tokens_within a b (l @ m @ r)" and "m \<noteq> []"
  shows "a \<le> tk_start (hd m) \<and> tk_start (hd m) < tk_end (last m) \<and> tk_end (last m) \<le> b"
proof -
  have within: "tokens_within a b m"
    using assms(1) by (auto simp: tokens_within_def sorted_wrt_append)
  have "tk_start (hd m) < tk_end (last m)"
  proof (cases "tl m = []")
    case True
    then have "last m = hd m"
      using assms(2) by (cases m) simp_all
    then show ?thesis
      using within assms(2) by (simp add: tokens_within_def)
  next
    case False
    then have "last m \<in> set (tl m)" "m = hd m # tl m"
      using assms(2) last_in_set [of "tl m"] by (cases m, simp_all)+
    then have "tk_end (hd m) \<le> tk_start (last m)"
      using within by (metis sorted_wrt.simps(2) tokens_within_def)
    moreover have "tk_start (hd m) < tk_end (hd m)" "tk_start (last m) < tk_end (last m)"
      using within assms(2) by (simp_all add: tokens_within_def)
    ultimately show ?thesis by linarith
  qed
  then show ?thesis
    using within assms(2) by (simp add: tokens_within_def)
qed

lemma block_span:
  assumes "block_candidate ts P c" and "tokens_within 0 n ts"
  shows "\<exists>s. ee_span c = Some s \<and> es_start s < es_end s \<and> es_end s \<le> n"
  using assms tokens_block unfolding block_candidate_def by fastforce

text \<open>Blocks without a common token are apart.\<close>

lemma blocks_disjoint:
  assumes "tokens_within a b ts" and "ts = l1 @ m1 @ r1" and "ts = l2 @ m2 @ r2"
    and "set m1 \<inter> set m2 = {}" and "m1 \<noteq> []" and "m2 \<noteq> []"
  shows "tk_end (last m1) \<le> tk_start (hd m2) \<or> tk_end (last m2) \<le> tk_start (hd m1)"
proof -
  have before: "tk_end (last m) \<le> tk_start (hd m')"
    if "ts = l @ m @ r" "ts = l' @ m' @ r'" "length l + length m \<le> length l'" "m \<noteq> []" "m' \<noteq> []" for l m r l' m' r'
  proof -
    have "last m \<in> set (take (length l') ts)"
    proof -
      have "take (length l + length m) ts = l @ m"
        using that(1) by simp
      then have "last m \<in> set (take (length l + length m) ts)"
        using that(4) by simp
      then show ?thesis
        using set_take_subset_set_take [OF that(3), of ts] by blast
    qed
    moreover have "take (length l') ts = l'" "ts = l' @ m' @ r'"
      using that(2) by simp_all
    ultimately show ?thesis
      using assms(1) that(5) by (auto simp: tokens_within_def sorted_wrt_append)
  qed
  show ?thesis
  proof (cases "length l1 + length m1 \<le> length l2 \<or> length l2 + length m2 \<le> length l1")
    case True
    then show ?thesis
      using before [OF assms(2,3)] before [OF assms(3,2)] assms(5,6) by blast
  next
    case False
    let ?k = "max (length l1) (length l2)"
    have "ts ! ?k \<in> set m1"
      using False assms(2,5) by (auto simp: nth_append max_def)
    moreover have "ts ! ?k \<in> set m2"
      using False assms(3,6) by (auto simp: nth_append max_def)
    ultimately show ?thesis
      using assms(4) by blast
  qed
qed

lemma block_candidates_disjoint:
  assumes "block_candidate ts P c" and "block_candidate ts Q d" and "tokens_within a b ts"
    and "\<And>t. P t \<Longrightarrow> \<not> Q t"
  shows "\<not> spans_overlap c d \<and> \<not> spans_overlap d c"
proof -
  obtain l1 m1 r1 where m1: "ts = l1 @ m1 @ r1" "m1 \<noteq> []" "\<forall>t \<in> set m1. P t"
    "ee_span c = Some \<lparr>es_start = tk_start (hd m1), es_end = tk_end (last m1)\<rparr>"
    using assms(1) unfolding block_candidate_def by blast
  obtain l2 m2 r2 where m2: "ts = l2 @ m2 @ r2" "m2 \<noteq> []" "\<forall>t \<in> set m2. Q t"
    "ee_span d = Some \<lparr>es_start = tk_start (hd m2), es_end = tk_end (last m2)\<rparr>"
    using assms(2) unfolding block_candidate_def by blast
  have "set m1 \<inter> set m2 = {}"
    using m1(3) m2(3) assms(4) by blast
  from blocks_disjoint [OF assms(3) m1(1) m2(1) this m1(2) m2(2)] m1(4) m2(4)
  show ?thesis by (auto simp: spans_overlap_def)
qed

section \<open>What each collector yields\<close>

definition usable_text :: "string \<Rightarrow> bool" where
  "usable_text s \<longleftrightarrow> 2 < length (chars s) \<and> \<not> has_artifacts s"

lemma pushed:
  "c \<in> set (push_candidate_entity kind raw span source) \<Longrightarrow>
    usable_text (ee_text c) \<and> ee_kind c = kind \<and> ee_span c = span \<and> ee_confidence c = kind_confidence kind \<and>
    ee_priority c = kind_priority kind"
  by (auto simp: push_candidate_entity_def usable_text_def Let_def split: if_splits)

definition graded :: "extracted_entity \<Rightarrow> bool" where
  "graded c \<longleftrightarrow> usable_text (ee_text c) \<and> ee_confidence c = kind_confidence (ee_kind c) \<and>
     ee_priority c = kind_priority (ee_kind c)"

lemma identifier_block:
  assumes "c \<in> set (collect_technical_identifiers u ts)"
  shows "ee_kind c = IdentifierEntity \<and> graded c \<and> block_candidate ts (\<lambda>_. True) c"
proof -
  obtain t where t: "t \<in> set ts" "c \<in> set (identifier_candidate u t)"
    using assms by (auto simp: collect_technical_identifiers_def)
  then have c: "ee_kind c = IdentifierEntity \<and> graded c \<and> ee_span c = token_span t"
    by (auto simp: identifier_candidate_def graded_def dest!: pushed split: if_splits)
  obtain l r where "ts = l @ [t] @ r"
    using t(1) by (auto simp: in_set_conv_decomp)
  then show ?thesis
    using c unfolding block_candidate_def token_span_def
    by (intro conjI exI [of _ l] exI [of _ "[t]"] exI [of _ r]) simp_all
qed

lemma extend_name_split:
  "ts = fst (extend_name u cs ts) @ snd (extend_name u cs ts) \<and>
   (\<forall>t \<in> set (fst (extend_name u cs ts)). name_like u cs t \<or> is_connector u t)"
  by (induction u cs ts rule: extend_name.induct) (auto split: prod.splits)

lemma block_candidate_append: "block_candidate ts P c \<Longrightarrow> block_candidate (ss @ ts) P c"
  unfolding block_candidate_def by (metis append.assoc)

lemma name_block:
  "c \<in> set (collect_proper_names u cs ts) \<Longrightarrow>
    ee_kind c = ProperEntity \<and> graded c \<and> block_candidate ts (\<lambda>t. name_like u cs t \<or> is_connector u t) c"
proof (induction u cs ts rule: collect_proper_names.induct)
  case (2 u cs t ts)
  let ?span = "t # fst (extend_name u cs ts)" and ?rest = "snd (extend_name u cs ts)"
  have split: "t # ts = ?span @ ?rest"
    using extend_name_split [of ts u cs] by simp
  consider (skip) "\<not> name_like u cs t" "c \<in> set (collect_proper_names u cs ts)"
    | (span) "name_like u cs t" "c \<in> set (name_candidate u cs ?span)"
    | (rest) "name_like u cs t" "c \<in> set (collect_proper_names u cs ?rest)"
    using "2.prems" by (auto split: if_splits)
  then show ?case
  proof cases
    case skip
    then show ?thesis
      using "2.IH"(1) block_candidate_append [of ts _ c "[t]"] by simp
  next
    case rest
    then have "ee_kind c = ProperEntity \<and> graded c"
      and "block_candidate (?span @ ?rest) (\<lambda>t. name_like u cs t \<or> is_connector u t) c"
      using "2.IH"(2) by (blast intro: block_candidate_append)+
    then show ?thesis
      unfolding split by blast
  next
    case span
    then have c: "ee_kind c = ProperEntity \<and> graded c \<and>
        ee_span c = Some \<lparr>es_start = tk_start (hd ?span), es_end = tk_end (last ?span)\<rparr>"
      by (auto simp: name_candidate_def graded_def dest!: pushed split: if_splits)
    have "\<forall>x \<in> set ?span. name_like u cs x \<or> is_connector u x"
      using span(1) extend_name_split [of ts u cs] by auto
    then have "block_candidate (t # ts) (\<lambda>t. name_like u cs t \<or> is_connector u t) c"
      unfolding block_candidate_def using c split
      by (intro exI [of _ "[]"] exI [of _ ?span] exI [of _ ?rest]) simp
    then show ?thesis
      using c by blast
  qed
qed simp

lemma quoted_plain:
  "c \<in> set (quoted_from quote bounded prev cs) \<Longrightarrow> ee_kind c = QuotedEntity \<and> graded c \<and> ee_span c = None"
proof (induction quote bounded prev cs rule: quoted_from.induct)
  case (2 quote bounded prev c' cs)
  show ?case
  proof (cases "c' \<noteq> quote \<or> bounded \<and> (case prev of Some p \<Rightarrow> \<not> is_quote_boundary p | None \<Rightarrow> False)")
    case True
    then show ?thesis
      using "2.IH"(1,2) "2.prems" by (auto split: if_splits)
  next
    case False
    show ?thesis
    proof (cases "dropWhile (\<lambda>c. c \<noteq> quote) cs")
      case Nil
      then have "quoted_from quote bounded prev (c' # cs) = []"
        unfolding quoted_from.simps(2) Nil using False by auto
      then show ?thesis using "2.prems" by simp
    next
      case (Cons q rest)
      then consider "c \<in> set (quoted_from quote bounded (Some q) rest)"
        | "c \<in> set (push_candidate_entity QuotedEntity (utf8 (takeWhile (\<lambda>c. c \<noteq> quote) cs)) None ''quoted'')"
        using False "2.prems" by (auto simp: Let_def simp del: push_candidate_entity_def split: if_splits)
      then show ?thesis
      proof cases
        case 1
        then show ?thesis
          using "2.IH"(3) False Cons by blast
      next
        case 2
        then show ?thesis by (auto simp: graded_def dest!: pushed)
      qed
    qed
  qed
qed simp

text \<open>Between the first and the last element of a subsequence there is a block.\<close>

lemma subseq_block:
  "subseq f w \<Longrightarrow> f \<noteq> [] \<Longrightarrow> \<exists>l m r. w = l @ m @ r \<and> m \<noteq> [] \<and> hd m = hd f \<and> last m = last f"
proof (induction f arbitrary: w)
  case (Cons a f)
  obtain l v where w: "w = l @ a # v" "subseq f v"
    using list_emb_ConsD [OF Cons.prems(1)] by blast
  show ?case
  proof (cases "f = []")
    case True
    then show ?thesis
      using w by (intro exI [of _ l] exI [of _ "[a]"] exI [of _ v]) simp
  next
    case False
    obtain l' m r where m: "v = l' @ m @ r" "m \<noteq> []" "last m = last f"
      using Cons.IH [OF w(2) False] by blast
    then have "w = l @ (a # l' @ m) @ r" using w by simp
    then show ?thesis using False m by (intro exI [of _ l] exI [of _ "a # l' @ m"] exI [of _ r]) simp
  qed
qed simp

lemma strip_opener_subseq: "subseq (strip_opener u words) words"
  by (auto simp: strip_opener_def split: list.split)

lemma strip_ending_subseq: "subseq (strip_ending u words) words"
proof -
  have "subseq (butlast words) words"
    by (metis append_butlast_last_id butlast.simps(1) prefix_def prefix_imp_subseq subseq_order.order_refl)
  then show ?thesis by (simp add: strip_ending_def)
qed

lemma emit_topic_span:
  assumes "c \<in> set (emit_topic u run)"
  shows "\<exists>f. f \<noteq> [] \<and> subseq f run \<and> ee_kind c = TopicEntity \<and> graded c \<and>
    ee_span c = Some \<lparr>es_start = tk_start (hd f), es_end = tk_end (last f)\<rparr>"
proof -
  let ?f = "strip_ending u (filter (\<lambda>t. \<not> non_specific u t) (strip_opener u run))"
  have "?f \<noteq> [] \<and> ee_kind c = TopicEntity \<and> graded c \<and>
      ee_span c = Some \<lparr>es_start = tk_start (hd ?f), es_end = tk_end (last ?f)\<rparr>"
    using assms by (auto simp: emit_topic_def Let_def graded_def dest!: pushed split: if_splits)
  moreover have "subseq ?f run"
    using strip_ending_subseq strip_opener_subseq subseq_filter_left subseq_order.order_trans by meson
  ultimately show ?thesis by blast
qed

lemma emit_topic_block:
  assumes "c \<in> set (emit_topic u run)" and "\<forall>t \<in> set run. is_topic_token u (tk_text t)"
  shows "ee_kind c = TopicEntity \<and> graded c \<and> block_candidate (run @ ts) (\<lambda>t. is_topic_token u (tk_text t)) c"
proof -
  obtain f where f: "f \<noteq> []" "subseq f run" "ee_kind c = TopicEntity" "graded c"
    "ee_span c = Some \<lparr>es_start = tk_start (hd f), es_end = tk_end (last f)\<rparr>"
    using emit_topic_span [OF assms(1)] by blast
  obtain l m r where "run = l @ m @ r" "m \<noteq> []" "hd m = hd f" "last m = last f"
    using subseq_block [OF f(2,1)] by blast
  then have "block_candidate (run @ ts) (\<lambda>t. is_topic_token u (tk_text t)) c"
    unfolding block_candidate_def using f(5) assms(2)
    by (intro exI [of _ l] exI [of _ m] exI [of _ "r @ ts"]) simp
  then show ?thesis using f by blast
qed

lemma topic_block:
  "c \<in> set (collect_topics u run ts) \<Longrightarrow> \<forall>t \<in> set run. is_topic_token u (tk_text t) \<Longrightarrow>
    ee_kind c = TopicEntity \<and> graded c \<and> block_candidate (run @ ts) (\<lambda>t. is_topic_token u (tk_text t)) c"
proof (induction u run ts rule: collect_topics.induct)
  case (1 u run)
  then show ?case using emit_topic_block [of c u run "[]"] by simp
next
  case (2 u run t ts)
  show ?case
  proof (cases "is_topic_token u (tk_text t)")
    case True
    then show ?thesis using "2.IH"(1) "2.prems" by simp
  next
    case False
    then consider (emit) "c \<in> set (emit_topic u run)" | (rest) "c \<in> set (collect_topics u [] ts)"
      using "2.prems"(1) by auto
    then show ?thesis
    proof cases
      case emit
      then show ?thesis using emit_topic_block "2.prems"(2) by blast
    next
      case rest
      then show ?thesis
        using "2.IH"(2) False block_candidate_append [of ts _ c "run @ [t]"] by simp
    qed
  qed
qed

section \<open>Deduplication\<close>

definition dedup_ok :: "char_tables \<Rightarrow> extracted_entity list \<Rightarrow> (string, nat) bmap \<times> extracted_entity list \<Rightarrow> bool" where
  "dedup_ok u seen st \<longleftrightarrow>
     (case st of (positions, ds) \<Rightarrow>
        bm_ok positions \<and>
        (\<forall>k i. bm_get positions k = Some i \<longleftrightarrow> i < length ds \<and> normalize_entity_text u (ee_text (ds ! i)) = k) \<and>
        set ds \<subseteq> set seen \<and>
        (\<forall>c \<in> set seen. \<exists>d \<in> set ds. normalize_entity_text u (ee_text d) = normalize_entity_text u (ee_text c) \<and>
           ee_priority d \<le> ee_priority c))"

lemma dedup_step:
  assumes "dedup_ok u seen st"
  shows "dedup_ok u (seen @ [c]) (absorb_entity u c st)"
proof -
  obtain positions ds where st: "st = (positions, ds)" by fastforce
  let ?n = "\<lambda>c. normalize_entity_text u (ee_text c)"
  have ok: "bm_ok positions" and pos: "\<And>k i. bm_get positions k = Some i \<longleftrightarrow> i < length ds \<and> ?n (ds ! i) = k"
    and sub: "set ds \<subseteq> set seen" and rep: "\<forall>c \<in> set seen. \<exists>d \<in> set ds. ?n d = ?n c \<and> ee_priority d \<le> ee_priority c"
    using assms by (simp_all add: dedup_ok_def st)
  show ?thesis
  proof (cases "bm_get positions (?n c)")
    case None
    have step: "absorb_entity u c st = (bm_insert (?n c) (length ds) positions, ds @ [c])"
      by (simp add: absorb_entity_def st None)
    have "\<not> (i < length ds \<and> ?n (ds ! i) = ?n c)" for i
      using pos [of "?n c" i] None by simp
    then have "bm_get (bm_insert (?n c) (length ds) positions) k = Some i \<longleftrightarrow>
        i < length (ds @ [c]) \<and> ?n ((ds @ [c]) ! i) = k" for k i
      using pos [of k i] ok by (auto simp: nth_append less_Suc_eq)
    then show ?thesis
      unfolding step dedup_ok_def using ok sub rep by auto
  next
    case (Some i)
    then have i: "i < length ds" "?n (ds ! i) = ?n c"
      using pos by simp_all
    show ?thesis
    proof (cases "better_rank c (ds ! i)")
      case True
      have step: "absorb_entity u c st = (positions, ds[i := c])"
        by (simp add: absorb_entity_def st Some True)
      have "?n (ds[i := c] ! j) = ?n (ds ! j)" if "j < length ds" for j
        using i that by (cases "i = j") simp_all
      then have "bm_get positions k = Some j \<longleftrightarrow> j < length (ds[i := c]) \<and> ?n (ds[i := c] ! j) = k" for k j
        using pos [of k j] by auto
      moreover have "set (ds[i := c]) \<subseteq> set (seen @ [c])"
        using set_update_subset_insert [of ds i c] sub by auto
      moreover have "\<exists>d \<in> set (ds[i := c]). ?n d = ?n e \<and> ee_priority d \<le> ee_priority e" if e: "e \<in> set (seen @ [c])" for e
      proof (cases "?n e = ?n c")
        case same: True
        have c: "c \<in> set (ds[i := c])"
          using i(1) by (simp add: set_update_memI)
        have "ee_priority c \<le> ee_priority e"
        proof (cases "e = c")
          case False
          then obtain d where d: "d \<in> set ds" "?n d = ?n e" "ee_priority d \<le> ee_priority e"
            using rep e by auto
          then obtain j where "j < length ds" "d = ds ! j"
            by (auto simp: in_set_conv_nth)
          then have "d = ds ! i"
            using pos [of "?n c" j] d(2) same Some by simp
          then show ?thesis
            using True d(3) by (auto simp: better_rank_def)
        qed simp
        then show ?thesis using c same by metis
      next
        case other: False
        then obtain d where d: "d \<in> set ds" "?n d = ?n e" "ee_priority d \<le> ee_priority e"
          using rep e by auto
        then obtain j where j: "j < length ds" "d = ds ! j"
          by (auto simp: in_set_conv_nth)
        then have "i \<noteq> j"
          using d(2) i(2) other by auto
        then have "d \<in> set (ds[i := c])"
          using j by (metis length_list_update nth_list_update_neq nth_mem)
        then show ?thesis using d by blast
      qed
      ultimately show ?thesis
        unfolding step dedup_ok_def using ok by auto
    next
      case False
      have step: "absorb_entity u c st = (positions, ds)"
        by (simp add: absorb_entity_def st Some False)
      have "ee_priority (ds ! i) \<le> ee_priority c"
        using False by (auto simp: better_rank_def)
      then have "\<exists>d \<in> set ds. ?n d = ?n c \<and> ee_priority d \<le> ee_priority c"
        using i by (intro bexI [of _ "ds ! i"]) simp_all
      then show ?thesis
        unfolding step dedup_ok_def using ok pos sub rep by auto
    qed
  qed
qed

lemma deduplicate_ok: "dedup_ok u cs (fold (absorb_entity u) cs ([], []))"
proof (induction cs rule: rev_induct)
  case Nil
  then show ?case by (simp add: dedup_ok_def bm_ok_def bm_get_def)
next
  case (snoc c cs)
  then show ?case using dedup_step by simp
qed

lemma deduplicate_facts:
  "set (deduplicate u cs) \<subseteq> set cs"
  "distinct (map (\<lambda>c. normalize_entity_text u (ee_text c)) (deduplicate u cs))"
  "c \<in> set cs \<Longrightarrow> \<exists>d \<in> set (deduplicate u cs).
     normalize_entity_text u (ee_text d) = normalize_entity_text u (ee_text c) \<and> ee_priority d \<le> ee_priority c"
proof -
  obtain positions where ok: "dedup_ok u cs (positions, deduplicate u cs)"
    using deduplicate_ok [of u cs] unfolding deduplicate_def by (metis prod.collapse)
  then show "set (deduplicate u cs) \<subseteq> set cs"
    and "c \<in> set cs \<Longrightarrow> \<exists>d \<in> set (deduplicate u cs).
      normalize_entity_text u (ee_text d) = normalize_entity_text u (ee_text c) \<and> ee_priority d \<le> ee_priority c"
    by (simp_all add: dedup_ok_def)
  have pos: "bm_get positions k = Some i \<longleftrightarrow>
      i < length (deduplicate u cs) \<and> normalize_entity_text u (ee_text (deduplicate u cs ! i)) = k" for k i
    using ok by (simp add: dedup_ok_def)
  show "distinct (map (\<lambda>c. normalize_entity_text u (ee_text c)) (deduplicate u cs))"
    unfolding distinct_conv_nth using pos by (metis (no_types, lifting) length_map nth_map option.inject)
qed

section \<open>Acceptance\<close>

lemma f64_lit_num: "f64_num (f64_lit n k)"
proof -
  have "f64_lit n k \<noteq> F64NaN"
    by (simp add: f64_lit_def f64_round_def Let_def)
  then show ?thesis
    using f64_lit_ok [of n k] by (simp add: f64_num_def)
qed

lemma kind_confidence_num: "f64_num (kind_confidence k)"
  by (cases k) (simp_all add: f64_lit_num)

interpretation precedence: ranking precedence_order
    "\<lambda>c. (ee_priority c, Desc (f64_key (ee_confidence c)), Desc (start_key c - end_key c), start_key c)"
    "\<lambda>c. f64_num (ee_confidence c)"
  by unfold_locales
    (auto simp: precedence_order_def then_by_def by_score_def f64_lt_key less_eq_prod_def less_prod_def not_less)

interpretation position: ranking position_order "\<lambda>c. (start_key c, end_key c, ee_priority c)" "\<lambda>_. True"
  by unfold_locales (auto simp: position_order_def then_by_def less_eq_prod_def less_prod_def)

lemma subseq_set: "subseq xs ys \<Longrightarrow> set xs \<subseteq> set ys"
  by (auto elim: list_emb_set)

text \<open>No overlap among the accepted, and a reason for each rejection.\<close>

lemma accept_all:
  assumes "\<And>c d. c \<in> set cs \<Longrightarrow> d \<in> set cs \<Longrightarrow> ee_kind c = TopicEntity \<Longrightarrow> ee_kind d = ProperEntity \<Longrightarrow> \<not> spans_overlap c d"
    and "sorted_wrt (\<lambda>c d. ee_priority c \<le> ee_priority d) cs"
  shows "subseq (fold accept_entity cs []) cs \<and>
    sorted_wrt (\<lambda>c d. \<not> spans_overlap c d) (fold accept_entity cs []) \<and>
    (\<forall>c \<in> set cs. c \<in> set (fold accept_entity cs []) \<or>
       (\<exists>d \<in> set (fold accept_entity cs []). spans_overlap c d \<and> ee_priority d \<le> ee_priority c))"
  using assms
proof (induction cs rule: rev_induct)
  case (snoc c cs)
  let ?as = "fold accept_entity cs []"
  have ih: "subseq ?as cs" "sorted_wrt (\<lambda>c d. \<not> spans_overlap c d) ?as"
    "\<forall>c \<in> set cs. c \<in> set ?as \<or> (\<exists>d \<in> set ?as. spans_overlap c d \<and> ee_priority d \<le> ee_priority c)"
    using snoc by (auto simp: sorted_wrt_append)
  have sym: "spans_overlap x y = spans_overlap y x" for x y
    by (auto simp: spans_overlap_def split: option.split)
  have sub: "set ?as \<subseteq> set cs"
    using ih(1) by (rule subseq_set)
  have conflicts: "conflicts ?as c \<longleftrightarrow> (\<exists>d \<in> set ?as. spans_overlap c d)"
    using snoc.prems(1) [of c] sub by (auto simp: conflicts_def list_ex_iff)
  show ?case
  proof (cases "conflicts ?as c")
    case True
    then obtain d where "d \<in> set ?as" "spans_overlap c d"
      using conflicts by blast
    moreover from this have "ee_priority d \<le> ee_priority c"
      using snoc.prems(2) sub by (auto simp: sorted_wrt_append)
    moreover have "subseq ?as (cs @ [c])"
      using ih(1) by (rule list_emb_prefix)
    moreover have "fold accept_entity (cs @ [c]) [] = ?as"
      using True by (simp add: accept_entity_def [of c ?as])
    ultimately show ?thesis
      using ih by auto
  next
    case False
    then have "\<forall>d \<in> set ?as. \<not> spans_overlap d c"
      using conflicts sym by blast
    moreover have "subseq (?as @ [c]) (cs @ [c])"
      using ih(1) by simp
    moreover have "fold accept_entity (cs @ [c]) [] = ?as @ [c]"
      using False by (simp add: accept_entity_def [of c ?as])
    ultimately show ?thesis
      using ih by (auto simp: sorted_wrt_append)
  qed
qed simp

section \<open>The extraction\<close>

lemma connectors_are_stopwords: "set allowed_inner_connectors \<subseteq> set stopwords"
  by (simp add: allowed_inner_connectors_def stopwords_def)

lemma topic_no_name:
  assumes "is_topic_token u (tk_text t)"
  shows "\<not> (name_like u cs t \<or> is_connector u t)"
proof -
  have "\<not> is_connector u t"
    using assms connectors_are_stopwords by (auto simp: is_topic_token_def is_connector_def is_stopword_def)
  moreover have "\<not> name_like u cs t"
    using assms by (auto simp: is_topic_token_def name_like_def is_name_like_token_def split: list.splits)
  ultimately show ?thesis by blast
qed

text \<open>A span is a proper part of the text.\<close>

definition span_within :: "nat \<Rightarrow> extracted_entity \<Rightarrow> bool" where
  "span_within n c \<longleftrightarrow> (\<forall>s. ee_span c = Some s \<longrightarrow> es_start s < es_end s \<and> es_end s \<le> n)"

lemma block_within: "block_candidate (entity_tokens u (chars s)) P c \<Longrightarrow> span_within (length (chars s)) c \<and> ee_span c \<noteq> None"
  using block_span [OF _ entity_tokens_within] by (force simp: span_within_def)

lemma candidate_ok:
  assumes "c \<in> set (extraction_candidates u s)"
  shows "graded c \<and> span_within (length (chars s)) c \<and> (ee_span c = None \<longleftrightarrow> ee_kind c = QuotedEntity)"
proof -
  let ?ts = "entity_tokens u (chars s)"
  consider "c \<in> set (collect_technical_identifiers u ?ts)" | "c \<in> set (collect_proper_names u (chars s) ?ts)"
    | "c \<in> set (collect_quoted s)" | "c \<in> set (collect_topics u [] ?ts)"
    using assms by (auto simp: extraction_candidates_def Let_def)
  then show ?thesis
  proof cases
    case 1
    from identifier_block [OF this] show ?thesis
      using block_within by fastforce
  next
    case 2
    from name_block [OF this] show ?thesis
      using block_within by fastforce
  next
    case 3
    then have "ee_kind c = QuotedEntity \<and> graded c \<and> ee_span c = None"
      using quoted_plain by (auto simp: collect_quoted_def)
    then show ?thesis by (simp add: span_within_def)
  next
    case 4
    from topic_block [OF this] show ?thesis
      using block_within by fastforce
  qed
qed

lemma topics_avoid_names:
  assumes "c \<in> set (extraction_candidates u s)" and "ee_kind c = TopicEntity"
    and "d \<in> set (extraction_candidates u s)" and "ee_kind d = ProperEntity"
  shows "\<not> spans_overlap c d"
proof -
  let ?ts = "entity_tokens u (chars s)"
  have kinds: "ee_kind c = IdentifierEntity" if "c \<in> set (collect_technical_identifiers u ?ts)" for c
    using identifier_block that by blast
  have quoted: "ee_kind c = QuotedEntity" if "c \<in> set (collect_quoted s)" for c
    using quoted_plain that by (auto simp: collect_quoted_def)
  have names: "ee_kind c = ProperEntity" if "c \<in> set (collect_proper_names u (chars s) ?ts)" for c
    using name_block that by blast
  have topics: "ee_kind c = TopicEntity" if "c \<in> set (collect_topics u [] ?ts)" for c
    using topic_block that by simp
  have "c \<in> set (collect_topics u [] ?ts)"
    using assms(1,2) kinds quoted names by (auto simp: extraction_candidates_def Let_def)
  then have "block_candidate ?ts (\<lambda>t. is_topic_token u (tk_text t)) c"
    using topic_block [of c u "[]" ?ts] by simp
  moreover have "d \<in> set (collect_proper_names u (chars s) ?ts)"
    using assms(3,4) kinds quoted topics by (auto simp: extraction_candidates_def Let_def)
  then have "block_candidate ?ts (\<lambda>t. name_like u (chars s) t \<or> is_connector u t) d"
    using name_block by blast
  ultimately show ?thesis
    using block_candidates_disjoint [OF _ _ entity_tokens_within] topic_no_name by blast
qed

definition accepted_entities :: "char_tables \<Rightarrow> string \<Rightarrow> extracted_entity list" where
  "accepted_entities u s =
     fold accept_entity (sort_by precedence_order (deduplicate u (extraction_candidates u s))) []"

lemma extract_entities_sorted: "extract_entities u s = sort_by position_order (accepted_entities u s)"
  by (simp add: extract_entities_def resolve_candidates_def accepted_entities_def)

lemma accepted_facts:
  fixes u :: char_tables and s :: string
  defines "ds \<equiv> deduplicate u (extraction_candidates u s)"
  shows "set (accepted_entities u s) \<subseteq> set ds"
    and "distinct (map (\<lambda>c. normalize_entity_text u (ee_text c)) (accepted_entities u s))"
    and "sorted_wrt (\<lambda>c d. \<not> spans_overlap c d) (accepted_entities u s)"
    and "c \<in> set ds \<Longrightarrow> c \<in> set (accepted_entities u s) \<or>
      (\<exists>d \<in> set (accepted_entities u s). spans_overlap c d \<and> ee_priority d \<le> ee_priority c)"
proof -
  let ?os = "sort_by precedence_order ds"
  have sub: "set ds \<subseteq> set (extraction_candidates u s)"
    unfolding ds_def by (rule deduplicate_facts)
  have "\<forall>c \<in> set ds. f64_num (ee_confidence c)"
    using sub candidate_ok by (auto simp: graded_def kind_confidence_num)
  from precedence.best_first [OF this] have order: "sorted_wrt (\<lambda>c d. ee_priority c \<le> ee_priority d) ?os"
    by (simp add: sorted_map) (erule sorted_wrt_mono_rel [rotated], auto simp: less_eq_prod_def)
  have "accepted_entities u s = fold accept_entity ?os []"
    by (simp add: accepted_entities_def ds_def)
  moreover note accept_all [OF _ order]
  ultimately have all: "subseq (accepted_entities u s) ?os \<and>
      sorted_wrt (\<lambda>c d. \<not> spans_overlap c d) (accepted_entities u s) \<and>
      (\<forall>c \<in> set ?os. c \<in> set (accepted_entities u s) \<or>
         (\<exists>d \<in> set (accepted_entities u s). spans_overlap c d \<and> ee_priority d \<le> ee_priority c))"
    using topics_avoid_names [of _ u s] subsetD [OF sub] by (simp only: set_sort_by) blast
  note facts = all [THEN conjunct1] all [THEN conjunct2, THEN conjunct1] all [THEN conjunct2, THEN conjunct2]
  show "set (accepted_entities u s) \<subseteq> set ds"
    using subseq_set [OF facts(1)] by (simp only: set_sort_by)
  show "sorted_wrt (\<lambda>c d. \<not> spans_overlap c d) (accepted_entities u s)"
    by (rule facts)
  show "c \<in> set ds \<Longrightarrow> c \<in> set (accepted_entities u s) \<or>
      (\<exists>d \<in> set (accepted_entities u s). spans_overlap c d \<and> ee_priority d \<le> ee_priority c)"
    using facts(3) unfolding set_sort_by by blast
  have "distinct (map (\<lambda>c. normalize_entity_text u (ee_text c)) ?os)"
    unfolding distinct_sort_by ds_def by (rule deduplicate_facts)
  then show "distinct (map (\<lambda>c. normalize_entity_text u (ee_text c)) (accepted_entities u s))"
    using subseq_map [OF facts(1)] by (metis in_set_subseqs subseqs_distinctD)
qed

end
