(* ===== verification/Entity_Properties.thy ===== *)
theory Entity_Properties
  imports Entity_Laws Scoring_Laws
begin

text \<open>
  The properties of entity extraction and of the entity boosts.
\<close>

section \<open>Extraction\<close>

definition sorted_entities :: "extracted_entity list \<Rightarrow> bool" where
  "sorted_entities es \<longleftrightarrow>
     sorted_wrt (\<lambda>c d. start_key c < start_key d \<or> start_key c = start_key d \<and> end_key c \<le> end_key d) es"

lemma extracted_sorted: "sorted_entities (extract_entities u s)"
proof -
  have "sorted (map (\<lambda>c. (start_key c, end_key c, ee_priority c)) (extract_entities u s))"
    unfolding extract_entities_sorted using position.best_first [of "accepted_entities u s"] by blast
  then show ?thesis
    unfolding sorted_entities_def sorted_map
    by (rule sorted_wrt_mono_rel [rotated]) (auto simp: less_eq_prod_def)
qed

text \<open>An entity stands for a candidate: the same text, or a span it overlaps; never a lower class.\<close>

definition stands_for :: "char_tables \<Rightarrow> extracted_entity list \<Rightarrow> extracted_entity \<Rightarrow> extracted_entity \<Rightarrow> bool" where
  "stands_for u cs e c \<longleftrightarrow>
     ee_priority e \<le> ee_priority c \<and>
     (normalize_entity_text u (ee_text e) = normalize_entity_text u (ee_text c) \<or>
      (\<exists>d \<in> set cs. normalize_entity_text u (ee_text d) = normalize_entity_text u (ee_text c) \<and> spans_overlap d e))"

lemma extracted_stands:
  assumes "c \<in> set (extraction_candidates u s)"
  shows "\<exists>e \<in> set (extract_entities u s). stands_for u (extraction_candidates u s) e c"
proof -
  obtain d where d: "d \<in> set (deduplicate u (extraction_candidates u s))"
    "normalize_entity_text u (ee_text d) = normalize_entity_text u (ee_text c)" "ee_priority d \<le> ee_priority c"
    using deduplicate_facts(3) [OF assms] by blast
  have "d \<in> set (extraction_candidates u s)"
    using d(1) deduplicate_facts(1) by blast
  from accepted_facts(4) [OF d(1)] this d(2,3) show ?thesis
    unfolding extract_entities_sorted stands_for_def set_sort_by by (meson order_trans)
qed

text \<open>
  C8. Entity extraction. No two extracted entities have the same normalized text, and no two
  of them overlap in the text: the exemption of the code, a topic that overlaps a proper name,
  never applies. Every entity is a candidate of one of the four collectors, with a text of 3 to
  100 characters free of formatting; exactly the quoted ones have no span, every other span is
  a non-empty part of the text; they come in the order of their positions. Nothing is lost
  silently: for each candidate there is an entity of the same or a stronger class with the same
  text or in its place.
\<close>

theorem extracted_entities_disjoint:
  "distinct (map (\<lambda>e. normalize_entity_text u (ee_text e)) (extract_entities u s)) \<and>
   (\<forall>i < length (extract_entities u s). \<forall>j < length (extract_entities u s).
      i \<noteq> j \<longrightarrow> \<not> spans_overlap (extract_entities u s ! i) (extract_entities u s ! j)) \<and>
   (\<forall>e \<in> set (extract_entities u s). e \<in> set (extraction_candidates u s) \<and> graded e \<and>
      span_within (length (chars s)) e \<and> (ee_span e = None \<longleftrightarrow> ee_kind e = QuotedEntity)) \<and>
   sorted_entities (extract_entities u s) \<and>
   (\<forall>c \<in> set (extraction_candidates u s).
      \<exists>e \<in> set (extract_entities u s). stands_for u (extraction_candidates u s) e c)"
proof -
  have sub: "set (extract_entities u s) \<subseteq> set (extraction_candidates u s)"
    unfolding extract_entities_sorted set_sort_by using accepted_facts(1) deduplicate_facts(1) by blast
  have sym: "spans_overlap x y = spans_overlap y x" for x y
    by (auto simp: spans_overlap_def split: option.split)
  have distinct: "distinct (map (\<lambda>e. normalize_entity_text u (ee_text e)) (extract_entities u s))"
    unfolding extract_entities_sorted distinct_sort_by by (rule accepted_facts)
  then have different: "distinct (extract_entities u s)"
    by (simp add: distinct_map)
  have apart: "\<not> spans_overlap x y" if xy: "x \<in> set (accepted_entities u s)" "y \<in> set (accepted_entities u s)" "x \<noteq> y" for x y
  proof -
    obtain i j where "i < length (accepted_entities u s)" "j < length (accepted_entities u s)"
      "x = accepted_entities u s ! i" "y = accepted_entities u s ! j"
      using xy(1,2) by (auto simp: in_set_conv_nth)
    then show ?thesis
      using accepted_facts(3) [of u s] xy(3) sym unfolding sorted_wrt_iff_nth_less by (metis nat_neq_iff)
  qed
  have "\<not> spans_overlap (extract_entities u s ! i) (extract_entities u s ! j)"
    if "i < length (extract_entities u s)" "j < length (extract_entities u s)" "i \<noteq> j" for i j
  proof (rule apart)
    show "extract_entities u s ! i \<noteq> extract_entities u s ! j"
      using different that by (simp add: nth_eq_iff_index_eq)
  qed (use that nth_mem [of _ "extract_entities u s"] in \<open>simp_all add: extract_entities_sorted\<close>)
  then show ?thesis
    using distinct sub candidate_ok extracted_sorted extracted_stands by blast
qed

definition sample_tables :: char_tables where
  "sample_tables =
     \<lparr>ct_alnum = (\<lambda>c. 97 \<le> c \<and> c \<le> 122), ct_upper = (\<lambda>_. False), ct_alpha = (\<lambda>c. 97 \<le> c \<and> c \<le> 122),
      ct_numeric = (\<lambda>_. False), ct_lower = (\<lambda>s. s)\<rparr>"

definition sample_quoted :: extracted_entity where
  "sample_quoted =
     \<lparr>ee_kind = QuotedEntity, ee_text = ''tea'', ee_span = None, ee_confidence = kind_confidence QuotedEntity,
      ee_priority = 3, ee_source = ''quoted''\<rparr>"

lemma sample_word: "utf8 [116, 101, 97] = ''tea''" "chars ''tea'' = [116, 101, 97]"
  by (code_simp, simp)

lemma sample_clean: "clean_text ''tea'' = ''tea''" "\<not> has_artifacts ''tea''"
  by (simp_all add: clean_text_def sample_word drop_right_def is_whitespace_def white_chars_def is_ascii_digit_def
      collapse_whitespace_def split_whitespace_def push_word_def has_artifacts_def has_star_artifact_def
      max_entity_text_chars_def artifact_starts_def starts_with_def Let_def del: chars.simps)

lemma sample_candidates: "extraction_candidates sample_tables ''\"tea\"'' = [sample_quoted]"
proof -
  have cs: "chars ''\"tea\"'' = [34, 116, 101, 97, 34]"
    by simp
  have "entity_tokens sample_tables [34, 116, 101, 97, 34] = [\<lparr>tk_text = ''tea'', tk_start = 1, tk_end = 4\<rparr>]"
    by (simp add: entity_tokens_def sample_tables_def push_token_def sample_word)
  moreover have "collect_quoted ''\"tea\"'' = [sample_quoted]"
    unfolding collect_quoted_def cs
    by (simp add: sample_word drop_right_def is_whitespace_def white_chars_def push_candidate_entity_def sample_clean
        sample_quoted_def Let_def del: chars.simps)
  ultimately show ?thesis
    unfolding extraction_candidates_def cs Let_def
    by (simp add: collect_technical_identifiers_def identifier_candidate_def looks_like_technical_identifier_def
        looks_like_heuristic_identifier_def sample_word name_like_def is_name_like_token_def emit_topic_def
        starts_with_def Let_def del: chars.simps) (simp add: sample_tables_def)
qed

theorem extracted_entities_disjoint_witness:
  "set (extract_entities sample_tables ''\"tea\"'') = {sample_quoted}"
  using extracted_entities_disjoint [of sample_tables "''\"tea\"''"] unfolding sample_candidates by fastforce

section \<open>Boosts\<close>

text \<open>A factor of at most one does not increase a score.\<close>

definition f64_unit :: "f64 \<Rightarrow> bool" where
  "f64_unit x \<longleftrightarrow> f64_nonneg x \<and> f64_le x f64_one"

lemma f64_mul_unit:
  assumes "f64_nonneg x" and "f64_finite x" and "f64_unit y"
  shows "f64_nonneg (f64_mul x y) \<and> f64_finite (f64_mul x y) \<and> f64_le (f64_mul x y) x"
proof -
  obtain s m t n where xy: "x = F64Fin s m" "y = F64Fin t n"
    using assms by (cases x; cases y) (auto simp: f64_unit_def f64_nonneg_def f64_num_def f64_one_def f64_limit_pos split: if_splits)
  have m: "mag_ok m" "s \<longrightarrow> m = 0" and n: "n \<le> 2 ^ 1074" "t \<longrightarrow> n = 0"
    using assms xy by (auto simp: f64_unit_def f64_nonneg_def f64_num_def f64_one_def split: if_splits simp flip: of_nat_power)
  have "round_ratio (m * n) (2 ^ 1074) \<le> m"
    using m(1) n(1) by (intro round_ratio_le_quotient) simp_all
  moreover from this have "round_ratio (m * n) (2 ^ 1074) < f64_limit"
    using m(1) by (simp add: mag_ok_def)
  moreover have "f64_ok (f64_mul x y)"
    by (rule f64_mul_ok)
  ultimately show ?thesis
    using m(2) n(2) by (auto simp: xy f64_nonneg_def f64_num_def f64_round_def Let_def)
qed

lemma f64_mul_comm: "f64_mul x y = f64_mul y x"
proof (cases x; cases y)
  fix s m t n
  assume xy: "x = F64Fin s m" "y = F64Fin t n"
  have "(s \<noteq> t) = (t \<noteq> s)" by blast
  then show "f64_mul x y = f64_mul y x"
    unfolding xy f64_mul.simps by (simp only: mult.commute)
qed auto

lemma f64_mul_round_zero: "f64_round s 0 d = F64Fin s 0"
  by (simp add: f64_round_def f64_limit_pos)

lemma f64_square_nonneg:
  assumes "f64_nonneg c" and "f64_finite c" and "0 < f64_key c" and "f64_nonneg e"
  shows "f64_nonneg (f64_mul (f64_mul c e) e)"
proof -
  obtain m where c: "c = F64Fin False m" "m \<noteq> 0"
    using assms(1-3) by (cases c) (auto simp: f64_nonneg_def split: if_splits)
  have "f64_mul (f64_mul c e) e \<noteq> F64NaN \<and> 0 \<le> f64_key (f64_mul (f64_mul c e) e)"
  proof (cases e)
    case (F64Fin t n)
    show ?thesis
    proof (cases "n = 0")
      case True
      then show ?thesis
        unfolding c F64Fin f64_mul.simps by (simp only: mult_0_right f64_mul_round_zero f64_mul.simps) simp
    next
      case False
      then have "\<not> t"
        using assms(4) F64Fin by (auto simp: f64_nonneg_def split: if_splits)
      moreover have "f64_round False k d = F64Inf False \<or> (\<exists>j. f64_round False k d = F64Fin False j)" for k d
        by (simp add: f64_round_def Let_def)
      ultimately obtain a where "f64_mul c e = a" "a = F64Inf False \<or> (\<exists>j. a = F64Fin False j)"
        unfolding c F64Fin f64_mul.simps by auto
      then show ?thesis
        using False \<open>\<not> t\<close> unfolding F64Fin by (auto simp: f64_round_def Let_def f64_limit_pos split: if_splits)
    qed
  next
    case (F64Inf t)
    then have "\<not> t"
      using assms(4) f64_limit_pos by (auto simp: f64_nonneg_def split: if_splits)
    then show ?thesis
      using c(2) by (simp add: c F64Inf)
  next
    case F64NaN
    then show ?thesis
      using assms(4) by (simp add: f64_nonneg_def f64_num_def)
  qed
  then show ?thesis
    using f64_mul_ok by (simp add: f64_nonneg_def f64_num_def)
qed

lemma f64_one_plus_ge:
  assumes "f64_nonneg x"
  shows "f64_add f64_one x = F64Inf False \<or> (\<exists>n. f64_add f64_one x = F64Fin False n \<and> 2 ^ 1074 \<le> n)"
proof (cases x)
  case (F64Fin t n)
  then have "t \<longrightarrow> n = 0"
    using assms by (auto simp: f64_nonneg_def split: if_splits)
  then have int: "f64_int t n = int n"
    by auto
  have "2 ^ 1074 \<le> round_ratio (2 ^ 1074 + n) 1"
    using f64_one_mag by (intro round_ratio_ge_quotient) simp_all
  moreover have "f64_add f64_one x = f64_round False (2 ^ 1074 + n) 1"
    unfolding f64_one_def F64Fin f64_add.simps int Let_def
    by (simp add: nat_add_distrib nat_int_add flip: of_nat_add of_nat_power)
  ultimately show ?thesis
    by (auto simp only: f64_round_def Let_def split: if_splits)
next
  case (F64Inf t)
  then show ?thesis
    using assms f64_limit_pos by (auto simp: f64_one_def f64_nonneg_def split: if_splits)
next
  case F64NaN
  then show ?thesis
    using assms by (simp add: f64_nonneg_def f64_num_def)
qed

lemma f64_milli_pos: "f64_nonneg (f64_lit 1 3)" "f64_finite (f64_lit 1 3)" "0 < f64_key (f64_lit 1 3)"
proof -
  obtain r where r: "f64_lit 1 3 = F64Fin False r" "2 ^ 1064 \<le> r"
    using f64_lit_unit [of 1 3 1064] by auto
  have "0 < r"
    using r(2) by (rule less_le_trans [rotated]) simp
  then show "f64_finite (f64_lit 1 3)" "0 < f64_key (f64_lit 1 3)"
    by (simp_all only: r(1) f64_finite.simps f64_key.simps f64_int.simps if_False of_nat_0_less_iff)
  show "f64_nonneg (f64_lit 1 3)"
    unfolding f64_lit_def by (rule f64_round_nonneg) simp
qed

lemma memory_count_weight_unit: "f64_unit (memory_count_weight n)"
proof -
  let ?e = "f64_of_nat (max n 1 - 1)"
  have "f64_nonneg ?e"
    unfolding f64_of_nat_def by (rule f64_round_nonneg) simp
  then have "f64_nonneg (f64_mul (f64_mul (f64_lit 1 3) ?e) ?e)"
    using f64_square_nonneg f64_milli_pos by blast
  from f64_one_plus_ge [OF this] show ?thesis
  proof (elim disjE exE conjE)
    assume "f64_add f64_one (f64_mul (f64_mul (f64_lit 1 3) ?e) ?e) = F64Inf False"
    then have "memory_count_weight n = F64Fin False 0"
      by (simp only: memory_count_weight_def Let_def) (simp add: f64_one_def)
    then show ?thesis
      by (simp add: f64_unit_def f64_nonneg_def f64_num_def) (simp add: f64_one_def)
  next
    fix k assume k: "f64_add f64_one (f64_mul (f64_mul (f64_lit 1 3) ?e) ?e) = F64Fin False k" "2 ^ 1074 \<le> k"
    have pos: "0 < k"
      using k(2) by (rule less_le_trans [rotated]) simp
    have le: "round_ratio (2 ^ 1074 * 2 ^ 1074) k \<le> 2 ^ 1074"
      using f64_one_mag k(2) pos by (intro round_ratio_le_quotient) simp_all
    have lim: "(2::nat) ^ 1074 < f64_limit"
      using f64_one_mag by (simp only: mag_ok_def)
    have "memory_count_weight n = f64_div f64_one (F64Fin False k)"
      by (simp only: memory_count_weight_def Let_def k)
    also have "\<dots> = F64Fin False (round_ratio (2 ^ 1074 * 2 ^ 1074) k)"
      unfolding f64_one_def f64_div.simps f64_round_def Let_def using pos le lim by simp
    finally have "memory_count_weight n = F64Fin False (round_ratio (2 ^ 1074 * 2 ^ 1074) k)" .
    moreover have "f64_ok (memory_count_weight n)"
      unfolding memory_count_weight_def Let_def by (rule f64_div_ok)
    moreover have "f64_le (F64Fin False j) f64_one" if "j \<le> 2 ^ 1074" for j
      using that by (simp add: f64_one_def flip: of_nat_power)
    ultimately show ?thesis
      using le by (simp add: f64_unit_def f64_nonneg_def f64_num_def)
  qed
qed

text \<open>A match counts for a memory when it is strong enough and its contribution is a positive number.\<close>

definition usable_match :: "linked_entity_match \<Rightarrow> bool" where
  "usable_match m \<longleftrightarrow>
     f64_finite (le_similarity m) \<and> \<not> f64_lt (le_similarity m) entity_similarity_threshold \<and>
     f64_finite (match_contribution m) \<and> \<not> f64_le (match_contribution m) f64_zero"

definition match_links :: "linked_entity_match \<Rightarrow> (f64 \<times> string) list" where
  "match_links m = (if usable_match m then map (Pair (match_contribution m)) (le_memory_ids m) else [])"

lemma usable_contribution_num: "usable_match m \<Longrightarrow> f64_num (match_contribution m)"
  by (auto simp: usable_match_def match_contribution_def intro: f64_finite_num f64_mul_ok)

lemma boost_match_links: "boost_match m b = fold (\<lambda>(c, i). boost_memory c i) (match_links m) b"
  by (simp add: boost_match_def match_links_def usable_match_def fold_map comp_def Let_def)

lemma entity_boosts_links: "entity_boosts ms = fold (\<lambda>(c, i). boost_memory c i) (concat (map match_links ms)) []"
proof -
  have "fold boost_match ms b = fold (\<lambda>(c, i). boost_memory c i) (concat (map match_links ms)) b" for b
    by (induction ms arbitrary: b) (simp_all add: boost_match_links)
  then show ?thesis
    by (simp add: entity_boosts_def)
qed

text \<open>The map after some links: the largest contribution of each named memory.\<close>

definition largest_link :: "(f64 \<times> string) list \<Rightarrow> string \<Rightarrow> f64 option \<Rightarrow> bool" where
  "largest_link ls i v \<longleftrightarrow>
     (case v of
        None \<Rightarrow> i = [] \<or> i \<notin> snd ` set ls
      | Some b \<Rightarrow> i \<noteq> [] \<and> (b, i) \<in> set ls \<and> (\<forall>c. (c, i) \<in> set ls \<longrightarrow> f64_key c \<le> f64_key b))"

lemma boost_memory_get:
  "i \<noteq> [] \<Longrightarrow> bm_get (boost_memory c i b) i =
     (case bm_get b i of None \<Rightarrow> Some c | Some e \<Rightarrow> Some (if f64_lt e c then c else e))"
  "j = [] \<or> i \<noteq> j \<Longrightarrow> bm_get (boost_memory c j b) i = bm_get b i"
  by (auto simp: boost_memory_def split: option.split)

lemma boosts_largest:
  "\<forall>c \<in> fst ` set ls. f64_num c \<Longrightarrow> largest_link ls i (bm_get (fold (\<lambda>(c, i). boost_memory c i) ls []) i)"
proof (induction ls rule: rev_induct)
  case Nil
  then show ?case by (simp add: largest_link_def bm_get_def)
next
  case (snoc x ls)
  obtain c j where x: "x = (c, j)" by fastforce
  have IH: "largest_link ls i (bm_get (fold (\<lambda>(c, i). boost_memory c i) ls []) i)"
    using snoc by simp
  show ?case
  proof (cases "j = [] \<or> i \<noteq> j")
    case True
    then have "bm_get (fold (\<lambda>(c, i). boost_memory c i) (ls @ [x]) []) i = bm_get (fold (\<lambda>(c, i). boost_memory c i) ls []) i"
      by (simp add: x boost_memory_get)
    then show ?thesis
      using IH True by (auto simp: x largest_link_def split: option.splits)
  next
    case False
    have c: "f64_num c" and old: "\<And>b. (b, i) \<in> set ls \<Longrightarrow> f64_num b"
      using snoc.prems x by force+
    show ?thesis
    proof (cases "bm_get (fold (\<lambda>(c, i). boost_memory c i) ls []) i")
      case None
      then have "i \<noteq> []" "(d, i) \<notin> set ls" for d
        using IH False by (force simp: largest_link_def)+
      then show ?thesis
        using None False by (auto simp: x largest_link_def boost_memory_get)
    next
      case (Some b)
      then have b: "(b, i) \<in> set ls" "\<And>d. (d, i) \<in> set ls \<Longrightarrow> f64_key d \<le> f64_key b"
        using IH by (auto simp: largest_link_def)
      then have "f64_lt b c \<longleftrightarrow> f64_key b < f64_key c"
        using c old f64_lt_key by blast
      moreover from this have larger: "f64_key d \<le> f64_key c" if "f64_lt b c" "(d, i) \<in> set ls" for d
        using that b(2) [OF that(2)] by simp
      ultimately show ?thesis
        using Some b False by (cases "f64_lt b c") (auto simp: x largest_link_def boost_memory_get dest: b(2) larger)
    qed
  qed
qed

lemma contribution_bounded:
  assumes "f64_unit (le_similarity m)" and "f64_finite (le_similarity m)"
  shows "f64_nonneg (match_contribution m) \<and> f64_finite (match_contribution m) \<and>
    f64_le (match_contribution m) entity_boost_weight"
proof -
  let ?w = "f64_mul (le_similarity m) entity_boost_weight"
  have b: "f64_nonneg entity_boost_weight" "f64_finite entity_boost_weight"
    using small_boost by (simp_all add: small_score_def)
  then have w: "f64_nonneg ?w" "f64_finite ?w" "f64_le ?w entity_boost_weight"
    using f64_mul_unit [OF b assms(1)] by (simp_all add: f64_mul_comm)
  have c: "f64_nonneg (match_contribution m)" "f64_finite (match_contribution m)" "f64_le (match_contribution m) ?w"
    using f64_mul_unit [OF w(1,2) memory_count_weight_unit] by (simp_all add: match_contribution_def)
  show ?thesis
    using b w c by (simp add: f64_nonneg_def f64_le_key)
qed

text \<open>
  C16. Entity boosts. A memory has a boost exactly when a usable match links it, and an empty id
  never has one; the boost is the largest contribution of the usable matches that link it,
  whatever the order of the matches and however often one repeats an id. With similarities
  between zero and one, no boost exceeds the boost weight, so that the additive score can divide
  by it.
\<close>

theorem entity_boosts_exact:
  assumes "\<forall>m \<in> set ms. f64_unit (le_similarity m)"
  shows "(bm_get (entity_boosts ms) i = None \<longleftrightarrow>
      i = [] \<or> (\<forall>m \<in> set ms. usable_match m \<longrightarrow> i \<notin> set (le_memory_ids m))) \<and>
    (\<forall>b. bm_get (entity_boosts ms) i = Some b \<longrightarrow>
      b \<in> match_contribution ` {m \<in> set ms. usable_match m \<and> i \<in> set (le_memory_ids m)} \<and>
      (\<forall>m \<in> set ms. usable_match m \<and> i \<in> set (le_memory_ids m) \<longrightarrow> f64_le (match_contribution m) b) \<and>
      f64_lt f64_zero b \<and> f64_le b entity_boost_weight)"
proof -
  let ?ls = "concat (map match_links ms)"
  have links: "(c, j) \<in> set ?ls \<longleftrightarrow> (\<exists>m \<in> set ms. usable_match m \<and> j \<in> set (le_memory_ids m) \<and> c = match_contribution m)" for c j
    by (auto simp: match_links_def split: if_splits)
  then have nums: "\<forall>c \<in> fst ` set ?ls. f64_num c"
    using usable_contribution_num by fastforce
  then have largest: "largest_link ?ls i (bm_get (entity_boosts ms) i)"
    unfolding entity_boosts_links by (rule boosts_largest)
  have "f64_lt f64_zero (match_contribution m)" if "usable_match m" for m
    using that usable_contribution_num [OF that] by (cases "match_contribution m") (auto simp: usable_match_def f64_num_def)
  moreover have "f64_le (match_contribution m) entity_boost_weight" if "usable_match m" "m \<in> set ms" for m
    using that assms contribution_bounded by (auto simp: usable_match_def)
  ultimately have positive: "\<And>c j. (c, j) \<in> set ?ls \<Longrightarrow> f64_lt f64_zero c \<and> f64_le c entity_boost_weight"
    unfolding links by blast
  have num: "\<And>c j. (c, j) \<in> set ?ls \<Longrightarrow> f64_num c"
    using nums by force
  show ?thesis
  proof (cases "bm_get (entity_boosts ms) i")
    case None
    then have "i = [] \<or> i \<notin> snd ` set ?ls"
      using largest unfolding largest_link_def by simp
    then have "i = [] \<or> (\<forall>c. (c, i) \<notin> set ?ls)"
      by (metis image_eqI snd_conv)
    then show ?thesis
      using None unfolding links by (auto simp: None)
  next
    case (Some b)
    then have b: "i \<noteq> []" "(b, i) \<in> set ?ls" "\<And>c. (c, i) \<in> set ?ls \<Longrightarrow> f64_key c \<le> f64_key b"
      using largest unfolding largest_link_def by auto
    then have "\<And>c. (c, i) \<in> set ?ls \<Longrightarrow> f64_le c b"
      using num f64_le_key by blast
    moreover have "b \<in> match_contribution ` {m \<in> set ms. usable_match m \<and> i \<in> set (le_memory_ids m)}"
      using b(2) unfolding links by blast
    moreover from this have "\<not> (\<forall>m \<in> set ms. usable_match m \<longrightarrow> i \<notin> set (le_memory_ids m))"
      by blast
    ultimately show ?thesis
      using Some b(1) positive [OF b(2)] unfolding links by auto
  qed
qed

definition sample_link :: linked_entity_match where
  "sample_link = \<lparr>le_similarity = f64_one, le_memory_ids = [''m1'']\<rparr>"

lemma sample_unit: "f64_unit f64_one"
  using f64_one_num by (simp add: f64_unit_def f64_nonneg_def f64_le_key f64_one_key)

lemma sample_weight: "memory_count_weight 1 = f64_one"
proof -
  obtain r where r: "f64_lit 1 3 = F64Fin False r"
    using f64_lit_unit [of 1 3 1064] by auto
  have "f64_of_nat (max 1 1 - 1) = F64Fin False 0"
    by (simp add: f64_of_nat_def f64_mul_round_zero)
  then have e: "f64_mul (f64_mul (f64_lit 1 3) (f64_of_nat (max 1 1 - 1))) (f64_of_nat (max 1 1 - 1)) = F64Fin False 0"
    by (simp only: r f64_mul.simps mult_0_right f64_mul_round_zero simp_thms)
  have "round_ratio (2 ^ 1074 * 2 ^ 1074) (2 ^ 1074) = (2::nat) ^ 1074"
    using f64_one_mag by (intro antisym round_ratio_le_quotient round_ratio_ge_quotient) simp_all
  moreover have "f64_add f64_one (F64Fin False 0) = f64_one"
    using round_ratio_exact [OF f64_one_mag] f64_one_mag
    by (simp add: f64_one_def f64_round_def mag_ok_def nat_power_eq Let_def)
  ultimately show ?thesis
    using f64_one_mag
    by (simp only: memory_count_weight_def Let_def e) (simp add: f64_one_def f64_round_def mag_ok_def Let_def)
qed

lemma f64_mul_one: "f64_ok (F64Fin False n) \<Longrightarrow> f64_mul (F64Fin False n) f64_one = F64Fin False n"
proof -
  assume "f64_ok (F64Fin False n)"
  then have n: "mag_ok n" by simp
  then have "round_ratio (n * 2 ^ 1074) (2 ^ 1074) = n"
    by (intro antisym round_ratio_le_quotient round_ratio_ge_quotient) simp_all
  then show ?thesis
    using n by (simp add: f64_one_def f64_round_def mag_ok_def Let_def)
qed

lemma sample_usable: "usable_match sample_link"
proof -
  obtain n where n: "entity_boost_weight = F64Fin False n" "2 ^ 1073 \<le> n" "n \<le> 2 ^ 1074"
    using f64_lit_unit [of 5 1 1073] unfolding entity_boost_weight_def by auto
  have one: "f64_mul entity_boost_weight f64_one = entity_boost_weight"
    using small_boost unfolding n(1) by (intro f64_mul_one) (simp add: small_score_def f64_nonneg_def f64_num_def n(1))
  then have c: "match_contribution sample_link = F64Fin False n"
    by (simp add: match_contribution_def sample_link_def f64_mul_comm [of f64_one] sample_weight [simplified] n(1))
  have t: "entity_similarity_threshold = F64Fin False n"
    using n(1) by (simp only: entity_similarity_threshold_def entity_boost_weight_def)
  have "0 < n"
    using n(2) by (rule less_le_trans [rotated]) simp
  moreover have "\<not> f64_lt f64_one (F64Fin False n)"
    using n(3) by (simp add: f64_one_def flip: of_nat_power)
  moreover have "le_similarity sample_link = f64_one" "f64_finite f64_one"
    by (simp_all add: sample_link_def f64_one_def)
  ultimately show ?thesis
    unfolding usable_match_def c t by simp
qed

theorem entity_boosts_exact_witness:
  "bm_get (entity_boosts [sample_link]) [] = None \<and> bm_get (entity_boosts [sample_link]) ''m1'' \<noteq> None"
  using entity_boosts_exact [of "[sample_link]" "[]"] entity_boosts_exact [of "[sample_link]" "''m1''"]
    sample_unit sample_usable
  by (simp add: sample_link_def)

end
