(* ===== verification/Vector_Errors.thy ===== *)
theory Vector_Errors
  imports Spi_Types F64_Ops
begin

text \<open>
  The errors and the configuration of the search-first vector plug-in (\<^verbatim>\<open>error.rs\<close>, \<^verbatim>\<open>config.rs\<close>).
  Rust's debug quoting of a string, the decimal text of a float and the hash of
  \<^verbatim>\<open>sdkwork-utils-rust\<close> are the record \<^verbatim>\<open>plugin_host\<close>, an argument of the definitions that use it.
\<close>

record plugin_host =
  ph_debug :: "string \<Rightarrow> string"
  ph_float_text :: "f32 \<Rightarrow> string"
  ph_sqrt :: "f64 \<Rightarrow> f64"
  ph_sha256 :: "string \<Rightarrow> string"

section \<open>Errors\<close>

definition retriever_port :: string where
  "retriever_port = ''MemoryRetrieverPort''"

definition index_port :: string where
  "index_port = ''MemoryIndexPort''"

definition embedding_model_port :: string where
  "embedding_model_port = ''EmbeddingModelPort''"

definition language_model_port :: string where
  "language_model_port = ''LanguageModelPort''"

datatype vector_error =
    VeInvalidConfiguration string
  | VeScopeRequired string string
  | VeLimitOutOfBounds nat nat
  | VeBlankQuery
  | VeBlankMemoryType nat
  | VeUnsupportedRetrieverKind string
  | VeMetadataFilterUnsupported string
  | VeUnsupportedMemoryType string
  | VeProceduralSummaryEmpty
  | VeProceduralMetadataRequired
  | VeRequiredPortMissing string
  | VeProviderCallFailed string string spi_error
  | VeBlankMemoryId string
  | VeIndexCapacityExhausted nat
  | VeRecordNotIndexed string
  | VeAmbiguousProjection string nat
  | VeEmbeddingDimensionMismatch string nat nat
  | VeMemoryExtractionUnparseable string
  | VeExpirationDateInvalid string
  | VeIndexLockPoisoned

text \<open>\<^verbatim>\<open>to_string\<close>, from the format strings of the variants.\<close>

fun vector_error_text :: "plugin_host \<Rightarrow> vector_error \<Rightarrow> string" where
  "vector_error_text h (VeInvalidConfiguration reason) =
     ''search-first vector configuration is invalid: '' @ reason"
| "vector_error_text h (VeScopeRequired operation reason) =
     operation @ '' requires an explicit tenant and space scope: '' @ reason"
| "vector_error_text h (VeLimitOutOfBounds requested ceiling') =
     ''requested candidate limit '' @ nat_text requested @ '' is out of bounds 1..='' @ nat_text ceiling'"
| "vector_error_text h VeBlankQuery = ''query text must not be blank''"
| "vector_error_text h (VeBlankMemoryType index) =
     ''memory type filter entry at index '' @ nat_text index @ '' must not be blank''"
| "vector_error_text h (VeUnsupportedRetrieverKind kind) =
     ''retriever kind '' @ kind @ '' is not served by this plugin''"
| "vector_error_text h (VeMetadataFilterUnsupported reason) =
     ''this plugin cannot evaluate a metadata filter: '' @ reason"
| "vector_error_text h (VeUnsupportedMemoryType requested) =
     ''memory type '' @ ph_debug h requested @ '' cannot be created by this plugin''"
| "vector_error_text h VeProceduralSummaryEmpty =
     ''the model returned no content for the procedural memory summary''"
| "vector_error_text h VeProceduralMetadataRequired =
     ''a procedural memory requires metadata, which carries its memory type''"
| "vector_error_text h (VeRequiredPortMissing port) = ''the required '' @ port @ '' port is not bound''"
| "vector_error_text h (VeProviderCallFailed port provider source) =
     port @ '' call to provider '' @ provider @ '' failed''"
| "vector_error_text h (VeBlankMemoryId memory_id) =
     ''memory id '' @ ph_debug h memory_id @ '' is not a usable projection key''"
| "vector_error_text h (VeIndexCapacityExhausted max_entries) =
     ''the scope bucket is at its '' @ nat_text max_entries @ '' entry ceiling and refused the write''"
| "vector_error_text h (VeRecordNotIndexed memory_id) =
     ''memory id '' @ memory_id @ '' has no projection in this index; project its content first''"
| "vector_error_text h (VeAmbiguousProjection memory_id scopes) =
     ''memory id '' @ memory_id @ '' is projected into '' @ nat_text scopes @ '' scopes and the lookup is scope-free''"
| "vector_error_text h (VeEmbeddingDimensionMismatch memory_id expected actual) =
     ''embedding for '' @ memory_id @ '' has '' @ nat_text actual @ '' dimensions but the index requires '' @
     nat_text expected"
| "vector_error_text h (VeMemoryExtractionUnparseable reason) =
     ''memory extraction response was not parseable: '' @ reason"
| "vector_error_text h (VeExpirationDateInvalid value) =
     ph_debug h value @ '' is not an expiration date in YYYY-MM-DD format''"
| "vector_error_text h VeIndexLockPoisoned = ''the vector index lock is poisoned''"

fun vector_port_name :: "vector_error \<Rightarrow> string" where
  "vector_port_name (VeRequiredPortMissing port) = port"
| "vector_port_name (VeProviderCallFailed port _ _) = port"
| "vector_port_name (VeMemoryExtractionUnparseable _) = language_model_port"
| "vector_port_name VeProceduralSummaryEmpty = language_model_port"
| "vector_port_name (VeBlankMemoryId _) = index_port"
| "vector_port_name (VeIndexCapacityExhausted _) = index_port"
| "vector_port_name (VeRecordNotIndexed _) = index_port"
| "vector_port_name (VeAmbiguousProjection _ _) = index_port"
| "vector_port_name (VeEmbeddingDimensionMismatch _ _ _) = index_port"
| "vector_port_name (VeExpirationDateInvalid _) = index_port"
| "vector_port_name (VeUnsupportedMemoryType _) = index_port"
| "vector_port_name VeProceduralMetadataRequired = index_port"
| "vector_port_name VeIndexLockPoisoned = index_port"
| "vector_port_name (VeInvalidConfiguration _) = retriever_port"
| "vector_port_name (VeScopeRequired _ _) = retriever_port"
| "vector_port_name (VeLimitOutOfBounds _ _) = retriever_port"
| "vector_port_name VeBlankQuery = retriever_port"
| "vector_port_name (VeBlankMemoryType _) = retriever_port"
| "vector_port_name (VeUnsupportedRetrieverKind _) = retriever_port"
| "vector_port_name (VeMetadataFilterUnsupported _) = retriever_port"

fun into_spi_error_on :: "plugin_host \<Rightarrow> string \<Rightarrow> vector_error \<Rightarrow> spi_error" where
  "into_spi_error_on h port (VeProviderCallFailed _ _ source) = source"
| "into_spi_error_on h port other = PortOperationFailed port (vector_error_text h other)"

definition into_spi_error :: "plugin_host \<Rightarrow> vector_error \<Rightarrow> spi_error" where
  "into_spi_error h e = into_spi_error_on h (vector_port_name e) e"

text \<open>\<^verbatim>\<open>map_err\<close>.\<close>

definition map_err :: "('e \<Rightarrow> 'f) \<Rightarrow> 'e + 'a \<Rightarrow> 'f + 'a" where
  "map_err f r = (case r of Inl e \<Rightarrow> Inl (f e) | Inr x \<Rightarrow> Inr x)"

lemma map_err_simps [simp]: "map_err f (Inl e) = Inl (f e)" "map_err f (Inr x) = Inr x"
  by (simp_all add: map_err_def)

lemma map_err_Inr: "map_err f r = Inr x \<longleftrightarrow> r = Inr x"
  by (cases r) simp_all

section \<open>Configuration\<close>

definition max_search_limit :: nat where
  "max_search_limit = max_retrieval_candidates"

definition default_search_limit :: nat where
  "default_search_limit = 32"

definition default_max_entries_per_scope :: nat where
  "default_max_entries_per_scope = 4096"

definition max_entries_per_scope_ceiling :: nat where
  "max_entries_per_scope_ceiling = 1000000"

definition default_include_expired :: bool where
  "default_include_expired = False"

record vector_config =
  vg_max_entries_per_scope :: nat
  vg_default_search_limit :: nat
  vg_similarity_floor :: f32
  vg_use_rerank_when_bound :: bool
  vg_include_expired :: bool

definition vector_config_default :: vector_config where
  "vector_config_default =
     \<lparr>vg_max_entries_per_scope = default_max_entries_per_scope, vg_default_search_limit = default_search_limit,
      vg_similarity_floor = f64_zero, vg_use_rerank_when_bound = True,
      vg_include_expired = default_include_expired\<rparr>"

definition config_validate :: "plugin_host \<Rightarrow> vector_config \<Rightarrow> vector_error + unit" where
  "config_validate h c =
     (if vg_max_entries_per_scope c = 0
      then Inl (VeInvalidConfiguration ''max_entries_per_scope must be at least 1'')
      else if max_entries_per_scope_ceiling < vg_max_entries_per_scope c
      then Inl (VeInvalidConfiguration
        (''max_entries_per_scope '' @ nat_text (vg_max_entries_per_scope c) @ '' exceeds the ceiling '' @
         nat_text max_entries_per_scope_ceiling))
      else if vg_default_search_limit c = 0 \<or> max_search_limit < vg_default_search_limit c
      then Inl (VeInvalidConfiguration
        (''default_search_limit '' @ nat_text (vg_default_search_limit c) @ '' is out of bounds 1..='' @
         nat_text max_search_limit))
      else if \<not> f64_finite (vg_similarity_floor c) \<or>
        \<not> (f64_le (f64_neg f64_one) (vg_similarity_floor c) \<and> f64_le (vg_similarity_floor c) f64_one)
      then Inl (VeInvalidConfiguration
        (''similarity_floor must be a finite value in -1.0..=1.0, got '' @
         ph_float_text h (vg_similarity_floor c)))
      else Inr ())"

definition validate_limit :: "nat \<Rightarrow> vector_error + unit" where
  "validate_limit requested =
     (if requested = 0 \<or> max_search_limit < requested
      then Inl (VeLimitOutOfBounds requested max_search_limit) else Inr ())"

text \<open>What a valid configuration is.\<close>

definition config_ok :: "vector_config \<Rightarrow> bool" where
  "config_ok c \<longleftrightarrow>
     1 \<le> vg_max_entries_per_scope c \<and> vg_max_entries_per_scope c \<le> 1000000 \<and>
     1 \<le> vg_default_search_limit c \<and> vg_default_search_limit c \<le> 200 \<and> f64_finite (vg_similarity_floor c) \<and>
     f64_le (f64_neg f64_one) (vg_similarity_floor c) \<and> f64_le (vg_similarity_floor c) f64_one"

lemma config_validate_ok: "config_validate h c = Inr () \<longleftrightarrow> config_ok c"
  by (auto simp: config_validate_def config_ok_def max_entries_per_scope_ceiling_def max_search_limit_def
      max_retrieval_candidates_def)

lemma default_config_ok: "config_ok vector_config_default"
  by (simp add: config_ok_def vector_config_default_def default_max_entries_per_scope_def default_search_limit_def)
    (simp add: f64_one_def)

end
