(* ===== verification/Memory_Extraction.thy ===== *)
theory Memory_Extraction
  imports Vector_Errors Prompt_Texts Metadata_Filter
begin

text \<open>
  Memory extraction through a language model (\<^verbatim>\<open>extraction.rs\<close>) and procedural memories
  (\<^verbatim>\<open>procedural.rs\<close>). The syntax of JSON is a parameter (record \<^verbatim>\<open>extraction_host\<close>): a parser that keeps the
  members of an object in document order, repeated ones included, and the text of serde's error. How
  serde's derived code reads the tree is modelled: unknown members are ignored, a repeated member is an
  error, \<^verbatim>\<open>null\<close> is an absent option, and a struct may also be written as an array of its fields.
\<close>

record 'n extraction_host =
  xh_plugin :: plugin_host
  xh_parse :: "string \<Rightarrow> 'n json option"
  xh_error :: "string \<Rightarrow> string"

section \<open>Searching text\<close>

text \<open>\<^verbatim>\<open>str::find\<close> and \<^verbatim>\<open>str::rfind\<close>: the first and the last position of a pattern.\<close>

fun find_text :: "string \<Rightarrow> string \<Rightarrow> nat option" where
  "find_text p [] = (if p = [] then Some 0 else None)"
| "find_text p (c # cs) = (if starts_with (c # cs) p then Some 0 else map_option Suc (find_text p cs))"

fun rfind_text :: "string \<Rightarrow> string \<Rightarrow> nat option" where
  "rfind_text p [] = (if p = [] then Some 0 else None)"
| "rfind_text p (c # cs) =
     (case rfind_text p cs of
        Some i \<Rightarrow> Some (Suc i)
      | None \<Rightarrow> if starts_with (c # cs) p then Some 0 else None)"

definition strip_text_suffix :: "string \<Rightarrow> string \<Rightarrow> string option" where
  "strip_text_suffix p s = map_option rev (strip_prefix (rev p) (rev s))"

section \<open>Data\<close>

definition max_extracted_memories :: nat where
  "max_extracted_memories = 64"

definition existing_evidence_limit :: nat where
  "existing_evidence_limit = 10"

definition recent_reference_limit :: nat where
  "recent_reference_limit = 20"

definition context_message_limit :: nat where
  "context_message_limit = 20"

datatype attributed_to = AttrUser | AttrAssistant

fun wire_value :: "attributed_to \<Rightarrow> string" where
  "wire_value AttrUser = ''user''"
| "wire_value AttrAssistant = ''assistant''"

definition attributed_parse :: "string \<Rightarrow> attributed_to option" where
  "attributed_parse value =
     (let v = ascii_lower (trim value)
      in if v = ''user'' then Some AttrUser else if v = ''assistant'' then Some AttrAssistant else None)"

record conversation_turn =
  tn_role :: string
  tn_content :: string

definition is_renderable :: "conversation_turn \<Rightarrow> bool" where
  "is_renderable t \<longleftrightarrow> \<not> is_blank (tn_role t) \<and> \<not> is_blank (tn_content t)"

definition turn_render :: "conversation_turn \<Rightarrow> string" where
  "turn_render t = trim (tn_role t) @ '': '' @ trim (tn_content t)"

record existing_memory_view =
  xm_memory_id :: string
  xm_text :: string

record extraction_request =
  xr_summary :: "string option"
  xr_recent_memories :: "string list"
  xr_existing_memories :: "existing_memory_view list"
  xr_last_k_messages :: "conversation_turn list"
  xr_new_messages :: "conversation_turn list"
  xr_observation_date :: "string option"
  xr_current_date :: "string option"
  xr_custom_instructions :: "string option"
  xr_agent_id :: "string option"
  xr_user_id :: "string option"

record extracted_memory =
  em_index :: string
  em_text :: string
  em_attributed_to :: "attributed_to option"
  em_linked_memory_ids :: "string list"

datatype emission_rejection = BlankText | UnrecognisedAttribution string

fun rejection_label :: "emission_rejection \<Rightarrow> string" where
  "rejection_label BlankText = ''blank_text''"
| "rejection_label (UnrecognisedAttribution _) = ''unrecognised_attribution''"

record refused_emission =
  rf_index :: string
  rf_rejection :: emission_rejection

record extraction_report =
  er_memories :: "extracted_memory list"
  er_refused :: "refused_emission list"
  er_truncated :: nat

record memory_wire =
  mw_id :: "string option"
  mw_text :: "string option"
  mw_attributed_to :: "string option"
  mw_linked_memory_ids :: "string list option"

section \<open>Reading the answer\<close>

text \<open>\<^verbatim>\<open>Option<String>\<close> and \<^verbatim>\<open>Option<Vec<String>>\<close>.\<close>

fun read_string :: "'n json \<Rightarrow> string option" where
  "read_string (JString s) = Some s"
| "read_string _ = None"

fun read_opt_string :: "'n json \<Rightarrow> string option option" where
  "read_opt_string JNull = Some None"
| "read_opt_string v = map_option Some (read_string v)"

fun read_opt_strings :: "'n json \<Rightarrow> string list option option" where
  "read_opt_strings JNull = Some None"
| "read_opt_strings (JArray vs) = map_option Some (those (map read_string vs))"
| "read_opt_strings _ = None"

text \<open>A member with a default: absent, once, or repeated (an error).\<close>

definition read_member :: "('n json \<Rightarrow> 'a option option) \<Rightarrow> string \<Rightarrow> (string \<times> 'n json) list \<Rightarrow> 'a option option" where
  "read_member read k ps =
     (case filter (\<lambda>(k', v). k' = k) ps of
        [] \<Rightarrow> Some None
      | [(_, v)] \<Rightarrow> read v
      | _ \<Rightarrow> None)"

text \<open>An element with a default: the array may end early.\<close>

definition read_element :: "('n json \<Rightarrow> 'a option option) \<Rightarrow> nat \<Rightarrow> 'n json list \<Rightarrow> 'a option option" where
  "read_element read i vs = (if i < length vs then read (vs ! i) else Some None)"

definition wire_of :: "string option option \<Rightarrow> string option option \<Rightarrow> string option option \<Rightarrow>
    string list option option \<Rightarrow> memory_wire option" where
  "wire_of i t a l =
     (case (i, t, a, l) of
        (Some i, Some t, Some a, Some l) \<Rightarrow>
          Some \<lparr>mw_id = i, mw_text = t, mw_attributed_to = a, mw_linked_memory_ids = l\<rparr>
      | _ \<Rightarrow> None)"

fun read_wire :: "'n json \<Rightarrow> memory_wire option" where
  "read_wire (JObject ps) =
     wire_of (read_member read_opt_string ''id'' ps) (read_member read_opt_string ''text'' ps)
       (read_member read_opt_string ''attributed_to'' ps) (read_member read_opt_strings ''linked_memory_ids'' ps)"
| "read_wire (JArray vs) =
     (if 4 < length vs then None
      else wire_of (read_element read_opt_string 0 vs) (read_element read_opt_string 1 vs)
        (read_element read_opt_string 2 vs) (read_element read_opt_strings 3 vs))"
| "read_wire _ = None"

fun read_wires :: "'n json \<Rightarrow> memory_wire list option" where
  "read_wires (JArray vs) = those (map read_wire vs)"
| "read_wires _ = None"

fun read_envelope :: "'n json \<Rightarrow> memory_wire list option" where
  "read_envelope (JObject ps) =
     (case filter (\<lambda>(k, v). k = ''memory'') ps of [(_, v)] \<Rightarrow> read_wires v | _ \<Rightarrow> None)"
| "read_envelope (JArray [v]) = read_wires v"
| "read_envelope _ = None"

definition normalize_optional :: "string option \<Rightarrow> string option" where
  "normalize_optional value =
     (case value of None \<Rightarrow> None | Some v \<Rightarrow> if trim v = [] then None else Some (trim v))"

definition normalize_entry :: "string \<Rightarrow> string option" where
  "normalize_entry v = normalize_optional (Some v)"

definition index_or_placeholder :: "memory_wire \<Rightarrow> string" where
  "index_or_placeholder w =
     (case mw_id w of
        Some v \<Rightarrow> if trim v \<noteq> [] then trim v else ''<unnumbered>''
      | None \<Rightarrow> ''<unnumbered>'')"

definition into_memory :: "memory_wire \<Rightarrow> emission_rejection + extracted_memory" where
  "into_memory w =
     (case normalize_optional (mw_text w) of
        None \<Rightarrow> Inl BlankText
      | Some t \<Rightarrow>
          let links = List.map_filter normalize_entry (case mw_linked_memory_ids w of None \<Rightarrow> [] | Some ls \<Rightarrow> ls);
              memory = \<lparr>em_index = index_or_placeholder w, em_text = t, em_attributed_to = None, em_linked_memory_ids = links\<rparr>
          in case normalize_optional (mw_attributed_to w) of
              None \<Rightarrow> Inr memory
            | Some v \<Rightarrow>
                (case attributed_parse v of
                   Some a \<Rightarrow> Inr (memory\<lparr>em_attributed_to := Some a\<rparr>)
                 | None \<Rightarrow> Inl (UnrecognisedAttribution v)))"

definition strip_code_fence :: "string \<Rightarrow> string" where
  "strip_code_fence response =
     (let trimmed = trim response
      in case strip_prefix ''```'' trimmed of
          None \<Rightarrow> trimmed
        | Some rest \<Rightarrow>
            (case find_text [CHR 0x0A] rest of
               None \<Rightarrow> trimmed
             | Some i \<Rightarrow>
                 let body = drop (i + 1) rest
                 in case rfind_text ''```'' body of Some j \<Rightarrow> take j body | None \<Rightarrow> trimmed))"

text \<open>The loop over the emissions.\<close>

definition take_emission :: "memory_wire \<Rightarrow> extraction_report \<Rightarrow> extraction_report" where
  "take_emission w r =
     (case into_memory w of
        Inr memory \<Rightarrow>
          if max_extracted_memories \<le> length (er_memories r) then r\<lparr>er_truncated := er_truncated r + 1\<rparr>
          else r\<lparr>er_memories := er_memories r @ [memory]\<rparr>
      | Inl rejection \<Rightarrow>
          r\<lparr>er_refused := er_refused r @ [\<lparr>rf_index = index_or_placeholder w, rf_rejection = rejection\<rparr>]\<rparr>)"

definition empty_report :: extraction_report where
  "empty_report = \<lparr>er_memories = [], er_refused = [], er_truncated = 0\<rparr>"

definition parse_additive_response :: "'n extraction_host \<Rightarrow> string \<Rightarrow> vector_error + extraction_report" where
  "parse_additive_response h response =
     (let payload = trim (strip_code_fence response)
      in if payload = [] then Inl (VeMemoryExtractionUnparseable ''the language model returned an empty response'')
         else case Option.bind (xh_parse h payload) read_envelope of
             None \<Rightarrow> Inl (VeMemoryExtractionUnparseable
               (''expected an additive memory envelope: '' @ xh_error h payload))
           | Some ws \<Rightarrow> Inr (fold take_emission ws empty_report))"

section \<open>The prompt\<close>

definition is_present :: "string option \<Rightarrow> bool" where
  "is_present value \<longleftrightarrow> (case value of None \<Rightarrow> False | Some t \<Rightarrow> \<not> is_blank t)"

definition is_agent_scoped :: "string option \<Rightarrow> string option \<Rightarrow> bool" where
  "is_agent_scoped agent_id user_id \<longleftrightarrow> is_present agent_id \<and> \<not> is_present user_id"

definition resolve_date :: "string option \<Rightarrow> string \<Rightarrow> string" where
  "resolve_date supplied fallback =
     (case supplied of Some v \<Rightarrow> if trim v \<noteq> [] then trim v else fallback | None \<Rightarrow> fallback)"

text \<open>\<^verbatim>\<open>take(usize::MAX)\<close> takes all: the limit is an option.\<close>

definition take_limit :: "nat option \<Rightarrow> 'a list \<Rightarrow> 'a list" where
  "take_limit limit xs = (case limit of None \<Rightarrow> xs | Some n \<Rightarrow> take n xs)"

definition render_turns :: "conversation_turn list \<Rightarrow> nat option \<Rightarrow> string" where
  "render_turns ts limit =
     concat (map (\<lambda>t. turn_render t @ [CHR 0x0A]) (take_limit limit (filter is_renderable ts)))"

definition render_text_list :: "string list \<Rightarrow> nat \<Rightarrow> string" where
  "render_text_list values limit =
     concat (map (\<lambda>v. ''- '' @ v @ [CHR 0x0A]) (take limit (filter (\<lambda>v. v \<noteq> []) (map trim values))))"

definition usable_evidence :: "existing_memory_view \<Rightarrow> bool" where
  "usable_evidence v \<longleftrightarrow> \<not> is_blank (xm_memory_id v) \<and> \<not> is_blank (xm_text v)"

definition evidence_line :: "existing_memory_view \<Rightarrow> string" where
  "evidence_line v = ''- id: '' @ trim (xm_memory_id v) @ '' | text: '' @ trim (xm_text v) @ [CHR 0x0A]"

definition render_existing_memories :: "existing_memory_view list \<Rightarrow> string" where
  "render_existing_memories existing =
     concat (map evidence_line (take existing_evidence_limit (filter usable_evidence existing)))"

definition prompt_is_empty :: "extraction_request \<Rightarrow> bool" where
  "prompt_is_empty r \<longleftrightarrow> \<not> list_ex is_renderable (xr_new_messages r)"

definition heading :: "string \<Rightarrow> string" where
  "heading title = [CHR 0x0A, CHR 0x0A] @ title @ [CHR 0x0A]"

definition optional_text :: "string option \<Rightarrow> string" where
  "optional_text value = (case value of None \<Rightarrow> [] | Some v \<Rightarrow> trim v)"

definition build_additive_extraction_prompt :: "string \<Rightarrow> extraction_request \<Rightarrow> string" where
  "build_additive_extraction_prompt today r =
     (let current_date = resolve_date (xr_current_date r) today;
          observation_date = resolve_date (xr_observation_date r) current_date
      in additive_extraction_prompt @ additive_extraction_examples @
         (if is_agent_scoped (xr_agent_id r) (xr_user_id r) then agent_context_suffix else []) @
         heading ''## Summary'' @ optional_text (xr_summary r) @
         heading ''## Last k Messages'' @ render_turns (xr_last_k_messages r) (Some context_message_limit) @
         heading ''## Recently Extracted Memories'' @ render_text_list (xr_recent_memories r) recent_reference_limit @
         heading ''## Existing Memories'' @ render_existing_memories (xr_existing_memories r) @
         heading ''## New Messages'' @ render_turns (xr_new_messages r) None @
         heading ''## Observation Date'' @ observation_date @
         heading ''## Current Date'' @ current_date @
         (if optional_text (xr_custom_instructions r) \<noteq> []
          then heading ''## Custom Instructions'' @ optional_text (xr_custom_instructions r) else []) @
         [CHR 0x0A, CHR 0x0A] @ ''# Output:'')"

text \<open>The ports the plug-in is given: their codes and their answers.\<close>

record language_model_provider =
  lm_provider_code :: string
  lm_generate :: "string \<Rightarrow> spi_error + string"

definition provider_failed :: "string \<Rightarrow> string \<Rightarrow> spi_error + 'a \<Rightarrow> vector_error + 'a" where
  "provider_failed port provider r = map_err (VeProviderCallFailed port provider) r"

definition extract_memories :: "'n extraction_host \<Rightarrow> string \<Rightarrow> language_model_provider \<Rightarrow> extraction_request \<Rightarrow>
    vector_error + extraction_report" where
  "extract_memories h today m r =
     (if prompt_is_empty r then Inr empty_report
      else and_then (provider_failed language_model_port (lm_provider_code m)
          (lm_generate m (build_additive_extraction_prompt today r))) (parse_additive_response h))"

section \<open>Procedural memories\<close>

definition memory_type_procedural :: string where
  "memory_type_procedural = ''procedural_memory''"

definition procedural_memory_request :: string where
  "procedural_memory_request = ''Create procedural memory of the above conversation.''"

datatype memory_write_path = AdditivePath | ProceduralPath

definition resolve_write_path :: "string option \<Rightarrow> vector_error + memory_write_path" where
  "resolve_write_path requested =
     (case requested of
        None \<Rightarrow> Inr AdditivePath
      | Some name \<Rightarrow>
          if name = memory_type_procedural then Inr ProceduralPath else Inl (VeUnsupportedMemoryType name))"

definition is_ascii_alnum :: "char \<Rightarrow> bool" where
  "is_ascii_alnum c \<longleftrightarrow>
     (let n = of_char c :: nat in 48 \<le> n \<and> n \<le> 57 \<or> 65 \<le> n \<and> n \<le> 90 \<or> 97 \<le> n \<and> n \<le> 122)"

definition strip_enclosing_fence :: "string \<Rightarrow> string option" where
  "strip_enclosing_fence s =
     (case strip_prefix ''```'' s of
        None \<Rightarrow> None
      | Some after_fence \<Rightarrow>
          (case find_text [CHR 0x0A] after_fence of
             None \<Rightarrow> None
           | Some newline \<Rightarrow>
               if \<not> list_all is_ascii_alnum (take newline after_fence) then None
               else case strip_prefix [CHR 0x0A] (drop newline after_fence) of
                   None \<Rightarrow> None
                 | Some body \<Rightarrow> strip_text_suffix ([CHR 0x0A] @ ''```'') body))"

text \<open>The loop over the opening tags, with the text that follows the last span removed.\<close>

function strip_reasoning_blocks :: "string \<Rightarrow> string" where
  "strip_reasoning_blocks rest =
     (case find_text ''<think>'' rest of
        None \<Rightarrow> rest
      | Some open_at \<Rightarrow>
          (case find_text ''</think>'' (drop (open_at + 7) rest) of
             None \<Rightarrow> rest
           | Some close_at \<Rightarrow>
               take open_at rest @ strip_reasoning_blocks (drop (close_at + 8) (drop (open_at + 7) rest))))"
  by pat_completeness auto

lemma find_text_split: "find_text p s = Some i \<Longrightarrow> \<exists>r. s = take i s @ p @ r \<and> length (take i s) = i"
proof (induction p s arbitrary: i rule: find_text.induct)
  case (2 p c cs)
  show ?case
  proof (cases "starts_with (c # cs) p")
    case True
    then show ?thesis
      using 2 by (auto simp: starts_with_iff)
  next
    case False
    then obtain j where "i = Suc j" "find_text p cs = Some j"
      using 2 by auto
    then show ?thesis
      using 2(1) [OF False, of j] by auto
  qed
qed (auto split: if_splits)

termination strip_reasoning_blocks
proof (relation "measure length", goal_cases)
  case (2 rest open_at close_at)
  then obtain r where "rest = take open_at rest @ ''<think>'' @ r"
    using find_text_split [of "''<think>''" rest open_at] by blast
  then have "length rest = length (take open_at rest @ ''<think>'' @ r)"
    by (rule arg_cong)
  then have "0 < length rest"
    by (simp only: length_append) simp
  then show ?case
    by simp
qed simp

declare strip_reasoning_blocks.simps [simp del]

definition remove_code_blocks :: "string \<Rightarrow> string" where
  "remove_code_blocks content =
     (let trimmed = trim content;
          fenced = (case strip_enclosing_fence trimmed of Some body \<Rightarrow> body | None \<Rightarrow> trimmed)
      in trim (strip_reasoning_blocks fenced))"

record procedural_memory_plan =
  pq_summary :: string
  pq_memory_type :: string

definition plan_procedural_memory :: "string \<Rightarrow> bool \<Rightarrow> vector_error + procedural_memory_plan" where
  "plan_procedural_memory response has_metadata =
     (let summary = remove_code_blocks response
      in if summary = [] then Inl VeProceduralSummaryEmpty
         else if \<not> has_metadata then Inl VeProceduralMetadataRequired
         else Inr \<lparr>pq_summary = summary, pq_memory_type = memory_type_procedural\<rparr>)"

definition build_procedural_prompt :: "conversation_turn list \<Rightarrow> string option \<Rightarrow> string" where
  "build_procedural_prompt turns system_prompt_override =
     (let system = (if optional_text system_prompt_override \<noteq> [] then optional_text system_prompt_override
            else procedural_memory_system_prompt)
      in system @ heading ''## Execution History'' @ render_turns turns None @
         (if list_ex is_renderable turns then [] else ''(no renderable turns were supplied)'' @ [CHR 0x0A]) @
         [CHR 0x0A] @ procedural_memory_request)"

end
