(* ===== verification/Additive_Planning.thy ===== *)
theory Additive_Planning
  imports Memory_Extraction
begin

text \<open>
  The additive write plan (\<^verbatim>\<open>additive.rs\<close>): duplicates by content hash, links checked against the offered
  memories. The hash is that of \<^verbatim>\<open>plugin_host\<close>.
\<close>

section \<open>Data\<close>

definition content_hash :: "plugin_host \<Rightarrow> string \<Rightarrow> string" where
  "content_hash h text' = ph_sha256 h text'"

record planned_addition =
  pa_text :: string
  pa_attributed_to :: "attributed_to option"
  pa_linked_memory_ids :: "string list"
  pa_content_hash :: string

datatype duplicate_reason = KnownMemory string | EarlierEmission string

fun duplicate_label :: "duplicate_reason \<Rightarrow> string" where
  "duplicate_label (KnownMemory _) = ''known_memory''"
| "duplicate_label (EarlierEmission _) = ''earlier_emission''"

record suppressed_duplicate =
  sd_index :: string
  sd_text :: string
  sd_reason :: duplicate_reason

record unverified_link =
  ul_index :: string
  ul_linked_memory_id :: string

record link_resolution =
  lr_accepted :: "string list"
  lr_unverified :: "string list"

record additive_plan =
  ap_additions :: "planned_addition list"
  ap_suppressed :: "suppressed_duplicate list"
  ap_unverified_links :: "unverified_link list"

definition empty_plan :: additive_plan where
  "empty_plan = \<lparr>ap_additions = [], ap_suppressed = [], ap_unverified_links = []\<rparr>"

section \<open>Links\<close>

definition offered_ids :: "existing_memory_view list \<Rightarrow> string list" where
  "offered_ids existing = filter (\<lambda>i. i \<noteq> []) (map (\<lambda>v. trim (xm_memory_id v)) existing)"

definition resolve_link :: "string list \<Rightarrow> string \<Rightarrow> link_resolution \<times> string list \<Rightarrow> link_resolution \<times> string list" where
  "resolve_link offered linked st =
     (case st of (r, seen) \<Rightarrow>
        if linked = [] \<or> linked \<in> set seen then (r, seen)
        else if linked \<in> set offered
        then (r\<lparr>lr_accepted := lr_accepted r @ [linked]\<rparr>, bs_insert linked seen)
        else (r\<lparr>lr_unverified := lr_unverified r @ [linked]\<rparr>, bs_insert linked seen))"

definition resolve_linked_memory_ids :: "extracted_memory \<Rightarrow> existing_memory_view list \<Rightarrow> link_resolution" where
  "resolve_linked_memory_ids m existing =
     fst (fold (resolve_link (offered_ids existing)) (map trim (em_linked_memory_ids m))
       (\<lparr>lr_accepted = [], lr_unverified = []\<rparr>, []))"

section \<open>The plan\<close>

definition known_digests :: "plugin_host \<Rightarrow> existing_memory_view list \<Rightarrow> (string \<times> string) list" where
  "known_digests h existing =
     map (\<lambda>v. (trim (xm_memory_id v), content_hash h (trim (xm_text v))))
       (filter (\<lambda>v. \<not> is_blank (xm_text v)) existing)"

text \<open>\<^verbatim>\<open>iter().find(|(_, d)| d == &digest)\<close>.\<close>

definition find_digest :: "string \<Rightarrow> (string \<times> string) list \<Rightarrow> string option" where
  "find_digest digest ps = map_option fst (find (\<lambda>p. snd p = digest) ps)"

definition suppress :: "extracted_memory \<Rightarrow> duplicate_reason \<Rightarrow> additive_plan \<Rightarrow> additive_plan" where
  "suppress m reason p =
     p\<lparr>ap_suppressed := ap_suppressed p @ [\<lparr>sd_index = em_index m, sd_text = trim (em_text m), sd_reason = reason\<rparr>]\<rparr>"

definition planned :: "plugin_host \<Rightarrow> existing_memory_view list \<Rightarrow> extracted_memory \<Rightarrow> planned_addition" where
  "planned h existing m =
     \<lparr>pa_text = trim (em_text m), pa_attributed_to = em_attributed_to m,
      pa_linked_memory_ids = lr_accepted (resolve_linked_memory_ids m existing),
      pa_content_hash = content_hash h (trim (em_text m))\<rparr>"

definition unverified_of :: "existing_memory_view list \<Rightarrow> extracted_memory \<Rightarrow> unverified_link list" where
  "unverified_of existing m =
     map (\<lambda>l. \<lparr>ul_index = em_index m, ul_linked_memory_id = l\<rparr>) (lr_unverified (resolve_linked_memory_ids m existing))"

text \<open>One turn of the loop over the extracted memories, with \<open>committed\<close>.\<close>

definition plan_memory :: "plugin_host \<Rightarrow> existing_memory_view list \<Rightarrow> extracted_memory \<Rightarrow>
    additive_plan \<times> (string \<times> string) list \<Rightarrow> additive_plan \<times> (string \<times> string) list" where
  "plan_memory h existing m st =
     (case st of (plan, committed) \<Rightarrow>
        let t = trim (em_text m); digest = content_hash h t
        in if t = [] then (plan, committed)
           else case find_digest digest (known_digests h existing) of
               Some memory_id \<Rightarrow> (suppress m (KnownMemory memory_id) plan, committed)
             | None \<Rightarrow>
                 (case find_digest digest committed of
                    Some index \<Rightarrow> (suppress m (EarlierEmission index) plan, committed)
                  | None \<Rightarrow>
                      (plan\<lparr>ap_unverified_links := ap_unverified_links plan @ unverified_of existing m,
                         ap_additions := ap_additions plan @ [planned h existing m]\<rparr>,
                       committed @ [(em_index m, digest)])))"

definition plan_additions :: "plugin_host \<Rightarrow> extracted_memory list \<Rightarrow> existing_memory_view list \<Rightarrow> additive_plan" where
  "plan_additions h extracted existing = fst (fold (plan_memory h existing) extracted (empty_plan, []))"

end
