(* ===== verification/Vector_Index.thy ===== *)
theory Vector_Index
  imports Vector_Errors
begin

text \<open>
  The derived vector index of the search-first plug-in (\<^verbatim>\<open>vector_index.rs\<close>): buckets of projections per
  tenant and space, each bounded, with a recency set that orders evictions. A \<^verbatim>\<open>HashMap\<close> is an
  association list in its unspecified iteration order. The clock text \<^verbatim>\<open>format_datetime(now(), None)\<close>
  is an argument.
\<close>

section \<open>Data\<close>

record scope_key =
  sk_tenant_id :: i64
  sk_space_id :: i64

definition scope_key_of :: "scope_context \<Rightarrow> scope_key" where
  "scope_key_of s = \<lparr>sk_tenant_id = sc_tenant_id s, sk_space_id = sc_space_id s\<rparr>"

text \<open>The derived \<^verbatim>\<open>Ord\<close>.\<close>

definition scope_key_rank :: "scope_key \<Rightarrow> int \<times> int" where
  "scope_key_rank k = (sint (sk_tenant_id k), sint (sk_space_id k))"

datatype record_sensitivity = RsPublic | RsElevated | RsOwner

fun sensitivity_rank :: "record_sensitivity \<Rightarrow> nat" where
  "sensitivity_rank RsPublic = 0"
| "sensitivity_rank RsElevated = 1"
| "sensitivity_rank RsOwner = 2"

fun read_scope_rank :: "sensitivity_read_scope \<Rightarrow> nat" where
  "read_scope_rank Public = 0"
| "read_scope_rank Elevated = 1"
| "read_scope_rank Owner = 2"

definition admitted_for :: "record_sensitivity \<Rightarrow> sensitivity_read_scope \<Rightarrow> bool" where
  "admitted_for s rs \<longleftrightarrow> sensitivity_rank s \<le> read_scope_rank rs"

record vector_projection =
  vp_memory_id :: string
  vp_memory_type :: string
  vp_subject :: "string option"
  vp_predicate :: "string option"
  vp_object_text :: string
  vp_canonical_text :: string
  vp_expiration_date :: "string option"
  vp_sensitivity :: record_sensitivity
  vp_content_hash :: string
  vp_created_at :: string
  vp_updated_at :: string

record projection_command =
  vc_memory_id :: string
  vc_memory_type :: string
  vc_subject :: "string option"
  vc_predicate :: "string option"
  vc_object_text :: string
  vc_canonical_text :: string
  vc_expiration_date :: "string option"
  vc_sensitivity :: record_sensitivity

datatype projection_outcome = VoInserted | VoRefreshed | VoInsertedAfterEviction string

fun evicted_memory_id :: "projection_outcome \<Rightarrow> string option" where
  "evicted_memory_id (VoInsertedAfterEviction i) = Some i"
| "evicted_memory_id _ = None"

record rank_filters =
  vf_memory_types :: "string list"
  vf_read_scope :: sensitivity_read_scope
  vf_include_expired :: bool
  vf_as_of_date :: string

definition unrestricted_filters :: "string \<Rightarrow> rank_filters" where
  "unrestricted_filters today =
     \<lparr>vf_memory_types = [], vf_read_scope = Owner, vf_include_expired = True, vf_as_of_date = today\<rparr>"

record vector_hit =
  vh_projection :: vector_projection
  vh_score :: f32

record vector_entry =
  ve_projection :: vector_projection
  ve_embedding :: "f32 list"

record scope_bucket =
  sb_entries :: "(string, vector_entry) hmap"
  sb_recency :: "(string \<times> string) list"

definition empty_bucket :: scope_bucket where
  "empty_bucket = \<lparr>sb_entries = [], sb_recency = []\<rparr>"

record vector_index =
  vx_dimensions :: nat
  vx_max_entries_per_scope :: nat
  vx_similarity_floor :: f32
  vx_scopes :: "(scope_key, scope_bucket) hmap"
  vx_projected_total :: nat

section \<open>Expiration dates\<close>

definition is_leap_year :: "nat \<Rightarrow> bool" where
  "is_leap_year year \<longleftrightarrow> year mod 4 = 0 \<and> (year mod 100 \<noteq> 0 \<or> year mod 400 = 0)"

definition days_in_month :: "nat \<Rightarrow> nat \<Rightarrow> nat" where
  "days_in_month year month =
     (if month \<in> {1, 3, 5, 7, 8, 10, 12} then 31
      else if month \<in> {4, 6, 9, 11} then 30
      else if month = 2 \<and> is_leap_year year then 29
      else if month = 2 then 28 else 0)"

text \<open>After the check of the digits the slices parse as numbers.\<close>

definition normalize_expiration_date :: "string \<Rightarrow> string option" where
  "normalize_expiration_date value =
     (let t = trim value
      in if length t \<noteq> 10 \<or> t ! 4 \<noteq> CHR ''-'' \<or> t ! 7 \<noteq> CHR ''-'' then None
         else if \<not> list_all (\<lambda>i. i \<in> {4, 7} \<or> is_digit (t ! i)) [0..<10] then None
         else let year = digits_val (take 4 t); month = digits_val (take 2 (drop 5 t)); day = digits_val (drop 8 t)
              in if month = 0 \<or> 12 < month \<or> day = 0 \<or> days_in_month year month < day then None else Some t)"

definition is_expired_on :: "vector_projection \<Rightarrow> string \<Rightarrow> bool" where
  "is_expired_on p as_of_date =
     (case (vp_expiration_date p, normalize_expiration_date as_of_date) of
        (Some expiration, Some reference) \<Rightarrow> expiration < reference
      | _ \<Rightarrow> False)"

section \<open>Buckets\<close>

definition bucket_insert :: "vector_projection \<Rightarrow> f32 list \<Rightarrow> scope_bucket \<Rightarrow> projection_outcome \<times> scope_bucket" where
  "bucket_insert p embedding b =
     (let memory_id = vp_memory_id p;
          recency_key = (vp_updated_at p, memory_id);
          entries = hm_insert memory_id \<lparr>ve_projection = p, ve_embedding = embedding\<rparr> (sb_entries b)
      in case hm_get (sb_entries b) memory_id of
          Some previous \<Rightarrow>
            (VoRefreshed,
             \<lparr>sb_entries = entries,
              sb_recency = bs_insert recency_key
                (bs_remove (vp_updated_at (ve_projection previous), memory_id) (sb_recency b))\<rparr>)
        | None \<Rightarrow> (VoInserted, \<lparr>sb_entries = entries, sb_recency = bs_insert recency_key (sb_recency b)\<rparr>))"

definition evict_oldest :: "scope_bucket \<Rightarrow> (string \<times> scope_bucket) option" where
  "evict_oldest b =
     (case sb_recency b of
        [] \<Rightarrow> None
      | oldest # _ \<Rightarrow>
          Some (snd oldest,
            \<lparr>sb_entries = hm_remove (snd oldest) (sb_entries b), sb_recency = bs_remove oldest (sb_recency b)\<rparr>))"

definition bucket_remove :: "string \<Rightarrow> scope_bucket \<Rightarrow> bool \<times> scope_bucket" where
  "bucket_remove memory_id b =
     (case hm_get (sb_entries b) memory_id of
        Some entry \<Rightarrow>
          (True,
           \<lparr>sb_entries = hm_remove memory_id (sb_entries b),
            sb_recency = bs_remove (vp_updated_at (ve_projection entry), memory_id) (sb_recency b)\<rparr>)
      | None \<Rightarrow> (False, b))"

lemma evict_oldest_shorter: "evict_oldest b = Some (i, b') \<Longrightarrow> length (sb_recency b') < length (sb_recency b)"
  by (auto simp: evict_oldest_def bs_remove_def split: list.splits)

text \<open>\<^verbatim>\<open>while bucket.entries.len() >= max_entries\<close>, with the number of all projections and the last eviction.\<close>

function evict_until :: "nat \<Rightarrow> scope_bucket \<Rightarrow> nat \<Rightarrow> string option \<Rightarrow> scope_bucket \<times> nat \<times> string option" where
  "evict_until max_entries b held evicted =
     (if length (sb_entries b) < max_entries then (b, held, evicted)
      else case evict_oldest b of
          None \<Rightarrow> (b, held, evicted)
        | Some (i, b') \<Rightarrow> evict_until max_entries b' (held - 1) (Some i))"
  by pat_completeness auto
termination
  by (relation "measure (\<lambda>(n, b, held, evicted). length (sb_recency b))") (auto dest: evict_oldest_shorter)

declare evict_until.simps [simp del]

section \<open>The index\<close>

definition index_new :: "plugin_host \<Rightarrow> nat \<Rightarrow> vector_config \<Rightarrow> vector_error + vector_index" where
  "index_new h dimensions c =
     and_then (config_validate h c) (\<lambda>_.
       if dimensions = 0 then Inl (VeInvalidConfiguration ''embedding dimensions must be at least 1'')
       else Inr \<lparr>vx_dimensions = dimensions, vx_max_entries_per_scope = vg_max_entries_per_scope c,
              vx_similarity_floor = vg_similarity_floor c, vx_scopes = [], vx_projected_total = 0\<rparr>)"

definition scope_len :: "vector_index \<Rightarrow> scope_key \<Rightarrow> nat" where
  "scope_len x key = (case hm_get (vx_scopes x) key of None \<Rightarrow> 0 | Some b \<Rightarrow> length (sb_entries b))"

definition index_projection :: "vector_index \<Rightarrow> scope_key \<Rightarrow> string \<Rightarrow> vector_projection option" where
  "index_projection x key memory_id =
     (case hm_get (vx_scopes x) key of
        None \<Rightarrow> None
      | Some b \<Rightarrow> map_option ve_projection (hm_get (sb_entries b) memory_id))"

definition scopes_holding :: "vector_index \<Rightarrow> string \<Rightarrow> scope_key list" where
  "scopes_holding x memory_id =
     sort_key scope_key_rank (map fst (filter (\<lambda>(key, b). hm_contains (sb_entries b) memory_id) (vx_scopes x)))"

definition build_projection :: "plugin_host \<Rightarrow> projection_command \<Rightarrow> string \<Rightarrow> string \<Rightarrow> vector_projection" where
  "build_projection h c created_at updated_at =
     \<lparr>vp_memory_id = vc_memory_id c, vp_memory_type = vc_memory_type c, vp_subject = vc_subject c,
      vp_predicate = vc_predicate c, vp_object_text = vc_object_text c, vp_canonical_text = vc_canonical_text c,
      vp_expiration_date = vc_expiration_date c, vp_sensitivity = vc_sensitivity c,
      vp_content_hash = ph_sha256 h (vc_canonical_text c), vp_created_at = created_at, vp_updated_at = updated_at\<rparr>"

text \<open>The validation that precedes every change: the command with a normalized date.\<close>

definition accept_command :: "nat \<Rightarrow> projection_command \<Rightarrow> f32 list \<Rightarrow> vector_error + projection_command" where
  "accept_command dimensions c embedding =
     (if is_blank (vc_memory_id c) then Inl (VeBlankMemoryId (vc_memory_id c))
      else if length embedding \<noteq> dimensions
      then Inl (VeEmbeddingDimensionMismatch (vc_memory_id c) dimensions (length embedding))
      else case vc_expiration_date c of
          None \<Rightarrow> Inr c
        | Some supplied \<Rightarrow>
            (case normalize_expiration_date supplied of
               Some normalized \<Rightarrow> Inr (c\<lparr>vc_expiration_date := Some normalized\<rparr>)
             | None \<Rightarrow> Inl (VeExpirationDateInvalid supplied)))"

definition index_upsert :: "plugin_host \<Rightarrow> string \<Rightarrow> scope_key \<Rightarrow> projection_command \<Rightarrow> f32 list \<Rightarrow> vector_index \<Rightarrow>
    (vector_error + projection_outcome) \<times> vector_index" where
  "index_upsert h timestamp key c embedding x =
     (case accept_command (vx_dimensions x) c embedding of
        Inl e \<Rightarrow> (Inl e, x)
      | Inr c \<Rightarrow>
          let bucket = (case hm_get (vx_scopes x) key of None \<Rightarrow> empty_bucket | Some b \<Rightarrow> b)
          in case hm_get (sb_entries bucket) (vc_memory_id c) of
              Some existing \<Rightarrow>
                let (outcome, bucket') =
                      bucket_insert (build_projection h c (vp_created_at (ve_projection existing)) timestamp) embedding bucket
                in (Inr outcome, x\<lparr>vx_scopes := hm_insert key bucket' (vx_scopes x)\<rparr>)
            | None \<Rightarrow>
                let (bucket', held, evicted) =
                      evict_until (vx_max_entries_per_scope x) bucket (vx_projected_total x) None;
                    (outcome, bucket'') = bucket_insert (build_projection h c timestamp timestamp) embedding bucket'
                in (Inr (case evicted of Some i \<Rightarrow> VoInsertedAfterEviction i | None \<Rightarrow> outcome),
                    x\<lparr>vx_scopes := hm_insert key bucket'' (vx_scopes x), vx_projected_total := held + 1\<rparr>))"

definition index_remove :: "scope_key \<Rightarrow> string \<Rightarrow> vector_index \<Rightarrow> bool \<times> vector_index" where
  "index_remove key memory_id x =
     (case hm_get (vx_scopes x) key of
        None \<Rightarrow> (False, x)
      | Some b \<Rightarrow>
          let (removed, b') = bucket_remove memory_id b
          in (removed, x\<lparr>vx_scopes := hm_insert key b' (vx_scopes x),
               vx_projected_total := (if removed then vx_projected_total x - 1 else vx_projected_total x)\<rparr>))"

section \<open>Ranking\<close>

text \<open>The loop over both vectors, with \<open>dot\<close> and the squared norms.\<close>

fun cosine_sums :: "f32 list \<Rightarrow> f32 list \<Rightarrow> f64 \<times> f64 \<times> f64 \<Rightarrow> f64 \<times> f64 \<times> f64" where
  "cosine_sums (l # ls) (r # rs) (dot, left_norm, right_norm) =
     cosine_sums ls rs (f64_add dot (f64_mul l r), f64_add left_norm (f64_mul l l), f64_add right_norm (f64_mul r r))"
| "cosine_sums _ _ sums = sums"

definition vector_cosine :: "plugin_host \<Rightarrow> f32 list \<Rightarrow> f32 list \<Rightarrow> f32" where
  "vector_cosine h left right =
     (if length left \<noteq> length right \<or> left = [] then f64_zero
      else let (dot, left_norm, right_norm) = cosine_sums left right (f64_zero, f64_zero, f64_zero)
        in if f64_eq left_norm f64_zero \<or> f64_eq right_norm f64_zero then f64_zero
           else let magnitude = f64_mul (ph_sqrt h left_norm) (ph_sqrt h right_norm)
             in if f64_eq magnitude f64_zero then f64_zero
                else let similarity = f64_div dot magnitude
                  in if \<not> f64_finite similarity then f64_zero
                     else to_f32 (f64_clamp (f64_neg f64_one) f64_one similarity))"

text \<open>The filters of the loop over a bucket.\<close>

definition passes_filters :: "rank_filters \<Rightarrow> vector_projection \<Rightarrow> bool" where
  "passes_filters f p \<longleftrightarrow>
     admitted_for (vp_sensitivity p) (vf_read_scope f) \<and>
     (vf_memory_types f = [] \<or> vp_memory_type p \<in> set (vf_memory_types f)) \<and>
     (vf_include_expired f \<or> \<not> is_expired_on p (vf_as_of_date f))"

definition entry_hit :: "plugin_host \<Rightarrow> f32 list \<Rightarrow> vector_entry \<Rightarrow> vector_hit" where
  "entry_hit h query e = \<lparr>vh_projection = ve_projection e, vh_score = vector_cosine h query (ve_embedding e)\<rparr>"

definition bucket_hits :: "plugin_host \<Rightarrow> f32 \<Rightarrow> f32 list \<Rightarrow> rank_filters \<Rightarrow> vector_entry list \<Rightarrow> vector_hit list" where
  "bucket_hits h floor' query f es =
     filter (\<lambda>hit. \<not> f64_lt (vh_score hit) floor')
       (map (entry_hit h query) (filter (\<lambda>e. passes_filters f (ve_projection e)) es))"

text \<open>\<^verbatim>\<open>total_cmp\<close> with the arguments swapped, then the id.\<close>

definition hit_order :: "vector_hit \<Rightarrow> int desc \<times> string" where
  "hit_order hit = (Desc (f64_total (vh_score hit)), vp_memory_id (vh_projection hit))"

definition index_rank :: "plugin_host \<Rightarrow> scope_key \<Rightarrow> f32 list \<Rightarrow> rank_filters \<Rightarrow> nat \<Rightarrow> vector_index \<Rightarrow>
    vector_error + vector_hit list" where
  "index_rank h key query f limit x =
     (if length query \<noteq> vx_dimensions x
      then Inl (VeEmbeddingDimensionMismatch ''<query>'' (vx_dimensions x) (length query))
      else case hm_get (vx_scopes x) key of
          None \<Rightarrow> Inr []
        | Some b \<Rightarrow>
            Inr (take limit (sort_key hit_order
              (bucket_hits h (vx_similarity_floor x) query f (map snd (sb_entries b))))))"

end
