(* ===== verification/Vector_Runtime.thy ===== *)
theory Vector_Runtime
  imports Additive_Planning Vector_Index Reference_Retrieval Plugin_Manifest Vector_Errors
begin

text \<open>
  The runtime of the search-first plug-in (\<^verbatim>\<open>runtime.rs\<close>): configuration, injected ports and the index behind
  its lock. A port is the record of its code and its answers; \<^verbatim>\<open>today\<close> and \<^verbatim>\<open>now\<close> are what the clock reads. A
  poisoned lock is a flag of the state.
\<close>

section \<open>State\<close>

record embedding_port =
  ep_provider_code :: string
  ep_dimensions :: nat
  ep_embed :: "string \<Rightarrow> spi_error + f32 list"

record rerank_port =
  kp_provider_code :: string
  kp_rerank :: "string list \<Rightarrow> spi_error + string list"

record vector_runtime =
  vr_config :: vector_config
  vr_embedding :: "embedding_port option"
  vr_language_model :: "language_model_provider option"
  vr_rerank :: "rerank_port option"
  vr_index :: "vector_index option"
  vr_poisoned :: bool

record additive_write_plan =
  aw_report :: extraction_report
  aw_plan :: additive_plan

definition vector_runtime_new :: "plugin_host \<Rightarrow> vector_config \<Rightarrow> embedding_port option \<Rightarrow> language_model_provider option \<Rightarrow>
    rerank_port option \<Rightarrow> vector_error + vector_runtime" where
  "vector_runtime_new h c embedding language_model rerank =
     and_then (config_validate h c) (\<lambda>_.
     and_then (case embedding of None \<Rightarrow> Inr None
         | Some provider \<Rightarrow> map_sum id Some (index_new h (ep_dimensions provider) c)) (\<lambda>index.
       Inr \<lparr>vr_config = c, vr_embedding = embedding, vr_language_model = language_model, vr_rerank = rerank,
         vr_index = index, vr_poisoned = False\<rparr>))"

definition runtime_without_providers :: "plugin_host \<Rightarrow> vector_config \<Rightarrow> vector_error + vector_runtime" where
  "runtime_without_providers h c = vector_runtime_new h c None None None"

definition runtime_dimensions :: "vector_runtime \<Rightarrow> nat option" where
  "runtime_dimensions rt = map_option (\<lambda>x. if vr_poisoned rt then 0 else vx_dimensions x) (vr_index rt)"

definition indexed_len :: "vector_runtime \<Rightarrow> vector_error + nat" where
  "indexed_len rt =
     (case vr_index rt of
        None \<Rightarrow> Inr 0
      | Some x \<Rightarrow> if vr_poisoned rt then Inl VeIndexLockPoisoned else Inr (vx_projected_total x))"

definition runtime_projection :: "vector_runtime \<Rightarrow> scope_context \<Rightarrow> string \<Rightarrow> vector_error + vector_projection option" where
  "runtime_projection rt scope memory_id =
     (case vr_index rt of
        None \<Rightarrow> Inr None
      | Some x \<Rightarrow> if vr_poisoned rt then Inl VeIndexLockPoisoned
          else Inr (index_projection x (scope_key_of scope) memory_id))"

section \<open>Writes\<close>

definition project_record :: "plugin_host \<Rightarrow> string \<Rightarrow> scope_context \<Rightarrow> projection_command \<Rightarrow> vector_runtime \<Rightarrow>
    (vector_error + projection_outcome) \<times> vector_runtime" where
  "project_record h now scope c rt =
     (case vr_embedding rt of
        None \<Rightarrow> (Inl (VeRequiredPortMissing embedding_model_port), rt)
      | Some provider \<Rightarrow>
          (case provider_failed embedding_model_port (ep_provider_code provider) (ep_embed provider (vc_canonical_text c)) of
             Inl e \<Rightarrow> (Inl e, rt)
           | Inr embedding \<Rightarrow>
               (case vr_index rt of
                  None \<Rightarrow> (Inl (VeRequiredPortMissing embedding_model_port), rt)
                | Some x \<Rightarrow>
                    if vr_poisoned rt then (Inl VeIndexLockPoisoned, rt)
                    else let (r, x') = index_upsert h now (scope_key_of scope) c embedding x
                      in (r, rt\<lparr>vr_index := Some x'\<rparr>))))"

definition remove_record :: "scope_context \<Rightarrow> string \<Rightarrow> vector_runtime \<Rightarrow> (vector_error + bool) \<times> vector_runtime" where
  "remove_record scope memory_id rt =
     (case vr_index rt of
        None \<Rightarrow> (Inl (VeRequiredPortMissing embedding_model_port), rt)
      | Some x \<Rightarrow>
          if vr_poisoned rt then (Inl VeIndexLockPoisoned, rt)
          else let (removed, x') = index_remove (scope_key_of scope) memory_id x
            in (Inr removed, rt\<lparr>vr_index := Some x'\<rparr>))"

definition runtime_extract_memories :: "'n extraction_host \<Rightarrow> string \<Rightarrow> vector_runtime \<Rightarrow> extraction_request \<Rightarrow>
    vector_error + extraction_report" where
  "runtime_extract_memories h today rt r =
     (case vr_language_model rt of
        None \<Rightarrow> Inl (VeRequiredPortMissing language_model_port)
      | Some m \<Rightarrow> extract_memories h today m r)"

definition runtime_plan_procedural_memory :: "vector_runtime \<Rightarrow> conversation_turn list \<Rightarrow> string option \<Rightarrow> bool \<Rightarrow>
    vector_error + procedural_memory_plan" where
  "runtime_plan_procedural_memory rt turns instruction has_metadata =
     (case vr_language_model rt of
        None \<Rightarrow> Inl (VeRequiredPortMissing language_model_port)
      | Some m \<Rightarrow>
          and_then (provider_failed language_model_port (lm_provider_code m)
            (lm_generate m (build_procedural_prompt turns instruction)))
            (\<lambda>response. plan_procedural_memory response has_metadata))"

definition plan_write :: "'n extraction_host \<Rightarrow> string \<Rightarrow> vector_runtime \<Rightarrow> extraction_request \<Rightarrow>
    existing_memory_view list \<Rightarrow> vector_error + additive_write_plan" where
  "plan_write h today rt r existing =
     and_then (runtime_extract_memories h today rt r) (\<lambda>report.
       Inr \<lparr>aw_report = report, aw_plan = plan_additions (xh_plugin h) (er_memories report) existing\<rparr>)"

section \<open>Search\<close>

definition degradation_embedding_port_unbound :: string where
  "degradation_embedding_port_unbound = ''embedding_provider_unbound''"

definition degradation_embedding_call_failed :: string where
  "degradation_embedding_call_failed = ''embedding_provider_failed''"

definition degradation_rerank_call_failed :: string where
  "degradation_rerank_call_failed = ''rerank_provider_failed''"

definition degradation_retriever_kind_unserved :: string where
  "degradation_retriever_kind_unserved = ''no_requested_retriever_kind_is_served''"

definition retriever_kind_is_served :: "retriever_kind list \<Rightarrow> bool" where
  "retriever_kind_is_served kinds \<longleftrightarrow> kinds = [] \<or> RkVector \<in> set kinds"

definition degraded_result :: "retriever_kind list \<Rightarrow> string list \<Rightarrow> retriever_search_result" where
  "degraded_result kinds codes =
     \<lparr>rs_records = [], rs_events = [], rs_degraded = True, rs_unavailable_retriever_kinds = kinds,
      rs_degradation_codes = codes\<rparr>"

text \<open>\<^verbatim>\<open>remaining[position].take()\<close>: the first hit of an id leaves the list.\<close>

fun take_hit :: "string \<Rightarrow> vector_hit list \<Rightarrow> (vector_hit \<times> vector_hit list) option" where
  "take_hit i [] = None"
| "take_hit i (hit # hits) =
     (if vp_memory_id (vh_projection hit) = i then Some (hit, hits)
      else map_option (\<lambda>(found, rest). (found, hit # rest)) (take_hit i hits))"

fun reorder_hits :: "vector_hit list \<Rightarrow> string list \<Rightarrow> vector_hit list" where
  "reorder_hits remaining [] = remaining"
| "reorder_hits remaining (i # order) =
     (case take_hit i remaining of
        None \<Rightarrow> reorder_hits remaining order
      | Some (hit, rest) \<Rightarrow> hit # reorder_hits rest order)"

definition hit_candidate :: "vector_hit \<Rightarrow> retrieval_record_candidate" where
  "hit_candidate hit =
     (let p = vh_projection hit
      in \<lparr>rr_memory_id = vp_memory_id p, rr_subject = vp_subject p, rr_predicate = vp_predicate p,
          rr_object_text = vp_object_text p, rr_canonical_text = vp_canonical_text p, rr_created_at = vp_created_at p\<rparr>)"

text \<open>The index of the first blank entry of the type filter.\<close>

fun first_blank_type :: "nat \<Rightarrow> string list \<Rightarrow> nat option" where
  "first_blank_type i [] = None"
| "first_blank_type i (t # ts) = (if is_blank t then Some i else first_blank_type (i + 1) ts)"

definition check_search :: "search_query \<Rightarrow> vector_error + unit" where
  "check_search q =
     (if is_blank (qs_query q) then Inl VeBlankQuery
      else and_then (validate_limit (qs_limit q)) (\<lambda>_.
        case first_blank_type 0 (qs_memory_types q) of
          Some i \<Rightarrow> Inl (VeBlankMemoryType i)
        | None \<Rightarrow>
            if qs_metadata_filter q \<noteq> None
            then Inl (VeMetadataFilterUnsupported
              ''this plugin projects no metadata document, so no filter operator can be evaluated'')
            else Inr ()))"

text \<open>The reranking of more than one hit, with the code it may add.\<close>

definition rerank_hits :: "vector_runtime \<Rightarrow> vector_hit list \<Rightarrow> vector_hit list \<times> string list" where
  "rerank_hits rt hits =
     (if vg_use_rerank_when_bound (vr_config rt) \<and> 1 < length hits
      then case vr_rerank rt of
          None \<Rightarrow> (hits, [])
        | Some provider \<Rightarrow>
            (case kp_rerank provider (map (\<lambda>hit. vp_memory_id (vh_projection hit)) hits) of
               Inr order \<Rightarrow> (reorder_hits hits order, [])
             | Inl _ \<Rightarrow> (hits, [degradation_rerank_call_failed]))
      else (hits, []))"

definition search_filters :: "string \<Rightarrow> vector_runtime \<Rightarrow> search_query \<Rightarrow> rank_filters" where
  "search_filters today rt q =
     \<lparr>vf_memory_types = qs_memory_types q, vf_read_scope = qs_read_scope q,
      vf_include_expired = vg_include_expired (vr_config rt), vf_as_of_date = today\<rparr>"

definition search_scoped_inner :: "plugin_host \<Rightarrow> string \<Rightarrow> vector_runtime \<Rightarrow> search_query \<Rightarrow>
    vector_error + retriever_search_result" where
  "search_scoped_inner h today rt q =
     and_then (check_search q) (\<lambda>_.
       if \<not> retriever_kind_is_served (qs_retriever_kinds q)
       then Inr (degraded_result [RkVector] [degradation_retriever_kind_unserved])
       else case (vr_embedding rt, vr_index rt) of
           (Some provider, Some x) \<Rightarrow>
             (case ep_embed provider (trim (qs_query q)) of
                Inl _ \<Rightarrow> Inr (degraded_result [RkVector] [degradation_embedding_call_failed])
              | Inr query_embedding \<Rightarrow>
                  if vr_poisoned rt then Inl VeIndexLockPoisoned
                  else and_then (index_rank h (scope_key_of (qs_scope q)) query_embedding (search_filters today rt q)
                      (qs_limit q) x) (\<lambda>hits.
                    let (hits, codes) = rerank_hits rt hits
                    in Inr \<lparr>rs_records = map hit_candidate hits, rs_events = [], rs_degraded = (codes \<noteq> []),
                         rs_unavailable_retriever_kinds = [], rs_degradation_codes = codes\<rparr>))
         | _ \<Rightarrow> Inr (degraded_result [RkVector] [degradation_embedding_port_unbound]))"

definition ensure_indexed :: "vector_runtime \<Rightarrow> string \<Rightarrow> vector_error + string" where
  "ensure_indexed rt memory_id =
     (if is_blank memory_id then Inl (VeBlankMemoryId memory_id)
      else case vr_index rt of
          None \<Rightarrow> Inl (VeRequiredPortMissing embedding_model_port)
        | Some x \<Rightarrow>
            if vr_poisoned rt then Inl VeIndexLockPoisoned
            else (case scopes_holding x memory_id of
                [] \<Rightarrow> Inl (VeRecordNotIndexed memory_id)
              | [_] \<Rightarrow> Inr memory_id
              | scopes \<Rightarrow> Inl (VeAmbiguousProjection memory_id (length scopes))))"

section \<open>The ports\<close>

definition vector_retrieve :: "plugin_host \<Rightarrow> retrieve_candidates_command \<Rightarrow> spi_error + string list" where
  "vector_retrieve h c =
     Inl (into_spi_error h (VeScopeRequired ''MemoryRetrieverPort::retrieve''
       ''this plugin serves bounded, scope-aware search only''))"

definition vector_retrieve_scoped :: "plugin_host \<Rightarrow> string \<Rightarrow> vector_runtime \<Rightarrow> scope_context \<Rightarrow>
    retrieve_candidates_command \<Rightarrow> spi_error + string list" where
  "vector_retrieve_scoped h today rt scope c =
     and_then (map_err (into_spi_error h) (search_scoped_inner h today rt
       \<lparr>qs_scope = scope, qs_query = rc_query c, qs_limit = vg_default_search_limit (vr_config rt),
        qs_retriever_kinds = [RkVector], qs_memory_types = [], qs_read_scope = Public,
        qs_metadata_filter = None, qs_include_expired = False\<rparr>))
       (\<lambda>r. Inr (map rr_memory_id (rs_records r)))"

definition vector_search_scoped :: "plugin_host \<Rightarrow> string \<Rightarrow> vector_runtime \<Rightarrow> search_query \<Rightarrow>
    spi_error + retriever_search_result" where
  "vector_search_scoped h today rt q = map_err (into_spi_error h) (search_scoped_inner h today rt q)"

definition vector_index_memory :: "plugin_host \<Rightarrow> vector_runtime \<Rightarrow> string \<Rightarrow> spi_error + string" where
  "vector_index_memory h rt memory_id = map_err (into_spi_error_on h index_port) (ensure_indexed rt memory_id)"

text \<open>
  The manifest and the port builders of the search-first plug-in (\<^verbatim>\<open>manifest.rs\<close>): the manifest is valid
  and each builder belongs to an exported port.
\<close>

definition search_first_vector_plugin_id :: string where
  "search_first_vector_plugin_id = ''sdkwork-memory-plugin-search-first-vector''"

definition search_first_vector_retriever_builder :: string where
  "search_first_vector_retriever_builder = ''build_search_first_vector_retriever''"

definition search_first_vector_index_builder :: string where
  "search_first_vector_index_builder = ''build_search_first_vector_index''"

definition search_first_vector_conformance_suite :: string where
  "search_first_vector_conformance_suite = ''sdkwork-memory-plugin-conformance''"

definition search_first_vector_manifest :: plugin_manifest where
  "search_first_vector_manifest =
     \<lparr>pm_schema_version = 1, pm_kind = ''sdkwork.memory.plugin'', pm_plugin_id = search_first_vector_plugin_id,
      pm_package_name = search_first_vector_plugin_id, pm_display_name = ''SDKWork Memory Search-First Vector Plugin'',
      pm_version = ''0.1.0'', pm_owner = ''sdkwork-memory'', pm_implementation_kinds = [SearchFirst],
      pm_plugin_roles = [RoleImplementation, RoleRetriever, RoleIndex],
      pm_deployment_modes = [Server, Container, Private, Test],
      pm_port_exports =
       [port_export retriever_port search_first_vector_retriever_builder,
        port_export index_port search_first_vector_index_builder],
      pm_provider_kinds = [LanguageModel, EmbeddingModel, RerankModel], pm_retriever_kinds = [RkVector],
      pm_index_kinds = [IkVector], pm_required_core_version = ''0.1.0'', pm_config_schema_ref = None,
      pm_secret_refs = [], pm_data_classes = [DcInternal, DcTenant, DcPersonal],
      pm_capabilities =
       \<lparr>pl_canonical_store = False, pl_event_log = False, pl_candidate_lifecycle = False,
        pl_habit_learning = False, pl_retrieval_trace = False, pl_deletion_propagation = True,
        pl_audit_log = False, pl_outbox_log = False, pl_embedding_required = True\<rparr>,
      pm_degradation = \<lparr>dp_mode = ''fail_closed_when_embedding_port_unbound'', dp_returns_stale_hits = False\<rparr>,
      pm_migration =
       \<lparr>mg_export_supported = False, mg_import_supported = False, mg_dual_write_supported = False,
        mg_shadow_read_supported = False\<rparr>,
      pm_observability = \<lparr>oc_metrics_prefix = ''sdkwork_memory_search_first_vector'', oc_redacts_payloads = True\<rparr>,
      pm_conformance =
       \<lparr>co_suite = search_first_vector_conformance_suite, co_suite_version = ''0.1.0''\<rparr>\<rparr>"

record port_builder =
  pu_port_name :: string
  pu_builder_name :: string
  pu_ready :: bool
  pu_fail_closed :: bool

definition build_search_first_vector_retriever :: port_builder where
  "build_search_first_vector_retriever =
     \<lparr>pu_port_name = retriever_port, pu_builder_name = search_first_vector_retriever_builder, pu_ready = True,
      pu_fail_closed = False\<rparr>"

definition build_search_first_vector_index :: port_builder where
  "build_search_first_vector_index =
     \<lparr>pu_port_name = index_port, pu_builder_name = search_first_vector_index_builder, pu_ready = True,
      pu_fail_closed = False\<rparr>"

text \<open>A registry accepts the manifest, and each builder is the one the manifest exports for its port.\<close>

lemma search_first_vector_manifest_ok: "manifest_validate search_first_vector_manifest = Inr ()"
  by code_simp

lemma builders_exported:
  "\<forall>b \<in> {build_search_first_vector_retriever, build_search_first_vector_index}.
     pu_ready b \<and> port_export (pu_port_name b) (pu_builder_name b) \<in> set (pm_port_exports search_first_vector_manifest)"
  by (simp add: build_search_first_vector_retriever_def build_search_first_vector_index_def search_first_vector_manifest_def)

end
