(* ===== verification/Vector_Laws.thy ===== *)
theory Vector_Laws
  imports Vector_Index
begin

text \<open>
  Laws of the vector index: a bucket keeps its entries and its recency set in step, an eviction takes
  the least pair of time and id, the counter is the number of projections, and every operation keeps
  \<open>index_ok\<close>.
\<close>

section \<open>Dates\<close>

lemma strip_any_head:
  assumes "\<forall>p \<in> set ps. p \<noteq> [] \<and> hd p \<noteq> c"
  shows "strip_any ps (c # cs) = None"
  using assms by (induction ps) (auto simp: neq_Nil_conv)

lemma white_space_no_digit:
  "is_digit c \<Longrightarrow> \<forall>p \<in> set white_space. p \<noteq> [] \<and> hd p \<noteq> c \<and> last p \<noteq> c"
  by (auto simp: white_space_def is_digit_def)

lemma trim_between_digits:
  assumes "s \<noteq> []" and "is_digit (hd s)" and "is_digit (last s)"
  shows "trim s = s"
proof -
  obtain c cs where s: "s = c # cs" using assms(1) by (cases s) auto
  have "strip_any white_space s = None"
    unfolding s using white_space_no_digit [of c] assms(2) by (intro strip_any_head) (auto simp: s)
  then have start: "trim_start s = s"
    by (simp add: trim_start_def strip_all.simps)
  obtain d ds where r: "rev s = d # ds" using assms(1) by (cases "rev s") auto
  then have "is_digit d"
    using assms(3) by (metis hd_rev list.sel(1))
  then have "strip_any (map rev white_space) (rev s) = None"
    unfolding r using white_space_no_digit [of d] by (intro strip_any_head) (auto simp: hd_rev)
  then have "trim_end s = s"
    by (simp add: trim_end_def strip_all.simps)
  then show ?thesis
    by (simp add: trim_def start)
qed

lemma normalized_date:
  assumes "normalize_expiration_date s = Some t"
  shows "t = trim s \<and> length t = 10 \<and> t ! 4 = CHR ''-'' \<and> t ! 7 = CHR ''-'' \<and>
    (\<forall>i < 10. i \<noteq> 4 \<longrightarrow> i \<noteq> 7 \<longrightarrow> is_digit (t ! i))"
  using assms by (auto simp: normalize_expiration_date_def Let_def list_all_iff split: if_splits)

lemma normalize_idem:
  assumes "normalize_expiration_date s = Some t"
  shows "normalize_expiration_date t = Some t"
proof -
  have d: "length t = 10" "\<And>i. i < 10 \<Longrightarrow> i \<noteq> 4 \<Longrightarrow> i \<noteq> 7 \<Longrightarrow> is_digit (t ! i)"
    using normalized_date [OF assms] by auto
  then have "t \<noteq> []" by auto
  then have "trim t = t"
    using d d(2) [of 0] d(2) [of 9] by (intro trim_between_digits) (simp_all add: hd_conv_nth last_conv_nth)
  moreover have "trim s = t"
    using normalized_date [OF assms] by simp
  ultimately show ?thesis
    using assms by (simp add: normalize_expiration_date_def)
qed

section \<open>Buckets\<close>

definition recency_keys :: "(string, vector_entry) hmap \<Rightarrow> (string \<times> string) set" where
  "recency_keys m = {(vp_updated_at (ve_projection e), i) | i e. hm_get m i = Some e}"

definition bucket_wf :: "scope_bucket \<Rightarrow> bool" where
  "bucket_wf b \<longleftrightarrow> hm_ok (sb_entries b) \<and> bs_ok (sb_recency b) \<and> set (sb_recency b) = recency_keys (sb_entries b)"

definition entry_ok :: "plugin_host \<Rightarrow> nat \<Rightarrow> string \<Rightarrow> vector_entry \<Rightarrow> bool" where
  "entry_ok h d i e \<longleftrightarrow>
     vp_memory_id (ve_projection e) = i \<and> \<not> is_blank i \<and> length (ve_embedding e) = d \<and>
     vp_content_hash (ve_projection e) = ph_sha256 h (vp_canonical_text (ve_projection e)) \<and>
     (case vp_expiration_date (ve_projection e) of None \<Rightarrow> True | Some t \<Rightarrow> normalize_expiration_date t = Some t)"

lemma empty_bucket_wf: "bucket_wf empty_bucket"
  by (simp add: bucket_wf_def empty_bucket_def recency_keys_def)

text \<open>The recency set after a write: the old pair of the id goes, the new one comes.\<close>

lemma recency_keys_insert:
  "recency_keys (hm_insert i e m) =
     insert (vp_updated_at (ve_projection e), i) (recency_keys m - {(u, i) | u. True})"
  by (auto simp: recency_keys_def)

lemma recency_keys_remove: "recency_keys (hm_remove i m) = recency_keys m - {(u, i) | u. True}"
  by (auto simp: recency_keys_def split: if_splits)

lemma recency_keys_of:
  "recency_keys m - {(u, i) | u. True} =
     (case hm_get m i of None \<Rightarrow> recency_keys m
      | Some e \<Rightarrow> recency_keys m - {(vp_updated_at (ve_projection e), i)})"
  by (auto simp: recency_keys_def split: option.splits)

lemma bucket_insert_wf:
  assumes "bucket_wf b"
  shows "bucket_wf (snd (bucket_insert p v b))"
    and "sb_entries (snd (bucket_insert p v b)) =
      hm_insert (vp_memory_id p) \<lparr>ve_projection = p, ve_embedding = v\<rparr> (sb_entries b)"
    and "fst (bucket_insert p v b) =
      (if hm_get (sb_entries b) (vp_memory_id p) = None then VoInserted else VoRefreshed)"
  using assms recency_keys_of [of "sb_entries b" "vp_memory_id p"]
  by (auto simp: bucket_insert_def bucket_wf_def Let_def recency_keys_insert split: option.splits)

lemma bucket_remove_wf:
  assumes "bucket_wf b"
  shows "bucket_wf (snd (bucket_remove i b))"
    and "hm_get (sb_entries (snd (bucket_remove i b))) j = (if j = i then None else hm_get (sb_entries b) j)"
    and "fst (bucket_remove i b) \<longleftrightarrow> hm_get (sb_entries b) i \<noteq> None"
    and "length (sb_entries (snd (bucket_remove i b))) =
      (if fst (bucket_remove i b) then length (sb_entries b) - 1 else length (sb_entries b))"
  using assms recency_keys_of [of "sb_entries b" i] hm_length_remove [of "sb_entries b" i]
  by (auto simp: bucket_remove_def bucket_wf_def recency_keys_remove split: option.splits)

text \<open>An eviction takes the entry with the least pair of time and id.\<close>

definition oldest_entry :: "(string, vector_entry) hmap \<Rightarrow> string \<Rightarrow> bool" where
  "oldest_entry m i \<longleftrightarrow>
     (\<exists>e. hm_get m i = Some e \<and>
       (\<forall>j e'. hm_get m j = Some e' \<longrightarrow> j \<noteq> i \<longrightarrow>
         (vp_updated_at (ve_projection e), i) < (vp_updated_at (ve_projection e'), j)))"

lemma evict_oldest_wf:
  assumes "bucket_wf b" and "sb_entries b \<noteq> []"
  shows "\<exists>i b'. evict_oldest b = Some (i, b') \<and> oldest_entry (sb_entries b) i \<and>
    sb_entries b' = hm_remove i (sb_entries b) \<and> bucket_wf b'"
proof -
  have set: "set (sb_recency b) = recency_keys (sb_entries b)" and ok: "bs_ok (sb_recency b)" "hm_ok (sb_entries b)"
    using assms(1) by (simp_all add: bucket_wf_def)
  obtain j e where "(j, e) \<in> set (sb_entries b)"
    using assms(2) by (cases "sb_entries b") auto
  then have "recency_keys (sb_entries b) \<noteq> {}"
    using ok(2) by (auto simp: recency_keys_def hm_get_in)
  then have "sb_recency b \<noteq> []"
    unfolding set [symmetric] by simp
  then obtain u i rest where r: "sb_recency b = (u, i) # rest"
    by (metis list.exhaust surj_pair)
  then have "(u, i) \<in> recency_keys (sb_entries b)"
    unfolding set [symmetric] by simp
  then obtain e where e: "hm_get (sb_entries b) i = Some e" "vp_updated_at (ve_projection e) = u"
    by (auto simp: recency_keys_def)
  have least: "(u, i) < (vp_updated_at (ve_projection e'), j)" if "hm_get (sb_entries b) j = Some e'" "j \<noteq> i" for j e'
  proof -
    have "(vp_updated_at (ve_projection e'), j) \<in> set (sb_recency b)"
      unfolding set using that(1) by (auto simp: recency_keys_def)
    then show ?thesis
      using that(2) ok(1) unfolding r by (intro bs_first_least) auto
  qed
  let ?b = "\<lparr>sb_entries = hm_remove i (sb_entries b), sb_recency = bs_remove (u, i) (sb_recency b)\<rparr>"
  have "evict_oldest b = Some (i, ?b)"
    by (simp add: evict_oldest_def r)
  moreover have "bucket_wf ?b"
    using ok set e recency_keys_of [of "sb_entries b" i] by (simp add: bucket_wf_def recency_keys_remove)
  moreover have "oldest_entry (sb_entries b) i"
    unfolding oldest_entry_def using e least by blast
  ultimately show ?thesis by auto
qed

text \<open>In a bucket within its bound the loop evicts nothing, or one entry when the bucket is full.\<close>

lemma evict_until_once:
  assumes "bucket_wf b" and "length (sb_entries b) \<le> n" and "0 < n"
  shows "(length (sb_entries b) < n \<and> evict_until n b held None = (b, held, None)) \<or>
    (\<exists>i b'. length (sb_entries b) = n \<and> evict_until n b held None = (b', held - 1, Some i) \<and>
      oldest_entry (sb_entries b) i \<and> sb_entries b' = hm_remove i (sb_entries b) \<and> bucket_wf b' \<and>
      length (sb_entries b') = n - 1)"
proof (cases "length (sb_entries b) < n")
  case True
  then show ?thesis by (simp add: evict_until.simps)
next
  case False
  then have full: "length (sb_entries b) = n" and "sb_entries b \<noteq> []"
    using assms(2,3) by auto
  then obtain i b' where e: "evict_oldest b = Some (i, b')" "oldest_entry (sb_entries b) i"
    "sb_entries b' = hm_remove i (sb_entries b)" "bucket_wf b'"
    using evict_oldest_wf [OF assms(1)] by blast
  have len: "length (sb_entries b') = n - 1"
    using e(2,3) full assms(1) by (auto simp: hm_length_remove bucket_wf_def oldest_entry_def)
  then have "evict_until n b' (held - 1) (Some i) = (b', held - 1, Some i)"
    using assms(3) by (simp add: evict_until.simps)
  then have "evict_until n b held None = (b', held - 1, Some i)"
    using full e(1) by (simp add: evict_until.simps [of n b])
  then show ?thesis
    using e len full by blast
qed

section \<open>The index\<close>

definition hm_sum :: "('v \<Rightarrow> nat) \<Rightarrow> ('k, 'v) hmap \<Rightarrow> nat" where
  "hm_sum f m = sum_list (map (\<lambda>(k, v). f v) m)"

lemma hm_sum_insert:
  "hm_sum f (hm_insert k v m) + (case hm_get m k of None \<Rightarrow> 0 | Some w \<Rightarrow> f w) = hm_sum f m + f v"
  unfolding hm_sum_def hm_insert_def hm_get_def by (induction m) auto

definition bucket_ok :: "plugin_host \<Rightarrow> vector_index \<Rightarrow> scope_bucket \<Rightarrow> bool" where
  "bucket_ok h x b \<longleftrightarrow>
     bucket_wf b \<and> length (sb_entries b) \<le> vx_max_entries_per_scope x \<and>
     (\<forall>i e. hm_get (sb_entries b) i = Some e \<longrightarrow> entry_ok h (vx_dimensions x) i e)"

definition index_ok :: "plugin_host \<Rightarrow> vector_index \<Rightarrow> bool" where
  "index_ok h x \<longleftrightarrow>
     hm_ok (vx_scopes x) \<and> 0 < vx_dimensions x \<and> 0 < vx_max_entries_per_scope x \<and>
     vx_max_entries_per_scope x \<le> max_entries_per_scope_ceiling \<and>
     (\<forall>k b. hm_get (vx_scopes x) k = Some b \<longrightarrow> bucket_ok h x b) \<and>
     vx_projected_total x = hm_sum (\<lambda>b. length (sb_entries b)) (vx_scopes x)"

definition bucket_at :: "vector_index \<Rightarrow> scope_key \<Rightarrow> scope_bucket" where
  "bucket_at x key = (case hm_get (vx_scopes x) key of None \<Rightarrow> empty_bucket | Some b \<Rightarrow> b)"

lemma index_projection_bucket: "index_projection x key i = map_option ve_projection (hm_get (sb_entries (bucket_at x key)) i)"
  by (simp add: index_projection_def bucket_at_def empty_bucket_def split: option.split)

lemma scope_len_bucket: "scope_len x key = length (sb_entries (bucket_at x key))"
  by (simp add: scope_len_def bucket_at_def empty_bucket_def split: option.split)

lemma bucket_at_ok:
  assumes "index_ok h x"
  shows "bucket_ok h x (bucket_at x key)"
  using assms empty_bucket_wf by (auto simp: index_ok_def bucket_at_def bucket_ok_def empty_bucket_def split: option.split)

text \<open>Writing one bucket back.\<close>

definition put_bucket :: "scope_key \<Rightarrow> scope_bucket \<Rightarrow> nat \<Rightarrow> vector_index \<Rightarrow> vector_index" where
  "put_bucket key b n x = x\<lparr>vx_scopes := hm_insert key b (vx_scopes x), vx_projected_total := n\<rparr>"

lemma bucket_at_put: "bucket_at (put_bucket key b n x) k = (if k = key then b else bucket_at x k)"
  by (simp add: bucket_at_def put_bucket_def)

lemma put_bucket_ok:
  assumes x: "index_ok h x" and b: "bucket_ok h x b"
    and n: "n + length (sb_entries (bucket_at x key)) = vx_projected_total x + length (sb_entries b)"
  shows "index_ok h (put_bucket key b n x)"
proof -
  have "hm_sum (\<lambda>b. length (sb_entries b)) (hm_insert key b (vx_scopes x)) + length (sb_entries (bucket_at x key)) =
      vx_projected_total x + length (sb_entries b)"
    using x hm_sum_insert [of "\<lambda>b. length (sb_entries b)" key b "vx_scopes x"]
    by (auto simp: index_ok_def bucket_at_def empty_bucket_def split: option.splits)
  then have "n = hm_sum (\<lambda>b. length (sb_entries b)) (hm_insert key b (vx_scopes x))"
    using n by linarith
  moreover have "bucket_ok h (put_bucket key b n x) c \<longleftrightarrow> bucket_ok h x c" for c
    by (simp add: bucket_ok_def put_bucket_def)
  ultimately show ?thesis
    using x b by (auto simp: index_ok_def put_bucket_def split: if_splits)
qed

lemma bucket_counted:
  assumes "index_ok h x"
  shows "length (sb_entries (bucket_at x key)) \<le> vx_projected_total x"
proof -
  have "hm_get m k = Some b \<Longrightarrow> f b \<le> hm_sum f m" for f and m :: "(scope_key, scope_bucket) hmap" and k b
    unfolding hm_get_def hm_sum_def by (induction m) (auto split: if_splits)
  then show ?thesis
    using assms by (auto simp: index_ok_def bucket_at_def empty_bucket_def split: option.split)
qed

section \<open>Writes\<close>

lemma accepted_command:
  assumes "accept_command d c v = Inr c'"
  shows "vc_memory_id c' = vc_memory_id c \<and> \<not> is_blank (vc_memory_id c) \<and> length v = d \<and>
    (case vc_expiration_date c' of None \<Rightarrow> True | Some t \<Rightarrow> normalize_expiration_date t = Some t)"
  using assms by (auto simp: accept_command_def normalize_idem split: if_splits option.splits)

lemma build_projection_simps [simp]:
  "vp_memory_id (build_projection h c created updated) = vc_memory_id c"
  "vp_created_at (build_projection h c created updated) = created"
  "vp_updated_at (build_projection h c created updated) = updated"
  "vp_canonical_text (build_projection h c created updated) = vc_canonical_text c"
  "vp_content_hash (build_projection h c created updated) = ph_sha256 h (vc_canonical_text c)"
  "vp_expiration_date (build_projection h c created updated) = vc_expiration_date c"
  by (simp_all add: build_projection_def)

lemma built_entry_ok:
  "accept_command d c v = Inr c' \<Longrightarrow>
    entry_ok h d (vc_memory_id c) \<lparr>ve_projection = build_projection h c' created updated, ve_embedding = v\<rparr>"
  using accepted_command [of d c v c'] by (auto simp: entry_ok_def)

text \<open>An entry written into a bucket that has room for it.\<close>

lemma bucket_insert_ok:
  assumes wf: "bucket_wf b" and v: "entry_ok h (vx_dimensions x) (vp_memory_id p) \<lparr>ve_projection = p, ve_embedding = v\<rparr>"
    and old: "\<And>i e. hm_get (sb_entries b) i = Some e \<Longrightarrow> entry_ok h (vx_dimensions x) i e"
    and room: "length (sb_entries b) < vx_max_entries_per_scope x \<or>
      hm_get (sb_entries b) (vp_memory_id p) \<noteq> None \<and> length (sb_entries b) \<le> vx_max_entries_per_scope x"
  shows "bucket_ok h x (snd (bucket_insert p v b))"
proof -
  have "hm_ok (sb_entries b)"
    using wf by (simp add: bucket_wf_def)
  then have "length (sb_entries (snd (bucket_insert p v b))) \<le> vx_max_entries_per_scope x"
    using room bucket_insert_wf(2) [OF wf] by (auto simp: hm_length_insert)
  then show ?thesis
    using bucket_insert_wf(1,2) [OF wf] v old by (auto simp: bucket_ok_def)
qed

lemma upsert_cases:
  assumes x: "index_ok h x" and c: "accept_command (vx_dimensions x) c v = Inr c'"
  obtains (refresh) e where "hm_get (sb_entries (bucket_at x key)) (vc_memory_id c) = Some e"
      "index_upsert h now key c v x = (Inr VoRefreshed, put_bucket key (snd (bucket_insert
         (build_projection h c' (vp_created_at (ve_projection e)) now) v (bucket_at x key))) (vx_projected_total x) x)"
    | (fresh) "hm_get (sb_entries (bucket_at x key)) (vc_memory_id c) = None"
      "length (sb_entries (bucket_at x key)) < vx_max_entries_per_scope x"
      "index_upsert h now key c v x = (Inr VoInserted, put_bucket key (snd (bucket_insert
         (build_projection h c' now now) v (bucket_at x key))) (vx_projected_total x + 1) x)"
    | (evict) j b where "hm_get (sb_entries (bucket_at x key)) (vc_memory_id c) = None"
      "length (sb_entries (bucket_at x key)) = vx_max_entries_per_scope x" "oldest_entry (sb_entries (bucket_at x key)) j"
      "sb_entries b = hm_remove j (sb_entries (bucket_at x key))" "bucket_wf b"
      "length (sb_entries b) = vx_max_entries_per_scope x - 1"
      "index_upsert h now key c v x = (Inr (VoInsertedAfterEviction j), put_bucket key (snd (bucket_insert
         (build_projection h c' now now) v b)) (vx_projected_total x - 1 + 1) x)"
proof -
  let ?b = "bucket_at x key" and ?i = "vc_memory_id c"
  have id: "vc_memory_id c' = ?i"
    using accepted_command [OF c] by simp
  have b: "bucket_wf ?b" "length (sb_entries ?b) \<le> vx_max_entries_per_scope x" and max: "0 < vx_max_entries_per_scope x"
    using bucket_at_ok [OF x] x by (auto simp: bucket_ok_def index_ok_def)
  have up: "index_upsert h now key c v x =
      (case hm_get (sb_entries ?b) ?i of
         Some e \<Rightarrow> (Inr (fst (bucket_insert (build_projection h c' (vp_created_at (ve_projection e)) now) v ?b)),
           put_bucket key (snd (bucket_insert (build_projection h c' (vp_created_at (ve_projection e)) now) v ?b))
             (vx_projected_total x) x)
       | None \<Rightarrow>
           (case evict_until (vx_max_entries_per_scope x) ?b (vx_projected_total x) None of (b', n, evicted) \<Rightarrow>
             (Inr (case evicted of Some i \<Rightarrow> VoInsertedAfterEviction i
                | None \<Rightarrow> fst (bucket_insert (build_projection h c' now now) v b')),
              put_bucket key (snd (bucket_insert (build_projection h c' now now) v b')) (n + 1) x)))"
    by (simp add: index_upsert_def c id bucket_at_def [symmetric] put_bucket_def Let_def split_def split: option.split)
  show ?thesis
  proof (cases "hm_get (sb_entries ?b) ?i")
    case (Some e)
    then show ?thesis
      using refresh up bucket_insert_wf(3) [OF b(1)] id by simp
  next
    case None
    from evict_until_once [OF b max, of "vx_projected_total x"] show ?thesis
    proof (elim disjE exE conjE)
      assume "length (sb_entries ?b) < vx_max_entries_per_scope x"
        and "evict_until (vx_max_entries_per_scope x) ?b (vx_projected_total x) None = (?b, vx_projected_total x, None)"
      then show ?thesis
        using fresh up None bucket_insert_wf(3) [OF b(1)] id by simp
    next
      fix j b'
      assume "length (sb_entries ?b) = vx_max_entries_per_scope x" "oldest_entry (sb_entries ?b) j"
        "sb_entries b' = hm_remove j (sb_entries ?b)" "bucket_wf b'"
        "length (sb_entries b') = vx_max_entries_per_scope x - 1"
        and "evict_until (vx_max_entries_per_scope x) ?b (vx_projected_total x) None =
          (b', vx_projected_total x - 1, Some j)"
      then show ?thesis
        using evict [of j b'] up None by simp
    qed
  qed
qed

lemma refused_upsert: "accept_command (vx_dimensions x) c v = Inl e \<Longrightarrow> index_upsert h now key c v x = (Inl e, x)"
  by (simp add: index_upsert_def)

lemma upsert_ok:
  assumes x: "index_ok h x"
  shows "index_ok h (snd (index_upsert h now key c v x))"
proof (cases "accept_command (vx_dimensions x) c v")
  case (Inl e)
  then show ?thesis using x by (simp add: refused_upsert)
next
  case (Inr c')
  note v = built_entry_ok [OF Inr, of h]
  have id: "vc_memory_id c' = vc_memory_id c"
    using accepted_command [OF Inr] by simp
  have b: "bucket_wf (bucket_at x key)" "length (sb_entries (bucket_at x key)) \<le> vx_max_entries_per_scope x"
    and old: "\<And>i e. hm_get (sb_entries (bucket_at x key)) i = Some e \<Longrightarrow> entry_ok h (vx_dimensions x) i e"
    using bucket_at_ok [OF x] by (auto simp: bucket_ok_def)
  have ok: "hm_ok (sb_entries (bucket_at x key))"
    using b(1) by (simp add: bucket_wf_def)
  from x Inr show ?thesis
  proof (cases rule: upsert_cases [where key = key and now = now])
    case (refresh e)
    then have "bucket_ok h x (snd (bucket_insert (build_projection h c' (vp_created_at (ve_projection e)) now) v (bucket_at x key)))"
      using v b old id by (intro bucket_insert_ok) auto
    then show ?thesis
      using refresh id ok bucket_insert_wf(2) [OF b(1)] by (simp add: put_bucket_ok [OF x] hm_length_insert)
  next
    case fresh
    then have "bucket_ok h x (snd (bucket_insert (build_projection h c' now now) v (bucket_at x key)))"
      using v b old id by (intro bucket_insert_ok) auto
    then show ?thesis
      using fresh id ok bucket_insert_wf(2) [OF b(1)] by (simp add: put_bucket_ok [OF x] hm_length_insert)
  next
    case (evict j b')
    have max: "0 < vx_max_entries_per_scope x"
      using x by (simp add: index_ok_def)
    have "bucket_ok h x (snd (bucket_insert (build_projection h c' now now) v b'))"
      using v b old id evict max by (intro bucket_insert_ok) (auto split: if_splits)
    moreover have "length (sb_entries (snd (bucket_insert (build_projection h c' now now) v b'))) = vx_max_entries_per_scope x"
      using evict id max bucket_insert_wf(2) [OF evict(5)] by (simp add: hm_length_insert bucket_wf_def)
    ultimately show ?thesis
      using evict max bucket_counted [OF x, of key] by (simp add: put_bucket_ok [OF x])
  qed
qed

section \<open>Removal\<close>

lemma index_remove_put:
  assumes "index_ok h x"
  shows "snd (index_remove key i x) = x \<and> \<not> fst (index_remove key i x) \<and> hm_get (vx_scopes x) key = None \<or>
    index_remove key i x =
      (fst (bucket_remove i (bucket_at x key)),
       put_bucket key (snd (bucket_remove i (bucket_at x key)))
         (if fst (bucket_remove i (bucket_at x key)) then vx_projected_total x - 1 else vx_projected_total x) x)"
  by (cases "hm_get (vx_scopes x) key")
    (simp_all add: index_remove_def bucket_at_def put_bucket_def split_def Let_def)

lemma remove_ok:
  assumes x: "index_ok h x"
  shows "index_ok h (snd (index_remove key i x))"
  using index_remove_put [OF x, of key i]
proof (elim disjE conjE)
  assume eq: "index_remove key i x =
      (fst (bucket_remove i (bucket_at x key)),
       put_bucket key (snd (bucket_remove i (bucket_at x key)))
         (if fst (bucket_remove i (bucket_at x key)) then vx_projected_total x - 1 else vx_projected_total x) x)"
  have b: "bucket_wf (bucket_at x key)"
    and old: "length (sb_entries (bucket_at x key)) \<le> vx_max_entries_per_scope x"
      "\<And>i e. hm_get (sb_entries (bucket_at x key)) i = Some e \<Longrightarrow> entry_ok h (vx_dimensions x) i e"
    using bucket_at_ok [OF x] by (auto simp: bucket_ok_def)
  have "bucket_ok h x (snd (bucket_remove i (bucket_at x key)))"
    using bucket_remove_wf [OF b, of i] old by (auto simp: bucket_ok_def split: if_splits)
  moreover have "0 < length (sb_entries (bucket_at x key))" if "fst (bucket_remove i (bucket_at x key))"
    using that bucket_remove_wf(3) [OF b, of i] by (auto simp: hm_get_def)
  ultimately show ?thesis
    using bucket_remove_wf(4) [OF b, of i] bucket_counted [OF x, of key] unfolding eq
    by (cases "sb_entries (bucket_at x key)") (auto intro!: put_bucket_ok [OF x])
qed (simp add: x)

section \<open>Reachable indices\<close>

inductive index_reachable :: "plugin_host \<Rightarrow> vector_index \<Rightarrow> bool" for h where
  new: "index_new h d c = Inr x \<Longrightarrow> index_reachable h x"
| upsert: "index_reachable h x \<Longrightarrow> index_reachable h (snd (index_upsert h now key c v x))"
| remove: "index_reachable h x \<Longrightarrow> index_reachable h (snd (index_remove key i x))"

lemma new_ok: "index_new h d c = Inr x \<Longrightarrow> index_ok h x"
  by (auto simp: index_new_def and_then_Inr config_validate_ok config_ok_def index_ok_def hm_sum_def
      max_entries_per_scope_ceiling_def split: if_splits)

lemma index_reachable_ok: "index_reachable h x \<Longrightarrow> index_ok h x"
  by (induction rule: index_reachable.induct) (simp_all add: new_ok upsert_ok remove_ok)

section \<open>Ranking\<close>

definition rank_admits :: "plugin_host \<Rightarrow> vector_index \<Rightarrow> scope_key \<Rightarrow> f32 list \<Rightarrow> rank_filters \<Rightarrow> vector_hit \<Rightarrow> bool" where
  "rank_admits h x key query f hit \<longleftrightarrow>
     index_projection x key (vp_memory_id (vh_projection hit)) = Some (vh_projection hit) \<and>
     (\<exists>e. hm_get (sb_entries (bucket_at x key)) (vp_memory_id (vh_projection hit)) = Some e \<and> hit = entry_hit h query e) \<and>
     passes_filters f (vh_projection hit) \<and> \<not> f64_lt (vh_score hit) (vx_similarity_floor x)"

definition index_hits :: "plugin_host \<Rightarrow> vector_index \<Rightarrow> scope_key \<Rightarrow> f32 list \<Rightarrow> rank_filters \<Rightarrow> vector_hit list" where
  "index_hits h x key query f = bucket_hits h (vx_similarity_floor x) query f (map snd (sb_entries (bucket_at x key)))"

lemma index_rank_top:
  assumes "length query = vx_dimensions x"
  shows "index_rank h key query f limit x = Inr (top_by hit_order limit (index_hits h x key query f))"
  using assms by (simp add: index_rank_def index_hits_def bucket_at_def empty_bucket_def bucket_hits_def top_by_def
      split: option.split)

lemma ids_of_hits:
  assumes "index_ok h x"
  shows "map (\<lambda>hit. vp_memory_id (vh_projection hit)) (map (entry_hit h query) (map snd (sb_entries (bucket_at x key)))) =
    map fst (sb_entries (bucket_at x key))"
proof -
  have "vp_memory_id (ve_projection e) = i" if "(i, e) \<in> set (sb_entries (bucket_at x key))" for i e
    using that bucket_at_ok [OF assms, of key] by (auto simp: bucket_ok_def bucket_wf_def entry_ok_def simp flip: hm_get_in)
  then show ?thesis
    by (force simp: entry_hit_def)
qed

lemma hits_distinct:
  assumes "index_ok h x"
  shows "distinct (map (\<lambda>hit. vp_memory_id (vh_projection hit)) (index_hits h x key query f))"
proof -
  have "distinct (map fst (sb_entries (bucket_at x key)))"
    using bucket_at_ok [OF assms, of key] by (simp add: bucket_ok_def bucket_wf_def hm_ok_def)
  then have d: "distinct (map (\<lambda>hit. vp_memory_id (vh_projection hit)) (map (entry_hit h query) (map snd (sb_entries (bucket_at x key)))))"
    by (simp only: ids_of_hits [OF assms])
  have "index_hits h x key query f = filter (\<lambda>hit. passes_filters f (vh_projection hit) \<and> \<not> f64_lt (vh_score hit) (vx_similarity_floor x))
      (map (entry_hit h query) (map snd (sb_entries (bucket_at x key))))"
    by (simp add: index_hits_def bucket_hits_def filter_map comp_def entry_hit_def)
  then show ?thesis
    using distinct_map_filter [OF d] by (simp only:)
qed

lemma set_index_hits:
  assumes "index_ok h x"
  shows "set (index_hits h x key query f) = {hit. rank_admits h x key query f hit}"
proof -
  let ?m = "sb_entries (bucket_at x key)"
  have get: "(i, e) \<in> set ?m \<longleftrightarrow> hm_get ?m i = Some e" for i e
    using bucket_at_ok [OF assms, of key] by (simp add: bucket_ok_def bucket_wf_def hm_get_in)
  have id: "vp_memory_id (ve_projection e) = i" if "hm_get ?m i = Some e" for i e
    using that bucket_at_ok [OF assms, of key] by (simp add: bucket_ok_def entry_ok_def)
  have elem: "hit \<in> set (index_hits h x key query f) \<longleftrightarrow>
      (\<exists>i e. hm_get ?m i = Some e \<and> hit = entry_hit h query e \<and> passes_filters f (ve_projection e) \<and>
        \<not> f64_lt (vh_score hit) (vx_similarity_floor x))" for hit
    unfolding get [symmetric] by (force simp: index_hits_def bucket_hits_def)
  have "hit \<in> set (index_hits h x key query f) \<longleftrightarrow> rank_admits h x key query f hit" for hit
  proof
    assume "hit \<in> set (index_hits h x key query f)"
    then obtain i e where e: "hm_get ?m i = Some e" "hit = entry_hit h query e" "passes_filters f (ve_projection e)"
      "\<not> f64_lt (vh_score hit) (vx_similarity_floor x)"
      unfolding elem by blast
    moreover have "vh_projection hit = ve_projection e" "vp_memory_id (ve_projection e) = i"
      using id [OF e(1)] by (simp_all add: e(2) entry_hit_def)
    ultimately show "rank_admits h x key query f hit"
      unfolding rank_admits_def by (simp add: index_projection_bucket)
  next
    assume "rank_admits h x key query f hit"
    then obtain e where e: "hm_get ?m (vp_memory_id (vh_projection hit)) = Some e" "hit = entry_hit h query e"
      "passes_filters f (vh_projection hit)" "\<not> f64_lt (vh_score hit) (vx_similarity_floor x)"
      unfolding rank_admits_def by blast
    moreover have "vh_projection hit = ve_projection e"
      by (simp add: e(2) entry_hit_def)
    ultimately show "hit \<in> set (index_hits h x key query f)"
      unfolding elem by metis
  qed
  then show ?thesis by blast
qed

lemma hit_order_inject:
  assumes "distinct (map (\<lambda>hit. vp_memory_id (vh_projection hit)) hits)"
  shows "inj_on hit_order (set hits)"
  using assms by (auto simp: inj_on_def hit_order_def distinct_map)

lemma cosine_unit_ball: "f64_unit_ball (vector_cosine h left right)"
  by (auto simp: vector_cosine_def Let_def split_def to_f32_unit_ball clamp_unit_ball) (auto simp: f64_unit_ball_def)

text \<open>The iteration order of a bucket and the other scopes do not matter.\<close>

lemma index_rank_order:
  assumes x: "index_ok h x" and y: "index_ok h y" and "vx_dimensions y = vx_dimensions x"
    and "vx_similarity_floor y = vx_similarity_floor x"
    and same: "hm_get (sb_entries (bucket_at y key)) = hm_get (sb_entries (bucket_at x key))"
  shows "index_rank h key query f limit y = index_rank h key query f limit x"
proof (cases "length query = vx_dimensions x")
  case True
  have "hm_ok (sb_entries (bucket_at x key))" "hm_ok (sb_entries (bucket_at y key))"
    using bucket_at_ok [OF x] bucket_at_ok [OF y] by (simp_all add: bucket_ok_def bucket_wf_def)
  then have "mset (sb_entries (bucket_at y key)) = mset (sb_entries (bucket_at x key))"
    using same by (intro hm_same_mset) simp_all
  then have "mset (index_hits h y key query f) = mset (index_hits h x key query f)"
    using assms(4) by (simp add: index_hits_def bucket_hits_def)
  then have "top_by hit_order limit (index_hits h y key query f) = top_by hit_order limit (index_hits h x key query f)"
    using hits_distinct [OF y] by (intro top_by_order hit_order_inject)
  then show ?thesis
    using True assms(3) by (simp add: index_rank_top)
next
  case False
  then show ?thesis
    using assms(3) by (simp add: index_rank_def)
qed

end
