(* ===== verification/Plugin_Laws.thy ===== *)
theory Plugin_Laws
  imports Vector_Runtime Vector_Laws
begin

text \<open>
  Laws of extraction, planning and search in the search-first plug-in: what the loops compute, as functions
  on the whole list.
\<close>

section \<open>Reports\<close>

definition accepted_emissions :: "memory_wire list \<Rightarrow> extracted_memory list" where
  "accepted_emissions ws = List.map_filter (\<lambda>w. case into_memory w of Inr m \<Rightarrow> Some m | Inl _ \<Rightarrow> None) ws"

definition refused_emissions :: "memory_wire list \<Rightarrow> refused_emission list" where
  "refused_emissions ws =
     List.map_filter (\<lambda>w. case into_memory w of
         Inl r \<Rightarrow> Some \<lparr>rf_index = index_or_placeholder w, rf_rejection = r\<rparr> | Inr _ \<Rightarrow> None) ws"

lemma map_filter_snoc: "List.map_filter f (xs @ [x]) = List.map_filter f xs @ (case f x of None \<Rightarrow> [] | Some y \<Rightarrow> [y])"
  by (simp add: map_filter_def split: option.split)

lemma report_of:
  "fold take_emission ws empty_report =
     \<lparr>er_memories = take max_extracted_memories (accepted_emissions ws), er_refused = refused_emissions ws,
      er_truncated = length (accepted_emissions ws) - max_extracted_memories\<rparr>"
proof (induction ws rule: rev_induct)
  case Nil
  then show ?case
    by (simp add: empty_report_def accepted_emissions_def refused_emissions_def map_filter_def)
next
  case (snoc w ws)
  then show ?case
    by (cases "into_memory w")
      (auto simp: take_emission_def accepted_emissions_def refused_emissions_def map_filter_snoc min_def)
qed

lemma emissions_counted: "length (accepted_emissions ws) + length (refused_emissions ws) = length ws"
  by (induction ws rule: rev_induct)
    (auto simp: accepted_emissions_def refused_emissions_def map_filter_snoc map_filter_def split: sum.split)

lemma strip_any_stuck: "[] \<notin> set ps \<Longrightarrow> strip_any ps (strip_all ps s) = None"
proof (induction ps s rule: strip_all.induct)
  case (1 ps s)
  then show ?case
    by (cases "strip_any ps s") (simp_all add: strip_all.simps [of ps s])
qed

lemma strip_any_None: "strip_any ps s = None \<longleftrightarrow> (\<forall>p \<in> set ps. \<forall>r. s \<noteq> p @ r)"
proof (induction ps)
  case (Cons p ps)
  have "strip_prefix p s = None \<longleftrightarrow> (\<forall>r. s \<noteq> p @ r)"
    by (metis not_Some_eq strip_prefix_eq)
  then show ?case
    using Cons by (cases "strip_prefix p s") auto
qed simp

lemma strip_all_fixed: "strip_any ps s = None \<Longrightarrow> strip_all ps s = s"
  by (simp add: strip_all.simps)

lemma strip_all_suffix: "\<exists>p. s = p @ strip_all ps s"
proof (induction ps s rule: strip_all.induct)
  case (1 ps s)
  show ?case
  proof (cases "[] \<in> set ps \<or> strip_any ps s = None")
    case True
    then show ?thesis
      by (auto simp: strip_all.simps [of ps s])
  next
    case False
    then obtain r q where "strip_any ps s = Some r" "s = q @ r"
      using strip_any_split by fastforce
    moreover obtain p where "r = p @ strip_all ps r"
      using 1 False \<open>strip_any ps s = Some r\<close> by blast
    moreover have "strip_all ps s = strip_all ps r"
      using False \<open>strip_any ps s = Some r\<close> by (simp add: strip_all.simps [of ps s])
    ultimately have "s = (q @ p) @ strip_all ps s"
      by (metis append.assoc)
    then show ?thesis by blast
  qed
qed

lemma trim_trim [simp]: "trim (trim s) = trim s"
proof -
  have start: "strip_any white_space (trim_start s) = None"
    unfolding trim_start_def by (rule strip_any_stuck [OF white_space_nonempty])
  obtain p where "rev (trim_start s) = p @ rev (trim s)"
    unfolding trim_def trim_end_def rev_rev_ident using strip_all_suffix by blast
  then have "trim_start s = trim s @ rev p"
    by (metis rev_append rev_rev_ident)
  then have "strip_any white_space (trim s) = None"
    using start by (auto simp: strip_any_None)
  moreover have "strip_any (map rev white_space) (rev (trim s)) = None"
    unfolding trim_def trim_end_def rev_rev_ident by (rule strip_any_stuck [OF rev_white_space_nonempty])
  ultimately show ?thesis
    unfolding trim_def [of "trim s"] by (simp add: trim_start_def trim_end_def strip_all_fixed)
qed

lemma normalize_optional_Some: "normalize_optional v = Some t \<Longrightarrow> t \<noteq> [] \<and> (\<exists>s. v = Some s \<and> t = trim s)"
  by (auto simp: normalize_optional_def split: option.splits if_splits)

lemma into_memory_Inr:
  assumes "into_memory w = Inr m"
  shows "em_text m \<noteq> [] \<and> (\<exists>s. mw_text w = Some s \<and> em_text m = trim s) \<and> em_index m = index_or_placeholder w \<and>
    [] \<notin> set (em_linked_memory_ids m)"
proof -
  have "[] \<notin> set (List.map_filter normalize_entry ls)" for ls
    by (auto simp: map_filter_def normalize_entry_def dest: normalize_optional_Some)
  then show ?thesis
    using assms normalize_optional_Some [of "mw_text w"]
    by (auto simp: into_memory_def Let_def split: option.splits)
qed

section \<open>Links\<close>

definition declared_links :: "extracted_memory \<Rightarrow> string list" where
  "declared_links m = retain_first {} (filter (\<lambda>i. i \<noteq> []) (map trim (em_linked_memory_ids m)))"

lemma resolve_links_fold:
  "fst (fold (resolve_link offered) ls (r, seen)) =
     r\<lparr>lr_accepted := lr_accepted r @ filter (\<lambda>i. i \<in> set offered) (retain_first (set seen) (filter (\<lambda>i. i \<noteq> []) ls)),
       lr_unverified := lr_unverified r @ filter (\<lambda>i. i \<notin> set offered) (retain_first (set seen) (filter (\<lambda>i. i \<noteq> []) ls))\<rparr>"
proof (induction ls arbitrary: r seen)
  case (Cons l ls)
  have "resolve_link offered l (r, seen) =
      (if l = [] \<or> l \<in> set seen then (r, seen)
       else if l \<in> set offered then (r\<lparr>lr_accepted := lr_accepted r @ [l]\<rparr>, bs_insert l seen)
       else (r\<lparr>lr_unverified := lr_unverified r @ [l]\<rparr>, bs_insert l seen))"
    by (simp add: resolve_link_def)
  then show ?case
    using Cons by (simp add: set_bs_insert)
qed simp

lemma resolved_links:
  "resolve_linked_memory_ids m existing =
     \<lparr>lr_accepted = filter (\<lambda>i. i \<in> set (offered_ids existing)) (declared_links m),
      lr_unverified = filter (\<lambda>i. i \<notin> set (offered_ids existing)) (declared_links m)\<rparr>"
  by (simp add: resolve_linked_memory_ids_def declared_links_def resolve_links_fold)

section \<open>Plans\<close>

text \<open>The reference: the first element of each new value of \<open>f\<close>.\<close>

fun retain_by :: "('a \<Rightarrow> 'b) \<Rightarrow> 'b set \<Rightarrow> 'a list \<Rightarrow> 'a list" where
  "retain_by f seen [] = []"
| "retain_by f seen (x # xs) =
     (if f x \<in> seen then retain_by f seen xs else x # retain_by f (insert (f x) seen) xs)"

lemma retain_by_set: "f ` set (retain_by f seen xs) = f ` set xs - seen"
  by (induction xs arbitrary: seen) auto

lemma retain_by_distinct: "distinct (map f (retain_by f seen xs))"
  by (induction xs arbitrary: seen) (auto simp: retain_by_set)

lemma retain_by_subset: "set (retain_by f seen xs) \<subseteq> set xs"
  by (induction xs arbitrary: seen) auto

lemma retain_by_append: "retain_by f seen (xs @ ys) = retain_by f seen xs @ retain_by f (seen \<union> f ` set xs) ys"
proof (induction xs arbitrary: seen)
  case (Cons x xs)
  have "insert (f x) seen \<union> f ` set xs = seen \<union> f ` set (x # xs)"
    "f x \<in> seen \<Longrightarrow> seen \<union> f ` set xs = seen \<union> f ` set (x # xs)"
    by auto
  then show ?case
    using Cons by (simp del: insert_iff)
qed simp

definition memory_digest :: "plugin_host \<Rightarrow> extracted_memory \<Rightarrow> string" where
  "memory_digest h m = content_hash h (trim (em_text m))"

definition known_hashes :: "plugin_host \<Rightarrow> existing_memory_view list \<Rightarrow> string set" where
  "known_hashes h existing = snd ` set (known_digests h existing)"

definition has_content :: "extracted_memory \<Rightarrow> bool" where
  "has_content m \<longleftrightarrow> trim (em_text m) \<noteq> []"

definition fresh_memories :: "plugin_host \<Rightarrow> existing_memory_view list \<Rightarrow> extracted_memory list \<Rightarrow> extracted_memory list" where
  "fresh_memories h existing xs = retain_by (memory_digest h) (known_hashes h existing) (filter has_content xs)"

definition true_reason :: "plugin_host \<Rightarrow> existing_memory_view list \<Rightarrow> extracted_memory list \<Rightarrow> suppressed_duplicate \<Rightarrow> bool" where
  "true_reason h existing fresh s \<longleftrightarrow>
     (case sd_reason s of
        KnownMemory i \<Rightarrow> (i, content_hash h (sd_text s)) \<in> set (known_digests h existing)
      | EarlierEmission i \<Rightarrow> \<exists>m \<in> set fresh. em_index m = i \<and> memory_digest h m = content_hash h (sd_text s))"

lemma find_digest_None: "find_digest d ps = None \<longleftrightarrow> d \<notin> snd ` set ps"
  by (auto simp: find_digest_def find_None_iff image_iff)

lemma find_digest_Some: "find_digest d ps = Some i \<Longrightarrow> (i, d) \<in> set ps"
proof -
  assume "find_digest d ps = Some i"
  then obtain p where "find (\<lambda>p. snd p = d) ps = Some p" "fst p = i"
    by (auto simp: find_digest_def)
  then show "(i, d) \<in> set ps"
    by (metis (mono_tags, lifting) find_Some_iff nth_mem prod.collapse)
qed

lemma planned_memories:
  "fst (fold (plan_memory h existing) xs (empty_plan, [])) = plan \<Longrightarrow>
   snd (fold (plan_memory h existing) xs (empty_plan, [])) = committed \<Longrightarrow>
   committed = map (\<lambda>m. (em_index m, memory_digest h m)) (fresh_memories h existing xs) \<and>
   ap_additions plan = map (planned h existing) (fresh_memories h existing xs) \<and>
   ap_unverified_links plan = concat (map (unverified_of existing) (fresh_memories h existing xs)) \<and>
   length (ap_additions plan) + length (ap_suppressed plan) = length (filter has_content xs) \<and>
   (\<forall>s \<in> set (ap_suppressed plan). true_reason h existing (fresh_memories h existing xs) s)"
proof (induction xs arbitrary: plan committed rule: rev_induct)
  case Nil
  then show ?case
    by (auto simp: empty_plan_def fresh_memories_def)
next
  case (snoc m xs)
  let ?f = "fresh_memories h existing xs"
  obtain p c where s: "fold (plan_memory h existing) xs (empty_plan, []) = (p, c)"
    by (cases "fold (plan_memory h existing) xs (empty_plan, [])")
  have IH: "c = map (\<lambda>m. (em_index m, memory_digest h m)) ?f" "ap_additions p = map (planned h existing) ?f"
    "ap_unverified_links p = concat (map (unverified_of existing) ?f)"
    "length (ap_additions p) + length (ap_suppressed p) = length (filter has_content xs)"
    "\<forall>s \<in> set (ap_suppressed p). true_reason h existing ?f s"
    using snoc.IH [OF refl refl] unfolding s fst_conv snd_conv by blast+
  have step: "(plan, committed) = plan_memory h existing m (p, c)"
    using snoc.prems s by (simp add: prod_eq_iff)
  have fresh: "fresh_memories h existing (xs @ [m]) =
      (if has_content m \<and> memory_digest h m \<notin> known_hashes h existing \<and> memory_digest h m \<notin> memory_digest h ` set ?f
       then ?f @ [m] else ?f)"
    by (auto simp: fresh_memories_def retain_by_append retain_by_set)
  have mono: "true_reason h existing ?f s \<Longrightarrow> true_reason h existing (fresh_memories h existing (xs @ [m])) s" for s
    unfolding fresh by (auto simp: true_reason_def split: duplicate_reason.splits)
  show ?case
  proof (cases "has_content m")
    case False
    then have "plan = p" "committed = c"
      using step by (simp_all add: plan_memory_def has_content_def)
    then show ?thesis
      using IH False by (simp add: fresh)
  next
    case content: True
    then have digest: "content_hash h (trim (em_text m)) = memory_digest h m" "trim (em_text m) \<noteq> []"
      by (simp_all add: memory_digest_def has_content_def)
    have committed: "memory_digest h m \<in> memory_digest h ` set ?f \<longleftrightarrow> find_digest (memory_digest h m) (c) \<noteq> None"
      unfolding find_digest_None IH(1) by (auto simp: image_image)
    have known: "memory_digest h m \<in> known_hashes h existing \<longleftrightarrow> find_digest (memory_digest h m) (known_digests h existing) \<noteq> None"
      unfolding find_digest_None known_hashes_def by simp
    show ?thesis
    proof (cases "find_digest (memory_digest h m) (known_digests h existing)")
      case (Some i)
      then have "(plan, committed) = (suppress m (KnownMemory i) (p), c)"
        using step digest by (simp add: plan_memory_def Let_def)
      moreover have "fresh_memories h existing (xs @ [m]) = ?f"
        using fresh known Some by simp
      ultimately show ?thesis
        using IH content find_digest_Some [OF Some] digest(1) by (auto simp: suppress_def true_reason_def)
    next
      case None
      show ?thesis
      proof (cases "find_digest (memory_digest h m) (c)")
        case (Some i)
        then have "(plan, committed) = (suppress m (EarlierEmission i) (p), c)"
          using step digest None by (simp add: plan_memory_def Let_def)
        moreover have "fresh_memories h existing (xs @ [m]) = ?f"
          using fresh committed Some by simp
        moreover have "\<exists>m' \<in> set ?f. em_index m' = i \<and> memory_digest h m' = memory_digest h m"
          using find_digest_Some [OF Some] unfolding IH(1) by auto
        ultimately show ?thesis
          using IH content digest(1) by (auto simp: suppress_def true_reason_def)
      next
        case none: None
        then have "plan = (p)\<lparr>ap_unverified_links := ap_unverified_links (p) @ unverified_of existing m,
            ap_additions := ap_additions (p) @ [planned h existing m]\<rparr>"
          "committed = c @ [(em_index m, memory_digest h m)]"
          using step digest None by (simp_all add: plan_memory_def Let_def)
        moreover have "fresh_memories h existing (xs @ [m]) = ?f @ [m]"
          using fresh committed known None none content by simp
        ultimately show ?thesis
          using IH content mono by simp
      qed
    qed
  qed
qed

section \<open>Reranking\<close>

abbreviation hit_id :: "vector_hit \<Rightarrow> string" where
  "hit_id hit \<equiv> vp_memory_id (vh_projection hit)"

lemma take_hit_None: "take_hit i hits = None \<longleftrightarrow> i \<notin> hit_id ` set hits"
  by (induction hits) auto

lemma take_hit_Some:
  "take_hit i hits = Some (hit, rest) \<Longrightarrow> hit_id hit = i \<and> (\<exists>as bs. hits = as @ hit # bs \<and> rest = as @ bs)"
proof (induction hits arbitrary: rest)
  case (Cons x hits)
  then show ?case
  proof (cases "hit_id x = i")
    case False
    then obtain tail where "take_hit i hits = Some (hit, tail)" "rest = x # tail"
      using Cons by auto
    then show ?thesis
      using Cons(1) [of tail] by (metis append_Cons)
  qed (auto intro: exI [of _ "[]"])
qed simp

lemma reorder_mset: "mset (reorder_hits hits order) = mset hits"
proof (induction hits order rule: reorder_hits.induct)
  case (2 remaining i order)
  then show ?case
    by (auto split: option.splits dest!: take_hit_Some)
qed simp

text \<open>The hits the reranker names come in its order, the others behind them in their old order.\<close>

lemma reorder_followed:
  assumes "distinct (map hit_id hits)"
  shows "map hit_id (reorder_hits hits order) =
    retain_first (- (hit_id ` set hits)) order @ filter (\<lambda>i. i \<notin> set order) (map hit_id hits)"
  using assms
proof (induction hits order rule: reorder_hits.induct)
  case (2 remaining i order)
  show ?case
  proof (cases "take_hit i remaining")
    case None
    then have "i \<notin> hit_id ` set remaining"
      by (simp add: take_hit_None)
    then show ?thesis
      using 2 None by (auto intro!: filter_cong)
  next
    case (Some found)
    then obtain hit xs ys where found: "found = (hit, xs @ ys)" "remaining = xs @ hit # ys" "hit_id hit = i"
      using take_hit_Some by (metis surj_pair)
    then have apart: "\<forall>x \<in> set xs. hit_id x \<noteq> i" "\<forall>x \<in> set ys. hit_id x \<noteq> i"
      using 2(3) by (force simp: image_iff)+
    have ids: "- (hit_id ` set (xs @ ys)) = insert i (- (hit_id ` set remaining))"
      unfolding found using apart found(3) by auto
    have rest: "map hit_id (reorder_hits (xs @ ys) order) =
        retain_first (insert i (- (hit_id ` set remaining))) order @ filter (\<lambda>j. j \<notin> set order) (map hit_id (xs @ ys))"
      using 2(2) [OF Some found(1) [symmetric]] 2(3) found ids by simp
    have "filter (\<lambda>j. j \<notin> set order) (map hit_id (xs @ ys)) = filter (\<lambda>j. j \<notin> set (i # order)) (map hit_id (xs @ ys))"
      using apart by (intro filter_cong) auto
    then have others: "filter (\<lambda>j. j \<notin> set order) (map hit_id (xs @ ys)) =
        filter (\<lambda>j. j \<notin> set (i # order)) (map hit_id remaining)"
      using found(2,3) by simp
    show ?thesis
      using Some found rest others by simp
  qed
qed simp

end
