(* ===== verification/Vector_Properties.thy ===== *)
theory Vector_Properties
  imports Vector_Laws
begin

text \<open>
  The properties of the vector index: its invariant, the effect of a write, the ranking, and the meaning
  of expiration dates.
\<close>

section \<open>A concrete index\<close>

definition sample_plugin_host :: plugin_host where
  "sample_plugin_host = \<lparr>ph_debug = (\<lambda>s. s), ph_float_text = (\<lambda>_. []), ph_sqrt = (\<lambda>x. x), ph_sha256 = (\<lambda>s. s)\<rparr>"

definition sample_scope_key :: scope_key where
  "sample_scope_key = \<lparr>sk_tenant_id = 1, sk_space_id = 1\<rparr>"

definition sample_projection_command :: projection_command where
  "sample_projection_command =
     \<lparr>vc_memory_id = ''m1'', vc_memory_type = ''fact'', vc_subject = None, vc_predicate = None, vc_object_text = ''tea'',
      vc_canonical_text = ''the user drinks tea'', vc_expiration_date = None, vc_sensitivity = RsPublic\<rparr>"

definition sample_empty_index :: vector_index where
  "sample_empty_index =
     \<lparr>vx_dimensions = 1, vx_max_entries_per_scope = 4096, vx_similarity_floor = f64_zero, vx_scopes = [],
      vx_projected_total = 0\<rparr>"

definition sample_index :: vector_index where
  "sample_index =
     snd (index_upsert sample_plugin_host ''t1'' sample_scope_key sample_projection_command [f64_one] sample_empty_index)"

lemma sample_empty_reachable: "index_reachable sample_plugin_host sample_empty_index"
proof (rule index_reachable.new)
  show "index_new sample_plugin_host 1 vector_config_default = Inr sample_empty_index"
    using default_config_ok config_validate_ok [of sample_plugin_host vector_config_default]
    by (simp add: index_new_def vector_config_default_def default_max_entries_per_scope_def sample_empty_index_def)
qed

lemma sample_index_reachable: "index_reachable sample_plugin_host sample_index"
  unfolding sample_index_def by (rule index_reachable.upsert [OF sample_empty_reachable])

lemma sample_accepted: "accept_command 1 sample_projection_command [f64_one] = Inr sample_projection_command"
proof -
  have "\<not> is_blank ''m1''"
    by (simp add: is_blank_def trim_def trim_start_def trim_end_def strip_all.simps white_space_def)
  then show ?thesis
    by (simp add: accept_command_def sample_projection_command_def)
qed

section \<open>Invariant\<close>

text \<open>
  C7. In every index that projections and removals can reach, a scope holds at most the configured number
  of projections (never more than a million), the counter is the number of all projections, and what
  is found under an id carries this id, the hash of its own text, an embedding of the width of the
  index and no date but a readable one.
\<close>

theorem vector_index_bounded:
  assumes "index_reachable h x"
  shows "(\<forall>k. scope_len x k \<le> vx_max_entries_per_scope x) \<and> vx_max_entries_per_scope x \<le> 1000000 \<and>
    vx_projected_total x = (\<Sum>k \<in> fst ` set (vx_scopes x). scope_len x k) \<and>
    (\<forall>k i p. index_projection x k i = Some p \<longrightarrow>
      vp_memory_id p = i \<and> \<not> is_blank i \<and> vp_content_hash p = ph_sha256 h (vp_canonical_text p) \<and>
      (\<forall>t. vp_expiration_date p = Some t \<longrightarrow> normalize_expiration_date t = Some t)) \<and>
    (\<forall>k i e. hm_get (sb_entries (bucket_at x k)) i = Some e \<longrightarrow> length (ve_embedding e) = vx_dimensions x)"
proof -
  have x: "index_ok h x"
    using assms by (rule index_reachable_ok)
  have len: "scope_len x k \<le> vx_max_entries_per_scope x" for k
    using bucket_at_ok [OF x, of k] by (simp add: scope_len_bucket bucket_ok_def)
  have entries: "entry_ok h (vx_dimensions x) i e" if "hm_get (sb_entries (bucket_at x k)) i = Some e" for k i e
    using that bucket_at_ok [OF x, of k] by (simp add: bucket_ok_def)
  have "hm_sum (\<lambda>b. length (sb_entries b)) m = (\<Sum>k \<in> fst ` set m. case hm_get m k of None \<Rightarrow> 0 | Some b \<Rightarrow> length (sb_entries b))"
    if "hm_ok m" for m :: "(scope_key, scope_bucket) hmap"
  proof -
    have "sum_list (map (\<lambda>(k, b). length (sb_entries b)) m) =
        sum_list (map (\<lambda>k. case hm_get m k of None \<Rightarrow> 0 | Some b \<Rightarrow> length (sb_entries b)) (map fst m))"
      using that by (auto simp: hm_get_in [OF that, THEN iffD2] intro!: arg_cong [where f = sum_list])
    also have "\<dots> = (\<Sum>k \<in> set (map fst m). case hm_get m k of None \<Rightarrow> 0 | Some b \<Rightarrow> length (sb_entries b))"
      by (rule sum.distinct_set_conv_list [symmetric]) (use that in \<open>simp add: hm_ok_def\<close>)
    finally show ?thesis
      by (simp add: hm_sum_def)
  qed
  then have "vx_projected_total x = (\<Sum>k \<in> fst ` set (vx_scopes x). scope_len x k)"
    using x by (simp add: index_ok_def scope_len_def)
  then show ?thesis
    using len entries x
    by (fastforce simp: index_projection_bucket entry_ok_def index_ok_def max_entries_per_scope_ceiling_def)
qed

theorem vector_index_bounded_witness:
  "vx_projected_total sample_index = (\<Sum>k \<in> fst ` set (vx_scopes sample_index). scope_len sample_index k) \<and>
   vx_max_entries_per_scope sample_index \<le> 1000000"
  using vector_index_bounded [OF sample_index_reachable] by blast

section \<open>Writes\<close>

text \<open>
  C6. A write to the index. A refused command (blank id, wrong width, unreadable date) changes nothing. An
  accepted one makes its projection the one found under its scope and id, keeping the creation time of a
  projection it replaces, and changes nothing else but this: when the id is new and the scope is full,
  exactly the projection with the least pair of update time and id leaves the scope, and the outcome
  names it.
\<close>

theorem vector_upsert_exact:
  assumes "index_reachable h x"
  shows "case accept_command (vx_dimensions x) c v of
      Inl e \<Rightarrow> index_upsert h now key c v x = (Inl e, x)
    | Inr c' \<Rightarrow>
        (\<exists>outcome x'. index_upsert h now key c v x = (Inr outcome, x') \<and>
          (\<forall>k i. index_projection x' k i =
            (if k = key \<and> i = vc_memory_id c
             then Some (build_projection h c'
               (case index_projection x key i of Some p \<Rightarrow> vp_created_at p | None \<Rightarrow> now) now)
             else if k = key \<and> evicted_memory_id outcome = Some i then None else index_projection x k i)) \<and>
          (outcome = VoRefreshed \<longleftrightarrow> index_projection x key (vc_memory_id c) \<noteq> None) \<and>
          (evicted_memory_id outcome \<noteq> None \<longleftrightarrow>
            index_projection x key (vc_memory_id c) = None \<and> scope_len x key = vx_max_entries_per_scope x) \<and>
          (\<forall>j. evicted_memory_id outcome = Some j \<longrightarrow> oldest_entry (sb_entries (bucket_at x key)) j))"
proof (cases "accept_command (vx_dimensions x) c v")
  case (Inl e)
  then show ?thesis by (simp add: refused_upsert)
next
  case (Inr c')
  have x: "index_ok h x"
    using assms by (rule index_reachable_ok)
  have id: "vc_memory_id c' = vc_memory_id c"
    using accepted_command [OF Inr] by simp
  have b: "bucket_wf (bucket_at x key)"
    using bucket_at_ok [OF x] by (simp add: bucket_ok_def)
  from x Inr show ?thesis
  proof (cases rule: upsert_cases [where key = key and now = now])
    case (refresh e)
    then show ?thesis
      by (auto simp: Inr index_projection_bucket bucket_at_put bucket_insert_wf(2) [OF b] id)
  next
    case fresh
    then show ?thesis
      by (auto simp: Inr index_projection_bucket bucket_at_put bucket_insert_wf(2) [OF b] id scope_len_bucket)
  next
    case (evict j b')
    moreover have "vc_memory_id c \<noteq> j"
      using evict(1,3) by (auto simp: oldest_entry_def)
    ultimately show ?thesis
      by (auto simp: Inr index_projection_bucket bucket_at_put bucket_insert_wf(2) [OF evict(5)] id scope_len_bucket)
  qed
qed

theorem vector_upsert_exact_witness:
  "index_projection sample_index sample_scope_key ''m1'' =
     Some (build_projection sample_plugin_host sample_projection_command ''t1'' ''t1'')"
proof -
  have dims: "vx_dimensions sample_empty_index = 1"
    and none: "index_projection sample_empty_index sample_scope_key i = None" for i
    by (simp_all add: sample_empty_index_def index_projection_def)
  have id: "vc_memory_id sample_projection_command = ''m1''"
    by (simp add: sample_projection_command_def)
  obtain outcome x' where up: "index_upsert sample_plugin_host ''t1'' sample_scope_key sample_projection_command
      [f64_one] sample_empty_index = (Inr outcome, x')"
    "index_projection x' sample_scope_key ''m1'' =
      Some (build_projection sample_plugin_host sample_projection_command ''t1'' ''t1'')"
    using vector_upsert_exact [OF sample_empty_reachable, where c = sample_projection_command and v = "[f64_one]" and
        now = "''t1''" and key = sample_scope_key]
    unfolding dims sample_accepted sum.case none id by auto
  then show ?thesis
    by (simp add: sample_index_def)
qed

section \<open>Ranking\<close>

text \<open>
  C12. The ranking of a scope. It refuses exactly a query of the wrong width. Its hits are projections
  of this scope that the sensitivity, type and expiry filters admit, with a score between minus one and
  one that reaches the floor, best first, then by id, none twice. The limit cuts only after the filters:
  there are as many hits as it and the admitted projections allow, and each admitted projection that is not
  a hit comes after every hit. Neither the iteration order of the maps nor other scopes play a role.
\<close>

theorem vector_rank_exact:
  assumes "index_reachable h x"
  shows "if length query \<noteq> vx_dimensions x
    then index_rank h key query f limit x =
      Inl (VeEmbeddingDimensionMismatch ''<query>'' (vx_dimensions x) (length query))
    else (\<exists>hits. index_rank h key query f limit x = Inr hits \<and>
      distinct (map (\<lambda>hit. vp_memory_id (vh_projection hit)) hits) \<and> sorted (map hit_order hits) \<and>
      length hits = min (card {hit. rank_admits h x key query f hit}) limit \<and>
      (\<forall>hit \<in> set hits. rank_admits h x key query f hit \<and> f64_unit_ball (vh_score hit) \<and>
        (\<forall>other. rank_admits h x key query f other \<and> other \<notin> set hits \<longrightarrow> hit_order hit < hit_order other)) \<and>
      (\<forall>y. index_reachable h y \<and> vx_dimensions y = vx_dimensions x \<and> vx_similarity_floor y = vx_similarity_floor x \<and>
          hm_get (sb_entries (bucket_at y key)) = hm_get (sb_entries (bucket_at x key)) \<longrightarrow>
        index_rank h key query f limit y = Inr hits))"
proof (cases "length query = vx_dimensions x")
  case True
  have x: "index_ok h x"
    using assms by (rule index_reachable_ok)
  let ?all = "index_hits h x key query f" and ?id = "\<lambda>hit. vp_memory_id (vh_projection hit)"
  let ?hits = "top_by hit_order limit ?all"
  note d = hits_distinct [OF x, of key query f]
  have all: "set ?all = {hit. rank_admits h x key query f hit}"
    by (rule set_index_hits [OF x])
  have "card {hit. rank_admits h x key query f hit} = length ?all"
    using d distinct_card [of ?all] unfolding all [symmetric] by (simp add: distinct_map)
  then have len: "length ?hits = min (card {hit. rank_admits h x key query f hit}) limit"
    by (simp add: length_top_by)
  have "distinct (map ?id (sort_key hit_order ?all))"
    using d by (simp add: distinct_map)
  then have dist: "distinct (map ?id ?hits)"
    unfolding top_by_def take_map [symmetric] by (rule distinct_take)
  have after: "hit_order hit < hit_order other" if "hit \<in> set ?hits" "rank_admits h x key query f other" "other \<notin> set ?hits"
    for hit other
  proof -
    have "hit \<in> set ?all" "other \<in> set ?all"
      using that set_top_by [of hit_order limit ?all] all by auto
    then have "hit_order hit \<noteq> hit_order other"
      using hit_order_inject [OF d] that(1,3) by (auto dest: inj_onD)
    moreover have "hit_order hit \<le> hit_order other"
      using \<open>other \<in> set ?all\<close> that(1,3) by (intro top_by_dropped)
    ultimately show ?thesis by simp
  qed
  have "f64_unit_ball (vh_score hit)" if "rank_admits h x key query f hit" for hit
    using that cosine_unit_ball by (auto simp: rank_admits_def entry_hit_def)
  moreover have "set ?hits \<subseteq> {hit. rank_admits h x key query f hit}"
    using set_top_by [of hit_order limit ?all] all by simp
  moreover have "index_rank h key query f limit y = Inr ?hits"
    if "index_reachable h y \<and> vx_dimensions y = vx_dimensions x \<and> vx_similarity_floor y = vx_similarity_floor x \<and>
          hm_get (sb_entries (bucket_at y key)) = hm_get (sb_entries (bucket_at x key))" for y
    using that index_rank_order [OF x, of y] index_reachable_ok index_rank_top [OF True] by metis
  ultimately show ?thesis
    using True len dist after sorted_top_by [of hit_order limit ?all] index_rank_top [OF True, of h key f limit]
    by (auto simp del: sorted_map)
next
  case False
  then show ?thesis by (simp add: index_rank_def)
qed

theorem vector_rank_exact_witness:
  "\<exists>hits. index_rank sample_plugin_host sample_scope_key [f64_one] (unrestricted_filters ''2023-05-24'') 5 sample_empty_index =
     Inr hits \<and> length hits \<le> 5"
  using vector_rank_exact [OF sample_empty_reachable, where query = "[f64_one]" and key = sample_scope_key and
      f = "unrestricted_filters ''2023-05-24''" and limit = 5]
  by (auto simp: sample_empty_index_def)

section \<open>Expiration dates\<close>

definition date_text :: "nat \<Rightarrow> nat \<Rightarrow> nat \<Rightarrow> string" where
  "date_text year month day =
     map digit_char [year div 1000, year div 100 mod 10, year div 10 mod 10, year mod 10] @ ''-'' @
     map digit_char [month div 10, month mod 10] @ ''-'' @ map digit_char [day div 10, day mod 10]"

definition calendar_date :: "nat \<Rightarrow> nat \<Rightarrow> nat \<Rightarrow> bool" where
  "calendar_date year month day \<longleftrightarrow>
     year < 10000 \<and> 1 \<le> month \<and> month \<le> 12 \<and> 1 \<le> day \<and> day \<le> days_in_month year month"

lemma digit_char_less: "a < 10 \<Longrightarrow> b < 10 \<Longrightarrow> digit_char a < digit_char b \<longleftrightarrow> a < b"
  by (simp add: digit_char_def less_char_def)

lemma digit_char_eq: "a < 10 \<Longrightarrow> b < 10 \<Longrightarrow> digit_char a = digit_char b \<longleftrightarrow> a = b"
  using digit_char_less [of a b] digit_char_less [of b a] by (metis less_irrefl nat_neq_iff)

lemma of_digit_char: "a < 10 \<Longrightarrow> of_char (digit_char a) = 48 + a"
  by (simp add: digit_char_def)

lemma is_digit_char: "a < 10 \<Longrightarrow> is_digit (digit_char a)"
  by (simp add: is_digit_def of_digit_char)

lemma digit_exists: "is_digit c \<Longrightarrow> \<exists>a < 10. c = digit_char a"
  by (rule exI [of _ "of_char c - 48"]) (auto simp: is_digit_def digit_char_def)

lemma days_bound: "days_in_month y m \<le> 31"
  by (simp add: days_in_month_def)

lemma thousands: "(n::nat) div 1000 = n div 10 div 10 div 10" "(n::nat) div 100 = n div 10 div 10"
  by (simp_all flip: div_mult2_eq)

lemma push_digit: "b < 10 \<Longrightarrow> (a * 10 + b) div 10 = a" "b < 10 \<Longrightarrow> (a * 10 + b) mod 10 = b" for a b :: nat
  by simp_all

lemma date_text_normal:
  assumes "calendar_date y m d"
  shows "normalize_expiration_date (date_text y m d) = Some (date_text y m d)"
proof -
  let ?t = "date_text y m d"
  have b: "y < 10000" "m \<le> 12" "d \<le> 31" "0 < m" "0 < d" "d \<le> days_in_month y m"
    using assms days_bound [of y m] by (simp_all add: calendar_date_def)
  have k: "y div 1000 < 10" "m div 10 < 10" "d div 10 < 10"
    using b by auto
  have num: "((y div 1000 * 10 + y div 100 mod 10) * 10 + y div 10 mod 10) * 10 + y mod 10 = y"
    "m div 10 * 10 + m mod 10 = m" "d div 10 * 10 + d mod 10 = d"
    by (simp_all add: thousands)
  have "trim ?t = ?t"
    using k by (intro trim_between_digits) (simp_all add: date_text_def is_digit_char)
  moreover have "digits_val (take 4 ?t) = y"
    using k num(1) by (simp add: date_text_def digits_val_def of_digit_char)
  moreover have "digits_val (take 2 (drop 5 ?t)) = m" "digits_val (drop 8 ?t) = d"
    using k num(2,3) by (simp_all add: date_text_def digits_val_def of_digit_char)
  moreover have "list_all (\<lambda>i. i \<in> {4, 7} \<or> is_digit (?t ! i)) [0..<10]"
    using k by (simp add: date_text_def is_digit_char upt_rec)
  moreover have "length ?t = 10" "?t ! 4 = CHR ''-''" "?t ! 7 = CHR ''-''"
    by (simp_all add: date_text_def)
  ultimately show ?thesis
    using b by (simp add: normalize_expiration_date_def Let_def)
qed

lemma normal_date_text:
  assumes "normalize_expiration_date s = Some t"
  shows "\<exists>y m d. t = date_text y m d \<and> calendar_date y m d"
proof -
  have n: "length t = 10" "t ! 4 = CHR ''-''" "t ! 7 = CHR ''-''" "\<And>i. i < 10 \<Longrightarrow> i \<noteq> 4 \<Longrightarrow> i \<noteq> 7 \<Longrightarrow> is_digit (t ! i)"
    and t: "t = trim s"
    using normalized_date [OF assms] by auto
  define k where "k i = (of_char (t ! i) :: nat) - 48" for i
  have k: "k i < 10 \<and> t ! i = digit_char (k i)" if "i < 10" "i \<noteq> 4" "i \<noteq> 7" for i
    using digit_exists [OF n(4) [OF that]] by (auto simp: k_def of_digit_char)
  have list: "t = [digit_char (k 0), digit_char (k 1), digit_char (k 2), digit_char (k 3), CHR ''-'',
      digit_char (k 5), digit_char (k 6), CHR ''-'', digit_char (k 8), digit_char (k 9)]"
    using n(1-3) k [of 0] k [of 1] k [of 2] k [of 3] k [of 5] k [of 6] k [of 8] k [of 9]
    by (auto simp: list_eq_iff_nth_eq less_Suc_eq numeral_eq_Suc)
  have b: "k 0 < 10" "k 1 < 10" "k 2 < 10" "k 3 < 10" "k 5 < 10" "k 6 < 10" "k 8 < 10" "k 9 < 10"
    using k by simp_all
  let ?y = "((k 0 * 10 + k 1) * 10 + k 2) * 10 + k 3" and ?m = "k 5 * 10 + k 6" and ?d = "k 8 * 10 + k 9"
  have form: "t = date_text ?y ?m ?d"
    unfolding list date_text_def thousands by (simp only: push_digit b list.map append.simps)
  have "digits_val (take 4 t) = ?y" "digits_val (take 2 (drop 5 t)) = ?m" "digits_val (drop 8 t) = ?d"
    unfolding list using b by (simp_all add: digits_val_def of_digit_char)
  moreover have "?y < 10000"
    using b by simp
  ultimately have "calendar_date ?y ?m ?d"
    using assms t by (auto simp: normalize_expiration_date_def calendar_date_def Let_def split: if_splits)
  then show ?thesis
    using form by blast
qed

lemma less_div_mod: "(a::nat) < b \<longleftrightarrow> a div 10 < b div 10 \<or> a div 10 = b div 10 \<and> a mod 10 < b mod 10"
proof -
  have "10 * p + q < 10 * r + s \<longleftrightarrow> p < r \<or> p = r \<and> q < s" if "q < 10" "s < 10" for p q r s :: nat
    using that by linarith
  from this [of "a mod 10" "b mod 10" "a div 10" "b div 10"] show ?thesis
    by simp
qed

lemma date_less:
  assumes "calendar_date y m d" and "calendar_date y' m' d'"
  shows "date_text y m d < date_text y' m' d' \<longleftrightarrow> (y, m, d) < (y', m', d')"
proof -
  have b: "y div 1000 < 10" "m div 10 < 10" "d div 10 < 10" "y' div 1000 < 10" "m' div 10 < 10" "d' div 10 < 10"
    using assms days_bound [of y m] days_bound [of y' m'] by (auto simp: calendar_date_def)
  have eq: "a = b \<longleftrightarrow> a div 10 = b div 10 \<and> a mod 10 = b mod 10" for a b :: nat
    by (metis div_mult_mod_eq)
  have "(y, m, d) < (y', m', d') \<longleftrightarrow> y < y' \<or> y = y' \<and> (m < m' \<or> m = m' \<and> d < d')"
    by (auto simp: less_prod_def)
  also have "y < y' \<longleftrightarrow> y div 1000 < y' div 1000 \<or> y div 1000 = y' div 1000 \<and>
      (y div 100 mod 10 < y' div 100 mod 10 \<or> y div 100 mod 10 = y' div 100 mod 10 \<and>
        (y div 10 mod 10 < y' div 10 mod 10 \<or> y div 10 mod 10 = y' div 10 mod 10 \<and> y mod 10 < y' mod 10))"
    unfolding thousands less_div_mod [of y] less_div_mod [of "y div 10"] less_div_mod [of "y div 10 div 10"]
      eq [of "y div 10"] eq [of "y div 10 div 10"] by blast
  also have "y = y' \<longleftrightarrow> y div 1000 = y' div 1000 \<and> y div 100 mod 10 = y' div 100 mod 10 \<and>
      y div 10 mod 10 = y' div 10 mod 10 \<and> y mod 10 = y' mod 10"
    unfolding thousands eq [of y] eq [of "y div 10"] eq [of "y div 10 div 10"] by blast
  also have "m < m' \<longleftrightarrow> m div 10 < m' div 10 \<or> m div 10 = m' div 10 \<and> m mod 10 < m' mod 10"
    by (rule less_div_mod)
  also have "m = m' \<longleftrightarrow> m div 10 = m' div 10 \<and> m mod 10 = m' mod 10"
    by (rule eq)
  also have "d < d' \<longleftrightarrow> d div 10 < d' div 10 \<or> d div 10 = d' div 10 \<and> d mod 10 < d' mod 10"
    by (rule less_div_mod)
  finally show ?thesis
    using b by (auto simp: date_text_def digit_char_less digit_char_eq)
qed

text \<open>
  C11. Expiration dates. A text is accepted exactly when, trimmed, it is a date of the calendar as four, two
  and two digits, and then it is kept in this form. A projection counts as expired on a date exactly
  when its own date is an earlier day, so comparing the texts compares the days; without a date, or on
  a day that cannot be read, nothing is expired.
\<close>

theorem expiry_is_chronological:
  "(normalize_expiration_date s = Some t \<longleftrightarrow> t = trim s \<and> (\<exists>y m d. t = date_text y m d \<and> calendar_date y m d)) \<and>
   (calendar_date y m d \<and> calendar_date y' m' d' \<longrightarrow>
     is_expired_on (p\<lparr>vp_expiration_date := Some (date_text y m d)\<rparr>) (date_text y' m' d') = ((y, m, d) < (y', m', d'))) \<and>
   (vp_expiration_date p = None \<or> normalize_expiration_date s = None \<longrightarrow> \<not> is_expired_on p s)"
proof -
  have "t = trim s \<and> (\<exists>y m d. t = date_text y m d \<and> calendar_date y m d)" if "normalize_expiration_date s = Some t"
    using that normalized_date normal_date_text by blast
  moreover have "normalize_expiration_date s = Some t"
    if "t = trim s" "t = date_text y m d" "calendar_date y m d" for y m d
  proof -
    have n: "normalize_expiration_date t = Some t"
      using date_text_normal [OF that(3)] unfolding that(2) .
    then have "trim t = t"
      using normalized_date by metis
    then show ?thesis
      using n that(1) by (simp add: normalize_expiration_date_def)
  qed
  moreover have "is_expired_on (p\<lparr>vp_expiration_date := Some (date_text y m d)\<rparr>) (date_text y' m' d') = ((y, m, d) < (y', m', d'))"
    if "calendar_date y m d \<and> calendar_date y' m' d'"
    using that by (simp add: is_expired_on_def date_text_normal date_less)
  moreover have "\<not> is_expired_on p s" if "vp_expiration_date p = None \<or> normalize_expiration_date s = None"
    using that by (auto simp: is_expired_on_def split: option.split)
  ultimately show ?thesis by blast
qed

lemma sample_dates:
  "date_text 2023 5 1 = ''2023-05-01''" "date_text 2023 5 24 = ''2023-05-24''"
  "calendar_date 2023 5 1" "calendar_date 2023 5 24"
  by (code_simp, code_simp, simp_all add: calendar_date_def days_in_month_def)

theorem expiry_is_chronological_witness:
  "is_expired_on (build_projection sample_plugin_host sample_projection_command ''t1'' ''t1''
     \<lparr>vp_expiration_date := Some ''2023-05-01''\<rparr>) ''2023-05-24''"
  using expiry_is_chronological [of "[]" "[]" 2023 5 1 2023 5 24
      "build_projection sample_plugin_host sample_projection_command ''t1'' ''t1''"]
  unfolding sample_dates by (simp add: sample_dates(3,4) del: One_nat_def)

end
