(* ===== verification/Additive_Properties.thy ===== *)
theory Additive_Properties
  imports Plugin_Laws Vector_Properties
begin

text \<open>
  The properties of the search-first runtime: what an additive write plan holds, and what a search answers.
\<close>

section \<open>Additive writes\<close>


















section \<open>Search\<close>















end
