(* ===== verification/Outbound_Endpoint.thy ===== *)
theory Outbound_Endpoint
  imports Service_Types
begin

text \<open>
  The check of outbound endpoints (\<^verbatim>\<open>endpoint_validation.rs\<close>). The URL parser and the resolver are
  parameters (record \<^verbatim>\<open>endpoint_host\<close>); addresses are the octets and segments of \<^verbatim>\<open>std::net\<close>, whose
  predicates are written out.
\<close>

unbundle bit_operations_syntax

section \<open>Addresses\<close>

datatype ipv4 = Ipv4 "8 word" "8 word" "8 word" "8 word"

datatype ipv6 = Ipv6 "16 word" "16 word" "16 word" "16 word" "16 word" "16 word" "16 word" "16 word"

datatype ip_addr = IpV4 ipv4 | IpV6 ipv6

datatype url_host = HostV4 ipv4 | HostV6 ipv6 | HostDomain string

datatype socket_addr = SockV4 ipv4 "16 word" | SockV6 ipv6 "16 word" "32 word" "32 word"

fun socket_ip :: "socket_addr \<Rightarrow> ip_addr" where
  "socket_ip (SockV4 ip port) = IpV4 ip"
| "socket_ip (SockV6 ip port flow scope) = IpV6 ip"

text \<open>The derived order: the variant, then the fields.\<close>

fun socket_rank :: "socket_addr \<Rightarrow> nat list" where
  "socket_rank (SockV4 (Ipv4 a b c d) port) = [0, unat a, unat b, unat c, unat d, unat port]"
| "socket_rank (SockV6 (Ipv6 s0 s1 s2 s3 s4 s5 s6 s7) port flow scope) =
     [1, unat s0, unat s1, unat s2, unat s3, unat s4, unat s5, unat s6, unat s7, unat port, unat flow, unat scope]"

section \<open>Public addresses\<close>

fun v4_is_private :: "ipv4 \<Rightarrow> bool" where
  "v4_is_private (Ipv4 a b c d) \<longleftrightarrow> a = 10 \<or> a = 172 \<and> 16 \<le> b \<and> b \<le> 31 \<or> a = 192 \<and> b = 168"

fun v4_is_loopback :: "ipv4 \<Rightarrow> bool" where
  "v4_is_loopback (Ipv4 a b c d) \<longleftrightarrow> a = 127"

fun v4_is_link_local :: "ipv4 \<Rightarrow> bool" where
  "v4_is_link_local (Ipv4 a b c d) \<longleftrightarrow> a = 169 \<and> b = 254"

fun v4_is_multicast :: "ipv4 \<Rightarrow> bool" where
  "v4_is_multicast (Ipv4 a b c d) \<longleftrightarrow> 224 \<le> a \<and> a \<le> 239"

fun is_public_ipv4 :: "ipv4 \<Rightarrow> bool" where
  "is_public_ipv4 (Ipv4 a b c d) \<longleftrightarrow>
     \<not> (v4_is_private (Ipv4 a b c d) \<or> v4_is_loopback (Ipv4 a b c d) \<or> v4_is_link_local (Ipv4 a b c d) \<or>
        Ipv4 a b c d = Ipv4 0 0 0 0 \<or> Ipv4 a b c d = Ipv4 255 255 255 255 \<or> v4_is_multicast (Ipv4 a b c d) \<or>
        a = 0 \<or> a = 100 \<and> 64 \<le> b \<and> b \<le> 127 \<or> a = 192 \<and> b = 0 \<and> c = 0 \<or> a = 192 \<and> b = 0 \<and> c = 2 \<or>
        a = 198 \<and> (b = 18 \<or> b = 19) \<or> a = 198 \<and> b = 51 \<and> c = 100 \<or> a = 203 \<and> b = 0 \<and> c = 113 \<or> 240 \<le> a)"

text \<open>\<^verbatim>\<open>Ipv4Addr::new((s >> 8) as u8, (s & 0xff) as u8, ..)\<close> of two segments.\<close>

definition embedded_ipv4 :: "16 word \<Rightarrow> 16 word \<Rightarrow> ipv4" where
  "embedded_ipv4 s t = Ipv4 (ucast (drop_bit 8 s)) (ucast (s AND 0xff)) (ucast (drop_bit 8 t)) (ucast (t AND 0xff))"

fun to_ipv4_mapped :: "ipv6 \<Rightarrow> ipv4 option" where
  "to_ipv4_mapped (Ipv6 s0 s1 s2 s3 s4 s5 s6 s7) =
     (if s0 = 0 \<and> s1 = 0 \<and> s2 = 0 \<and> s3 = 0 \<and> s4 = 0 \<and> s5 = 0xffff then Some (embedded_ipv4 s6 s7) else None)"

fun is_public_ipv6 :: "ipv6 \<Rightarrow> bool" where
  "is_public_ipv6 (Ipv6 s0 s1 s2 s3 s4 s5 s6 s7) \<longleftrightarrow>
     (case to_ipv4_mapped (Ipv6 s0 s1 s2 s3 s4 s5 s6 s7) of
        Some mapped \<Rightarrow> is_public_ipv4 mapped
      | None \<Rightarrow>
          \<not> (Ipv6 s0 s1 s2 s3 s4 s5 s6 s7 = Ipv6 0 0 0 0 0 0 0 1 \<or> Ipv6 s0 s1 s2 s3 s4 s5 s6 s7 = Ipv6 0 0 0 0 0 0 0 0 \<or>
             s0 AND 0xff00 = 0xff00 \<or> s0 AND 0xfe00 = 0xfc00 \<or> s0 AND 0xffc0 = 0xfe80 \<or>
             s0 = 0x2001 \<and> s1 = 0x0db8 \<or>
             s0 = 0x2001 \<and> s1 = 0 \<and> \<not> is_public_ipv4 (embedded_ipv4 s4 s5) \<or>
             s0 = 0x0064 \<and> s1 = 0xff9b \<and> \<not> is_public_ipv4 (embedded_ipv4 s6 s7) \<or>
             s0 = 0x2002 \<and> \<not> is_public_ipv4 (embedded_ipv4 s1 s2)))"

fun is_public_ip :: "ip_addr \<Rightarrow> bool" where
  "is_public_ip (IpV4 ip) = is_public_ipv4 ip"
| "is_public_ip (IpV6 ip) = is_public_ipv6 ip"

definition validate_public_ip :: "ip_addr \<Rightarrow> string + unit" where
  "validate_public_ip ip =
     (if is_public_ip ip then Inr () else Inl ''outbound endpoint resolved to a non-public IP address'')"

fun host_ip :: "url_host \<Rightarrow> ip_addr option" where
  "host_ip (HostV4 ip) = Some (IpV4 ip)"
| "host_ip (HostV6 ip) = Some (IpV6 ip)"
| "host_ip (HostDomain _) = None"

section \<open>URLs\<close>

text \<open>What the accessors of \<^verbatim>\<open>url::Url\<close> answer, with the text of the host (\<^verbatim>\<open>Host::to_string\<close>, \<^verbatim>\<open>host_str\<close>).\<close>

record parsed_url =
  pu_username :: string
  pu_password :: "string option"
  pu_scheme :: string
  pu_host :: "(url_host \<times> string) option"
  pu_port_or_default :: "16 word option"

record endpoint_host =
  eh_parse :: "string \<Rightarrow> string + parsed_url"
  eh_lookup :: "string \<Rightarrow> 16 word \<Rightarrow> string + socket_addr list"

definition trim_brackets :: "string \<Rightarrow> string" where
  "trim_brackets s =
     (let drop_left = dropWhile (\<lambda>c. c = CHR ''['' \<or> c = CHR '']'') in rev (drop_left (rev (drop_left s))))"

definition ends_with_text :: "string \<Rightarrow> string \<Rightarrow> bool" where
  "ends_with_text s p \<longleftrightarrow> strip_prefix (rev p) (rev s) \<noteq> None"

definition parse_url :: "endpoint_host \<Rightarrow> string \<Rightarrow> string + parsed_url" where
  "parse_url h url = (case eh_parse h url of Inl e \<Rightarrow> Inl (''invalid URL: '' @ e) | Inr u \<Rightarrow> Inr u)"

definition check_scheme :: "env \<Rightarrow> string \<Rightarrow> string + unit" where
  "check_scheme env scheme =
     (if scheme = ''https'' then Inr ()
      else if scheme = ''http''
      then if \<not> memory_is_production_like_environment env then Inr ()
           else Inl ''HTTP scheme is not allowed in production; use HTTPS''
      else Inl (''unsupported URL scheme: '' @ scheme))"

definition check_host_name :: "string \<Rightarrow> string + unit" where
  "check_host_name host_text =
     (let host_name = ascii_lower (trim_brackets host_text)
      in if host_name = ''localhost'' \<or> ends_with_text host_name ''.localhost''
         then Inl ''localhost hostnames are not allowed''
         else if host_name = ''metadata.google.internal'' \<or> host_name = ''metadata.aws.internal''
         then Inl ''cloud metadata endpoints are not allowed''
         else Inr ())"

definition validate_outbound_url :: "endpoint_host \<Rightarrow> env \<Rightarrow> string \<Rightarrow> string + unit" where
  "validate_outbound_url h env url =
     and_then (parse_url h url) (\<lambda>u.
       if pu_username u \<noteq> [] \<or> pu_password u \<noteq> None then Inl ''URL credentials are not allowed''
       else and_then (check_scheme env (pu_scheme u)) (\<lambda>_.
         case pu_host u of
           None \<Rightarrow> Inl ''URL must have a host''
         | Some (host, host_text) \<Rightarrow>
             and_then (case host_ip host of None \<Rightarrow> Inr () | Some ip \<Rightarrow> validate_public_ip ip)
               (\<lambda>_. check_host_name host_text)))"

section \<open>The pinned client\<close>

record pinned_client =
  pc_timeout_ms :: nat
  pc_pool_max_idle_per_host :: nat
  pc_follows_redirects :: bool
  pc_resolve :: "string \<times> socket_addr list"

fun check_addresses :: "socket_addr list \<Rightarrow> string + unit" where
  "check_addresses [] = Inr ()"
| "check_addresses (a # as) = and_then (validate_public_ip (socket_ip a)) (\<lambda>_. check_addresses as)"

text \<open>\<^verbatim>\<open>sort_unstable\<close> and \<^verbatim>\<open>dedup\<close>.\<close>

definition resolve_public_addresses :: "endpoint_host \<Rightarrow> string \<Rightarrow> 16 word \<Rightarrow> string + socket_addr list" where
  "resolve_public_addresses h host port =
     (case eh_lookup h host port of
        Inl e \<Rightarrow> Inl (''DNS resolution failed: '' @ e)
      | Inr answer \<Rightarrow>
          let addresses = remdups_adj (sort_key socket_rank answer)
          in if addresses = [] then Inl ''DNS resolution returned no addresses''
             else and_then (check_addresses addresses) (\<lambda>_. Inr addresses))"

text \<open>\<^verbatim>\<open>reqwest\<close>'s builder may fail, with the text of the argument.\<close>

definition build_pinned_http_client :: "endpoint_host \<Rightarrow> env \<Rightarrow> string option \<Rightarrow> string \<Rightarrow> nat \<Rightarrow> nat \<Rightarrow>
    string + parsed_url \<times> pinned_client" where
  "build_pinned_http_client h env build_error url timeout pool =
     and_then (validate_outbound_url h env url) (\<lambda>_.
     and_then (parse_url h url) (\<lambda>u.
     and_then (case pu_host u of None \<Rightarrow> Inl ''URL must have a host'' | Some (_, t) \<Rightarrow> Inr (trim_brackets t)) (\<lambda>host.
     and_then (case pu_port_or_default u of None \<Rightarrow> Inl ''URL scheme does not define a port'' | Some p \<Rightarrow> Inr p) (\<lambda>port.
     and_then (resolve_public_addresses h host port) (\<lambda>addresses.
       case build_error of
         Some e \<Rightarrow> Inl (''create pinned HTTP client failed: '' @ e)
       | None \<Rightarrow> Inr (u, \<lparr>pc_timeout_ms = timeout, pc_pool_max_idle_per_host = pool, pc_follows_redirects = False,
             pc_resolve = (host, addresses)\<rparr>))))))"

section \<open>Address blocks\<close>

text \<open>The blocks of the special-purpose registries, as a base address and a prefix length.\<close>

fun v4_number :: "ipv4 \<Rightarrow> nat" where
  "v4_number (Ipv4 a b c d) = unat a * 2 ^ 24 + unat b * 2 ^ 16 + unat c * 2 ^ 8 + unat d"

definition in_block :: "ipv4 \<Rightarrow> ipv4 \<times> nat \<Rightarrow> bool" where
  "in_block ip blk = (case blk of (base, len) \<Rightarrow> v4_number ip div 2 ^ (32 - len) = v4_number base div 2 ^ (32 - len))"

definition special_blocks :: "(ipv4 \<times> nat) list" where
  "special_blocks =
     [(Ipv4 0 0 0 0, 8), (Ipv4 10 0 0 0, 8), (Ipv4 100 64 0 0, 10), (Ipv4 127 0 0 0, 8), (Ipv4 169 254 0 0, 16),
      (Ipv4 172 16 0 0, 12), (Ipv4 192 0 0 0, 24), (Ipv4 192 0 2 0, 24), (Ipv4 192 168 0 0, 16),
      (Ipv4 198 18 0 0, 15), (Ipv4 198 51 100 0, 24), (Ipv4 203 0 113 0, 24), (Ipv4 224 0 0 0, 4), (Ipv4 240 0 0 0, 4)]"

text \<open>
  Laws of the endpoint check: the tests on octets are those of address blocks, and what the client is
  pinned to.
\<close>

section \<open>Octets and blocks\<close>

lemma octet_eq: "a = b \<longleftrightarrow> unat a = unat (b :: 8 word)"
  by (simp add: word_unat_eq_iff)

lemma octet_numbers:
  "unat (0 :: 8 word) = 0" "unat (2 :: 8 word) = 2" "unat (10 :: 8 word) = 10" "unat (18 :: 8 word) = 18"
  "unat (19 :: 8 word) = 19" "unat (51 :: 8 word) = 51" "unat (100 :: 8 word) = 100" "unat (113 :: 8 word) = 113"
  "unat (127 :: 8 word) = 127" "unat (168 :: 8 word) = 168" "unat (169 :: 8 word) = 169" "unat (172 :: 8 word) = 172"
  "unat (192 :: 8 word) = 192" "unat (198 :: 8 word) = 198" "unat (203 :: 8 word) = 203" "unat (254 :: 8 word) = 254"
  "unat (255 :: 8 word) = 255"
  by simp_all

lemma octet_less: "unat (a :: 8 word) < 256"
  using unsigned_less [of a, where ?'a = nat] by simp

lemma number_div:
  fixes A B C D :: nat
  assumes "B < 256" "C < 256" "D < 256"
  shows "(A * 16777216 + B * 65536 + C * 256 + D) div 16777216 = A"
    "(A * 16777216 + B * 65536 + C * 256 + D) div 65536 = A * 256 + B"
    "(A * 16777216 + B * 65536 + C * 256 + D) div 256 = A * 65536 + B * 256 + C"
    "(A * 16777216 + B * 65536 + C * 256 + D) div 1048576 = A * 16 + B div 16"
    "(A * 16777216 + B * 65536 + C * 256 + D) div 4194304 = A * 4 + B div 64"
    "(A * 16777216 + B * 65536 + C * 256 + D) div 131072 = A * 128 + B div 2"
    "(A * 16777216 + B * 65536 + C * 256 + D) div 268435456 = A div 16"
  using assms by linarith+

lemma digits_eq:
  fixes r :: nat
  assumes "r < m"
  shows "A * m + r = n \<longleftrightarrow> A = n div m \<and> r = n mod m"
proof
  assume "A * m + r = n"
  then show "A = n div m \<and> r = n mod m"
    using assms by (auto simp flip: \<open>A * m + r = n\<close>)
next
  assume "A = n div m \<and> r = n mod m"
  then show "A * m + r = n"
    by simp
qed

lemma octet_digits:
  fixes A B C :: nat
  assumes "B < 256" "C < 256"
  shows "A * 256 + B = n \<longleftrightarrow> A = n div 256 \<and> B = n mod 256"
    "A * 65536 + B * 256 + C = n \<longleftrightarrow> A = n div 65536 \<and> B * 256 + C = n mod 65536"
    "A * 16 + B div 16 = n \<longleftrightarrow> A = n div 16 \<and> B div 16 = n mod 16"
    "A * 4 + B div 64 = n \<longleftrightarrow> A = n div 4 \<and> B div 64 = n mod 4"
    "A * 128 + B div 2 = n \<longleftrightarrow> A = n div 128 \<and> B div 2 = n mod 128"
  using digits_eq [of B 256 A n] digits_eq [of "B * 256 + C" 65536 A n] digits_eq [of "B div 16" 16 A n]
    digits_eq [of "B div 64" 4 A n] digits_eq [of "B div 2" 128 A n] assms by (simp_all add: add.assoc)

lemma quotient_range:
  fixes x :: nat
  assumes "0 < m"
  shows "x div m = q \<longleftrightarrow> q * m \<le> x \<and> x < Suc q * m"
  using less_eq_div_iff_mult_less_eq [OF assms, of q x] div_less_iff_less_mult [OF assms, of x "Suc q"] by linarith

lemma public_ipv4_blocks: "is_public_ipv4 ip \<longleftrightarrow> \<not> list_ex (in_block ip) special_blocks"
proof (cases ip)
  case (Ipv4 a b c d)
  define A B C D where n: "A = unat a" "B = unat b" "C = unat c" "D = unat d"
  have less: "A < 256" "B < 256" "C < 256" "D < 256"
    using octet_less by (simp_all add: n)
  note div = number_div [OF less(2-4), of A]
  have le: "16 \<le> b \<longleftrightarrow> 16 \<le> B" "b \<le> 31 \<longleftrightarrow> B \<le> 31" "64 \<le> b \<longleftrightarrow> 64 \<le> B" "b \<le> 127 \<longleftrightarrow> B \<le> 127" "224 \<le> a \<longleftrightarrow> 224 \<le> A"
    "a \<le> 239 \<longleftrightarrow> A \<le> 239" "240 \<le> a \<longleftrightarrow> 240 \<le> A"
    by (simp_all add: n word_le_nat_alt)
  have "A div 16 = 14 \<or> A div 16 = 15 \<longleftrightarrow> 224 \<le> A"
    using less(1) unfolding quotient_range [of 16 A, simplified] by linarith
  moreover have "B div 16 = 1 \<longleftrightarrow> 16 \<le> B \<and> B \<le> 31" "B div 64 = 1 \<longleftrightarrow> 64 \<le> B \<and> B \<le> 127" "B div 2 = 9 \<longleftrightarrow> B = 18 \<or> B = 19"
    by (simp_all add: quotient_range) linarith+
  ultimately have quotients: "A div 16 = 14 \<or> A div 16 = 15 \<longleftrightarrow> 224 \<le> A" "B div 16 = 1 \<longleftrightarrow> 16 \<le> B \<and> B \<le> 31"
    "B div 64 = 1 \<longleftrightarrow> 64 \<le> B \<and> B \<le> 127" "B div 2 = 9 \<longleftrightarrow> B = 18 \<or> B = 19"
    by blast+
  have "is_public_ipv4 ip \<longleftrightarrow>
      \<not> (A = 10 \<or> A = 172 \<and> 16 \<le> B \<and> B \<le> 31 \<or> A = 192 \<and> B = 168 \<or> A = 127 \<or> A = 169 \<and> B = 254 \<or>
        224 \<le> A \<or> A = 0 \<or> A = 100 \<and> 64 \<le> B \<and> B \<le> 127 \<or> A = 192 \<and> B = 0 \<and> C = 0 \<or> A = 192 \<and> B = 0 \<and> C = 2 \<or>
        A = 198 \<and> (B = 18 \<or> B = 19) \<or> A = 198 \<and> B = 51 \<and> C = 100 \<or> A = 203 \<and> B = 0 \<and> C = 113)"
    (is "_ \<longleftrightarrow> ?public")
  proof -
    have "224 \<le> A \<and> A \<le> 239 \<or> 240 \<le> A \<longleftrightarrow> 224 \<le> A" "A = 255 \<longrightarrow> 224 \<le> A"
      by linarith+
    then show ?thesis
      unfolding Ipv4 is_public_ipv4.simps v4_is_private.simps v4_is_loopback.simps v4_is_link_local.simps v4_is_multicast.simps le
        ipv4.inject
      unfolding octet_eq octet_numbers n [symmetric] by argo
  qed
  also have "\<dots> \<longleftrightarrow> \<not> list_ex (in_block ip) special_blocks"
    unfolding Ipv4 special_blocks_def
    by (simp add: in_block_def n [symmetric] div octet_digits [OF less(2,3)] octet_digits(1) [OF less(3,2)] quotients [unfolded One_nat_def]) argo
  finally show ?thesis .
qed

end
