(* ===== verification/Signed_Cursors.thy ===== *)
theory Signed_Cursors
  imports Service_Types Retrieval_Text
begin

text \<open>
  List cursors (\<^verbatim>\<open>platform.rs\<close>): a keyset key of the store in an opaque token with a message
  authentication code. Base64, HMAC-SHA256 and the comparison of \<^verbatim>\<open>sdkwork_utils_rust\<close> are parameters
  (record \<^verbatim>\<open>cursor_host\<close>).
\<close>

record cursor_host =
  ch_encode :: "string \<Rightarrow> string"
  ch_decode :: "string \<Rightarrow> string option"
  ch_hmac :: "string \<Rightarrow> string \<Rightarrow> string"
  ch_compare :: "string \<Rightarrow> string \<Rightarrow> bool"

definition cursor_token_prefix :: string where
  "cursor_token_prefix = ''v1''"

section \<open>The key\<close>

definition cursor_signing_key :: "env \<Rightarrow> string" where
  "cursor_signing_key env =
     (case env ''SDKWORK_MEMORY_CURSOR_SIGNING_KEY'' of
        Some value \<Rightarrow> if trim value \<noteq> [] then value else ''sdkwork-memory-cursor-v1''
      | None \<Rightarrow> ''sdkwork-memory-cursor-v1'')"

definition min_cursor_signing_key_bytes :: nat where
  "min_cursor_signing_key_bytes = 32"

definition validate_cursor_signing_key :: "string option \<Rightarrow> string + unit" where
  "validate_cursor_signing_key key =
     (case key of
        Some k \<Rightarrow>
          if trim k = [] then Inl (''production Memory runtime requires SDKWORK_MEMORY_CURSOR_SIGNING_KEY: the built-in '' @
            ''cursor-signing fallback is not acceptable for production deployments'')
          else if length k < min_cursor_signing_key_bytes
          then Inl (''SDKWORK_MEMORY_CURSOR_SIGNING_KEY must be at least '' @ nat_text min_cursor_signing_key_bytes @
            '' bytes in production; a shorter key makes cursor forgery brute-forceable'')
          else Inr ()
      | None \<Rightarrow> Inl (''production Memory runtime requires SDKWORK_MEMORY_CURSOR_SIGNING_KEY: the built-in '' @
          ''cursor-signing fallback is not acceptable for production deployments''))"

definition validate_runtime_secrets_for_environment :: "env \<Rightarrow> string + unit" where
  "validate_runtime_secrets_for_environment env =
     (if \<not> memory_is_production_like_environment env then Inr ()
      else validate_cursor_signing_key (env ''SDKWORK_MEMORY_CURSOR_SIGNING_KEY''))"

section \<open>Tokens\<close>

text \<open>\<^verbatim>\<open>String::from_utf8\<close>: the bytes are those of their characters.\<close>

definition is_utf8 :: "string \<Rightarrow> bool" where
  "is_utf8 s \<longleftrightarrow> utf8 (chars s) = s \<and> list_all scalar_value (chars s)"

text \<open>\<^verbatim>\<open>split('.')\<close>.\<close>

fun split_points :: "string \<Rightarrow> string list" where
  "split_points [] = [[]]"
| "split_points (c # cs) =
     (if c = CHR ''.'' then [] # split_points cs
      else case split_points cs of p # ps \<Rightarrow> (c # p) # ps | [] \<Rightarrow> [[c]])"

definition cursor_mac :: "cursor_host \<Rightarrow> string \<Rightarrow> string \<Rightarrow> string" where
  "cursor_mac h key raw = ch_encode h (ch_hmac h key raw)"

definition encode_list_cursor :: "cursor_host \<Rightarrow> string \<Rightarrow> string \<Rightarrow> string" where
  "encode_list_cursor h key raw =
     cursor_token_prefix @ ''.'' @ ch_encode h raw @ ''.'' @ cursor_mac h key raw"

definition malformed_cursor :: service_error where
  "malformed_cursor =
     err_validation ''cursor must be a server-issued opaque token; cursor forgery is not supported''"

definition decode_token :: "cursor_host \<Rightarrow> string \<Rightarrow> string \<Rightarrow> service_error + string option" where
  "decode_token h key token =
     (case split_points token of
        [prefix, data, signature] \<Rightarrow>
          if prefix \<noteq> cursor_token_prefix then Inl malformed_cursor
          else (case ch_decode h data of
              None \<Rightarrow> Inl malformed_cursor
            | Some raw \<Rightarrow>
                if \<not> is_utf8 raw \<or> \<not> ch_compare h (cursor_mac h key raw) signature then Inl malformed_cursor
                else Inr (Some raw))
      | _ \<Rightarrow> Inl malformed_cursor)"

definition decode_list_cursor :: "cursor_host \<Rightarrow> string \<Rightarrow> string option \<Rightarrow> service_error + string option" where
  "decode_list_cursor h key cursor =
     (case cursor of
        None \<Rightarrow> Inr None
      | Some c \<Rightarrow> if trim c = [] then Inr None else decode_token h key (trim c))"

text \<open>The token \<^verbatim>\<open>memory_cursor_page_info\<close> hands to the page.\<close>

definition next_page_token :: "cursor_host \<Rightarrow> string \<Rightarrow> bool \<Rightarrow> string option \<Rightarrow> string option" where
  "next_page_token h key has_more next_cursor =
     (if has_more then map_option (encode_list_cursor h key) next_cursor else None)"

section \<open>Laws\<close>

lemma split_points_Nil [simp]: "split_points s \<noteq> []"
  by (cases s) (auto split: list.split)

lemma split_points_plain: "CHR ''.'' \<notin> set s \<Longrightarrow> split_points s = [s]"
  by (induction s) auto

lemma split_points_append: "CHR ''.'' \<notin> set s \<Longrightarrow> split_points (s @ CHR ''.'' # t) = s # split_points t"
  by (induction s) auto

text \<open>The parts hold no point, and joined they are the text.\<close>

lemma split_points_three:
  "split_points s = [p, d, m] \<Longrightarrow> s = p @ ''.'' @ d @ ''.'' @ m"
proof -
  have "s = hd (split_points s) @ concat (map (\<lambda>p. CHR ''.'' # p) (tl (split_points s)))" for s
  proof (induction s)
    case (Cons c s)
    then show ?case
      by (cases "split_points s") auto
  qed simp
  from this [of s] show "split_points s = [p, d, m] \<Longrightarrow> s = p @ ''.'' @ d @ ''.'' @ m"
    by simp
qed

end
