(* ===== verification/Edge_Properties.thy ===== *)
theory Edge_Properties
  imports Outbound_Endpoint Signed_Cursors Plugin_Laws
begin

text \<open>
  The properties of the edge of the service: outbound endpoints never reach internal addresses, and list
  cursors are exactly the tokens the server issued.
\<close>

section \<open>Outbound endpoints\<close>



lemma embedded_zero: "embedded_ipv4 0 t = Ipv4 0 0 (ucast (drop_bit 8 t)) (ucast (t AND 0xff))"
  by (simp add: embedded_ipv4_def)



lemma set_remdups_adj_sort: "set (remdups_adj (sort_key f xs)) = set xs"
  by simp









section \<open>Cursors\<close>

text \<open>
  What the code relies on: base64 without padding decodes what it encoded and nothing else, its text is
  of letters, digits, hyphen and underscore, a code is not empty, and the comparison compares.
\<close>

definition base64_text :: "string \<Rightarrow> bool" where
  "base64_text s \<longleftrightarrow> list_all (\<lambda>c. is_ascii_alnum c \<or> c = CHR ''-'' \<or> c = CHR ''_'') s"

definition cursor_host_ok :: "cursor_host \<Rightarrow> bool" where
  "cursor_host_ok h \<longleftrightarrow>
     (\<forall>x. ch_decode h (ch_encode h x) = Some x \<and> base64_text (ch_encode h x)) \<and>
     (\<forall>x y. ch_decode h x = Some y \<longrightarrow> ch_encode h y = x) \<and> (\<forall>k x. ch_encode h (ch_hmac h k x) \<noteq> []) \<and>
     (\<forall>x y. ch_compare h x y \<longleftrightarrow> x = y)"

lemma trim_edges:
  assumes "s \<noteq> []" "\<forall>p \<in> set white_space. p \<noteq> [] \<and> hd p \<noteq> hd s \<and> last p \<noteq> last s"
  shows "trim s = s"
proof -
  have "strip_any white_space s = None"
    unfolding strip_any_None using assms by (auto simp: hd_append)
  moreover have "strip_any (map rev white_space) (rev s) = None"
    unfolding strip_any_None
  proof (intro ballI allI notI)
    fix p r
    assume "p \<in> set (map rev white_space)" "rev s = p @ r"
    then obtain q where "q \<in> set white_space" "s = rev r @ q"
      by (auto simp: rev_swap)
    then show False
      using assms(2) by fastforce
  qed
  ultimately show ?thesis
    by (simp add: trim_def trim_start_def trim_end_def strip_all_fixed)
qed

lemma base64_no_point: "base64_text s \<Longrightarrow> CHR ''.'' \<notin> set s"
  by (auto simp: base64_text_def list_all_iff is_ascii_alnum_def)

lemma base64_not_white: "base64_text s \<Longrightarrow> s \<noteq> [] \<Longrightarrow> \<forall>p \<in> set white_space. last p \<noteq> last s"
proof -
  assume "base64_text s" "s \<noteq> []"
  then have "is_ascii_alnum (last s) \<or> last s = CHR ''-'' \<or> last s = CHR ''_''"
    by (simp add: base64_text_def list_all_iff)
  moreover have "\<forall>p \<in> set white_space. \<not> (is_ascii_alnum (last p) \<or> last p = CHR ''-'' \<or> last p = CHR ''_'')"
    by (simp add: white_space_def is_ascii_alnum_def)
  ultimately show ?thesis by metis
qed

lemma token_trimmed:
  assumes "cursor_host_ok h"
  shows "trim (encode_list_cursor h key raw) = encode_list_cursor h key raw"
proof (rule trim_edges)
  have mac: "cursor_mac h key raw \<noteq> []" "base64_text (cursor_mac h key raw)"
    using assms by (auto simp: cursor_host_ok_def cursor_mac_def)
  then have "last (encode_list_cursor h key raw) = last (cursor_mac h key raw)" "hd (encode_list_cursor h key raw) = CHR ''v''"
    by (simp_all add: encode_list_cursor_def cursor_token_prefix_def)
  moreover have "\<forall>p \<in> set white_space. p \<noteq> [] \<and> hd p \<noteq> CHR ''v''"
    by (simp add: white_space_def)
  ultimately show "\<forall>p \<in> set white_space. p \<noteq> [] \<and> hd p \<noteq> hd (encode_list_cursor h key raw) \<and>
      last p \<noteq> last (encode_list_cursor h key raw)"
    using base64_not_white [OF mac(2,1)] by auto
qed (simp add: encode_list_cursor_def cursor_token_prefix_def)

lemma decoded_token:
  assumes "cursor_host_ok h"
  shows "decode_token h key token = Inr (Some raw) \<longleftrightarrow> is_utf8 raw \<and> token = encode_list_cursor h key raw"
proof
  assume "is_utf8 raw \<and> token = encode_list_cursor h key raw"
  moreover have "split_points (encode_list_cursor h key raw) = [''v1'', ch_encode h raw, cursor_mac h key raw]"
    using assms base64_no_point
    by (simp add: encode_list_cursor_def cursor_token_prefix_def split_points_append split_points_plain cursor_host_ok_def cursor_mac_def)
  ultimately show "decode_token h key token = Inr (Some raw)"
    using assms by (simp add: decode_token_def cursor_token_prefix_def cursor_host_ok_def)
next
  assume token: "decode_token h key token = Inr (Some raw)"
  then obtain p d m where parts: "split_points token = [p, d, m]"
    by (auto simp: decode_token_def split: list.splits)
  then have "p = ''v1'' \<and> ch_decode h d = Some raw \<and> is_utf8 raw \<and> ch_compare h (cursor_mac h key raw) m"
    using token by (auto simp: decode_token_def cursor_token_prefix_def split: if_splits option.splits)
  then show "is_utf8 raw \<and> token = encode_list_cursor h key raw"
    using assms split_points_three [OF parts] by (auto simp: cursor_host_ok_def encode_list_cursor_def cursor_token_prefix_def)
qed

text \<open>
  C25. List cursors. A cursor is read as a key exactly when, trimmed, it is the token the server issues for this
  key, so every issued token leads back to its key and nothing else does; absent and blank cursors
  mean the first page, and everything else is a validation error. A page names a token exactly when it
  has more and the store named a key. In a process whose environment passes the start-up check and is
  production-like the codes are made with a configured key of at least 32 bytes.
\<close>

theorem cursor_tokens_exact:
  assumes "cursor_host_ok h"
  shows "(decode_list_cursor h key c = Inr (Some raw) \<longleftrightarrow>
      (\<exists>t. c = Some t \<and> is_utf8 raw \<and> trim t = encode_list_cursor h key raw)) \<and>
    (is_utf8 raw \<longrightarrow> decode_list_cursor h key (Some (encode_list_cursor h key raw)) = Inr (Some raw)) \<and>
    (decode_list_cursor h key c = Inr None \<longleftrightarrow> (case c of None \<Rightarrow> True | Some t \<Rightarrow> is_blank t)) \<and>
    (case decode_list_cursor h key c of Inl e \<Rightarrow> e = malformed_cursor | Inr _ \<Rightarrow> True) \<and>
    (next_page_token h key has_more nxt \<noteq> None \<longleftrightarrow> has_more \<and> nxt \<noteq> None) \<and>
    (validate_runtime_secrets_for_environment env = Inr () \<and> memory_is_production_like_environment env \<longrightarrow>
      env ''SDKWORK_MEMORY_CURSOR_SIGNING_KEY'' = Some (cursor_signing_key env) \<and> 32 \<le> length (cursor_signing_key env))"
proof (intro conjI impI)
  have filled: "encode_list_cursor h key raw \<noteq> []" for raw
    by (simp add: encode_list_cursor_def cursor_token_prefix_def)
  show exact: "decode_list_cursor h key c = Inr (Some raw) \<longleftrightarrow>
      (\<exists>t. c = Some t \<and> is_utf8 raw \<and> trim t = encode_list_cursor h key raw)" for c raw
    using filled filled [symmetric] by (auto simp: decode_list_cursor_def decoded_token [OF assms] split: option.split)
  show "decode_list_cursor h key (Some (encode_list_cursor h key raw)) = Inr (Some raw)" if "is_utf8 raw"
    unfolding exact using that token_trimmed [OF assms] by blast
  have token: "decode_token h key t \<noteq> Inr None \<and> (\<forall>e. decode_token h key t = Inl e \<longrightarrow> e = malformed_cursor)" for t
    by (auto simp: decode_token_def split: list.split option.split)
  show "decode_list_cursor h key c = Inr None \<longleftrightarrow> (case c of None \<Rightarrow> True | Some t \<Rightarrow> is_blank t)"
    using token by (auto simp: decode_list_cursor_def is_blank_def split: option.split)
  show "case decode_list_cursor h key c of Inl e \<Rightarrow> e = malformed_cursor | Inr _ \<Rightarrow> True"
    using token by (auto simp: decode_list_cursor_def split: option.split sum.split)
  show "next_page_token h key has_more nxt \<noteq> None \<longleftrightarrow> has_more \<and> nxt \<noteq> None"
    by (simp add: next_page_token_def)
  assume env: "validate_runtime_secrets_for_environment env = Inr () \<and> memory_is_production_like_environment env"
  then show "env ''SDKWORK_MEMORY_CURSOR_SIGNING_KEY'' = Some (cursor_signing_key env)" "32 \<le> length (cursor_signing_key env)"
    by (auto simp: validate_runtime_secrets_for_environment_def validate_cursor_signing_key_def cursor_signing_key_def
        min_cursor_signing_key_bytes_def split: option.splits if_splits)
qed

text \<open>A host that writes a byte as two letters.\<close>

definition nibble_char :: "nat \<Rightarrow> char" where
  "nibble_char n = char_of (97 + n)"

definition byte_letters :: "char \<Rightarrow> string" where
  "byte_letters c = [nibble_char (of_char c div 16), nibble_char (of_char c mod 16)]"

definition nibble_of :: "char \<Rightarrow> nat option" where
  "nibble_of c = (let n = of_char c :: nat in if 97 \<le> n \<and> n < 113 then Some (n - 97) else None)"

fun letter_bytes :: "string \<Rightarrow> string option" where
  "letter_bytes [] = Some []"
| "letter_bytes [c] = None"
| "letter_bytes (a # b # s) =
     (case (nibble_of a, nibble_of b) of
        (Some m, Some n) \<Rightarrow> map_option (Cons (char_of (m * 16 + n))) (letter_bytes s)
      | _ \<Rightarrow> None)"

definition sample_cursor_host :: cursor_host where
  "sample_cursor_host =
     \<lparr>ch_encode = (\<lambda>x. ''z'' @ concat (map byte_letters x)),
      ch_decode = (\<lambda>s. case s of [] \<Rightarrow> None | c # t \<Rightarrow> if c = CHR ''z'' then letter_bytes t else None),
      ch_hmac = (\<lambda>key x. x), ch_compare = (\<lambda>x y. x = y)\<rparr>"

lemma nibble_of_char: "n < 16 \<Longrightarrow> nibble_of (nibble_char n) = Some n"
  by (simp add: nibble_of_def nibble_char_def)

lemma nibble_char_of: "nibble_of c = Some n \<Longrightarrow> n < 16 \<and> nibble_char n = c"
  by (auto simp: nibble_of_def nibble_char_def Let_def split: if_splits)

lemma of_char_byte: "(of_char c :: nat) < 256"
  using of_char_mod_256 [of c, where ?'a = nat] by (metis mod_less_divisor zero_less_numeral)

lemma letter_bytes_letters: "letter_bytes (concat (map byte_letters x)) = Some x"
proof (induction x)
  case (Cons c x)
  have "(of_char c :: nat) div 16 < 16"
    using of_char_byte [of c] by (simp add: div_less_iff_less_mult)
  then show ?case
    using Cons by (simp add: byte_letters_def nibble_of_char)
qed simp

lemma letters_letter_bytes: "letter_bytes s = Some x \<Longrightarrow> concat (map byte_letters x) = s"
proof (induction s arbitrary: x rule: letter_bytes.induct)
  case (3 a b s)
  then obtain m n y where y: "nibble_of a = Some m" "nibble_of b = Some n" "letter_bytes s = Some y" "x = char_of (m * 16 + n) # y"
    by (auto split: option.splits)
  then have "m < 16" "n < 16" "nibble_char m = a" "nibble_char n = b"
    using nibble_char_of by blast+
  then show ?case
    using 3 y by (simp add: byte_letters_def)
qed auto

lemma letters_base64: "base64_text (concat (map byte_letters x))"
proof (induction x)
  case (Cons c x)
  have "is_ascii_alnum (nibble_char n)" if "n < 16" for n
    using that by (simp add: is_ascii_alnum_def nibble_char_def Let_def)
  moreover have "(of_char c :: nat) div 16 < 16"
    using of_char_byte [of c] by (simp add: div_less_iff_less_mult)
  ultimately show ?case
    using Cons by (simp add: base64_text_def byte_letters_def)
qed (simp add: base64_text_def)

lemma sample_cursor_host_ok: "cursor_host_ok sample_cursor_host"
  using letters_base64
  by (auto simp: cursor_host_ok_def sample_cursor_host_def letter_bytes_letters base64_text_def is_ascii_alnum_def
      dest: letters_letter_bytes split: list.splits if_splits)

theorem cursor_tokens_exact_witness:
  "decode_list_cursor sample_cursor_host ''k'' (Some (encode_list_cursor sample_cursor_host ''k'' ''42'')) = Inr (Some ''42'')"
proof -
  have "is_utf8 ''42''"
    by (simp add: is_utf8_def utf8_def utf8_char_def scalar_value_def char_of_def bit_0)
  then show ?thesis
    using cursor_tokens_exact [OF sample_cursor_host_ok, where raw = "''42''" and key = "''k''"] by blast
qed

end
