(* ===== verification/Provider_Client.thy ===== *)
theory Provider_Client
  imports Signed_Cursors Retrieval_Signals F64_Ops Profile_Resolver Sql_Placeholders
begin

text \<open>
  The OpenAI-compatible provider (\<^verbatim>\<open>crates/sdkwork-memory-provider-openai\<close>): configuration, retries, the
  capped reading of a body, embeddings and completions. What the HTTP client answers is a
  parameter (record \<^verbatim>\<open>provider_host\<close>), one outcome for each attempt of a request, as are JSON
  syntax, the square root and the text of a status code.
\<close>

section \<open>Configuration\<close>

definition default_base_url :: string where
  "default_base_url = ''https://api.openai.com/v1''"

definition default_embedding_model :: string where
  "default_embedding_model = ''text-embedding-3-small''"

definition default_embedding_dimensions :: nat where
  "default_embedding_dimensions = 1536"

definition default_chat_model :: string where
  "default_chat_model = ''gpt-4o-mini''"

definition default_timeout_secs :: nat where
  "default_timeout_secs = 30"

definition default_embed_batch_max_bytes :: nat where
  "default_embed_batch_max_bytes = 2 * 1024 * 1024"

definition min_embed_batch_max_bytes :: nat where
  "min_embed_batch_max_bytes = 64 * 1024"

definition max_embed_batch_max_bytes :: nat where
  "max_embed_batch_max_bytes = 16 * 1024 * 1024"

record provider_config =
  pg_base_url :: string
  pg_api_key :: string
  pg_embedding_model :: string
  pg_embedding_dimensions :: nat
  pg_chat_model :: string
  pg_timeout_secs :: nat
  pg_embed_batch_max_bytes :: nat

text \<open>\<^verbatim>\<open>str::parse\<close> to \<^verbatim>\<open>usize\<close> or \<^verbatim>\<open>u64\<close>: an optional plus sign and digits, within 64 bits.\<close>

definition parse_unsigned :: "string \<Rightarrow> nat option" where
  "parse_unsigned s =
     (let ds = (case s of c # cs \<Rightarrow> if c = CHR ''+'' then cs else s | [] \<Rightarrow> []);
          n = foldl (\<lambda>n c. n * 10 + (of_char c - 48)) 0 ds
      in if ds = [] \<or> \<not> list_all is_digit ds \<or> 2 ^ 64 \<le> n then None else Some n)"

definition clamp_embed_batch_max_bytes :: "nat \<Rightarrow> nat" where
  "clamp_embed_batch_max_bytes value = max min_embed_batch_max_bytes (min value max_embed_batch_max_bytes)"

definition parse_embed_batch_max_bytes :: "string option \<Rightarrow> nat" where
  "parse_embed_batch_max_bytes raw =
     (case Option.bind raw (\<lambda>value. parse_unsigned (trim value)) of
        None \<Rightarrow> default_embed_batch_max_bytes
      | Some n \<Rightarrow> clamp_embed_batch_max_bytes n)"

definition trim_end_slashes :: "string \<Rightarrow> string" where
  "trim_end_slashes s = rev (dropWhile (\<lambda>c. c = CHR ''/'') (rev s))"

definition env_text :: "env \<Rightarrow> string \<Rightarrow> string \<Rightarrow> string" where
  "env_text env key fallback =
     (case env key of Some v \<Rightarrow> if trim v \<noteq> [] then v else fallback | None \<Rightarrow> fallback)"

definition provider_from_env :: "env \<Rightarrow> provider_config option" where
  "provider_from_env env =
     (case env ''SDKWORK_MEMORY_OPENAI_API_KEY'' of
        None \<Rightarrow> None
      | Some key \<Rightarrow>
          if trim key = [] then None
          else Some
           \<lparr>pg_base_url = (case env ''SDKWORK_MEMORY_OPENAI_BASE_URL'' of Some v \<Rightarrow> trim_end_slashes v | None \<Rightarrow> default_base_url),
            pg_api_key = trim key,
            pg_embedding_model = env_text env ''SDKWORK_MEMORY_OPENAI_EMBEDDING_MODEL'' default_embedding_model,
            pg_embedding_dimensions =
              (case Option.bind (env ''SDKWORK_MEMORY_OPENAI_EMBEDDING_DIMENSIONS'') (\<lambda>v. parse_unsigned (trim v)) of
                 Some n \<Rightarrow> n | None \<Rightarrow> default_embedding_dimensions),
            pg_chat_model = env_text env ''SDKWORK_MEMORY_OPENAI_CHAT_MODEL'' default_chat_model,
            pg_timeout_secs =
              (case Option.bind (env ''SDKWORK_MEMORY_OPENAI_TIMEOUT_SECS'') (\<lambda>v. parse_unsigned (trim v)) of
                 Some n \<Rightarrow> if 0 < n then n else default_timeout_secs | None \<Rightarrow> default_timeout_secs),
            pg_embed_batch_max_bytes = parse_embed_batch_max_bytes (env ''SDKWORK_MEMORY_EMBED_BATCH_MAX_BYTES'')\<rparr>)"

section \<open>Retries\<close>

datatype transport_failure_kind = FailedConnect | FailedTimeout | FailedRequest | FailedOther

definition transport_failure_of :: "bool \<Rightarrow> bool \<Rightarrow> bool \<Rightarrow> transport_failure_kind" where
  "transport_failure_of is_connect is_timeout is_request =
     (if is_connect then FailedConnect else if is_timeout then FailedTimeout
      else if is_request then FailedRequest else FailedOther)"

definition is_retryable_failure :: "transport_failure_kind \<Rightarrow> bool" where
  "is_retryable_failure kind \<longleftrightarrow> kind \<in> {FailedConnect, FailedTimeout, FailedRequest}"

definition is_retryable_status :: "nat \<Rightarrow> bool" where
  "is_retryable_status status \<longleftrightarrow> status = 429 \<or> 500 \<le> status \<and> status \<le> 599"

definition retry_delays_ms :: "nat list" where
  "retry_delays_ms = [250, 1000]"

definition retry_delay :: "nat \<Rightarrow> nat" where
  "retry_delay attempt = retry_delays_ms ! min attempt (length retry_delays_ms - 1)"

text \<open>A response holds what its \<^verbatim>\<open>chunk()\<close> calls give, in order.\<close>

record http_response =
  hr_status :: nat
  hr_chunks :: "(string + string) list"

datatype send_outcome =
    Responded http_response
  | SendFailed (is_connect: bool) (is_timeout: bool) (is_request: bool) (failure_text: string)

record 'n http_request =
  hq_url :: string
  hq_bearer :: string
  hq_body :: "'n json"

record 'n provider_host =
  ov_send :: "'n http_request \<Rightarrow> nat \<Rightarrow> send_outcome option"
  ov_parse :: "string \<Rightarrow> string + 'n json"
  ov_as_f64 :: "'n \<Rightarrow> f64 option"
  ov_sqrt :: "f64 \<Rightarrow> f64"
  ov_status_text :: "nat \<Rightarrow> string"
  ov_utf8_error :: "string \<Rightarrow> string"

text \<open>The loop, from \<open>attempt\<close> on: the result and the delays slept.\<close>

function send_attempts :: "(nat \<Rightarrow> send_outcome option) \<Rightarrow> string \<Rightarrow> string \<Rightarrow> nat \<Rightarrow> (spi_error + http_response) \<times> nat list" where
  "send_attempts send error_label port attempt =
     (case send attempt of
        None \<Rightarrow> (Inl (PortOperationFailed port (error_label @ '' request could not be rebuilt for send'')), [])
      | Some (Responded response) \<Rightarrow>
          if attempt < length retry_delays_ms \<and> is_retryable_status (hr_status response)
          then map_prod id (Cons (retry_delay attempt)) (send_attempts send error_label port (attempt + 1))
          else (Inr response, [])
      | Some (SendFailed c t r text') \<Rightarrow>
          if attempt < length retry_delays_ms \<and> is_retryable_failure (transport_failure_of c t r)
          then map_prod id (Cons (retry_delay attempt)) (send_attempts send error_label port (attempt + 1))
          else (Inl (PortOperationFailed port (error_label @ '' request failed: '' @ text')), []))"
  by pat_completeness auto
termination
  by (relation "measure (\<lambda>(send, error_label, port, attempt). length retry_delays_ms - attempt)") auto

declare send_attempts.simps [simp del]

definition send_with_retries :: "'n provider_host \<Rightarrow> 'n http_request \<Rightarrow> string \<Rightarrow> string \<Rightarrow> spi_error + http_response" where
  "send_with_retries h request error_label port = fst (send_attempts (ov_send h request) error_label port 0)"

section \<open>Bodies\<close>

definition max_provider_response_bytes :: nat where
  "max_provider_response_bytes = 16 * 1024 * 1024"

fun read_chunks :: "string \<Rightarrow> (string + string) list \<Rightarrow> spi_error + string" where
  "read_chunks body [] = Inr body"
| "read_chunks body (Inl e # chunks) = Inl (PortOperationFailed ''provider-http'' (''provider response read failed: '' @ e))"
| "read_chunks body (Inr chunk # chunks) =
     (if max_provider_response_bytes < length body + length chunk
      then Inl (PortOperationFailed ''provider-http''
        (''provider response exceeds the '' @ nat_text max_provider_response_bytes @ '' byte read cap''))
      else read_chunks (body @ chunk) chunks)"

definition read_body_capped :: "'n provider_host \<Rightarrow> http_response \<Rightarrow> spi_error + string" where
  "read_body_capped h response =
     and_then (read_chunks [] (hr_chunks response)) (\<lambda>body.
       if is_utf8 body then Inr body
       else Inl (PortOperationFailed ''provider-http'' (''provider response is not valid UTF-8: '' @ ov_utf8_error h body)))"

text \<open>From a sent request to the JSON of a successful answer, as all three calls do it.\<close>

definition request_json :: "'n provider_host \<Rightarrow> string \<Rightarrow> string \<Rightarrow> 'n http_request \<Rightarrow> spi_error + 'n json" where
  "request_json h error_label port request =
     and_then (send_with_retries h request error_label port) (\<lambda>response.
     and_then (case read_body_capped h response of
         Inl e \<Rightarrow> Inl (PortOperationFailed port (spi_error_text e)) | Inr body \<Rightarrow> Inr body) (\<lambda>body.
       if hr_status response < 200 \<or> 300 \<le> hr_status response
       then Inl (PortOperationFailed port (error_label @ '' request returned HTTP '' @ ov_status_text h (hr_status response)))
       else case ov_parse h body of
           Inl e \<Rightarrow> Inl (PortOperationFailed port (error_label @ '' response is not JSON: '' @ e))
         | Inr payload \<Rightarrow> Inr payload))"

section \<open>Embeddings\<close>

definition embedding_port_error :: "string \<Rightarrow> spi_error" where
  "embedding_port_error message = PortOperationFailed ''EmbeddingModelPort'' message"

fun json_array :: "'n json \<Rightarrow> 'n json list option" where
  "json_array (JArray vs) = Some vs"
| "json_array _ = None"

definition first_of :: "'a list \<Rightarrow> 'a option" where
  "first_of xs = (case xs of [] \<Rightarrow> None | x # _ \<Rightarrow> Some x)"

definition build_embeddings_request :: "string \<Rightarrow> string \<Rightarrow> 'n json" where
  "build_embeddings_request model input = JObject [(''model'', JString model), (''input'', JArray [JString input])]"

definition build_batch_embeddings_request :: "string \<Rightarrow> string list \<Rightarrow> 'n json" where
  "build_batch_embeddings_request model inputs = JObject [(''model'', JString model), (''input'', JArray (map JString inputs))]"

fun component_f32 :: "('n \<Rightarrow> f64 option) \<Rightarrow> 'n json \<Rightarrow> spi_error + f32" where
  "component_f32 number (JNumber n) =
     (case number n of
        Some x \<Rightarrow> Inr (to_f32 x)
      | None \<Rightarrow> Inl (embedding_port_error ''embedding vector contains a non-numeric component''))"
| "component_f32 number _ = Inl (embedding_port_error ''embedding vector contains a non-numeric component'')"

text \<open>Dividing as \<^verbatim>\<open>f64\<close> and rounding gives the \<^verbatim>\<open>f32\<close> quotient: 53 bits are more than twice 24 and two.\<close>

definition unit_vector :: "(f64 \<Rightarrow> f64) \<Rightarrow> f32 list \<Rightarrow> spi_error + f32 list" where
  "unit_vector sqrt' vector =
     (let norm = sqrt' (f64_sum (map (\<lambda>c. f64_mul c c) vector))
      in if \<not> f64_finite norm \<or> f64_le norm f64_epsilon
         then Inl (embedding_port_error ''embedding vector has zero magnitude'')
         else Inr (map (\<lambda>c. to_f32 (f64_div c (to_f32 norm))) vector))"

definition parse_embeddings_response :: "'n provider_host \<Rightarrow> 'n json \<Rightarrow> spi_error + f32 list" where
  "parse_embeddings_response h payload =
     (case Option.bind (Option.bind (Option.bind (Option.bind (json_get payload ''data'') json_array) first_of)
         (\<lambda>first. json_get first ''embedding'')) json_array of
        None \<Rightarrow> Inl (embedding_port_error ''embedding response is missing data[0].embedding'')
      | Some components \<Rightarrow>
          and_then (collect_results (component_f32 (ov_as_f64 h)) components) (\<lambda>vector.
            if vector = [] then Inl (embedding_port_error ''embedding vector is empty'')
            else unit_vector (ov_sqrt h) vector))"

definition parse_batch_embeddings_response :: "'n provider_host \<Rightarrow> 'n json \<Rightarrow> spi_error + f32 list list" where
  "parse_batch_embeddings_response h payload =
     (case Option.bind (json_get payload ''data'') json_array of
        None \<Rightarrow> Inl (embedding_port_error ''embedding response is missing data'')
      | Some data \<Rightarrow>
          collect_results (\<lambda>entry. parse_embeddings_response h
            (JObject [(''data'', JArray [JObject [(''embedding'',
              case json_get entry ''embedding'' of Some v \<Rightarrow> v | None \<Rightarrow> JNull)]])])) data)"

definition embeddings_request :: "provider_config \<Rightarrow> 'n json \<Rightarrow> 'n http_request" where
  "embeddings_request c body = \<lparr>hq_url = pg_base_url c @ ''/embeddings'', hq_bearer = pg_api_key c, hq_body = body\<rparr>"

definition embed_text :: "'n provider_host \<Rightarrow> provider_config \<Rightarrow> string \<Rightarrow> spi_error + f32 list" where
  "embed_text h c input =
     and_then (request_json h ''embedding'' ''EmbeddingModelPort''
         (embeddings_request c (build_embeddings_request (pg_embedding_model c) input)))
       (parse_embeddings_response h)"

text \<open>\<^verbatim>\<open>is_char_boundary\<close> at a position of the text.\<close>

definition is_boundary_at :: "string \<Rightarrow> nat \<Rightarrow> bool" where
  "is_boundary_at s i \<longleftrightarrow> i = 0 \<or> i = length s \<or> i < length s \<and> char_boundary (s ! i)"

fun boundary_below :: "string \<Rightarrow> nat \<Rightarrow> nat" where
  "boundary_below s 0 = 0"
| "boundary_below s (Suc i) = (if is_boundary_at s (Suc i) then Suc i else boundary_below s i)"

definition truncate_to_byte_budget :: "string \<Rightarrow> nat \<Rightarrow> string" where
  "truncate_to_byte_budget s budget = take (boundary_below s (min budget (length s))) s"

definition budgeted_input :: "nat \<Rightarrow> string \<Rightarrow> string" where
  "budgeted_input budget input =
     (if budget < length input then truncate_to_byte_budget input budget else input)"

text \<open>The loop of the split: finished chunks, the current one and its bytes.\<close>

fun split_chunks :: "nat \<Rightarrow> string list \<Rightarrow> nat \<Rightarrow> string list \<Rightarrow> string list list" where
  "split_chunks budget current current_bytes [] = (if current = [] then [] else [current])"
| "split_chunks budget current current_bytes (input # inputs) =
     (let t = budgeted_input budget input
      in if current \<noteq> [] \<and> budget < current_bytes + length t
         then current # split_chunks budget [t] (length t) inputs
         else split_chunks budget (current @ [t]) (current_bytes + length t) inputs)"

definition split_embed_inputs :: "string list \<Rightarrow> nat \<Rightarrow> string list list" where
  "split_embed_inputs inputs budget = split_chunks (max budget 1) [] 0 inputs"

definition embed_chunk :: "'n provider_host \<Rightarrow> provider_config \<Rightarrow> string list \<Rightarrow> spi_error + f32 list list" where
  "embed_chunk h c chunk =
     and_then (request_json h ''embedding'' ''EmbeddingModelPort''
         (embeddings_request c (build_batch_embeddings_request (pg_embedding_model c) chunk))) (\<lambda>payload.
     and_then (parse_batch_embeddings_response h payload) (\<lambda>vectors.
       if length vectors \<noteq> length chunk
       then Inl (embedding_port_error (''embedding response returned '' @ nat_text (length vectors) @ '' vectors for '' @
         nat_text (length chunk) @ '' inputs''))
       else Inr vectors))"

definition embed_batch :: "'n provider_host \<Rightarrow> provider_config \<Rightarrow> string list \<Rightarrow> spi_error + f32 list list" where
  "embed_batch h c inputs =
     map_sum id concat (collect_results (embed_chunk h c) (split_embed_inputs inputs (pg_embed_batch_max_bytes c)))"

section \<open>Completions\<close>

definition build_chat_request :: "string \<Rightarrow> string \<Rightarrow> 'n json" where
  "build_chat_request model prompt =
     JObject [(''model'', JString model),
       (''messages'', JArray [JObject [(''role'', JString ''user''), (''content'', JString prompt)]]),
       (''response_format'', JObject [(''type'', JString ''json_object'')])]"

fun json_text :: "'n json \<Rightarrow> string option" where
  "json_text (JString s) = Some s"
| "json_text _ = None"

definition parse_chat_response :: "'n json \<Rightarrow> spi_error + string" where
  "parse_chat_response payload =
     (case Option.bind (Option.bind (Option.bind (Option.bind (Option.bind (json_get payload ''choices'') json_array) first_of)
         (\<lambda>first. json_get first ''message'')) (\<lambda>message. json_get message ''content'')) json_text of
        None \<Rightarrow> Inl (PortOperationFailed ''LanguageModelPort'' ''chat response is missing choices[0].message.content'')
      | Some content \<Rightarrow> Inr content)"

definition generate_text :: "'n provider_host \<Rightarrow> provider_config \<Rightarrow> string \<Rightarrow> spi_error + string" where
  "generate_text h c prompt =
     and_then (request_json h ''completion'' ''LanguageModelPort''
         \<lparr>hq_url = pg_base_url c @ ''/chat/completions'', hq_bearer = pg_api_key c,
          hq_body = build_chat_request (pg_chat_model c) prompt\<rparr>)
       parse_chat_response"

end
