(* ===== verification/Provider_Properties.thy ===== *)
theory Provider_Properties
  imports Provider_Client
begin

text \<open>
  Laws of the provider client: what a split of texts into requests keeps, where a text is cut,
  how often a request is sent, and which bodies are read.
\<close>

section \<open>Cutting and splitting\<close>

lemma boundary_below_le: "boundary_below s i \<le> i"
  by (induction i) auto

lemma boundary_below_boundary: "is_boundary_at s (boundary_below s i)"
  by (induction i) (auto simp: is_boundary_at_def)

lemma boundary_below_greatest: "m \<le> i \<Longrightarrow> is_boundary_at s m \<Longrightarrow> m \<le> boundary_below s i"
  by (induction i) (auto simp: le_Suc_eq)

text \<open>The longest prefix within a budget that ends at a character boundary.\<close>

definition longest_prefix :: "nat \<Rightarrow> string \<Rightarrow> string \<Rightarrow> bool" where
  "longest_prefix budget s t \<longleftrightarrow>
     t = take (length t) s \<and> length t \<le> budget \<and> is_boundary_at s (length t) \<and>
     (\<forall>m \<le> min budget (length s). is_boundary_at s m \<longrightarrow> m \<le> length t)"

lemma truncate_longest: "longest_prefix budget s (truncate_to_byte_budget s budget)"
proof -
  have le: "boundary_below s (min budget (length s)) \<le> min budget (length s)" by (rule boundary_below_le)
  hence "length (truncate_to_byte_budget s budget) = boundary_below s (min budget (length s))"
    by (simp add: truncate_to_byte_budget_def)
  thus ?thesis
    using le boundary_below_boundary[of s "min budget (length s)"] boundary_below_greatest[of _ "min budget (length s)" s]
    by (auto simp: longest_prefix_def truncate_to_byte_budget_def)
qed

lemma budgeted_longest: "longest_prefix budget s (budgeted_input budget s)"
  using truncate_longest[of budget s] by (auto simp: budgeted_input_def longest_prefix_def is_boundary_at_def)

lemma budgeted_length: "length (budgeted_input budget s) \<le> budget"
  using budgeted_longest[of budget s] by (simp add: longest_prefix_def)

lemma split_chunks_concat: "concat (split_chunks b current n inputs) = current @ map (budgeted_input b) inputs"
  by (induction b current n inputs rule: split_chunks.induct) (auto simp: Let_def)

definition bytes_of :: "string list \<Rightarrow> nat" where
  "bytes_of texts = sum_list (map length texts)"

lemma split_chunks_bounded:
  assumes "n = bytes_of current" "n \<le> b"
  shows "\<forall>chunk \<in> set (split_chunks b current n inputs). chunk \<noteq> [] \<and> bytes_of chunk \<le> b"
  using assms
proof (induction b current n inputs rule: split_chunks.induct)
  case (2 b current n input inputs)
  let ?t = "budgeted_input b input"
  have t: "length ?t \<le> b" by (rule budgeted_length)
  show ?case
  proof (cases "current \<noteq> [] \<and> b < n + length ?t")
    case True
    have "\<forall>chunk \<in> set (split_chunks b [?t] (length ?t) inputs). chunk \<noteq> [] \<and> bytes_of chunk \<le> b"
      using 2(1)[OF refl True] t by (simp add: bytes_of_def)
    with True 2(3,4) show ?thesis by (simp add: Let_def)
  next
    case False
    have "n + length ?t \<le> b" using False t 2(3) by (cases "current = []") (simp_all add: bytes_of_def)
    with 2(2)[OF refl False] 2(3)
    have "\<forall>chunk \<in> set (split_chunks b (current @ [?t]) (n + length ?t) inputs). chunk \<noteq> [] \<and> bytes_of chunk \<le> b"
      by (simp add: bytes_of_def)
    thus ?thesis using False by (simp only: split_chunks.simps Let_def if_False)
  qed
qed (auto simp: bytes_of_def)

text \<open>A request is closed only when the next text does not fit.\<close>

fun closed_when_full :: "nat \<Rightarrow> string list list \<Rightarrow> bool" where
  "closed_when_full b (chunk # next # chunks) \<longleftrightarrow>
     b < bytes_of chunk + length (hd next) \<and> closed_when_full b (next # chunks)"
| "closed_when_full b chunks \<longleftrightarrow> True"

lemma split_chunks_head:
  "current \<noteq> [] \<Longrightarrow> \<exists>rest chunks. split_chunks b current n inputs = (current @ rest) # chunks"
proof (induction b current n inputs rule: split_chunks.induct)
  case (2 b current n input inputs)
  show ?case
  proof (cases "current \<noteq> [] \<and> b < n + length (budgeted_input b input)")
    case True thus ?thesis by (auto simp: Let_def)
  next
    case False
    from 2(2)[OF refl False] show ?thesis using False by (auto simp: Let_def)
  qed
qed auto

lemma split_chunks_full:
  "n = bytes_of current \<Longrightarrow> closed_when_full b (split_chunks b current n inputs)"
proof (induction b current n inputs rule: split_chunks.induct)
  case (2 b current n input inputs)
  let ?t = "budgeted_input b input"
  show ?case
  proof (cases "current \<noteq> [] \<and> b < n + length ?t")
    case True
    obtain rest chunks where s: "split_chunks b [?t] (length ?t) inputs = ([?t] @ rest) # chunks"
      using split_chunks_head[of "[?t]" b "length ?t" inputs] by auto
    have "closed_when_full b (split_chunks b [?t] (length ?t) inputs)"
      using 2(1)[OF refl True] by (simp add: bytes_of_def)
    with True s 2(3) show ?thesis by (simp add: Let_def)
  next
    case False
    with 2(2)[OF refl False] 2(3) show ?thesis by (auto simp: Let_def bytes_of_def)
  qed
qed auto

section \<open>Vectors for texts\<close>

lemma embed_chunk_length: "embed_chunk h c chunk = Inr vectors \<Longrightarrow> length vectors = length chunk"
  by (auto simp: embed_chunk_def and_then_def split: sum.splits if_splits)

lemma collect_chunks_length:
  "collect_results (embed_chunk h c) chunks = Inr vss \<Longrightarrow> map length vss = map length chunks"
  by (induction chunks arbitrary: vss) (auto simp: and_then_def embed_chunk_length split: sum.splits)

lemma unit_vector_nonempty: "unit_vector root v = Inr w \<Longrightarrow> length w = length v"
  by (auto simp: unit_vector_def Let_def split: if_splits)

section \<open>Attempts\<close>

text \<open>An outcome that clears on its own, and what the caller is given for the last one.\<close>

fun transient :: "send_outcome option \<Rightarrow> bool" where
  "transient None \<longleftrightarrow> False"
| "transient (Some (Responded r)) \<longleftrightarrow> hr_status r = 429 \<or> hr_status r div 100 = 5"
| "transient (Some (SendFailed c t r _)) \<longleftrightarrow> c \<or> t \<or> r"

fun outcome_result :: "string \<Rightarrow> string \<Rightarrow> send_outcome option \<Rightarrow> spi_error + http_response" where
  "outcome_result label port None = Inl (PortOperationFailed port (label @ '' request could not be rebuilt for send''))"
| "outcome_result label port (Some (Responded r)) = Inr r"
| "outcome_result label port (Some (SendFailed _ _ _ e)) = Inl (PortOperationFailed port (label @ '' request failed: '' @ e))"

lemma retryable_status_500: "is_retryable_status s \<longleftrightarrow> s = 429 \<or> s div 100 = 5"
proof -
  have "s div 100 = 5 \<longleftrightarrow> 500 \<le> s \<and> s \<le> 599" by linarith
  thus ?thesis by (simp add: is_retryable_status_def)
qed

lemma retryable_failure_flags: "is_retryable_failure (transport_failure_of c t r) \<longleftrightarrow> c \<or> t \<or> r"
  by (simp add: is_retryable_failure_def transport_failure_of_def)

lemma send_attempts_step:
  "send_attempts send label port n =
     (if n < 2 \<and> transient (send n)
      then map_prod id (Cons (retry_delays_ms ! n)) (send_attempts send label port (n + 1))
      else (outcome_result label port (send n), []))"
proof -
  have d: "n < 2 \<Longrightarrow> retry_delay n = retry_delays_ms ! n" by (auto simp: retry_delay_def retry_delays_ms_def)
  have l: "length retry_delays_ms = 2" by (simp add: retry_delays_ms_def)
  show ?thesis
  proof (cases "send n")
    case None thus ?thesis by (subst send_attempts.simps) simp
  next
    case (Some x)
    thus ?thesis
      by (cases x; subst send_attempts.simps; simp add: l d retryable_status_500 retryable_failure_flags; blast)
  qed
qed

lemma send_attempts_exact:
  "send_attempts send label port 0 =
     (let n = (if \<not> transient (send 0) then 0 else if \<not> transient (send 1) then 1 else 2)
      in (outcome_result label port (send n), take n [250, 1000]))"
  using send_attempts_step[of send label port 0] send_attempts_step[of send label port 1]
    send_attempts_step[of send label port 2]
  by (simp add: retry_delays_ms_def Let_def numeral_2_eq_2)

section \<open>Bodies\<close>

lemma read_chunks_exact:
  "read_chunks body chunks = Inr whole \<longleftrightarrow>
     (\<exists>parts. chunks = map Inr parts \<and> whole = body @ concat parts \<and>
       (parts = [] \<or> length whole \<le> max_provider_response_bytes))"
proof (induction body chunks rule: read_chunks.induct)
  case (3 body chunk chunks)
  have "(\<exists>parts. Inr chunk # chunks = map Inr parts \<and> whole = body @ concat parts \<and>
       (parts = [] \<or> length whole \<le> max_provider_response_bytes)) \<longleftrightarrow>
     (\<exists>parts. chunks = map Inr parts \<and> whole = body @ chunk @ concat parts \<and>
       length whole \<le> max_provider_response_bytes)"
    by (auto simp: Cons_eq_map_conv)
  with 3 show ?case by (auto simp: not_less)
qed auto

text \<open>
  The property of the provider client: what one call of it sends, how often, and what it reads back.
\<close>

text \<open>Two texts with a budget of one byte, answered by one vector of one component for each request.\<close>

definition sample_payload :: "unit json" where
  "sample_payload = JObject [(''data'', JArray [JObject [(''embedding'', JArray [JNumber ()])]])]"

definition sample_provider :: "unit provider_host" where
  "sample_provider =
     \<lparr>ov_send = (\<lambda>_ attempt. if attempt = 0 then Some (Responded \<lparr>hr_status = 429, hr_chunks = []\<rparr>)
        else Some (Responded \<lparr>hr_status = 200, hr_chunks = [Inr ''o'', Inr ''k'']\<rparr>)),
      ov_parse = (\<lambda>body. if body = ''ok'' then Inr sample_payload else Inl ''EOF''),
      ov_as_f64 = (\<lambda>_. Some f64_one), ov_sqrt = (\<lambda>_. f64_one), ov_status_text = nat_text, ov_utf8_error = (\<lambda>_. '''')\<rparr>"

definition sample_config :: provider_config where
  "sample_config =
     \<lparr>pg_base_url = default_base_url, pg_api_key = ''k'', pg_embedding_model = default_embedding_model,
      pg_embedding_dimensions = 1, pg_chat_model = default_chat_model, pg_timeout_secs = 30,
      pg_embed_batch_max_bytes = 1\<rparr>"

lemma embed_batch_vectors:
  assumes "embed_batch h c inputs = Inr vectors"
  shows "length vectors = length inputs"
proof -
  let ?requests = "split_embed_inputs inputs (pg_embed_batch_max_bytes c)"
  obtain vss where "collect_results (embed_chunk h c) ?requests = Inr vss" "vectors = concat vss"
    using assms by (auto simp: embed_batch_def map_sum_def split: sum.splits) 
  hence "length vectors = length (concat ?requests)"
    using collect_chunks_length[of h c ?requests vss] by (simp add: length_concat)
  thus ?thesis by (simp add: split_embed_inputs_def split_chunks_concat)
qed

lemma read_body_exact:
  "read_body_capped h response = Inr body \<longleftrightarrow>
     (\<exists>parts. hr_chunks response = map Inr parts \<and> body = concat parts \<and>
        length body \<le> max_provider_response_bytes \<and> is_utf8 body)"
  by (auto simp: read_body_capped_def and_then_Inr read_chunks_exact max_provider_response_bytes_def)

lemma split_requests_exact:
  "let budget = max (pg_embed_batch_max_bytes c) 1; requests = split_embed_inputs inputs (pg_embed_batch_max_bytes c)
   in concat requests = map (budgeted_input budget) inputs \<and>
      list_all (\<lambda>text'. longest_prefix budget text' (budgeted_input budget text')) inputs \<and>
      list_all (\<lambda>request. request \<noteq> [] \<and> bytes_of request \<le> budget) requests \<and>
      closed_when_full budget requests"
proof -
  let ?b = "max (pg_embed_batch_max_bytes c) 1"
  have "\<forall>chunk \<in> set (split_chunks ?b [] 0 inputs). chunk \<noteq> [] \<and> bytes_of chunk \<le> ?b"
    by (rule split_chunks_bounded) (simp_all add: bytes_of_def)
  moreover have "closed_when_full ?b (split_chunks ?b [] 0 inputs)"
    by (rule split_chunks_full) (simp add: bytes_of_def)
  ultimately show ?thesis
    by (simp add: Let_def split_embed_inputs_def split_chunks_concat budgeted_longest list_all_iff)
qed

text \<open>
  C9. A call of the provider. The requests of a batch carry every text once, in order, cut to the longest
  prefix within the budget that ends at a character boundary; no request is empty or over the budget,
  and none is closed while the next text fits. A batch that succeeds has one vector for each text. A
  request is sent at most three times: its outcome is that of the first attempt that is not
  transient, or of the third, after the pauses of 250 and 1000 milliseconds between. A body is read
  exactly when each chunk arrives, they are valid UTF-8 together, and at most 16 MiB.
\<close>

theorem provider_calls_exact:
  "(let budget = max (pg_embed_batch_max_bytes c) 1; requests = split_embed_inputs inputs (pg_embed_batch_max_bytes c)
    in concat requests = map (budgeted_input budget) inputs \<and>
       list_all (\<lambda>text'. longest_prefix budget text' (budgeted_input budget text')) inputs \<and>
       list_all (\<lambda>request. request \<noteq> [] \<and> bytes_of request \<le> budget) requests \<and>
       closed_when_full budget requests) \<and>
   (embed_batch h c inputs = Inr vectors \<longrightarrow> length vectors = length inputs) \<and>
   send_attempts send label port 0 =
     (let n = (if \<not> transient (send 0) then 0 else if \<not> transient (send 1) then 1 else 2)
      in (outcome_result label port (send n), take n [250, 1000])) \<and>
   (read_body_capped h response = Inr body \<longleftrightarrow>
     (\<exists>parts. hr_chunks response = map Inr parts \<and> body = concat parts \<and>
        length body \<le> max_provider_response_bytes \<and> is_utf8 body))"
  using split_requests_exact[where inputs = inputs and c = c] embed_batch_vectors[of h c inputs vectors]
    send_attempts_exact[of send label port] read_body_exact[of h response body]
  by (intro conjI impI)

lemma sample_requests: "split_embed_inputs [''a'', ''b''] (Suc 0) = [[''a''], [''b'']]"
  by (simp add: split_embed_inputs_def budgeted_input_def)

lemma sample_chunk: "\<exists>v. embed_chunk sample_provider sample_config [[c]] = Inr [v]"
proof -
  let ?r = "embeddings_request sample_config (build_batch_embeddings_request (pg_embedding_model sample_config) [[c]])"
  have "send_with_retries sample_provider ?r ''embedding'' ''EmbeddingModelPort'' =
      Inr \<lparr>hr_status = 200, hr_chunks = [Inr ''o'', Inr ''k'']\<rparr>"
    unfolding send_with_retries_def send_attempts_exact by (simp add: sample_provider_def)
  moreover have "is_utf8 ''ok''"
    by (simp add: is_utf8_def Let_def utf8_def utf8_char_def scalar_value_def char_of_def bit_0)
  hence "read_body_capped sample_provider \<lparr>hr_status = 200, hr_chunks = [Inr ''o'', Inr ''k'']\<rparr> = Inr ''ok''"
    by (simp add: read_body_capped_def max_provider_response_bytes_def)
  ultimately have "request_json sample_provider ''embedding'' ''EmbeddingModelPort'' ?r = Inr sample_payload"
    by (simp add: request_json_def) (simp add: sample_provider_def)
  moreover have "f64_finite f64_one" "\<not> f64_le f64_one f64_epsilon"
    by (simp_all add: f64_one_def f64_epsilon_def)
  ultimately show ?thesis
    by (simp add: embed_chunk_def parse_batch_embeddings_response_def parse_embeddings_response_def sample_payload_def
        first_of_def unit_vector_def Let_def sample_provider_def)
qed

theorem provider_calls_exact_witness:
  "\<exists>u v. embed_batch sample_provider sample_config [''a'', ''b''] = Inr [u, v] \<and>
     length [u, v] = length [''a'', ''b'']"
proof -
  obtain u v where "embed_chunk sample_provider sample_config [''a''] = Inr [u]"
      "embed_chunk sample_provider sample_config [''b''] = Inr [v]"
    using sample_chunk by metis
  moreover have "pg_embed_batch_max_bytes sample_config = 1" by (simp add: sample_config_def)
  ultimately have e: "embed_batch sample_provider sample_config [''a'', ''b''] = Inr [u, v]"
    by (simp add: embed_batch_def sample_requests)
  have "length [u, v] = length [''a'', ''b'']"
    using provider_calls_exact [where h = sample_provider and c = sample_config and inputs = "[''a'', ''b'']" and
        vectors = "[u, v]"] e by blast
  with e show ?thesis by blast
qed

end
