(* ===== verification/Tenant_Quota.thy ===== *)
theory Tenant_Quota
  imports Service_Types
begin

text \<open>
  Quota limits of a tenant (\<^verbatim>\<open>tenant_quota.rs\<close>, and the policy lookup of \<^verbatim>\<open>commercial_store.rs\<close>): environment
  defaults, the newest active policy on top, and the cache of at most 1024 resolutions that holds
  each for 60 seconds. Instants are nanoseconds; the reading of the policy's JSON is a parameter.
\<close>

section \<open>Limits and policies\<close>

record quota_limits =
  ql_max_records_per_space :: u64
  ql_max_spaces_per_user :: u64

definition quota_limits_from_env :: "(string \<Rightarrow> i64 option) \<Rightarrow> env \<Rightarrow> quota_limits" where
  "quota_limits_from_env parse_int env =
     \<lparr>ql_max_records_per_space = read_env_u64 parse_int env ''SDKWORK_MEMORY_MAX_RECORDS_PER_SPACE'' 100000,
      ql_max_spaces_per_user = read_env_u64 parse_int env ''SDKWORK_MEMORY_MAX_SPACES_PER_USER'' 100\<rparr>"

record quota_policy =
  qp_max_records_per_space :: "u64 option"
  qp_max_spaces_per_user :: "u64 option"

definition positive_limit :: "u64 option \<Rightarrow> string \<Rightarrow> string + u64 option" where
  "positive_limit raw key =
     (if raw = Some 0 then Inl (''tenant memory.quota policy limit '' @ key @ '' must be positive'') else Inr raw)"

definition parse_tenant_quota_policy_json :: "(string \<Rightarrow> string + quota_policy) \<Rightarrow> string \<Rightarrow> string + quota_policy" where
  "parse_tenant_quota_policy_json decode policy_json =
     (case decode policy_json of
        Inl e \<Rightarrow> Inl (''tenant memory.quota policy is not valid JSON: '' @ e)
      | Inr parsed \<Rightarrow>
          and_then (positive_limit (qp_max_records_per_space parsed) ''maxRecordsPerSpace'') (\<lambda>r.
          and_then (positive_limit (qp_max_spaces_per_user parsed) ''maxSpacesPerUser'') (\<lambda>s.
            Inr \<lparr>qp_max_records_per_space = r, qp_max_spaces_per_user = s\<rparr>)))"

text \<open>The columns of \<^verbatim>\<open>ai_policy\<close> the lookup reads.\<close>

record policy_row =
  po_id :: i64
  po_tenant_id :: i64
  po_policy_type :: string
  po_scope :: string
  po_scope_ref :: "string option"
  po_status :: string
  po_policy_json :: string

definition active_quota_policy :: "i64 \<Rightarrow> policy_row \<Rightarrow> bool" where
  "active_quota_policy tenant_id p \<longleftrightarrow>
     po_tenant_id p = tenant_id \<and> po_policy_type p = ''memory.quota'' \<and> po_scope p = ''tenant'' \<and>
     po_status p = ''active'' \<and> po_scope_ref p = Some (i64_text tenant_id)"

text \<open>\<^verbatim>\<open>ORDER BY id DESC LIMIT 1\<close>.\<close>

definition newest_quota_policy :: "policy_row list \<Rightarrow> i64 \<Rightarrow> policy_row option" where
  "newest_quota_policy table tenant_id =
     (case rev (sort_key (\<lambda>p. sint (po_id p)) (filter (active_quota_policy tenant_id) table)) of
        [] \<Rightarrow> None
      | p # _ \<Rightarrow> Some p)"

definition find_active_tenant_quota_policy :: "(string \<Rightarrow> string + quota_policy) \<Rightarrow> policy_row list \<Rightarrow> i64 \<Rightarrow>
    string + quota_policy option" where
  "find_active_tenant_quota_policy decode table tenant_id =
     (case newest_quota_policy table tenant_id of
        None \<Rightarrow> Inr None
      | Some p \<Rightarrow> map_sum id Some (parse_tenant_quota_policy_json decode (po_policy_json p)))"

definition resolve_quota_limits_uncached :: "(string \<Rightarrow> string + quota_policy) \<Rightarrow> policy_row list \<Rightarrow> quota_limits \<Rightarrow> i64 \<Rightarrow>
    service_error + quota_limits" where
  "resolve_quota_limits_uncached decode table env_limits tenant_id =
     (case find_active_tenant_quota_policy decode table tenant_id of
        Inl e \<Rightarrow> Inl (err_storage (''tenant quota policy lookup failed: '' @ e))
      | Inr None \<Rightarrow> Inr env_limits
      | Inr (Some p) \<Rightarrow>
          Inr \<lparr>ql_max_records_per_space =
                 (case qp_max_records_per_space p of Some n \<Rightarrow> n | None \<Rightarrow> ql_max_records_per_space env_limits),
               ql_max_spaces_per_user =
                 (case qp_max_spaces_per_user p of Some n \<Rightarrow> n | None \<Rightarrow> ql_max_spaces_per_user env_limits)\<rparr>)"

section \<open>The cache\<close>

definition quota_policy_cache_capacity :: nat where
  "quota_policy_cache_capacity = 1024"

definition quota_policy_cache_ttl :: nat where
  "quota_policy_cache_ttl = 60 * 1000000000"

record cached_quota =
  ce_limits :: quota_limits
  ce_cached_at :: nat

type_synonym quota_key = "i64 \<times> u64 \<times> u64"

type_synonym quota_cache = "(quota_key, cached_quota) hmap"

definition quota_key_of :: "i64 \<Rightarrow> quota_limits \<Rightarrow> quota_key" where
  "quota_key_of tenant_id env_limits =
     (tenant_id, ql_max_records_per_space env_limits, ql_max_spaces_per_user env_limits)"

definition cached_quota_limits :: "quota_key \<Rightarrow> nat \<Rightarrow> quota_cache \<Rightarrow> quota_limits option \<times> quota_cache" where
  "cached_quota_limits key now cache =
     (case hm_get cache key of
        None \<Rightarrow> (None, cache)
      | Some entry \<Rightarrow>
          if quota_policy_cache_ttl < now - ce_cached_at entry then (None, hm_remove key cache)
          else (Some (ce_limits entry), cache))"

definition cache_quota_limits :: "quota_key \<Rightarrow> quota_limits \<Rightarrow> nat \<Rightarrow> quota_cache \<Rightarrow> quota_cache" where
  "cache_quota_limits key limits now cache =
     hm_insert key \<lparr>ce_limits = limits, ce_cached_at = now\<rparr>
       (if quota_policy_cache_capacity \<le> length cache then [] else cache)"

text \<open>The instants are those of the lookup in the cache and of the insertion.\<close>

definition resolve_quota_limits :: "(string \<Rightarrow> string + quota_policy) \<Rightarrow> policy_row list \<Rightarrow> quota_limits \<Rightarrow> nat \<Rightarrow> nat \<Rightarrow> i64 \<Rightarrow>
    (quota_cache, quota_limits) service_op" where
  "resolve_quota_limits decode table env_limits looked_up stored tenant_id cache =
     (let key = quota_key_of tenant_id env_limits
      in case cached_quota_limits key looked_up cache of
           (Some limits, cache) \<Rightarrow> (Inr limits, cache)
         | (None, cache) \<Rightarrow>
             (case resolve_quota_limits_uncached decode table env_limits tenant_id of
                Inl e \<Rightarrow> (Inl e, cache)
              | Inr limits \<Rightarrow> (Inr limits, cache_quota_limits key limits stored cache)))"

section \<open>Admissions\<close>

definition resolve_space_record_quota_admission :: "scope_context \<Rightarrow> 'a record_admission \<Rightarrow> service_error + 'a" where
  "resolve_space_record_quota_admission scope admission =
     (case admission of
        Admitted value \<Rightarrow> Inr value
      | QuotaExceeded _ max_active \<Rightarrow>
          Inl (err_quota_exceeded (''memory space '' @ i64_text (sc_space_id scope) @ '' reached the maximum of '' @
            nat_text max_active @ '' active records'')))"

definition resolve_user_space_quota_admission :: "string \<Rightarrow> 'a space_admission \<Rightarrow> service_error + 'a" where
  "resolve_user_space_quota_admission owner_subject_id admission =
     (case admission of
        SpaceAdmitted value \<Rightarrow> Inr value
      | SpaceQuotaExceeded _ max_active \<Rightarrow>
          Inl (err_quota_exceeded (''user '' @ owner_subject_id @ '' reached the maximum of '' @
            nat_text max_active @ '' memory spaces for this tenant'')))"

section \<open>Laws\<close>

text \<open>
  Every entry was resolved from the policies at some instant no later than its time stamp; \<open>tables\<close>
  gives the policies at each instant.
\<close>

definition quota_cache_ok :: "(string \<Rightarrow> string + quota_policy) \<Rightarrow> (nat \<Rightarrow> policy_row list) \<Rightarrow> quota_cache \<Rightarrow> bool" where
  "quota_cache_ok decode tables cache \<longleftrightarrow>
     hm_ok cache \<and> length cache \<le> quota_policy_cache_capacity \<and>
     (\<forall>tenant_id records spaces entry. hm_get cache (tenant_id, records, spaces) = Some entry \<longrightarrow>
       (\<exists>read \<le> ce_cached_at entry.
         resolve_quota_limits_uncached decode (tables read)
           \<lparr>ql_max_records_per_space = records, ql_max_spaces_per_user = spaces\<rparr> tenant_id = Inr (ce_limits entry)))"

inductive quota_cache_reachable :: "(string \<Rightarrow> string + quota_policy) \<Rightarrow> (nat \<Rightarrow> policy_row list) \<Rightarrow> quota_cache \<Rightarrow> bool"
  for decode tables where
  empty: "quota_cache_reachable decode tables []"
| resolve: "quota_cache_reachable decode tables cache \<Longrightarrow> read \<le> stored \<Longrightarrow>
    resolve_quota_limits decode (tables read) env_limits looked_up stored tenant_id cache = (r, cache') \<Longrightarrow>
    quota_cache_reachable decode tables cache'"

lemma quota_key_limits:
  "quota_key_of tenant_id env_limits =
     (tenant_id, ql_max_records_per_space env_limits, ql_max_spaces_per_user env_limits)"
  "\<lparr>ql_max_records_per_space = ql_max_records_per_space env_limits,
     ql_max_spaces_per_user = ql_max_spaces_per_user env_limits\<rparr> = env_limits"
  by (simp_all add: quota_key_of_def)

lemma quota_cache_ok_empty: "quota_cache_ok decode tables []"
  by (simp add: quota_cache_ok_def hm_get_def)

lemma quota_cache_ok_remove:
  assumes "quota_cache_ok decode tables cache"
  shows "quota_cache_ok decode tables (hm_remove key cache)"
proof -
  have "length (hm_remove key cache) \<le> length cache"
    using assms by (simp add: quota_cache_ok_def hm_length_remove)
  thus ?thesis using assms unfolding quota_cache_ok_def by (auto split: if_splits)
qed

lemma quota_cache_ok_insert:
  assumes ok: "quota_cache_ok decode tables cache" and "read \<le> stored"
    and limits: "resolve_quota_limits_uncached decode (tables read) env_limits tenant_id = Inr limits"
  shows "quota_cache_ok decode tables (cache_quota_limits (quota_key_of tenant_id env_limits) limits stored cache)"
proof -
  let ?rest = "if quota_policy_cache_capacity \<le> length cache then [] else cache"
  have rest: "quota_cache_ok decode tables ?rest"
    using ok quota_cache_ok_empty by simp
  have short: "length ?rest < quota_policy_cache_capacity"
    by (simp add: quota_policy_cache_capacity_def)
  have len: "length (cache_quota_limits (quota_key_of tenant_id env_limits) limits stored cache) \<le> quota_policy_cache_capacity"
    using rest short unfolding cache_quota_limits_def quota_cache_ok_def by (simp add: hm_length_insert)
  have "\<exists>read \<le> stored. resolve_quota_limits_uncached decode (tables read)
      \<lparr>ql_max_records_per_space = ql_max_records_per_space env_limits,
       ql_max_spaces_per_user = ql_max_spaces_per_user env_limits\<rparr> tenant_id = Inr limits"
    unfolding quota_key_limits(2) using assms(2) limits by auto
  thus ?thesis
    using rest len unfolding quota_cache_ok_def cache_quota_limits_def quota_key_limits(1)
    by (auto split: if_splits)
qed

lemma resolve_quota_ok:
  assumes ok: "quota_cache_ok decode tables cache" and le: "read \<le> stored"
    and r: "resolve_quota_limits decode (tables read) env_limits looked_up stored tenant_id cache = (r, cache')"
  shows "quota_cache_ok decode tables cache'"
proof -
  let ?key = "quota_key_of tenant_id env_limits"
  have kept: "quota_cache_ok decode tables (snd (cached_quota_limits ?key looked_up cache))"
    using ok quota_cache_ok_remove by (auto simp: cached_quota_limits_def split: option.split)
  show ?thesis
  proof (cases "cached_quota_limits ?key looked_up cache")
    case (Pair found rest)
    with kept have rest: "quota_cache_ok decode tables rest" by simp
    show ?thesis
      using r rest quota_cache_ok_insert[OF rest le, of env_limits tenant_id] Pair
      by (auto simp: resolve_quota_limits_def Let_def split: option.splits sum.splits)
  qed
qed

lemma quota_cache_reachable_ok: "quota_cache_reachable decode tables cache \<Longrightarrow> quota_cache_ok decode tables cache"
  by (induction rule: quota_cache_reachable.induct) (auto intro: quota_cache_ok_empty resolve_quota_ok)

lemma resolve_quota_cases:
  "resolve_quota_limits decode table env_limits looked_up stored tenant_id cache = (r, cache') \<Longrightarrow>
     (\<exists>entry. hm_get cache (quota_key_of tenant_id env_limits) = Some entry \<and>
        looked_up \<le> ce_cached_at entry + quota_policy_cache_ttl \<and> r = Inr (ce_limits entry)) \<or>
     r = resolve_quota_limits_uncached decode table env_limits tenant_id"
  by (auto simp: resolve_quota_limits_def cached_quota_limits_def Let_def split: option.splits if_splits sum.splits)

lemma uncached_limits:
  assumes "resolve_quota_limits_uncached decode table env_limits tenant_id = Inr limits"
  shows "ql_max_records_per_space limits = ql_max_records_per_space env_limits \<or> 0 < ql_max_records_per_space limits"
    and "ql_max_spaces_per_user limits = ql_max_spaces_per_user env_limits \<or> 0 < ql_max_spaces_per_user limits"
  using assms
  by (auto simp: resolve_quota_limits_uncached_def find_active_tenant_quota_policy_def map_sum_def
      parse_tenant_quota_policy_json_def positive_limit_def and_then_Inr word_neq_0_conv
      split: option.splits sum.splits if_splits)

end
