(* ===== verification/Request_Checks.thy ===== *)
theory Request_Checks
  imports Service_Types Retrieval_Signals Retrieval_Fusion
begin

text \<open>
  Checks on requests before any store or provider works on them: text that looks like a credential
  (\<^verbatim>\<open>sensitive_content.rs\<close>), and queries, limits, retrievers, strategies and fusion policies
  (\<^verbatim>\<open>retrieval_profile.rs\<close>). Matching a pattern is the regex crate's, a parameter.
\<close>

section \<open>Credentials\<close>

text \<open>The patterns, written with a back quote for each backslash.\<close>

definition regex_text :: "string \<Rightarrow> string" where
  "regex_text s = map (\<lambda>c. if c = CHR ''`'' then CHR 0x5C else c) s"

definition sensitive_patterns :: "string list" where
  "sensitive_patterns = map regex_text
     [''(?i)`b(api[_-]?key|secret[_-]?key|access[_-]?token|auth[_-]?token)`s*[:=]`s*`S{8,}'',
      ''(?i)`b(password|passwd|pwd)`s*[:=]`s*`S+'',
      ''(?i)`b(bearer`s+[a-z0-9`-_`.~`+/]+=*)'',
      ''(?i)`b(sk-[a-z0-9]{20,}|xox[baprs]-[a-z0-9-]{10,})'',
      ''-----BEGIN (?:RSA |EC |OPENSSH )?PRIVATE KEY-----'',
      ''(?i)`baws[_-]?(?:secret|access)[_-]?key`s*[:=]`s*`S+'',
      ''`beyJ[a-zA-Z0-9_-]{10,}`.eyJ[a-zA-Z0-9_-]{10,}`.[a-zA-Z0-9_-]{10,}`b'',
      ''`b(ghp_[a-zA-Z0-9]{36}|gho_[a-zA-Z0-9]{36}|ghu_[a-zA-Z0-9]{36}|ghs_[a-zA-Z0-9]{36}|ghr_[a-zA-Z0-9]{76})`b'',
      ''`bAIza[a-zA-Z0-9_-]{35}`b'',
      ''(?i)`b(?:postgres|mysql|mongodb|redis|amqp)://[^:`s]+:[^@`s]+@'',
      ''(?i)`b(account[_-]?key|storage[_-]?key)`s*[:=]`s*[A-Za-z0-9+/=]{60,}'']"

fun assert_memory_text_is_safe :: "(string \<Rightarrow> string \<Rightarrow> bool) \<Rightarrow> (string \<times> string) list \<Rightarrow> service_error + unit" where
  "assert_memory_text_is_safe is_match [] = Inr ()"
| "assert_memory_text_is_safe is_match ((label, value) # entries) =
     (if \<not> is_blank value \<and> list_ex (\<lambda>pattern. is_match pattern value) sensitive_patterns
      then Inl (err_validation (''memory '' @ label @ '' rejected: sensitive credential-like content is not allowed''))
      else assert_memory_text_is_safe is_match entries)"

lemma text_is_safe:
  "assert_memory_text_is_safe is_match entries = Inr () \<longleftrightarrow>
     (\<forall>(label, value) \<in> set entries. is_blank value \<or> (\<forall>pattern \<in> set sensitive_patterns. \<not> is_match pattern value))"
  by (induction is_match entries rule: assert_memory_text_is_safe.induct) (auto simp: list_ex_iff)

section \<open>Retrieval requests\<close>

definition supported_retrievers :: "string list" where
  "supported_retrievers = [''keyword'', ''dictionary'', ''sql'', ''time'', ''event'', ''entity'', ''vector'']"

definition max_retrieval_query_chars :: nat where
  "max_retrieval_query_chars = 8192"

definition max_context_budget_tokens :: i32 where
  "max_context_budget_tokens = 100000"

definition validate_retrieval_query :: "string \<Rightarrow> service_error + unit" where
  "validate_retrieval_query query =
     (if trim query = [] then Inl (err_validation ''query must not be blank'')
      else if max_retrieval_query_chars < length (chars query)
      then Inl (err_validation (''query must not exceed '' @ nat_text max_retrieval_query_chars @ '' characters''))
      else Inr ())"

definition validate_retrieval_limits :: "i32 \<Rightarrow> i32 \<Rightarrow> service_error + unit" where
  "validate_retrieval_limits top_k context_budget_tokens =
     (if sint top_k < 1 \<or> sint max_retrieval_top_k < sint top_k
      then Inl (err_validation (''topK must be between 1 and '' @ nat_text (unat max_retrieval_top_k)))
      else if sint context_budget_tokens < 1
      then Inl (err_validation ''contextBudgetTokens must be at least 1'')
      else if sint max_context_budget_tokens < sint context_budget_tokens
      then Inl (err_validation (''contextBudgetTokens must not exceed '' @ nat_text (unat max_context_budget_tokens)))
      else Inr ())"

fun json_object :: "'n json \<Rightarrow> (string \<times> 'n json) list option" where
  "json_object (JObject entries) = Some entries"
| "json_object _ = None"

fun json_number :: "('n \<Rightarrow> f64 option) \<Rightarrow> 'n json \<Rightarrow> f64 option" where
  "json_number number (JNumber n) = number n"
| "json_number number _ = None"

fun json_string :: "'n json \<Rightarrow> string option" where
  "json_string (JString s) = Some s"
| "json_string _ = None"

definition quoted_name :: "string \<Rightarrow> string" where
  "quoted_name name = [CHR 0x27] @ name @ [CHR 0x27]"

fun comma_joined :: "string list \<Rightarrow> string" where
  "comma_joined [] = []"
| "comma_joined [s] = s"
| "comma_joined (s # ss) = s @ '', '' @ comma_joined ss"

definition weight_in_range :: "f64 \<Rightarrow> bool" where
  "weight_in_range weight \<longleftrightarrow> f64_finite weight \<and> f64_lt f64_zero weight \<and> f64_le weight (f64_of_nat 10)"

definition retriever_config_weight :: "('n \<Rightarrow> f64 option) \<Rightarrow> 'n json \<Rightarrow> f64 option" where
  "retriever_config_weight number config =
     (case Option.bind (Option.bind (json_object config) (\<lambda>entries. map_of entries ''weight'')) (json_number number) of
        Some weight \<Rightarrow> if weight_in_range weight then Some weight else None
      | None \<Rightarrow> None)"

fun check_retrievers :: "('n \<Rightarrow> f64 option) \<Rightarrow> (string \<times> 'n json) list \<Rightarrow> service_error + unit" where
  "check_retrievers number [] = Inr ()"
| "check_retrievers number ((key, config) # rest) =
     (if key \<notin> set supported_retrievers
      then Inl (err_validation (''unsupported retriever '' @ quoted_name key @ '': supported values are '' @
        comma_joined supported_retrievers))
      else if retriever_config_weight number config = None
      then Inl (err_validation (''retriever '' @ quoted_name key @
        '' weight must be a finite number greater than 0 and at most 10''))
      else check_retrievers number rest)"

definition validate_retrieval_retrievers :: "('n \<Rightarrow> f64 option) \<Rightarrow> 'n json \<Rightarrow> service_error + unit" where
  "validate_retrieval_retrievers number retrievers =
     (case json_object retrievers of
        None \<Rightarrow> Inl (err_validation ''retrievers must be a JSON object mapping retriever names to weight config'')
      | Some [] \<Rightarrow> Inl (err_validation ''retrievers must not be empty'')
      | Some entries \<Rightarrow> check_retrievers number entries)"

text \<open>Equality with a canonical profile: the same entries, in any order.\<close>

definition same_profile :: "'n json \<Rightarrow> 'n json \<Rightarrow> bool" where
  "same_profile given expected \<longleftrightarrow>
     (case (json_object given, json_object expected) of
        (Some entries, Some entries') \<Rightarrow> length entries = length entries' \<and> set entries = set entries'
      | _ \<Rightarrow> False)"

definition validate_retrieval_strategy :: "(f64 \<Rightarrow> 'n) \<Rightarrow> string \<Rightarrow> 'n json \<Rightarrow> service_error + unit" where
  "validate_retrieval_strategy num strategy retrievers =
     (let s = ascii_lower (trim strategy)
      in if s \<in> {''deterministic'', ''custom_weighted_rrf''} then Inr ()
         else if s = ''hybrid''
         then if (case json_object retrievers of Some entries \<Rightarrow> length entries | None \<Rightarrow> 0) < 2
              then Inl (err_validation ''hybrid retrieval strategy must enable at least two retrievers'')
              else Inr ()
         else if s \<in> {''balanced'', ''search_first'', ''search-first'', ''event_aware'', ''event-aware''}
         then (case strategy_parse s of
             Inl e \<Rightarrow> Inl (err_validation e)
           | Inr built_in \<Rightarrow>
               if \<not> same_profile retrievers (retriever_profile num built_in)
               then Inl (err_validation (''built-in retrieval strategy '' @ s @ '' must use its canonical retriever weights''))
               else Inr ())
         else Inl (err_validation (''unsupported retrieval strategy '' @ quoted_name s)))"

definition first_unknown_field :: "(string \<times> 'n json) list \<Rightarrow> string option" where
  "first_unknown_field entries =
     map_option fst (find (\<lambda>(key, _). key \<notin> {''algorithm'', ''mode'', ''rankConstant''}) entries)"

definition rank_constant_of :: "('n \<Rightarrow> f64 option) \<Rightarrow> (string \<times> 'n json) list \<Rightarrow> service_error + f64" where
  "rank_constant_of number entries =
     (case map_of entries ''rankConstant'' of
        None \<Rightarrow> Inr rrf_rank_constant
      | Some v \<Rightarrow>
          (case json_number number v of
             Some c \<Rightarrow>
               if f64_finite c \<and> f64_le f64_one c \<and> f64_le c (f64_of_nat 1000) then Inr c
               else Inl (err_validation ''fusionPolicy.rankConstant must be between 1 and 1000'')
           | None \<Rightarrow> Inl (err_validation ''fusionPolicy.rankConstant must be between 1 and 1000'')))"

text \<open>The result is the rank constant of the policy.\<close>

definition resolve_retrieval_fusion_policy :: "('n \<Rightarrow> f64 option) \<Rightarrow> 'n json option \<Rightarrow> service_error + f64" where
  "resolve_retrieval_fusion_policy number fusion_policy =
     (case fusion_policy of
        None \<Rightarrow> Inr rrf_rank_constant
      | Some policy \<Rightarrow>
          (case json_object policy of
             None \<Rightarrow> Inl (err_validation ''fusionPolicy must be a JSON object'')
           | Some entries \<Rightarrow>
               (case first_unknown_field entries of
                  Some key \<Rightarrow> Inl (err_validation (''unsupported fusionPolicy field '' @ quoted_name key))
                | None \<Rightarrow>
                    (let named = (case Option.bind (map_of entries ''algorithm'') json_string of
                           Some a \<Rightarrow> a
                         | None \<Rightarrow> (case Option.bind (map_of entries ''mode'') json_string of
                             Some m \<Rightarrow> m | None \<Rightarrow> ''weighted_rrf''));
                         algorithm = (if named = ''rrf'' then ''weighted_rrf'' else named)
                     in if algorithm \<noteq> ''weighted_rrf''
                        then Inl (err_validation (''unsupported fusionPolicy algorithm '' @ quoted_name algorithm @
                          '': supported value is weighted_rrf''))
                        else rank_constant_of number entries))))"

end
