(* ===== verification/Memory_Service.thy ===== *)
theory Memory_Service
  imports Tenant_Quota Request_Checks Space_Access Contract_Types Signed_Cursors
begin

text \<open>
  The service behind the three HTTP surfaces: records, batches, candidates and their approval, spaces
  (\<^verbatim>\<open>open_api.rs\<close>, \<^verbatim>\<open>candidate_promotion.rs\<close>, and the parts of \<^verbatim>\<open>app_backend_api.rs\<close>, \<^verbatim>\<open>backend_admin_api.rs\<close>
  and \<^verbatim>\<open>mem0_compat.rs\<close> that work through the data plane). An operation authorizes the actor, checks
  the text, draws identifiers, reads the quota and calls the data plane over the reference runtime.
\<close>

section \<open>State and surroundings\<close>

text \<open>How many identifiers were drawn and how often the clock was read are part of the state.\<close>

record service_state =
  sv_runtime :: reference_runtime
  sv_drawn :: nat
  sv_ticks :: nat
  sv_quota_cache :: quota_cache

record ('n, 't) service_host =
  vh_ids :: "nat \<Rightarrow> service_error + u64"
  vh_clock :: "nat \<Rightarrow> string"
  vh_instant :: "nat \<Rightarrow> nat"
  vh_parse_time :: "string \<Rightarrow> 't option"
  vh_format_time :: "'t \<Rightarrow> string"
  vh_parse_int :: "string \<Rightarrow> i64 option"
  vh_is_match :: "string \<Rightarrow> string \<Rightarrow> bool"
  vh_parse_json :: "string \<Rightarrow> 'n json option"
  vh_render_json :: "'n json \<Rightarrow> string + string"
  vh_json_text :: "'n json \<Rightarrow> string"
  vh_number :: "u64 \<Rightarrow> 'n"
  vh_env_limits :: quota_limits
  vh_policies :: "policy_row list"
  vh_decode_policy :: "string \<Rightarrow> string + quota_policy"

type_synonym 'a service_call = "(service_state, 'a) service_op"

definition next_id :: "('n, 't::linorder) service_host \<Rightarrow> u64 service_call" where
  "next_id h s = (vh_ids h (sv_drawn s), s\<lparr>sv_drawn := sv_drawn s + 1\<rparr>)"

definition read_clock :: "('n, 't::linorder) service_host \<Rightarrow> string service_call" where
  "read_clock h s = (Inr (vh_clock h (sv_ticks s)), s\<lparr>sv_ticks := sv_ticks s + 1\<rparr>)"

definition on_runtime :: "'a plane_op \<Rightarrow> 'a service_call" where
  "on_runtime call s = (case call (sv_runtime s) of (r, rt) \<Rightarrow> (r, s\<lparr>sv_runtime := rt\<rparr>))"

definition service_resolver :: "'p core_runtime \<Rightarrow> service_state governance_resolver" where
  "service_resolver core q = on_runtime (plane_resolve_space_governance core q)"

definition service_quota_limits :: "('n, 't::linorder) service_host \<Rightarrow> i64 \<Rightarrow> quota_limits service_call" where
  "service_quota_limits h tenant_id s =
     (case resolve_quota_limits (vh_decode_policy h) (vh_policies h) (vh_env_limits h)
        (vh_instant h (sv_ticks s)) (vh_instant h (sv_ticks s + 1)) tenant_id (sv_quota_cache s) of
        (r, cache) \<Rightarrow> (r, s\<lparr>sv_ticks := sv_ticks s + 2, sv_quota_cache := cache\<rparr>))"

section \<open>Authorization\<close>

definition require_write :: "('n, 't::linorder) service_host \<Rightarrow> 'p core_runtime \<Rightarrow> request_context \<Rightarrow> u64 \<Rightarrow> unit service_call" where
  "require_write h core ctx space_id =
     op_then (read_clock h)
       (assert_actor_can_access_space_for_write (vh_parse_time h) (service_resolver core) ctx space_id)"

definition require_read :: "('n, 't::linorder) service_host \<Rightarrow> 'p core_runtime \<Rightarrow> request_context \<Rightarrow> u64 \<Rightarrow> unit service_call" where
  "require_read h core ctx space_id =
     op_then (read_clock h)
       (assert_actor_can_access_space (vh_parse_time h) (service_resolver core) ctx space_id)"

definition require_retrieval :: "('n, 't::linorder) service_host \<Rightarrow> 'p core_runtime \<Rightarrow> request_context \<Rightarrow> u64 \<Rightarrow>
    space_authorization service_call" where
  "require_retrieval h core ctx space_id =
     op_then (read_clock h)
       (authorize_actor_for_space_retrieval (vh_parse_time h) (service_resolver core) ctx space_id)"

definition to_open_context :: "string option \<Rightarrow> u64 \<Rightarrow> u64 option \<Rightarrow> request_context" where
  "to_open_context session tenant_id actor_id =
     \<lparr>rq_api_key_id = (case session of Some s \<Rightarrow> s
        | None \<Rightarrow> ''app-'' @ u64_text (case actor_id of Some a \<Rightarrow> a | None \<Rightarrow> 0)),
      rq_tenant_id = tenant_id, rq_actor_id = actor_id, rq_elevated_tenant_access = False\<rparr>"

definition service_scope :: "request_context \<Rightarrow> u64 \<Rightarrow> service_error + scope_context" where
  "service_scope ctx space_id =
     and_then (tenant_id_i64 (rq_tenant_id ctx)) (\<lambda>tenant.
     and_then (space_id_i64 space_id) (\<lambda>space.
       Inr \<lparr>sc_tenant_id = tenant, sc_space_id = space, sc_organization_id = None, sc_user_id = rq_actor_id ctx\<rparr>))"

section \<open>Requests and answers\<close>

text \<open>Of the transfer structs, the fields that the operations below read or fill.\<close>

record 'n memory_request =
  mq_space_id :: u64
  mq_scope :: string
  mq_memory_type :: memory_type
  mq_subject :: "string option"
  mq_predicate :: "string option"
  mq_object_text :: "string option"
  mq_canonical_text :: string
  mq_sensitivity_level :: "string option"
  mq_expires_at :: "string option"
  mq_metadata :: "'n json option"

record 'n memory_patch =
  mp_canonical_text :: "string option"
  mp_subject :: "string option"
  mp_metadata :: "'n json option"

fun memory_type_to_db :: "memory_type \<Rightarrow> string" where
  "memory_type_to_db Working = ''working''"
| "memory_type_to_db Session = ''session''"
| "memory_type_to_db Semantic = ''semantic''"
| "memory_type_to_db Episodic = ''episodic''"
| "memory_type_to_db Procedural = ''procedural''"
| "memory_type_to_db Habit = ''habit''"
| "memory_type_to_db Relationship = ''relationship''"
| "memory_type_to_db DomainKnowledge = ''domain_knowledge''"

definition memory_type_from_db :: "string \<Rightarrow> memory_type" where
  "memory_type_from_db value =
     (if value = ''working'' then Working else if value = ''session'' then Session
      else if value = ''episodic'' then Episodic else if value = ''procedural'' then Procedural
      else if value = ''habit'' then Habit else if value = ''relationship'' then Relationship
      else if value = ''domain_knowledge'' then DomainKnowledge else Semantic)"

definition service_parse_id :: "('n, 't::linorder) service_host \<Rightarrow> string \<Rightarrow> u64 option" where
  "service_parse_id h value = parse_numeric_id (vh_parse_int h) value"

definition map_canonical_record :: "('n, 't::linorder) service_host \<Rightarrow> canonical_record \<Rightarrow> service_error + 'n contract_memory" where
  "map_canonical_record h r =
     (case service_parse_id h (cr_memory_id r) of
        None \<Rightarrow> Inl (err_storage ''memory id must be numeric'')
      | Some memory_id \<Rightarrow>
          (case u64_try_from (cr_space_id r) of
             None \<Rightarrow> Inl (err_storage ''space id must be non-negative'')
           | Some space_id \<Rightarrow>
               (case u64_try_from (if sint (cr_version r) < 0 then 0 else cr_version r) of
                  None \<Rightarrow> Inl (err_storage ''version must be non-negative'')
                | Some version \<Rightarrow>
                    Inr \<lparr>cm_memory_id = memory_id, cm_uuid = Some (cr_memory_id r), cm_in_space = space_id,
                      cm_user_id = Option.bind (cr_user_id r) u64_try_from, cm_scope = cr_scope_label r,
                      cm_memory_type = memory_type_from_db (cr_memory_type r), cm_subject = cr_subject r,
                      cm_predicate = cr_predicate r, cm_object_text = Some (cr_object_text r),
                      cm_canonical_text = cr_canonical_text r, cm_summary_text = None,
                      cm_metadata = Option.bind (cr_metadata_json r) (vh_parse_json h),
                      cm_confidence = cr_confidence r, cm_evidence_count = Some (cr_evidence_count r),
                      cm_contradiction_count = Some (cr_contradiction_count r), cm_status = cr_status r,
                      cm_sensitivity_level = cr_sensitivity_level r,
                      cm_supersedes_memory_id = Option.bind (cr_supersedes_memory_id r) (service_parse_id h),
                      cm_superseded_by_memory_id = Option.bind (cr_superseded_by_memory_id r) (service_parse_id h),
                      cm_created_at = cr_created_at r, cm_updated_at = cr_updated_at r,
                      cm_expires_at = cr_expires_at r, cm_version = version\<rparr>)))"

definition normalize_sensitivity_level :: "string option \<Rightarrow> service_error + string" where
  "normalize_sensitivity_level value =
     (let v = (case value of Some v \<Rightarrow> v | None \<Rightarrow> ''internal'')
      in if v \<in> {''public'', ''internal'', ''private'', ''sensitive'', ''restricted''} then Inr v
         else Inl (err_validation
           (''sensitivityLevel must be one of public, internal, private, sensitive, restricted; got '' @ v)))"

definition normalize_expires_at :: "('n, 't::linorder) service_host \<Rightarrow> string option \<Rightarrow> service_error + string option" where
  "normalize_expires_at h value =
     (case value of
        None \<Rightarrow> Inr None
      | Some v \<Rightarrow>
          (case vh_parse_time h v of
             Some t \<Rightarrow> Inr (Some (vh_format_time h t))
           | None \<Rightarrow> Inl (err_validation ''expiresAt must be an RFC 3339 timestamp such as 2027-01-01T00:00:00Z'')))"

definition serialize_metadata :: "('n, 't::linorder) service_host \<Rightarrow> 'n json option \<Rightarrow> service_error + string option" where
  "serialize_metadata h value =
     (case value of
        None \<Rightarrow> Inr None
      | Some v \<Rightarrow>
          (case vh_render_json h v of
             Inl e \<Rightarrow> Inl (err_storage (''metadata encode failed: '' @ e))
           | Inr json \<Rightarrow> Inr (Some json)))"

text \<open>An object is a map sorted by its keys; an incoming field replaces or adds one.\<close>

definition merged_object :: "(string \<times> 'n json) list \<Rightarrow> (string \<times> 'n json) list \<Rightarrow> (string \<times> 'n json) list" where
  "merged_object current incoming = fold (\<lambda>(key, value). bm_insert key value) incoming current"

definition merged_metadata_json :: "('n, 't::linorder) service_host \<Rightarrow> 'n json option \<Rightarrow> 'n json option \<Rightarrow>
    service_error + string option" where
  "merged_metadata_json h existing patch =
     (case patch of
        None \<Rightarrow> serialize_metadata h existing
      | Some (JObject incoming) \<Rightarrow>
          serialize_metadata h (Some (JObject
            (case existing of Some (JObject current) \<Rightarrow> merged_object current incoming | _ \<Rightarrow> incoming)))
      | Some _ \<Rightarrow> Inl (err_validation ''metadata must be a JSON object''))"

definition memory_mutation_journal :: "('n, 't::linorder) service_host \<Rightarrow> string \<Rightarrow> string \<Rightarrow> string \<Rightarrow> 'n json \<Rightarrow>
    mutation_journal service_call" where
  "memory_mutation_journal h memory_id event_type audit_action payload =
     (case vh_render_json h payload of
        Inl e \<Rightarrow> op_pure (Inl (err_storage (''memory mutation payload encode failed: '' @ e)))
      | Inr payload_json \<Rightarrow>
          op_then (next_id h) (\<lambda>outbox_id.
          op_then (next_id h) (\<lambda>audit_id.
          op_pure (Inr
            \<lparr>mj_outbox_id = u64_text outbox_id, mj_aggregate_type = ''memory_record'', mj_aggregate_id = memory_id,
             mj_event_type = event_type, mj_event_version = ''1.0'', mj_payload_json = payload_json,
             mj_audit_id = u64_text audit_id, mj_audit_action = audit_action,
             mj_audit_resource_type = ''memory_record'', mj_audit_resource_id = memory_id,
             mj_audit_result = ''accepted''\<rparr>))))"

definition json_u64 :: "('n, 't::linorder) service_host \<Rightarrow> u64 \<Rightarrow> 'n json" where
  "json_u64 h n = JNumber (vh_number h n)"

section \<open>Records\<close>

definition load_scoped_record :: "('n, 't::linorder) service_host \<Rightarrow> 'p core_runtime \<Rightarrow> request_context \<Rightarrow> u64 \<Rightarrow> u64 \<Rightarrow>
    'n contract_memory service_call" where
  "load_scoped_record h core ctx space_id memory_id =
     op_then (require_retrieval h core ctx space_id) (\<lambda>authorization.
     op_then (op_pure (service_scope ctx space_id)) (\<lambda>scope.
     op_then (on_runtime (plane_retrieve_canonical_memory core \<lparr>sq_scope = scope, sq_id = u64_text memory_id\<rparr>)) (\<lambda>row.
       case row of
         None \<Rightarrow> op_pure (Inl (err_not_found ''memory not found''))
       | Some r \<Rightarrow>
           op_pure (and_then (map_canonical_record h r) (\<lambda>memory.
             and_then (assert_actor_may_read_record_sensitivity_for_owner ctx (cm_sensitivity_level memory)
                 (sz_actor_is_space_owner authorization)) (\<lambda>_. Inr memory))))))"

definition retrieve_memory :: "('n, 't::linorder) service_host \<Rightarrow> 'p core_runtime \<Rightarrow> request_context \<Rightarrow> u64 \<Rightarrow> u64 \<Rightarrow>
    'n contract_memory service_call" where
  "retrieve_memory h core ctx memory_id space_id = load_scoped_record h core ctx space_id memory_id"

definition text_or_empty :: "string option \<Rightarrow> string" where
  "text_or_empty v = (case v of Some s \<Rightarrow> s | None \<Rightarrow> [])"

definition request_object_text :: "'n memory_request \<Rightarrow> string" where
  "request_object_text req = (case mq_object_text req of Some t \<Rightarrow> t | None \<Rightarrow> mq_canonical_text req)"

definition check_request_text :: "('n, 't::linorder) service_host \<Rightarrow> 'n memory_request \<Rightarrow> service_error + unit" where
  "check_request_text h req =
     assert_memory_text_is_safe (vh_is_match h)
       [(''canonicalText'', mq_canonical_text req), (''objectText'', request_object_text req),
        (''subject'', text_or_empty (mq_subject req)), (''predicate'', text_or_empty (mq_predicate req))]"

definition create_payload :: "('n, 't::linorder) service_host \<Rightarrow> string \<Rightarrow> 'n memory_request \<Rightarrow> 'n json" where
  "create_payload h memory_id req =
     JObject [(''memoryId'', JString memory_id),
       (''memoryType'', JString (memory_type_to_db (mq_memory_type req))), (''spaceId'', json_u64 h (mq_space_id req))]"

definition create_command :: "scope_context \<Rightarrow> string \<Rightarrow> string \<Rightarrow> mutation_journal \<Rightarrow> string option \<Rightarrow> string option \<Rightarrow>
    'n memory_request \<Rightarrow> create_canonical_command" where
  "create_command scope memory_id sensitivity journal expires_at metadata_json req =
     \<lparr>cc_scope = scope, cc_memory_id = memory_id, cc_scope_label = mq_scope req,
      cc_memory_type = memory_type_to_db (mq_memory_type req), cc_subject = mq_subject req,
      cc_predicate = mq_predicate req, cc_object_text = request_object_text req,
      cc_canonical_text = mq_canonical_text req, cc_sensitivity_level = sensitivity, cc_expires_at = expires_at,
      cc_metadata_json = metadata_json, cc_journal = journal\<rparr>"

definition create_memory :: "('n, 't::linorder) service_host \<Rightarrow> 'p core_runtime \<Rightarrow> request_context \<Rightarrow> 'n memory_request \<Rightarrow>
    'n contract_memory service_call" where
  "create_memory h core ctx req =
     op_then (require_write h core ctx (mq_space_id req)) (\<lambda>_.
     op_then (op_pure (service_scope ctx (mq_space_id req))) (\<lambda>scope.
     op_then (service_quota_limits h (rq_tenant_id ctx)) (\<lambda>limits.
     op_then (next_id h) (\<lambda>id.
     op_then (op_pure (normalize_sensitivity_level (mq_sensitivity_level req))) (\<lambda>sensitivity.
     op_then (op_pure (check_request_text h req)) (\<lambda>_.
     op_then (memory_mutation_journal h (u64_text id) ''memory.record.created'' ''memory.record.create''
         (create_payload h (u64_text id) req)) (\<lambda>journal.
     op_then (op_pure (normalize_expires_at h (mq_expires_at req))) (\<lambda>expires_at.
     op_then (op_pure (serialize_metadata h (mq_metadata req))) (\<lambda>metadata_json.
     op_then (read_clock h) (\<lambda>now.
     op_then (on_runtime (plane_create_canonical_memory_atomic_with_quota core
         (create_command scope (u64_text id) sensitivity journal expires_at metadata_json req)
         (unat (ql_max_records_per_space limits)) now)) (\<lambda>admission.
       op_pure (and_then (resolve_space_record_quota_admission scope admission) (map_canonical_record h)))))))))))))"

definition check_patch_text :: "('n, 't::linorder) service_host \<Rightarrow> 'n memory_patch \<Rightarrow> service_error + unit" where
  "check_patch_text h patch =
     and_then (case mp_canonical_text patch of
         Some t \<Rightarrow> assert_memory_text_is_safe (vh_is_match h) [(''canonicalText'', t)] | None \<Rightarrow> Inr ()) (\<lambda>_.
       case mp_subject patch of
         Some t \<Rightarrow> assert_memory_text_is_safe (vh_is_match h) [(''subject'', t)] | None \<Rightarrow> Inr ())"

definition record_payload :: "('n, 't::linorder) service_host \<Rightarrow> u64 \<Rightarrow> u64 \<Rightarrow> 'n json" where
  "record_payload h memory_id space_id =
     JObject [(''memoryId'', json_u64 h memory_id), (''spaceId'', json_u64 h space_id)]"

definition update_command :: "scope_context \<Rightarrow> u64 \<Rightarrow> 'n memory_patch \<Rightarrow> string option \<Rightarrow> mutation_journal \<Rightarrow>
    update_canonical_command" where
  "update_command scope memory_id patch metadata_json journal =
     \<lparr>uc_scope = scope, uc_memory_id = u64_text memory_id, uc_canonical_text = mp_canonical_text patch,
      uc_subject = mp_subject patch, uc_metadata_json = metadata_json, uc_journal = journal\<rparr>"

definition apply_update :: "('n, 't::linorder) service_host \<Rightarrow> 'p core_runtime \<Rightarrow> update_canonical_command \<Rightarrow>
    'n contract_memory service_call" where
  "apply_update h core command =
     op_then (read_clock h) (\<lambda>now.
     op_then (on_runtime (plane_update_canonical_memory_atomic core command now)) (\<lambda>row.
       op_pure (case row of None \<Rightarrow> Inl (err_not_found ''memory not found'') | Some r \<Rightarrow> map_canonical_record h r)))"

definition update_memory :: "('n, 't::linorder) service_host \<Rightarrow> 'p core_runtime \<Rightarrow> request_context \<Rightarrow> u64 \<Rightarrow> u64 \<Rightarrow>
    'n memory_patch \<Rightarrow> 'n contract_memory service_call" where
  "update_memory h core ctx memory_id space_id patch =
     op_then (require_write h core ctx space_id) (\<lambda>_.
     op_then (op_pure (service_scope ctx space_id)) (\<lambda>scope.
     op_then (load_scoped_record h core ctx space_id memory_id) (\<lambda>existing.
     op_then (op_pure (check_patch_text h patch)) (\<lambda>_.
     op_then (op_pure (merged_metadata_json h (cm_metadata existing) (mp_metadata patch))) (\<lambda>metadata_json.
     op_then (memory_mutation_journal h (u64_text memory_id) ''memory.record.updated'' ''memory.record.update''
         (record_payload h memory_id space_id)) (\<lambda>journal.
       apply_update h core (update_command scope memory_id patch metadata_json journal)))))))"

definition delete_memory :: "('n, 't::linorder) service_host \<Rightarrow> 'p core_runtime \<Rightarrow> request_context \<Rightarrow> u64 \<Rightarrow> u64 \<Rightarrow>
    unit service_call" where
  "delete_memory h core ctx memory_id space_id =
     op_then (require_write h core ctx space_id) (\<lambda>_.
     op_then (op_pure (service_scope ctx space_id)) (\<lambda>scope.
     op_then (load_scoped_record h core ctx space_id memory_id) (\<lambda>existing.
     op_then (memory_mutation_journal h (u64_text memory_id) ''memory.record.deleted'' ''memory.record.delete''
         (record_payload h memory_id space_id)) (\<lambda>journal.
     op_then (read_clock h) (\<lambda>now.
     op_then (on_runtime (plane_delete_canonical_memory_atomic core
         \<lparr>dc_scope = scope, dc_memory_id = u64_text memory_id, dc_journal = journal\<rparr> now)) (\<lambda>receipt.
       op_pure (Inr ())))))))"

definition delete_all_memories :: "('n, 't::linorder) service_host \<Rightarrow> 'p core_runtime \<Rightarrow> request_context \<Rightarrow> u64 \<Rightarrow>
    u64 option \<Rightarrow> (string \<Rightarrow> string) \<Rightarrow> nat service_call" where
  "delete_all_memories h core ctx space_id user_id now =
     op_then (require_write h core ctx space_id) (\<lambda>_.
     op_then (op_pure (service_scope ctx space_id)) (\<lambda>scope.
       on_runtime (plane_delete_all_canonical_memory_atomic core
         \<lparr>da_scope = scope, da_user_id = Option.bind user_id i64_try_from\<rparr> now)))"

section \<open>Batches of updates\<close>

definition max_update_memories_batch_chunk :: nat where
  "max_update_memories_batch_chunk = 200"

definition prepare_memory_patch_update :: "('n, 't::linorder) service_host \<Rightarrow> request_context \<Rightarrow> scope_context \<Rightarrow> u64 \<Rightarrow> bool \<Rightarrow>
    u64 \<Rightarrow> canonical_record \<Rightarrow> 'n memory_patch \<Rightarrow> update_canonical_command service_call" where
  "prepare_memory_patch_update h ctx scope space_id owner memory_id canonical patch =
     op_then (op_pure (assert_actor_may_read_record_sensitivity_for_owner ctx (cr_sensitivity_level canonical) owner)) (\<lambda>_.
     op_then (op_pure (check_patch_text h patch)) (\<lambda>_.
     op_then (op_pure (map_canonical_record h canonical)) (\<lambda>existing.
     op_then (op_pure (merged_metadata_json h (cm_metadata existing) (mp_metadata patch))) (\<lambda>metadata_json.
     op_then (memory_mutation_journal h (u64_text memory_id) ''memory.record.updated'' ''memory.record.update''
         (record_payload h memory_id space_id)) (\<lambda>journal.
       op_pure (Inr (update_command scope memory_id patch metadata_json journal)))))))"

text \<open>An operation for each slot, in order; each slot keeps its own result.\<close>

fun each_slot :: "('a \<Rightarrow> ('s, 'b) service_op) \<Rightarrow> 'a list \<Rightarrow> 's \<Rightarrow> (service_error + 'b) list \<times> 's" where
  "each_slot f [] s = ([], s)"
| "each_slot f (x # xs) s = (case f x s of (r, s) \<Rightarrow> map_prod (Cons r) id (each_slot f xs s))"

definition plan_slot :: "('n, 't::linorder) service_host \<Rightarrow> request_context \<Rightarrow> scope_context \<Rightarrow> u64 \<Rightarrow> bool \<Rightarrow>
    (u64 \<times> 'n memory_patch) \<times> canonical_record option \<Rightarrow> update_canonical_command service_call" where
  "plan_slot h ctx scope space_id owner slot =
     (case slot of ((memory_id, patch), canonical) \<Rightarrow>
       (case canonical of
          None \<Rightarrow> op_pure (Inl (err_not_found ''memory not found''))
        | Some r \<Rightarrow> prepare_memory_patch_update h ctx scope space_id owner memory_id r patch))"

definition run_slot :: "('n, 't::linorder) service_host \<Rightarrow> 'p core_runtime \<Rightarrow> service_error + update_canonical_command \<Rightarrow>
    'n contract_memory service_call" where
  "run_slot h core plan = (case plan of Inl e \<Rightarrow> op_pure (Inl e) | Inr command \<Rightarrow> apply_update h core command)"

function run_chunks :: "('n, 't::linorder) service_host \<Rightarrow> 'p core_runtime \<Rightarrow> (service_error + update_canonical_command) list \<Rightarrow>
    service_state \<Rightarrow> (service_error + 'n contract_memory) list \<times> service_state" where
  "run_chunks h core plans s =
     (if plans = [] then ([], s)
      else let chunk_len = min (length plans) max_update_memories_batch_chunk
      in case each_slot (run_slot h core) (take chunk_len plans) s of
           (results, s) \<Rightarrow> map_prod ((@) results) id (run_chunks h core (drop chunk_len plans) s))"
  by pat_completeness auto
termination
  by (relation "measure (\<lambda>(h, core, plans, s). length plans)") (auto simp: max_update_memories_batch_chunk_def)

declare run_chunks.simps [simp del]

text \<open>\<^verbatim>\<open>fill\<close>: the error of a check of the whole call in every slot.\<close>

definition filled :: "nat \<Rightarrow> (service_state, 'a) service_op \<Rightarrow> ('a \<Rightarrow> service_state \<Rightarrow> (service_error + 'b) list \<times> service_state) \<Rightarrow>
    service_state \<Rightarrow> (service_error + 'b) list \<times> service_state" where
  "filled n f k s = (case f s of (Inl e, s) \<Rightarrow> (replicate n (Inl e), s) | (Inr x, s) \<Rightarrow> k x s)"

definition update_memories_batch :: "('n, 't::linorder) service_host \<Rightarrow> 'p core_runtime \<Rightarrow> request_context \<Rightarrow> u64 \<Rightarrow>
    (u64 \<times> 'n memory_patch) list \<Rightarrow> service_state \<Rightarrow> (service_error + 'n contract_memory) list \<times> service_state" where
  "update_memories_batch h core ctx space_id updates =
     (if updates = [] then (\<lambda>s. ([], s))
      else filled (length updates) (op_pure (service_scope ctx space_id)) (\<lambda>scope.
        filled (length updates) (require_write h core ctx space_id) (\<lambda>_.
        filled (length updates) (require_retrieval h core ctx space_id) (\<lambda>authorization.
        filled (length updates)
          (on_runtime (plane_retrieve_canonical_memories_batch core scope (map (\<lambda>(i, _). u64_text i) updates))) (\<lambda>records s.
          case each_slot (plan_slot h ctx scope space_id (sz_actor_is_space_owner authorization)) (zip updates records) s of
            (plans, s) \<Rightarrow> run_chunks h core plans s)))))"

section \<open>Superseding\<close>

definition backend_supersede_memory :: "('n, 't::linorder) service_host \<Rightarrow> (string \<Rightarrow> 'j option) \<Rightarrow> 'p core_runtime \<Rightarrow> u64 \<Rightarrow> u64 option \<Rightarrow>
    u64 \<Rightarrow> 'n memory_request \<Rightarrow> 'n contract_memory service_call" where
  "backend_supersede_memory h from_str core tenant_id operator_id memory_id req =
     (let ctx = for_backend_surface tenant_id operator_id; old_uuid = u64_text memory_id
      in op_then (require_write h core ctx (mq_space_id req)) (\<lambda>_.
         op_then (op_pure (service_scope ctx (mq_space_id req))) (\<lambda>scope.
         op_then (next_id h) (\<lambda>id.
         op_then (op_pure (normalize_sensitivity_level (mq_sensitivity_level req))) (\<lambda>sensitivity.
         op_then (op_pure (check_request_text h req)) (\<lambda>_.
         op_then (memory_mutation_journal h old_uuid ''memory.record.superseded'' ''memory.record.supersede''
           (JObject [(''memoryId'', JString old_uuid), (''spaceId'', json_u64 h (mq_space_id req)),
             (''supersededByMemoryId'', JString (u64_text id))])) (\<lambda>superseded_journal.
         op_then (memory_mutation_journal h (u64_text id) ''memory.record.created'' ''memory.record.create''
           (JObject [(''memoryId'', JString (u64_text id)), (''spaceId'', json_u64 h (mq_space_id req)),
             (''supersedesMemoryId'', JString old_uuid)])) (\<lambda>created_journal.
         op_then (service_quota_limits h tenant_id) (\<lambda>limits.
         op_then (op_pure (normalize_expires_at h (mq_expires_at req))) (\<lambda>expires_at.
         op_then (read_clock h) (\<lambda>now.
         op_then (on_runtime (plane_supersede_canonical_memory_atomic_with_quota core from_str
           \<lparr>su_scope = scope, su_old_memory_id = old_uuid, su_new_memory_id = u64_text id,
            su_scope_label = mq_scope req, su_memory_type = memory_type_to_db (mq_memory_type req),
            su_subject = mq_subject req, su_predicate = mq_predicate req, su_object_text = request_object_text req,
            su_canonical_text = mq_canonical_text req, su_sensitivity_level = sensitivity, su_expires_at = expires_at,
            su_metadata_json = None, su_created_journal = created_journal, su_superseded_journal = superseded_journal\<rparr>
           (unat (ql_max_records_per_space limits)) now)) (\<lambda>admission.
           op_pure (and_then (resolve_space_record_quota_admission scope admission) (map_canonical_record h))))))))))))))"

section \<open>Candidates\<close>

record candidate_dto =
  cto_candidate_id :: u64
  cto_space_id :: u64
  cto_candidate_type :: string
  cto_memory_type :: memory_type
  cto_proposed_text :: string
  cto_confidence :: f64
  cto_decision_state :: string
  cto_created_at :: string
  cto_updated_at :: string

definition map_candidate :: "('n, 't::linorder) service_host \<Rightarrow> candidate_summary \<Rightarrow> service_error + candidate_dto" where
  "map_candidate h row =
     and_then (parse_required_numeric_id (vh_parse_int h) (cs_candidate_id row) ''candidateId'') (\<lambda>candidate_id.
     and_then (non_negative_i64_as_u64 (cs_space_id row) ''spaceId'') (\<lambda>space_id.
       Inr \<lparr>cto_candidate_id = candidate_id, cto_space_id = space_id, cto_candidate_type = cs_candidate_type row,
         cto_memory_type = memory_type_from_db (cs_memory_type row), cto_proposed_text = cs_proposed_text row,
         cto_confidence = cs_confidence row, cto_decision_state = cs_decision_state row,
         cto_created_at = cs_created_at row, cto_updated_at = cs_updated_at row\<rparr>))"

definition map_candidate_api_detail :: "('n, 't::linorder) service_host \<Rightarrow> candidate_detail \<Rightarrow> service_error + candidate_dto" where
  "map_candidate_api_detail h row =
     map_candidate h
       \<lparr>cs_candidate_id = cd_candidate_id row, cs_space_id = cd_space_id row, cs_candidate_type = cd_candidate_type row,
        cs_memory_type = cd_memory_type row, cs_proposed_text = cd_proposed_text row, cs_confidence = cd_confidence row,
        cs_decision_state = cd_decision_state row, cs_created_at = cd_created_at row, cs_updated_at = cd_updated_at row\<rparr>"

definition load_candidate :: "'p core_runtime \<Rightarrow> i64 \<Rightarrow> u64 \<Rightarrow> candidate_detail service_call" where
  "load_candidate core tenant_id candidate_id =
     op_then (on_runtime (plane_retrieve_candidate_detail core
         \<lparr>dq_tenant_id = tenant_id, dq_candidate_id = u64_text candidate_id\<rparr>)) (\<lambda>row.
       op_pure (case row of None \<Rightarrow> Inl (err_not_found ''candidate not found'') | Some d \<Rightarrow> Inr d))"

definition require_read_i64 :: "('n, 't::linorder) service_host \<Rightarrow> 'p core_runtime \<Rightarrow> request_context \<Rightarrow> i64 \<Rightarrow> unit service_call" where
  "require_read_i64 h core ctx space_id =
     op_then (read_clock h)
       (assert_actor_can_access_space_i64 (vh_parse_time h) (service_resolver core) ctx space_id)"

definition require_write_i64 :: "('n, 't::linorder) service_host \<Rightarrow> 'p core_runtime \<Rightarrow> request_context \<Rightarrow> i64 \<Rightarrow> unit service_call" where
  "require_write_i64 h core ctx space_id =
     op_then (read_clock h)
       (assert_actor_can_access_space_for_write_i64 (vh_parse_time h) (service_resolver core) ctx space_id)"

definition retrieve_candidate :: "('n, 't::linorder) service_host \<Rightarrow> 'p core_runtime \<Rightarrow> request_context \<Rightarrow> u64 \<Rightarrow>
    candidate_dto service_call" where
  "retrieve_candidate h core ctx candidate_id =
     op_then (op_pure (tenant_id_i64 (rq_tenant_id ctx))) (\<lambda>tenant_id.
     op_then (load_candidate core tenant_id candidate_id) (\<lambda>row.
     op_then (require_read_i64 h core ctx (cd_space_id row)) (\<lambda>_.
       op_pure (map_candidate_api_detail h row))))"

text \<open>Pages; the bounds of a page and the key of the cursors are \<open>sizes\<close> and \<open>(ch, key)\<close>.\<close>

definition candidate_page_dto :: "('n, 't::linorder) service_host \<Rightarrow> cursor_host \<Rightarrow> string \<Rightarrow> candidate_page \<Rightarrow>
    service_error + candidate_dto list \<times> string option" where
  "candidate_page_dto h ch key page =
     map_sum id (\<lambda>items. (items, next_page_token ch key (pg_has_more page) (pg_next_cursor page)))
       (collect_results (map_candidate h) (pg_items page))"

definition list_candidates :: "('n, 't::linorder) service_host \<Rightarrow> cursor_host \<Rightarrow> string \<Rightarrow> i32 \<times> i32 \<Rightarrow> 'p core_runtime \<Rightarrow>
    request_context \<Rightarrow> u64 option \<Rightarrow> i32 option \<Rightarrow> string option \<Rightarrow> (candidate_dto list \<times> string option) service_call" where
  "list_candidates h ch key sizes core ctx query_space page_size cursor =
     op_then (op_pure (tenant_id_i64 (rq_tenant_id ctx))) (\<lambda>tenant_id.
     op_then (op_pure (require_list_space_id query_space)) (\<lambda>space_id.
     op_then (require_read h core ctx space_id) (\<lambda>_.
     op_then (op_pure (validated_page_size (fst sizes) (snd sizes) page_size)) (\<lambda>size.
     op_then (op_pure (space_id_i64 space_id)) (\<lambda>space.
     op_then (op_pure (decode_list_cursor ch key cursor)) (\<lambda>after.
     op_then (on_runtime (plane_list_candidates core (unat (snd sizes))
         \<lparr>lq_tenant_id = tenant_id, lq_space_id = Some space, lq_page_size = unat size, lq_cursor = after\<rparr>)) (\<lambda>page.
       op_pure (candidate_page_dto h ch key page))))))))"

definition backend_list_candidates :: "('n, 't::linorder) service_host \<Rightarrow> cursor_host \<Rightarrow> string \<Rightarrow> i32 \<times> i32 \<Rightarrow> 'p core_runtime \<Rightarrow>
    u64 \<Rightarrow> u64 option \<Rightarrow> i32 option \<Rightarrow> string option \<Rightarrow> (candidate_dto list \<times> string option) service_call" where
  "backend_list_candidates h ch key sizes core tenant query_space page_size cursor =
     op_then (op_pure (tenant_id_i64 tenant)) (\<lambda>tenant_id.
     op_then (op_pure (validated_page_size (fst sizes) (snd sizes) page_size)) (\<lambda>size.
     op_then (op_pure (optional_u64_as_i64 query_space)) (\<lambda>space.
     op_then (op_pure (decode_list_cursor ch key cursor)) (\<lambda>after.
     op_then (on_runtime (plane_list_candidates core (unat (snd sizes))
         \<lparr>lq_tenant_id = tenant_id, lq_space_id = space, lq_page_size = unat size, lq_cursor = after\<rparr>)) (\<lambda>page.
       op_pure (candidate_page_dto h ch key page))))))"

section \<open>Approval\<close>

fun event_reference :: "'n json \<Rightarrow> string option" where
  "event_reference (JString entry) = strip_prefix ''event:'' entry"
| "event_reference _ = None"

definition first_field :: "(string \<times> 'n json) list \<Rightarrow> string list \<Rightarrow> 'n json option" where
  "first_field entries names = (case List.map_filter (map_of entries) names of [] \<Rightarrow> None | v # _ \<Rightarrow> Some v)"

definition parse_evidence_event_ids :: "(string \<Rightarrow> 'n json option) \<Rightarrow> string option \<Rightarrow> string list" where
  "parse_evidence_event_ids parse_json evidence_json =
     (case evidence_json of
        None \<Rightarrow> []
      | Some raw \<Rightarrow>
          if is_blank raw then []
          else (case parse_json raw of
              Some (JArray items) \<Rightarrow> List.map_filter event_reference items
            | Some (JObject entries) \<Rightarrow>
                (case Option.bind (first_field entries [''eventId'', ''event_id'']) json_string of
                   Some event_id \<Rightarrow> [event_id] | None \<Rightarrow> [])
            | _ \<Rightarrow> []))"

fun draw_links :: "('n, 't::linorder) service_host \<Rightarrow> f64 \<Rightarrow> string list \<Rightarrow> evidence_link list service_call" where
  "draw_links h confidence [] = op_pure (Inr [])"
| "draw_links h confidence (event_id # event_ids) =
     op_then (next_id h) (\<lambda>source_id.
     op_then (draw_links h confidence event_ids) (\<lambda>links.
       op_pure (Inr (\<lparr>el_source_id = u64_text source_id, el_event_id = event_id,
         el_confidence_delta = Some confidence\<rparr> # links))))"

definition promotion_journal :: "('n, 't::linorder) service_host \<Rightarrow> u64 \<Rightarrow> string \<Rightarrow> mutation_journal service_call" where
  "promotion_journal h candidate_id memory_id =
     op_then (next_id h) (\<lambda>outbox_id.
     op_then (next_id h) (\<lambda>audit_id.
     op_pure (Inr
       \<lparr>mj_outbox_id = u64_text outbox_id, mj_aggregate_type = ''memory_record'', mj_aggregate_id = memory_id,
        mj_event_type = ''memory.candidate.promoted'', mj_event_version = ''1.0'',
        mj_payload_json = vh_json_text h
          (JObject [(''candidateId'', json_u64 h candidate_id), (''memoryId'', JString memory_id)]),
        mj_audit_id = u64_text audit_id, mj_audit_action = ''memory.candidate.promoted'',
        mj_audit_resource_type = ''memory_record'', mj_audit_resource_id = memory_id, mj_audit_result = ''accepted''\<rparr>)))"

definition requested_memory_id :: "('n, 't::linorder) service_host \<Rightarrow> candidate_detail \<Rightarrow> string service_call" where
  "requested_memory_id h detail =
     (case cd_target_memory_id detail of
        Some memory_id \<Rightarrow> op_pure (Inr memory_id)
      | None \<Rightarrow> op_then (next_id h) (\<lambda>id. op_pure (Inr (u64_text id))))"

definition promotion_command :: "scope_context \<Rightarrow> u64 \<Rightarrow> string \<Rightarrow> candidate_detail \<Rightarrow> evidence_link list \<Rightarrow> u64 option \<Rightarrow>
    mutation_journal \<Rightarrow> promote_with_journal_command" where
  "promotion_command scope candidate_id memory_id detail links decided_by journal =
     \<lparr>pj_promotion = \<lparr>pc_scope = scope, pc_candidate_id = u64_text candidate_id, pc_memory_id = memory_id,
        pc_memory_type = cd_memory_type detail, pc_proposed_text = cd_proposed_text detail,
        pc_evidence_links = links, pc_decided_by = decided_by\<rparr>,
      pj_journal = journal\<rparr>"

definition promote_pending :: "('n, 't::linorder) service_host \<Rightarrow> 'p core_runtime \<Rightarrow> i64 \<Rightarrow> scope_context \<Rightarrow> u64 \<Rightarrow> u64 option \<Rightarrow>
    candidate_detail \<Rightarrow> candidate_dto service_call" where
  "promote_pending h core tenant_id scope candidate_id decided_by detail =
     op_then (requested_memory_id h detail) (\<lambda>memory_id.
     op_then (draw_links h (cd_confidence detail)
         (parse_evidence_event_ids (vh_parse_json h) (cd_evidence_json detail))) (\<lambda>links.
     op_then (promotion_journal h candidate_id memory_id) (\<lambda>journal.
     op_then (service_quota_limits h tenant_id) (\<lambda>limits.
     op_then (read_clock h) (\<lambda>now1.
     op_then (read_clock h) (\<lambda>now2.
     op_then (on_runtime (plane_promote_candidate_atomic_with_quota_and_journal core
         (promotion_command scope candidate_id memory_id detail links decided_by journal)
         (unat (ql_max_records_per_space limits)) now1 now2)) (\<lambda>admission.
     op_then (op_pure (resolve_space_record_quota_admission scope admission)) (\<lambda>promotion.
     op_then (load_candidate core tenant_id candidate_id) (\<lambda>refreshed.
       op_pure (if cd_target_memory_id refreshed \<noteq> Some (cp_memory_id promotion)
         then Inl (err_storage ''approved candidate did not retain promoted memory'')
         else map_candidate_api_detail h refreshed))))))))))"

definition approve_candidate_with_promotion :: "('n, 't::linorder) service_host \<Rightarrow> 'p core_runtime \<Rightarrow> i64 \<Rightarrow> scope_context \<Rightarrow> u64 \<Rightarrow>
    u64 option \<Rightarrow> candidate_dto service_call" where
  "approve_candidate_with_promotion h core tenant_id scope candidate_id decided_by =
     op_then (load_candidate core tenant_id candidate_id) (\<lambda>detail.
       if cd_space_id detail \<noteq> sc_space_id scope
       then op_pure (Inl (err_forbidden ''candidate does not belong to the requested memory space''))
       else if cd_decision_state detail = ''approved''
       then op_pure (if cd_target_memory_id detail = None
         then Inl (err_storage ''approved candidate is missing its promoted memory'')
         else map_candidate_api_detail h detail)
       else promote_pending h core tenant_id scope candidate_id decided_by detail)"

record review_request =
  rv_reason :: "string option"
  rv_reviewer_note :: "string option"

definition review_scope :: "i64 \<Rightarrow> candidate_detail \<Rightarrow> u64 option \<Rightarrow> scope_context" where
  "review_scope tenant_id existing operator_id =
     \<lparr>sc_tenant_id = tenant_id, sc_space_id = cd_space_id existing, sc_organization_id = None, sc_user_id = operator_id\<rparr>"

text \<open>The review note goes to the SQL store; whether it takes the row is \<open>audited\<close>.\<close>

definition append_review :: "('n, 't::linorder) service_host \<Rightarrow> (u64 \<Rightarrow> string \<Rightarrow> service_error + unit) \<Rightarrow> u64 \<Rightarrow> review_request \<Rightarrow>
    unit service_call" where
  "append_review h audited candidate_id request =
     (if rv_reason request = None \<and> rv_reviewer_note request = None then op_pure (Inr ())
      else (let text_or_null = (\<lambda>v. case v of Some s \<Rightarrow> JString s | None \<Rightarrow> JNull)
            in case vh_render_json h (JObject [(''candidateId'', json_u64 h candidate_id),
                (''reason'', text_or_null (rv_reason request)),
                (''reviewerNote'', text_or_null (rv_reviewer_note request))]) of
              Inl e \<Rightarrow> op_pure (Inl (err_storage (''candidate review metadata encode failed: '' @ e)))
            | Inr metadata \<Rightarrow> op_then (next_id h) (\<lambda>audit_id. op_pure (audited audit_id metadata))))"

definition backend_approve_candidate :: "('n, 't::linorder) service_host \<Rightarrow> (u64 \<Rightarrow> string \<Rightarrow> service_error + unit) \<Rightarrow>
    'p core_runtime \<Rightarrow> u64 \<Rightarrow> u64 option \<Rightarrow> u64 \<Rightarrow> review_request \<Rightarrow> candidate_dto service_call" where
  "backend_approve_candidate h audited core tenant operator_id candidate_id request =
     op_then (op_pure (tenant_id_i64 tenant)) (\<lambda>tenant_id.
     op_then (load_candidate core tenant_id candidate_id) (\<lambda>existing.
     op_then (approve_candidate_with_promotion h core tenant_id (review_scope tenant_id existing operator_id)
         candidate_id operator_id) (\<lambda>candidate.
     op_then (append_review h audited candidate_id request) (\<lambda>_.
       op_pure (Inr candidate)))))"

definition backend_reject_candidate :: "('n, 't::linorder) service_host \<Rightarrow> 'p core_runtime \<Rightarrow> u64 \<Rightarrow> u64 option \<Rightarrow> u64 \<Rightarrow>
    review_request \<Rightarrow> candidate_dto service_call" where
  "backend_reject_candidate h core tenant operator_id candidate_id request =
     op_then (op_pure (tenant_id_i64 tenant)) (\<lambda>tenant_id.
     op_then (load_candidate core tenant_id candidate_id) (\<lambda>existing.
     op_then (read_clock h) (\<lambda>now.
     op_then (on_runtime (plane_reject_candidate core
         \<lparr>dd_scope = review_scope tenant_id existing operator_id, dd_candidate_id = u64_text candidate_id,
          dd_decision_reason = (case rv_reason request of Some r \<Rightarrow> Some r | None \<Rightarrow> rv_reviewer_note request),
          dd_decided_by = operator_id\<rparr> now)) (\<lambda>_.
     op_then (load_candidate core tenant_id candidate_id) (\<lambda>row.
       op_pure (map_candidate_api_detail h row))))))"

text \<open>The application surface: the write gate, then the backend operation.\<close>

definition app_candidate_gate :: "('n, 't::linorder) service_host \<Rightarrow> 'p core_runtime \<Rightarrow> request_context \<Rightarrow> u64 \<Rightarrow> unit service_call" where
  "app_candidate_gate h core ctx candidate_id =
     op_then (op_pure (tenant_id_i64 (rq_tenant_id ctx))) (\<lambda>tenant_id.
     op_then (load_candidate core tenant_id candidate_id) (\<lambda>existing.
       require_write_i64 h core ctx (cd_space_id existing)))"

definition app_approve_candidate :: "('n, 't::linorder) service_host \<Rightarrow> (u64 \<Rightarrow> string \<Rightarrow> service_error + unit) \<Rightarrow>
    'p core_runtime \<Rightarrow> request_context \<Rightarrow> u64 \<Rightarrow> review_request \<Rightarrow> candidate_dto service_call" where
  "app_approve_candidate h audited core ctx candidate_id request =
     op_then (app_candidate_gate h core ctx candidate_id) (\<lambda>_.
       backend_approve_candidate h audited core (rq_tenant_id ctx) (rq_actor_id ctx) candidate_id request)"

definition app_reject_candidate :: "('n, 't::linorder) service_host \<Rightarrow> 'p core_runtime \<Rightarrow> request_context \<Rightarrow> u64 \<Rightarrow>
    review_request \<Rightarrow> candidate_dto service_call" where
  "app_reject_candidate h core ctx candidate_id request =
     op_then (app_candidate_gate h core ctx candidate_id) (\<lambda>_.
       backend_reject_candidate h core (rq_tenant_id ctx) (rq_actor_id ctx) candidate_id request)"

section \<open>Spaces\<close>

record space_dto =
  so_space_id :: u64
  so_uuid :: "string option"
  so_tenant_id :: u64
  so_organization_id :: "u64 option"
  so_owner_subject_type :: string
  so_owner_subject_id :: string
  so_space_type :: string
  so_display_name :: string
  so_default_scope :: "string option"
  so_lifecycle_status :: string
  so_created_at :: string
  so_updated_at :: string
  so_version :: u64

definition map_space_record :: "space_record \<Rightarrow> service_error + space_dto" where
  "map_space_record row =
     and_then (non_negative_i64_as_u64 (sr_space_id row) ''spaceId'') (\<lambda>space_id.
     and_then (non_negative_i64_as_u64 (sr_tenant_id row) ''tenantId'') (\<lambda>tenant_id.
     and_then (case sr_organization_id row of None \<Rightarrow> Inr None
         | Some v \<Rightarrow> map_sum id Some (non_negative_i64_as_u64 v ''organizationId'')) (\<lambda>organization_id.
     and_then (non_negative_i64_as_u64 (sr_version row) ''version'') (\<lambda>version.
       Inr \<lparr>so_space_id = space_id, so_uuid = Some (sr_uuid row), so_tenant_id = tenant_id,
         so_organization_id = organization_id, so_owner_subject_type = sr_owner_subject_type row,
         so_owner_subject_id = sr_owner_subject_id row, so_space_type = sr_space_type row,
         so_display_name = sr_display_name row, so_default_scope = Some (sr_default_scope row),
         so_lifecycle_status = sr_lifecycle_status row, so_created_at = sr_created_at row,
         so_updated_at = sr_updated_at row, so_version = version\<rparr>))))"

record space_request =
  sn_owner_subject_type :: string
  sn_owner_subject_id :: string
  sn_space_type :: string
  sn_display_name :: string
  sn_default_scope :: "string option"

definition generated_space_id :: "string \<Rightarrow> u64 \<Rightarrow> service_error + i64" where
  "generated_space_id detail n =
     (case i64_try_from n of None \<Rightarrow> Inl (err_storage detail) | Some x \<Rightarrow> Inr x)"

definition app_create_space :: "('n, 't::linorder) service_host \<Rightarrow> 'p core_runtime \<Rightarrow> request_context \<Rightarrow> u64 option \<Rightarrow>
    space_request \<Rightarrow> space_dto service_call" where
  "app_create_space h core ctx organization_id req =
     op_then (op_pure (validate_user_space_owner ctx (sn_owner_subject_type req) (sn_owner_subject_id req))) (\<lambda>_.
     op_then (op_pure (tenant_id_i64 (rq_tenant_id ctx))) (\<lambda>tenant_id.
     op_then (next_id h) (\<lambda>id.
     op_then (op_pure (generated_space_id ''generated space id out of range'' id)) (\<lambda>space_id.
     op_then (service_quota_limits h tenant_id) (\<lambda>limits.
     op_then (read_clock h) (\<lambda>now.
     op_then (on_runtime (plane_create_space_atomic_with_quota core
         \<lparr>cm_tenant_id = tenant_id, cm_space_id = space_id, cm_organization_id = organization_id,
          cm_owner_subject_type = sn_owner_subject_type req, cm_owner_subject_id = sn_owner_subject_id req,
          cm_space_type = sn_space_type req, cm_display_name = sn_display_name req,
          cm_default_scope = (case sn_default_scope req of Some s \<Rightarrow> s | None \<Rightarrow> ''user'')\<rparr>
         (unat (ql_max_spaces_per_user limits)) now)) (\<lambda>admission.
       op_pure (and_then (resolve_user_space_quota_admission (sn_owner_subject_id req) admission) map_space_record))))))))"

text \<open>The space of the mem0 wire. Each lookup of an existing one is an answer of the SQL store (\<open>existing\<close>).\<close>

definition mem0_space_type :: string where
  "mem0_space_type = ''mem0''"

definition mem0_space_default_scope :: string where
  "mem0_space_default_scope = ''mem0''"

definition mem0_space_display_name :: string where
  "mem0_space_display_name = ''mem0 compatibility''"

definition mem0_existing_space_id :: "service_error + i64 option \<Rightarrow> service_error + u64 option" where
  "mem0_existing_space_id found =
     and_then found (\<lambda>space_id. case space_id of None \<Rightarrow> Inr None
       | Some i \<Rightarrow> (case u64_try_from i of
           None \<Rightarrow> Inl (err_storage ''mem0 space id does not fit in an unsigned integer'') | Some x \<Rightarrow> Inr (Some x)))"

definition mem0_create_space :: "('n, 't::linorder) service_host \<Rightarrow> 'p core_runtime \<Rightarrow> i64 \<Rightarrow> string \<Rightarrow>
    (service_error + i64 option) \<Rightarrow> u64 service_call" where
  "mem0_create_space h core tenant_id actor again =
     op_then (next_id h) (\<lambda>id.
     op_then (op_pure (generated_space_id ''generated mem0 space id out of range'' id)) (\<lambda>space_id.
     op_then (service_quota_limits h tenant_id) (\<lambda>limits.
     op_then (read_clock h) (\<lambda>now s.
       case on_runtime (plane_create_space_atomic_with_quota core
         \<lparr>cm_tenant_id = tenant_id, cm_space_id = space_id, cm_organization_id = None,
          cm_owner_subject_type = ''user'', cm_owner_subject_id = actor, cm_space_type = mem0_space_type,
          cm_display_name = mem0_space_display_name, cm_default_scope = mem0_space_default_scope\<rparr>
         (unat (ql_max_spaces_per_user limits)) now) s of
         (Inr (SpaceAdmitted _), s) \<Rightarrow>
           ((case u64_try_from space_id of None \<Rightarrow> Inl (err_storage ''generated mem0 space id out of range'') | Some x \<Rightarrow> Inr x), s)
       | (Inr (SpaceQuotaExceeded active max_active), s) \<Rightarrow>
           (Inl (err_quota_exceeded (''this principal owns '' @ nat_text active @ '' memory spaces and the limit is '' @
             nat_text max_active @ ''; no space is available for the mem0 compatibility wire'')), s)
       | (Inl e, s) \<Rightarrow>
           ((case mem0_existing_space_id again of Inl e' \<Rightarrow> Inl e' | Inr (Some i) \<Rightarrow> Inr i | Inr None \<Rightarrow> Inl e), s)))))"

definition mem0_space_id :: "('n, 't::linorder) service_host \<Rightarrow> 'p core_runtime \<Rightarrow> request_context \<Rightarrow> (service_error + i64 option) \<Rightarrow>
    (service_error + i64 option) \<Rightarrow> u64 service_call" where
  "mem0_space_id h core ctx found again =
     op_then (op_pure (tenant_id_i64 (rq_tenant_id ctx))) (\<lambda>tenant_id.
     op_then (op_pure (case rq_actor_id ctx of
         None \<Rightarrow> Inl (err_validation ''mem0 compatibility requires an authenticated actor to own its memory space'')
       | Some a \<Rightarrow> Inr (u64_text a))) (\<lambda>actor.
     op_then (op_pure (mem0_existing_space_id found)) (\<lambda>existing.
       case existing of Some i \<Rightarrow> op_pure (Inr i) | None \<Rightarrow> mem0_create_space h core tenant_id actor again)))"

definition mem0_record_count :: "('n, 't::linorder) service_host \<Rightarrow> 'p core_runtime \<Rightarrow> request_context \<Rightarrow> u64 \<Rightarrow> nat service_call" where
  "mem0_record_count h core ctx space_id =
     op_then (require_read h core ctx space_id) (\<lambda>_.
     op_then (op_pure (service_scope ctx space_id)) (\<lambda>scope. on_runtime (plane_count_active_records core scope)))"

end
