(* ===== verification/Service_Laws.thy ===== *)
theory Service_Laws
  imports Memory_Service Access_Properties
begin

text \<open>
  Laws of the service: the steps before a store call change nothing of the runtime, an authorization
  over the service is one over the runtime, and what each operation leaves when it succeeds or fails.
\<close>

section \<open>Sequences of steps\<close>

lemma op_then_Inr:
  "op_then f k s = (Inr y, s') \<longleftrightarrow> (\<exists>x t. f s = (Inr x, t) \<and> k x t = (Inr y, s'))"
  by (auto simp: op_then_def split: prod.splits sum.splits)

lemma op_then_Inl:
  "op_then f k s = (Inl e, s') \<longleftrightarrow> f s = (Inl e, s') \<or> (\<exists>x t. f s = (Inr x, t) \<and> k x t = (Inl e, s'))"
  by (auto simp: op_then_def split: prod.splits sum.splits)

lemma op_then_InrE:
  assumes "op_then f k s = (Inr y, s')"
  obtains x t where "f s = (Inr x, t)" and "k x t = (Inr y, s')"
  using assms unfolding op_then_Inr by blast

lemma op_pure_eq [simp]: "op_pure r s = (r', s') \<longleftrightarrow> r = r' \<and> s' = s"
  by (auto simp: op_pure_def)

lemma op_then_run: "f s = (Inr x, t) \<Longrightarrow> op_then f k s = k x t"
  by (simp add: op_then_def)

lemma op_then_fail: "f s = (Inl e, t) \<Longrightarrow> op_then f k s = (Inl e, t)"
  by (simp add: op_then_def)

lemma op_then_pure [simp]: "op_then (op_pure (Inr x)) k = k x" "op_then (op_pure (Inl e)) k = op_pure (Inl e)"
  by (simp_all add: op_then_def op_pure_def fun_eq_iff)

text \<open>An operation that leaves the runtime alone, and one that does so when it fails.\<close>

definition quiet :: "'a service_call \<Rightarrow> bool" where
  "quiet f \<longleftrightarrow> (\<forall>s. sv_runtime (snd (f s)) = sv_runtime s)"

definition fails_quietly :: "'a service_call \<Rightarrow> bool" where
  "fails_quietly f \<longleftrightarrow> (\<forall>s e s'. f s = (Inl e, s') \<longrightarrow> sv_runtime s' = sv_runtime s)"

named_theorems quiet_steps

lemma quietD: "quiet f \<Longrightarrow> f s = (r, s') \<Longrightarrow> sv_runtime s' = sv_runtime s"
  by (metis quiet_def snd_conv)

lemma fails_quietlyD: "fails_quietly f \<Longrightarrow> f s = (Inl e, s') \<Longrightarrow> sv_runtime s' = sv_runtime s"
  by (auto simp: fails_quietly_def)

lemma quiet_fails [quiet_steps]: "quiet f \<Longrightarrow> fails_quietly f"
  by (auto simp: fails_quietly_def dest: quietD)

lemma quiet_pure [quiet_steps]: "quiet (op_pure r)"
  by (simp add: quiet_def op_pure_def)

lemma quiet_then [quiet_steps]:
  assumes "quiet f" and "\<And>x. quiet (k x)"
  shows "quiet (op_then f k)"
  unfolding quiet_def
proof
  fix s
  show "sv_runtime (snd (op_then f k s)) = sv_runtime s"
    using quietD[OF assms(1)] quietD[OF assms(2)]
    by (cases "f s"; cases "fst (f s)") (auto simp: op_then_def, metis prod.collapse)
qed

lemma fails_quietly_then [quiet_steps]:
  assumes "quiet f" and "\<And>x. fails_quietly (k x)"
  shows "fails_quietly (op_then f k)"
  using assms(2) unfolding fails_quietly_def op_then_Inl
  by (metis quietD[OF assms(1)])

lemma quiet_next_id [quiet_steps]: "quiet (next_id h)"
  by (simp add: quiet_def next_id_def)

lemma quiet_read_clock [quiet_steps]: "quiet (read_clock h)"
  by (simp add: quiet_def read_clock_def)

lemma quiet_quota [quiet_steps]: "quiet (service_quota_limits h tenant_id)"
  by (auto simp: quiet_def service_quota_limits_def split: prod.splits)

lemma quiet_journal [quiet_steps]: "quiet (memory_mutation_journal h memory_id event_type audit_action payload)"
  by (cases "vh_render_json h payload") (auto simp: memory_mutation_journal_def intro!: quiet_steps)

section \<open>Authorization\<close>

lemma service_resolver_reads:
  "service_resolver core q s = (fst (plane_resolve_space_governance core q (sv_runtime s)), s)"
  using plane_governance_no_write[of core q "sv_runtime s"]
  by (cases "plane_resolve_space_governance core q (sv_runtime s)") (simp add: service_resolver_def on_runtime_def)

interpretation service_governance: monotone_governance_provider "service_resolver core"
  "\<lambda>t sp s. stored_space_fact t sp (sv_runtime s)" "\<lambda>sc a s. actor_facts sc a (sv_runtime s)"
  "\<lambda>sc c s. capability_facts sc c (sv_runtime s)" for core
  by unfold_locales
    (auto simp: service_resolver_reads intro: reference_governance.complete_space reference_governance.complete_bindings
      reference_governance.complete_capabilities reference_governance.fewer_facts)

lemma resolve_facts_lift:
  "resolve_governance_facts (service_resolver core) ctx space_id code s =
     (fst (resolve_governance_facts (plane_resolve_space_governance core) ctx space_id code (sv_runtime s)), s)"
proof (cases "tenant_id_i64 (rq_tenant_id ctx)"; cases "space_id_i64 space_id")
  fix t sp
  assume ids: "tenant_id_i64 (rq_tenant_id ctx) = Inr t" "space_id_i64 space_id = Inr sp"
  show ?thesis
  proof (cases "plane_resolve_space_governance core (governance_query ctx t sp code) (sv_runtime s)")
    case (Pair r rt)
    thus ?thesis
      by (cases r) (simp_all add: resolve_governance_facts_def ids op_then_def service_resolver_reads op_pure_def)
  qed
qed (simp_all add: resolve_governance_facts_def op_then_def op_pure_def)

lemma authorize_lift:
  "authorize_actor_for_space parse (service_resolver core) ctx space_id w code now s =
     (fst (authorize_actor_for_space parse (plane_resolve_space_governance core) ctx space_id w code now (sv_runtime s)), s)"
proof -
  let ?q = "if rq_elevated_tenant_access ctx then None else code"
  show ?thesis
  proof (cases "resolve_governance_facts (plane_resolve_space_governance core) ctx space_id ?q (sv_runtime s)")
    case (Pair r rt)
    thus ?thesis
      by (cases r) (simp_all add: authorize_actor_for_space_def Let_def op_then_def resolve_facts_lift op_pure_def)
  qed
qed

text \<open>The answers of the gates at the next reading of the clock.\<close>

definition write_answer :: "('n, 't::linorder) service_host \<Rightarrow> 'p core_runtime \<Rightarrow> request_context \<Rightarrow> u64 \<Rightarrow> service_state \<Rightarrow>
    service_error + unit" where
  "write_answer h core ctx space_id s =
     fst (assert_actor_can_access_space_for_write (vh_parse_time h) (plane_resolve_space_governance core) ctx space_id
       (vh_clock h (sv_ticks s)) (sv_runtime s))"

definition retrieval_answer :: "('n, 't::linorder) service_host \<Rightarrow> 'p core_runtime \<Rightarrow> request_context \<Rightarrow> u64 \<Rightarrow> service_state \<Rightarrow>
    service_error + space_authorization" where
  "retrieval_answer h core ctx space_id s =
     fst (authorize_actor_for_space_retrieval (vh_parse_time h) (plane_resolve_space_governance core) ctx space_id
       (vh_clock h (sv_ticks s)) (sv_runtime s))"

lemma require_write_eq:
  "require_write h core ctx space_id s = (write_answer h core ctx space_id s, s\<lparr>sv_ticks := sv_ticks s + 1\<rparr>)"
proof (cases "authorize_actor_for_space (vh_parse_time h) (plane_resolve_space_governance core) ctx space_id True
    (Some capability_memory_write) (vh_clock h (sv_ticks s)) (sv_runtime s)")
  case (Pair r rt)
  thus ?thesis
    by (cases r) (simp_all add: require_write_def write_answer_def assert_actor_can_access_space_for_write_def
        op_then_def read_clock_def authorize_lift op_pure_def)
qed

lemma require_retrieval_eq:
  "require_retrieval h core ctx space_id s = (retrieval_answer h core ctx space_id s, s\<lparr>sv_ticks := sv_ticks s + 1\<rparr>)"
  by (simp add: require_retrieval_def retrieval_answer_def authorize_actor_for_space_retrieval_def op_then_def
      read_clock_def authorize_lift)

lemma quiet_require_write [quiet_steps]: "quiet (require_write h core ctx space_id)"
  by (simp add: quiet_def require_write_eq)

lemma quiet_require_retrieval [quiet_steps]: "quiet (require_retrieval h core ctx space_id)"
  by (simp add: quiet_def require_retrieval_eq)

section \<open>Identifiers and mapped records\<close>

text \<open>Reading a number back, and identifiers within the range of a signed one.\<close>

definition service_host_ok :: "('n, 't::linorder) service_host \<Rightarrow> bool" where
  "service_host_ok h \<longleftrightarrow>
     (\<forall>n. n \<le> i64_max \<longrightarrow> vh_parse_int h (u64_text n) = Some n) \<and>
     (\<forall>k n. vh_ids h k = Inr n \<longrightarrow> n \<le> i64_max)"

lemma sint_nonneg: "x \<le> i64_max \<Longrightarrow> 0 \<le> sint x"
proof (rule ccontr)
  assume le: "x \<le> i64_max" and "\<not> 0 \<le> sint x"
  hence neg: "sint x < 0" by simp
  have "- (2 ^ 63) \<le> sint x" using sint_ge[of x] by simp
  hence "(sint x + 2 ^ 64) mod 2 ^ 64 = sint x + 2 ^ 64"
    using neg by (intro mod_pos_pos_trivial) simp_all
  hence "uint x = sint x + 2 ^ 64"
    by (simp add: uint_sint take_bit_eq_mod)
  hence "2 ^ 63 \<le> uint x" using \<open>- (2 ^ 63) \<le> sint x\<close> by simp
  moreover have "uint x \<le> 2 ^ 63 - 1" using le by (simp add: i64_max_def word_le_def)
  ultimately show False by simp
qed

lemma u64_try_from_small: "x \<le> i64_max \<Longrightarrow> u64_try_from x = Some x"
  using sint_nonneg[of x] by (simp add: u64_try_from_def)

lemma parse_own_id: "service_host_ok h \<Longrightarrow> n \<le> i64_max \<Longrightarrow> service_parse_id h (u64_text n) = Some n"
  by (simp add: service_parse_id_def parse_numeric_id_def service_host_ok_def u64_try_from_small)

lemma service_scope_Inr:
  "service_scope ctx space_id = Inr scope \<longleftrightarrow>
     rq_tenant_id ctx \<le> i64_max \<and> space_id \<le> i64_max \<and>
     scope = \<lparr>sc_tenant_id = rq_tenant_id ctx, sc_space_id = space_id, sc_organization_id = None, sc_user_id = rq_actor_id ctx\<rparr>"
  by (auto simp: service_scope_def and_then_Inr tenant_id_i64_Inr space_id_i64_Inr)

lemma version_fits: "\<exists>v. u64_try_from (if sint (x :: 64 word) < 0 then 0 else x) = Some v"
  by (simp add: u64_try_from_def)

text \<open>A record under a numeric id and a space in range is always mapped.\<close>

lemma map_record_total:
  assumes "service_parse_id h (cr_memory_id r) = Some n" and "cr_space_id r \<le> i64_max"
  shows "\<exists>m. map_canonical_record h r = Inr m \<and> cm_memory_id m = n \<and> cm_in_space m = cr_space_id r \<and>
    cm_sensitivity_level m = cr_sensitivity_level r \<and> cm_canonical_text m = cr_canonical_text r \<and>
    cm_metadata m = Option.bind (cr_metadata_json r) (vh_parse_json h)"
  using version_fits[of "cr_version r"]
  by (auto simp: map_canonical_record_def assms(1) u64_try_from_small[OF assms(2)])

section \<open>Calls of the data plane\<close>

lemma on_runtime_eq:
  "on_runtime call s = (r, s') \<longleftrightarrow> (\<exists>rt. call (sv_runtime s) = (r, rt) \<and> s' = s\<lparr>sv_runtime := rt\<rparr>)"
  by (auto simp: on_runtime_def split: prod.splits)

lemma dispatch_Inr:
  "dispatch core port call rt = (Inr y, rt') \<longleftrightarrow> ct_ports core port \<noteq> None \<and> call rt = (Inr y, rt')"
  by (cases "ct_ports core port") (auto simp: dispatch_missing dispatch_present split: prod.splits sum.splits)

lemma dispatch_Inl:
  "dispatch core port call rt = (Inl e, rt') \<Longrightarrow> rt' = rt \<or> (\<exists>e'. call rt = (Inl e', rt'))"
  by (cases "ct_ports core port") (auto simp: dispatch_missing dispatch_present split: prod.splits sum.splits)

lemma retrieve_canonical_eq:
  "record_retrieve_canonical q rt =
     (if RecordsLock \<in> rm_poisoned rt then fst (with_lock RecordsLock (\<lambda>rt. (Inr None, rt)) rt)
      else Inr (Option.bind (hm_get (rm_records rt) (scoped_id_new (sq_scope q) (sq_id q))) visible_canonical), rt)"
  by (simp add: record_retrieve_canonical_def with_lock_def)

section \<open>Creation\<close>

lemma fails_quietly_last:
  assumes "\<And>s e s'. f s = (Inl e, s') \<Longrightarrow> sv_runtime s' = sv_runtime s"
  shows "fails_quietly f"
  using assms by (auto simp: fails_quietly_def)

lemma fails_quietly_with:
  assumes "quiet f" and "\<And>x s t. f s = (Inr x, t) \<Longrightarrow> fails_quietly (k x)"
  shows "fails_quietly (op_then f k)"
  unfolding fails_quietly_def op_then_Inl
  using quietD[OF assms(1)] fails_quietlyD[OF assms(2)] by metis

lemma admission_Inr: "resolve_space_record_quota_admission scope admission = Inr x \<longleftrightarrow> admission = Admitted x"
  by (cases admission) (simp_all add: resolve_space_record_quota_admission_def)

lemma store_creation_fails_quietly:
  assumes "\<And>now. \<exists>m. map_canonical_record h (created_canonical c now) = Inr m"
  shows "fails_quietly (op_then (on_runtime (plane_create_canonical_memory_atomic_with_quota core c limit now)) (\<lambda>admission.
    op_pure (and_then (resolve_space_record_quota_admission scope admission) (map_canonical_record h))))"
proof (rule fails_quietly_last)
  fix s e s'
  assume run: "op_then (on_runtime (plane_create_canonical_memory_atomic_with_quota core c limit now)) (\<lambda>admission.
    op_pure (and_then (resolve_space_record_quota_admission scope admission) (map_canonical_record h))) s = (Inl e, s')"
  obtain r rt where call: "plane_create_canonical_memory_atomic_with_quota core c limit now (sv_runtime s) = (r, rt)"
    by fastforce
  have s': "sv_runtime s' = rt" and r: "r = Inr (Admitted x) \<Longrightarrow> map_canonical_record h x = Inr m \<Longrightarrow> False" for x m
    using run call
    by (cases r; auto simp: op_then_def on_runtime_def op_pure_def resolve_space_record_quota_admission_def)+
  show "sv_runtime s' = sv_runtime s"
  proof (cases "\<exists>x. r = Inr (Admitted x)")
    case True
    then obtain x where "r = Inr (Admitted x)" by blast
    with call have "x = created_canonical c now"
      by (auto simp: plane_create_canonical_memory_atomic_with_quota_def dispatch_Inr dest: create_effect(3))
    with assms[of now] r \<open>r = Inr (Admitted x)\<close> show ?thesis by blast
  next
    case False
    with call show ?thesis
      unfolding s' plane_create_canonical_memory_atomic_with_quota_def
      by (cases r) (auto simp: dispatch_Inr dest!: dispatch_Inl create_rejected)
  qed
qed

lemma created_maps:
  assumes "service_host_ok h" and "service_scope ctx space_id = Inr scope" and "n \<le> i64_max"
  shows "\<exists>m. map_canonical_record h (created_canonical (create_command scope (u64_text n) sensitivity j ex md req) now) = Inr m \<and>
    cm_memory_id m = n \<and> cm_in_space m = space_id \<and> cm_sensitivity_level m = sensitivity \<and>
    cm_canonical_text m = mq_canonical_text req \<and> cm_metadata m = Option.bind md (vh_parse_json h)"
  using map_record_total[of h "created_canonical (create_command scope (u64_text n) sensitivity j ex md req) now" n]
    parse_own_id[OF assms(1,3)] assms(2)
  by (auto simp: created_canonical_def create_command_def service_scope_Inr)

lemma next_id_fits: "service_host_ok h \<Longrightarrow> next_id h s = (Inr n, t) \<Longrightarrow> n \<le> i64_max"
  by (auto simp: next_id_def service_host_ok_def)

lemma create_memory_fails_quietly:
  assumes "service_host_ok h"
  shows "fails_quietly (create_memory h core ctx req)"
  unfolding create_memory_def
  apply (rule fails_quietly_then, (intro quiet_steps)[1])
  apply (rule fails_quietly_with, (intro quiet_steps)[1])
  apply (rule fails_quietly_then, (intro quiet_steps)[1])
  apply (rule fails_quietly_with, (intro quiet_steps)[1])
  apply (rule fails_quietly_then, (intro quiet_steps)[1])+
  apply (rule store_creation_fails_quietly)
  using created_maps[OF assms] next_id_fits[OF assms] by (metis op_pure_eq)

lemma create_memory_Inr:
  assumes "create_memory h core ctx req s = (Inr m, s')"
  shows "\<exists>scope limits n sensitivity j ex md now r.
    write_answer h core ctx (mq_space_id req) s = Inr () \<and> service_scope ctx (mq_space_id req) = Inr scope \<and>
    fst (service_quota_limits h (rq_tenant_id ctx) (s\<lparr>sv_ticks := sv_ticks s + 1\<rparr>)) = Inr limits \<and>
    vh_ids h (sv_drawn s) = Inr n \<and>
    normalize_sensitivity_level (mq_sensitivity_level req) = Inr sensitivity \<and> check_request_text h req = Inr () \<and>
    mj_audit_action j = ''memory.record.create'' \<and> mj_event_type j = ''memory.record.created'' \<and>
    serialize_metadata h (mq_metadata req) = Inr md \<and>
    record_create_canonical_with_quota (create_command scope (u64_text n) sensitivity j ex md req)
      (unat (ql_max_records_per_space limits)) now (sv_runtime s) = (Inr (Admitted r), sv_runtime s') \<and>
    map_canonical_record h r = Inr m \<and> ct_ports core RecordStore \<noteq> None"
proof -
  obtain scope limits n sensitivity j ex md now admission t0 t1 t2 t3 t4 where
    gate: "require_write h core ctx (mq_space_id req) s = (Inr (), t0)" and
    scope: "service_scope ctx (mq_space_id req) = Inr scope" and
    quota: "service_quota_limits h (rq_tenant_id ctx) t0 = (Inr limits, t1)" and
    drawn: "next_id h t1 = (Inr n, t2)" and
    sens: "normalize_sensitivity_level (mq_sensitivity_level req) = Inr sensitivity" and
    safe: "check_request_text h req = Inr ()" and
    journal: "memory_mutation_journal h (u64_text n) ''memory.record.created'' ''memory.record.create''
      (create_payload h (u64_text n) req) t2 = (Inr j, t3)" and
    md: "serialize_metadata h (mq_metadata req) = Inr md" and
    clock: "read_clock h t3 = (Inr now, t4)" and
    call: "on_runtime (plane_create_canonical_memory_atomic_with_quota core
      (create_command scope (u64_text n) sensitivity j ex md req) (unat (ql_max_records_per_space limits)) now) t4 =
      (Inr admission, s')" and
    admitted: "and_then (resolve_space_record_quota_admission scope admission) (map_canonical_record h) = Inr m"
    using assms unfolding create_memory_def
    by (elim op_then_InrE) (simp only: op_pure_eq, elim conjE, hypsubst, rule that, simp_all)
  have t0: "t0 = s\<lparr>sv_ticks := sv_ticks s + 1\<rparr>" "write_answer h core ctx (mq_space_id req) s = Inr ()"
    using gate by (auto simp: require_write_eq)
  have t1: "sv_drawn t1 = sv_drawn t0"
    using quota by (auto simp: service_quota_limits_def split: prod.splits)
  have id: "vh_ids h (sv_drawn s) = Inr n"
    using drawn t1 t0 by (simp add: next_id_def)
  have rt: "sv_runtime t4 = sv_runtime s"
    using quietD[OF quiet_read_clock clock] quietD[OF quiet_journal journal] quietD[OF quiet_next_id drawn]
      quietD[OF quiet_quota quota] t0 by simp
  obtain r where r: "admission = Admitted r" "map_canonical_record h r = Inr m"
    using admitted by (auto simp: and_then_Inr admission_Inr)
  have "record_create_canonical_with_quota (create_command scope (u64_text n) sensitivity j ex md req)
      (unat (ql_max_records_per_space limits)) now (sv_runtime s) = (Inr (Admitted r), sv_runtime s')" "ct_ports core RecordStore \<noteq> None"
    using call rt r(1) by (auto simp: on_runtime_eq plane_create_canonical_memory_atomic_with_quota_def dispatch_Inr)
  moreover have "mj_audit_action j = ''memory.record.create''" "mj_event_type j = ''memory.record.created''"
    using journal by (auto simp: memory_mutation_journal_def op_then_Inr split: sum.splits)
  moreover have "fst (service_quota_limits h (rq_tenant_id ctx) (s\<lparr>sv_ticks := sv_ticks s + 1\<rparr>)) = Inr limits"
    using quota by (simp add: t0)
  ultimately show ?thesis
    using t0(2) scope id sens safe md r(2) by blast
qed

section \<open>Reading\<close>

lemma load_scoped_record_answer:
  "fst (load_scoped_record h core ctx space_id memory_id s) =
     and_then (retrieval_answer h core ctx space_id s) (\<lambda>a.
     and_then (service_scope ctx space_id) (\<lambda>scope.
     and_then (fst (plane_retrieve_canonical_memory core \<lparr>sq_scope = scope, sq_id = u64_text memory_id\<rparr> (sv_runtime s))) (\<lambda>row.
       case row of None \<Rightarrow> Inl (err_not_found ''memory not found'')
       | Some r \<Rightarrow> and_then (map_canonical_record h r) (\<lambda>m.
           and_then (assert_actor_may_read_record_sensitivity_for_owner ctx (cm_sensitivity_level m)
             (sz_actor_is_space_owner a)) (\<lambda>_. Inr m)))))"
proof (cases "retrieval_answer h core ctx space_id s"; cases "service_scope ctx space_id")
  fix a scope
  assume ok: "retrieval_answer h core ctx space_id s = Inr a" "service_scope ctx space_id = Inr scope"
  show ?thesis
  proof (cases "plane_retrieve_canonical_memory core \<lparr>sq_scope = scope, sq_id = u64_text memory_id\<rparr> (sv_runtime s)")
    case (Pair row rt)
    thus ?thesis
      by (cases row)
        (simp_all add: load_scoped_record_def require_retrieval_eq op_then_def on_runtime_def op_pure_def ok
          split: option.split)
  qed
qed (simp_all add: load_scoped_record_def require_retrieval_eq op_then_def op_pure_def)

end
