(* ===== verification/Batch_Laws.thy ===== *)
theory Batch_Laws
  imports Service_Laws
begin

text \<open>
  Laws of a batch of updates: the passes over its slots merge into one, chunks make no difference, and
  a slot does what the update of a single record does.
\<close>

section \<open>Passes over slots\<close>

lemma each_slot_append:
  "each_slot f (xs @ ys) s = (case each_slot f xs s of (rs, s) \<Rightarrow> map_prod ((@) rs) id (each_slot f ys s))"
proof (induction xs arbitrary: s)
  case Nil
  show ?case by (cases "each_slot f ys s") simp
next
  case (Cons x xs)
  obtain r t where r: "f x s = (r, t)" by fastforce
  obtain rs u where rs: "each_slot f xs t = (rs, u)" by fastforce
  show ?case by (cases "each_slot f ys u") (simp add: r rs Cons)
qed

lemma run_chunks_each: "run_chunks h core plans s = each_slot (run_slot h core) plans s"
proof (induction h core plans s rule: run_chunks.induct)
  case (1 h core plans s)
  let ?n = "min (length plans) max_update_memories_batch_chunk"
  show ?case
  proof (cases "plans = []")
    case False
    obtain rs t where rs: "each_slot (run_slot h core) (take ?n plans) s = (rs, t)" by fastforce
    have "each_slot (run_slot h core) plans s = each_slot (run_slot h core) (take ?n plans @ drop ?n plans) s"
      unfolding append_take_drop_id ..
    also have "\<dots> = map_prod ((@) rs) id (each_slot (run_slot h core) (drop ?n plans) t)"
      unfolding each_slot_append rs by simp
    also have "\<dots> = run_chunks h core plans s"
      using False 1[OF False refl rs[symmetric]] by (subst run_chunks.simps) (simp add: Let_def rs)
    finally show ?thesis ..
  qed (simp add: run_chunks.simps)
qed

text \<open>Two passes are one when the steps of the second do not matter to those of the first.\<close>

lemma each_slot_later:
  assumes "\<And>x p s. P x (snd (R p s)) = (fst (P x s), snd (R p (snd (P x s))))"
    and "\<And>x p s. fst (R p (snd (P x s))) = fst (R p s)"
  shows "each_slot P xs (snd (R p s)) = (fst (each_slot P xs s), snd (R p (snd (each_slot P xs s)))) \<and>
    fst (R p (snd (each_slot P xs s))) = fst (R p s)"
proof (induction xs arbitrary: s)
  case (Cons x xs)
  obtain q t where q: "P x s = (q, t)" by fastforce
  have "P x (snd (R p s)) = (q, snd (R p t))" "fst (R p t) = fst (R p s)"
    using assms(1)[of x p s] assms(2)[of p x s] q by simp_all
  with Cons.IH[of t] show ?case by (simp add: q split: prod.splits)
qed simp

lemma each_slot_two_passes:
  assumes "\<And>x p s. P x (snd (R p s)) = (fst (P x s), snd (R p (snd (P x s))))"
    and "\<And>x p s. fst (R p (snd (P x s))) = fst (R p s)"
  shows "(case each_slot P xs s of (ps, s) \<Rightarrow> each_slot R ps s) = each_slot (\<lambda>x s. case P x s of (p, s) \<Rightarrow> R p s) xs s"
proof (induction xs arbitrary: s)
  case (Cons x xs)
  obtain p t where p: "P x s = (p, t)" by fastforce
  obtain r u where r: "R p t = (r, u)" by fastforce
  obtain ps v where ps: "each_slot P xs t = (ps, v)" by fastforce
  have later: "each_slot P xs u = (ps, snd (R p v))" "fst (R p v) = r"
    using each_slot_later[where P = P and R = R, OF assms, of xs p t] r ps by simp_all
  obtain w where w: "R p v = (r, w)" using later(2) by (cases "R p v") simp
  show ?case using Cons.IH[of u] by (simp add: p r ps later(1) w split: prod.splits)
qed simp

section \<open>What a step reads and writes\<close>

definition draws_only :: "'a service_call \<Rightarrow> bool" where
  "draws_only f \<longleftrightarrow>
     (\<forall>s t. sv_drawn s = sv_drawn t \<longrightarrow> fst (f s) = fst (f t) \<and> sv_drawn (snd (f s)) = sv_drawn (snd (f t))) \<and>
     (\<forall>s. sv_runtime (snd (f s)) = sv_runtime s \<and> sv_ticks (snd (f s)) = sv_ticks s \<and>
        sv_quota_cache (snd (f s)) = sv_quota_cache s)"

definition draws_nothing :: "'a service_call \<Rightarrow> bool" where
  "draws_nothing f \<longleftrightarrow>
     (\<forall>s t. sv_runtime s = sv_runtime t \<longrightarrow> sv_ticks s = sv_ticks t \<longrightarrow> fst (f s) = fst (f t) \<and>
        sv_runtime (snd (f s)) = sv_runtime (snd (f t)) \<and> sv_ticks (snd (f s)) = sv_ticks (snd (f t))) \<and>
     (\<forall>s. sv_drawn (snd (f s)) = sv_drawn s \<and> sv_quota_cache (snd (f s)) = sv_quota_cache s)"

named_theorems frame_steps

lemma frame_pure [frame_steps]: "draws_only (op_pure r)" "draws_nothing (op_pure r)"
  by (simp_all add: draws_only_def draws_nothing_def op_pure_def)

lemma frame_next_id [frame_steps]: "draws_only (next_id h)"
  by (simp add: draws_only_def next_id_def)

lemma frame_clock [frame_steps]: "draws_nothing (read_clock h)"
  by (simp add: draws_nothing_def read_clock_def)

lemma frame_on_runtime [frame_steps]: "draws_nothing (on_runtime call)"
  by (auto simp: draws_nothing_def on_runtime_def split: prod.splits)

lemma snd_then: "snd (op_then f k s) = (case f s of (Inl _, t) \<Rightarrow> t | (Inr x, t) \<Rightarrow> snd (k x t))"
  by (auto simp: op_then_def split: prod.splits sum.splits)

lemma draws_only_then [frame_steps]:
  assumes "draws_only f" and "\<And>x. draws_only (k x)"
  shows "draws_only (op_then f k)"
proof -
  have "fst (op_then f k s) = fst (op_then f k t) \<and> sv_drawn (snd (op_then f k s)) = sv_drawn (snd (op_then f k t))"
    if "sv_drawn s = sv_drawn t" for s t
  proof -
    have "fst (f s) = fst (f t) \<and> sv_drawn (snd (f s)) = sv_drawn (snd (f t))"
      using assms(1) that unfolding draws_only_def by blast
    then obtain r s1 t1 where f: "f s = (r, s1)" "f t = (r, t1)" "sv_drawn s1 = sv_drawn t1"
      by (cases "f s"; cases "f t") simp
    have "fst (k x s1) = fst (k x t1) \<and> sv_drawn (snd (k x s1)) = sv_drawn (snd (k x t1))" for x
      using assms(2) f(3) unfolding draws_only_def by blast
    thus ?thesis using f by (cases r) (simp_all add: op_then_def)
  qed
  moreover have "sv_runtime (snd (op_then f k s)) = sv_runtime s \<and> sv_ticks (snd (op_then f k s)) = sv_ticks s \<and>
      sv_quota_cache (snd (op_then f k s)) = sv_quota_cache s" for s
  proof (cases "f s")
    case (Pair r t)
    have t: "sv_runtime t = sv_runtime s" "sv_ticks t = sv_ticks s" "sv_quota_cache t = sv_quota_cache s"
      using assms(1) Pair unfolding draws_only_def by (metis snd_conv)+
    have "sv_runtime (snd (k x t)) = sv_runtime t \<and> sv_ticks (snd (k x t)) = sv_ticks t \<and>
        sv_quota_cache (snd (k x t)) = sv_quota_cache t" for x
      using assms(2) unfolding draws_only_def by blast
    thus ?thesis using t by (cases r) (simp_all add: snd_then Pair)
  qed
  ultimately show ?thesis unfolding draws_only_def by blast
qed

lemma draws_nothing_then [frame_steps]:
  assumes "draws_nothing f" and "\<And>x. draws_nothing (k x)"
  shows "draws_nothing (op_then f k)"
proof -
  have "fst (op_then f k s) = fst (op_then f k t) \<and> sv_runtime (snd (op_then f k s)) = sv_runtime (snd (op_then f k t)) \<and>
      sv_ticks (snd (op_then f k s)) = sv_ticks (snd (op_then f k t))"
    if "sv_runtime s = sv_runtime t" "sv_ticks s = sv_ticks t" for s t
  proof -
    have "fst (f s) = fst (f t) \<and> sv_runtime (snd (f s)) = sv_runtime (snd (f t)) \<and> sv_ticks (snd (f s)) = sv_ticks (snd (f t))"
      using assms(1) that unfolding draws_nothing_def by blast
    then obtain r s1 t1 where f: "f s = (r, s1)" "f t = (r, t1)" "sv_runtime s1 = sv_runtime t1" "sv_ticks s1 = sv_ticks t1"
      by (cases "f s"; cases "f t") simp
    have "fst (k x s1) = fst (k x t1) \<and> sv_runtime (snd (k x s1)) = sv_runtime (snd (k x t1)) \<and>
        sv_ticks (snd (k x s1)) = sv_ticks (snd (k x t1))" for x
      using assms(2) f(3,4) unfolding draws_nothing_def by blast
    thus ?thesis using f by (cases r) (simp_all add: op_then_def)
  qed
  moreover have "sv_drawn (snd (op_then f k s)) = sv_drawn s \<and> sv_quota_cache (snd (op_then f k s)) = sv_quota_cache s" for s
  proof (cases "f s")
    case (Pair r t)
    have t: "sv_drawn t = sv_drawn s" "sv_quota_cache t = sv_quota_cache s"
      using assms(1) Pair unfolding draws_nothing_def by (metis snd_conv)+
    have "sv_drawn (snd (k x t)) = sv_drawn t \<and> sv_quota_cache (snd (k x t)) = sv_quota_cache t" for x
      using assms(2) unfolding draws_nothing_def by blast
    thus ?thesis using t by (cases r) (simp_all add: snd_then Pair)
  qed
  ultimately show ?thesis unfolding draws_nothing_def by blast
qed

lemma frame_journal [frame_steps]: "draws_only (memory_mutation_journal h memory_id event_type audit_action payload)"
  by (cases "vh_render_json h payload") (auto simp: memory_mutation_journal_def intro!: frame_steps)

lemma frame_plan: "draws_only (plan_slot h ctx scope space_id owner slot)"
  by (auto simp: plan_slot_def prepare_memory_patch_update_def intro!: frame_steps split: prod.split option.split)

lemma frame_run: "draws_nothing (run_slot h core plan)"
  by (auto simp: run_slot_def apply_update_def intro!: frame_steps split: sum.split)

lemma frames_commute:
  assumes "draws_only p" and "draws_nothing r"
  shows "p (snd (r s)) = (fst (p s), snd (r (snd (p s)))) \<and> fst (r (snd (p s))) = fst (r s)"
proof -
  have keep: "sv_drawn (snd (r t)) = sv_drawn t" "sv_quota_cache (snd (r t)) = sv_quota_cache t"
    "sv_runtime (snd (p t)) = sv_runtime t" "sv_ticks (snd (p t)) = sv_ticks t"
    "sv_quota_cache (snd (p t)) = sv_quota_cache t" for t
    using assms unfolding draws_only_def draws_nothing_def by blast+
  have a: "fst (p (snd (r s))) = fst (p s)" "sv_drawn (snd (p (snd (r s)))) = sv_drawn (snd (p s))"
    using assms(1) keep unfolding draws_only_def by blast+
  have b: "fst (r (snd (p s))) = fst (r s)" "sv_runtime (snd (r (snd (p s)))) = sv_runtime (snd (r s))"
    "sv_ticks (snd (r (snd (p s)))) = sv_ticks (snd (r s))"
    using assms(2) keep unfolding draws_nothing_def by blast+
  have "snd (p (snd (r s))) = snd (r (snd (p s)))"
    by (rule service_state.equality) (simp_all add: keep a b)
  with a(1) b(1) show ?thesis by (simp add: prod_eq_iff)
qed

lemma planned_runs:
  "(case each_slot (plan_slot h ctx scope space_id owner) slots s of (plans, s) \<Rightarrow> run_chunks h core plans s) =
     each_slot (\<lambda>slot. op_then (plan_slot h ctx scope space_id owner slot) (apply_update h core)) slots s"
proof -
  have step: "(case plan_slot h ctx scope space_id owner slot t of (p, t) \<Rightarrow> run_slot h core p t) =
      op_then (plan_slot h ctx scope space_id owner slot) (apply_update h core) t" for slot t
    by (auto simp: run_slot_def op_then_def op_pure_def split: prod.split sum.split)
  show ?thesis
    unfolding run_chunks_each step[symmetric]
    by (rule each_slot_two_passes)
      (rule frames_commute[OF frame_plan frame_run, THEN conjunct1] frames_commute[OF frame_plan frame_run, THEN conjunct2])+
qed

section \<open>Steps over the same data\<close>

text \<open>With a clock that stands still, the readings of it do not matter.\<close>

definition same_data :: "service_state \<Rightarrow> service_state \<Rightarrow> bool" where
  "same_data s t \<longleftrightarrow> sv_runtime s = sv_runtime t \<and> sv_drawn s = sv_drawn t"

definition data_only :: "'a service_call \<Rightarrow> bool" where
  "data_only f \<longleftrightarrow> (\<forall>s t. same_data s t \<longrightarrow> fst (f s) = fst (f t) \<and> same_data (snd (f s)) (snd (f t)))"

lemma same_data_refl [simp]: "same_data s s"
  by (simp add: same_data_def)

lemma same_data_ticks [simp]:
  "same_data (s\<lparr>sv_ticks := n\<rparr>) t = same_data s t" "same_data s (t\<lparr>sv_ticks := n\<rparr>) = same_data s t"
  by (simp_all add: same_data_def)

lemma data_only_pure [frame_steps]: "data_only (op_pure r)"
  by (simp add: data_only_def op_pure_def)

lemma data_only_next_id [frame_steps]: "data_only (next_id h)"
  by (simp add: data_only_def same_data_def next_id_def)

lemma data_only_clock: "(\<And>k. vh_clock h k = now) \<Longrightarrow> data_only (read_clock h)"
  by (simp add: data_only_def same_data_def read_clock_def)

lemma data_only_on_runtime [frame_steps]: "data_only (on_runtime call)"
  by (auto simp: data_only_def same_data_def on_runtime_def split: prod.splits)

lemma data_only_then [frame_steps]:
  assumes "data_only f" and "\<And>x. data_only (k x)"
  shows "data_only (op_then f k)"
  unfolding data_only_def
proof (intro allI impI)
  fix s t
  assume "same_data s t"
  hence "fst (f s) = fst (f t) \<and> same_data (snd (f s)) (snd (f t))"
    using assms(1) unfolding data_only_def by blast
  then obtain r s1 t1 where f: "f s = (r, s1)" "f t = (r, t1)" "same_data s1 t1"
    by (cases "f s"; cases "f t") simp
  have "fst (k x s1) = fst (k x t1) \<and> same_data (snd (k x s1)) (snd (k x t1))" for x
    using assms(2) f(3) unfolding data_only_def by blast
  thus "fst (op_then f k s) = fst (op_then f k t) \<and> same_data (snd (op_then f k s)) (snd (op_then f k t))"
    using f by (cases r) (simp_all add: op_then_def)
qed

lemma data_only_journal [frame_steps]: "data_only (memory_mutation_journal h memory_id event_type audit_action payload)"
  by (cases "vh_render_json h payload") (auto simp: memory_mutation_journal_def intro!: frame_steps)

lemma data_only_apply:
  assumes "\<And>k. vh_clock h k = now"
  shows "data_only (apply_update h core command)"
  by (auto simp: apply_update_def intro!: frame_steps data_only_clock[OF assms])

lemma data_only_plan: "data_only (plan_slot h ctx scope space_id owner slot)"
  by (auto simp: plan_slot_def prepare_memory_patch_update_def intro!: frame_steps split: prod.split option.split)

section \<open>What an update leaves\<close>

text \<open>The facts of governance, the locks, and every record but one.\<close>

definition unchanged_but :: "scoped_id \<Rightarrow> reference_runtime \<Rightarrow> reference_runtime \<Rightarrow> bool" where
  "unchanged_but key rt rt' \<longleftrightarrow>
     rm_governance_spaces rt' = rm_governance_spaces rt \<and> rm_governance_bindings rt' = rm_governance_bindings rt \<and>
     rm_governance_capabilities rt' = rm_governance_capabilities rt \<and> rm_poisoned rt' = rm_poisoned rt \<and>
     (\<forall>k. k \<noteq> key \<longrightarrow> hm_get (rm_records rt') k = hm_get (rm_records rt) k)"

lemma unchanged_refl [simp]: "unchanged_but key rt rt"
  by (simp add: unchanged_but_def)

lemma update_unchanged:
  "record_update_canonical c now rt = (r, rt') \<Longrightarrow> unchanged_but (scoped_id_new (uc_scope c) (uc_memory_id c)) rt rt'"
  by (auto simp: update_unfold unchanged_but_def put_outbox_def put_audit_def modify_record_def
      split: option.splits if_splits)

lemma apply_unchanged:
  "unchanged_but (scoped_id_new (uc_scope c) (uc_memory_id c)) (sv_runtime s) (sv_runtime (snd (apply_update h core c s)))"
proof -
  let ?now = "vh_clock h (sv_ticks s)"
  obtain r rt where run: "record_update_canonical c ?now (sv_runtime s) = (r, rt)" by fastforce
  have "snd (plane_update_canonical_memory_atomic core c ?now (sv_runtime s)) \<in> {sv_runtime s, rt}"
    using run by (cases "ct_ports core RecordStore"; cases r)
      (simp_all add: plane_update_canonical_memory_atomic_def dispatch_missing dispatch_present)
  moreover have "sv_runtime (snd (apply_update h core c s)) =
      snd (plane_update_canonical_memory_atomic core c ?now (sv_runtime s))"
    by (cases "plane_update_canonical_memory_atomic core c ?now (sv_runtime s)"; 
        cases "fst (plane_update_canonical_memory_atomic core c ?now (sv_runtime s))")
      (simp_all add: apply_update_def op_then_def read_clock_def on_runtime_def op_pure_def)
  ultimately show ?thesis using update_unchanged[OF run] by auto
qed

lemma plane_governance_same:
  assumes "unchanged_but key rt rt'"
  shows "fst (plane_resolve_space_governance core q rt') = fst (plane_resolve_space_governance core q rt)"
proof -
  have "fst (resolve_space_governance q rt') = fst (resolve_space_governance q rt)"
    using assms
    by (simp add: unchanged_but_def resolve_space_governance_def with_lock_def actor_facts_def capability_facts_def Let_def
        split: sum.split option.split prod.split)
  thus ?thesis
    by (cases "ct_ports core GovernanceAccess"; cases "resolve_space_governance q rt"; cases "resolve_space_governance q rt'")
      (auto simp: plane_resolve_space_governance_def dispatch_missing dispatch_present split: sum.split)
qed

lemma fst_then_pure: "fst (op_then f (\<lambda>x. op_pure (g x)) s) = and_then (fst (f s)) g"
  by (auto simp: op_then_def op_pure_def and_then_def split: prod.split sum.split)

lemma authorize_same:
  assumes "unchanged_but key rt rt'"
  shows "fst (authorize_actor_for_space parse (plane_resolve_space_governance core) ctx space_id w code now rt') =
    fst (authorize_actor_for_space parse (plane_resolve_space_governance core) ctx space_id w code now rt)"
proof -
  have "fst (resolve_governance_facts (plane_resolve_space_governance core) ctx space_id c rt') =
      fst (resolve_governance_facts (plane_resolve_space_governance core) ctx space_id c rt)" for c
    by (cases "tenant_id_i64 (rq_tenant_id ctx)"; cases "space_id_i64 space_id")
      (simp_all add: resolve_governance_facts_def fst_then_pure plane_governance_same[OF assms] op_pure_def)
  thus ?thesis
    by (simp add: authorize_actor_for_space_def Let_def fst_then_pure)
qed

section \<open>The gates of an update\<close>

text \<open>Open when both authorizations pass, the ids fit and the records can be read.\<close>

definition update_gates :: "('n, 't::linorder) service_host \<Rightarrow> 'p core_runtime \<Rightarrow> request_context \<Rightarrow> u64 \<Rightarrow> service_state \<Rightarrow>
    (scope_context \<times> space_authorization) option" where
  "update_gates h core ctx space_id s =
     (case (service_scope ctx space_id, write_answer h core ctx space_id s, retrieval_answer h core ctx space_id s) of
        (Inr scope, Inr _, Inr a) \<Rightarrow>
          if ct_ports core RecordStore \<noteq> None \<and> RecordsLock \<notin> rm_poisoned (sv_runtime s) then Some (scope, a) else None
      | _ \<Rightarrow> None)"

definition stored_visible :: "scope_context \<Rightarrow> u64 \<Rightarrow> service_state \<Rightarrow> canonical_record option" where
  "stored_visible scope memory_id s =
     Option.bind (hm_get (rm_records (sv_runtime s)) (scoped_id_new scope (u64_text memory_id))) visible_canonical"

lemma answers_later:
  assumes "\<And>k. vh_clock h k = now"
    and "sv_runtime t = sv_runtime s \<or> unchanged_but key (sv_runtime s) (sv_runtime t)"
  shows "write_answer h core ctx space_id t = write_answer h core ctx space_id s"
    and "retrieval_answer h core ctx space_id t = retrieval_answer h core ctx space_id s"
    and "update_gates h core ctx space_id t = update_gates h core ctx space_id s"
proof -
  have key: "unchanged_but key (sv_runtime s) (sv_runtime t)" using assms(2) by auto
  show eqs: "write_answer h core ctx space_id t = write_answer h core ctx space_id s"
    "retrieval_answer h core ctx space_id t = retrieval_answer h core ctx space_id s"
    by (simp_all add: authorize_same[OF key] write_answer_def retrieval_answer_def assert_actor_can_access_space_for_write_def
        authorize_actor_for_space_retrieval_def fst_then_pure assms(1))
  show "update_gates h core ctx space_id t = update_gates h core ctx space_id s"
  proof -
    have locks: "rm_poisoned (sv_runtime t) = rm_poisoned (sv_runtime s)" using key by (simp add: unchanged_but_def)
    show ?thesis unfolding update_gates_def eqs locks ..
  qed
qed

lemma plane_retrieve_answer:
  "plane_retrieve_canonical_memory core q rt =
     (if ct_ports core RecordStore \<noteq> None \<and> RecordsLock \<notin> rm_poisoned rt
      then Inr (Option.bind (hm_get (rm_records rt) (scoped_id_new (sq_scope q) (sq_id q))) visible_canonical)
      else fst (plane_retrieve_canonical_memory core q rt), rt)"
  by (cases "ct_ports core RecordStore")
    (simp_all add: plane_retrieve_canonical_memory_def dispatch_missing dispatch_present retrieve_canonical_eq with_lock_def)

lemma plane_retrieve_blocked:
  assumes "\<not> (ct_ports core RecordStore \<noteq> None \<and> RecordsLock \<notin> rm_poisoned rt)"
  obtains e where "plane_retrieve_canonical_memory core q rt = (Inl e, rt)"
  using assms
  by (cases "ct_ports core RecordStore")
    (auto simp: plane_retrieve_canonical_memory_def dispatch_missing dispatch_present retrieve_canonical_eq with_lock_def)

lemma load_open:
  assumes "update_gates h core ctx space_id s = Some (scope, a)"
  shows "load_scoped_record h core ctx space_id memory_id s =
    (case stored_visible scope memory_id s of None \<Rightarrow> Inl (err_not_found ''memory not found'')
     | Some r \<Rightarrow> and_then (map_canonical_record h r) (\<lambda>m.
         and_then (assert_actor_may_read_record_sensitivity_for_owner ctx (cm_sensitivity_level m) (sz_actor_is_space_owner a))
           (\<lambda>_. Inr m)),
     s\<lparr>sv_ticks := sv_ticks s + 1\<rparr>)"
  using assms
  by (subst load_scoped_record_def, subst plane_retrieve_answer[abs_def])
    (auto simp: update_gates_def require_retrieval_eq op_then_def on_runtime_def op_pure_def stored_visible_def
      split: sum.splits option.splits if_splits)

lemma op_then_at: "f s = (r, t) \<Longrightarrow> op_then f k s = op_then (op_pure r) k t"
  by (simp add: op_then_def op_pure_def)

lemma update_open:
  assumes clock: "\<And>k. vh_clock h k = now" and gates: "update_gates h core ctx space_id s = Some (scope, a)"
  shows "update_memory h core ctx memory_id space_id patch s =
    op_then (op_pure (case stored_visible scope memory_id s of None \<Rightarrow> Inl (err_not_found ''memory not found'')
      | Some r \<Rightarrow> and_then (map_canonical_record h r) (\<lambda>m.
         and_then (assert_actor_may_read_record_sensitivity_for_owner ctx (cm_sensitivity_level m) (sz_actor_is_space_owner a))
           (\<lambda>_. Inr m)))) (\<lambda>existing.
    op_then (op_pure (check_patch_text h patch)) (\<lambda>_.
    op_then (op_pure (merged_metadata_json h (cm_metadata existing) (mp_metadata patch))) (\<lambda>metadata_json.
    op_then (memory_mutation_journal h (u64_text memory_id) ''memory.record.updated'' ''memory.record.update''
         (record_payload h memory_id space_id)) (\<lambda>journal.
       apply_update h core (update_command scope memory_id patch metadata_json journal)))))
    (s\<lparr>sv_ticks := sv_ticks s + 2\<rparr>)"
proof -
  let ?s = "s\<lparr>sv_ticks := sv_ticks s + 1\<rparr>"
  have open1: "update_gates h core ctx space_id ?s = Some (scope, a)"
    using gates by (subst answers_later(3)[OF clock, of ?s s]) simp_all
  have "write_answer h core ctx space_id s = Inr ()" and scope: "service_scope ctx space_id = Inr scope"
    using gates by (auto simp: update_gates_def split: sum.splits if_splits)
  hence gate: "require_write h core ctx space_id s = (Inr (), ?s)" by (simp add: require_write_eq)
  show ?thesis
    unfolding update_memory_def op_then_run[where f = "require_write h core ctx space_id", OF gate] scope op_then_pure
      op_then_at[where f = "load_scoped_record h core ctx space_id memory_id", OF load_open[OF open1]]
    by (simp add: stored_visible_def)
qed

section \<open>A slot and a single update\<close>

lemma op_then_assoc: "op_then (op_then f g) k = op_then f (\<lambda>x. op_then (g x) k)"
  by (auto simp: op_then_def fun_eq_iff split: prod.split sum.split)

lemma mapped_sensitivity: "map_canonical_record h r = Inr m \<Longrightarrow> cm_sensitivity_level m = cr_sensitivity_level r"
  by (auto simp: map_canonical_record_def split: option.splits)

text \<open>The result of a slot, and the data it leaves; which of two failing checks is named does not count.\<close>

definition slot_outcome :: "(service_error + 'a) \<times> service_state \<Rightarrow> 'a option \<times> reference_runtime \<times> nat" where
  "slot_outcome out = (case fst out of Inl _ \<Rightarrow> None | Inr x \<Rightarrow> Some x, sv_runtime (snd out), sv_drawn (snd out))"

lemma settled_data: "data_only f \<Longrightarrow> same_data s t \<Longrightarrow> slot_outcome (f s) = slot_outcome (f t)"
  unfolding data_only_def slot_outcome_def same_data_def by metis

lemma settled_stop:
  "slot_outcome (op_then (op_pure r) k s) =
     (case r of Inl _ \<Rightarrow> (None, sv_runtime s, sv_drawn s) | Inr x \<Rightarrow> slot_outcome (k x s))"
  by (cases r) (simp_all add: slot_outcome_def op_pure_def)

lemma settled_fail: "slot_outcome (op_pure (Inl e) s) = (None, sv_runtime s, sv_drawn s)"
  by (simp add: slot_outcome_def op_pure_def)

lemma slot_settles:
  assumes clock: "\<And>k. vh_clock h k = now" and gates: "update_gates h core ctx space_id s = Some (scope, a)"
    and same: "same_data s t"
  shows "slot_outcome (update_memory h core ctx memory_id space_id patch s) =
    slot_outcome (op_then (plan_slot h ctx scope space_id (sz_actor_is_space_owner a)
      ((memory_id, patch), stored_visible scope memory_id s)) (apply_update h core) t)"
proof (cases "stored_visible scope memory_id s")
  case None
  thus ?thesis using same
    by (simp add: update_open[OF clock gates] plan_slot_def slot_outcome_def op_pure_def same_data_def)
next
  case (Some r)
  show ?thesis
  proof (cases "\<exists>m merged. map_canonical_record h r = Inr m \<and>
      assert_actor_may_read_record_sensitivity_for_owner ctx (cr_sensitivity_level r) (sz_actor_is_space_owner a) = Inr () \<and>
      check_patch_text h patch = Inr () \<and> merged_metadata_json h (cm_metadata m) (mp_metadata patch) = Inr merged")
    case True
    then obtain m merged where ok: "map_canonical_record h r = Inr m"
      "assert_actor_may_read_record_sensitivity_for_owner ctx (cr_sensitivity_level r) (sz_actor_is_space_owner a) = Inr ()"
      "check_patch_text h patch = Inr ()" "merged_metadata_json h (cm_metadata m) (mp_metadata patch) = Inr merged"
      by blast
    have level: "cm_sensitivity_level m = cr_sensitivity_level r" by (rule mapped_sensitivity[OF ok(1)])
    let ?run = "op_then (memory_mutation_journal h (u64_text memory_id) ''memory.record.updated'' ''memory.record.update''
        (record_payload h memory_id space_id)) (\<lambda>journal.
      apply_update h core (update_command scope memory_id patch merged journal))"
    have "update_memory h core ctx memory_id space_id patch s = ?run (s\<lparr>sv_ticks := sv_ticks s + 2\<rparr>)"
      by (simp add: update_open[OF clock gates] Some ok level)
    moreover have "op_then (plan_slot h ctx scope space_id (sz_actor_is_space_owner a) ((memory_id, patch), Some r))
        (apply_update h core) t = ?run t"
      by (simp add: plan_slot_def prepare_memory_patch_update_def ok op_then_assoc)
    ultimately show ?thesis
      using settled_data[of ?run "s\<lparr>sv_ticks := sv_ticks s + 2\<rparr>" t] same
      by (auto simp: Some intro!: frame_steps data_only_apply[OF clock])
  next
    case False
    have single: "slot_outcome (update_memory h core ctx memory_id space_id patch s) = (None, sv_runtime s, sv_drawn s)"
    proof (cases "map_canonical_record h r")
      case (Inr m)
      thus ?thesis using False mapped_sensitivity[OF Inr]
        by (cases "merged_metadata_json h (cm_metadata m) (mp_metadata patch)"; cases "check_patch_text h patch";
            cases "assert_actor_may_read_record_sensitivity_for_owner ctx (cr_sensitivity_level r) (sz_actor_is_space_owner a)")
          (simp_all add: update_open[OF clock gates] Some settled_stop settled_fail)
    qed (simp add: update_open[OF clock gates] Some settled_stop settled_fail)
    have slot: "slot_outcome (op_then (plan_slot h ctx scope space_id (sz_actor_is_space_owner a) ((memory_id, patch), Some r))
        (apply_update h core) t) = (None, sv_runtime t, sv_drawn t)"
    proof (cases "map_canonical_record h r")
      case (Inr m)
      thus ?thesis using False
        by (cases "merged_metadata_json h (cm_metadata m) (mp_metadata patch)"; cases "check_patch_text h patch";
            cases "assert_actor_may_read_record_sensitivity_for_owner ctx (cr_sensitivity_level r) (sz_actor_is_space_owner a)")
          (simp_all add: plan_slot_def prepare_memory_patch_update_def op_then_assoc settled_stop settled_fail)
    next
      case (Inl e)
      thus ?thesis
        by (cases "check_patch_text h patch";
            cases "assert_actor_may_read_record_sensitivity_for_owner ctx (cr_sensitivity_level r) (sz_actor_is_space_owner a)")
          (simp_all add: plan_slot_def prepare_memory_patch_update_def op_then_assoc settled_stop settled_fail)
    qed
    show ?thesis using single slot same by (simp add: Some same_data_def)
  qed
qed

lemma single_closed:
  assumes clock: "\<And>k. vh_clock h k = now" and gates: "update_gates h core ctx space_id s = None"
  shows "slot_outcome (update_memory h core ctx memory_id space_id patch s) = (None, sv_runtime s, sv_drawn s)"
proof (cases "write_answer h core ctx space_id s"; cases "service_scope ctx space_id")
  fix u scope
  assume open_: "write_answer h core ctx space_id s = Inr u" and scope: "service_scope ctx space_id = Inr scope"
  let ?s = "s\<lparr>sv_ticks := sv_ticks s + 1\<rparr>"
  have gate: "require_write h core ctx space_id s = (Inr (), ?s)" using open_ by (simp add: require_write_eq)
  have later: "retrieval_answer h core ctx space_id ?s = retrieval_answer h core ctx space_id s"
    by (subst answers_later(2)[OF clock, of ?s s]) simp_all
  have "\<exists>e n. load_scoped_record h core ctx space_id memory_id ?s = (Inl e, s\<lparr>sv_ticks := n\<rparr>)"
  proof (cases "retrieval_answer h core ctx space_id s")
    case (Inl e)
    hence "require_retrieval h core ctx space_id ?s = (Inl e, ?s\<lparr>sv_ticks := sv_ticks ?s + 1\<rparr>)"
      unfolding require_retrieval_eq later by simp
    thus ?thesis unfolding load_scoped_record_def by (subst op_then_fail) auto
  next
    case (Inr a)
    hence run: "require_retrieval h core ctx space_id ?s = (Inr a, ?s\<lparr>sv_ticks := sv_ticks ?s + 1\<rparr>)"
      unfolding require_retrieval_eq later by simp
    have "\<not> (ct_ports core RecordStore \<noteq> None \<and> RecordsLock \<notin> rm_poisoned (sv_runtime s))"
      using gates open_ scope Inr by (auto simp: update_gates_def split: if_splits)
    from plane_retrieve_blocked[OF this, of "\<lparr>sq_scope = scope, sq_id = u64_text memory_id\<rparr>"]
    obtain e where "plane_retrieve_canonical_memory core \<lparr>sq_scope = scope, sq_id = u64_text memory_id\<rparr> (sv_runtime s) =
      (Inl e, sv_runtime s)" .
    thus ?thesis
      unfolding load_scoped_record_def op_then_run[where f = "require_retrieval h core ctx space_id", OF run] scope op_then_pure
      by (auto simp: op_then_def on_runtime_def)
  qed
  then obtain e n where load: "load_scoped_record h core ctx space_id memory_id ?s = (Inl e, s\<lparr>sv_ticks := n\<rparr>)" by blast
  show ?thesis
    unfolding update_memory_def op_then_run[where f = "require_write h core ctx space_id", OF gate] scope op_then_pure
      op_then_fail[where f = "load_scoped_record h core ctx space_id memory_id", OF load]
    by (simp add: slot_outcome_def)
qed (simp_all add: update_memory_def op_then_def require_write_eq op_pure_def slot_outcome_def)

section \<open>The whole batch\<close>

definition batch_outcome :: "(service_error + 'a) list \<times> service_state \<Rightarrow> 'a option list \<times> reference_runtime \<times> nat" where
  "batch_outcome out =
     (map (\<lambda>r. case r of Inl _ \<Rightarrow> None | Inr x \<Rightarrow> Some x) (fst out), sv_runtime (snd out), sv_drawn (snd out))"

lemma settled_each_Cons:
  "batch_outcome (each_slot f (x # xs) s) =
     (case slot_outcome (f x s) of (r, _) \<Rightarrow> apfst (Cons r) (batch_outcome (each_slot f xs (snd (f x s)))))"
  by (cases "f x s"; cases "each_slot f xs (snd (f x s))") (simp add: batch_outcome_def slot_outcome_def)

lemma slot_unchanged:
  "unchanged_but (scoped_id_new scope (u64_text memory_id)) (sv_runtime t)
     (sv_runtime (snd (op_then (plan_slot h ctx scope space_id owner ((memory_id, patch), row)) (apply_update h core) t)))"
proof -
  obtain r u where plan: "plan_slot h ctx scope space_id owner ((memory_id, patch), row) t = (r, u)" by fastforce
  have u: "sv_runtime u = sv_runtime t"
    using frame_plan[of h ctx scope space_id owner "((memory_id, patch), row)"] plan unfolding draws_only_def by (metis snd_conv)
  show ?thesis
  proof (cases r)
    case (Inl e) thus ?thesis by (simp add: op_then_def plan u)
  next
    case (Inr c)
    hence "uc_scope c = scope \<and> uc_memory_id c = u64_text memory_id"
      using plan by (auto simp: plan_slot_def prepare_memory_patch_update_def op_then_Inr update_command_def split: option.splits)
    thus ?thesis using apply_unchanged[of c u h core] by (simp add: op_then_def plan Inr u)
  qed
qed

lemma slots_settle:
  assumes clock: "\<And>k. vh_clock h k = now"
  shows "update_gates h core ctx space_id s = Some (scope, a) \<Longrightarrow> same_data s t \<Longrightarrow> distinct (map (u64_text \<circ> fst) updates) \<Longrightarrow>
    batch_outcome (each_slot (\<lambda>slot. op_then (plan_slot h ctx scope space_id (sz_actor_is_space_owner a) slot) (apply_update h core))
      (zip updates (map (\<lambda>(i, _). stored_visible scope i s) updates)) t) =
    batch_outcome (each_slot (\<lambda>(i, patch). update_memory h core ctx i space_id patch) updates s)"
proof (induction updates arbitrary: s t)
  case (Cons x updates)
  obtain i patch where x: "x = (i, patch)" by fastforce
  let ?f = "\<lambda>slot. op_then (plan_slot h ctx scope space_id (sz_actor_is_space_owner a) slot) (apply_update h core)"
  let ?slot = "?f ((i, patch), stored_visible scope i s) t"
  let ?single = "update_memory h core ctx i space_id patch s"
  have eq: "slot_outcome ?single = slot_outcome ?slot" by (rule slot_settles[OF clock Cons.prems(1,2)])
  hence same: "same_data (snd ?single) (snd ?slot)" by (simp add: slot_outcome_def same_data_def)
  have kept: "unchanged_but (scoped_id_new scope (u64_text i)) (sv_runtime s) (sv_runtime (snd ?single))"
    using slot_unchanged[of scope i t h ctx space_id "sz_actor_is_space_owner a" patch "stored_visible scope i s" core]
      same Cons.prems(2) by (simp add: same_data_def)
  have gates: "update_gates h core ctx space_id (snd ?single) = Some (scope, a)"
    using answers_later(3)[OF clock, of "snd ?single" s "scoped_id_new scope (u64_text i)" core ctx space_id] kept Cons.prems(1)
    by simp
  have "stored_visible scope j s = stored_visible scope j (snd ?single)" if "u64_text j \<noteq> u64_text i" for j
    using kept that by (simp add: stored_visible_def unchanged_but_def scoped_id_new_def)
  hence rows: "map (\<lambda>(i, _). stored_visible scope i s) updates = map (\<lambda>(i, _). stored_visible scope i (snd ?single)) updates"
    using Cons.prems(3) x by (force simp: image_iff)
  show ?case
    unfolding x list.map zip_Cons_Cons settled_each_Cons prod.case rows
    using Cons.IH[OF gates same] Cons.prems(3) eq by simp
qed (simp add: batch_outcome_def same_data_def)

lemma singles_closed:
  assumes clock: "\<And>k. vh_clock h k = now"
  shows "update_gates h core ctx space_id s = None \<Longrightarrow>
    batch_outcome (each_slot (\<lambda>(i, patch). update_memory h core ctx i space_id patch) updates s) =
      (replicate (length updates) None, sv_runtime s, sv_drawn s)"
proof (induction updates arbitrary: s)
  case (Cons x updates)
  obtain i patch where x: "x = (i, patch)" by fastforce
  let ?t = "snd (update_memory h core ctx i space_id patch s)"
  have closed: "slot_outcome (update_memory h core ctx i space_id patch s) = (None, sv_runtime s, sv_drawn s)"
    by (rule single_closed[OF clock Cons.prems])
  hence data: "sv_runtime ?t = sv_runtime s" "sv_drawn ?t = sv_drawn s" by (simp_all add: slot_outcome_def)
  have "update_gates h core ctx space_id ?t = None"
    by (subst answers_later(3)[OF clock, of ?t s]) (simp_all add: data Cons.prems)
  from Cons.IH[OF this] show ?case
    unfolding x settled_each_Cons prod.case closed data by simp
qed (simp add: batch_outcome_def)

lemma batch_closed:
  assumes clock: "\<And>k. vh_clock h k = now" and gates: "update_gates h core ctx space_id s = None"
  shows "batch_outcome (update_memories_batch h core ctx space_id updates s) =
    (replicate (length updates) None, sv_runtime s, sv_drawn s)"
proof -
  let ?s1 = "s\<lparr>sv_ticks := sv_ticks s + 1\<rparr>" and ?s2 = "s\<lparr>sv_ticks := sv_ticks s + 2\<rparr>"
  have later: "retrieval_answer h core ctx space_id ?s1 = retrieval_answer h core ctx space_id s"
    by (subst answers_later(2)[OF clock, of ?s1 s]) simp_all
  show ?thesis
  proof (cases "service_scope ctx space_id"; cases "write_answer h core ctx space_id s"; cases "retrieval_answer h core ctx space_id s")
    fix scope u a
    assume ok: "service_scope ctx space_id = Inr scope" "write_answer h core ctx space_id s = Inr u"
      "retrieval_answer h core ctx space_id s = Inr a"
    have "\<not> (ct_ports core RecordStore \<noteq> None \<and> RecordsLock \<notin> rm_poisoned (sv_runtime s))"
      using gates ok by (auto simp: update_gates_def split: if_splits)
    hence "updates \<noteq> [] \<Longrightarrow> \<exists>e. plane_retrieve_canonical_memories_batch core scope (map (\<lambda>(i, _). u64_text i) updates)
        (sv_runtime s) = (Inl e, sv_runtime s)"
      by (cases "ct_ports core RecordStore"; cases updates)
        (auto simp: plane_retrieve_canonical_memories_batch_def dispatch_missing dispatch_present record_retrieve_canonical_def
          with_lock_def)
    thus ?thesis
      by (auto simp: update_memories_batch_def filled_def require_write_eq require_retrieval_eq ok later[simplified] op_pure_def
          on_runtime_def batch_outcome_def)
  qed (auto simp: update_memories_batch_def filled_def require_write_eq require_retrieval_eq later[simplified] op_pure_def
    batch_outcome_def)
qed

lemma batch_open:
  assumes clock: "\<And>k. vh_clock h k = now" and gates: "update_gates h core ctx space_id s = Some (scope, a)"
  shows "update_memories_batch h core ctx space_id updates s =
    (if updates = [] then ([], s)
     else each_slot (\<lambda>slot. op_then (plan_slot h ctx scope space_id (sz_actor_is_space_owner a) slot) (apply_update h core))
       (zip updates (map (\<lambda>(i, _). stored_visible scope i s) updates)) (s\<lparr>sv_ticks := sv_ticks s + 2\<rparr>))"
proof -
  let ?s1 = "s\<lparr>sv_ticks := sv_ticks s + 1\<rparr>" and ?s2 = "s\<lparr>sv_ticks := sv_ticks s + 2\<rparr>"
  have later: "retrieval_answer h core ctx space_id ?s1 = retrieval_answer h core ctx space_id s"
    by (subst answers_later(2)[OF clock, of ?s1 s]) simp_all
  have ok: "service_scope ctx space_id = Inr scope" "write_answer h core ctx space_id s = Inr ()"
    "retrieval_answer h core ctx space_id s = Inr a" "ct_ports core RecordStore \<noteq> None" "RecordsLock \<notin> rm_poisoned (sv_runtime s)"
    using gates by (auto simp: update_gates_def split: sum.splits if_splits)
  have "plane_retrieve_canonical_memories_batch core scope (map (\<lambda>(i, _). u64_text i) updates) (sv_runtime s) =
      (Inr (map (\<lambda>(i, _). stored_visible scope i s) updates), sv_runtime s)"
    using ok(4,5)
    by (auto simp: plane_retrieve_canonical_memories_batch_def dispatch_Inr retrieve_canonical_batch_ok stored_visible_def)
  thus ?thesis
    by (simp add: update_memories_batch_def filled_def require_write_eq require_retrieval_eq ok later[simplified] op_pure_def
        on_runtime_def planned_runs)
qed

section \<open>Decimal texts\<close>

definition text_value :: "string \<Rightarrow> nat" where
  "text_value ds = fold (\<lambda>c v. 10 * v + (of_char c - 48)) ds 0"

lemma text_value_nat: "text_value (nat_text n) = n"
proof (induction n rule: nat_text.induct)
  case (1 n)
  thus ?case by (subst nat_text.simps) (simp add: text_value_def digit_char_def)
qed

lemma u64_text_eq: "u64_text m = u64_text n \<longleftrightarrow> m = n"
  using text_value_nat by (metis u64_text_def word_unat_eq_iff)

lemma batch_settles:
  assumes clock: "\<And>k. vh_clock h k = now" and ids: "distinct (map fst updates)"
  shows "batch_outcome (update_memories_batch h core ctx space_id updates s) =
    batch_outcome (each_slot (\<lambda>(i, patch). update_memory h core ctx i space_id patch) updates s)"
proof (cases "update_gates h core ctx space_id s")
  case None
  thus ?thesis using batch_closed[OF clock] singles_closed[OF clock] by metis
next
  case (Some p)
  obtain scope a where gates: "update_gates h core ctx space_id s = Some (scope, a)" using Some by (cases p) simp
  have "distinct (map (u64_text \<circ> fst) updates)"
    using ids by (simp add: distinct_map inj_on_def u64_text_eq)
  with slots_settle[OF clock gates, of "s\<lparr>sv_ticks := sv_ticks s + 2\<rparr>" updates] show ?thesis
    by (auto simp: batch_open[OF clock gates])
qed

end
