(* ===== verification/Service_Properties.thy ===== *)
theory Service_Properties
  imports Batch_Laws
begin

text \<open>
  Properties of the service: a creation leaves everything or nothing, the quota it is admitted
  under, batches of updates, and the approval of candidates.
\<close>

section \<open>Creating records\<close>

text \<open>A host whose ids count up from 100 and that finds nothing sensitive; its clock stands still.\<close>

definition sample_service_host :: "(nat, nat) service_host" where
  "sample_service_host =
     \<lparr>vh_ids = (\<lambda>k. Inr (of_nat (k mod 1000 + 100))), vh_clock = (\<lambda>_. ''now''), vh_instant = (\<lambda>k. k),
      vh_parse_time = sample_parse, vh_format_time = (\<lambda>t. replicate t CHR ''t''),
      vh_parse_int = (\<lambda>v. Some (of_nat (text_value v))), vh_is_match = (\<lambda>_ _. False),
      vh_parse_json = (\<lambda>_. None), vh_render_json = (\<lambda>_. Inr ''json''), vh_json_text = (\<lambda>_. ''json''),
      vh_number = unat, vh_env_limits = \<lparr>ql_max_records_per_space = 100, ql_max_spaces_per_user = 10\<rparr>,
      vh_policies = [], vh_decode_policy = (\<lambda>_. Inl ''policy'')\<rparr>"

lemma sample_service_host_ok: "service_host_ok sample_service_host"
proof -
  have small: "(of_nat n :: u64) \<le> i64_max" if "n < 2 ^ 63" for n
    using that by (simp add: word_le_nat_alt i64_max_def unsigned_of_nat take_bit_nat_eq_self)
  have "(of_nat (k mod 1000 + 100) :: u64) \<le> i64_max" for k
    using mod_less_divisor[of 1000 k] by (intro small) simp
  thus ?thesis by (simp add: service_host_ok_def sample_service_host_def u64_text_def text_value_nat)
qed

definition sample_service :: service_state where
  "sample_service = \<lparr>sv_runtime = sample_access_runtime, sv_drawn = 0, sv_ticks = 0, sv_quota_cache = []\<rparr>"

definition sample_memory_request :: "nat memory_request" where
  "sample_memory_request =
     \<lparr>mq_space_id = 2, mq_scope = ''user'', mq_memory_type = Semantic, mq_subject = None, mq_predicate = None,
      mq_object_text = None, mq_canonical_text = ''likes tea'', mq_sensitivity_level = None, mq_expires_at = None,
      mq_metadata = None\<rparr>"

lemma retrieve_created:
  assumes created: "record_create_canonical_with_quota c m now rt = (Inr (Admitted r), sv_runtime s)"
    and maps: "map_canonical_record h r = Inr memory" "cc_memory_id c = u64_text (cm_memory_id memory)"
    and scope: "service_scope ctx space_id = Inr (cc_scope c)" "rq_tenant_id reader = rq_tenant_id ctx"
    and port: "ct_ports core RecordStore \<noteq> None"
  shows "fst (retrieve_memory h core reader (cm_memory_id memory) space_id s) =
    and_then (retrieval_answer h core reader space_id s) (\<lambda>a.
    and_then (assert_actor_may_read_record_sensitivity_for_owner reader (cm_sensitivity_level memory) (sz_actor_is_space_owner a))
      (\<lambda>_. Inr memory))"
proof -
  let ?scope = "(cc_scope c)\<lparr>sc_user_id := rq_actor_id reader\<rparr>"
  have reader: "service_scope reader space_id = Inr ?scope" using scope by (auto simp: service_scope_Inr)
  have key: "scoped_id_new ?scope = scoped_id_new (cc_scope c)" by (rule ext) (simp add: scoped_id_new_def)
  have "RecordsLock \<notin> rm_poisoned (sv_runtime s)"
    using created by (auto simp: create_Admitted)
  hence "plane_retrieve_canonical_memory core \<lparr>sq_scope = ?scope, sq_id = u64_text (cm_memory_id memory)\<rparr> (sv_runtime s) =
      (Inr (Some r), sv_runtime s)"
    using create_effect(1)[OF created] port maps(2) key
    by (simp add: plane_retrieve_canonical_memory_def dispatch_Inr retrieve_canonical_eq visible_canonical_def)
  thus ?thesis
    by (simp add: retrieve_memory_def load_scoped_record_answer reader maps(1))
qed

text \<open>
  C4. A creation by the service that fails leaves the data untouched, whatever step failed. One that
  succeeds was admitted by the write gate on the stored facts, over text without credentials and
  below the quota of the tenant; it stores exactly one new record with its outbox event and audit
  record, and answers a memory with the requested text. Every later reader of the tenant then gets
  exactly this memory when the retrieval gate and its sensitivity admit the reader, and the error of
  the gate otherwise.
\<close>

theorem service_create_exact:
  assumes "service_host_ok h" and "create_memory h core ctx req s = (res, s')"
  shows "case res of Inl e \<Rightarrow> sv_runtime s' = sv_runtime s
    | Inr memory \<Rightarrow>
        write_answer h core ctx (mq_space_id req) s = Inr () \<and>
        (\<forall>(label, value) \<in> {(''canonicalText'', mq_canonical_text req), (''objectText'', request_object_text req)}.
           is_blank value \<or> (\<forall>pattern \<in> set sensitive_patterns. \<not> vh_is_match h pattern value)) \<and>
        (\<exists>scope limits c r. service_scope ctx (mq_space_id req) = Inr scope \<and>
           fst (service_quota_limits h (rq_tenant_id ctx) (s\<lparr>sv_ticks := sv_ticks s + 1\<rparr>)) = Inr limits \<and>
           (ql_max_records_per_space limits = 0 \<or>
              active_records scope (sv_runtime s) < unat (ql_max_records_per_space limits)) \<and>
           hm_get (rm_records (sv_runtime s')) = (hm_get (rm_records (sv_runtime s)))
             (scoped_id_new scope (u64_text (cm_memory_id memory)) \<mapsto> state_active_canonical r) \<and>
           mj_audit_action c = ''memory.record.create'' \<and> journal_recorded scope c (sv_runtime s')) \<and>
        vh_ids h (sv_drawn s) = Inr (cm_memory_id memory) \<and>
        cm_in_space memory = mq_space_id req \<and> cm_canonical_text memory = mq_canonical_text req \<and>
        (\<forall>reader. rq_tenant_id reader = rq_tenant_id ctx \<longrightarrow>
           fst (retrieve_memory h core reader (cm_memory_id memory) (mq_space_id req) s') =
             and_then (retrieval_answer h core reader (mq_space_id req) s') (\<lambda>a.
             and_then (assert_actor_may_read_record_sensitivity_for_owner reader (cm_sensitivity_level memory)
               (sz_actor_is_space_owner a)) (\<lambda>_. Inr memory)))"
proof (cases res)
  case (Inl e)
  with assms show ?thesis using fails_quietlyD[OF create_memory_fails_quietly[OF assms(1)]] by simp
next
  case (Inr memory)
  obtain scope limits n sensitivity j ex md now r where run:
    "write_answer h core ctx (mq_space_id req) s = Inr ()" "service_scope ctx (mq_space_id req) = Inr scope"
    "fst (service_quota_limits h (rq_tenant_id ctx) (s\<lparr>sv_ticks := sv_ticks s + 1\<rparr>)) = Inr limits"
    "vh_ids h (sv_drawn s) = Inr n" "check_request_text h req = Inr ()" "mj_audit_action j = ''memory.record.create''"
    and created: "record_create_canonical_with_quota (create_command scope (u64_text n) sensitivity j ex md req)
      (unat (ql_max_records_per_space limits)) now (sv_runtime s) = (Inr (Admitted r), sv_runtime s')"
    and mapped: "map_canonical_record h r = Inr memory" and port: "ct_ports core RecordStore \<noteq> None"
    using create_memory_Inr[of h core ctx req s memory s'] assms(2) Inr by blast
  let ?c = "create_command scope (u64_text n) sensitivity j ex md req"
  have n: "n \<le> i64_max" using assms(1) run(4) by (auto simp: service_host_ok_def)
  have memory: "cm_memory_id memory = n" "cm_in_space memory = mq_space_id req" "cm_canonical_text memory = mq_canonical_text req"
    using created_maps[OF assms(1) run(2) n, of sensitivity j ex md req now] mapped create_effect(3)[OF created] by auto
  have c: "cc_scope ?c = scope" "cc_memory_id ?c = u64_text n" "cc_journal ?c = j" by (simp_all add: create_command_def)
  have quota: "ql_max_records_per_space limits = 0 \<or> active_records scope (sv_runtime s) < unat (ql_max_records_per_space limits)"
    using created by (auto simp: create_Admitted c unat_eq_0)
  have id: "cc_memory_id ?c = u64_text (cm_memory_id memory)" unfolding c memory(1) ..
  note reader = retrieve_created[OF created mapped id _ _ port, of ctx "mq_space_id req", unfolded c memory(1), OF run(2)]
  have safe: "\<forall>(label, value) \<in> {(''canonicalText'', mq_canonical_text req), (''objectText'', request_object_text req)}.
      is_blank value \<or> (\<forall>pattern \<in> set sensitive_patterns. \<not> vh_is_match h pattern value)"
    using run(5) unfolding check_request_text_def text_is_safe by simp
  have stored: "hm_get (rm_records (sv_runtime s')) = (hm_get (rm_records (sv_runtime s)))
      (scoped_id_new scope (u64_text n) \<mapsto> state_active_canonical r)" "journal_recorded scope j (sv_runtime s')"
    using create_effect(1,2)[OF created] by (simp_all add: c)
  show ?thesis
    unfolding Inr sum.case memory(1)
    using run(1-4,6) quota stored safe memory(2,3) reader by blast
qed

lemma sample_service_host_simps [simp]:
  "vh_clock sample_service_host k = ''now''" "vh_ids sample_service_host k = Inr (of_nat (k mod 1000 + 100))"
  "vh_render_json sample_service_host v = Inr ''json''" "vh_env_limits sample_service_host = \<lparr>ql_max_records_per_space = 100, ql_max_spaces_per_user = 10\<rparr>"
  "vh_policies sample_service_host = []"
  by (simp_all add: sample_service_host_def)

lemma sample_quota:
  "sv_quota_cache s = [] \<Longrightarrow> \<exists>t. service_quota_limits sample_service_host tenant_id s =
    (Inr \<lparr>ql_max_records_per_space = 100, ql_max_spaces_per_user = 10\<rparr>, t) \<and> sv_runtime t = sv_runtime s \<and> sv_drawn t = sv_drawn s"
  by (simp add: service_quota_limits_def resolve_quota_limits_def cached_quota_limits_def hm_get_def
      resolve_quota_limits_uncached_def find_active_tenant_quota_policy_def newest_quota_policy_def Let_def)

lemma sample_journal_run:
  "memory_mutation_journal sample_service_host memory_id event_type audit_action payload s =
    (Inr \<lparr>mj_outbox_id = u64_text (of_nat (sv_drawn s mod 1000 + 100)), mj_aggregate_type = ''memory_record'',
       mj_aggregate_id = memory_id, mj_event_type = event_type, mj_event_version = ''1.0'', mj_payload_json = ''json'',
       mj_audit_id = u64_text (of_nat ((sv_drawn s + 1) mod 1000 + 100)), mj_audit_action = audit_action,
       mj_audit_resource_type = ''memory_record'', mj_audit_resource_id = memory_id, mj_audit_result = ''accepted''\<rparr>,
     s\<lparr>sv_drawn := sv_drawn s + 2\<rparr>)"
  by (simp add: memory_mutation_journal_def op_then_def next_id_def op_pure_def)

lemma sample_create_runs:
  "\<exists>memory s'. create_memory sample_service_host sample_core sample_context sample_memory_request sample_service = (Inr memory, s') \<and>
     cm_memory_id memory = 100 \<and> cm_sensitivity_level memory = ''internal'' \<and>
     unchanged_but (ScopedId 1 2 ''100'') sample_access_runtime (sv_runtime s')"
proof -
  let ?scope = "\<lparr>sc_tenant_id = 1, sc_space_id = 2, sc_organization_id = None, sc_user_id = Some 7\<rparr> :: scope_context"
  have gate: "require_write sample_service_host sample_core sample_context (mq_space_id sample_memory_request) sample_service =
      (Inr (), sample_service\<lparr>sv_ticks := sv_ticks sample_service + 1\<rparr>)"
    unfolding require_write_eq by (rule arg_cong[where f = "\<lambda>r. (r, _)"]) code_simp
  have scope: "service_scope sample_context (mq_space_id sample_memory_request) = Inr ?scope" by code_simp
  obtain t where quota: "service_quota_limits sample_service_host (rq_tenant_id sample_context)
      (sample_service\<lparr>sv_ticks := sv_ticks sample_service + 1\<rparr>) =
      (Inr \<lparr>ql_max_records_per_space = 100, ql_max_spaces_per_user = 10\<rparr>, t)"
    "sv_runtime t = sample_access_runtime" "sv_drawn t = 0"
    using sample_quota[of "sample_service\<lparr>sv_ticks := sv_ticks sample_service + 1\<rparr>"] by (auto simp: sample_service_def)
  have id: "next_id sample_service_host t = (Inr 100, t\<lparr>sv_drawn := 1\<rparr>)" by (simp add: next_id_def quota)
  have checks: "normalize_sensitivity_level (mq_sensitivity_level sample_memory_request) = Inr ''internal''"
    "check_request_text sample_service_host sample_memory_request = Inr ()"
    "normalize_expires_at sample_service_host (mq_expires_at sample_memory_request) = Inr None"
    "serialize_metadata sample_service_host (mq_metadata sample_memory_request) = Inr None" by code_simp+
  define j where "j = \<lparr>mj_outbox_id = u64_text 101, mj_aggregate_type = ''memory_record'', mj_aggregate_id = u64_text 100,
    mj_event_type = ''memory.record.created'', mj_event_version = ''1.0'', mj_payload_json = ''json'', mj_audit_id = u64_text 102,
    mj_audit_action = ''memory.record.create'', mj_audit_resource_type = ''memory_record'', mj_audit_resource_id = u64_text 100,
    mj_audit_result = ''accepted''\<rparr>"
  let ?u = "t\<lparr>sv_drawn := 3\<rparr>"
  let ?v = "?u\<lparr>sv_ticks := sv_ticks ?u + 1\<rparr>"
  have journal: "memory_mutation_journal sample_service_host (u64_text 100) ''memory.record.created''
      ''memory.record.create'' (create_payload sample_service_host (u64_text 100) sample_memory_request) (t\<lparr>sv_drawn := 1\<rparr>) = (Inr j, ?u)"
    by (simp add: sample_journal_run j_def)
  have valid: "validate_memory_journal (u64_text 100) j = None" unfolding j_def by code_simp
  let ?c = "create_command ?scope (u64_text 100) ''internal'' j None None sample_memory_request"
  let ?r = "created_canonical ?c ''now''"
  have free: "rm_poisoned sample_access_runtime = {}" "active_records ?scope sample_access_runtime = 0" by code_simp+
  obtain rt where call: "record_create_canonical_with_quota ?c 100 ''now'' sample_access_runtime = (Inr (Admitted ?r), rt)"
    using valid free by (auto simp: create_Admitted create_command_def)
  have "(100 :: u64) \<le> i64_max" by (simp add: i64_max_def)
  then obtain memory where memory: "map_canonical_record sample_service_host ?r = Inr memory" "cm_memory_id memory = 100"
    "cm_sensitivity_level memory = ''internal''"
    using created_maps[OF sample_service_host_ok scope, of 100 "''internal''" j None None sample_memory_request "''now''"] by blast
  have "unchanged_but (ScopedId 1 2 ''100'') sample_access_runtime rt"
  proof -
    have "scoped_id_new ?scope (u64_text 100) = ScopedId 1 2 ''100''" by code_simp
    moreover have "cc_scope ?c = ?scope" "cc_memory_id ?c = u64_text 100" by (simp_all add: create_command_def)
    ultimately show ?thesis
      using call unfolding create_Admitted by (simp add: unchanged_but_def put_audit_def put_outbox_def put_record_def)
  qed
  moreover have stored: "on_runtime (plane_create_canonical_memory_atomic_with_quota sample_core ?c
      (unat (ql_max_records_per_space \<lparr>ql_max_records_per_space = 100, ql_max_spaces_per_user = 10\<rparr>)) ''now'') ?v =
      (Inr (Admitted ?r), ?v\<lparr>sv_runtime := rt\<rparr>)"
    using call by (simp add: on_runtime_eq plane_create_canonical_memory_atomic_with_quota_def dispatch_Inr quota sample_core_def)
  have clock: "read_clock sample_service_host ?u = (Inr ''now'', ?v)" by (simp add: read_clock_def)
  have "create_memory sample_service_host sample_core sample_context sample_memory_request sample_service = (Inr memory, ?v\<lparr>sv_runtime := rt\<rparr>)"
    unfolding create_memory_def op_then_run[where f = "require_write _ _ _ _", OF gate] scope op_then_pure
      op_then_run[where f = "service_quota_limits _ _", OF quota(1)] op_then_run[where f = "next_id _", OF id] checks
      op_then_run[where f = "memory_mutation_journal _ _ _ _ _", OF journal] op_then_run[where f = "read_clock _", OF clock]
      op_then_run[where f = "on_runtime _", OF stored]
    by (simp add: memory(1) resolve_space_record_quota_admission_def op_pure_def)
  ultimately show ?thesis using memory by auto
qed

theorem service_create_exact_witness:
  "\<exists>memory s'. create_memory sample_service_host sample_core sample_context sample_memory_request sample_service = (Inr memory, s') \<and>
     cm_memory_id memory = 100 \<and> cm_canonical_text memory = ''likes tea'' \<and>
     fst (retrieve_memory sample_service_host sample_core sample_context 100 2 s') = Inr memory"
proof -
  obtain memory s' where run: "create_memory sample_service_host sample_core sample_context sample_memory_request sample_service = (Inr memory, s')"
    "cm_memory_id memory = 100" "cm_sensitivity_level memory = ''internal''"
    "unchanged_but (ScopedId 1 2 ''100'') sample_access_runtime (sv_runtime s')"
    using sample_create_runs by blast
  have "retrieval_answer sample_service_host sample_core sample_context 2 s' = retrieval_answer sample_service_host sample_core sample_context 2 sample_service"
    using run(4) by (intro answers_later(2)[where now = "''now''" and key = "ScopedId 1 2 ''100''"]) (simp_all add: sample_service_def)
  also have "\<dots> = Inr \<lparr>sz_space_id = 2, sz_actor_is_space_owner = True\<rparr>" by code_simp
  finally have reader: "retrieval_answer sample_service_host sample_core sample_context 2 s' = Inr \<lparr>sz_space_id = 2, sz_actor_is_space_owner = True\<rparr>" .
  have admitted: "assert_actor_may_read_record_sensitivity_for_owner sample_context ''internal'' True = Inr ()" by code_simp
  have request: "mq_space_id sample_memory_request = 2" "mq_canonical_text sample_memory_request = ''likes tea''"
    by (simp_all add: sample_memory_request_def)
  show ?thesis
    using service_create_exact[OF sample_service_host_ok run(1)] run reader admitted request by auto
qed







end
