(* ===== verification/Spec2Isabelle.thy ===== *)
theory Spec2Isabelle
  imports Runtime_Properties Filter_Properties Plugin_Properties Access_Properties
    Pushdown_Properties Queue_Properties Job_Properties Retrieval_Properties Entity_Properties
    Additive_Properties Vector_Runtime Edge_Properties Provider_Properties Service_Properties
begin

text \<open>
  A verification development for sdkwork-memory, the Rust service that keeps records,
  candidates, habits and retrieval traces of AI memory behind a plug-in interface (the SPI).

  \<^bold>\<open>What is modelled.\<close> The service talks to storage through the ports of
  \<^verbatim>\<open>crates/sdkwork-memory-spi\<close>. This development models the data of those ports, the metadata
  filter language of the SPI, the reference runtime
  (\<^verbatim>\<open>plugins/sdkwork-memory-plugin-reference-profiles/src/reference_runtime.rs\<close>), the complete
  in-memory implementation of every port that the other stores are measured against, and the
  way from a plug-in to a request: manifest, registry, profile, core runtime, data plane, and
  the authorization of a request on stored governance facts. Of the native SQL plug-in
  (\<^verbatim>\<open>plugins/sdkwork-memory-plugin-native-sql\<close>) it models the compilation of a metadata filter to
  SQL, the rewriting of placeholders, and the leased queues: outbox, learning jobs and
  evaluation runs, with the publisher that works on the outbox. Of the retrieval crate
  (\<^verbatim>\<open>crates/sdkwork-memory-retrieval\<close>) it models the recall signals, their fusion, keyword and
  additive scoring and the context pack: pure functions that every search goes through. The
  search-first plug-in (\<^verbatim>\<open>plugins/sdkwork-memory-plugin-search-first-vector\<close>) is modelled whole: the bounded
  vector index, memory extraction through a language model, write planning and its runtime. At the
  edge of the service it models the environment policies, outbound endpoints, list cursors and the
  client of an OpenAI-compatible provider; of the service itself, records, candidates and spaces with
  their authorization, quotas, checks and journals.

  \<^item> \<^verbatim>\<open>Prelude\<close>: machine integers, results, text; the \<^verbatim>\<open>named_theorems\<close> collections.
  \<^item> \<^verbatim>\<open>Stores\<close>: \<^verbatim>\<open>HashMap\<close>, \<^verbatim>\<open>BTreeMap\<close>, \<^verbatim>\<open>BTreeSet\<close> and the contract (locale \<^verbatim>\<open>kv_store\<close>) both
    maps meet; counting over a map; sorting and truncating a scan (\<^verbatim>\<open>top_by\<close>).
  \<^item> \<^verbatim>\<open>F64\<close>: IEEE double arithmetic as far as the code uses it (comparison, subtraction,
    \<^verbatim>\<open>max\<close>, parsing of decimal text), rounding to nearest even.
  \<^item> \<^verbatim>\<open>Spi_Types\<close>: the structs of \<^verbatim>\<open>ports.rs\<close>, field by field, and \<^verbatim>\<open>MemorySpiError\<close>.
  \<^item> \<^verbatim>\<open>Reference_State\<close>: \<^verbatim>\<open>ReferenceMemoryRuntime\<close> as a record with one field per mutex
    content and the set of poisoned mutexes; the scoped keys and their derived order; journals.
  \<^item> \<^verbatim>\<open>Reference_Records\<close>, \<^verbatim>\<open>Reference_Journals\<close>, \<^verbatim>\<open>Reference_Candidates\<close>, \<^verbatim>\<open>Reference_Learning\<close>,
    \<^verbatim>\<open>Reference_Governance\<close>, \<^verbatim>\<open>Reference_Retrieval\<close>: one definition per method of
    \<^verbatim>\<open>MemoryRecordStorePort\<close>, the event, audit and outbox ports, \<^verbatim>\<open>MemoryCandidateStorePort\<close>,
    the habit and trace ports, the governance and space ports, and the retriever, context,
    index, evaluation and external bridge ports, with the lemmas of each.
  \<^item> \<^verbatim>\<open>Candidate_Invariant\<close>, \<^verbatim>\<open>Candidate_Listing\<close>: the candidate indexes
    and their invariant; the scan loops of the listing (locale \<^verbatim>\<open>ordered_scan\<close>, interpreted on
    the tenant and on the space index) and the walk over all pages; promotion.
  \<^item> \<^verbatim>\<open>Runtime_Writes\<close>, \<^verbatim>\<open>Reference_Machine\<close>: every operation as a sequence of
    writes within one tenant (the inductive relation \<^verbatim>\<open>writes\<close>); the state machine of all
    commands with threads that may panic, its reachable states, and metered runs.
  \<^item> \<^verbatim>\<open>Metadata_Filter\<close>, \<^verbatim>\<open>Filter_Laws\<close>: \<^verbatim>\<open>filter.rs\<close>, its conditions, three-valued evaluation and
    parser with the condition budget; Kleene laws; the grammar the parser accepts (the
    inductive relations \<^verbatim>\<open>parsed_object\<close> and \<^verbatim>\<open>parsed_groups\<close>) and the meaning of a wire filter.
  \<^item> \<^verbatim>\<open>Plugin_Manifest\<close>, \<^verbatim>\<open>Plugin_Runtime\<close>, \<^verbatim>\<open>Profile_Resolver\<close>, \<^verbatim>\<open>Profile_Laws\<close>: manifests and their
    validation; the 18 ports, the core runtime and the registry with the invariant of both
    (the inductive set \<^verbatim>\<open>registered\<close> of all registries); resolution and assembly of a profile.
  \<^item> \<^verbatim>\<open>Service_Types\<close>, \<^verbatim>\<open>Data_Plane\<close>: service errors, the request context and the environment
    policies of \<^verbatim>\<open>runtime_env.rs\<close> and \<^verbatim>\<open>platform.rs\<close>; the data plane's
    start-up gate and its 42 forwarders (\<^verbatim>\<open>dispatch\<close>) over the reference runtime.
  \<^item> \<^verbatim>\<open>Space_Access\<close>, \<^verbatim>\<open>Access_Laws\<close>: \<^verbatim>\<open>access.rs\<close>; the decision as a condition on facts, and the
    contract of a governance provider (locales \<^verbatim>\<open>governance_provider\<close> and
    \<^verbatim>\<open>monotone_governance_provider\<close>), which the data plane over the reference runtime meets.
  \<^item> \<^verbatim>\<open>Filter_Pushdown\<close>, \<^verbatim>\<open>Pushdown_Laws\<close>: \<^verbatim>\<open>filter_pushdown.rs\<close>, the SQL text and binds of a filter for
    PostgreSQL and SQLite; the syntax tree behind the text (\<^verbatim>\<open>sql\<close>), the three-valued meaning of a
    tree and the documented behaviour of the two databases (\<^verbatim>\<open>engine_documented\<close>).
  \<^item> \<^verbatim>\<open>Sql_Placeholders\<close>: \<^verbatim>\<open>sqlx_compat.rs\<close>, the lexer that numbers the markers, and its cache.
  \<^item> \<^verbatim>\<open>Sql_Tables\<close>, \<^verbatim>\<open>Lease_Tables\<close>: a table as a list of rows, an \<^verbatim>\<open>UPDATE\<close> as a map over
    the rows it selects; leases and the sweep of expired ones in batches (locale \<^verbatim>\<open>lease_sweep\<close>);
    rows with a life cycle (locales \<^verbatim>\<open>row_life\<close> and \<^verbatim>\<open>row_machine\<close>).
  \<^item> \<^verbatim>\<open>Outbox_Queue\<close>, \<^verbatim>\<open>Outbox_Laws\<close>: the outbox of \<^verbatim>\<open>store.rs\<close>; the steps of a row
    (the inductive relation \<^verbatim>\<open>row_step\<close>) and of the table (\<^verbatim>\<open>outbox_step\<close>), the invariant
    \<^verbatim>\<open>outbox_ok\<close>, the exact effect of each operation.
  \<^item> \<^verbatim>\<open>Learning_Jobs\<close>, \<^verbatim>\<open>Job_Laws\<close>: \<^verbatim>\<open>learning_jobs.rs\<close>; the machine of job rows and tables, and the
    lease a claim leaves in each dialect.
  \<^item> \<^verbatim>\<open>Outbox_Publisher\<close>: \<^verbatim>\<open>outbox_publisher.rs\<close>, its configuration, cycles, heartbeats, and the work
    a table still needs (\<^verbatim>\<open>table_work\<close>), which every timely cycle lowers.
  \<^item> \<^verbatim>\<open>F64_Ops\<close>, \<^verbatim>\<open>Ranking\<close>: the arithmetic of scores, with single precision; \<^verbatim>\<open>sort_by\<close> with the comparators of the code and
    what a comparator owes (locale \<^verbatim>\<open>ranking\<close>, interpreted on one and on two scores).
  \<^item> \<^verbatim>\<open>Contract_Types\<close>, \<^verbatim>\<open>Retrieval_Text\<close>: the records of \<^verbatim>\<open>dto.rs\<close> that retrieval reads; characters of
    UTF-8 text, CJK bigrams (\<^verbatim>\<open>text.rs\<close>) and the query tokenizer.
  \<^item> \<^verbatim>\<open>Retrieval_Signals\<close>, \<^verbatim>\<open>Retrieval_Fusion\<close>, \<^verbatim>\<open>Fusion_Laws\<close>: \<^verbatim>\<open>retrieval/mod.rs\<close>, the seven recall signals
    and reciprocal rank fusion; what an aggregate holds, and what does not change it.
  \<^item> \<^verbatim>\<open>Keyword_Scores\<close>, \<^verbatim>\<open>Additive_Scoring\<close>, \<^verbatim>\<open>Scoring_Laws\<close>: \<^verbatim>\<open>lemmatization.rs\<close>, the
    BM25 index of \<^verbatim>\<open>bm25.rs\<close> and \<^verbatim>\<open>scoring.rs\<close>; Okapi BM25 as a reference on lists of terms; bounds.
  \<^item> \<^verbatim>\<open>Context_Pack\<close>, \<^verbatim>\<open>Pack_Laws\<close>: \<^verbatim>\<open>context_pack.rs\<close> and the invariant of the loop over the hits.
  \<^item> \<^verbatim>\<open>Entity_Extraction\<close>, \<^verbatim>\<open>Entity_Laws\<close>: \<^verbatim>\<open>entities.rs\<close>, its word lists, the four
    collectors, resolution and boosts; deduplication against the list of normalized texts, the two
    orders as instances of \<^verbatim>\<open>ranking\<close>, and why a topic never overlaps a proper name.
  \<^item> \<^verbatim>\<open>Vector_Errors\<close>, \<^verbatim>\<open>Vector_Index\<close>, \<^verbatim>\<open>Vector_Laws\<close>: \<^verbatim>\<open>error.rs\<close> and \<^verbatim>\<open>config.rs\<close>,
    \<^verbatim>\<open>vector_index.rs\<close> with its buckets, eviction and ranking; the invariant of the reachable indexes (the
    inductive predicate \<^verbatim>\<open>index_reachable\<close>) and the cases of a write.
  \<^item> \<^verbatim>\<open>Prompt_Texts\<close>, \<^verbatim>\<open>Memory_Extraction\<close>, \<^verbatim>\<open>Additive_Planning\<close>, \<^verbatim>\<open>Vector_Runtime\<close>, \<^verbatim>\<open>Plugin_Laws\<close>:
    \<^verbatim>\<open>extraction.rs\<close> and \<^verbatim>\<open>procedural.rs\<close> with their prompts, \<^verbatim>\<open>additive.rs\<close>, \<^verbatim>\<open>runtime.rs\<close> and
    \<^verbatim>\<open>manifest.rs\<close>; the loops of planning and reranking as functions on the whole list (\<^verbatim>\<open>retain_by\<close>).
  \<^item> \<^verbatim>\<open>Outbound_Endpoint\<close>, \<^verbatim>\<open>Signed_Cursors\<close>: \<^verbatim>\<open>endpoint_validation.rs\<close>, whose octet tests are shown equal
    to the list of special-use blocks; the signed tokens of list cursors.
  \<^item> \<^verbatim>\<open>Provider_Client\<close>: \<^verbatim>\<open>crates/sdkwork-memory-provider-openai\<close>, configuration, retries,
    capped bodies, batches and their split; the split as longest prefixes and full requests.
  \<^item> \<^verbatim>\<open>Tenant_Quota\<close>, \<^verbatim>\<open>Request_Checks\<close>, \<^verbatim>\<open>Memory_Service\<close>: \<^verbatim>\<open>tenant_quota.rs\<close> with its cache (the
    inductive predicate \<^verbatim>\<open>quota_cache_reachable\<close>), \<^verbatim>\<open>sensitive_content.rs\<close> and \<^verbatim>\<open>retrieval_profile.rs\<close>; the
    operations of \<^verbatim>\<open>open_api.rs\<close>, \<^verbatim>\<open>app_backend_api.rs\<close>, \<^verbatim>\<open>candidate_promotion.rs\<close> and \<^verbatim>\<open>mem0_compat.rs\<close>
    that work through the data plane, over the runtime, a counter of identifiers and a clock.
  \<^item> \<^verbatim>\<open>Service_Laws\<close>, \<^verbatim>\<open>Batch_Laws\<close>: sequences of steps that leave the runtime alone (\<^verbatim>\<open>quiet\<close>,
    \<^verbatim>\<open>fails_quietly\<close>), the service as governance provider; passes over the slots of a batch, what a step
    reads and writes (\<^verbatim>\<open>draws_only\<close>, \<^verbatim>\<open>draws_nothing\<close>), what an update leaves (\<^verbatim>\<open>unchanged_but\<close>).
  \<^item> \<^verbatim>\<open>Runtime_Properties\<close>: C1, C2, C3, C5, C13, C17. \<^verbatim>\<open>Service_Properties\<close>: C4, C15, C19. \<^verbatim>\<open>Filter_Properties\<close>: C21.
    \<^verbatim>\<open>Vector_Properties\<close>: C6, C7, C11, C12. \<^verbatim>\<open>Additive_Properties\<close>: C23, C31.
    \<^verbatim>\<open>Plugin_Properties\<close>: C26, C27. \<^verbatim>\<open>Edge_Properties\<close>: C25, C28.
    \<^verbatim>\<open>Provider_Properties\<close>: C9. \<^verbatim>\<open>Access_Properties\<close>: C32, C33.
    \<^verbatim>\<open>Pushdown_Properties\<close>: C37, C38. \<^verbatim>\<open>Queue_Properties\<close>: C14, C18, C20, C39, C40.
    \<^verbatim>\<open>Job_Properties\<close>: C24, C29, C34. \<^verbatim>\<open>Retrieval_Properties\<close>: C10, C22, C30, C35, C36.
    \<^verbatim>\<open>Entity_Properties\<close>: C8, C16. Each
    property with a hypothesis has a concrete run.

  \<^bold>\<open>State and effects.\<close> A method of the runtime is a function from the state to a result and
  a state; a result is \<^verbatim>\<open>Inl\<close> an SPI error or \<^verbatim>\<open>Inr\<close> a value. Taking a mutex is
  \<^verbatim>\<open>with_lock\<close>, which fails when the mutex is poisoned, and the writes a method made before a
  lock that fails stay, as they do in the code. Each method holds its locks over its whole
  body or reads once, so methods are modelled as atomic steps; the one method that releases
  its lock between steps is the bulk delete, which is modelled as run without interference.
  \<^verbatim>\<open>now_text()\<close> is an argument, one for each time the clock is read.

  A statement of the SQL store is one atomic step on the table. A value the database chooses
  (the order of ties, whether a statement fails, what the clock reads) is an argument. The
  publisher delivers the events of a cycle concurrently; each delivery touches its own row
  only, and the model runs them one after another, with the answers of the endpoint, the
  heartbeats that fire and the failures of the store as input (record \<^verbatim>\<open>delivery\<close>). The sweep
  statements carry 500 placeholders and bind the ids they found; the rest are \<^verbatim>\<open>NULL\<close>, as
  SQLite reads them.

  \<^bold>\<open>Integers and text.\<close> \<^verbatim>\<open>i64\<close> is a 64-bit word and wraps; \<^verbatim>\<open>u64\<close> counts of records are natural
  numbers, since a store cannot hold \<^verbatim>\<open>2^64\<close> entries; text is the list of its UTF-8 bytes, compared
  lexicographically by code as \<^verbatim>\<open>str\<close> is. Lower-casing is Unicode's in the code and a parameter here
  (\<^verbatim>\<open>lower\<close>, \<^verbatim>\<open>to_lowercase\<close>), as are \<^verbatim>\<open>serde_json::from_str\<close> (\<^verbatim>\<open>from_str\<close>) and the rendering
  and reading of JSON numbers (record \<^verbatim>\<open>json_host\<close>). Scores are IEEE doubles, computed exactly and
  rounded to nearest even; the platform's \<^verbatim>\<open>exp\<close>, \<^verbatim>\<open>ln\<close>, \<^verbatim>\<open>sqrt\<close> and powers of two are parameters,
  as are Unicode's table of alphanumeric characters and the age of a time stamp (record
  \<^verbatim>\<open>text_host\<close>) and the character classes entity extraction asks for (record \<^verbatim>\<open>char_tables\<close>). Of the search-first
  plug-in, SHA-256, the square root, \<^verbatim>\<open>Debug\<close> text (record \<^verbatim>\<open>plugin_host\<close>), the syntax of JSON (record
  \<^verbatim>\<open>extraction_host\<close>) and the injected providers are parameters. At the edge
  of the service, URL parsing and name resolution (record \<^verbatim>\<open>endpoint_host\<close>), HMAC and base64 (record
  \<^verbatim>\<open>cursor_host\<close>) and the answers of the HTTP client (record \<^verbatim>\<open>provider_host\<close>) are parameters; of the service, the
  identifiers it draws, its clock, JSON and time syntax, regular expressions and the rows of policies
  (record \<^verbatim>\<open>service_host\<close>); an \<^verbatim>\<open>f32\<close> is the \<^verbatim>\<open>f64\<close> of its value. The \<^verbatim>\<open>i32\<close> counters of the context pack wrap (\<^verbatim>\<open>i32_wrap\<close>); C22 is stated for texts
  of fewer than \<^verbatim>\<open>2^31 - 8\<close> characters, where they do not.

  \<^bold>\<open>Bounds.\<close> No definition needs fuel: the scans are structural, the filter parser recurses
  on the JSON tree, and \<^verbatim>\<open>walk_pages\<close> takes one unit of fuel per page and C13 shows that more units than candidates
  are enough. The filter's budget of 256 conditions, the 1024 values of a set, the 200
  retrieval candidates and the governance fact limit are the constants of the code. The sweep of
  expired leases is a \<^verbatim>\<open>partial_function\<close>, since nothing in its shape says that it ends; C20 proves
  that it does. \<^verbatim>\<open>publisher_run\<close> runs a given list of cycles; C40 bounds how many are needed.

  \<^bold>\<open>What is not modelled.\<close> The statements of the SQL store on records, spaces, candidates and
  traces, HTTP routes, the retrieval pipeline, learning, graph and administration endpoints of the
  service, the job worker, drive export and front ends: they are statements run by a database, or input
  and output.
\<close>

end
